(* ===== verification/Prelude.thy ===== *)
theory Prelude
  imports Main "HOL-Library.Word" "HOL-Library.Multiset"
begin

text \<open>
  The vocabulary every component of the wallet SDK model shares: Go's fixed-width unsigned
  integers as words, byte slices as lists of 8-bit words, fallible results as sums
  (\<open>Inl\<close> for the error the Go function returns, \<open>Inr\<close> for its value), and the
  sequencing operator \<open>andThen\<close> for Go's \<open>if err != nil { return err }\<close>.
  The collections \<open>result_simps\<close> and \<open>byte_simps\<close> carry the component proofs.
\<close>

unbundle bit_operations_syntax

type_synonym u8 = "8 word"
type_synonym u16 = "16 word"
type_synonym u32 = "32 word"
type_synonym u64 = "64 word"
type_synonym bytes = "8 word list"

named_theorems result_simps "how the error-passing combinators compute"
named_theorems byte_simps "lengths and shapes of encoded byte strings"

section \<open>Results\<close>

definition andThen :: "'e + 'a \<Rightarrow> ('a \<Rightarrow> 'e + 'b) \<Rightarrow> 'e + 'b" where
  "andThen r f = (case r of Inl e \<Rightarrow> Inl e | Inr x \<Rightarrow> f x)"

definition mapErr :: "('e \<Rightarrow> 'f) \<Rightarrow> 'e + 'a \<Rightarrow> 'f + 'a" where
  "mapErr w r = (case r of Inl e \<Rightarrow> Inl (w e) | Inr x \<Rightarrow> Inr x)"

definition orErr :: "'e \<Rightarrow> 'a option \<Rightarrow> 'e + 'a" where
  "orErr e r = (case r of None \<Rightarrow> Inl e | Some x \<Rightarrow> Inr x)"

definition require :: "bool \<Rightarrow> 'e \<Rightarrow> 'e + unit" where
  "require b e = (if b then Inr () else Inl e)"

definition isOk :: "'e + 'a \<Rightarrow> bool" where
  "isOk r \<longleftrightarrow> (case r of Inl _ \<Rightarrow> False | Inr _ \<Rightarrow> True)"

text \<open>A loop over a list that stops at the first error.\<close>

fun foldM :: "('s \<Rightarrow> 'a \<Rightarrow> 'e + 's) \<Rightarrow> 's \<Rightarrow> 'a list \<Rightarrow> 'e + 's" where
  "foldM f s [] = Inr s"
| "foldM f s (x # xs) = andThen (f s x) (\<lambda>s. foldM f s xs)"

lemma andThen_Inl [simp, result_simps]: "andThen (Inl e) f = Inl e"
  by (simp add: andThen_def)

lemma andThen_Inr [simp, result_simps]: "andThen (Inr x) f = f x"
  by (simp add: andThen_def)

lemma andThen_eq_Inr [result_simps]:
  "andThen r f = Inr y \<longleftrightarrow> (\<exists>x. r = Inr x \<and> f x = Inr y)"
  by (cases r) (auto simp: andThen_def)

lemma andThen_eq_Inl [result_simps]:
  "andThen r f = Inl e \<longleftrightarrow> r = Inl e \<or> (\<exists>x. r = Inr x \<and> f x = Inl e)"
  by (cases r) (auto simp: andThen_def)

lemma mapErr_Inl [simp, result_simps]: "mapErr w (Inl e) = Inl (w e)"
  by (simp add: mapErr_def)

lemma mapErr_Inr [simp, result_simps]: "mapErr w (Inr x) = Inr x"
  by (simp add: mapErr_def)

lemma mapErr_eq_Inr [simp]: "mapErr w r = Inr y \<longleftrightarrow> r = Inr y"
  by (cases r) (auto simp: mapErr_def)

lemma orErr_None [simp]: "orErr e None = Inl e"
  by (simp add: orErr_def)

lemma orErr_Some [simp]: "orErr e (Some x) = Inr x"
  by (simp add: orErr_def)

lemma orErr_eq_Inr [simp]: "orErr e r = Inr y \<longleftrightarrow> r = Some y"
  by (cases r) (auto simp: orErr_def)

lemma orErr_eq_Inl [simp]: "orErr e r = Inl e' \<longleftrightarrow> r = None \<and> e' = e"
  by (cases r) (auto simp: orErr_def)

lemma require_True [simp]: "require True e = Inr ()"
  by (simp add: require_def)

lemma require_False [simp]: "require False e = Inl e"
  by (simp add: require_def)

lemma require_eq_Inr [simp]: "require b e = Inr u \<longleftrightarrow> b"
  by (simp add: require_def)

lemma require_eq_Inl [simp]: "require b e = Inl e' \<longleftrightarrow> \<not> b \<and> e' = e"
  by (auto simp: require_def)

lemma isOk_simps [simp]: "isOk (Inr x)" "\<not> isOk (Inl e)"
  by (simp_all add: isOk_def)

lemma andThen_assoc: "andThen (andThen r f) g = andThen r (\<lambda>x. andThen (f x) g)"
  by (cases r) simp_all

lemma andThen_cong:
  "r = r' \<Longrightarrow> (\<And>x. r' = Inr x \<Longrightarrow> f x = g x) \<Longrightarrow> andThen r f = andThen r' g"
  by (cases r') simp_all

lemma foldM_append: "foldM f s (xs @ ys) = andThen (foldM f s xs) (\<lambda>s. foldM f s ys)"
  by (induction xs arbitrary: s) (simp_all add: andThen_assoc)

lemma foldM_invariant:
  "foldM f s xs = Inr s' \<Longrightarrow> P s \<Longrightarrow> (\<And>s x s'. x \<in> set xs \<Longrightarrow> P s \<Longrightarrow> f s x = Inr s' \<Longrightarrow> P s') \<Longrightarrow> P s'"
proof (induction xs arbitrary: s)
  case (Cons x xs)
  then obtain t where t: "f s x = Inr t" "foldM f t xs = Inr s'" by (auto simp: andThen_eq_Inr)
  with Cons.prems have "P t" by auto
  with t Cons.IH Cons.prems(3) show ?case by (meson list.set_intros(2))
qed simp

lemma isOk_iff: "isOk r \<longleftrightarrow> (\<exists>x. r = Inr x)"
  by (cases r) auto

section \<open>Byte strings as numbers\<close>

text \<open>
  Big-endian value of a byte string: what \<open>big.Int.SetBytes\<close> and \<open>binary.BigEndian\<close>
  read; and the little-endian value the BCS, SCALE and protobuf encoders write.
\<close>

definition be_val :: "bytes \<Rightarrow> nat" where
  "be_val bs = foldl (\<lambda>acc b. acc * 256 + unat b) 0 bs"

fun le_val :: "bytes \<Rightarrow> nat" where
  "le_val [] = 0"
| "le_val (b # bs) = unat b + 256 * le_val bs"

text \<open>The \<open>k\<close> low bytes of \<open>n\<close>, least significant first and most significant first.\<close>

fun le_bytes :: "nat \<Rightarrow> nat \<Rightarrow> bytes" where
  "le_bytes 0 n = []"
| "le_bytes (Suc k) n = word_of_nat n # le_bytes k (n div 256)"

definition be_bytes :: "nat \<Rightarrow> nat \<Rightarrow> bytes" where
  "be_bytes k n = rev (le_bytes k n)"

lemma length_le_bytes [simp, byte_simps]: "length (le_bytes k n) = k"
  by (induction k arbitrary: n) auto

lemma length_be_bytes [simp, byte_simps]: "length (be_bytes k n) = k"
  by (simp add: be_bytes_def)

lemma be_val_foldl: "foldl (\<lambda>acc b. acc * 256 + unat b) a bs = a * 256 ^ length bs + be_val bs"
proof (induction bs arbitrary: a)
  case Nil
  then show ?case by (simp add: be_val_def)
next
  case (Cons b bs)
  have "be_val (b # bs) = unat b * 256 ^ length bs + be_val bs"
    using Cons.IH [of "unat b"] by (simp add: be_val_def)
  then show ?case
    using Cons.IH [of "a * 256 + unat b"] by (simp add: algebra_simps)
qed

lemma be_val_Nil [simp]: "be_val [] = 0"
  by (simp add: be_val_def)

lemma be_val_Cons [simp]: "be_val (b # bs) = unat b * 256 ^ length bs + be_val bs"
  using be_val_foldl [of "unat b" bs] by (simp add: be_val_def)

lemma be_val_append: "be_val (xs @ ys) = be_val xs * 256 ^ length ys + be_val ys"
  by (induction xs) (auto simp: algebra_simps power_add)

lemma be_val_rev: "be_val (rev bs) = le_val bs"
  by (induction bs) (auto simp: be_val_append)

lemma le_val_rev: "le_val (rev bs) = be_val bs"
  using be_val_rev [of "rev bs"] by simp

lemma unat_lt_256 [simp]: "unat (b :: u8) < 256"
  using unsigned_less [of b, where 'a = nat] by simp

lemma le_val_bound: "le_val bs < 256 ^ length bs"
proof (induction bs)
  case Nil
  then show ?case by simp
next
  case (Cons b bs)
  have "unat b < 256" by simp
  moreover have "le_val bs + 1 \<le> 256 ^ length bs" using Cons by simp
  then have "256 * (le_val bs + 1) \<le> 256 * 256 ^ length bs" by (rule mult_le_mono2)
  ultimately show ?case by (simp, linarith)
qed

lemma be_val_bound: "be_val bs < 256 ^ length bs"
  using le_val_bound [of "rev bs"] by (simp add: le_val_rev)

lemma unat_word_of_nat_u8: "unat (word_of_nat n :: u8) = n mod 256"
  by (simp add: unat_of_nat)

lemma le_val_le_bytes: "le_val (le_bytes k n) = n mod 256 ^ k"
proof (induction k arbitrary: n)
  case 0
  then show ?case by simp
next
  case (Suc k)
  then show ?case by (simp add: unat_word_of_nat_u8 mod_mult2_eq)
qed

lemma be_val_be_bytes: "be_val (be_bytes k n) = n mod 256 ^ k"
  by (simp add: be_bytes_def be_val_rev le_val_le_bytes)

lemma le_bytes_le_val: "le_bytes (length bs) (le_val bs) = bs"
proof (induction bs)
  case Nil
  then show ?case by simp
next
  case (Cons b bs)
  have "(unat b + 256 * le_val bs) div 256 = le_val bs"
    using unat_lt_256 [of b] by simp
  moreover have "(word_of_nat (unat b + 256 * le_val bs) :: u8) = b"
    by (rule word_unat_eq_iff [THEN iffD2]) (simp only: unat_word_of_nat_u8, simp)
  ultimately show ?case using Cons by simp
qed

lemma be_bytes_be_val: "be_bytes (length bs) (be_val bs) = bs"
  using le_bytes_le_val [of "rev bs"] by (simp add: be_bytes_def le_val_rev)

lemma le_bytes_mod: "le_bytes k (n mod 256 ^ k) = le_bytes k n"
proof -
  have "le_bytes k (le_val (le_bytes k n)) = le_bytes k n"
    using le_bytes_le_val [of "le_bytes k n"] by simp
  then show ?thesis by (simp add: le_val_le_bytes)
qed

lemma le_bytes_inject:
  "m < 256 ^ k \<Longrightarrow> n < 256 ^ k \<Longrightarrow> le_bytes k m = le_bytes k n \<longleftrightarrow> m = n"
  by (metis le_val_le_bytes mod_less)

lemma be_val_replicate_0: "be_val (replicate n 0 @ bs) = be_val bs"
  by (induction n) simp_all

lemma be_val_inject: "length xs = length ys \<Longrightarrow> be_val xs = be_val ys \<Longrightarrow> xs = ys"
  by (metis be_bytes_be_val)

section \<open>Bits of numbers\<close>

lemma or_shift_nat: "(m :: nat) < 2 ^ k \<Longrightarrow> n * 2 ^ k OR m = n * 2 ^ k + m"
proof (induction k arbitrary: m)
  case (Suc k)
  then have "n * 2 ^ k OR m div 2 = n * 2 ^ k + m div 2" by simp
  moreover have "n * 2 ^ Suc k div 2 = n * 2 ^ k" by simp
  ultimately show ?case by (subst or_nat_rec) simp
qed simp

lemma and_low_nat: "(n :: nat) AND (2 ^ k - 1) = n mod 2 ^ k"
  by (simp only: take_bit_eq_mask [symmetric] mask_eq_exp_minus_1 [symmetric] take_bit_eq_mod)

lemma bit_word_nat: "bit (w :: 'a::len word) i \<longleftrightarrow> odd (unat w div 2 ^ i)"
  by (simp add: bit_unsigned_iff flip: bit_iff_odd)

lemma odd_half: "odd (q :: nat) \<Longrightarrow> Suc (q div 2 * 2) = q"
  by presburger

section \<open>Lists\<close>

lemma map_nth_upt_length: "map (\<lambda>i. xs ! i) [0..<length xs] = xs"
  by (rule map_nth)

lemma list_all2_nthI:
  "length xs = length ys \<Longrightarrow> (\<And>i. i < length xs \<Longrightarrow> P (xs ! i) (ys ! i)) \<Longrightarrow> list_all2 P xs ys"
  by (simp add: list_all2_conv_all_nth)

lemma take_append_exact [simp]: "take (length xs) (xs @ ys) = xs"
  by simp

lemma drop_append_exact [simp]: "drop (length xs) (xs @ ys) = ys"
  by simp

end
