(* ===== verification/Interpolation.thy ===== *)
theory Interpolation
  imports Prelude
begin

text \<open>
  Lagrange interpolation over an arbitrary field, the mathematics Shamir's scheme
  (\<open>crypto/internal/shamir\<close>) rests on: a polynomial with at most as many coefficients as
  there are sample points is recovered exactly from its values there, and it is determined
  by them. Nothing here is specific to the code; the field of the code is in \<open>Gf256\<close>.
\<close>

section \<open>Polynomials as coefficient lists\<close>

fun polyval :: "'a::field list \<Rightarrow> 'a \<Rightarrow> 'a" where
  "polyval [] x = 0"
| "polyval (c # cs) x = c + x * polyval cs x"

text \<open>Synthetic division by \<open>z - c\<close>: the quotient has one coefficient less.\<close>

fun quot :: "'a::field \<Rightarrow> 'a list \<Rightarrow> 'a list" where
  "quot c [] = []"
| "quot c (a # as) = (if as = [] then [] else polyval as c # quot c as)"

lemma length_quot: "length (quot c cs) = length cs - 1"
  by (induction cs) (auto simp: Suc_diff_Suc neq_Nil_conv)

lemma polyval_quot: "polyval cs z = polyval cs c + (z - c) * polyval (quot c cs) z"
proof (induction cs)
  case Nil
  then show ?case by simp
next
  case (Cons a as)
  show ?case
  proof (cases "as = []")
    case True
    then show ?thesis by simp
  next
    case False
    have "polyval (a # as) z = a + z * (polyval as c + (z - c) * polyval (quot c as) z)"
      using Cons by simp
    also have "\<dots> = (a + c * polyval as c) + (z - c) * (polyval as c + z * polyval (quot c as) z)"
      by (simp add: algebra_simps)
    finally show ?thesis using False by simp
  qed
qed

lemma quot_zero:
  "set (quot c cs) \<subseteq> {0} \<Longrightarrow> polyval cs c = 0 \<Longrightarrow> set cs \<subseteq> {0}"
proof (induction cs)
  case Nil
  then show ?case by simp
next
  case (Cons a as)
  show ?case
  proof (cases "as = []")
    case True
    with Cons.prems show ?thesis by simp
  next
    case False
    with Cons.prems have "polyval as c = 0" and "set (quot c as) \<subseteq> {0}" by auto
    with Cons.IH have "set as \<subseteq> {0}" by simp
    with Cons.prems \<open>polyval as c = 0\<close> show ?thesis by simp
  qed
qed

text \<open>A polynomial that vanishes at as many points as it has coefficients is zero.\<close>

lemma polyval_roots:
  assumes "finite X" and "length cs \<le> card X" and "\<forall>x \<in> X. polyval cs x = 0"
  shows "set cs \<subseteq> {0}"
  using assms
proof (induction "length cs" arbitrary: cs X)
  case 0
  then show ?case by simp
next
  case (Suc n)
  then obtain c where c: "c \<in> X" by (metis card.empty ex_in_conv Suc_n_not_le_n le_0_eq nat.simps(3))
  have len: "n = length (quot c cs)" using Suc.hyps(2) by (simp add: length_quot)
  have "polyval (quot c cs) x = 0" if "x \<in> X - {c}" for x
    using polyval_quot [of cs x c] Suc.prems(3) that c by auto
  moreover have "length (quot c cs) \<le> card (X - {c})"
    using Suc.prems(1,2) c len Suc.hyps(2) by simp
  ultimately have "set (quot c cs) \<subseteq> {0}"
    using Suc.hyps(1) [OF len] Suc.prems(1) by blast
  with c Suc.prems(3) show ?case by (metis quot_zero)
qed

section \<open>The Lagrange form\<close>

definition lagrange :: "'a::field set \<Rightarrow> ('a \<Rightarrow> 'a) \<Rightarrow> 'a \<Rightarrow> 'a" where
  "lagrange X f a = (\<Sum>x\<in>X. f x * (\<Prod>y\<in>X - {x}. (a - y) / (x - y)))"

lemma lagrange_add: "lagrange X (\<lambda>z. f z + g z) a = lagrange X f a + lagrange X g a"
  by (simp add: lagrange_def distrib_right sum.distrib)

lemma lagrange_scale: "lagrange X (\<lambda>z. k * f z) a = k * lagrange X f a"
  by (simp add: lagrange_def sum_distrib_left mult.assoc)

lemma lagrange_cong: "(\<And>x. x \<in> X \<Longrightarrow> f x = g x) \<Longrightarrow> lagrange X f a = lagrange X g a"
  by (simp add: lagrange_def)

lemma lagrange_root:
  assumes "finite X" and "c \<in> X"
  shows "lagrange X (\<lambda>z. (z - c) * g z) a = (a - c) * lagrange (X - {c}) g a"
proof -
  have summand: "(x - c) * g x * (\<Prod>y\<in>X - {x}. (a - y) / (x - y)) =
      (a - c) * (g x * (\<Prod>y\<in>X - {c} - {x}. (a - y) / (x - y)))"
    if x: "x \<in> X - {c}" for x
  proof -
    have "(\<Prod>y\<in>X - {x}. (a - y) / (x - y)) =
        (a - c) / (x - c) * (\<Prod>y\<in>X - {x} - {c}. (a - y) / (x - y))"
      using assms x by (intro prod.remove) auto
    moreover have "X - {x} - {c} = X - {c} - {x}" by blast
    ultimately show ?thesis using x by simp
  qed
  have "lagrange X (\<lambda>z. (z - c) * g z) a =
      (\<Sum>x\<in>X - {c}. (x - c) * g x * (\<Prod>y\<in>X - {x}. (a - y) / (x - y)))"
    using assms by (simp add: lagrange_def sum.remove [of X c])
  also have "\<dots> = (\<Sum>x\<in>X - {c}. (a - c) * (g x * (\<Prod>y\<in>X - {c} - {x}. (a - y) / (x - y))))"
    by (rule sum.cong) (use summand in auto)
  finally show ?thesis by (simp add: lagrange_def sum_distrib_left)
qed

lemma lagrange_one:
  assumes "finite X" and "X \<noteq> {}"
  shows "lagrange X (\<lambda>_. 1) a = 1"
  using assms
proof (induction "card X" arbitrary: X rule: less_induct)
  case less
  obtain c where c: "c \<in> X" using less.prems(2) by blast
  show ?case
  proof (cases "X = {c}")
    case True
    then show ?thesis by (simp add: lagrange_def)
  next
    case False
    then obtain d where d: "d \<in> X" "d \<noteq> c" using c by blast
    have one: "lagrange (X - {e}) (\<lambda>_. 1) a = 1" if "e \<in> {c, d}" for e
    proof (rule less.hyps)
      show "card (X - {e}) < card X"
        using that c d less.prems(1) by (metis card_Diff1_less insertE singletonD)
    qed (use that c d less.prems in auto)
    have "(d - c) * lagrange X (\<lambda>_. 1) a = lagrange X (\<lambda>z. (z - c) * 1 + (-1) * ((z - d) * 1)) a"
      by (simp add: algebra_simps flip: lagrange_scale)
    also have "\<dots> = (a - c) * 1 + (-1) * ((a - d) * 1)"
      using lagrange_root [OF less.prems(1) c, where g = "\<lambda>_. 1"]
        lagrange_root [OF less.prems(1) d(1), where g = "\<lambda>_. 1"] one
      by (simp only: lagrange_add lagrange_scale insert_iff simp_thms)
    also have "\<dots> = (d - c) * 1" by simp
    finally show ?thesis using d(2) by (simp only: mult_cancel_left right_minus_eq) blast
  qed
qed

theorem lagrange_polyval:
  assumes "finite X" and "length cs \<le> card X"
  shows "lagrange X (polyval cs) a = polyval cs a"
  using assms
proof (induction "card X" arbitrary: X cs)
  case 0
  then show ?case by (simp add: lagrange_def)
next
  case (Suc n)
  then obtain c where c: "c \<in> X" by (metis card.empty ex_in_conv nat.simps(3))
  have "lagrange X (polyval cs) a =
      lagrange X (\<lambda>z. polyval cs c * 1 + (z - c) * polyval (quot c cs) z) a"
    by (rule lagrange_cong) (simp flip: polyval_quot)
  also have "\<dots> = polyval cs c * 1 + (a - c) * lagrange (X - {c}) (polyval (quot c cs)) a"
    using Suc.prems(1) c by (simp only: lagrange_add lagrange_scale lagrange_root)
      (use lagrange_one [of X a] in auto)
  also have "lagrange (X - {c}) (polyval (quot c cs)) a = polyval (quot c cs) a"
    using Suc c by (intro Suc.hyps(1)) (auto simp: length_quot)
  finally show ?case by (simp flip: polyval_quot)
qed

end
