(* ===== verification/Gf256.thy ===== *)
theory Gf256
  imports Interpolation
begin

text \<open>
  The field arithmetic of \<open>crypto/internal/shamir/shamir.go\<close>: the constant-time \<open>multiply\<close>,
  \<open>power\<close> and \<open>divide\<close> on bytes, exactly as the Go loops compute them, and the proof that
  with \<open>XOR\<close> as addition they make the 256 bytes a field (\<open>GF(2^8)\<close> modulo
  \<open>x^8 + x^4 + x^3 + x + 1\<close>). The field is registered as an instance of the library's class
  \<open>field\<close> on the type \<open>gf256\<close>, whose operations are the code's.
\<close>

section \<open>The byte operations\<close>

text \<open>One turn of the loop of \<open>multiply\<close>, eight of which run.\<close>

fun multiply_loop :: "nat \<Rightarrow> u8 \<Rightarrow> u8 \<Rightarrow> u8 \<Rightarrow> u8" where
  "multiply_loop 0 result left right = result"
| "multiply_loop (Suc n) result left right =
     (let result = result XOR (left AND (0 - (right AND 1)));
          high = drop_bit 7 left;
          left = push_bit 1 left;
          left = left XOR (0x1b AND (0 - high));
          right = drop_bit 1 right
      in multiply_loop n result left right)"

definition multiply :: "u8 \<Rightarrow> u8 \<Rightarrow> u8" where
  "multiply left right = multiply_loop 8 0 left right"

lemma unat_drop_bit_1: "unat (drop_bit (Suc 0) (e :: 'a::len word)) = unat e div 2"
  unfolding unat_drop_bit_eq by (simp add: drop_bit_Suc)

text \<open>Square and multiply: the loop runs while the 16-bit exponent is not zero.\<close>

function power_loop :: "u8 \<Rightarrow> u8 \<Rightarrow> u16 \<Rightarrow> u8" where
  "power_loop result value exponent =
     (if exponent > 0
      then let mask = 0 - ucast (exponent AND 1);
               result = (result AND NOT mask) OR (multiply result value AND mask);
               value = multiply value value;
               exponent = drop_bit 1 exponent
           in power_loop result value exponent
      else result)"
  by pat_completeness auto
termination
proof (relation "measure (\<lambda>(_, _, e). unat e)", goal_cases)
  case (2 r v e mask r' v' e')
  then have "0 < unat e" by (simp add: word_less_nat_alt)
  then have "unat e div 2 < unat e" by simp
  with 2 show ?case by (simp add: unat_drop_bit_1)
qed simp

declare power_loop.simps [simp del]

definition power_gf :: "u8 \<Rightarrow> u16 \<Rightarrow> u8" where
  "power_gf value exponent = power_loop 1 value exponent"

definition divide_gf :: "u8 \<Rightarrow> u8 \<Rightarrow> u8" where
  "divide_gf val divisor = multiply val (power_gf divisor 254)"

section \<open>Multiplication as a bilinear map\<close>

text \<open>Multiplication by the indeterminate, and the product without the accumulator.\<close>

definition xtime :: "u8 \<Rightarrow> u8" where
  "xtime a = push_bit 1 a XOR (if bit a 7 then 0x1b else 0)"

fun product :: "nat \<Rightarrow> u8 \<Rightarrow> u8 \<Rightarrow> u8" where
  "product 0 a b = 0"
| "product (Suc n) a b = (if bit b 0 then a else 0) XOR product n (xtime a) (drop_bit 1 b)"

lemmas xor_ac = xor.assoc xor.commute xor.left_commute

lemma mask_bit: "a AND (0 - (b AND 1)) = (if bit b 0 then a else (0 :: 'a::len word))"
proof -
  have "b AND 1 = of_bool (bit b 0)" by (simp add: and_one_eq mod_2_eq_odd bit_0)
  then show ?thesis by simp
qed

lemma high_bit: "drop_bit 7 (a :: u8) = of_bool (bit a 7)"
proof (rule bit_eqI)
  fix n
  assume "possible_bit TYPE(8 word) n"
  show "bit (drop_bit 7 a) n = bit (of_bool (bit a 7) :: u8) n"
    by (cases "n = 0") (auto simp: bit_drop_bit_eq bit_of_bool_iff dest: bit_imp_le_length)
qed

lemma reduce_step: "push_bit 1 a XOR (0x1b AND (0 - drop_bit 7 a)) = xtime a"
  by (simp add: xtime_def high_bit)

lemma multiply_loop_eq: "multiply_loop n r a b = r XOR product n a b"
proof (induction n arbitrary: r a b)
  case 0
  then show ?case by simp
next
  case (Suc n)
  then show ?case
    by (simp only: multiply_loop.simps product.simps Let_def mask_bit reduce_step xor.assoc)
qed

lemma multiply_product: "multiply a b = product 8 a b"
  by (simp add: multiply_def multiply_loop_eq)

lemma xtime_0 [simp]: "xtime 0 = 0"
  by (simp add: xtime_def)

lemma xtime_xor: "xtime (a XOR b) = xtime a XOR xtime b"
  by (simp add: xtime_def push_bit_xor bit_xor_iff xor_ac)

lemma product_0_left [simp]: "product n 0 b = 0"
  by (induction n arbitrary: b) auto

lemma product_0_right [simp]: "product n a 0 = 0"
  by (induction n arbitrary: a) auto

lemma product_xor_left: "product n (a XOR a') b = product n a b XOR product n a' b"
  by (induction n arbitrary: a a' b) (auto simp: xtime_xor xor_ac)

lemma product_xor_right: "product n a (b XOR b') = product n a b XOR product n a b'"
  by (induction n arbitrary: a b b') (auto simp: drop_bit_xor bit_xor_iff xor_ac)

lemma product_xtime_left: "product n (xtime a) b = xtime (product n a b)"
  by (induction n arbitrary: a b) (auto simp: xtime_xor)

lemma drop_push_bit_Suc:
  "Suc i < 8 \<Longrightarrow> drop_bit (Suc 0) ((2 :: u8) ^ Suc i) = 2 ^ i"
  by (rule bit_eqI) (auto simp: bit_simps simp del: power_Suc)

lemma product_basis: "i < n \<Longrightarrow> n \<le> 8 \<Longrightarrow> product n a (2 ^ i) = (xtime ^^ i) a"
proof (induction i arbitrary: n a)
  case 0
  then show ?case by (cases n) auto
next
  case (Suc i)
  then obtain m where m: "n = Suc m" by (cases n) auto
  have "\<not> bit ((2 :: u8) ^ Suc i) 0" by (simp add: bit_simps del: power_Suc)
  then show ?case
    using Suc m by (simp add: drop_push_bit_Suc funpow_swap1 del: power_Suc)
qed

lemma multiply_xor_left: "multiply (a XOR a') b = multiply a b XOR multiply a' b"
  by (simp add: multiply_product product_xor_left)

lemma multiply_xor_right: "multiply a (b XOR b') = multiply a b XOR multiply a b'"
  by (simp add: multiply_product product_xor_right)

lemma multiply_basis: "i < 8 \<Longrightarrow> multiply a (2 ^ i) = (xtime ^^ i) a"
  by (simp add: multiply_product product_basis)

text \<open>Two maps that respect \<open>XOR\<close> and agree on the eight single-bit bytes are equal.\<close>

lemma additive_eq_take:
  fixes f g :: "u8 \<Rightarrow> u8"
  assumes "\<And>a b. f (a XOR b) = f a XOR f b" and "\<And>a b. g (a XOR b) = g a XOR g b"
    and "\<And>i. i < 8 \<Longrightarrow> f (2 ^ i) = g (2 ^ i)" and "n \<le> 8"
  shows "f (take_bit n a) = g (take_bit n a)"
  using assms(4)
proof (induction n)
  case 0
  have "f 0 = 0" using assms(1) [of 0 0] by simp
  moreover have "g 0 = 0" using assms(2) [of 0 0] by simp
  ultimately show ?case by simp
next
  case (Suc n)
  have split: "take_bit (Suc n) a = take_bit n a XOR (if bit a n then 2 ^ n else 0)"
    by (rule bit_eqI) (auto simp: bit_simps less_Suc_eq)
  have "f 0 = g 0" using assms(1) [of 0 0] assms(2) [of 0 0] by simp
  then show ?case
    unfolding split assms(1,2) using Suc assms(3) [of n] by simp
qed

lemma additive_eq:
  fixes f g :: "u8 \<Rightarrow> u8"
  assumes "\<And>a b. f (a XOR b) = f a XOR f b" and "\<And>a b. g (a XOR b) = g a XOR g b"
    and "\<And>i. i < 8 \<Longrightarrow> f (2 ^ i) = g (2 ^ i)"
  shows "f a = g a"
proof -
  have "take_bit 8 a = a" by (simp add: take_bit_word_eq_self)
  then show ?thesis using additive_eq_take [OF assms, where n = 8 and a = a] by simp
qed

lemma funpow_xtime_1: "i < 8 \<Longrightarrow> (xtime ^^ i) 1 = 2 ^ i"
proof (induction i)
  case 0
  then show ?case by simp
next
  case (Suc i)
  then have "\<not> bit ((2 :: u8) ^ i) 7" by (simp add: bit_simps)
  with Suc show ?case by (simp add: xtime_def push_bit_push_bit )
qed

lemma multiply_1_left: "multiply 1 b = b"
proof (rule additive_eq [where f = "multiply 1" and g = "\<lambda>b. b"])
qed (simp_all add: multiply_xor_right multiply_basis funpow_xtime_1)

lemma funpow_xtime_multiply: "multiply ((xtime ^^ i) a) b = (xtime ^^ i) (multiply a b)"
  by (induction i) (simp_all add: multiply_product product_xtime_left)

lemma multiply_commute: "multiply a b = multiply b a"
proof (rule additive_eq [where f = "multiply a" and g = "\<lambda>b. multiply b a"])
  fix i :: nat
  assume "i < 8"
  then have "multiply (2 ^ i) a = (xtime ^^ i) (multiply 1 a)"
    by (simp flip: funpow_xtime_1 add: funpow_xtime_multiply)
  with \<open>i < 8\<close> show "multiply a (2 ^ i) = multiply (2 ^ i) a"
    by (simp add: multiply_basis multiply_1_left)
qed (simp_all add: multiply_xor_right multiply_xor_left)

lemma multiply_assoc: "multiply (multiply a b) c = multiply a (multiply b c)"
proof (rule additive_eq [where f = "multiply (multiply a b)" and g = "\<lambda>c. multiply a (multiply b c)"])
  fix i :: nat
  assume i: "i < 8"
  have "multiply a ((xtime ^^ i) b) = (xtime ^^ i) (multiply a b)"
    by (metis funpow_xtime_multiply multiply_commute)
  with i show "multiply (multiply a b) (2 ^ i) = multiply a (multiply b (2 ^ i))"
    by (simp add: multiply_basis)
qed (simp_all add: multiply_xor_right)

lemma multiply_0 [simp]: "multiply 0 b = 0" "multiply a 0 = 0"
  by (simp_all add: multiply_product)

section \<open>The ring of bytes\<close>

typedef gf256 = "UNIV :: u8 set"
  morphisms byte_of gf
  by simp

setup_lifting type_definition_gf256

instantiation gf256 :: comm_ring_1
begin

lift_definition zero_gf256 :: gf256 is "0 :: u8" .
lift_definition one_gf256 :: gf256 is "1 :: u8" .
lift_definition plus_gf256 :: "gf256 \<Rightarrow> gf256 \<Rightarrow> gf256" is "\<lambda>a b :: u8. a XOR b" .
lift_definition minus_gf256 :: "gf256 \<Rightarrow> gf256 \<Rightarrow> gf256" is "\<lambda>a b :: u8. a XOR b" .
lift_definition uminus_gf256 :: "gf256 \<Rightarrow> gf256" is "\<lambda>a :: u8. a" .
lift_definition times_gf256 :: "gf256 \<Rightarrow> gf256 \<Rightarrow> gf256" is multiply .

instance
proof
  fix a b c :: gf256
  show "a + b + c = a + (b + c)" by transfer (simp add: xor_ac)
  show "a + b = b + a" by transfer (simp add: xor_ac)
  show "0 + a = a" by transfer simp
  show "- a + a = 0" by transfer simp
  show "a - b = a + - b" by transfer simp
  show "a * b * c = a * (b * c)" by transfer (rule multiply_assoc)
  show "a * b = b * a" by transfer (rule multiply_commute)
  show "1 * a = a" by transfer (rule multiply_1_left)
  show "(a + b) * c = a * c + b * c" by transfer (rule multiply_xor_left)
  show "(0 :: gf256) \<noteq> 1" by transfer simp
qed

end

lemmas gf_simps = zero_gf256.rep_eq one_gf256.rep_eq plus_gf256.rep_eq minus_gf256.rep_eq
  uminus_gf256.rep_eq times_gf256.rep_eq

lemma byte_of_gf [simp]: "byte_of (gf b) = b"
  by (simp add: gf_inverse)

lemma gf_byte_of [simp]: "gf (byte_of x) = x"
  by (simp add: byte_of_inverse)

lemma gf_multiply: "gf (multiply a b) = gf a * gf b"
  by (metis byte_of_gf gf_byte_of times_gf256.rep_eq)

lemma gf_xor: "gf (a XOR b) = gf a + gf b"
  by (metis byte_of_gf gf_byte_of plus_gf256.rep_eq)

lemma gf_0: "gf 0 = 0"
  by (simp add: zero_gf256.abs_eq)

lemma gf_1: "gf 1 = 1"
  by (simp add: one_gf256.abs_eq)

lemma gf_inject_iff [simp]: "gf a = gf b \<longleftrightarrow> a = b"
  by (metis byte_of_gf)

lemma gf_minus_eq_plus: "(a :: gf256) - b = a + b"
  by transfer simp

section \<open>Square and multiply\<close>

lemma select_mask:
  fixes r x :: u8 and e :: u16
  shows "r AND NOT (- ucast (e AND 1)) OR x AND (- ucast (e AND 1)) =
    (if odd (unat e) then x else r)"
proof -
  have "e AND 1 = of_bool (odd (unat e))"
    by (simp add: and_one_eq mod_2_eq_odd bit_0 [symmetric] bit_unsigned_iff)
  then show ?thesis by simp
qed

lemma power_halve:
  "(x :: 'a::comm_monoid_mult) ^ n = (if odd n then x else 1) * (x * x) ^ (n div 2)"
proof (cases "odd n")
  case True
  then obtain m where "n = Suc (2 * m)" by (elim oddE) simp
  then show ?thesis by (simp add: power_mult power2_eq_square)
next
  case False
  then obtain m where "n = 2 * m" by (auto elim: evenE)
  then show ?thesis by (simp add: power_mult power2_eq_square)
qed

lemma power_loop_eq: "gf (power_loop r v e) = gf r * gf v ^ unat e"
proof (induction r v e rule: power_loop.induct)
  case (1 r v e)
  show ?case
  proof (cases "e > 0")
    case True
    have "gf (power_loop r v e) =
        gf (if odd (unat e) then multiply r v else r) * gf (multiply v v) ^ (unat e div 2)"
      using 1 [OF True refl refl refl refl] True
      by (subst power_loop.simps) (simp add: select_mask unat_drop_bit_1)
    also have "\<dots> = gf r * gf v ^ unat e"
      by (subst (2) power_halve) (simp add: gf_multiply mult.assoc)
    finally show ?thesis .
  next
    case False
    then have "unat e = 0" by (simp add: word_gt_0)
    with False show ?thesis by (subst power_loop.simps) simp
  qed
qed

lemma gf_power_gf: "gf (power_gf v e) = gf v ^ unat e"
  by (simp add: power_gf_def power_loop_eq gf_1)

section \<open>The field\<close>

text \<open>
  The byte \<open>3\<close> generates the multiplicative group: its 255th power is \<open>1\<close> and its 85th,
  51st and 15th are not, so its order is 255 and its powers run through every nonzero byte.
\<close>

lemma generator_products:
  "gf 3 * gf 3 = gf 5" "gf 5 * gf 5 = gf 17" "gf 17 * gf 17 = gf 26" "gf 26 * gf 26 = gf 95"
  "gf 95 * gf 95 = gf 229" "gf 229 * gf 229 = gf 76"
  "gf 5 * gf 3 = gf 15" "gf 26 * gf 17 = gf 161" "gf 161 * gf 15 = gf 53"
  "gf 229 * gf 95 = gf 83" "gf 83 * gf 15 = gf 12" "gf 76 * gf 95 = gf 131"
  "gf 17 * gf 3 = gf 51" "gf 131 * gf 51 = gf 189" "gf 189 * gf 189 = gf 188"
  "gf 188 * gf 189 = gf 1"
  by (simp_all only: gf_multiply [symmetric] gf_inject_iff) code_simp+

lemma power_step: "x ^ m = a \<Longrightarrow> x ^ n = b \<Longrightarrow> a * b = c \<Longrightarrow> k = m + n \<Longrightarrow> x ^ k = (c :: gf256)"
  by (simp add: power_add)

lemma generator_2: "gf 3 ^ 2 = gf 5"
  by (rule power_step [OF power_one_right power_one_right]) (simp_all add: generator_products)

lemma generator_4: "gf 3 ^ 4 = gf 17"
  by (rule power_step [OF generator_2 generator_2]) (simp_all add: generator_products)

lemma generator_8: "gf 3 ^ 8 = gf 26"
  by (rule power_step [OF generator_4 generator_4]) (simp_all add: generator_products)

lemma generator_16: "gf 3 ^ 16 = gf 95"
  by (rule power_step [OF generator_8 generator_8]) (simp_all add: generator_products)

lemma generator_32: "gf 3 ^ 32 = gf 229"
  by (rule power_step [OF generator_16 generator_16]) (simp_all add: generator_products)

lemma generator_64: "gf 3 ^ 64 = gf 76"
  by (rule power_step [OF generator_32 generator_32]) (simp_all add: generator_products)

lemma generator_3: "gf 3 ^ 3 = gf 15"
  by (rule power_step [OF generator_2 power_one_right]) (simp_all add: generator_products)

lemma generator_12: "gf 3 ^ 12 = gf 161"
  by (rule power_step [OF generator_8 generator_4]) (simp_all add: generator_products)

lemma generator_15: "gf 3 ^ 15 = gf 53"
  by (rule power_step [OF generator_12 generator_3]) (simp_all add: generator_products)

lemma generator_48: "gf 3 ^ 48 = gf 83"
  by (rule power_step [OF generator_32 generator_16]) (simp_all add: generator_products)

lemma generator_51: "gf 3 ^ 51 = gf 12"
  by (rule power_step [OF generator_48 generator_3]) (simp_all add: generator_products)

lemma generator_80: "gf 3 ^ 80 = gf 131"
  by (rule power_step [OF generator_64 generator_16]) (simp_all add: generator_products)

lemma generator_5: "gf 3 ^ 5 = gf 51"
  by (rule power_step [OF generator_4 power_one_right]) (simp_all add: generator_products)

lemma generator_85: "gf 3 ^ 85 = gf 189"
  by (rule power_step [OF generator_80 generator_5]) (simp_all add: generator_products)

lemma generator_170: "gf 3 ^ 170 = gf 188"
  by (rule power_step [OF generator_85 generator_85]) (simp_all add: generator_products)

lemma generator_order: "gf 3 ^ 255 = 1"
  by (rule power_step [OF generator_170 generator_85]) (simp_all add: generator_products gf_1)

lemma generator_maximal: "gf 3 ^ 85 \<noteq> 1" "gf 3 ^ 51 \<noteq> 1" "gf 3 ^ 15 \<noteq> 1"
  by (simp_all add: generator_15 generator_51 generator_85 flip: gf_1)

lemma power_gcd_eq_1:
  fixes x :: "'a::comm_monoid_mult"
  assumes "x ^ m = 1" and "x ^ n = 1" and "m \<noteq> 0"
  shows "x ^ gcd m n = 1"
proof -
  obtain p q where pq: "m * p = n * q + gcd m n"
    using bezout_nat [OF assms(3)] by blast
  have "x ^ gcd m n = x ^ (n * q) * x ^ gcd m n"
    using assms(2) by (simp add: power_mult)
  also have "\<dots> = x ^ (m * p)" by (simp add: pq power_add)
  also have "\<dots> = 1" using assms(1) by (simp add: power_mult)
  finally show ?thesis .
qed

lemma small_divisors_255: "x < 16 \<Longrightarrow> (x :: nat) dvd 255 \<Longrightarrow> x = 1 \<or> x = 3 \<or> x = 5 \<or> x = 15"
proof -
  assume "x < 16" and dvd: "x dvd 255"
  then have "x \<in> set [0..<16]" by simp
  moreover have "[0..<16 :: nat] = [0, 1, 2, 3, 4, 5, 6, 7, 8, 9, 10, 11, 12, 13, 14, 15]"
    by code_simp
  ultimately show ?thesis using dvd by (simp only: list.set) (elim insertE emptyE; simp)
qed

lemma divisors_255:
  fixes d :: nat
  assumes "d dvd 255" and "d < 255"
  shows "d dvd 85 \<or> d dvd 51 \<or> d dvd 15"
proof (cases "d < 16")
  case True
  with assms(1) show ?thesis using small_divisors_255 [of d] by auto
next
  case False
  obtain k where k: "255 = d * k" using assms(1) by blast
  have "k < 16"
  proof (rule ccontr)
    assume "\<not> k < 16"
    with False have "16 * 16 \<le> d * k" by (intro mult_le_mono) auto
    with k show False by simp
  qed
  moreover have "k dvd 255" unfolding k by simp
  ultimately consider "k = 1" | "k = 3" | "k = 5" | "k = 15" using small_divisors_255 [of k] by blast
  then have "d = 85 \<or> d = 51 \<or> d = 17" using k assms(2) by cases auto
  then show ?thesis by auto
qed

lemma generator_power_ne_1:
  assumes "0 < d" and "d < 255"
  shows "gf 3 ^ d \<noteq> 1"
proof
  assume "gf 3 ^ d = 1"
  then have one: "gf 3 ^ gcd d 255 = 1"
    using generator_order assms(1) by (simp add: power_gcd_eq_1)
  have "gcd d 255 \<le> d" using assms(1) by (simp add: gcd_le1_nat)
  then have "gcd d 255 dvd 85 \<or> gcd d 255 dvd 51 \<or> gcd d 255 dvd 15"
    using divisors_255 [of "gcd d 255"] assms(2) by simp
  then have "gf 3 ^ 85 = 1 \<or> gf 3 ^ 51 = 1 \<or> gf 3 ^ 15 = 1"
    using one by (metis dvd_def power_mult power_one)
  with generator_maximal show False by simp
qed

lemma generator_powers_inj: "inj_on (\<lambda>k. gf 3 ^ k) {..<255}"
proof (rule linorder_inj_onI)
  fix i j :: nat
  assume "i < j" and "j \<in> {..<255}"
  show "gf 3 ^ i \<noteq> gf 3 ^ j"
  proof
    assume "gf 3 ^ i = gf 3 ^ j"
    then have "gf 3 ^ (255 - j) * gf 3 ^ i = gf 3 ^ (255 - j) * gf 3 ^ j" by simp
    then have "gf 3 ^ (255 - j + i) = 1"
      using \<open>j \<in> {..<255}\<close> generator_order by (simp flip: power_add)
    moreover have "gf 3 ^ (255 - j + i) \<noteq> 1"
      using \<open>i < j\<close> \<open>j \<in> {..<255}\<close> by (intro generator_power_ne_1) auto
    ultimately show False by contradiction
  qed
qed auto

lemma UNIV_gf256: "(UNIV :: gf256 set) = gf ` UNIV"
  by (metis gf_byte_of surj_def)

lemma card_gf256: "card (UNIV :: gf256 set) = 256"
  by (simp add: UNIV_gf256 card_image inj_on_def card_word)

lemma finite_gf256 [simp]: "finite (A :: gf256 set)"
  using card_gf256 by (metis card.infinite finite_subset subset_UNIV zero_neq_numeral)

lemma generator_powers_cover: "(\<lambda>k. gf 3 ^ k) ` {..<255} = UNIV - {0}"
proof (rule card_seteq)
  have "gf 3 ^ k \<noteq> 0" for k
  proof
    assume "gf 3 ^ k = 0"
    then have "gf 3 ^ (255 * k) = 0" by (cases "k = 0") (auto simp: power_mult power_commutes
        mult.commute [of 255 k])
    then show False using generator_order by (simp add: power_mult)
  qed
  then show "(\<lambda>k. gf 3 ^ k) ` {..<255} \<subseteq> UNIV - {0}" by auto
  show "card (UNIV - {0 :: gf256}) \<le> card ((\<lambda>k. gf 3 ^ k) ` {..<255})"
    by (simp add: card_image generator_powers_inj card_Diff_singleton card_gf256)
qed simp

lemma nonzero_generated: "v \<noteq> 0 \<Longrightarrow> \<exists>k. gf v = gf 3 ^ k"
proof -
  assume "v \<noteq> 0"
  then have "gf v \<in> UNIV - {0}" by (simp flip: gf_0)
  then show ?thesis unfolding generator_powers_cover [symmetric] by blast
qed

lemma nonzero_power_255: "v \<noteq> 0 \<Longrightarrow> gf v ^ 255 = 1"
  by (metis generator_order mult.commute nonzero_generated power_mult power_one)

instantiation gf256 :: field
begin

lift_definition inverse_gf256 :: "gf256 \<Rightarrow> gf256" is "\<lambda>b. power_gf b 254" .
lift_definition divide_gf256 :: "gf256 \<Rightarrow> gf256 \<Rightarrow> gf256" is divide_gf .

instance
proof
  fix a b :: gf256
  show "a \<noteq> 0 \<Longrightarrow> inverse a * a = 1"
  proof -
    assume "a \<noteq> 0"
    then have "byte_of a \<noteq> 0" by (metis gf_0 gf_byte_of)
    have "inverse a * a = a ^ 254 * a"
      using gf_power_gf [of "byte_of a" 254] by (simp add: inverse_gf256_def)
    also have "\<dots> = a ^ 255" by (simp flip: power_Suc2)
    also have "\<dots> = 1" using nonzero_power_255 [OF \<open>byte_of a \<noteq> 0\<close>] by simp
    finally show ?thesis .
  qed
  show "a div b = a * inverse b" by transfer (simp add: divide_gf_def)
  show "inverse (0 :: gf256) = 0"
    using gf_power_gf [of 0 254] by (simp add: inverse_gf256_def gf_0 zero_gf256.rep_eq)
qed

end

lemma gf_divide: "gf (divide_gf a b) = gf a / gf b"
  by (metis byte_of_gf gf_byte_of divide_gf256.rep_eq)

lemma minus_gf [simp]: "- (a :: gf256) = a"
  by transfer simp

end
