(* ===== verification/Shamir.thy ===== *)
theory Shamir
  imports Gf256
begin

text \<open>
  \<open>crypto/internal/shamir/shamir.go\<close>: splitting a secret into shares and combining them.
  The random source \<open>rand.Reader\<close> is the byte stream \<open>rng\<close> every drawing function
  consumes and returns; a stream that ends is the reader's error. Shares are byte strings:
  one evaluated byte per secret byte, then the share's coordinate.
\<close>

section \<open>The code\<close>

datatype shamir_error =
    EmptySecret | BadThreshold | BadTotal | RandFailure
  | BadShareCount | ShareTooShort | ShareLengthsDiffer | BadShareCoordinate

definition MaxShares :: nat where
  "MaxShares = 255"

text \<open>\<open>io.ReadFull(rand.Reader, buf)\<close> on a buffer of \<open>n\<close> bytes.\<close>

definition read_full :: "nat \<Rightarrow> bytes \<Rightarrow> shamir_error + bytes \<times> bytes" where
  "read_full n rng = (if length rng < n then Inl RandFailure else Inr (take n rng, drop n rng))"

text \<open>Rejection sampling: bytes at or above the largest multiple of \<open>limit\<close> are drawn again.\<close>

fun randomIndex_loop :: "nat \<Rightarrow> nat \<Rightarrow> bytes \<Rightarrow> shamir_error + nat \<times> bytes" where
  "randomIndex_loop limit ceiling [] = Inl RandFailure"
| "randomIndex_loop limit ceiling (b # rng) =
     (if unat b < ceiling then Inr (unat b mod limit, rng)
      else randomIndex_loop limit ceiling rng)"

definition randomIndex :: "nat \<Rightarrow> bytes \<Rightarrow> shamir_error + nat \<times> bytes" where
  "randomIndex limit rng = randomIndex_loop limit (256 - 256 mod limit) rng"

text \<open>The Fisher-Yates loop, \<open>i\<close> running down to \<open>1\<close>.\<close>

fun shuffle :: "nat \<Rightarrow> bytes \<Rightarrow> bytes \<Rightarrow> shamir_error + bytes \<times> bytes" where
  "shuffle 0 pool rng = Inr (pool, rng)"
| "shuffle (Suc i) pool rng =
     andThen (randomIndex (Suc (Suc i)) rng)
       (\<lambda>(j, rng). shuffle i (pool[Suc i := pool ! j, j := pool ! Suc i]) rng)"

definition randomCoordinates :: "nat \<Rightarrow> bytes \<Rightarrow> shamir_error + bytes \<times> bytes" where
  "randomCoordinates shareTotal rng =
     andThen (shuffle (MaxShares - 1) (map (\<lambda>i. word_of_nat (i + 1)) [0..<MaxShares]) rng)
       (\<lambda>(pool, rng). Inr (take shareTotal pool, rng))"

definition evaluate :: "bytes \<Rightarrow> u8 \<Rightarrow> u8" where
  "evaluate coefficients x =
     foldl (\<lambda>result i. multiply result x XOR coefficients ! i) (last coefficients)
       (rev [0..<length coefficients - 1])"

text \<open>The loop over the secret: fresh coefficients for every byte, written at \<open>offset\<close>.\<close>

fun fill_shares ::
  "nat \<Rightarrow> bytes \<Rightarrow> nat \<Rightarrow> bytes \<Rightarrow> bytes list \<Rightarrow> bytes \<Rightarrow> shamir_error + bytes list \<times> bytes"
where
  "fill_shares threshold coordinates offset [] shares rng = Inr (shares, rng)"
| "fill_shares threshold coordinates offset (val # secret) shares rng =
     andThen (read_full (threshold - 1) rng)
       (\<lambda>(drawn, rng).
          let coefficients = val # drawn;
              shares = map2 (\<lambda>share coordinate. share[offset := evaluate coefficients coordinate])
                shares coordinates
          in fill_shares threshold coordinates (offset + 1) secret shares rng)"

definition Split :: "bytes \<Rightarrow> int \<Rightarrow> int \<Rightarrow> bytes \<Rightarrow> shamir_error + bytes list \<times> bytes" where
  "Split secret shareTotal threshold rng =
     (if length secret = 0 then Inl EmptySecret
      else if threshold < 2 \<or> threshold > int MaxShares then Inl BadThreshold
      else if shareTotal < threshold \<or> shareTotal > int MaxShares then Inl BadTotal
      else andThen (randomCoordinates (nat shareTotal) rng)
        (\<lambda>(coordinates, rng).
           let shares = map (\<lambda>coordinate. replicate (length secret) 0 @ [coordinate]) coordinates
           in fill_shares (nat threshold) coordinates 0 secret shares rng))"

text \<open>The inner loop of \<open>interpolateAtZero\<close>: numerator and denominator for index \<open>i\<close>.\<close>

definition numerator_denominator :: "bytes \<Rightarrow> nat \<Rightarrow> u8 \<times> u8" where
  "numerator_denominator coordinates i =
     foldl (\<lambda>(numerator, denominator) j.
         if i = j then (numerator, denominator)
         else (multiply numerator (coordinates ! j),
               multiply denominator (coordinates ! i XOR coordinates ! j)))
       (1, 1) [0..<length coordinates]"

definition interpolateAtZero :: "bytes \<Rightarrow> bytes \<Rightarrow> u8" where
  "interpolateAtZero coordinates values =
     foldl (\<lambda>result i.
         case numerator_denominator coordinates i of (numerator, denominator) \<Rightarrow>
           result XOR multiply (values ! i) (divide_gf numerator denominator))
       0 [0..<length coordinates]"

text \<open>The validation loop of \<open>Combine\<close>; \<open>seen\<close> holds the coordinates met so far.\<close>

fun collect_coordinates :: "nat \<Rightarrow> u8 set \<Rightarrow> bytes list \<Rightarrow> shamir_error + bytes" where
  "collect_coordinates shareLength seen [] = Inr []"
| "collect_coordinates shareLength seen (share # shares) =
     (if length share \<noteq> shareLength then Inl ShareLengthsDiffer
      else let coordinate = share ! (shareLength - 1) in
        if coordinate = 0 \<or> coordinate \<in> seen then Inl BadShareCoordinate
        else andThen (collect_coordinates shareLength (insert coordinate seen) shares)
          (\<lambda>coordinates. Inr (coordinate # coordinates)))"

definition Combine :: "bytes list \<Rightarrow> shamir_error + bytes" where
  "Combine shares =
     (if length shares < 2 \<or> length shares > MaxShares then Inl BadShareCount
      else let shareLength = length (shares ! 0) in
        if shareLength < 2 then Inl ShareTooShort
        else andThen (collect_coordinates shareLength {} shares)
          (\<lambda>coordinates. Inr (map (\<lambda>offset.
             interpolateAtZero coordinates (map (\<lambda>share. share ! offset) shares))
             [0..<shareLength - 1])))"

section \<open>Polynomial evaluation and interpolation over the field\<close>

lemma evaluate_single: "evaluate [c] x = c"
  by (simp add: evaluate_def)

lemma upt_Suc_map: "[0..<Suc n] = 0 # map Suc [0..<n]"
  by (metis map_Suc_upt upt_conv_Cons zero_less_Suc)

lemma evaluate_Cons: "evaluate (c # d # cs) x = multiply (evaluate (d # cs) x) x XOR c"
proof -
  have "rev [0..<length (c # d # cs) - 1] = map Suc (rev [0..<length (d # cs) - 1]) @ [0]"
    by (simp add: upt_Suc_map rev_map del: upt_Suc)
  then show ?thesis by (simp only: evaluate_def foldl_append foldl_map) simp
qed

lemma gf_evaluate: "cs \<noteq> [] \<Longrightarrow> gf (evaluate cs x) = polyval (map gf cs) (gf x)"
proof (induction cs rule: induct_list012)
  case (3 c d cs)
  then show ?case
    by (simp add: evaluate_Cons gf_xor gf_multiply algebra_simps)
qed (simp_all add: evaluate_single)

lemma gf_products:
  fixes xs :: bytes
  assumes "m \<le> length xs"
  shows "(case foldl (\<lambda>(p, q) j. if i = j then (p, q)
               else (multiply p (xs ! j), multiply q (xs ! i XOR xs ! j))) (1, 1) [0..<m]
          of (p, q) \<Rightarrow> (gf p, gf q)) =
    (\<Prod>j\<in>{..<m} - {i}. gf (xs ! j), \<Prod>j\<in>{..<m} - {i}. gf (xs ! i) + gf (xs ! j))"
  using assms
proof (induction m)
  case 0
  then show ?case by (simp add: gf_1)
next
  case (Suc m)
  have ins: "{..<Suc m} - {i} = (if m = i then {..<m} - {i} else insert m ({..<m} - {i}))" by auto
  show ?case
    using Suc unfolding ins by (auto simp: gf_multiply gf_xor mult.commute split: prod.splits)
qed

lemma gf_numerator_denominator:
  "numerator_denominator xs i = (p, q) \<Longrightarrow>
    gf p / gf q =
      (\<Prod>j\<in>{..<length xs} - {i}. (0 - gf (xs ! j)) / (gf (xs ! i) - gf (xs ! j)))"
  using gf_products [of "length xs" xs i]
  by (simp add: numerator_denominator_def prod_dividef gf_minus_eq_plus)

lemma gf_interpolate_sum:
  "gf (foldl (\<lambda>result i.
         case numerator_denominator xs i of (numerator, denominator) \<Rightarrow>
           result XOR multiply (vs ! i) (divide_gf numerator denominator)) 0 [0..<m]) =
    (\<Sum>i<m. gf (vs ! i) *
      (\<Prod>j\<in>{..<length xs} - {i}. (0 - gf (xs ! j)) / (gf (xs ! i) - gf (xs ! j))))"
proof (induction m)
  case 0
  then show ?case by (simp add: gf_0)
next
  case (Suc m)
  obtain p q where pq: "numerator_denominator xs m = (p, q)" by (metis surj_pair)
  with Suc gf_numerator_denominator [OF pq] show ?case
    by (simp add: gf_xor gf_multiply gf_divide)
qed

lemma gf_interpolateAtZero:
  assumes "distinct xs" and "length cs \<le> length xs" and "cs \<noteq> []"
    and "length vs = length xs" and "\<And>i. i < length xs \<Longrightarrow> vs ! i = evaluate cs (xs ! i)"
  shows "interpolateAtZero xs vs = cs ! 0"
proof -
  let ?n = "length xs"
  let ?x = "\<lambda>i. gf (xs ! i)"
  have inj: "inj_on ?x {..<?n}" using assms(1) by (auto simp: inj_on_def nth_eq_iff_index_eq)
  have del: "?x ` {..<?n} - {?x i} = ?x ` ({..<?n} - {i})" if "i < ?n" for i
    using inj that by (auto simp: inj_on_def)
  have card: "card (?x ` {..<?n}) = ?n" using inj by (simp add: card_image)
  have "gf (interpolateAtZero xs vs) =
      (\<Sum>i<?n. polyval (map gf cs) (?x i) * (\<Prod>j\<in>{..<?n} - {i}. (0 - ?x j) / (?x i - ?x j)))"
    unfolding interpolateAtZero_def gf_interpolate_sum
    using assms by (intro sum.cong) (simp_all add: gf_evaluate)
  also have "\<dots> = (\<Sum>i<?n. polyval (map gf cs) (?x i) *
      (\<Prod>y\<in>?x ` {..<?n} - {?x i}. (0 - y) / (?x i - y)))"
  proof (rule sum.cong)
    fix i assume "i \<in> {..<?n}"
    then have i: "i < ?n" by simp
    have "inj_on ?x ({..<?n} - {i})" using inj by (rule inj_on_subset) blast
    then show "polyval (map gf cs) (?x i) * (\<Prod>j\<in>{..<?n} - {i}. (0 - ?x j) / (?x i - ?x j)) =
      polyval (map gf cs) (?x i) * (\<Prod>y\<in>?x ` {..<?n} - {?x i}. (0 - y) / (?x i - y))"
      unfolding del [OF i] by (simp add: prod.reindex)
  qed simp
  also have "\<dots> = lagrange (?x ` {..<?n}) (polyval (map gf cs)) 0"
    unfolding lagrange_def using inj by (simp add: sum.reindex)
  also have "\<dots> = polyval (map gf cs) 0"
    using assms(2) card by (intro lagrange_polyval) simp_all
  also have "\<dots> = gf (cs ! 0)" using assms(3) by (cases cs) simp_all
  finally show ?thesis by simp
qed

section \<open>Random indices and coordinates\<close>

lemma randomIndex_loop_bound:
  "randomIndex_loop limit ceiling rng = Inr (j, rng') \<Longrightarrow> 0 < limit \<Longrightarrow> j < limit"
  by (induction limit ceiling rng rule: randomIndex_loop.induct) (auto split: if_splits)

lemma randomIndex_bound: "randomIndex limit rng = Inr (j, rng') \<Longrightarrow> 0 < limit \<Longrightarrow> j < limit"
  by (simp add: randomIndex_def randomIndex_loop_bound)

lemma shuffle_mset:
  "shuffle i pool rng = Inr (pool', rng') \<Longrightarrow> i < length pool \<Longrightarrow> mset pool' = mset pool"
proof (induction i arbitrary: pool rng)
  case 0
  then show ?case by simp
next
  case (Suc i)
  then obtain j r where j: "randomIndex (Suc (Suc i)) rng = Inr (j, r)"
    and rest: "shuffle i (pool[Suc i := pool ! j, j := pool ! Suc i]) r = Inr (pool', rng')"
    by (auto simp: andThen_eq_Inr)
  from j have "j < Suc (Suc i)" by (rule randomIndex_bound) simp
  with Suc.prems(2) have "mset (pool[Suc i := pool ! j, j := pool ! Suc i]) = mset pool"
    by (intro mset_swap) simp_all
  with Suc.IH [OF rest] Suc.prems(2) show ?case by simp
qed

lemma initial_pool:
  defines "pool \<equiv> map (\<lambda>i. word_of_nat (i + 1)) [0..<MaxShares] :: bytes"
  shows "distinct pool" and "0 \<notin> set pool" and "length pool = MaxShares"
proof -
  have val: "unat (word_of_nat (i + 1) :: u8) = i + 1" if "i < 255" for i
    unfolding unat_word_of_nat_u8 using that by simp
  have inj: "inj_on (\<lambda>i. word_of_nat (i + 1) :: u8) {0..<255}"
    by (rule inj_onI) (metis val add_right_cancel atLeastLessThan_iff)
  have nz: "(word_of_nat (i + 1) :: u8) \<noteq> 0" if "i < 255" for i
    using val [OF that] by (metis add_is_0 one_neq_zero unat_0)
  show "distinct pool" unfolding pool_def MaxShares_def using inj by (simp add: distinct_map)
  show "0 \<notin> set pool" unfolding pool_def MaxShares_def using nz by fastforce
  show "length pool = MaxShares" by (simp add: pool_def)
qed

lemma randomCoordinates_ok:
  assumes "randomCoordinates n rng = Inr (coords, rng')" and "n \<le> MaxShares"
  shows "length coords = n" and "distinct coords" and "0 \<notin> set coords"
proof -
  let ?pool = "map (\<lambda>i. word_of_nat (i + 1)) [0..<MaxShares] :: bytes"
  obtain pool r where sh: "shuffle (MaxShares - 1) ?pool rng = Inr (pool, r)"
    and coords: "coords = take n pool"
    using assms(1) by (auto simp: randomCoordinates_def andThen_eq_Inr)
  have m: "mset pool = mset ?pool"
    using sh by (rule shuffle_mset) (simp add: initial_pool MaxShares_def)
  then have "length pool = MaxShares" by (metis initial_pool(3) size_mset)
  then show "length coords = n" using assms(2) coords by simp
  have "distinct pool" using m initial_pool(1) by (metis mset_eq_imp_distinct_iff)
  then show "distinct coords" using coords by simp
  have "0 \<notin> set pool" using m initial_pool(2) by (metis mset_eq_setD)
  then show "0 \<notin> set coords" using coords by (metis in_set_takeD)
qed

section \<open>What Split deals out\<close>

text \<open>The share at a coordinate: every polynomial evaluated there, then the coordinate.\<close>

definition deal :: "bytes list \<Rightarrow> u8 \<Rightarrow> bytes" where
  "deal polys c = map (\<lambda>p. evaluate p c) polys @ [c]"

text \<open>One polynomial of \<open>t\<close> coefficients per secret byte, that byte its constant term.\<close>

definition hides :: "nat \<Rightarrow> bytes \<Rightarrow> bytes list \<Rightarrow> bool" where
  "hides t secret polys \<longleftrightarrow>
     length polys = length secret \<and>
     (\<forall>k < length secret. length (polys ! k) = t \<and> polys ! k ! 0 = secret ! k)"

lemma hides_Cons: "hides t (b # secret) (p # polys) \<longleftrightarrow> length p = t \<and> p ! 0 = b \<and> hides t secret polys"
  by (auto simp: hides_def All_less_Suc2)

lemma fill_shares_rows:
  assumes "fill_shares t coords off secret shares rng = Inr (out, rng')"
    and "length shares = length coords"
    and "\<forall>s \<in> set shares. off + length secret \<le> length s" and "0 < t"
  shows "\<exists>polys. hides t secret polys \<and>
    out = map2 (\<lambda>share c. take off share @ map (\<lambda>p. evaluate p c) polys @
      drop (off + length secret) share) shares coords"
  using assms
proof (induction secret arbitrary: off shares rng)
  case Nil
  have "map2 (\<lambda>share c. share) shares coords = shares"
    using Nil.prems(2) by (intro nth_equalityI) simp_all
  with Nil show ?case by (intro exI [of _ "[]"]) (simp add: hides_def)
next
  case (Cons b secret)
  obtain drawn r where d: "read_full (t - 1) rng = Inr (drawn, r)"
    and rest: "fill_shares t coords (off + 1) secret
      (map2 (\<lambda>share c. share[off := evaluate (b # drawn) c]) shares coords) r = Inr (out, rng')"
    using Cons.prems(1) by (auto simp: andThen_eq_Inr Let_def)
  let ?next = "map2 (\<lambda>share c. share[off := evaluate (b # drawn) c]) shares coords"
  have "\<forall>s \<in> set ?next. off + 1 + length secret \<le> length s"
    using Cons.prems(3) by (auto dest: set_zip_leftD)
  from Cons.IH [OF rest _ this] Cons.prems(2,4) obtain polys
    where polys: "hides t secret polys"
      and out: "out = map2 (\<lambda>share c. take (off + 1) share @ map (\<lambda>p. evaluate p c) polys @
        drop (off + 1 + length secret) share) ?next coords" by auto
  have "length (b # drawn) = t"
    using d \<open>0 < t\<close> by (auto simp: read_full_def split: if_splits)
  with polys have h: "hides t (b # secret) ((b # drawn) # polys)"
    by (simp add: hides_Cons)
  have "out = map2 (\<lambda>share c. take off share @ map (\<lambda>p. evaluate p c) ((b # drawn) # polys) @
      drop (off + length (b # secret)) share) shares coords"
  proof (rule nth_equalityI)
    fix i assume "i < length out"
    then have i: "i < length shares" "i < length coords" using out Cons.prems(2) by simp_all
    then have "shares ! i \<in> set shares" by simp
    then have "off + length (b # secret) \<le> length (shares ! i)" using Cons.prems(3) by blast
    then have "off < length (shares ! i)" by simp
    then show "out ! i = map2 (\<lambda>share c. take off share @ map (\<lambda>p. evaluate p c)
        ((b # drawn) # polys) @ drop (off + length (b # secret)) share) shares coords ! i"
      using i by (simp add: out take_Suc_conv_app_nth)
  qed (use out Cons.prems(2) in simp)
  with h show ?case by blast
qed

lemma Split_deals:
  assumes "Split secret n t rng = Inr (shares, rng')"
  obtains coords polys where "shares = map (deal polys) coords" and "hides (nat t) secret polys"
    and "length coords = nat n" and "distinct coords" and "0 \<notin> set coords"
    and "secret \<noteq> []" and "2 \<le> t" and "t \<le> n" and "n \<le> 255"
proof -
  from assms have ok: "secret \<noteq> []" "2 \<le> t" "t \<le> n" "n \<le> 255"
    by (auto simp: Split_def MaxShares_def split: if_splits)
  obtain coords r where c: "randomCoordinates (nat n) rng = Inr (coords, r)"
    and f: "fill_shares (nat t) coords 0 secret
      (map (\<lambda>c. replicate (length secret) 0 @ [c]) coords) r = Inr (shares, rng')"
    using assms by (auto simp: Split_def Let_def andThen_eq_Inr split: if_splits)
  have coords: "length coords = nat n" "distinct coords" "0 \<notin> set coords"
    using randomCoordinates_ok [OF c] ok by (simp_all add: MaxShares_def)
  obtain polys where polys: "hides (nat t) secret polys"
    and sh: "shares = map2 (\<lambda>share c. take 0 share @ map (\<lambda>p. evaluate p c) polys @
      drop (0 + length secret) share) (map (\<lambda>c. replicate (length secret) 0 @ [c]) coords) coords"
    using fill_shares_rows [OF f] ok by auto
  have "shares = map (deal polys) coords"
    unfolding sh by (rule nth_equalityI) (simp_all add: deal_def)
  then show ?thesis using that polys coords ok by blast
qed

section \<open>What Combine accepts\<close>

lemma collect_coordinates_ok:
  "collect_coordinates n seen shares = Inr cs \<longleftrightarrow>
     cs = map (\<lambda>s. s ! (n - 1)) shares \<and> (\<forall>s \<in> set shares. length s = n) \<and>
     distinct cs \<and> 0 \<notin> set cs \<and> set cs \<inter> seen = {}"
  by (induction n seen shares arbitrary: cs rule: collect_coordinates.induct)
    (auto simp: Let_def andThen_eq_Inr, blast+)

lemma Combine_ok:
  "Combine shares = Inr secret \<longleftrightarrow>
     2 \<le> length shares \<and> length shares \<le> 255 \<and> 2 \<le> length (shares ! 0) \<and>
     (\<forall>s \<in> set shares. length s = length (shares ! 0)) \<and>
     distinct (map last shares) \<and> 0 \<notin> set (map last shares) \<and>
     secret = map (\<lambda>k. interpolateAtZero (map last shares) (map (\<lambda>s. s ! k) shares))
       [0..<length (shares ! 0) - 1]"
proof -
  let ?n = "length (shares ! 0)"
  show ?thesis
  proof (cases "(\<forall>s \<in> set shares. length s = ?n) \<and> 2 \<le> ?n")
    case True
    have coords: "map (\<lambda>s. s ! (?n - Suc 0)) shares = map last shares"
    proof (rule map_cong [OF refl])
      fix s assume "s \<in> set shares"
      then have "length s = ?n" using True by blast
      moreover from this True have "s \<noteq> []" by auto
      ultimately show "s ! (?n - Suc 0) = last s" by (simp add: last_conv_nth)
    qed
    show ?thesis using True
      by (auto simp: Combine_def MaxShares_def Let_def andThen_eq_Inr collect_coordinates_ok coords
          simp del: map_eq_conv set_map)
  next
    case False
    then show ?thesis
      by (auto simp: Combine_def MaxShares_def Let_def andThen_eq_Inr collect_coordinates_ok)
  qed
qed

lemma Combine_deals:
  assumes "hides t secret polys" and "distinct sel" and "0 \<notin> set sel" and "secret \<noteq> []"
    and "2 \<le> t" and "t \<le> length sel" and "length sel \<le> 255"
  shows "Combine (map (deal polys) sel) = Inr secret"
proof -
  have len: "length (deal polys c) = length secret + 1" for c
    using assms(1) by (simp add: deal_def hides_def)
  have first: "length (map (deal polys) sel ! 0) = length secret + 1"
    using assms(5,6) by (subst nth_map) (auto simp: len)
  have last: "map last (map (deal polys) sel) = sel"
    by (simp add: deal_def comp_def)
  have point: "interpolateAtZero sel (map (\<lambda>s. s ! k) (map (deal polys) sel)) = secret ! k"
    if k: "k < length secret" for k
  proof -
    have p: "length (polys ! k) = t" "polys ! k ! 0 = secret ! k" "k < length polys"
      using assms(1) k by (simp_all add: hides_def)
    have "interpolateAtZero sel (map (\<lambda>s. s ! k) (map (deal polys) sel)) = polys ! k ! 0"
      using assms(2,5,6) p
      by (intro gf_interpolateAtZero) (auto simp: deal_def nth_append)
    with p show ?thesis by simp
  qed
  have "map (\<lambda>k. interpolateAtZero sel (map (\<lambda>s. s ! k) (map (deal polys) sel)))
      [0..<length secret] = secret"
    using point by (intro nth_equalityI) simp_all
  with assms show ?thesis
    unfolding Combine_ok last first by (auto simp: len Suc_le_eq)
qed

section \<open>Progress: valid arguments and enough random bytes\<close>

text \<open>
  Every byte below 128 is accepted by the rejection sampling, whatever the limit, so a stream
  whose first 254 bytes are below 128 and that is long enough for the coefficients makes
  \<open>Split\<close> succeed.
\<close>

lemma ceiling_large: "0 < limit \<Longrightarrow> limit \<le> 256 \<Longrightarrow> 128 \<le> 256 - 256 mod (limit :: nat)"
proof -
  assume "0 < limit" "limit \<le> 256"
  then have "limit * 1 \<le> limit * (256 div limit)"
    by (intro mult_le_mono2) (simp add: div_greater_zero_iff Suc_le_eq)
  moreover have "256 mod limit < limit" using \<open>0 < limit\<close> by simp
  moreover have "limit * (256 div limit) + 256 mod limit = 256" by simp
  ultimately show ?thesis by linarith
qed

lemma randomIndex_accepts:
  "unat b < 128 \<Longrightarrow> 0 < limit \<Longrightarrow> limit \<le> 256 \<Longrightarrow>
    randomIndex limit (b # rng) = Inr (unat b mod limit, rng)"
  using ceiling_large [of limit] by (simp add: randomIndex_def)

lemma shuffle_progress:
  "\<forall>b \<in> set draws. unat b < 128 \<Longrightarrow> length draws = i \<Longrightarrow> i < 255 \<Longrightarrow>
    \<exists>pool'. shuffle i pool (draws @ rng) = Inr (pool', rng)"
proof (induction i arbitrary: pool draws)
  case 0
  then show ?case by simp
next
  case (Suc i)
  then obtain b ds where "draws = b # ds" by (cases draws) auto
  with Suc show ?case by (simp add: randomIndex_accepts)
qed

lemma fill_shares_progress:
  "length secret * (t - 1) \<le> length rng \<Longrightarrow>
    \<exists>out rng'. fill_shares t coords off secret shares rng = Inr (out, rng')"
proof (induction secret arbitrary: off shares rng)
  case Nil
  then show ?case by simp
next
  case (Cons b secret)
  then show ?case by (simp add: read_full_def Let_def)
qed

lemma Split_progress:
  assumes "secret \<noteq> []" and "2 \<le> t" and "t \<le> n" and "n \<le> 255"
    and "\<forall>b \<in> set draws. unat b < 128" and "length draws = 254"
    and "length secret * nat (t - 1) \<le> length rng"
  shows "\<exists>shares rng'. Split secret n t (draws @ rng) = Inr (shares, rng')"
proof -
  have "MaxShares - 1 < 255" "length draws = MaxShares - 1"
    using assms(6) by (simp_all add: MaxShares_def)
  then obtain pool where "shuffle (MaxShares - 1)
      (map (\<lambda>i. word_of_nat (i + 1)) [0..<MaxShares]) (draws @ rng) = Inr (pool, rng)"
    using shuffle_progress [OF assms(5)] by blast
  then have "randomCoordinates (nat n) (draws @ rng) = Inr (take (nat n) pool, rng)"
    by (simp add: randomCoordinates_def)
  moreover have "nat t - 1 = nat (t - 1)" using assms(2) by simp
  ultimately show ?thesis
    using assms fill_shares_progress [of secret "nat t" rng]
    by (simp add: Split_def MaxShares_def Let_def)
qed

lemma Combine_selection:
  assumes "Split secret n t rng = Inr (shares, rng')"
    and "distinct sel" and "set sel \<subseteq> set shares" and "t \<le> int (length sel)"
  shows "Combine sel = Inr secret"
proof -
  obtain coords polys where sh: "shares = map (deal polys) coords"
    and h: "hides (nat t) secret polys" and c: "length coords = nat n" "0 \<notin> set coords"
    and ok: "secret \<noteq> []" "2 \<le> t" "t \<le> n" "n \<le> 255"
    using assms(1) by (rule Split_deals)
  have sel: "sel = map (deal polys) (map last sel)"
    using assms(3) sh by (intro nth_equalityI) (auto simp: deal_def dest!: nth_mem)
  have "distinct (map last sel)" using assms(2) by (metis sel distinct_map)
  moreover have "set (map last sel) \<subseteq> set coords" using assms(3) sh by (auto simp: deal_def)
  moreover from calculation have "length sel \<le> 255"
    using c ok by (metis card_length card_mono distinct_card finite_set le_trans length_map
        nat_le_iff of_nat_numeral)
  moreover from calculation have "0 \<notin> set (map last sel)" using c by blast
  ultimately show ?thesis
    using Combine_deals [OF h, of "map last sel", folded sel] ok assms(4) by simp
qed

section \<open>Properties\<close>

text \<open>
  C1: any selection of at least \<open>threshold\<close> different shares of a split recovers the secret.
\<close>
theorem shamir_recovers:
  assumes "Split secret n t rng = Inr (shares, rng')"
    and "distinct sel" and "set sel \<subseteq> set shares" and "t \<le> int (length sel)"
  shows "Combine sel = Inr secret"
  using assms by (rule Combine_selection)

theorem shamir_recovers_witness:
  "\<exists>shares rng'. Split [7, 9] 3 2 (replicate 300 5) = Inr (shares, rng') \<and>
     Combine (take 2 shares) = Inr [7, 9] \<and> Combine (drop 1 shares) = Inr [7, 9]"
proof -
  have "replicate 300 (5 :: u8) = replicate 254 5 @ replicate 46 5"
    by (simp flip: replicate_add)
  then obtain shares rng' where s: "Split [7, 9] 3 2 (replicate 300 5) = Inr (shares, rng')"
    using Split_progress [of "[7, 9]" 2 3 "replicate 254 5" "replicate 46 5"] by auto
  obtain coords polys where sh: "shares = map (deal polys) coords"
    and "length coords = nat 3" "distinct coords" using s by (rule Split_deals)
  then have d: "distinct shares" "length shares = 3"
    by (auto simp: distinct_map deal_def inj_on_def)
  have "Combine (take 2 shares) = Inr [7, 9]"
    by (rule shamir_recovers [OF s]) (use d in \<open>auto dest: in_set_takeD\<close>)
  moreover have "Combine (drop 1 shares) = Inr [7, 9]"
    by (rule shamir_recovers [OF s]) (use d in \<open>auto dest: in_set_dropD\<close>)
  ultimately show ?thesis using s by blast
qed

lemma polyval_diff:
  "length as = length bs \<Longrightarrow> polyval (map2 (-) as bs) x = polyval as x - polyval bs x"
proof (induction as bs rule: list_induct2)
  case (Cons a as b bs)
  then show ?case by (simp add: right_diff_distrib)
qed simp

lemma evaluate_inject:
  assumes "distinct xs" and "0 \<notin> set xs" and "length cs = length xs" and "length ds = length xs"
    and "\<And>i. i < length xs \<Longrightarrow> evaluate (s # cs) (xs ! i) = evaluate (s # ds) (xs ! i)"
  shows "cs = ds"
proof -
  let ?d = "map2 (-) (map gf (s # cs)) (map gf (s # ds))"
  let ?X = "gf ` insert 0 (set xs)"
  have "card ?X = Suc (length xs)"
    using assms(1,2) by (subst card_image) (simp_all add: inj_on_def distinct_card)
  moreover have "\<forall>x \<in> ?X. polyval ?d x = 0"
  proof
    fix x assume "x \<in> ?X"
    then consider "x = 0" | i where "i < length xs" "x = gf (xs ! i)"
      by (auto simp: gf_0 in_set_conv_nth)
    then show "polyval ?d x = 0"
    proof cases
      case 1
      then show ?thesis by simp
    next
      case 2
      then have "polyval (map gf (s # cs)) x = polyval (map gf (s # ds)) x"
        using assms(5) [OF 2(1)] by (metis gf_evaluate list.distinct(1))
      then show ?thesis using assms(3,4) by (simp only: polyval_diff length_map length_Cons) simp
    qed
  qed
  ultimately have zero: "set ?d \<subseteq> {0}"
    using assms(3,4) by (intro polyval_roots [of ?X]) simp_all
  show ?thesis
  proof (rule nth_equalityI)
    fix i assume "i < length cs"
    then have "?d ! Suc i \<in> set ?d" using assms(3,4) by (intro nth_mem) simp
    with zero have "?d ! Suc i = 0" by blast
    then show "cs ! i = ds ! i"
      using \<open>i < length cs\<close> assms(3,4) by simp
  qed (use assms in simp)
qed



lemma card_residues:
  fixes m k :: nat
  assumes "j < m"
  shows "card {n. n < k * m \<and> n mod m = j} = k"
proof -
  have "{n. n < k * m \<and> n mod m = j} = (\<lambda>q. q * m + j) ` {..<k}"
  proof (intro set_eqI iffI)
    fix n assume "n \<in> {n. n < k * m \<and> n mod m = j}"
    then have "n < k * m" "n mod m = j" by simp_all
    then have "n div m < k" by (simp add: less_mult_imp_div_less)
    moreover have "n = n div m * m + j" using \<open>n mod m = j\<close> by (metis div_mult_mod_eq)
    ultimately show "n \<in> (\<lambda>q. q * m + j) ` {..<k}" by blast
  next
    fix n assume "n \<in> (\<lambda>q. q * m + j) ` {..<k}"
    then obtain q where q: "q < k" "n = q * m + j" by blast
    then have "Suc q * m \<le> k * m" by (intro mult_le_mono1) simp
    with q assms show "n \<in> {n. n < k * m \<and> n mod m = j}" by simp
  qed
  moreover have "inj_on (\<lambda>q. q * m + j) {..<k}" using assms by (auto simp: inj_on_def)
  ultimately show ?thesis by (simp add: card_image)
qed

text \<open>
  the index drawn for the shuffle is unbiased: every index below the limit is returned
  for the same number of random bytes, and the remaining bytes are drawn again.
\<close>
theorem randomIndex_uniform:
  assumes "0 < limit" and "limit \<le> 256" and "j < limit"
  shows "card {b. randomIndex limit [b] = Inr (j, [])} = 256 div limit"
proof -
  have ceil: "256 - 256 mod limit = 256 div limit * limit"
    by (metis minus_mod_eq_div_mult)
  have "{b. randomIndex limit [b] = Inr (j, [])} =
      word_of_nat ` {n. n < 256 div limit * limit \<and> n mod limit = j}"
    (is "?B = ?W ` ?N")
  proof (intro set_eqI iffI)
    fix b assume "b \<in> ?B"
    then have "unat b \<in> ?N" by (auto simp: randomIndex_def ceil split: if_splits)
    moreover have "b = ?W (unat b)" by simp
    ultimately show "b \<in> ?W ` ?N" by blast
  next
    fix b assume "b \<in> ?W ` ?N"
    then obtain n where n: "b = word_of_nat n" "n < 256 div limit * limit" "n mod limit = j" by blast
    moreover have "256 div limit * limit \<le> 256" by (metis div_times_less_eq_dividend)
    ultimately have "n < 256" by linarith
    then have "unat b = n" using n(1) by (simp add: unat_word_of_nat_u8)
    with n show "b \<in> ?B" by (simp add: randomIndex_def ceil)
  qed
  moreover have "inj_on ?W ?N"
  proof (rule inj_onI)
    fix m n assume "m \<in> ?N" "n \<in> ?N" and eq: "?W m = (?W n :: u8)"
    moreover have le: "256 div limit * limit \<le> 256" by (metis div_times_less_eq_dividend)
    ultimately have "m < 256" "n < 256" by (auto intro: less_le_trans [OF _ le])
    with eq show "m = n" by (metis unat_word_of_nat_u8 mod_less)
  qed
  ultimately show ?thesis using card_residues [OF assms(3)] by (simp add: card_image)
qed

theorem randomIndex_uniform_witness:
  "card {b. randomIndex 255 [b] = Inr (254, [])} = 256 div 255"
  by (rule randomIndex_uniform) simp_all

end
