(* ===== verification/GoLib.thy ===== *)
theory GoLib
  imports Prelude "HOL-Library.Char_ord"
begin

text \<open>
  The part of Go's standard library the SDK leans on, as executable functions: \<open>encoding/hex\<close>,
  \<open>strconv\<close>, \<open>strings\<close> and \<open>math/big\<close>. A Go string is a byte sequence and is modelled by
  an Isabelle \<open>string\<close>, whose characters are bytes. \<open>strconv\<close> returns a value also when it
  fails (zero, or the nearest bound), and callers that ignore the error see it, so the parsers
  here return the value together with the error.
\<close>

section \<open>Strings as bytes\<close>

definition bytes_of_string :: "string \<Rightarrow> bytes" where
  "bytes_of_string s = map of_char s"

definition char_nat :: "char \<Rightarrow> nat" where
  "char_nat c = of_char c"

lemma length_bytes_of_string [simp, byte_simps]: "length (bytes_of_string s) = length s"
  by (simp add: bytes_of_string_def)

lemma unat_of_char: "unat (of_char c :: u8) = char_nat c"
proof -
  have "(of_char c :: u8) = word_of_nat (of_char c)" by (simp only: of_nat_of_char)
  moreover have "of_char c < (256 :: nat)" by (rule nat_of_char_less_256)
  ultimately show ?thesis by (simp only: unat_word_of_nat_u8 char_nat_def mod_less)
qed

lemma char_nat_inject [simp]: "char_nat c = char_nat d \<longleftrightarrow> c = d"
  by (simp add: char_nat_def)

lemma bytes_of_string_inject [simp]: "bytes_of_string s = bytes_of_string t \<longleftrightarrow> s = t"
proof -
  have "inj (of_char :: char \<Rightarrow> u8)" by (rule injI) (metis unat_of_char char_nat_inject)
  then show ?thesis by (auto simp: bytes_of_string_def inj_map_eq_map)
qed

section \<open>Hexadecimal\<close>

definition hexDigit :: "nat \<Rightarrow> char" where
  "hexDigit n = char_of (if n < 10 then 48 + n else 87 + n)"

definition fromHexChar :: "char \<Rightarrow> nat option" where
  "fromHexChar c =
     (let n = char_nat c in
      if 48 \<le> n \<and> n \<le> 57 then Some (n - 48)
      else if 97 \<le> n \<and> n \<le> 102 then Some (n - 87)
      else if 65 \<le> n \<and> n \<le> 70 then Some (n - 55)
      else None)"

fun hex_encode :: "bytes \<Rightarrow> string" where
  "hex_encode [] = []"
| "hex_encode (b # bs) = hexDigit (unat b div 16) # hexDigit (unat b mod 16) # hex_encode bs"

text \<open>\<open>hex.DecodeString\<close>; \<open>None\<close> is the error for an odd length or a character that is no digit.\<close>

fun hex_decode :: "string \<Rightarrow> bytes option" where
  "hex_decode [] = Some []"
| "hex_decode [c] = None"
| "hex_decode (c # d # s) =
     (case (fromHexChar c, fromHexChar d) of
        (Some hi, Some lo) \<Rightarrow> map_option (\<lambda>bs. word_of_nat (16 * hi + lo) # bs) (hex_decode s)
      | _ \<Rightarrow> None)"

lemma char_nat_hexDigit: "n < 16 \<Longrightarrow> char_nat (hexDigit n) = (if n < 10 then 48 + n else 87 + n)"
  by (auto simp: char_nat_def hexDigit_def)

lemma fromHexChar_hexDigit [simp]: "n < 16 \<Longrightarrow> fromHexChar (hexDigit n) = Some n"
  by (auto simp: fromHexChar_def char_nat_hexDigit Let_def)

lemma hex_decode_encode [simp]: "hex_decode (hex_encode bs) = Some bs"
proof (induction bs)
  case (Cons b bs)
  have "unat b div 16 < 16" using unat_lt_256 [of b] by linarith
  then show ?case using Cons by (simp add: fromHexChar_hexDigit)
qed simp

lemma hex_encode_inject [simp]: "hex_encode xs = hex_encode ys \<longleftrightarrow> xs = ys"
  by (metis hex_decode_encode option.inject)

lemma length_hex_encode [simp, byte_simps]: "length (hex_encode bs) = 2 * length bs"
  by (induction bs) auto

lemma length_hex_decode: "hex_decode s = Some bs \<Longrightarrow> length s = 2 * length bs"
  by (induction s arbitrary: bs rule: hex_decode.induct) (auto split: option.splits)

lemma hexDigit_in: "n < 16 \<Longrightarrow> c = hexDigit n \<Longrightarrow> 48 \<le> char_nat c"
  by (auto simp: char_nat_hexDigit)

lemma set_hex_encode: "c \<in> set (hex_encode bs) \<Longrightarrow> 48 \<le> char_nat c"
proof (induction bs)
  case (Cons b bs)
  have "unat b div 16 < 16" using unat_lt_256 [of b] by linarith
  then show ?case using Cons by (auto simp: char_nat_hexDigit)
qed simp

text \<open>\<open>script, _ := hex.DecodeString (s)\<close>: the bytes before the first bad digit.\<close>

fun hex_decoded_bytes :: "string \<Rightarrow> bytes" where
  "hex_decoded_bytes (c # d # s) =
     (case (fromHexChar c, fromHexChar d) of
        (Some x, Some y) \<Rightarrow> word_of_nat (16 * x + y) # hex_decoded_bytes s
      | _ \<Rightarrow> [])"
| "hex_decoded_bytes s = []"

lemma set_hex_lower: "c \<in> set (hex_encode bs) \<Longrightarrow> char_nat c \<le> 57 \<or> 97 \<le> char_nat c"
proof (induction bs)
  case (Cons b bs)
  have "unat b div 16 < 16" using unat_lt_256 [of b] by linarith
  then show ?case using Cons by (auto simp: char_nat_hexDigit split: if_splits)
qed simp

section \<open>Decimal numbers\<close>

datatype num_error = ErrSyntax | ErrRange

text \<open>\<open>strconv.FormatUint\<close> and \<open>strconv.Itoa\<close> in base ten.\<close>

fun FormatUint :: "nat \<Rightarrow> string" where
  "FormatUint n =
     (if n < 10 then [char_of (48 + n)] else FormatUint (n div 10) @ [char_of (48 + n mod 10)])"

declare FormatUint.simps [simp del]

definition Itoa :: "int \<Rightarrow> string" where
  "Itoa i = (if i < 0 then CHR ''-'' # FormatUint (nat (- i)) else FormatUint (nat i))"

definition digit_of :: "char \<Rightarrow> nat option" where
  "digit_of c = (let n = char_nat c in if 48 \<le> n \<and> n \<le> 57 then Some (n - 48) else None)"

text \<open>
  \<open>strconv.ParseUint (s, 10, bits)\<close>: digits are read left to right, and the range error is
  returned as soon as the value leaves the range, before later characters are looked at.
\<close>

fun ParseUint_loop :: "nat \<Rightarrow> nat \<Rightarrow> string \<Rightarrow> nat \<times> num_error option" where
  "ParseUint_loop bits n [] = (n, None)"
| "ParseUint_loop bits n (c # s) =
     (case digit_of c of
        None \<Rightarrow> (0, Some ErrSyntax)
      | Some d \<Rightarrow>
          if 10 * n + d \<ge> 2 ^ bits then (2 ^ bits - 1, Some ErrRange)
          else ParseUint_loop bits (10 * n + d) s)"

definition ParseUint :: "nat \<Rightarrow> string \<Rightarrow> nat \<times> num_error option" where
  "ParseUint bits s = (if s = [] then (0, Some ErrSyntax) else ParseUint_loop bits 0 s)"

definition ParseInt :: "nat \<Rightarrow> string \<Rightarrow> int \<times> num_error option" where
  "ParseInt bits s =
     (case s of
        [] \<Rightarrow> (0, Some ErrSyntax)
      | c # cs \<Rightarrow>
        let neg = (c = CHR ''-'');
            digits = (if c = CHR ''+'' \<or> c = CHR ''-'' then cs else s);
            cutoff = 2 ^ (bits - 1)
        in (case ParseUint bits digits of
              (_, Some ErrSyntax) \<Rightarrow> (0, Some ErrSyntax)
            | (un, _) \<Rightarrow>
                if \<not> neg \<and> un \<ge> cutoff then (int cutoff - 1, Some ErrRange)
                else if neg \<and> un > cutoff then (- int cutoff, Some ErrRange)
                else (if neg then - int un else int un, None)))"

definition Atoi :: "string \<Rightarrow> int option" where
  "Atoi s = (case ParseInt 64 s of (n, None) \<Rightarrow> Some n | (_, Some _) \<Rightarrow> None)"

text \<open>\<open>new(big.Int).SetString(s, 10)\<close>: an optional sign, then digits to the end.\<close>

fun digits_value :: "nat \<Rightarrow> string \<Rightarrow> nat option" where
  "digits_value n [] = Some n"
| "digits_value n (c # s) =
     (case digit_of c of None \<Rightarrow> None | Some d \<Rightarrow> digits_value (10 * n + d) s)"

definition big_SetString :: "string \<Rightarrow> int option" where
  "big_SetString s =
     (case s of
        [] \<Rightarrow> None
      | c # cs \<Rightarrow>
        let digits = (if c = CHR ''+'' \<or> c = CHR ''-'' then cs else s)
        in if digits = [] then None
           else map_option (\<lambda>n. if c = CHR ''-'' then - int n else int n) (digits_value 0 digits))"

lemma char_nat_digit [simp]: "d < 10 \<Longrightarrow> char_nat (char_of (48 + d)) = 48 + d"
  by (simp add: char_nat_def)

lemma digit_of_digit [simp]: "d < 10 \<Longrightarrow> digit_of (char_of (48 + d)) = Some d"
  by (simp add: digit_of_def Let_def)

lemma FormatUint_not_Nil [simp]: "FormatUint n \<noteq> []"
  by (subst FormatUint.simps) simp

lemma digits_value_append:
  "digits_value n (s @ t) = (case digits_value n s of None \<Rightarrow> None | Some m \<Rightarrow> digits_value m t)"
  by (induction n s rule: digits_value.induct) (auto split: option.splits)

lemma digits_value_FormatUint: "digits_value 0 (FormatUint n) = Some n"
proof (induction n rule: FormatUint.induct)
  case (1 n)
  show ?case
  proof (cases "n < 10")
    case True
    then show ?thesis by (subst FormatUint.simps) simp
  next
    case False
    then have "FormatUint n = FormatUint (n div 10) @ [char_of (48 + n mod 10)]"
      by (subst FormatUint.simps) simp
    then show ?thesis using 1 False by (simp add: digits_value_append)
  qed
qed

lemma FormatUint_inject [simp]: "FormatUint m = FormatUint n \<longleftrightarrow> m = n"
  by (metis digits_value_FormatUint option.inject)

lemma digits_value_mono: "digits_value n s = Some m \<Longrightarrow> n \<le> m"
  by (induction n s rule: digits_value.induct) (auto split: option.splits)

lemma ParseUint_loop_value:
  "digits_value n s = Some m \<Longrightarrow> m < 2 ^ bits \<Longrightarrow> ParseUint_loop bits n s = (m, None)"
proof (induction n s rule: digits_value.induct)
  case (2 n c s)
  then show ?case by (auto split: option.splits dest: digits_value_mono)
qed simp

lemma ParseUint_loop_sound:
  "ParseUint_loop bits n s = (m, None) \<Longrightarrow> n < 2 ^ bits \<Longrightarrow> digits_value n s = Some m \<and> m < 2 ^ bits"
  by (induction bits n s rule: ParseUint_loop.induct) (auto split: option.splits if_splits)

lemma ParseUint_loop_bound: "n < 2 ^ bits \<Longrightarrow> fst (ParseUint_loop bits n s) < 2 ^ bits"
  by (induction bits n s rule: ParseUint_loop.induct) (auto split: option.splits)

lemma ParseUint_bound: "fst (ParseUint bits s) < 2 ^ bits"
  by (simp add: ParseUint_def ParseUint_loop_bound)

lemma ParseUint_FormatUint: "n < 2 ^ bits \<Longrightarrow> ParseUint bits (FormatUint n) = (n, None)"
  by (simp add: ParseUint_def ParseUint_loop_value digits_value_FormatUint)

lemma FormatUint_digits: "c \<in> set (FormatUint n) \<Longrightarrow> 48 \<le> char_nat c \<and> char_nat c \<le> 57"
proof (induction n rule: FormatUint.induct)
  case (1 n)
  show ?case
  proof (cases "n < 10")
    case True
    then have "c = char_of (48 + n)" using 1(2) by (subst (asm) FormatUint.simps) simp
    then show ?thesis using True by simp
  next
    case False
    then have "FormatUint n = FormatUint (n div 10) @ [char_of (48 + n mod 10)]"
      by (subst FormatUint.simps) simp
    then show ?thesis using 1 False by auto
  qed
qed

lemma hd_FormatUint: "FormatUint n = c # cs \<Longrightarrow> c \<noteq> CHR ''-'' \<and> c \<noteq> CHR ''+''"
  using FormatUint_digits [of c n] by (auto simp: char_nat_def)

lemma Atoi_FormatUint: "n < 2 ^ 63 \<Longrightarrow> Atoi (FormatUint n) = Some (int n)"
proof -
  assume n: "n < 2 ^ 63"
  obtain c cs where c: "FormatUint n = c # cs" by (cases "FormatUint n") auto
  have "ParseUint 64 (FormatUint n) = (n, None)" using n by (intro ParseUint_FormatUint) simp
  then show ?thesis using n hd_FormatUint [OF c] c by (simp add: Atoi_def ParseInt_def Let_def)
qed

section \<open>Splitting and joining\<close>

text \<open>\<open>strings.Split(s, sep)\<close> for a separator of one byte, and \<open>strings.Join\<close>.\<close>

fun split_loop :: "char \<Rightarrow> string \<Rightarrow> string \<Rightarrow> string list" where
  "split_loop sep acc [] = [rev acc]"
| "split_loop sep acc (c # s) =
     (if c = sep then rev acc # split_loop sep [] s else split_loop sep (c # acc) s)"

definition strings_Split :: "string \<Rightarrow> char \<Rightarrow> string list" where
  "strings_Split s sep = split_loop sep [] s"

fun strings_Join :: "string list \<Rightarrow> string \<Rightarrow> string" where
  "strings_Join [] sep = []"
| "strings_Join [s] sep = s"
| "strings_Join (s # t # ss) sep = s @ sep @ strings_Join (t # ss) sep"


lemma split_loop_append:
  "sep \<notin> set w \<Longrightarrow> split_loop sep acc (w @ s) = split_loop sep (rev w @ acc) s"
  by (induction w arbitrary: acc) auto

lemma split_join:
  "ss \<noteq> [] \<Longrightarrow> \<forall>s \<in> set ss. sep \<notin> set s \<Longrightarrow> strings_Split (strings_Join ss [sep]) sep = ss"
proof (induction ss rule: induct_list012)
  case (2 s)
  then show ?case
    using split_loop_append [of sep s "[]" "[]"] by (simp add: strings_Split_def)
next
  case (3 s t ss)
  then show ?case by (simp add: strings_Split_def split_loop_append)
qed simp

lemma no_separator: "CHR ''_'' \<notin> set (hex_encode bs)"
proof
  assume "CHR ''_'' \<in> set (hex_encode bs)"
  from set_hex_lower [OF this] show False by (simp add: char_nat_def)
qed

lemma split_signatures:
  "sigs \<noteq> [] \<Longrightarrow> strings_Split (strings_Join (map hex_encode sigs) ''_'') CHR ''_'' = map hex_encode sigs"
  by (rule split_join) (auto simp: no_separator)

text \<open>\<open>strings.Split(s, sep)\<close> for a separator of several bytes, and \<open>strings.Contains\<close>.\<close>

function split_str_loop :: "string \<Rightarrow> string \<Rightarrow> string \<Rightarrow> string list" where
  "split_str_loop sep acc s =
     (if s = [] then [rev acc]
      else if sep \<noteq> [] \<and> take (length sep) s = sep
      then rev acc # split_str_loop sep [] (drop (length sep) s)
      else split_str_loop sep (hd s # acc) (tl s))"
  by pat_completeness auto
termination by (relation "measure (\<lambda>(_, _, s). length s)") (auto simp: neq_Nil_conv)

declare split_str_loop.simps [simp del]

definition strings_SplitStr :: "string \<Rightarrow> string \<Rightarrow> string list" where
  "strings_SplitStr s sep = split_str_loop sep [] s"

fun strings_Contains :: "string \<Rightarrow> string \<Rightarrow> bool" where
  "strings_Contains s sub =
     (take (length sub) s = sub \<or> (case s of [] \<Rightarrow> False | _ # t \<Rightarrow> strings_Contains t sub))"

declare strings_Contains.simps [simp del]

text \<open>\<open>strings.HasPrefix\<close>, \<open>strings.HasSuffix\<close>, \<open>strings.TrimPrefix\<close> and \<open>strings.TrimSuffix\<close>.\<close>

definition strings_HasPrefix :: "string \<Rightarrow> string \<Rightarrow> bool" where
  "strings_HasPrefix s p \<longleftrightarrow> take (length p) s = p"

definition strings_HasSuffix :: "string \<Rightarrow> string \<Rightarrow> bool" where
  "strings_HasSuffix s p \<longleftrightarrow> length p \<le> length s \<and> drop (length s - length p) s = p"

definition strings_TrimPrefix :: "string \<Rightarrow> string \<Rightarrow> string" where
  "strings_TrimPrefix s p = (if strings_HasPrefix s p then drop (length p) s else s)"

definition strings_TrimSuffix :: "string \<Rightarrow> string \<Rightarrow> string" where
  "strings_TrimSuffix s p =
     (if strings_HasSuffix s p then take (length s - length p) s else s)"

lemma TrimPrefix_append [simp]: "strings_TrimPrefix (p @ s) p = s"
  by (simp add: strings_TrimPrefix_def strings_HasPrefix_def)

lemma HasSuffix_append [simp]: "strings_HasSuffix (s @ p) p"
  by (simp add: strings_HasSuffix_def)

lemma TrimSuffix_append [simp]: "strings_TrimSuffix (s @ p) p = s"
  by (simp add: strings_TrimSuffix_def)

lemma HasSuffix_single: "strings_HasSuffix s [c] \<longleftrightarrow> s \<noteq> [] \<and> last s = c"
  by (cases s rule: rev_cases) (auto simp: strings_HasSuffix_def)

text \<open>
  \<open>unicode.IsSpace\<close> on the rune a string starts with: the number of its bytes, zero when it is
  no space. The lead bytes \<open>C2\<close>, \<open>E1\<close>, \<open>E2\<close> and \<open>E3\<close> always start a rune, so the byte patterns
  of the space characters are recognised wherever they stand.
\<close>

definition space_len :: "string \<Rightarrow> nat" where
  "space_len s =
     (case map char_nat (take 3 s) of
        [] \<Rightarrow> 0
      | a # bs \<Rightarrow>
          if a \<in> {9, 10, 11, 12, 13, 32} then 1
          else if a = 0xC2 \<and> (take 1 bs = [0x85] \<or> take 1 bs = [0xA0]) then 2
          else if a = 0xE1 \<and> bs = [0x9A, 0x80] then 3
          else if a = 0xE2 \<and> (bs = [0x80, 0xA8] \<or> bs = [0x80, 0xA9] \<or> bs = [0x80, 0xAF] \<or>
              bs = [0x81, 0x9F]) then 3
          else if a = 0xE2 \<and> take 1 bs = [0x80] \<and> length bs = 2 \<and> 0x80 \<le> bs ! 1 \<and> bs ! 1 \<le> 0x8A
            then 3
          else if a = 0xE3 \<and> bs = [0x80, 0x80] then 3
          else 0)"

text \<open>\<open>strings.Fields\<close>, with the field being collected in reverse.\<close>

function fields_loop :: "string \<Rightarrow> string \<Rightarrow> string list" where
  "fields_loop acc [] = (if acc = [] then [] else [rev acc])"
| "fields_loop acc (c # s) =
     (if space_len (c # s) = 0 then fields_loop (c # acc) s
      else (if acc = [] then [] else [rev acc]) @ fields_loop [] (drop (space_len (c # s) - 1) s))"
  by pat_completeness auto
termination by (relation "measure (\<lambda>(_, s). length s)") auto

definition strings_Fields :: "string \<Rightarrow> string list" where
  "strings_Fields s = fields_loop [] s"

text \<open>\<open>strings.TrimSpace\<close>.\<close>

function trim_left :: "string \<Rightarrow> string" where
  "trim_left s = (if space_len s = 0 \<or> s = [] then s else trim_left (drop (space_len s) s))"
  by pat_completeness auto
termination by (relation "measure length") auto

declare trim_left.simps [simp del]

text \<open>The space character a string ends with, as the number of its bytes.\<close>

definition space_suffix_len :: "string \<Rightarrow> nat" where
  "space_suffix_len s =
     (if s \<noteq> [] \<and> space_len (drop (length s - 1) s) = 1 then 1
      else if 2 \<le> length s \<and> space_len (drop (length s - 2) s) = 2 then 2
      else if 3 \<le> length s \<and> space_len (drop (length s - 3) s) = 3 then 3
      else 0)"

function trim_right :: "string \<Rightarrow> string" where
  "trim_right s =
     (if space_suffix_len s = 0 \<or> s = [] then s
      else trim_right (take (length s - space_suffix_len s) s))"
  by pat_completeness auto
termination by (relation "measure length") auto

declare trim_right.simps [simp del]

definition strings_TrimSpace :: "string \<Rightarrow> string" where
  "strings_TrimSpace s = trim_right (trim_left s)"

definition lowercase :: "string \<Rightarrow> bool" where
  "lowercase s \<longleftrightarrow> s \<noteq> [] \<and> (\<forall>c \<in> set s. 97 \<le> char_nat c \<and> char_nat c \<le> 122)"

lemma space_len_letter: "97 \<le> char_nat c \<Longrightarrow> char_nat c \<le> 122 \<Longrightarrow> space_len (c # s) = 0"
  by (auto simp: space_len_def split: list.splits)

lemma space_len_blank: "space_len (CHR '' '' # s) = 1"
  by (auto simp: space_len_def char_nat_def)

lemma fields_loop_letters:
  "\<forall>c \<in> set w. 97 \<le> char_nat c \<and> char_nat c \<le> 122 \<Longrightarrow>
     fields_loop acc (w @ s) = fields_loop (rev w @ acc) s"
  by (induction w arbitrary: acc) (auto simp: space_len_letter)

lemma Fields_Join:
  "\<forall>w \<in> set ws. lowercase w \<Longrightarrow> strings_Fields (strings_Join ws '' '') = ws"
proof (induction ws rule: induct_list012)
  case 1
  then show ?case by (simp add: strings_Fields_def)
next
  case (2 w)
  then show ?case
    using fields_loop_letters [of w "[]" "[]"] by (simp add: strings_Fields_def lowercase_def)
next
  case (3 v w ws)
  then have "strings_Fields (strings_Join (w # ws) '' '') = w # ws" by simp
  then show ?case using 3(3)
    by (simp add: strings_Fields_def lowercase_def fields_loop_letters space_len_blank)
qed

lemma TrimSpace_lowercase: "lowercase w \<Longrightarrow> strings_TrimSpace w = w"
proof -
  assume w: "lowercase w"
  then have none: "space_len (drop k w) = 0" for k
  proof (cases "drop k w")
    case (Cons c s)
    then have "c \<in> set w" by (metis in_set_dropD list.set_intros(1))
    then show ?thesis using w Cons by (simp add: lowercase_def space_len_letter)
  qed (simp add: space_len_def)
  then have "trim_left w = w" using none [of 0] by (subst trim_left.simps) simp
  moreover have "space_suffix_len w = 0" using none by (simp add: space_suffix_len_def)
  then have "trim_right w = w" by (subst trim_right.simps) simp
  ultimately show ?thesis by (simp add: strings_TrimSpace_def)
qed

section \<open>Big integers as bytes\<close>

text \<open>\<open>(*big.Int).Bytes\<close>: big endian without leading zeros.\<close>

function big_Bytes_le :: "nat \<Rightarrow> bytes" where
  "big_Bytes_le n = (if n = 0 then [] else word_of_nat n # big_Bytes_le (n div 256))"
  by pat_completeness auto
termination by (relation "measure id") auto

declare big_Bytes_le.simps [simp del]

definition big_Bytes :: "nat \<Rightarrow> bytes" where
  "big_Bytes n = rev (big_Bytes_le n)"

lemma le_val_big_Bytes_le: "le_val (big_Bytes_le n) = n"
proof (induction n rule: big_Bytes_le.induct)
  case (1 n)
  then show ?case by (subst big_Bytes_le.simps) (simp add: unat_word_of_nat_u8)
qed

lemma be_val_big_Bytes [simp]: "be_val (big_Bytes n) = n"
  by (simp add: big_Bytes_def be_val_rev le_val_big_Bytes_le)

lemma length_big_Bytes_le: "n < 256 ^ k \<Longrightarrow> length (big_Bytes_le n) \<le> k"
proof (induction k arbitrary: n)
  case 0
  then show ?case by (simp add: big_Bytes_le.simps)
next
  case (Suc k)
  then have "n div 256 < 256 ^ k" by (simp add: less_mult_imp_div_less mult.commute)
  then show ?case using Suc.IH by (subst big_Bytes_le.simps) simp
qed

lemma length_big_Bytes: "n < 256 ^ k \<Longrightarrow> length (big_Bytes n) \<le> k"
  by (simp add: big_Bytes_def length_big_Bytes_le)

section \<open>Arrays\<close>

text \<open>\<open>copy (array [:], b)\<close> into an array of zeros: a longer slice is cut, a shorter one leaves zeros.\<close>

definition copy_array :: "nat \<Rightarrow> bytes \<Rightarrow> bytes" where
  "copy_array n b = take n b @ replicate (n - length b) 0"

lemma length_copy_array [simp, byte_simps]: "length (copy_array n b) = n"
  by (simp add: copy_array_def)

lemma copy_array_same [simp]: "length b = n \<Longrightarrow> copy_array n b = b"
  by (simp add: copy_array_def)

section \<open>Hexadecimal numbers\<close>

text \<open>\<open>fmt.Sprintf ("%x", n)\<close>: lower-case digits without leading zeros, after a sign.\<close>

fun hex_digits :: "nat \<Rightarrow> string" where
  "hex_digits n = (if n < 16 then [hexDigit n] else hex_digits (n div 16) @ [hexDigit (n mod 16)])"

declare hex_digits.simps [simp del]

definition Sprintf_x :: "int \<Rightarrow> string" where
  "Sprintf_x i = (if i < 0 then CHR ''-'' # hex_digits (nat (- i)) else hex_digits (nat i))"

lemma hex_digits_step: "16 \<le> n \<Longrightarrow> hex_digits n = hex_digits (n div 16) @ [hexDigit (n mod 16)]"
  by (subst hex_digits.simps) simp

lemma hex_digits_small: "n < 16 \<Longrightarrow> hex_digits n = [hexDigit n]"
  by (subst hex_digits.simps) simp

lemma big_Bytes_step: "0 < n \<Longrightarrow> big_Bytes n = big_Bytes (n div 256) @ [word_of_nat n]"
  by (simp add: big_Bytes_def) (subst big_Bytes_le.simps, simp)

lemma hex_encode_append [simp]: "hex_encode (a @ b) = hex_encode a @ hex_encode b"
  by (induction a) auto

text \<open>Padded to an even length, the digits are those of the big-endian bytes.\<close>

lemma padded_hex_digits:
  "0 < n \<Longrightarrow> (if length (hex_digits n) mod 2 \<noteq> 0 then CHR ''0'' # hex_digits n else hex_digits n) = hex_encode (big_Bytes n)"
proof (induction n rule: less_induct)
  case (less n)
  have byte: "hex_encode [word_of_nat n] = [hexDigit (n mod 256 div 16), hexDigit (n mod 16)]"
    by (simp add: unat_word_of_nat_u8 mod_mod_cancel)
  have z: "hexDigit 0 = CHR ''0''" by (simp add: hexDigit_def char_of_eq_iff take_bit_eq_mod)
  consider "n < 16" | "16 \<le> n" "n < 256" | "256 \<le> n" by linarith
  then show ?case
  proof cases
    case 1
    then have "big_Bytes n = [word_of_nat n]"
      using less(2) by (simp add: big_Bytes_step) (simp add: big_Bytes_def big_Bytes_le.simps)
    then show ?thesis using 1 byte z by (simp add: hex_digits_small)
  next
    case 2
    then have "big_Bytes n = [word_of_nat n]"
      using less(2) by (simp add: big_Bytes_step) (simp add: big_Bytes_def big_Bytes_le.simps)
    moreover have "hex_digits n = [hexDigit (n div 16), hexDigit (n mod 16)]"
      using 2 by (simp add: hex_digits_step hex_digits_small div_less_iff_less_mult)
    ultimately show ?thesis using 2 byte by simp
  next
    case 3
    have d: "n div 16 div 16 = n div 256" "n div 16 mod 16 = n mod 256 div 16"
      by (simp_all add: div_mult2_eq [symmetric] mod_mult2_eq [of n 16 16, simplified])
    have "16 \<le> n div 16" using 3 by (simp add: less_eq_div_iff_mult_less_eq)
    then have digits: "hex_digits n = hex_digits (n div 256) @ [hexDigit (n mod 256 div 16), hexDigit (n mod 16)]"
      using 3 d by (simp add: hex_digits_step)
    have "0 < n div 256" "n div 256 < n" using 3 by (simp_all add: div_greater_zero_iff)
    from less(1) [OF this(2,1)] show ?thesis
      using less(2) byte by (auto simp: digits big_Bytes_step [of n] split: if_splits)
  qed
qed

end
