(* ===== verification/English.thy ===== *)
theory English
  imports GoLib
begin

text \<open>
  \<open>crypto/bip/english.go\<close>: the BIP-39 English word list, in sixteen parts of 128 words. The
  words are lower-case and strictly ascending, so the list has no duplicates and every word
  has one index.
\<close>

section \<open>The word list\<close>

definition English_01 :: "string list" where
  "English_01 = [
    ''abandon'', ''ability'', ''able'', ''about'', ''above'', ''absent'', ''absorb'',
    ''abstract'', ''absurd'', ''abuse'', ''access'', ''accident'', ''account'', ''accuse'',
    ''achieve'', ''acid'', ''acoustic'', ''acquire'', ''across'', ''act'', ''action'',
    ''actor'', ''actress'', ''actual'', ''adapt'', ''add'', ''addict'', ''address'',
    ''adjust'', ''admit'', ''adult'', ''advance'', ''advice'', ''aerobic'', ''affair'',
    ''afford'', ''afraid'', ''again'', ''age'', ''agent'', ''agree'', ''ahead'', ''aim'',
    ''air'', ''airport'', ''aisle'', ''alarm'', ''album'', ''alcohol'', ''alert'', ''alien'',
    ''all'', ''alley'', ''allow'', ''almost'', ''alone'', ''alpha'', ''already'', ''also'',
    ''alter'', ''always'', ''amateur'', ''amazing'', ''among'', ''amount'', ''amused'',
    ''analyst'', ''anchor'', ''ancient'', ''anger'', ''angle'', ''angry'', ''animal'',
    ''ankle'', ''announce'', ''annual'', ''another'', ''answer'', ''antenna'', ''antique'',
    ''anxiety'', ''any'', ''apart'', ''apology'', ''appear'', ''apple'', ''approve'',
    ''april'', ''arch'', ''arctic'', ''area'', ''arena'', ''argue'', ''arm'', ''armed'',
    ''armor'', ''army'', ''around'', ''arrange'', ''arrest'', ''arrive'', ''arrow'', ''art'',
    ''artefact'', ''artist'', ''artwork'', ''ask'', ''aspect'', ''assault'', ''asset'',
    ''assist'', ''assume'', ''asthma'', ''athlete'', ''atom'', ''attack'', ''attend'',
    ''attitude'', ''attract'', ''auction'', ''audit'', ''august'', ''aunt'', ''author'',
    ''auto'', ''autumn'', ''average'', ''avocado'']"

definition English_02 :: "string list" where
  "English_02 = [
    ''avoid'', ''awake'', ''aware'', ''away'', ''awesome'', ''awful'', ''awkward'', ''axis'',
    ''baby'', ''bachelor'', ''bacon'', ''badge'', ''bag'', ''balance'', ''balcony'', ''ball'',
    ''bamboo'', ''banana'', ''banner'', ''bar'', ''barely'', ''bargain'', ''barrel'',
    ''base'', ''basic'', ''basket'', ''battle'', ''beach'', ''bean'', ''beauty'', ''because'',
    ''become'', ''beef'', ''before'', ''begin'', ''behave'', ''behind'', ''believe'',
    ''below'', ''belt'', ''bench'', ''benefit'', ''best'', ''betray'', ''better'',
    ''between'', ''beyond'', ''bicycle'', ''bid'', ''bike'', ''bind'', ''biology'', ''bird'',
    ''birth'', ''bitter'', ''black'', ''blade'', ''blame'', ''blanket'', ''blast'', ''bleak'',
    ''bless'', ''blind'', ''blood'', ''blossom'', ''blouse'', ''blue'', ''blur'', ''blush'',
    ''board'', ''boat'', ''body'', ''boil'', ''bomb'', ''bone'', ''bonus'', ''book'',
    ''boost'', ''border'', ''boring'', ''borrow'', ''boss'', ''bottom'', ''bounce'', ''box'',
    ''boy'', ''bracket'', ''brain'', ''brand'', ''brass'', ''brave'', ''bread'', ''breeze'',
    ''brick'', ''bridge'', ''brief'', ''bright'', ''bring'', ''brisk'', ''broccoli'',
    ''broken'', ''bronze'', ''broom'', ''brother'', ''brown'', ''brush'', ''bubble'',
    ''buddy'', ''budget'', ''buffalo'', ''build'', ''bulb'', ''bulk'', ''bullet'', ''bundle'',
    ''bunker'', ''burden'', ''burger'', ''burst'', ''bus'', ''business'', ''busy'',
    ''butter'', ''buyer'', ''buzz'', ''cabbage'', ''cabin'', ''cable'']"

definition English_03 :: "string list" where
  "English_03 = [
    ''cactus'', ''cage'', ''cake'', ''call'', ''calm'', ''camera'', ''camp'', ''can'',
    ''canal'', ''cancel'', ''candy'', ''cannon'', ''canoe'', ''canvas'', ''canyon'',
    ''capable'', ''capital'', ''captain'', ''car'', ''carbon'', ''card'', ''cargo'',
    ''carpet'', ''carry'', ''cart'', ''case'', ''cash'', ''casino'', ''castle'', ''casual'',
    ''cat'', ''catalog'', ''catch'', ''category'', ''cattle'', ''caught'', ''cause'',
    ''caution'', ''cave'', ''ceiling'', ''celery'', ''cement'', ''census'', ''century'',
    ''cereal'', ''certain'', ''chair'', ''chalk'', ''champion'', ''change'', ''chaos'',
    ''chapter'', ''charge'', ''chase'', ''chat'', ''cheap'', ''check'', ''cheese'', ''chef'',
    ''cherry'', ''chest'', ''chicken'', ''chief'', ''child'', ''chimney'', ''choice'',
    ''choose'', ''chronic'', ''chuckle'', ''chunk'', ''churn'', ''cigar'', ''cinnamon'',
    ''circle'', ''citizen'', ''city'', ''civil'', ''claim'', ''clap'', ''clarify'', ''claw'',
    ''clay'', ''clean'', ''clerk'', ''clever'', ''click'', ''client'', ''cliff'', ''climb'',
    ''clinic'', ''clip'', ''clock'', ''clog'', ''close'', ''cloth'', ''cloud'', ''clown'',
    ''club'', ''clump'', ''cluster'', ''clutch'', ''coach'', ''coast'', ''coconut'', ''code'',
    ''coffee'', ''coil'', ''coin'', ''collect'', ''color'', ''column'', ''combine'', ''come'',
    ''comfort'', ''comic'', ''common'', ''company'', ''concert'', ''conduct'', ''confirm'',
    ''congress'', ''connect'', ''consider'', ''control'', ''convince'', ''cook'', ''cool'',
    ''copper'']"

definition English_04 :: "string list" where
  "English_04 = [
    ''copy'', ''coral'', ''core'', ''corn'', ''correct'', ''cost'', ''cotton'', ''couch'',
    ''country'', ''couple'', ''course'', ''cousin'', ''cover'', ''coyote'', ''crack'',
    ''cradle'', ''craft'', ''cram'', ''crane'', ''crash'', ''crater'', ''crawl'', ''crazy'',
    ''cream'', ''credit'', ''creek'', ''crew'', ''cricket'', ''crime'', ''crisp'', ''critic'',
    ''crop'', ''cross'', ''crouch'', ''crowd'', ''crucial'', ''cruel'', ''cruise'',
    ''crumble'', ''crunch'', ''crush'', ''cry'', ''crystal'', ''cube'', ''culture'', ''cup'',
    ''cupboard'', ''curious'', ''current'', ''curtain'', ''curve'', ''cushion'', ''custom'',
    ''cute'', ''cycle'', ''dad'', ''damage'', ''damp'', ''dance'', ''danger'', ''daring'',
    ''dash'', ''daughter'', ''dawn'', ''day'', ''deal'', ''debate'', ''debris'', ''decade'',
    ''december'', ''decide'', ''decline'', ''decorate'', ''decrease'', ''deer'', ''defense'',
    ''define'', ''defy'', ''degree'', ''delay'', ''deliver'', ''demand'', ''demise'',
    ''denial'', ''dentist'', ''deny'', ''depart'', ''depend'', ''deposit'', ''depth'',
    ''deputy'', ''derive'', ''describe'', ''desert'', ''design'', ''desk'', ''despair'',
    ''destroy'', ''detail'', ''detect'', ''develop'', ''device'', ''devote'', ''diagram'',
    ''dial'', ''diamond'', ''diary'', ''dice'', ''diesel'', ''diet'', ''differ'', ''digital'',
    ''dignity'', ''dilemma'', ''dinner'', ''dinosaur'', ''direct'', ''dirt'', ''disagree'',
    ''discover'', ''disease'', ''dish'', ''dismiss'', ''disorder'', ''display'', ''distance'',
    ''divert'', ''divide'']"

definition English_05 :: "string list" where
  "English_05 = [
    ''divorce'', ''dizzy'', ''doctor'', ''document'', ''dog'', ''doll'', ''dolphin'',
    ''domain'', ''donate'', ''donkey'', ''donor'', ''door'', ''dose'', ''double'', ''dove'',
    ''draft'', ''dragon'', ''drama'', ''drastic'', ''draw'', ''dream'', ''dress'', ''drift'',
    ''drill'', ''drink'', ''drip'', ''drive'', ''drop'', ''drum'', ''dry'', ''duck'',
    ''dumb'', ''dune'', ''during'', ''dust'', ''dutch'', ''duty'', ''dwarf'', ''dynamic'',
    ''eager'', ''eagle'', ''early'', ''earn'', ''earth'', ''easily'', ''east'', ''easy'',
    ''echo'', ''ecology'', ''economy'', ''edge'', ''edit'', ''educate'', ''effort'', ''egg'',
    ''eight'', ''either'', ''elbow'', ''elder'', ''electric'', ''elegant'', ''element'',
    ''elephant'', ''elevator'', ''elite'', ''else'', ''embark'', ''embody'', ''embrace'',
    ''emerge'', ''emotion'', ''employ'', ''empower'', ''empty'', ''enable'', ''enact'',
    ''end'', ''endless'', ''endorse'', ''enemy'', ''energy'', ''enforce'', ''engage'',
    ''engine'', ''enhance'', ''enjoy'', ''enlist'', ''enough'', ''enrich'', ''enroll'',
    ''ensure'', ''enter'', ''entire'', ''entry'', ''envelope'', ''episode'', ''equal'',
    ''equip'', ''era'', ''erase'', ''erode'', ''erosion'', ''error'', ''erupt'', ''escape'',
    ''essay'', ''essence'', ''estate'', ''eternal'', ''ethics'', ''evidence'', ''evil'',
    ''evoke'', ''evolve'', ''exact'', ''example'', ''excess'', ''exchange'', ''excite'',
    ''exclude'', ''excuse'', ''execute'', ''exercise'', ''exhaust'', ''exhibit'', ''exile'',
    ''exist'', ''exit'']"

definition English_06 :: "string list" where
  "English_06 = [
    ''exotic'', ''expand'', ''expect'', ''expire'', ''explain'', ''expose'', ''express'',
    ''extend'', ''extra'', ''eye'', ''eyebrow'', ''fabric'', ''face'', ''faculty'', ''fade'',
    ''faint'', ''faith'', ''fall'', ''false'', ''fame'', ''family'', ''famous'', ''fan'',
    ''fancy'', ''fantasy'', ''farm'', ''fashion'', ''fat'', ''fatal'', ''father'',
    ''fatigue'', ''fault'', ''favorite'', ''feature'', ''february'', ''federal'', ''fee'',
    ''feed'', ''feel'', ''female'', ''fence'', ''festival'', ''fetch'', ''fever'', ''few'',
    ''fiber'', ''fiction'', ''field'', ''figure'', ''file'', ''film'', ''filter'', ''final'',
    ''find'', ''fine'', ''finger'', ''finish'', ''fire'', ''firm'', ''first'', ''fiscal'',
    ''fish'', ''fit'', ''fitness'', ''fix'', ''flag'', ''flame'', ''flash'', ''flat'',
    ''flavor'', ''flee'', ''flight'', ''flip'', ''float'', ''flock'', ''floor'', ''flower'',
    ''fluid'', ''flush'', ''fly'', ''foam'', ''focus'', ''fog'', ''foil'', ''fold'',
    ''follow'', ''food'', ''foot'', ''force'', ''forest'', ''forget'', ''fork'', ''fortune'',
    ''forum'', ''forward'', ''fossil'', ''foster'', ''found'', ''fox'', ''fragile'',
    ''frame'', ''frequent'', ''fresh'', ''friend'', ''fringe'', ''frog'', ''front'',
    ''frost'', ''frown'', ''frozen'', ''fruit'', ''fuel'', ''fun'', ''funny'', ''furnace'',
    ''fury'', ''future'', ''gadget'', ''gain'', ''galaxy'', ''gallery'', ''game'', ''gap'',
    ''garage'', ''garbage'', ''garden'', ''garlic'', ''garment'']"

definition English_07 :: "string list" where
  "English_07 = [
    ''gas'', ''gasp'', ''gate'', ''gather'', ''gauge'', ''gaze'', ''general'', ''genius'',
    ''genre'', ''gentle'', ''genuine'', ''gesture'', ''ghost'', ''giant'', ''gift'',
    ''giggle'', ''ginger'', ''giraffe'', ''girl'', ''give'', ''glad'', ''glance'', ''glare'',
    ''glass'', ''glide'', ''glimpse'', ''globe'', ''gloom'', ''glory'', ''glove'', ''glow'',
    ''glue'', ''goat'', ''goddess'', ''gold'', ''good'', ''goose'', ''gorilla'', ''gospel'',
    ''gossip'', ''govern'', ''gown'', ''grab'', ''grace'', ''grain'', ''grant'', ''grape'',
    ''grass'', ''gravity'', ''great'', ''green'', ''grid'', ''grief'', ''grit'', ''grocery'',
    ''group'', ''grow'', ''grunt'', ''guard'', ''guess'', ''guide'', ''guilt'', ''guitar'',
    ''gun'', ''gym'', ''habit'', ''hair'', ''half'', ''hammer'', ''hamster'', ''hand'',
    ''happy'', ''harbor'', ''hard'', ''harsh'', ''harvest'', ''hat'', ''have'', ''hawk'',
    ''hazard'', ''head'', ''health'', ''heart'', ''heavy'', ''hedgehog'', ''height'',
    ''hello'', ''helmet'', ''help'', ''hen'', ''hero'', ''hidden'', ''high'', ''hill'',
    ''hint'', ''hip'', ''hire'', ''history'', ''hobby'', ''hockey'', ''hold'', ''hole'',
    ''holiday'', ''hollow'', ''home'', ''honey'', ''hood'', ''hope'', ''horn'', ''horror'',
    ''horse'', ''hospital'', ''host'', ''hotel'', ''hour'', ''hover'', ''hub'', ''huge'',
    ''human'', ''humble'', ''humor'', ''hundred'', ''hungry'', ''hunt'', ''hurdle'',
    ''hurry'', ''hurt'', ''husband'']"

definition English_08 :: "string list" where
  "English_08 = [
    ''hybrid'', ''ice'', ''icon'', ''idea'', ''identify'', ''idle'', ''ignore'', ''ill'',
    ''illegal'', ''illness'', ''image'', ''imitate'', ''immense'', ''immune'', ''impact'',
    ''impose'', ''improve'', ''impulse'', ''inch'', ''include'', ''income'', ''increase'',
    ''index'', ''indicate'', ''indoor'', ''industry'', ''infant'', ''inflict'', ''inform'',
    ''inhale'', ''inherit'', ''initial'', ''inject'', ''injury'', ''inmate'', ''inner'',
    ''innocent'', ''input'', ''inquiry'', ''insane'', ''insect'', ''inside'', ''inspire'',
    ''install'', ''intact'', ''interest'', ''into'', ''invest'', ''invite'', ''involve'',
    ''iron'', ''island'', ''isolate'', ''issue'', ''item'', ''ivory'', ''jacket'', ''jaguar'',
    ''jar'', ''jazz'', ''jealous'', ''jeans'', ''jelly'', ''jewel'', ''job'', ''join'',
    ''joke'', ''journey'', ''joy'', ''judge'', ''juice'', ''jump'', ''jungle'', ''junior'',
    ''junk'', ''just'', ''kangaroo'', ''keen'', ''keep'', ''ketchup'', ''key'', ''kick'',
    ''kid'', ''kidney'', ''kind'', ''kingdom'', ''kiss'', ''kit'', ''kitchen'', ''kite'',
    ''kitten'', ''kiwi'', ''knee'', ''knife'', ''knock'', ''know'', ''lab'', ''label'',
    ''labor'', ''ladder'', ''lady'', ''lake'', ''lamp'', ''language'', ''laptop'', ''large'',
    ''later'', ''latin'', ''laugh'', ''laundry'', ''lava'', ''law'', ''lawn'', ''lawsuit'',
    ''layer'', ''lazy'', ''leader'', ''leaf'', ''learn'', ''leave'', ''lecture'', ''left'',
    ''leg'', ''legal'', ''legend'', ''leisure'', ''lemon'', ''lend'']"

definition English_09 :: "string list" where
  "English_09 = [
    ''length'', ''lens'', ''leopard'', ''lesson'', ''letter'', ''level'', ''liar'',
    ''liberty'', ''library'', ''license'', ''life'', ''lift'', ''light'', ''like'', ''limb'',
    ''limit'', ''link'', ''lion'', ''liquid'', ''list'', ''little'', ''live'', ''lizard'',
    ''load'', ''loan'', ''lobster'', ''local'', ''lock'', ''logic'', ''lonely'', ''long'',
    ''loop'', ''lottery'', ''loud'', ''lounge'', ''love'', ''loyal'', ''lucky'', ''luggage'',
    ''lumber'', ''lunar'', ''lunch'', ''luxury'', ''lyrics'', ''machine'', ''mad'', ''magic'',
    ''magnet'', ''maid'', ''mail'', ''main'', ''major'', ''make'', ''mammal'', ''man'',
    ''manage'', ''mandate'', ''mango'', ''mansion'', ''manual'', ''maple'', ''marble'',
    ''march'', ''margin'', ''marine'', ''market'', ''marriage'', ''mask'', ''mass'',
    ''master'', ''match'', ''material'', ''math'', ''matrix'', ''matter'', ''maximum'',
    ''maze'', ''meadow'', ''mean'', ''measure'', ''meat'', ''mechanic'', ''medal'', ''media'',
    ''melody'', ''melt'', ''member'', ''memory'', ''mention'', ''menu'', ''mercy'', ''merge'',
    ''merit'', ''merry'', ''mesh'', ''message'', ''metal'', ''method'', ''middle'',
    ''midnight'', ''milk'', ''million'', ''mimic'', ''mind'', ''minimum'', ''minor'',
    ''minute'', ''miracle'', ''mirror'', ''misery'', ''miss'', ''mistake'', ''mix'',
    ''mixed'', ''mixture'', ''mobile'', ''model'', ''modify'', ''mom'', ''moment'',
    ''monitor'', ''monkey'', ''monster'', ''month'', ''moon'', ''moral'', ''more'',
    ''morning'']"

definition English_10 :: "string list" where
  "English_10 = [
    ''mosquito'', ''mother'', ''motion'', ''motor'', ''mountain'', ''mouse'', ''move'',
    ''movie'', ''much'', ''muffin'', ''mule'', ''multiply'', ''muscle'', ''museum'',
    ''mushroom'', ''music'', ''must'', ''mutual'', ''myself'', ''mystery'', ''myth'',
    ''naive'', ''name'', ''napkin'', ''narrow'', ''nasty'', ''nation'', ''nature'', ''near'',
    ''neck'', ''need'', ''negative'', ''neglect'', ''neither'', ''nephew'', ''nerve'',
    ''nest'', ''net'', ''network'', ''neutral'', ''never'', ''news'', ''next'', ''nice'',
    ''night'', ''noble'', ''noise'', ''nominee'', ''noodle'', ''normal'', ''north'', ''nose'',
    ''notable'', ''note'', ''nothing'', ''notice'', ''novel'', ''now'', ''nuclear'',
    ''number'', ''nurse'', ''nut'', ''oak'', ''obey'', ''object'', ''oblige'', ''obscure'',
    ''observe'', ''obtain'', ''obvious'', ''occur'', ''ocean'', ''october'', ''odor'',
    ''off'', ''offer'', ''office'', ''often'', ''oil'', ''okay'', ''old'', ''olive'',
    ''olympic'', ''omit'', ''once'', ''one'', ''onion'', ''online'', ''only'', ''open'',
    ''opera'', ''opinion'', ''oppose'', ''option'', ''orange'', ''orbit'', ''orchard'',
    ''order'', ''ordinary'', ''organ'', ''orient'', ''original'', ''orphan'', ''ostrich'',
    ''other'', ''outdoor'', ''outer'', ''output'', ''outside'', ''oval'', ''oven'', ''over'',
    ''own'', ''owner'', ''oxygen'', ''oyster'', ''ozone'', ''pact'', ''paddle'', ''page'',
    ''pair'', ''palace'', ''palm'', ''panda'', ''panel'', ''panic'', ''panther'', ''paper'']"

definition English_11 :: "string list" where
  "English_11 = [
    ''parade'', ''parent'', ''park'', ''parrot'', ''party'', ''pass'', ''patch'', ''path'',
    ''patient'', ''patrol'', ''pattern'', ''pause'', ''pave'', ''payment'', ''peace'',
    ''peanut'', ''pear'', ''peasant'', ''pelican'', ''pen'', ''penalty'', ''pencil'',
    ''people'', ''pepper'', ''perfect'', ''permit'', ''person'', ''pet'', ''phone'',
    ''photo'', ''phrase'', ''physical'', ''piano'', ''picnic'', ''picture'', ''piece'',
    ''pig'', ''pigeon'', ''pill'', ''pilot'', ''pink'', ''pioneer'', ''pipe'', ''pistol'',
    ''pitch'', ''pizza'', ''place'', ''planet'', ''plastic'', ''plate'', ''play'', ''please'',
    ''pledge'', ''pluck'', ''plug'', ''plunge'', ''poem'', ''poet'', ''point'', ''polar'',
    ''pole'', ''police'', ''pond'', ''pony'', ''pool'', ''popular'', ''portion'',
    ''position'', ''possible'', ''post'', ''potato'', ''pottery'', ''poverty'', ''powder'',
    ''power'', ''practice'', ''praise'', ''predict'', ''prefer'', ''prepare'', ''present'',
    ''pretty'', ''prevent'', ''price'', ''pride'', ''primary'', ''print'', ''priority'',
    ''prison'', ''private'', ''prize'', ''problem'', ''process'', ''produce'', ''profit'',
    ''program'', ''project'', ''promote'', ''proof'', ''property'', ''prosper'', ''protect'',
    ''proud'', ''provide'', ''public'', ''pudding'', ''pull'', ''pulp'', ''pulse'',
    ''pumpkin'', ''punch'', ''pupil'', ''puppy'', ''purchase'', ''purity'', ''purpose'',
    ''purse'', ''push'', ''put'', ''puzzle'', ''pyramid'', ''quality'', ''quantum'',
    ''quarter'', ''question'', ''quick'', ''quit'', ''quiz'']"

definition English_12 :: "string list" where
  "English_12 = [
    ''quote'', ''rabbit'', ''raccoon'', ''race'', ''rack'', ''radar'', ''radio'', ''rail'',
    ''rain'', ''raise'', ''rally'', ''ramp'', ''ranch'', ''random'', ''range'', ''rapid'',
    ''rare'', ''rate'', ''rather'', ''raven'', ''raw'', ''razor'', ''ready'', ''real'',
    ''reason'', ''rebel'', ''rebuild'', ''recall'', ''receive'', ''recipe'', ''record'',
    ''recycle'', ''reduce'', ''reflect'', ''reform'', ''refuse'', ''region'', ''regret'',
    ''regular'', ''reject'', ''relax'', ''release'', ''relief'', ''rely'', ''remain'',
    ''remember'', ''remind'', ''remove'', ''render'', ''renew'', ''rent'', ''reopen'',
    ''repair'', ''repeat'', ''replace'', ''report'', ''require'', ''rescue'', ''resemble'',
    ''resist'', ''resource'', ''response'', ''result'', ''retire'', ''retreat'', ''return'',
    ''reunion'', ''reveal'', ''review'', ''reward'', ''rhythm'', ''rib'', ''ribbon'',
    ''rice'', ''rich'', ''ride'', ''ridge'', ''rifle'', ''right'', ''rigid'', ''ring'',
    ''riot'', ''ripple'', ''risk'', ''ritual'', ''rival'', ''river'', ''road'', ''roast'',
    ''robot'', ''robust'', ''rocket'', ''romance'', ''roof'', ''rookie'', ''room'', ''rose'',
    ''rotate'', ''rough'', ''round'', ''route'', ''royal'', ''rubber'', ''rude'', ''rug'',
    ''rule'', ''run'', ''runway'', ''rural'', ''sad'', ''saddle'', ''sadness'', ''safe'',
    ''sail'', ''salad'', ''salmon'', ''salon'', ''salt'', ''salute'', ''same'', ''sample'',
    ''sand'', ''satisfy'', ''satoshi'', ''sauce'', ''sausage'', ''save'', ''say'']"

definition English_13 :: "string list" where
  "English_13 = [
    ''scale'', ''scan'', ''scare'', ''scatter'', ''scene'', ''scheme'', ''school'',
    ''science'', ''scissors'', ''scorpion'', ''scout'', ''scrap'', ''screen'', ''script'',
    ''scrub'', ''sea'', ''search'', ''season'', ''seat'', ''second'', ''secret'', ''section'',
    ''security'', ''seed'', ''seek'', ''segment'', ''select'', ''sell'', ''seminar'',
    ''senior'', ''sense'', ''sentence'', ''series'', ''service'', ''session'', ''settle'',
    ''setup'', ''seven'', ''shadow'', ''shaft'', ''shallow'', ''share'', ''shed'', ''shell'',
    ''sheriff'', ''shield'', ''shift'', ''shine'', ''ship'', ''shiver'', ''shock'', ''shoe'',
    ''shoot'', ''shop'', ''short'', ''shoulder'', ''shove'', ''shrimp'', ''shrug'',
    ''shuffle'', ''shy'', ''sibling'', ''sick'', ''side'', ''siege'', ''sight'', ''sign'',
    ''silent'', ''silk'', ''silly'', ''silver'', ''similar'', ''simple'', ''since'', ''sing'',
    ''siren'', ''sister'', ''situate'', ''six'', ''size'', ''skate'', ''sketch'', ''ski'',
    ''skill'', ''skin'', ''skirt'', ''skull'', ''slab'', ''slam'', ''sleep'', ''slender'',
    ''slice'', ''slide'', ''slight'', ''slim'', ''slogan'', ''slot'', ''slow'', ''slush'',
    ''small'', ''smart'', ''smile'', ''smoke'', ''smooth'', ''snack'', ''snake'', ''snap'',
    ''sniff'', ''snow'', ''soap'', ''soccer'', ''social'', ''sock'', ''soda'', ''soft'',
    ''solar'', ''soldier'', ''solid'', ''solution'', ''solve'', ''someone'', ''song'',
    ''soon'', ''sorry'', ''sort'', ''soul'', ''sound'', ''soup'']"

definition English_14 :: "string list" where
  "English_14 = [
    ''source'', ''south'', ''space'', ''spare'', ''spatial'', ''spawn'', ''speak'',
    ''special'', ''speed'', ''spell'', ''spend'', ''sphere'', ''spice'', ''spider'',
    ''spike'', ''spin'', ''spirit'', ''split'', ''spoil'', ''sponsor'', ''spoon'', ''sport'',
    ''spot'', ''spray'', ''spread'', ''spring'', ''spy'', ''square'', ''squeeze'',
    ''squirrel'', ''stable'', ''stadium'', ''staff'', ''stage'', ''stairs'', ''stamp'',
    ''stand'', ''start'', ''state'', ''stay'', ''steak'', ''steel'', ''stem'', ''step'',
    ''stereo'', ''stick'', ''still'', ''sting'', ''stock'', ''stomach'', ''stone'', ''stool'',
    ''story'', ''stove'', ''strategy'', ''street'', ''strike'', ''strong'', ''struggle'',
    ''student'', ''stuff'', ''stumble'', ''style'', ''subject'', ''submit'', ''subway'',
    ''success'', ''such'', ''sudden'', ''suffer'', ''sugar'', ''suggest'', ''suit'',
    ''summer'', ''sun'', ''sunny'', ''sunset'', ''super'', ''supply'', ''supreme'', ''sure'',
    ''surface'', ''surge'', ''surprise'', ''surround'', ''survey'', ''suspect'', ''sustain'',
    ''swallow'', ''swamp'', ''swap'', ''swarm'', ''swear'', ''sweet'', ''swift'', ''swim'',
    ''swing'', ''switch'', ''sword'', ''symbol'', ''symptom'', ''syrup'', ''system'',
    ''table'', ''tackle'', ''tag'', ''tail'', ''talent'', ''talk'', ''tank'', ''tape'',
    ''target'', ''task'', ''taste'', ''tattoo'', ''taxi'', ''teach'', ''team'', ''tell'',
    ''ten'', ''tenant'', ''tennis'', ''tent'', ''term'', ''test'', ''text'', ''thank'',
    ''that'']"

definition English_15 :: "string list" where
  "English_15 = [
    ''theme'', ''then'', ''theory'', ''there'', ''they'', ''thing'', ''this'', ''thought'',
    ''three'', ''thrive'', ''throw'', ''thumb'', ''thunder'', ''ticket'', ''tide'', ''tiger'',
    ''tilt'', ''timber'', ''time'', ''tiny'', ''tip'', ''tired'', ''tissue'', ''title'',
    ''toast'', ''tobacco'', ''today'', ''toddler'', ''toe'', ''together'', ''toilet'',
    ''token'', ''tomato'', ''tomorrow'', ''tone'', ''tongue'', ''tonight'', ''tool'',
    ''tooth'', ''top'', ''topic'', ''topple'', ''torch'', ''tornado'', ''tortoise'', ''toss'',
    ''total'', ''tourist'', ''toward'', ''tower'', ''town'', ''toy'', ''track'', ''trade'',
    ''traffic'', ''tragic'', ''train'', ''transfer'', ''trap'', ''trash'', ''travel'',
    ''tray'', ''treat'', ''tree'', ''trend'', ''trial'', ''tribe'', ''trick'', ''trigger'',
    ''trim'', ''trip'', ''trophy'', ''trouble'', ''truck'', ''true'', ''truly'', ''trumpet'',
    ''trust'', ''truth'', ''try'', ''tube'', ''tuition'', ''tumble'', ''tuna'', ''tunnel'',
    ''turkey'', ''turn'', ''turtle'', ''twelve'', ''twenty'', ''twice'', ''twin'', ''twist'',
    ''two'', ''type'', ''typical'', ''ugly'', ''umbrella'', ''unable'', ''unaware'',
    ''uncle'', ''uncover'', ''under'', ''undo'', ''unfair'', ''unfold'', ''unhappy'',
    ''uniform'', ''unique'', ''unit'', ''universe'', ''unknown'', ''unlock'', ''until'',
    ''unusual'', ''unveil'', ''update'', ''upgrade'', ''uphold'', ''upon'', ''upper'',
    ''upset'', ''urban'', ''urge'', ''usage'', ''use'', ''used'', ''useful'']"

definition English_16 :: "string list" where
  "English_16 = [
    ''useless'', ''usual'', ''utility'', ''vacant'', ''vacuum'', ''vague'', ''valid'',
    ''valley'', ''valve'', ''van'', ''vanish'', ''vapor'', ''various'', ''vast'', ''vault'',
    ''vehicle'', ''velvet'', ''vendor'', ''venture'', ''venue'', ''verb'', ''verify'',
    ''version'', ''very'', ''vessel'', ''veteran'', ''viable'', ''vibrant'', ''vicious'',
    ''victory'', ''video'', ''view'', ''village'', ''vintage'', ''violin'', ''virtual'',
    ''virus'', ''visa'', ''visit'', ''visual'', ''vital'', ''vivid'', ''vocal'', ''voice'',
    ''void'', ''volcano'', ''volume'', ''vote'', ''voyage'', ''wage'', ''wagon'', ''wait'',
    ''walk'', ''wall'', ''walnut'', ''want'', ''warfare'', ''warm'', ''warrior'', ''wash'',
    ''wasp'', ''waste'', ''water'', ''wave'', ''way'', ''wealth'', ''weapon'', ''wear'',
    ''weasel'', ''weather'', ''web'', ''wedding'', ''weekend'', ''weird'', ''welcome'',
    ''west'', ''wet'', ''whale'', ''what'', ''wheat'', ''wheel'', ''when'', ''where'',
    ''whip'', ''whisper'', ''wide'', ''width'', ''wife'', ''wild'', ''will'', ''win'',
    ''window'', ''wine'', ''wing'', ''wink'', ''winner'', ''winter'', ''wire'', ''wisdom'',
    ''wise'', ''wish'', ''witness'', ''wolf'', ''woman'', ''wonder'', ''wood'', ''wool'',
    ''word'', ''work'', ''world'', ''worry'', ''worth'', ''wrap'', ''wreck'', ''wrestle'',
    ''wrist'', ''write'', ''wrong'', ''yard'', ''year'', ''yellow'', ''you'', ''young'',
    ''youth'', ''zebra'', ''zero'', ''zone'', ''zoo'']"

definition English :: "string list" where
  "English = concat [English_01, English_02, English_03, English_04, English_05,
    English_06, English_07, English_08, English_09, English_10,
    English_11, English_12, English_13, English_14, English_15, English_16]"

section \<open>Its words are distinct\<close>

fun word_less :: "string \<Rightarrow> string \<Rightarrow> bool" where
  "word_less s [] = False"
| "word_less [] (d # t) = True"
| "word_less (c # s) (d # t) =
     (if char_nat c = char_nat d then word_less s t else char_nat c < char_nat d)"

fun ascending :: "string list \<Rightarrow> bool" where
  "ascending (v # w # ws) = (word_less v w \<and> ascending (w # ws))"
| "ascending ws = True"

lemma word_less_trans: "word_less u v \<Longrightarrow> word_less v w \<Longrightarrow> word_less u w"
proof (induction u v arbitrary: w rule: word_less.induct)
  case (2 d t)
  then show ?case by (cases w) auto
next
  case (3 c s d t)
  then show ?case by (cases w) (auto split: if_splits)
qed simp

lemma word_less_irrefl: "\<not> word_less w w"
  by (induction w) auto

lemma ascending_above: "ascending (v # ws) \<Longrightarrow> w \<in> set ws \<Longrightarrow> word_less v w"
  by (induction ws arbitrary: v) (auto intro: word_less_trans)

lemma ascending_distinct: "ascending ws \<Longrightarrow> distinct ws"
proof (induction ws)
  case (Cons w ws)
  then have "ascending ws" by (cases ws) auto
  with Cons show ?case using ascending_above [of w ws w] word_less_irrefl by auto
qed simp

text \<open>The codes of the letters, as rewrite rules for checking the list.\<close>

lemma code_a: "char_nat CHR ''a'' = 97" by (simp add: char_nat_def)
lemma code_b: "char_nat CHR ''b'' = 98" by (simp add: char_nat_def)
lemma code_c: "char_nat CHR ''c'' = 99" by (simp add: char_nat_def)
lemma code_d: "char_nat CHR ''d'' = 100" by (simp add: char_nat_def)
lemma code_e: "char_nat CHR ''e'' = 101" by (simp add: char_nat_def)
lemma code_f: "char_nat CHR ''f'' = 102" by (simp add: char_nat_def)
lemma code_g: "char_nat CHR ''g'' = 103" by (simp add: char_nat_def)
lemma code_h: "char_nat CHR ''h'' = 104" by (simp add: char_nat_def)
lemma code_i: "char_nat CHR ''i'' = 105" by (simp add: char_nat_def)
lemma code_j: "char_nat CHR ''j'' = 106" by (simp add: char_nat_def)
lemma code_k: "char_nat CHR ''k'' = 107" by (simp add: char_nat_def)
lemma code_l: "char_nat CHR ''l'' = 108" by (simp add: char_nat_def)
lemma code_m: "char_nat CHR ''m'' = 109" by (simp add: char_nat_def)
lemma code_n: "char_nat CHR ''n'' = 110" by (simp add: char_nat_def)
lemma code_o: "char_nat CHR ''o'' = 111" by (simp add: char_nat_def)
lemma code_p: "char_nat CHR ''p'' = 112" by (simp add: char_nat_def)
lemma code_q: "char_nat CHR ''q'' = 113" by (simp add: char_nat_def)
lemma code_r: "char_nat CHR ''r'' = 114" by (simp add: char_nat_def)
lemma code_s: "char_nat CHR ''s'' = 115" by (simp add: char_nat_def)
lemma code_t: "char_nat CHR ''t'' = 116" by (simp add: char_nat_def)
lemma code_u: "char_nat CHR ''u'' = 117" by (simp add: char_nat_def)
lemma code_v: "char_nat CHR ''v'' = 118" by (simp add: char_nat_def)
lemma code_w: "char_nat CHR ''w'' = 119" by (simp add: char_nat_def)
lemma code_x: "char_nat CHR ''x'' = 120" by (simp add: char_nat_def)
lemma code_y: "char_nat CHR ''y'' = 121" by (simp add: char_nat_def)
lemma code_z: "char_nat CHR ''z'' = 122" by (simp add: char_nat_def)

lemmas letter_codes =
  code_a code_b code_c code_d code_e code_f code_g code_h code_i code_j code_k code_l
  code_m code_n code_o code_p code_q code_r code_s code_t code_u code_v code_w code_x
  code_y code_z

lemmas English_parts =
  English_01_def English_02_def English_03_def English_04_def English_05_def
  English_06_def English_07_def English_08_def English_09_def English_10_def
  English_11_def English_12_def English_13_def English_14_def English_15_def
  English_16_def

lemma English_ascending: "ascending English"
  by (simp add: English_def English_parts letter_codes)

lemma distinct_English: "distinct English"
  using ascending_distinct [OF English_ascending] .

lemma length_English [simp]: "length English = 2048"
  by (simp add: English_def English_parts)

lemma English_lowercase: "\<forall>w \<in> set English. lowercase w"
proof -
  have "list_all lowercase English"
    by (simp add: English_def English_parts lowercase_def letter_codes)
  then show ?thesis by (simp only: list_all_iff)
qed

end
