(* ===== verification/Sha256.thy ===== *)
theory Sha256
  imports GoLib
begin

text \<open>
  \<open>crypto/sha256\<close> of Go's standard library, which the share checksums, the BIP-39 checksum and
  the address checksums rest on: the FIPS 180-4 function on byte strings. The SDK's theorems use
  only that a digest has 32 bytes.
\<close>

definition sha256_K :: "u32 list" where
  "sha256_K = [
    0x428a2f98, 0x71374491, 0xb5c0fbcf, 0xe9b5dba5, 0x3956c25b, 0x59f111f1, 0x923f82a4, 0xab1c5ed5,
    0xd807aa98, 0x12835b01, 0x243185be, 0x550c7dc3, 0x72be5d74, 0x80deb1fe, 0x9bdc06a7, 0xc19bf174,
    0xe49b69c1, 0xefbe4786, 0x0fc19dc6, 0x240ca1cc, 0x2de92c6f, 0x4a7484aa, 0x5cb0a9dc, 0x76f988da,
    0x983e5152, 0xa831c66d, 0xb00327c8, 0xbf597fc7, 0xc6e00bf3, 0xd5a79147, 0x06ca6351, 0x14292967,
    0x27b70a85, 0x2e1b2138, 0x4d2c6dfc, 0x53380d13, 0x650a7354, 0x766a0abb, 0x81c2c92e, 0x92722c85,
    0xa2bfe8a1, 0xa81a664b, 0xc24b8b70, 0xc76c51a3, 0xd192e819, 0xd6990624, 0xf40e3585, 0x106aa070,
    0x19a4c116, 0x1e376c08, 0x2748774c, 0x34b0bcb5, 0x391c0cb3, 0x4ed8aa4a, 0x5b9cca4f, 0x682e6ff3,
    0x748f82ee, 0x78a5636f, 0x84c87814, 0x8cc70208, 0x90befffa, 0xa4506ceb, 0xbef9a3f7, 0xc67178f2]"

definition sha256_init :: "u32 list" where
  "sha256_init = [
    0x6a09e667, 0xbb67ae85, 0x3c6ef372, 0xa54ff53a, 0x510e527f, 0x9b05688c, 0x1f83d9ab, 0x5be0cd19]"

text \<open>The padding: a one bit, zeros, and the length in bits as eight bytes.\<close>

definition sha256_pad :: "bytes \<Rightarrow> bytes" where
  "sha256_pad m =
     m @ [0x80] @ replicate ((119 - length m mod 64) mod 64) 0 @ be_bytes 8 (8 * length m)"

fun chunks :: "nat \<Rightarrow> nat \<Rightarrow> 'a list \<Rightarrow> 'a list list" where
  "chunks 0 k xs = []"
| "chunks (Suc n) k xs = take k xs # chunks n k (drop k xs)"

definition word_of_bytes :: "bytes \<Rightarrow> u32" where
  "word_of_bytes bs = word_of_nat (be_val bs)"

definition sha256_next :: "u32 list \<Rightarrow> u32" where
  "sha256_next w =
     (let n = length w; a = w ! (n - 2); b = w ! (n - 15)
      in (word_rotr 17 a XOR word_rotr 19 a XOR drop_bit 10 a) + w ! (n - 7)
         + (word_rotr 7 b XOR word_rotr 18 b XOR drop_bit 3 b) + w ! (n - 16))"

fun sha256_schedule :: "nat \<Rightarrow> u32 list \<Rightarrow> u32 list" where
  "sha256_schedule 0 w = w"
| "sha256_schedule (Suc n) w = sha256_schedule n (w @ [sha256_next w])"

definition sha256_round :: "u32 list \<Rightarrow> u32 \<times> u32 \<Rightarrow> u32 list" where
  "sha256_round st kw =
     (case st of
        [a, b, c, d, e, f, g, h] \<Rightarrow>
          let t1 = h + (word_rotr 6 e XOR word_rotr 11 e XOR word_rotr 25 e)
                + ((e AND f) XOR (NOT e AND g)) + fst kw + snd kw;
              t2 = (word_rotr 2 a XOR word_rotr 13 a XOR word_rotr 22 a)
                + ((a AND b) XOR (a AND c) XOR (b AND c))
          in [t1 + t2, a, b, c, d + t1, e, f, g]
      | _ \<Rightarrow> st)"

definition sha256_block :: "u32 list \<Rightarrow> bytes \<Rightarrow> u32 list" where
  "sha256_block h block =
     map2 (+) h
       (foldl sha256_round h
          (zip sha256_K (sha256_schedule 48 (map word_of_bytes (chunks 16 4 block)))))"

definition sha256_bytes :: "u32 list \<Rightarrow> bytes" where
  "sha256_bytes h = concat (map (\<lambda>w. be_bytes 4 (unat w)) h)"

definition sha256 :: "bytes \<Rightarrow> bytes" where
  "sha256 m =
     sha256_bytes (foldl sha256_block sha256_init
       (chunks (length (sha256_pad m) div 64) 64 (sha256_pad m)))"

lemma length_sha256_round [simp]: "length (sha256_round st kw) = length st"
  by (auto simp: sha256_round_def Let_def split: list.splits)

lemma length_foldl_round: "length (foldl sha256_round st kws) = length st"
  by (induction kws arbitrary: st) simp_all

lemma length_sha256_block: "length (sha256_block h block) = length h"
  by (simp add: sha256_block_def length_foldl_round)

lemma length_foldl_block: "length (foldl sha256_block h blocks) = length h"
  by (induction blocks arbitrary: h) (simp_all add: length_sha256_block)

lemma length_sha256_bytes: "length (sha256_bytes h) = 4 * length h"
  by (induction h) (simp_all add: sha256_bytes_def)

lemma length_sha256 [simp, byte_simps]: "length (sha256 m) = 32"
  by (simp add: sha256_def length_sha256_bytes length_foldl_block sha256_init_def)

end
