(* ===== verification/Bip39.thy ===== *)
theory Bip39
  imports English Sha256
begin

text \<open>
  \<open>crypto/bip/bip39.go\<close> and \<open>crypto/mnemonic.go\<close>: mnemonics from entropy and back. The package
  variables \<open>wordList\<close> and \<open>wordMap\<close> are the record \<open>wordlist\<close> that \<open>SetWordList\<close> builds
  and every operation reads. Key stretching (\<open>pbkdf2.Key\<close> with SHA-512) and Unicode
  normalisation come from packages outside the repository and are the parameters \<open>kdf\<close> and
  \<open>nfkd\<close>; \<open>rand.Read\<close> reads the byte stream \<open>rng\<close>.
\<close>

section \<open>The code\<close>

datatype bip39_error =
    ErrInvalidMnemonic | WordNotFound string | ErrEntropyLengthInvalid | ErrChecksumIncorrect
  | RandReadFailure | InvalidEntropy | IndexPanic

record wordlist =
  wordList :: "string list"
  wordMap :: "string \<Rightarrow> nat option"

fun index_words :: "nat \<Rightarrow> string list \<Rightarrow> (string \<Rightarrow> nat option) \<Rightarrow> string \<Rightarrow> nat option" where
  "index_words i [] m = m"
| "index_words i (v # vs) m = index_words (i + 1) vs (m(v \<mapsto> i))"

definition SetWordList :: "string list \<Rightarrow> wordlist" where
  "SetWordList list = \<lparr>wordList = list, wordMap = index_words 0 list Map.empty\<rparr>"

definition GetWordList :: "wordlist \<Rightarrow> string list" where
  "GetWordList wl = wordList wl"

definition validateEntropyBitSize :: "int \<Rightarrow> bip39_error + unit" where
  "validateEntropyBitSize bitSize =
     (if bitSize mod 32 \<noteq> 0 \<or> bitSize < 128 \<or> bitSize > 256 then Inl ErrEntropyLengthInvalid
      else Inr ())"

definition NewEntropy :: "int \<Rightarrow> bytes \<Rightarrow> bip39_error + bytes \<times> bytes" where
  "NewEntropy bitSize rng =
     andThen (validateEntropyBitSize bitSize)
       (\<lambda>_. let n = nat (bitSize div 8) in
          if length rng < n then Inl RandReadFailure else Inr (take n rng, drop n rng))"

definition padByteSlice :: "bytes \<Rightarrow> nat \<Rightarrow> bytes" where
  "padByteSlice sl n =
     (if length sl \<ge> n then sl else replicate (n - length sl) 0 @ sl)"

definition compareByteSlices :: "bytes \<Rightarrow> bytes \<Rightarrow> bool" where
  "compareByteSlices a b =
     (if length a \<noteq> length b then False else list_all (\<lambda>i. a ! i = b ! i) [0..<length a])"

definition computeChecksum :: "bytes \<Rightarrow> bytes" where
  "computeChecksum data = sha256 data"

text \<open>The loop of \<open>addChecksum\<close>; a shift by more than seven leaves the byte zero.\<close>

definition addChecksum :: "bytes \<Rightarrow> bytes" where
  "addChecksum data =
     (let firstChecksumByte = computeChecksum data ! 0;
          checksumBitLength = length data div 4
      in big_Bytes (foldl (\<lambda>n i.
           if i \<le> 7 \<and> bit firstChecksumByte (7 - i) then (n * 2) OR 1 else n * 2)
         (be_val data) [0..<checksumBitLength]))"

definition splitMnemonicWords :: "string \<Rightarrow> string list option" where
  "splitMnemonicWords mnemonic =
     (let words = map strings_TrimSpace (strings_Fields mnemonic);
          numOfWords = length words
      in if numOfWords mod 3 \<noteq> 0 \<or> numOfWords < 12 \<or> numOfWords > 24 then None else Some words)"

definition wordLengthChecksumMasksMapping :: "nat \<Rightarrow> nat option" where
  "wordLengthChecksumMasksMapping = map_of [(12, 15), (15, 31), (18, 63), (21, 127), (24, 255)]"

definition wordLengthChecksumShiftMapping :: "nat \<Rightarrow> nat option" where
  "wordLengthChecksumShiftMapping = map_of [(12, 16), (15, 8), (18, 4), (21, 2)]"

text \<open>The loop that reads the words as base-2048 digits; \<open>uint16\<close> truncates the index.\<close>

fun read_words :: "wordlist \<Rightarrow> string list \<Rightarrow> nat \<Rightarrow> bip39_error + nat" where
  "read_words wl [] b = Inr b"
| "read_words wl (v # vs) b =
     (case wordMap wl v of
        None \<Rightarrow> Inl (WordNotFound v)
      | Some index \<Rightarrow> read_words wl vs ((b * 2048) OR (index mod 65536)))"

definition EntropyFromMnemonic :: "wordlist \<Rightarrow> string \<Rightarrow> bip39_error + bytes" where
  "EntropyFromMnemonic wl mnemonic =
     andThen (orErr ErrInvalidMnemonic (splitMnemonicWords mnemonic)) (\<lambda>mnemonicSlice.
     andThen (read_words wl mnemonicSlice 0) (\<lambda>b.
     andThen (orErr IndexPanic (wordLengthChecksumMasksMapping (length mnemonicSlice)))
       (\<lambda>checksumMask.
        let checksum = b AND checksumMask;
            b = b div (checksumMask + 1);
            entropy = padByteSlice (big_Bytes b) (length mnemonicSlice div 3 * 4);
            entropyChecksum = unat (computeChecksum entropy ! 0)
        in andThen
             (if length mnemonicSlice \<noteq> 24
              then map_sum id (\<lambda>shift. entropyChecksum div shift)
                (orErr IndexPanic (wordLengthChecksumShiftMapping (length mnemonicSlice)))
              else Inr entropyChecksum)
             (\<lambda>entropyChecksum.
                if checksum \<noteq> entropyChecksum then Inl ErrChecksumIncorrect else Inr entropy))))"

text \<open>The loop that writes the words, last one first.\<close>

fun write_words :: "wordlist \<Rightarrow> nat \<Rightarrow> nat \<Rightarrow> string list \<Rightarrow> bip39_error + string list" where
  "write_words wl 0 entropyInt acc = Inr acc"
| "write_words wl (Suc i) entropyInt acc =
     (let word = be_val (padByteSlice (big_Bytes (entropyInt AND 2047)) 2)
      in if word < length (wordList wl)
         then write_words wl i (entropyInt div 2048) (wordList wl ! word # acc)
         else Inl IndexPanic)"

definition NewMnemonic :: "wordlist \<Rightarrow> bytes \<Rightarrow> bip39_error + string" where
  "NewMnemonic wl entropy =
     (let entropyBitLength = length entropy * 8;
          checksumBitLength = entropyBitLength div 32;
          sentenceLength = (entropyBitLength + checksumBitLength) div 11
      in andThen (validateEntropyBitSize (int entropyBitLength)) (\<lambda>_.
         andThen (write_words wl sentenceLength (be_val (addChecksum entropy)) []) (\<lambda>words.
         Inr (strings_Join words '' ''))))"

definition IsMnemonicValid :: "wordlist \<Rightarrow> string \<Rightarrow> bool" where
  "IsMnemonicValid wl mnemonic = isOk (EntropyFromMnemonic wl mnemonic)"

definition MnemonicToByteArray :: "wordlist \<Rightarrow> string \<Rightarrow> bool list \<Rightarrow> bip39_error + bytes" where
  "MnemonicToByteArray wl mnemonic raw =
     (let mnemonicSlice = strings_Fields mnemonic;
          entropyBitSize = length mnemonicSlice * 11;
          checksumBitSize = entropyBitSize mod 32;
          fullByteSize = (entropyBitSize - checksumBitSize) div 8 + 1;
          checksumByteSize = fullByteSize - fullByteSize mod 4
      in if \<not> IsMnemonicValid wl mnemonic then Inl ErrInvalidMnemonic
         else
           let checksummedEntropy =
                 foldl (\<lambda>n v. n * 2048 + (case wordMap wl v of None \<Rightarrow> 0 | Some i \<Rightarrow> i))
                   0 mnemonicSlice;
               rawEntropy = checksummedEntropy div 2 ^ checksumBitSize;
               rawEntropyBytes = padByteSlice (big_Bytes rawEntropy) checksumByteSize;
               checksummedEntropyBytes = padByteSlice (big_Bytes checksummedEntropy) fullByteSize;
               newChecksummedEntropyBytes = padByteSlice (addChecksum rawEntropyBytes) fullByteSize
           in if \<not> compareByteSlices checksummedEntropyBytes newChecksummedEntropyBytes
              then Inl ErrChecksumIncorrect
              else if length raw > 0 \<and> raw ! 0 then Inr rawEntropyBytes
              else Inr checksummedEntropyBytes)"

text \<open>\<open>kdf password salt iterations keyLength\<close> stands for \<open>pbkdf2.Key\<close> with SHA-512.\<close>

definition NewSeed ::
  "(bytes \<Rightarrow> bytes \<Rightarrow> nat \<Rightarrow> nat \<Rightarrow> bytes) \<Rightarrow> (string \<Rightarrow> string) \<Rightarrow> string \<Rightarrow> string \<Rightarrow> bytes"
where
  "NewSeed kdf nfkd mnemonic password =
     (let mnemonic = nfkd (strings_Join (strings_Fields mnemonic) '' '');
          password = nfkd password
      in kdf (bytes_of_string mnemonic) (bytes_of_string (''mnemonic'' @ password)) 2048 64)"

definition NewSeedWithErrorChecking ::
  "(bytes \<Rightarrow> bytes \<Rightarrow> nat \<Rightarrow> nat \<Rightarrow> bytes) \<Rightarrow> (string \<Rightarrow> string) \<Rightarrow> wordlist \<Rightarrow> string \<Rightarrow> string \<Rightarrow>
     bip39_error + bytes"
where
  "NewSeedWithErrorChecking kdf nfkd wl mnemonic password =
     andThen (MnemonicToByteArray wl mnemonic []) (\<lambda>_. Inr (NewSeed kdf nfkd mnemonic password))"

definition NewSeedFromMnemonicSr25519 ::
  "(bytes \<Rightarrow> bytes \<Rightarrow> nat \<Rightarrow> nat \<Rightarrow> bytes) \<Rightarrow> wordlist \<Rightarrow> string \<Rightarrow> string \<Rightarrow> bip39_error + bytes"
where
  "NewSeedFromMnemonicSr25519 kdf wl mnemonic password =
     andThen (EntropyFromMnemonic wl mnemonic) (\<lambda>entropy.
       if length entropy < 16 \<or> length entropy > 32 \<or> length entropy mod 4 \<noteq> 0
       then Inl InvalidEntropy
       else Inr (take 64 (kdf entropy (bytes_of_string (''mnemonic'' @ password)) 2048 64)))"

definition GenerateMnemonic :: "wordlist \<Rightarrow> int \<Rightarrow> bytes \<Rightarrow> bip39_error + string \<times> bytes" where
  "GenerateMnemonic wl wordNumber rng =
     (if wordNumber \<noteq> 12 \<and> wordNumber \<noteq> 24 then Inl ErrInvalidMnemonic
      else andThen (NewEntropy (wordNumber div 3 * 32) rng) (\<lambda>(entropyBytes, rng).
        andThen (NewMnemonic wl entropyBytes) (\<lambda>mnemonic. Inr (mnemonic, rng))))"

definition IsValidMnemonic :: "wordlist \<Rightarrow> string \<Rightarrow> bool" where
  "IsValidMnemonic wl mn = IsMnemonicValid wl mn"

section \<open>Numbers in base 2048\<close>

fun digits2048 :: "nat \<Rightarrow> nat \<Rightarrow> nat list" where
  "digits2048 0 n = []"
| "digits2048 (Suc k) n = digits2048 k (n div 2048) @ [n mod 2048]"

definition undigits2048 :: "nat list \<Rightarrow> nat" where
  "undigits2048 ds = foldl (\<lambda>b d. b * 2048 + d) 0 ds"

lemma length_digits2048 [simp]: "length (digits2048 k n) = k"
  by (induction k arbitrary: n) auto

lemma digits2048_less: "d \<in> set (digits2048 k n) \<Longrightarrow> d < 2048"
  by (induction k arbitrary: n) auto

lemma undigits_snoc [simp]: "undigits2048 (ds @ [d]) = undigits2048 ds * 2048 + d"
  by (simp add: undigits2048_def)

lemma undigits_digits: "undigits2048 (digits2048 k n) = n mod 2048 ^ k"
proof (induction k arbitrary: n)
  case (Suc k)
  then show ?case using mod_mult2_eq [of n 2048 "2048 ^ k"] by (simp add: mult.commute)
qed (simp add: undigits2048_def)

lemma digits_undigits: "\<forall>d \<in> set ds. d < 2048 \<Longrightarrow> digits2048 (length ds) (undigits2048 ds) = ds"
  by (induction ds rule: rev_induct) auto

lemma undigits_bound: "\<forall>d \<in> set ds. d < 2048 \<Longrightarrow> undigits2048 ds < 2048 ^ length ds"
  by (metis digits_undigits mod_less_divisor undigits_digits zero_less_numeral zero_less_power)

section \<open>The checksum\<close>

lemma addChecksum_loop:
  fixes c :: u8
  assumes "k \<le> 8"
  shows "foldl (\<lambda>n i. if i \<le> 7 \<and> bit c (7 - i) then (n * 2) OR 1 else n * 2) v [0..<k] =
    v * 2 ^ k + unat c div 2 ^ (8 - k)"
  using assms
proof (induction k)
  case 0
  then show ?case using unat_lt_256 [of c] by simp
next
  case (Suc k)
  have "8 - k = Suc (7 - k)" using Suc.prems by simp
  then have half: "unat c div 2 ^ (8 - k) = unat c div 2 ^ (7 - k) div 2"
    by (simp only: power_Suc2 div_mult2_eq)
  show ?case
    using Suc by (auto simp: half or_one_eq or_Suc_0_eq bit_word_nat odd_half)
qed

lemma sha256_ne [simp]: "0 < length (sha256 m)" "sha256 m \<noteq> []"
  using length_sha256 [of m] by (simp, force)

lemma addChecksum_value:
  "length data div 4 \<le> 8 \<Longrightarrow>
    addChecksum data = big_Bytes (be_val data * 2 ^ (length data div 4) +
      unat (sha256 data ! 0) div 2 ^ (8 - length data div 4))"
  by (simp only: addChecksum_def Let_def computeChecksum_def addChecksum_loop)

lemma be_val_pad [simp]: "be_val (padByteSlice bs n) = be_val bs"
  by (simp add: padByteSlice_def be_val_replicate_0)

lemma length_pad: "length bs \<le> n \<Longrightarrow> length (padByteSlice bs n) = n"
  by (simp add: padByteSlice_def)

lemma pad_big_Bytes: "n < 256 ^ k \<Longrightarrow> padByteSlice (big_Bytes n) k = be_bytes k n"
  by (rule be_val_inject) (simp_all add: length_pad length_big_Bytes be_val_be_bytes)

lemma pad_be_val: "padByteSlice (big_Bytes (be_val bs)) (length bs) = bs"
  by (rule be_val_inject) (simp_all add: length_pad length_big_Bytes be_val_bound)

section \<open>Fields are trimmed\<close>

lemma space_len_append: "space_len s \<noteq> 0 \<Longrightarrow> space_len (s @ t) = space_len s"
proof -
  assume nz: "space_len s \<noteq> 0"
  let ?W = "{9, 10, 11, 12, 13, 32 :: nat}"
  consider "s = []" | a where "s = [a]" | a b where "s = [a, b]" | a b c u where "s = a # b # c # u"
    by (metis list.exhaust)
  then show ?thesis
  proof cases
    case (2 a)
    have "char_nat a \<in> ?W" using nz by (rule contrapos_np) (simp add: 2 space_len_def)
    then show ?thesis by (simp add: 2 space_len_def)
  next
    case (3 a b)
    have "char_nat a \<in> ?W \<or>
        char_nat a \<notin> ?W \<and> char_nat a = 0xC2 \<and> (char_nat b = 0x85 \<or> char_nat b = 0xA0)"
      using nz by (rule contrapos_np) (simp add: 3 space_len_def)
    then show ?thesis
    proof
      assume "char_nat a \<in> ?W"
      then show ?thesis by (simp add: 3 space_len_def)
    next
      assume "char_nat a \<notin> ?W \<and> char_nat a = 0xC2 \<and> (char_nat b = 0x85 \<or> char_nat b = 0xA0)"
      then show ?thesis by (simp add: 3 space_len_def)
    qed
  qed (use nz in \<open>simp_all add: space_len_def\<close>)
qed

lemma fields_loop_no_space:
  "w \<in> set (fields_loop acc s) \<Longrightarrow> \<forall>k < length acc. space_len (drop k (rev acc @ s)) = 0 \<Longrightarrow>
     space_len (drop k w) = 0"
proof (induction acc s rule: fields_loop.induct)
  case (1 acc)
  then show ?case by (cases "k < length acc") (auto simp: space_len_def split: if_splits)
next
  case (2 acc c s)
  show ?case
  proof (cases "space_len (c # s) = 0")
    case True
    have "space_len (drop i (rev (c # acc) @ s)) = 0" if "i < length (c # acc)" for i
    proof (cases "i < length acc")
      case False
      with that have "i = length acc" by simp
      with True show ?thesis by simp
    qed (use 2(4) in simp)
    with True 2(1,3) show ?thesis by simp
  next
    case False
    consider "w = rev acc" | "w \<in> set (fields_loop [] (drop (space_len (c # s) - 1) s))"
      using 2(3) False by (auto split: if_splits)
    then show ?thesis
    proof cases
      case 1
      show ?thesis
      proof (cases "k < length acc")
        case True
        with 2(4) have "space_len (drop k w @ c # s) = 0" by (simp add: 1)
        then show ?thesis using space_len_append by metis
      qed (simp add: 1 space_len_def)
    next
      case 2
      then show ?thesis using "2.IH"(2) [OF False] by simp
    qed
  qed
qed

lemma TrimSpace_field: "w \<in> set (strings_Fields s) \<Longrightarrow> strings_TrimSpace w = w"
proof -
  assume "w \<in> set (strings_Fields s)"
  then have none: "space_len (drop k w) = 0" for k
    by (auto simp: strings_Fields_def intro: fields_loop_no_space)
  have "trim_left w = w" using none [of 0] by (subst trim_left.simps) simp
  moreover have "trim_right w = w"
    using none by (subst trim_right.simps) (simp add: space_suffix_len_def)
  ultimately show ?thesis by (simp add: strings_TrimSpace_def)
qed

lemma map_TrimSpace_Fields [simp]: "map strings_TrimSpace (strings_Fields s) = strings_Fields s"
  by (rule map_idI) (rule TrimSpace_field)

section \<open>Word lists\<close>

lemma index_words_other: "v \<notin> set vs \<Longrightarrow> index_words i vs m v = m v"
  by (induction vs arbitrary: i m) auto

lemma index_words_nth:
  "distinct vs \<Longrightarrow> j < length vs \<Longrightarrow> index_words i vs m (vs ! j) = Some (i + j)"
proof (induction vs arbitrary: i j m)
  case (Cons v vs)
  then show ?case by (cases j) (auto simp: index_words_other)
qed simp

lemma index_words_sound:
  "index_words i vs m v = Some n \<Longrightarrow> m v = Some n \<or> (i \<le> n \<and> n < i + length vs \<and> vs ! (n - i) = v)"
proof (induction vs arbitrary: i m)
  case (Cons w vs)
  then show ?case by (force split: if_splits simp: nth_Cons')
qed simp

lemma sentence_size: "(2048 :: nat) ^ (3 * k) = 256 ^ (4 * k) * 2 ^ k"
proof -
  have "(2048 :: nat) ^ (3 * k) = (2 ^ 11) ^ (3 * k)" by simp
  also have "\<dots> = 2 ^ (33 * k)" by (simp only: flip: power_mult) simp
  also have "\<dots> = (2 ^ 8) ^ (4 * k) * 2 ^ k" by (simp only: flip: power_mult power_add) simp
  finally show ?thesis by simp
qed

lemma masks: "4 \<le> k \<Longrightarrow> k \<le> 8 \<Longrightarrow> wordLengthChecksumMasksMapping (3 * k) = Some (2 ^ k - 1)"
proof -
  assume "4 \<le> k" "k \<le> 8"
  then have "k = 4 \<or> k = 5 \<or> k = 6 \<or> k = 7 \<or> k = 8" by linarith
  then show ?thesis by (auto simp: wordLengthChecksumMasksMapping_def)
qed

lemma shifts: "4 \<le> k \<Longrightarrow> k < 8 \<Longrightarrow> wordLengthChecksumShiftMapping (3 * k) = Some (2 ^ (8 - k))"
proof -
  assume "4 \<le> k" "k < 8"
  then have "k = 4 \<or> k = 5 \<or> k = 6 \<or> k = 7" by linarith
  then show ?thesis by (auto simp: wordLengthChecksumShiftMapping_def)
qed

text \<open>What the code needs of a word list: 2048 different lower-case words.\<close>

locale bip39_words =
  fixes ws :: "string list"
  assumes len: "length ws = 2048"
    and dist: "distinct ws"
    and lower: "\<forall>w \<in> set ws. lowercase w"
begin

abbreviation "wl \<equiv> SetWordList ws"

lemma lookup: "i < 2048 \<Longrightarrow> wordMap wl (ws ! i) = Some i"
  using index_words_nth [OF dist, of i 0] by (simp add: SetWordList_def len)

lemma lookup_sound: "wordMap wl v = Some i \<Longrightarrow> i < 2048 \<and> v = ws ! i"
  using index_words_sound [of 0 ws Map.empty v i] by (auto simp: SetWordList_def len)

lemma read_words_digits:
  "\<forall>d \<in> set ds. d < 2048 \<Longrightarrow>
     read_words wl (map ((!) ws) ds) b = Inr (foldl (\<lambda>b d. b * 2048 + d) b ds)"
proof (induction ds arbitrary: b)
  case (Cons d ds)
  then show ?case using or_shift_nat [of d 11 b] by (simp add: lookup)
qed simp

lemma read_words_sound:
  "read_words wl vs b = Inr n \<Longrightarrow>
     \<exists>ds. vs = map ((!) ws) ds \<and> (\<forall>d \<in> set ds. d < 2048) \<and> n = foldl (\<lambda>b d. b * 2048 + d) b ds"
proof (induction vs arbitrary: b)
  case (Cons v vs)
  then obtain i where i: "wordMap wl v = Some i"
    and r: "read_words wl vs (b * 2048 OR (i mod 65536)) = Inr n"
    by (auto split: option.splits)
  from lookup_sound [OF i] have v: "i < 2048" "v = ws ! i" by simp_all
  with r have "read_words wl vs (b * 2048 + i) = Inr n"
    using or_shift_nat [of i 11 b] by simp
  from Cons.IH [OF this] obtain ds where "vs = map ((!) ws) ds" "\<forall>d \<in> set ds. d < 2048"
    "n = foldl (\<lambda>b d. b * 2048 + d) (b * 2048 + i) ds" by blast
  with v show ?case by (intro exI [of _ "i # ds"]) simp
qed simp

lemma write_words_digits:
  "write_words wl k n acc = Inr (map ((!) ws) (digits2048 k n) @ acc)"
proof (induction k arbitrary: n acc)
  case (Suc k)
  have "n AND 2047 = n mod 2048" using and_low_nat [of n 11] by simp
  then show ?case using Suc by (simp add: Let_def SetWordList_def len)
qed simp

lemma fields_of_words:
  "\<forall>d \<in> set ds. d < 2048 \<Longrightarrow>
    strings_Fields (strings_Join (map ((!) ws) ds) '' '') = map ((!) ws) ds"
  using lower len by (intro Fields_Join) auto

lemma split_words:
  assumes "\<forall>d \<in> set ds. d < 2048" and "length ds = 3 * k" and "4 \<le> k" and "k \<le> 8"
  shows "splitMnemonicWords (strings_Join (map ((!) ws) ds) '' '') = Some (map ((!) ws) ds)"
proof -
  have "map strings_TrimSpace (map ((!) ws) ds) = map ((!) ws) ds"
    using assms(1) lower len by (intro map_idI TrimSpace_lowercase) auto
  then show ?thesis using assms by (simp add: splitMnemonicWords_def fields_of_words Let_def del: map_map)
qed

lemma NewMnemonic_words:
  assumes "length e = 4 * k" and "4 \<le> k" and "k \<le> 8"
  shows "NewMnemonic wl e = Inr (strings_Join (map ((!) ws) (digits2048 (3 * k)
    (be_val e * 2 ^ k + unat (sha256 e ! 0) div 2 ^ (8 - k)))) '' '')"
proof -
  have "(length e * 8 + length e * 8 div 32) div 11 = 3 * k" using assms by simp
  moreover have "validateEntropyBitSize (int (length e * 8)) = Inr ()"
    using assms by (simp add: validateEntropyBitSize_def)
  moreover have "length e div 4 = k" using assms by simp
  ultimately show ?thesis using assms
    by (simp add: NewMnemonic_def Let_def addChecksum_value write_words_digits)
qed

lemma Entropy_words:
  assumes "splitMnemonicWords m = Some (map ((!) ws) ds)"
    and "\<forall>d \<in> set ds. d < 2048" and "length ds = 3 * k" and "4 \<le> k" and "k \<le> 8"
    and "n = undigits2048 ds" and "e = be_bytes (4 * k) (n div 2 ^ k)"
  shows "EntropyFromMnemonic wl m =
    (if n mod 2 ^ k = unat (sha256 e ! 0) div 2 ^ (8 - k) then Inr e else Inl ErrChecksumIncorrect)"
proof -
  have "n < 2048 ^ (3 * k)" using undigits_bound [OF assms(2)] assms(3,6) by simp
  also have "(2048 :: nat) ^ (3 * k) = 256 ^ (4 * k) * 2 ^ k"
  by (rule sentence_size)
  finally have small: "n div 2 ^ k < 256 ^ (4 * k)" by (simp add: less_mult_imp_div_less)
  have e: "padByteSlice (big_Bytes (n div 2 ^ k)) (k * 4) = e"
    using pad_big_Bytes [OF small] assms(7) by (simp add: mult.commute)
  have r: "read_words wl (map ((!) ws) ds) 0 = Inr n"
    using read_words_digits [OF assms(2)] assms(6) by (simp add: undigits2048_def)
  have p: "(2 :: nat) ^ k - 1 + 1 = 2 ^ k" by simp
  show ?thesis
  proof (cases "k = 8")
    case True
    then show ?thesis using assms(1,3) r e masks [of k]
      by (simp add: EntropyFromMnemonic_def Let_def and_low_nat [of n 8, simplified] computeChecksum_def)
  next
    case False
    then have "k < 8" using assms(5) by simp
    then show ?thesis using assms(1,3,4) r e masks [of k] shifts [of k]
      by (simp only: EntropyFromMnemonic_def Let_def orErr_Some andThen_Inr length_map p and_low_nat)
        (simp add: computeChecksum_def)
  qed
qed

lemma Entropy_cases:
  assumes "EntropyFromMnemonic wl m = Inr e"
  obtains ds k where "splitMnemonicWords m = Some (map ((!) ws) ds)"
    and "\<forall>d \<in> set ds. d < 2048" and "length ds = 3 * k" and "4 \<le> k" and "k \<le> 8"
    and "e = be_bytes (4 * k) (undigits2048 ds div 2 ^ k)"
    and "undigits2048 ds mod 2 ^ k = unat (sha256 e ! 0) div 2 ^ (8 - k)"
proof -
  from assms obtain vs n where vs: "splitMnemonicWords m = Some vs" and n: "read_words wl vs 0 = Inr n"
    by (auto simp: EntropyFromMnemonic_def andThen_eq_Inr)
  from read_words_sound [OF n] obtain ds where ds: "vs = map ((!) ws) ds" "\<forall>d \<in> set ds. d < 2048"
    by blast
  from vs have "length vs mod 3 = 0" "12 \<le> length vs" "length vs \<le> 24"
    by (auto simp: splitMnemonicWords_def Let_def split: if_splits)
  define k where "k = length vs div 3"
  have k: "length ds = 3 * k" "4 \<le> k" "k \<le> 8"
    using \<open>length vs mod 3 = 0\<close> \<open>12 \<le> length vs\<close> \<open>length vs \<le> 24\<close> ds(1) by (auto simp: k_def)
  show thesis
    using Entropy_words [OF vs [unfolded ds(1)] ds(2) k refl refl] assms
    by (intro that [OF vs [unfolded ds(1)] ds(2) k]) (auto split: if_splits)
qed

lemma roundtrip:
  assumes "length e \<in> {16, 20, 24, 28, 32}"
  shows "\<exists>m. NewMnemonic wl e = Inr m \<and> EntropyFromMnemonic wl m = Inr e"
proof -
  from assms obtain k where k: "length e = 4 * k" "4 \<le> k" "k \<le> 8"
    by (auto intro: that [of 4] that [of 5] that [of 6] that [of 7] that [of 8])
  let ?c = "unat (sha256 e ! 0) div 2 ^ (8 - k)"
  let ?n = "be_val e * 2 ^ k + ?c"
  have c: "?c < 2 ^ k"
    using unat_lt_256 [of "sha256 e ! 0"] k(3) power_add [of "2 :: nat" k "8 - k"]
    by (intro less_mult_imp_div_less) simp
  have "be_val e + 1 \<le> 256 ^ (4 * k)" using be_val_bound [of e] k(1) by simp
  then have "(be_val e + 1) * 2 ^ k \<le> 256 ^ (4 * k) * 2 ^ k" by (rule mult_le_mono1)
  then have "?n < 2048 ^ (3 * k)" using c by (simp add: sentence_size)
  then have und: "undigits2048 (digits2048 (3 * k) ?n) = ?n" by (simp add: undigits_digits)
  have "?n div 2 ^ k = be_val e" "?n mod 2 ^ k = ?c" using c by simp_all
  moreover have "be_bytes (4 * k) (be_val e) = e" using be_bytes_be_val [of e] k(1) by simp
  ultimately have "EntropyFromMnemonic wl
      (strings_Join (map ((!) ws) (digits2048 (3 * k) ?n)) '' '') = Inr e"
    using k by (subst Entropy_words [OF split_words [OF _ length_digits2048 k(2,3)] _ length_digits2048
      k(2,3) und [symmetric] refl]) (auto dest: digits2048_less)
  then show ?thesis using NewMnemonic_words [OF k] by blast
qed

lemma canonical:
  assumes "EntropyFromMnemonic wl m = Inr e"
  shows "NewMnemonic wl e = Inr (strings_Join (strings_Fields m) '' '')"
  using assms
proof (rule Entropy_cases)
  fix ds k
  assume sp: "splitMnemonicWords m = Some (map ((!) ws) ds)"
    and ds: "\<forall>d \<in> set ds. d < 2048" "length ds = 3 * k" and k: "4 \<le> k" "k \<le> 8"
    and e: "e = be_bytes (4 * k) (undigits2048 ds div 2 ^ k)"
    and chk: "undigits2048 ds mod 2 ^ k = unat (sha256 e ! 0) div 2 ^ (8 - k)"
  have "undigits2048 ds < 256 ^ (4 * k) * 2 ^ k"
    using undigits_bound [OF ds(1)] ds(2) by (simp add: sentence_size)
  then have "be_val e = undigits2048 ds div 2 ^ k"
    by (simp add: e be_val_be_bytes less_mult_imp_div_less)
  then have "be_val e * 2 ^ k + unat (sha256 e ! 0) div 2 ^ (8 - k) = undigits2048 ds"
    using div_mult_mod_eq [of "undigits2048 ds" "2 ^ k"] by (simp add: chk)
  moreover have "length e = 4 * k" by (simp add: e)
  moreover have "strings_Fields m = map ((!) ws) ds"
    using sp by (auto simp: splitMnemonicWords_def Let_def split: if_splits)
  ultimately show ?thesis using NewMnemonic_words [OF _ k] ds digits_undigits [OF ds(1)] by simp
qed

lemma entropy_length: "EntropyFromMnemonic wl m = Inr e \<Longrightarrow> length e \<in> {16, 20, 24, 28, 32}"
proof (erule Entropy_cases)
  fix k ds assume "4 \<le> k" "k \<le> 8" and e: "e = be_bytes (4 * k) (undigits2048 ds div 2 ^ k)"
  then have "k = 4 \<or> k = 5 \<or> k = 6 \<or> k = 7 \<or> k = 8" by linarith
  then show "length e \<in> {16, 20, 24, 28, 32}" by (auto simp: e)
qed

lemma read_as_sum:
  "\<forall>d \<in> set ds. d < 2048 \<Longrightarrow>
    foldl (\<lambda>n v. n * 2048 + (case wordMap wl v of None \<Rightarrow> 0 | Some i \<Rightarrow> i)) b (map ((!) ws) ds) =
    foldl (\<lambda>b d. b * 2048 + d) b ds"
  by (induction ds arbitrary: b) (simp_all add: lookup)

lemma byte_array:
  "MnemonicToByteArray wl m [True] =
    (case EntropyFromMnemonic wl m of Inl _ \<Rightarrow> Inl ErrInvalidMnemonic | Inr e \<Rightarrow> Inr e)"
proof (cases "EntropyFromMnemonic wl m")
  case (Inl x)
  then show ?thesis by (simp add: MnemonicToByteArray_def IsMnemonicValid_def Let_def)
next
  case (Inr e)
  then show ?thesis
  proof (rule Entropy_cases)
    fix ds k
    assume sp: "splitMnemonicWords m = Some (map ((!) ws) ds)"
      and ds: "\<forall>d \<in> set ds. d < 2048" "length ds = 3 * k" and k: "4 \<le> k" "k \<le> 8"
      and e: "e = be_bytes (4 * k) (undigits2048 ds div 2 ^ k)"
      and chk: "undigits2048 ds mod 2 ^ k = unat (sha256 e ! 0) div 2 ^ (8 - k)"
    let ?n = "undigits2048 ds"
    have f: "strings_Fields m = map ((!) ws) ds"
      using sp by (auto simp: splitMnemonicWords_def Let_def split: if_splits)
    have sizes: "33 * k mod 32 = k" "(33 * k - k) div 8 + 1 = 4 * k + 1"
      "4 * k + 1 - (4 * k + 1) mod 4 = 4 * k"
    proof -
      have "33 * k mod 32 = (32 * k + k) mod 32" by simp
      then show "33 * k mod 32 = k" using k(2) by (simp only: mod_mult_self4) simp
    qed simp_all
    have small: "?n div 2 ^ k < 256 ^ (4 * k)"
      using undigits_bound [OF ds(1)] ds(2) by (simp add: sentence_size less_mult_imp_div_less)
    have e': "padByteSlice (big_Bytes (?n div 2 ^ k)) (4 * k) = e"
      using pad_big_Bytes [OF small] e by simp
    have "be_val e = ?n div 2 ^ k" using small by (simp add: e be_val_be_bytes)
    then have "addChecksum e = big_Bytes ?n"
      using k div_mult_mod_eq [of ?n "2 ^ k"] by (simp add: addChecksum_value e chk [unfolded e])
    then show ?thesis
      using sizes k Inr e' read_as_sum [OF ds(1), of 0]
      by (simp add: MnemonicToByteArray_def IsMnemonicValid_def Let_def f ds(2) compareByteSlices_def
          undigits2048_def list_all_iff)
  qed
qed

lemma generate:
  assumes "GenerateMnemonic wl n rng = Inr (m, rng')"
  shows "IsValidMnemonic wl m \<and> int (length (strings_Fields m)) = n"
proof -
  from assms obtain e where n: "n = 12 \<or> n = 24" and ne: "NewEntropy (n div 3 * 32) rng = Inr (e, rng')"
    and m: "NewMnemonic wl e = Inr m"
    by (auto simp: GenerateMnemonic_def andThen_eq_Inr split: if_splits)
  define k where "k = nat n div 3"
  have k: "4 \<le> k" "k \<le> 8" "n = 3 * int k" using n by (auto simp: k_def)
  have l: "length e = 4 * k"
    using ne n by (auto simp: NewEntropy_def andThen_eq_Inr Let_def k_def min_def split: if_splits)
  then have "length e \<in> {16, 20, 24, 28, 32}" using n by (auto simp: k_def)
  from roundtrip [OF this] m have "EntropyFromMnemonic wl m = Inr e" by auto
  moreover have "strings_Fields m = map ((!) ws) (digits2048 (3 * k)
      (be_val e * 2 ^ k + unat (sha256 e ! 0) div 2 ^ (8 - k)))"
    using m NewMnemonic_words [OF l k(1,2)] by (auto simp: fields_of_words digits2048_less)
  ultimately show ?thesis using k by (simp add: IsValidMnemonic_def IsMnemonicValid_def)
qed

end

interpretation english: bip39_words English
  by unfold_locales (simp_all add: distinct_English English_lowercase)


definition init_words :: wordlist where
  "init_words = SetWordList English"

text \<open>
  C3: the mnemonic made from an entropy of a permitted length decodes to that entropy.
\<close>
theorem mnemonic_recovers_entropy:
  assumes "length e \<in> {16, 20, 24, 28, 32}"
  shows "\<exists>m. NewMnemonic init_words e = Inr m \<and> EntropyFromMnemonic init_words m = Inr e"
  unfolding init_words_def using assms by (rule english.roundtrip)

theorem mnemonic_recovers_entropy_witness:
  "\<exists>m. NewMnemonic init_words (replicate 16 7) = Inr m \<and>
     EntropyFromMnemonic init_words m = Inr (replicate 16 7)"
  by (rule mnemonic_recovers_entropy) simp

text \<open>
  decoding accepts a mnemonic only in its canonical words: encoding the entropy again gives
  the words read, separated by single blanks.
\<close>
theorem entropy_determines_mnemonic:
  assumes "EntropyFromMnemonic init_words m = Inr e"
  shows "NewMnemonic init_words e = Inr (strings_Join (strings_Fields m) '' '')"
  using assms unfolding init_words_def by (rule english.canonical)

theorem entropy_determines_mnemonic_witness:
  "\<exists>m. EntropyFromMnemonic init_words m = Inr (replicate 32 1) \<and>
     NewMnemonic init_words (replicate 32 1) = Inr (strings_Join (strings_Fields m) '' '')"
proof -
  have "length (replicate 32 (1 :: u8)) \<in> {16, 20, 24, 28, 32}" by simp
  then obtain m where "EntropyFromMnemonic init_words m = Inr (replicate 32 1)"
    using english.roundtrip unfolding init_words_def by blast
  then show ?thesis using entropy_determines_mnemonic by blast
qed

text \<open>
  the two decoders agree. With the raw option the byte array is the entropy, so the second
  checksum comparison never fails on a valid mnemonic.
\<close>
theorem byte_array_is_entropy:
  "MnemonicToByteArray init_words m [True] =
    (case EntropyFromMnemonic init_words m of Inl _ \<Rightarrow> Inl ErrInvalidMnemonic | Inr e \<Rightarrow> Inr e)"
  unfolding init_words_def by (rule english.byte_array)

text \<open>
  a generated mnemonic is valid and has the requested number of words.
\<close>
theorem generated_mnemonic_valid:
  assumes "GenerateMnemonic init_words n rng = Inr (m, rng')"
  shows "IsValidMnemonic init_words m \<and> int (length (strings_Fields m)) = n"
  using assms unfolding init_words_def by (rule english.generate)

lemma generate_succeeds:
  "length rng \<ge> 16 \<Longrightarrow> \<exists>m. GenerateMnemonic init_words 12 rng = Inr (m, drop 16 rng)"
proof -
  assume l: "length rng \<ge> 16"
  then have "length (take 16 rng) \<in> {16, 20, 24, 28, 32}" by simp
  from english.roundtrip [OF this] obtain m where "NewMnemonic init_words (take 16 rng) = Inr m"
    unfolding init_words_def by blast
  then show ?thesis
    using l by (simp add: GenerateMnemonic_def NewEntropy_def validateEntropyBitSize_def)
qed

theorem generated_mnemonic_valid_witness:
  "\<exists>m. GenerateMnemonic init_words 12 (replicate 16 9) = Inr (m, []) \<and>
     IsValidMnemonic init_words m \<and> int (length (strings_Fields m)) = 12"
  using generate_succeeds [of "replicate 16 9"] generated_mnemonic_valid by fastforce

end
