(* ===== verification/Sss.thy ===== *)
theory Sss
  imports Shamir Bip39
begin

text \<open>
  \<open>crypto/sss.go\<close>: shares with a checksum, and the textual shares of a mnemonic. A textual share
  is \<open>fingerprint-index-data\<close> with the fingerprint and the data in hexadecimal.
\<close>

section \<open>The code\<close>

datatype sss_error =
    SplitError shamir_error | CombineError shamir_error | InvalidCombinedData | ChecksumMismatch
  | InvalidStr bip39_error | BadFormattedCount | ShareTooLong | InvalidShardFormat nat
  | InvalidFingerprint | InvalidShareIndex | FingerprintMismatch | InvalidHexData nat
  | InvalidPayloadLength | PayloadLengthsDiffer | InvalidCoordinate
  | RecoveredFingerprintMismatch | MnemonicError bip39_error

definition SSSSplit :: "bytes \<Rightarrow> int \<Rightarrow> int \<Rightarrow> bytes \<Rightarrow> sss_error + bytes list \<times> bytes" where
  "SSSSplit data n t rng =
     (let payload = data @ take 4 (sha256 data) in mapErr SplitError (Split payload n t rng))"

definition SSSCombine :: "bytes list \<Rightarrow> sss_error + bytes" where
  "SSSCombine shares =
     andThen (mapErr CombineError (Combine shares)) (\<lambda>combined.
       if length combined < 4 then Inl InvalidCombinedData
       else
         let data = take (length combined - 4) combined;
             checksum = drop (length combined - 4) combined;
             hash = sha256 data
         in if list_ex (\<lambda>i. hash ! i \<noteq> checksum ! i) [0..<4] then Inl ChecksumMismatch
            else Inr data)"

definition format_share :: "string \<Rightarrow> nat \<Rightarrow> bytes \<Rightarrow> string" where
  "format_share fingerprint i s = fingerprint @ ''-'' @ FormatUint i @ ''-'' @ hex_encode s"

definition PerformSplit ::
  "wordlist \<Rightarrow> string \<Rightarrow> int \<Rightarrow> int \<Rightarrow> bytes \<Rightarrow> sss_error + string list \<times> bytes"
where
  "PerformSplit wl str totalShares thresholdShares rng =
     andThen (mapErr InvalidStr (EntropyFromMnemonic wl str)) (\<lambda>entropy.
       let fingerprint = hex_encode (take 4 (sha256 entropy))
       in andThen (SSSSplit entropy totalShares thresholdShares rng) (\<lambda>(shares, rng).
         Inr (map (\<lambda>i. format_share fingerprint i (shares ! i)) [0..<length shares], rng)))"

text \<open>
  The loop of \<open>PerformRecover\<close>: \<open>i\<close> counts the shares read, \<open>expected\<close> is the fingerprint of
  the first one, \<open>indexes\<close> and \<open>coordinates\<close> are the sets of values seen, and the data read so
  far is \<open>byteShares\<close>.
\<close>

record recover_state =
  expectedFingerprint :: string
  indexes :: "int set"
  coordinates :: "u8 set"
  byteShares :: "bytes list"

definition recover_share :: "nat \<Rightarrow> recover_state \<Rightarrow> string \<Rightarrow> sss_error + recover_state" where
  "recover_share i st s =
     (if length s > 87 then Inl ShareTooLong
      else case strings_Split s CHR ''-'' of
        [part0, part1, part2] \<Rightarrow>
          (case hex_decode part0 of
             None \<Rightarrow> Inl InvalidFingerprint
           | Some fingerprint \<Rightarrow>
               if length fingerprint \<noteq> 4 then Inl InvalidFingerprint
               else case Atoi part1 of
                 None \<Rightarrow> Inl InvalidShareIndex
               | Some index \<Rightarrow>
                   if index < 0 \<or> index > 254 \<or> Itoa index \<noteq> part1 \<or> index \<in> indexes st
                   then Inl InvalidShareIndex
                   else
                     let currentFingerprint = hex_encode fingerprint;
                         expected = (if i = 0 then currentFingerprint else expectedFingerprint st)
                     in if i \<noteq> 0 \<and> currentFingerprint \<noteq> expectedFingerprint st
                        then Inl FingerprintMismatch
                        else case hex_decode part2 of
                          None \<Rightarrow> Inl (InvalidHexData i)
                        | Some b \<Rightarrow>
                            if length b \<notin> {21, 25, 29, 33, 37} then Inl InvalidPayloadLength
                            else if i > 0 \<and> length b \<noteq> length (byteShares st ! 0)
                            then Inl PayloadLengthsDiffer
                            else
                              let coordinate = b ! (length b - 1)
                              in if coordinate = 0 \<or> coordinate \<in> coordinates st
                                 then Inl InvalidCoordinate
                                 else Inr \<lparr>expectedFingerprint = expected,
                                           indexes = insert index (indexes st),
                                           coordinates = insert coordinate (coordinates st),
                                           byteShares = byteShares st @ [b]\<rparr>)
      | _ \<Rightarrow> Inl (InvalidShardFormat i))"

fun recover_shares :: "nat \<Rightarrow> recover_state \<Rightarrow> string list \<Rightarrow> sss_error + recover_state" where
  "recover_shares i st [] = Inr st"
| "recover_shares i st (s # ss) =
     andThen (recover_share i st s) (\<lambda>st. recover_shares (i + 1) st ss)"

definition PerformRecover :: "wordlist \<Rightarrow> string list \<Rightarrow> sss_error + string" where
  "PerformRecover wl formattedShares =
     (if length formattedShares < 2 \<or> length formattedShares > 255 then Inl BadFormattedCount
      else andThen (recover_shares 0 \<lparr>expectedFingerprint = [], indexes = {}, coordinates = {},
                      byteShares = []\<rparr> formattedShares) (\<lambda>st.
        andThen (SSSCombine (byteShares st)) (\<lambda>entropy.
          let actualFingerprint = hex_encode (take 4 (sha256 entropy))
          in if actualFingerprint \<noteq> expectedFingerprint st then Inl RecoveredFingerprintMismatch
             else mapErr MnemonicError (NewMnemonic wl entropy))))"

section \<open>Lemmas\<close>

lemma Split_shares:
  assumes "Split secret n t rng = Inr (shares, rng')"
  shows "int (length shares) = n" and "\<forall>s \<in> set shares. length s = length secret + 1"
    and "distinct (map (\<lambda>s. s ! length secret) shares)"
    and "\<forall>s \<in> set shares. s ! length secret \<noteq> 0"
    and "distinct shares" and "2 \<le> t" and "n \<le> 255" and "secret \<noteq> []"
proof -
  obtain coords polys where sh: "shares = map (deal polys) coords" "hides (nat t) secret polys"
    "length coords = nat n" "distinct coords" "0 \<notin> set coords" "2 \<le> t" "t \<le> n" "n \<le> 255" "secret \<noteq> []"
    using assms by (rule Split_deals)
  then have len: "length polys = length secret" by (simp add: hides_def)
  then have at: "deal polys c ! length secret = c" for c
    by (simp add: deal_def nth_append flip: len)
  show "int (length shares) = n" "\<forall>s \<in> set shares. length s = length secret + 1"
    "\<forall>s \<in> set shares. s ! length secret \<noteq> 0" "2 \<le> t" "n \<le> 255" "secret \<noteq> []"
    using sh len at by (auto simp: deal_def)
  show "distinct (map (\<lambda>s. s ! length secret) shares)" using sh by (simp add: comp_def at)
  then show "distinct shares" by (simp add: distinct_map)
qed

lemma SSSCombine_selection:
  assumes "SSSSplit data n t rng = Inr (shares, rng')"
    and "distinct sel" and "set sel \<subseteq> set shares" and "t \<le> int (length sel)"
  shows "SSSCombine sel = Inr data"
proof -
  have "Split (data @ take 4 (sha256 data)) n t rng = Inr (shares, rng')"
    using assms(1) by (simp add: SSSSplit_def Let_def)
  from Combine_selection [OF this assms(2-)] have "Combine sel = Inr (data @ take 4 (sha256 data))" .
  then show ?thesis by (simp add: SSSCombine_def Let_def list_ex_iff)
qed

lemma split_formatted:
  "strings_Split (format_share (hex_encode fp) i s) CHR ''-'' =
    [hex_encode fp, FormatUint i, hex_encode s]"
proof -
  have "CHR ''-'' \<notin> set (hex_encode b)" for b
    using set_hex_encode [of "CHR ''-''" b] by (auto simp: char_nat_def)
  moreover have "CHR ''-'' \<notin> set (FormatUint i)"
    using FormatUint_digits [of "CHR ''-''" i] by (auto simp: char_nat_def)
  ultimately have "strings_Split (strings_Join [hex_encode fp, FormatUint i, hex_encode s] [CHR ''-''])
      CHR ''-'' = [hex_encode fp, FormatUint i, hex_encode s]"
    by (intro split_join) auto
  then show ?thesis by (simp add: format_share_def)
qed

lemma length_FormatUint_small: "i < 1000 \<Longrightarrow> length (FormatUint i) \<le> 3"
  by (subst FormatUint.simps, subst FormatUint.simps, subst FormatUint.simps) auto

section \<open>Recovering\<close>

definition recover_init :: recover_state where
  "recover_init =
     \<lparr>expectedFingerprint = [], indexes = {}, coordinates = {}, byteShares = []\<rparr>"

text \<open>The state after the shares with the indices \<open>js\<close> have been read.\<close>

definition recovered :: "bytes \<Rightarrow> bytes list \<Rightarrow> nat list \<Rightarrow> recover_state" where
  "recovered fp shares js =
     \<lparr>expectedFingerprint = (if js = [] then [] else hex_encode fp), indexes = int ` set js,
      coordinates = (\<lambda>j. shares ! j ! (length (shares ! j) - 1)) ` set js,
      byteShares = map ((!) shares) js\<rparr>"

lemma recover_share_next:
  assumes "length fp = 4" and "k \<in> {21, 25, 29, 33, 37}" and "\<forall>s \<in> set shares. length s = k"
    and "\<forall>s \<in> set shares. s ! (k - 1) \<noteq> 0" and "distinct (map (\<lambda>s. s ! (k - 1)) shares)"
    and "length shares \<le> 255" and "set js \<subseteq> {..<length shares}" and "j < length shares" and "j \<notin> set js"
  shows "recover_share (length js) (recovered fp shares js)
      (format_share (hex_encode fp) j (shares ! j)) = Inr (recovered fp shares (js @ [j]))"
proof -
  let ?s = "format_share (hex_encode fp) j (shares ! j)"
  have k: "length (shares ! i) = k" "shares ! i ! (k - 1) \<noteq> 0" if "i < length shares" for i
    using assms(3,4) that by auto
  have "length ?s \<le> 87"
    using assms(1,2,6,8) length_FormatUint_small [of j] k(1) by (auto simp: format_share_def)
  moreover have "shares ! j ! (k - 1) \<noteq> shares ! i ! (k - 1)" if "i \<in> set js" for i
    using assms(5,7,8,9) that nth_eq_iff_index_eq [OF assms(5), of i j] by auto
  then have "shares ! j ! (k - 1) \<notin> (\<lambda>i. shares ! i ! (length (shares ! i) - 1)) ` set js"
    using assms(7) k(1) by (auto simp: subset_iff)
  moreover have "Atoi (FormatUint j) = Some (int j)" "Itoa (int j) = FormatUint j"
    using assms(6,8) by (simp_all add: Atoi_FormatUint Itoa_def)
  moreover have "length (map ((!) shares) js ! 0) = k" if "js \<noteq> []"
    using that assms(7) k(1) by (cases js) auto
  ultimately show ?thesis
    using assms(1,2,6,8,9) k [of j]
    by (simp add: recover_share_def split_formatted Let_def recovered_def insert_commute image_iff)
qed

lemma recover_shares_all:
  assumes "length fp = 4" and "k \<in> {21, 25, 29, 33, 37}" and "\<forall>s \<in> set shares. length s = k"
    and "\<forall>s \<in> set shares. s ! (k - 1) \<noteq> 0" and "distinct (map (\<lambda>s. s ! (k - 1)) shares)"
    and "length shares \<le> 255" and "set (js @ is) \<subseteq> {..<length shares}" and "distinct (js @ is)"
  shows "recover_shares (length js) (recovered fp shares js)
      (map (\<lambda>i. format_share (hex_encode fp) i (shares ! i)) is) = Inr (recovered fp shares (js @ is))"
  using assms(7,8)
proof (induction "is" arbitrary: js)
  case (Cons i "is")
  have "recover_share (length js) (recovered fp shares js)
      (format_share (hex_encode fp) i (shares ! i)) = Inr (recovered fp shares (js @ [i]))"
    using Cons.prems by (intro recover_share_next [OF assms(1-6)]) auto
  moreover have "set ((js @ [i]) @ is) \<subseteq> {..<length shares}" "distinct ((js @ [i]) @ is)"
    using Cons.prems by auto
  from Cons.IH [OF this] have "recover_shares (length js + 1) (recovered fp shares (js @ [i]))
      (map (\<lambda>i. format_share (hex_encode fp) i (shares ! i)) is) = Inr (recovered fp shares (js @ i # is))"
    by simp
  ultimately show ?case by simp
qed simp

text \<open>A selection of different textual shares is a selection of different indices.\<close>

lemma selected_indices:
  assumes "distinct sel" and "set sel \<subseteq> set (map f [0..<m])"
  obtains js where "sel = map f js" and "distinct js" and "set js \<subseteq> {..<m}"
proof -
  define g where "g s = (SOME j. j < m \<and> f j = s)" for s
  have g: "g s < m \<and> f (g s) = s" if "s \<in> set sel" for s
  proof -
    have "s \<in> f ` {0..<m}" using subsetD [OF assms(2) that] by (simp only: set_map set_upt)
    then have "\<exists>j. j < m \<and> f j = s" by (metis atLeastLessThan_iff imageE)
    then show ?thesis unfolding g_def by (rule someI_ex)
  qed
  have "sel = map f (map g sel)" using g by (simp add: map_idI)
  moreover from this have "distinct (map g sel)" using assms(1) by (metis distinct_map)
  moreover have "set (map g sel) \<subseteq> {..<m}" using g by auto
  ultimately show thesis using that by blast
qed

lemma recover_selection:
  assumes "PerformSplit init_words m n t rng = Inr (shares, rng')"
    and "distinct sel" and "set sel \<subseteq> set shares" and "t \<le> int (length sel)"
  shows "PerformRecover init_words sel = Inr (strings_Join (strings_Fields m) '' '')"
proof -
  from assms(1) obtain e bs where e: "EntropyFromMnemonic init_words m = Inr e"
    and sp: "SSSSplit e n t rng = Inr (bs, rng')"
    and sh: "shares = map (\<lambda>i. format_share (hex_encode (take 4 (sha256 e))) i (bs ! i)) [0..<length bs]"
    by (auto simp: PerformSplit_def andThen_eq_Inr Let_def)
  let ?fp = "take 4 (sha256 e)" and ?k = "length e + 5"
  have "length e \<in> {16, 20, 24, 28, 32}"
    using english.entropy_length e unfolding init_words_def by blast
  then have k: "?k \<in> {21, 25, 29, 33, 37}" by auto
  have "Split (e @ ?fp) n t rng = Inr (bs, rng')" using sp by (simp add: SSSSplit_def Let_def)
  note b = Split_shares [OF this]
  obtain js where js: "sel = map (\<lambda>i. format_share (hex_encode ?fp) i (bs ! i)) js" "distinct js"
    "set js \<subseteq> {..<length bs}"
    using assms(2) assms(3) [unfolded sh] by (rule selected_indices)
  have "card (set js) \<le> card {..<length bs}" using js(3) by (intro card_mono) simp_all
  then have le: "length js \<le> length bs" using js(2) by (simp add: distinct_card)
  have "recover_shares (length ([] :: nat list)) (recovered ?fp bs []) sel = Inr (recovered ?fp bs ([] @ js))"
  proof -
    have l: "length (e @ ?fp) = ?k - 1" "length (e @ ?fp) + 1 = ?k" by simp_all
    have "recover_shares (length ([] :: nat list)) (recovered ?fp bs [])
        (map (\<lambda>i. format_share (hex_encode ?fp) i (bs ! i)) js) = Inr (recovered ?fp bs ([] @ js))"
    proof (rule recover_shares_all [OF _ k])
      show "\<forall>s \<in> set bs. length s = ?k" using b(2) unfolding l(2) .
      show "\<forall>s \<in> set bs. s ! (?k - 1) \<noteq> 0" using b(4) unfolding l(1) .
      show "distinct (map (\<lambda>s. s ! (?k - 1)) bs)" using b(3) unfolding l(1) .
    qed (use b(1,7) js in simp_all)
    then show ?thesis by (simp only: js(1))
  qed
  then have rec: "recover_shares 0 recover_init sel = Inr (recovered ?fp bs js)"
    by (simp add: recovered_def recover_init_def)
  have "distinct (map ((!) bs) js)"
    using js(2,3) b(5) by (auto simp: distinct_map inj_on_def nth_eq_iff_index_eq subset_iff)
  then have "SSSCombine (map ((!) bs) js) = Inr e"
    using js assms(4) by (intro SSSCombine_selection [OF sp]) auto
  then show ?thesis
    using rec le b(1,6,7) assms(4) js(1) english.canonical [of m e] e
    by (simp add: PerformRecover_def recover_init_def recovered_def Let_def init_words_def) auto
qed

section \<open>What a recovered mnemonic guarantees\<close>

definition share_fingerprint :: "string \<Rightarrow> bytes option" where
  "share_fingerprint s = hex_decode (strings_Split s CHR ''-'' ! 0)"

lemma recover_share_fingerprint:
  "recover_share i st s = Inr st' \<Longrightarrow>
    \<exists>fp. share_fingerprint s = Some fp \<and> expectedFingerprint st' = hex_encode fp \<and>
      (i \<noteq> 0 \<longrightarrow> expectedFingerprint st = hex_encode fp)"
  by (simp add: recover_share_def share_fingerprint_def Let_def
      split: if_split_asm list.split_asm option.split_asm) auto

lemma recover_shares_expected:
  "recover_shares i st ss = Inr st' \<Longrightarrow> i \<noteq> 0 \<Longrightarrow>
    expectedFingerprint st' = expectedFingerprint st \<and>
    (\<forall>s \<in> set ss. \<exists>fp. share_fingerprint s = Some fp \<and> expectedFingerprint st = hex_encode fp)"
proof (induction ss arbitrary: i st)
  case (Cons s ss)
  then obtain st1 where st1: "recover_share i st s = Inr st1" "recover_shares (i + 1) st1 ss = Inr st'"
    by (auto simp: andThen_eq_Inr)
  from recover_share_fingerprint [OF st1(1)] Cons.prems(2) have
    "expectedFingerprint st1 = expectedFingerprint st"
    "\<exists>fp. share_fingerprint s = Some fp \<and> expectedFingerprint st = hex_encode fp" by auto
  with Cons.IH [OF st1(2)] show ?case by simp
qed simp

lemma recover_shares_same:
  assumes "recover_shares 0 st ss = Inr st'" and "s \<in> set ss"
  shows "\<exists>fp. share_fingerprint s = Some fp \<and> expectedFingerprint st' = hex_encode fp"
proof (cases ss)
  case (Cons t ts)
  with assms(1) obtain st1 where st1: "recover_share 0 st t = Inr st1"
    "recover_shares (Suc 0) st1 ts = Inr st'" by (auto simp: andThen_eq_Inr)
  from recover_shares_expected [OF st1(2)] recover_share_fingerprint [OF st1(1)] assms(2) Cons
  show ?thesis by auto
qed (use assms(2) in simp)

lemma NewMnemonic_length: "NewMnemonic wl e = Inr m \<Longrightarrow> length e \<in> {16, 20, 24, 28, 32}"
proof -
  assume "NewMnemonic wl e = Inr m"
  then have "validateEntropyBitSize (int (length e * 8)) = Inr ()"
    by (auto simp: NewMnemonic_def Let_def andThen_eq_Inr)
  then have l: "int (length e * 8) mod int 32 = 0" "128 \<le> length e * 8" "length e * 8 \<le> 256"
    by (auto simp: validateEntropyBitSize_def split: if_splits)
  from l(1) have "length e * 8 mod 32 = 0" by (simp only: flip: zmod_int)
  with l have "16 \<le> length e" "length e \<le> 32" "length e mod 4 = 0" by presburger+
  then show ?thesis by (simp, presburger)
qed

lemma recovered_sound:
  assumes "PerformRecover init_words ss = Inr m"
  shows "\<exists>e. EntropyFromMnemonic init_words m = Inr e \<and>
    (\<forall>s \<in> set ss. share_fingerprint s = Some (take 4 (sha256 e)))"
proof -
  from assms obtain st e where st: "recover_shares 0 recover_init ss = Inr st"
    and fp: "hex_encode (take 4 (sha256 e)) = expectedFingerprint st" and m: "NewMnemonic init_words e = Inr m"
    by (auto simp: PerformRecover_def recover_init_def Let_def andThen_eq_Inr split: if_splits)
  from english.roundtrip [OF NewMnemonic_length [OF m]] m
  have "EntropyFromMnemonic init_words m = Inr e" by (auto simp: init_words_def)
  moreover have "share_fingerprint s = Some (take 4 (sha256 e))" if "s \<in> set ss" for s
    using recover_shares_same [OF st that] by (auto simp flip: fp)
  ultimately show ?thesis by blast
qed

section \<open>Properties\<close>

text \<open>
  C4: shares with a checksum. At least \<open>t\<close> different shares of \<open>SSSSplit\<close> combine to the data.
\<close>
theorem sss_recovers:
  assumes "SSSSplit data n t rng = Inr (shares, rng')"
    and "distinct sel" and "set sel \<subseteq> set shares" and "t \<le> int (length sel)"
  shows "SSSCombine sel = Inr data"
  using assms by (rule SSSCombine_selection)

lemma split_example:
  "length data \<le> 40 \<Longrightarrow> \<exists>shares rng'. SSSSplit data 3 2 (replicate 300 5) = Inr (shares, rng') \<and>
     distinct shares \<and> length shares = 3"
proof -
  assume l: "length data \<le> 40"
  have "replicate 300 (5 :: u8) = replicate 254 5 @ replicate 46 5" by (simp flip: replicate_add)
  then obtain shares rng' where
    s: "Split (data @ take 4 (sha256 data)) 3 2 (replicate 300 5) = Inr (shares, rng')"
    using Split_progress [of "data @ take 4 (sha256 data)" 2 3 "replicate 254 5" "replicate 46 5"] l by auto
  with Split_shares(1,5) [OF s] show ?thesis by (auto simp: SSSSplit_def Let_def)
qed

theorem sss_recovers_witness:
  "\<exists>shares rng'. SSSSplit [1, 2, 3] 3 2 (replicate 300 5) = Inr (shares, rng') \<and>
     SSSCombine (drop 1 shares) = Inr [1, 2, 3]"
proof -
  have "length [1, 2, 3 :: u8] \<le> 40" by simp
  from split_example [OF this] obtain shares rng' where
    s: "SSSSplit [1, 2, 3] 3 2 (replicate 300 5) = Inr (shares, rng')" "distinct shares"
    "length shares = 3" by blast
  have "SSSCombine (drop 1 shares) = Inr [1, 2, 3]"
    by (rule sss_recovers [OF s(1)]) (use s in \<open>auto dest: in_set_dropD\<close>)
  with s show ?thesis by blast
qed

text \<open>
  any \<open>t\<close> different textual shares of a mnemonic recover it, written with single blanks,
  whatever their order.
\<close>
theorem mnemonic_shares_recover:
  assumes "PerformSplit init_words m n t rng = Inr (shares, rng')"
    and "distinct sel" and "set sel \<subseteq> set shares" and "t \<le> int (length sel)"
  shows "PerformRecover init_words sel = Inr (strings_Join (strings_Fields m) '' '')"
  using assms by (rule recover_selection)

lemma perform_split_example:
  obtains m shares rng' where "EntropyFromMnemonic init_words m = Inr (replicate 16 1)"
    and "PerformSplit init_words m 3 2 (replicate 300 5) = Inr (shares, rng')"
    and "distinct shares" and "length shares = 3"
proof -
  have "length (replicate 16 (1 :: u8)) \<in> {16, 20, 24, 28, 32}" by simp
  from english.roundtrip [OF this] obtain m where
    m: "EntropyFromMnemonic init_words m = Inr (replicate 16 1)" by (auto simp: init_words_def)
  have "length (replicate 16 (1 :: u8)) \<le> 40" by simp
  from split_example [OF this] obtain bs rng' where
    s: "SSSSplit (replicate 16 1) 3 2 (replicate 300 5) = Inr (bs, rng')" "distinct bs" "length bs = 3"
    by blast
  let ?f = "\<lambda>i. format_share (hex_encode (take 4 (sha256 (replicate 16 1)))) i (bs ! i)"
  have "inj ?f" by (rule injI) (drule arg_cong [where f = "\<lambda>s. strings_Split s CHR ''-''"],
      simp add: split_formatted)
  then have "distinct (map ?f [0..<3])" by (simp add: distinct_map inj_on_def)
  then show thesis using that [OF m, of "map ?f [0..<3]" rng'] m s
    by (simp add: PerformSplit_def Let_def del: upt_Suc)
qed

theorem mnemonic_shares_recover_witness:
  "\<exists>m shares rng'. PerformSplit init_words m 3 2 (replicate 300 5) = Inr (shares, rng') \<and>
     PerformRecover init_words (drop 1 shares) = Inr (strings_Join (strings_Fields m) '' '')"
proof -
  obtain m shares rng' where s: "PerformSplit init_words m 3 2 (replicate 300 5) = Inr (shares, rng')"
    "distinct shares" "length shares = 3" by (rule perform_split_example)
  have "PerformRecover init_words (drop 1 shares) = Inr (strings_Join (strings_Fields m) '' '')"
    by (rule mnemonic_shares_recover [OF s(1)]) (use s in \<open>auto dest: in_set_dropD\<close>)
  with s show ?thesis by blast
qed

text \<open>
  whatever shares are given, a mnemonic that \<open>PerformRecover\<close> returns is valid, and the
  fingerprint every share carries is the one of its entropy.
\<close>
theorem recovered_mnemonic_checked:
  assumes "PerformRecover init_words ss = Inr m"
  shows "\<exists>e. EntropyFromMnemonic init_words m = Inr e \<and>
    (\<forall>s \<in> set ss. share_fingerprint s = Some (take 4 (sha256 e)))"
  using assms by (rule recovered_sound)

theorem recovered_mnemonic_checked_witness:
  "\<exists>ss m e. PerformRecover init_words ss = Inr m \<and> EntropyFromMnemonic init_words m = Inr e \<and>
    (\<forall>s \<in> set ss. share_fingerprint s = Some (take 4 (sha256 e)))"
proof -
  obtain m shares rng' where s: "PerformSplit init_words m 3 2 (replicate 300 5) = Inr (shares, rng')"
    "distinct shares" "length shares = 3" by (rule perform_split_example)
  have "PerformRecover init_words (drop 1 shares) = Inr (strings_Join (strings_Fields m) '' '')"
    by (rule recover_selection [OF s(1)]) (use s in \<open>auto dest: in_set_dropD\<close>)
  from recovered_mnemonic_checked [OF this] this show ?thesis by blast
qed

end
