(* ===== verification/Sha512.thy ===== *)
theory Sha512
  imports Sha256
begin

text \<open>
  \<open>crypto/sha512\<close> and \<open>crypto/hmac\<close> of Go's standard library, as key derivation uses them.
\<close>

definition sha512_K :: "u64 list" where
  "sha512_K = [
    0x428a2f98d728ae22, 0x7137449123ef65cd, 0xb5c0fbcfec4d3b2f, 0xe9b5dba58189dbbc,
    0x3956c25bf348b538, 0x59f111f1b605d019, 0x923f82a4af194f9b, 0xab1c5ed5da6d8118,
    0xd807aa98a3030242, 0x12835b0145706fbe, 0x243185be4ee4b28c, 0x550c7dc3d5ffb4e2,
    0x72be5d74f27b896f, 0x80deb1fe3b1696b1, 0x9bdc06a725c71235, 0xc19bf174cf692694,
    0xe49b69c19ef14ad2, 0xefbe4786384f25e3, 0x0fc19dc68b8cd5b5, 0x240ca1cc77ac9c65,
    0x2de92c6f592b0275, 0x4a7484aa6ea6e483, 0x5cb0a9dcbd41fbd4, 0x76f988da831153b5,
    0x983e5152ee66dfab, 0xa831c66d2db43210, 0xb00327c898fb213f, 0xbf597fc7beef0ee4,
    0xc6e00bf33da88fc2, 0xd5a79147930aa725, 0x06ca6351e003826f, 0x142929670a0e6e70,
    0x27b70a8546d22ffc, 0x2e1b21385c26c926, 0x4d2c6dfc5ac42aed, 0x53380d139d95b3df,
    0x650a73548baf63de, 0x766a0abb3c77b2a8, 0x81c2c92e47edaee6, 0x92722c851482353b,
    0xa2bfe8a14cf10364, 0xa81a664bbc423001, 0xc24b8b70d0f89791, 0xc76c51a30654be30,
    0xd192e819d6ef5218, 0xd69906245565a910, 0xf40e35855771202a, 0x106aa07032bbd1b8,
    0x19a4c116b8d2d0c8, 0x1e376c085141ab53, 0x2748774cdf8eeb99, 0x34b0bcb5e19b48a8,
    0x391c0cb3c5c95a63, 0x4ed8aa4ae3418acb, 0x5b9cca4f7763e373, 0x682e6ff3d6b2b8a3,
    0x748f82ee5defb2fc, 0x78a5636f43172f60, 0x84c87814a1f0ab72, 0x8cc702081a6439ec,
    0x90befffa23631e28, 0xa4506cebde82bde9, 0xbef9a3f7b2c67915, 0xc67178f2e372532b,
    0xca273eceea26619c, 0xd186b8c721c0c207, 0xeada7dd6cde0eb1e, 0xf57d4f7fee6ed178,
    0x06f067aa72176fba, 0x0a637dc5a2c898a6, 0x113f9804bef90dae, 0x1b710b35131c471b,
    0x28db77f523047d84, 0x32caab7b40c72493, 0x3c9ebe0a15c9bebc, 0x431d67c49c100d4c,
    0x4cc5d4becb3e42b6, 0x597f299cfc657e2a, 0x5fcb6fab3ad6faec, 0x6c44198c4a475817]"

definition sha512_init :: "u64 list" where
  "sha512_init = [
    0x6a09e667f3bcc908, 0xbb67ae8584caa73b, 0x3c6ef372fe94f82b, 0xa54ff53a5f1d36f1,
    0x510e527fade682d1, 0x9b05688c2b3e6c1f, 0x1f83d9abfb41bd6b, 0x5be0cd19137e2179]"

definition sha512_pad :: "bytes \<Rightarrow> bytes" where
  "sha512_pad m =
     m @ [0x80] @ replicate ((239 - length m mod 128) mod 128) 0 @ be_bytes 16 (8 * length m)"

definition dword_of_bytes :: "bytes \<Rightarrow> u64" where
  "dword_of_bytes bs = word_of_nat (be_val bs)"

definition sha512_next :: "u64 list \<Rightarrow> u64" where
  "sha512_next w =
     (let n = length w; a = w ! (n - 2); b = w ! (n - 15)
      in (word_rotr 19 a XOR word_rotr 61 a XOR drop_bit 6 a) + w ! (n - 7)
         + (word_rotr 1 b XOR word_rotr 8 b XOR drop_bit 7 b) + w ! (n - 16))"

fun sha512_schedule :: "nat \<Rightarrow> u64 list \<Rightarrow> u64 list" where
  "sha512_schedule 0 w = w"
| "sha512_schedule (Suc n) w = sha512_schedule n (w @ [sha512_next w])"

definition sha512_round :: "u64 list \<Rightarrow> u64 \<times> u64 \<Rightarrow> u64 list" where
  "sha512_round st kw =
     (case st of
        [a, b, c, d, e, f, g, h] \<Rightarrow>
          let t1 = h + (word_rotr 14 e XOR word_rotr 18 e XOR word_rotr 41 e)
                + ((e AND f) XOR (NOT e AND g)) + fst kw + snd kw;
              t2 = (word_rotr 28 a XOR word_rotr 34 a XOR word_rotr 39 a)
                + ((a AND b) XOR (a AND c) XOR (b AND c))
          in [t1 + t2, a, b, c, d + t1, e, f, g]
      | _ \<Rightarrow> st)"

definition sha512_block :: "u64 list \<Rightarrow> bytes \<Rightarrow> u64 list" where
  "sha512_block h block =
     map2 (+) h
       (foldl sha512_round h
          (zip sha512_K (sha512_schedule 64 (map dword_of_bytes (chunks 16 8 block)))))"

definition sha512_bytes :: "u64 list \<Rightarrow> bytes" where
  "sha512_bytes h = concat (map (\<lambda>w. be_bytes 8 (unat w)) h)"

definition sha512 :: "bytes \<Rightarrow> bytes" where
  "sha512 m =
     sha512_bytes (foldl sha512_block sha512_init
       (chunks (length (sha512_pad m) div 128) 128 (sha512_pad m)))"

lemma length_sha512_round [simp]: "length (sha512_round st kw) = length st"
  by (auto simp: sha512_round_def Let_def split: list.splits)

lemma length_foldl_round512: "length (foldl sha512_round st kws) = length st"
  by (induction kws arbitrary: st) simp_all

lemma length_sha512_block: "length (sha512_block h block) = length h"
  by (simp add: sha512_block_def length_foldl_round512)

lemma length_foldl_block512: "length (foldl sha512_block h blocks) = length h"
  by (induction blocks arbitrary: h) (simp_all add: length_sha512_block)

lemma length_sha512_bytes: "length (sha512_bytes h) = 8 * length h"
  by (induction h) (simp_all add: sha512_bytes_def)

lemma length_sha512 [simp, byte_simps]: "length (sha512 m) = 64"
  by (simp add: sha512_def length_sha512_bytes length_foldl_block512 sha512_init_def)

definition hmac_sha512 :: "bytes \<Rightarrow> bytes \<Rightarrow> bytes" where
  "hmac_sha512 key msg =
     (let k0 = (if length key > 128 then sha512 key else key);
          k = k0 @ replicate (128 - length k0) 0
      in sha512 (map (\<lambda>b. b XOR 0x5c) k @ sha512 (map (\<lambda>b. b XOR 0x36) k @ msg)))"

lemma length_hmac_sha512 [simp, byte_simps]: "length (hmac_sha512 key msg) = 64"
  by (simp add: hmac_sha512_def Let_def)

end
