(* ===== verification/Bip32.thy ===== *)
theory Bip32
  imports Sha512
begin

text \<open>
  \<open>crypto/bip/bip32.go\<close>, \<open>crypto/bip/bip32utils.go\<close> and \<open>crypto/bip/bip44.go\<close>: hierarchical key
  derivation and the serialised form of keys. The curve (\<open>btcutilecc\<close>) and RIPEMD-160 come from
  packages outside the repository: the record \<open>ecc\<close> holds their operations and parameters and
  is an argument of the definitions that call them.
\<close>

section \<open>The code\<close>

datatype bip32_error =
    ErrSerializedKeyWrongSize | ErrHardnedChildPublicKey | ErrInvalidChecksum
  | ErrInvalidPrivateKey | ErrInvalidPublicKey | PathError num_error

record ecc =
  curveN :: nat
  curveP :: nat
  curveB :: nat
  ScalarBaseMult :: "bytes \<Rightarrow> nat \<times> nat"
  curveAdd :: "nat \<Rightarrow> nat \<Rightarrow> nat \<Rightarrow> nat \<Rightarrow> nat \<times> nat"
  ripemd160 :: "bytes \<Rightarrow> bytes"

record bip_key =
  Key :: bytes
  Version :: bytes
  ChildNumber :: bytes
  FingerPrint :: bytes
  ChainCode :: bytes
  Depth :: u8
  IsPrivate :: bool

definition FirstHardenedChild :: u32 where
  "FirstHardenedChild = 0x80000000"

definition PrivateWalletVersionDefault :: bytes where
  "PrivateWalletVersionDefault = [0x04, 0x88, 0xAD, 0xE4]"

definition hashSha256 :: "bytes \<Rightarrow> bytes" where
  "hashSha256 data = sha256 data"

definition hashDoubleSha256 :: "bytes \<Rightarrow> bytes" where
  "hashDoubleSha256 data = hashSha256 (hashSha256 data)"

definition hash160 :: "ecc \<Rightarrow> bytes \<Rightarrow> bytes" where
  "hash160 E data = ripemd160 E (hashSha256 data)"

definition checksum :: "bytes \<Rightarrow> bytes" where
  "checksum data = take 4 (hashDoubleSha256 data)"

definition addChecksumToBytes :: "bytes \<Rightarrow> bytes" where
  "addChecksumToBytes data = data @ checksum data"

definition uint32Bytes :: "u32 \<Rightarrow> bytes" where
  "uint32Bytes i = be_bytes 4 (unat i)"

text \<open>\<open>y.Bit(0)\<close> selects the prefix; the loop writes zero bytes up to 32.\<close>

definition compressPublicKey :: "nat \<Rightarrow> nat \<Rightarrow> bytes" where
  "compressPublicKey x y =
     (0x02 + of_bool (odd y)) # replicate (32 - length (big_Bytes x)) 0 @ big_Bytes x"

text \<open>\<open>bytes.Repeat\<close> panics on a negative count: \<open>None\<close>.\<close>

definition uncompressPublicKey :: "nat \<Rightarrow> nat \<Rightarrow> bytes option" where
  "uncompressPublicKey x y =
     (let xbytes = big_Bytes x; ybytes = big_Bytes y
      in if length xbytes > 32 \<or> length ybytes > 32 then None
         else Some (0x04 # (replicate (32 - length xbytes) 0 @ xbytes) @
                           (replicate (32 - length ybytes) 0 @ ybytes)))"

definition compressedPublicKeyForPrivateKey :: "ecc \<Rightarrow> bytes \<Rightarrow> bytes" where
  "compressedPublicKeyForPrivateKey E key =
     (case ScalarBaseMult E key of (x, y) \<Rightarrow> compressPublicKey x y)"

definition uncompressedPublicKeyForPrivateKey :: "ecc \<Rightarrow> bytes \<Rightarrow> bytes option" where
  "uncompressedPublicKeyForPrivateKey E key =
     (case ScalarBaseMult E key of (x, y) \<Rightarrow> uncompressPublicKey x y)"

text \<open>
  \<open>big.Int.Exp\<close> with a modulus, and \<open>big.Int.ModSqrt\<close> for a prime modulus that is 3 modulo 4 (that
  of secp256k1): the receiver, here zero, is left unchanged when there is no root.
\<close>

function powMod :: "nat \<Rightarrow> nat \<Rightarrow> nat \<Rightarrow> nat" where
  "powMod b e m =
     (if e = 0 then 1 mod m
      else if odd e then b * powMod (b * b mod m) (e div 2) m mod m
      else powMod (b * b mod m) (e div 2) m)"
  by pat_completeness auto
termination by (relation "measure (\<lambda>(_, e, _). e)") auto

declare powMod.simps [simp del]

definition ModSqrt :: "nat \<Rightarrow> nat \<Rightarrow> nat" where
  "ModSqrt x p =
     (if x mod p = 0 then 0
      else if powMod x ((p - 1) div 2) p = 1 then powMod x ((p + 1) div 4) p
      else 0)"

definition expandPublicKey :: "ecc \<Rightarrow> bytes \<Rightarrow> nat \<times> nat" where
  "expandPublicKey E key =
     (let X = be_val (drop 1 key);
          Y = ModSqrt (X ^ 3 + curveB E) (curveP E);
          signY = word_of_nat (unat (key ! 0)) - (2 :: u64)
      in (X, if signY \<noteq> word_of_nat (Y mod 2) then curveP E - Y else Y))"

definition addPublicKeys :: "ecc \<Rightarrow> bytes \<Rightarrow> bytes \<Rightarrow> bytes" where
  "addPublicKeys E key1 key2 =
     (case (expandPublicKey E key1, expandPublicKey E key2) of
        ((x1, y1), (x2, y2)) \<Rightarrow>
          (case curveAdd E x1 y1 x2 y2 of (x, y) \<Rightarrow> compressPublicKey x y))"

definition addPrivateKeys :: "ecc \<Rightarrow> bytes \<Rightarrow> bytes \<Rightarrow> bytes" where
  "addPrivateKeys E key1 key2 =
     (let b = big_Bytes ((be_val key1 + be_val key2) mod curveN E)
      in if length b < 32 then replicate (32 - length b) 0 @ b else b)"

text \<open>\<open>bytes.Compare\<close>.\<close>

fun bytes_Compare :: "bytes \<Rightarrow> bytes \<Rightarrow> int" where
  "bytes_Compare [] [] = 0"
| "bytes_Compare [] (b # bs) = -1"
| "bytes_Compare (a # as) [] = 1"
| "bytes_Compare (a # as) (b # bs) =
     (if a < b then -1 else if b < a then 1 else bytes_Compare as bs)"

definition validatePrivateKey :: "ecc \<Rightarrow> bytes \<Rightarrow> bip32_error + unit" where
  "validatePrivateKey E key =
     (if hex_encode key = replicate 64 CHR ''0'' \<or> bytes_Compare key (big_Bytes (curveN E)) \<ge> 0 \<or>
         length key \<noteq> 32
      then Inl ErrInvalidPrivateKey else Inr ())"

definition validateChildPublicKey :: "ecc \<Rightarrow> bytes \<Rightarrow> bip32_error + unit" where
  "validateChildPublicKey E key =
     (case expandPublicKey E key of
        (x, y) \<Rightarrow> if x = 0 \<or> y = 0 then Inl ErrInvalidPublicKey else Inr ())"

definition NewMasterKey :: "ecc \<Rightarrow> bytes \<Rightarrow> bytes option \<Rightarrow> bip32_error + bip_key" where
  "NewMasterKey E seed version =
     (let intermediary = hmac_sha512 (bytes_of_string ''Bitcoin seed'') seed;
          keyBytes = take 32 intermediary;
          chainCode = drop 32 intermediary
      in andThen (validatePrivateKey E keyBytes) (\<lambda>_.
         Inr \<lparr>Key = keyBytes,
              Version = (case version of None \<Rightarrow> PrivateWalletVersionDefault | Some v \<Rightarrow> v),
              ChildNumber = [0, 0, 0, 0], FingerPrint = [0, 0, 0, 0], ChainCode = chainCode,
              Depth = 0, IsPrivate = True\<rparr>))"

definition getIntermediary :: "ecc \<Rightarrow> bip_key \<Rightarrow> u32 \<Rightarrow> bytes" where
  "getIntermediary E key childIdx =
     (let data =
        (if childIdx \<ge> FirstHardenedChild then 0 # Key key
         else if IsPrivate key then compressedPublicKeyForPrivateKey E (Key key)
         else Key key)
      in hmac_sha512 (ChainCode key) (data @ uint32Bytes childIdx))"

definition NewChildKey :: "ecc \<Rightarrow> bip_key \<Rightarrow> u32 \<Rightarrow> bip32_error + bip_key" where
  "NewChildKey E key childIdx =
     (if \<not> IsPrivate key \<and> childIdx \<ge> FirstHardenedChild then Inl ErrHardnedChildPublicKey
      else
        let intermediary = getIntermediary E key childIdx;
            childKey = \<lparr>Key = [], Version = [], ChildNumber = uint32Bytes childIdx,
              FingerPrint = [], ChainCode = drop 32 intermediary, Depth = Depth key + 1,
              IsPrivate = IsPrivate key\<rparr>
        in if IsPrivate key then
             let childKey = childKey\<lparr>Version := PrivateWalletVersionDefault,
                   FingerPrint := take 4 (hash160 E (compressedPublicKeyForPrivateKey E (Key key))),
                   Key := addPrivateKeys E (take 32 intermediary) (Key key)\<rparr>
             in andThen (validatePrivateKey E (Key childKey)) (\<lambda>_. Inr childKey)
           else
             let keyBytes = compressedPublicKeyForPrivateKey E (take 32 intermediary)
             in andThen (validateChildPublicKey E keyBytes) (\<lambda>_.
                Inr (childKey\<lparr>Version := PrivateWalletVersionDefault,
                   FingerPrint := take 4 (hash160 E (Key key)),
                   Key := addPublicKeys E keyBytes (Key key)\<rparr>)))"

definition NewMasterKeyED25519 :: "ecc \<Rightarrow> bytes \<Rightarrow> bip32_error + bip_key" where
  "NewMasterKeyED25519 E seed =
     (let intermediary = hmac_sha512 (bytes_of_string ''ed25519 seed'') seed;
          keyBytes = take 32 intermediary;
          chainCode = drop 32 intermediary
      in andThen (validatePrivateKey E keyBytes) (\<lambda>_.
         Inr \<lparr>Key = keyBytes, Version = PrivateWalletVersionDefault, ChildNumber = [0, 0, 0, 0],
              FingerPrint = [0, 0, 0, 0], ChainCode = chainCode, Depth = 0, IsPrivate = True\<rparr>))"

definition NewChildKeyED25519 :: "bip_key \<Rightarrow> u32 \<Rightarrow> bip32_error + bip_key" where
  "NewChildKeyED25519 key childIdx =
     (if childIdx < FirstHardenedChild then Inl ErrHardnedChildPublicKey
      else
        let sum = hmac_sha512 (ChainCode key) (0 # Key key @ be_bytes 4 (unat childIdx))
        in Inr \<lparr>Key = take 32 sum, Version = [], ChildNumber = [], FingerPrint = [],
                ChainCode = drop 32 sum, Depth = 0, IsPrivate = False\<rparr>)"

definition CompressedPublicKey :: "ecc \<Rightarrow> bip_key \<Rightarrow> bip_key" where
  "CompressedPublicKey E key =
     (let keyBytes = (if IsPrivate key then compressedPublicKeyForPrivateKey E (Key key) else Key key)
      in \<lparr>Key = keyBytes, Version = PrivateWalletVersionDefault, ChildNumber = ChildNumber key,
          FingerPrint = FingerPrint key, ChainCode = ChainCode key, Depth = Depth key,
          IsPrivate = False\<rparr>)"

definition UncompressedPublicKey :: "ecc \<Rightarrow> bip_key \<Rightarrow> bip_key option" where
  "UncompressedPublicKey E key =
     map_option (\<lambda>keyBytes.
        \<lparr>Key = keyBytes, Version = PrivateWalletVersionDefault, ChildNumber = ChildNumber key,
         FingerPrint = FingerPrint key, ChainCode = ChainCode key, Depth = Depth key,
         IsPrivate = False\<rparr>)
       (if IsPrivate key then uncompressedPublicKeyForPrivateKey E (Key key) else Some (Key key))"

definition Serialize :: "bip_key \<Rightarrow> bytes" where
  "Serialize key =
     (let keyBytes = (if IsPrivate key then 0 # Key key else Key key)
      in addChecksumToBytes (Version key @ [Depth key] @ FingerPrint key @ ChildNumber key @
           ChainCode key @ keyBytes))"

definition Deserialize :: "bytes \<Rightarrow> bip32_error + bip_key" where
  "Deserialize data =
     (if length data \<noteq> 82 then Inl ErrSerializedKeyWrongSize
      else
        let key = \<lparr>Key = (if data ! 45 = 0 then take 32 (drop 46 data) else take 33 (drop 45 data)),
              Version = take 4 data, ChildNumber = take 4 (drop 9 data),
              FingerPrint = take 4 (drop 5 data), ChainCode = take 32 (drop 13 data),
              Depth = data ! 4, IsPrivate = (data ! 45 = 0)\<rparr>;
            cs1 = checksum (take (length data - 4) data);
            cs2 = drop (length data - 4) data
        in if list_ex (\<lambda>i. cs1 ! i \<noteq> cs2 ! i) [0..<length cs1] then Inl ErrInvalidChecksum
           else Inr key)"

definition B58Serialize :: "(bytes \<Rightarrow> string) \<Rightarrow> bip_key \<Rightarrow> string" where
  "B58Serialize base58Encode key = base58Encode (Serialize key)"

definition B58Deserialize ::
  "(string \<Rightarrow> bytes option) \<Rightarrow> string \<Rightarrow> (bip32_error + bip_key) option"
where
  "B58Deserialize base58Decode data = map_option Deserialize (base58Decode data)"

subsection \<open>Paths\<close>

text \<open>The loop over the path components, deriving as it reads.\<close>

fun derive_ECDSA :: "ecc \<Rightarrow> bip_key \<Rightarrow> string list \<Rightarrow> bip32_error + bip_key" where
  "derive_ECDSA E masterKey [] = Inr masterKey"
| "derive_ECDSA E masterKey (v # vs) =
     (let hardened = strings_HasSuffix v [CHR 0x27]
      in case ParseUint 31 (strings_TrimSuffix v [CHR 0x27]) of
           (_, Some err) \<Rightarrow> Inl (PathError err)
         | (n, None) \<Rightarrow>
             let child = (if hardened then word_of_nat n + FirstHardenedChild else word_of_nat n)
             in andThen (NewChildKey E masterKey child) (\<lambda>masterKey. derive_ECDSA E masterKey vs))"

definition SeedToKeyForECDSA :: "ecc \<Rightarrow> bytes \<Rightarrow> string \<Rightarrow> bip32_error + bip_key" where
  "SeedToKeyForECDSA E seed path =
     andThen (NewMasterKey E seed (Some PrivateWalletVersionDefault)) (\<lambda>masterKey.
       if path = [] then Inr masterKey
       else derive_ECDSA E masterKey (strings_Split (strings_TrimPrefix path ''m/'') CHR ''/''))"

text \<open>For ed25519 the whole path is read first, and every index is hardened.\<close>

fun parse_path :: "string list \<Rightarrow> bip32_error + u32 list" where
  "parse_path [] = Inr []"
| "parse_path (v # vs) =
     (case ParseUint 31 (strings_TrimSuffix v [CHR 0x27]) of
        (_, Some err) \<Rightarrow> Inl (PathError err)
      | (n, None) \<Rightarrow> andThen (parse_path vs) (\<lambda>paths. Inr (word_of_nat n # paths)))"

fun derive_ED25519 :: "bip_key \<Rightarrow> u32 list \<Rightarrow> bip32_error + bip_key" where
  "derive_ED25519 masterKey [] = Inr masterKey"
| "derive_ED25519 masterKey (v # vs) =
     andThen (NewChildKeyED25519 masterKey (FirstHardenedChild + v))
       (\<lambda>masterKey. derive_ED25519 masterKey vs)"

definition SeedToKeyForED25519 :: "ecc \<Rightarrow> bytes \<Rightarrow> string \<Rightarrow> bip32_error + bip_key" where
  "SeedToKeyForED25519 E seed path =
     andThen (NewMasterKeyED25519 E seed) (\<lambda>masterKey.
       if path = [] then Inr masterKey
       else andThen (parse_path (strings_Split (strings_TrimPrefix path ''m/'') CHR ''/''))
         (derive_ED25519 masterKey))"

section \<open>Private keys\<close>

lemma bytes_Compare_less:
  "length as = length bs \<Longrightarrow> bytes_Compare as bs < 0 \<longleftrightarrow> be_val as < be_val bs"
proof (induction as bs rule: list_induct2)
  case (Cons a as b bs)
  have step: "unat u * 256 ^ length bs + be_val us < unat v * 256 ^ length bs + be_val vs"
    if "u < v" "length us = length bs" for u v :: u8 and us vs
  proof -
    from that(1) have "Suc (unat u) \<le> unat v" by (simp add: word_less_nat_alt)
    then have "Suc (unat u) * 256 ^ length bs \<le> unat v * 256 ^ length bs" by (rule mult_le_mono1)
    then show ?thesis using be_val_bound [of us] that(2) by simp
  qed
  consider "a < b" | "b < a" | "a = b" by fastforce
  then show ?case
  proof cases
    case 1
    then show ?thesis using step [of a b as bs] Cons.hyps by simp
  next
    case 2
    then show ?thesis using step [of b a bs as] Cons.hyps by simp
  qed (use Cons in simp)
qed simp

lemma length_big_Bytes_eq: "256 ^ k \<le> n \<Longrightarrow> n < 256 ^ Suc k \<Longrightarrow> length (big_Bytes n) = Suc k"
proof -
  assume n: "256 ^ k \<le> n" "n < 256 ^ Suc k"
  have "\<not> length (big_Bytes n) \<le> k"
  proof
    assume "length (big_Bytes n) \<le> k"
    then have "(256 :: nat) ^ length (big_Bytes n) \<le> 256 ^ k" by (intro power_increasing) simp_all
    with n(1) be_val_bound [of "big_Bytes n"] show False by simp
  qed
  with length_big_Bytes [OF n(2)] show ?thesis by simp
qed

lemma hex_encode_zeros: "hex_encode (replicate n 0) = replicate (2 * n) CHR ''0''"
  by (induction n) (simp_all add: hexDigit_def char_of_def bit_0)

lemma hex_zeros: "hex_encode key = replicate 64 CHR ''0'' \<longleftrightarrow> key = replicate 32 0"
proof -
  have "hex_encode (replicate 32 0) = replicate 64 CHR ''0''"
    using hex_encode_zeros [of 32] by simp
  then show ?thesis using hex_encode_inject [of key "replicate 32 0"] by simp
qed

text \<open>The curve order has 32 bytes, as that of secp256k1.\<close>

definition order_32_bytes :: "ecc \<Rightarrow> bool" where
  "order_32_bytes E \<longleftrightarrow> 256 ^ 31 \<le> curveN E \<and> curveN E < 256 ^ 32"

lemma validatePrivateKey_iff:
  assumes "order_32_bytes E"
  shows "validatePrivateKey E key = Inr () \<longleftrightarrow>
    length key = 32 \<and> 0 < be_val key \<and> be_val key < curveN E"
proof -
  have n: "length (big_Bytes (curveN E)) = 32"
    using assms length_big_Bytes_eq [of 31 "curveN E"] by (simp add: order_32_bytes_def)
  have zero: "key = replicate 32 0 \<longleftrightarrow> be_val key = 0" if "length key = 32"
    using that be_val_replicate_0 [of 32 "[]"] be_val_inject [of key "replicate 32 0"] by auto
  show ?thesis
    using bytes_Compare_less [of key "big_Bytes (curveN E)"] n zero
    by (auto simp: validatePrivateKey_def hex_zeros not_le)
qed

lemma addPrivateKeys_value:
  assumes "order_32_bytes E"
  shows "be_val (addPrivateKeys E a b) = (be_val a + be_val b) mod curveN E"
    and "length (addPrivateKeys E a b) = 32"
proof -
  have pos: "0 < curveN E" "curveN E < 256 ^ 32"
    using assms by (auto simp: order_32_bytes_def intro: less_le_trans [rotated])
  then have "(be_val a + be_val b) mod curveN E < 256 ^ 32" by (metis mod_less_divisor order_less_trans)
  then have "length (big_Bytes ((be_val a + be_val b) mod curveN E)) \<le> 32" by (rule length_big_Bytes)
  then show "be_val (addPrivateKeys E a b) = (be_val a + be_val b) mod curveN E"
    and "length (addPrivateKeys E a b) = 32"
    by (auto simp: addPrivateKeys_def Let_def be_val_replicate_0)
qed

text \<open>
  A well-formed key, as far as the serialised form is concerned; and the private keys derivation
  works with.
\<close>

definition wf_key :: "bip_key \<Rightarrow> bool" where
  "wf_key k \<longleftrightarrow>
     length (Version k) = 4 \<and> length (ChildNumber k) = 4 \<and> length (FingerPrint k) = 4 \<and>
     length (ChainCode k) = 32 \<and>
     (if IsPrivate k then length (Key k) = 32 else length (Key k) = 33 \<and> Key k ! 0 \<noteq> 0)"

definition good_private :: "ecc \<Rightarrow> bip_key \<Rightarrow> bool" where
  "good_private E k \<longleftrightarrow>
     wf_key k \<and> IsPrivate k \<and> 0 < be_val (Key k) \<and> be_val (Key k) < curveN E"

lemma NewMasterKey_good:
  assumes "order_32_bytes E" and "NewMasterKey E seed (Some PrivateWalletVersionDefault) = Inr k"
  shows "good_private E k"
  using assms
  by (auto simp: NewMasterKey_def Let_def andThen_eq_Inr validatePrivateKey_iff good_private_def
      wf_key_def PrivateWalletVersionDefault_def)

lemma length_getIntermediary [simp]: "length (getIntermediary E k i) = 64"
  by (simp add: getIntermediary_def Let_def)

lemma NewChildKey_good:
  assumes "order_32_bytes E" and "\<And>x. length (ripemd160 E x) = 20"
    and "good_private E k" and "NewChildKey E k i = Inr c"
  shows "good_private E c"
  using assms(3,4) addPrivateKeys_value [OF assms(1)]
  by (auto simp: NewChildKey_def Let_def andThen_eq_Inr validatePrivateKey_iff [OF assms(1)]
      good_private_def wf_key_def PrivateWalletVersionDefault_def hash160_def assms(2)
      uint32Bytes_def split: if_splits)

lemma derive_good:
  assumes "order_32_bytes E" and "\<And>x. length (ripemd160 E x) = 20"
  shows "good_private E k \<Longrightarrow> derive_ECDSA E k vs = Inr c \<Longrightarrow> good_private E c"
proof (induction vs arbitrary: k)
  case (Cons v vs)
  then show ?case
    using NewChildKey_good [OF assms]
    by (auto simp: Let_def andThen_eq_Inr split: prod.splits option.splits)
qed simp

section \<open>The serialised form\<close>

lemma length_checksum [simp]: "length (checksum d) = 4"
  by (simp add: checksum_def hashDoubleSha256_def hashSha256_def)

lemma Serialize_parts:
  "Serialize k = (let body = Version k @ [Depth k] @ FingerPrint k @ ChildNumber k @ ChainCode k @
     (if IsPrivate k then 0 # Key k else Key k) in body @ checksum body)"
  by (simp add: Serialize_def addChecksumToBytes_def Let_def)

lemma list_ex_differ: "length xs = length ys \<Longrightarrow>
    list_ex (\<lambda>i. xs ! i \<noteq> ys ! i) [0..<length xs] \<longleftrightarrow> xs \<noteq> ys"
  by (auto simp: list_ex_iff intro: nth_equalityI)

lemma Deserialize_Serialize:
  assumes "wf_key k"
  shows "Deserialize (Serialize k) = Inr k"
proof -
  let ?kb = "if IsPrivate k then 0 # Key k else Key k"
  let ?body = "Version k @ [Depth k] @ FingerPrint k @ ChildNumber k @ ChainCode k @ ?kb"
  have l: "length (Version k) = 4" "length (ChildNumber k) = 4" "length (FingerPrint k) = 4"
    "length (ChainCode k) = 32" "length ?kb = 33" and first: "?kb ! 0 = 0 \<longleftrightarrow> IsPrivate k"
    using assms by (auto simp: wf_key_def split: if_splits)
  have b: "length ?body = 78" using l by simp
  have d: "Serialize k = ?body @ checksum ?body" by (simp add: Serialize_parts Let_def)
  have p45: "(?body @ checksum ?body) ! 45 = ?kb ! 0" using l by (simp add: nth_append)
  show ?thesis
    unfolding d Deserialize_def
    using l b p45 first list_ex_differ [of "checksum ?body" "checksum ?body"]
    by (cases k) (auto simp: Let_def nth_append)
qed

lemma Serialize_Deserialize:
  assumes "Deserialize d = Inr k"
  shows "Serialize k = d" and "wf_key k"
proof -
  from assms have l: "length d = 82" by (auto simp: Deserialize_def split: if_splits)
  with assms have chk: "checksum (take 78 d) = drop 78 d"
    and k: "k = \<lparr>Key = (if d ! 45 = 0 then take 32 (drop 46 d) else take 33 (drop 45 d)),
              Version = take 4 d, ChildNumber = take 4 (drop 9 d),
              FingerPrint = take 4 (drop 5 d), ChainCode = take 32 (drop 13 d),
              Depth = d ! 4, IsPrivate = (d ! 45 = 0)\<rparr>"
    using list_ex_differ [of "checksum (take 78 d)" "drop 78 d"]
    by (auto simp: Deserialize_def Let_def split: if_splits)
  have cut: "take (m + n) (drop i d) = take m (drop i d) @ take n (drop (i + m) d)" for m n i
    by (simp add: take_add add.commute)
  have one: "take 1 (drop n d) = [d ! n]" if "n < 82" for n
    using that l by (simp add: take_Suc_conv_app_nth take_Suc hd_drop_conv_nth)
  have "take 78 d = take 4 d @ take 1 (drop 4 d) @ take 4 (drop 5 d) @ take 4 (drop 9 d) @
      take 32 (drop 13 d) @ take 1 (drop 45 d) @ take 32 (drop 46 d)"
    using cut [of 4 74 0] cut [of 1 73 4] cut [of 4 69 5] cut [of 4 65 9] cut [of 32 33 13]
      cut [of 1 32 45] by simp
  moreover have "take 33 (drop 45 d) = take 1 (drop 45 d) @ take 32 (drop 46 d)"
    using cut [of 1 32 45] by simp
  ultimately have "Version k @ [Depth k] @ FingerPrint k @ ChildNumber k @ ChainCode k @
      (if IsPrivate k then 0 # Key k else Key k) = take 78 d"
    using one [of 4] one [of 45] by (simp add: k)
  then show "Serialize k = d" using chk l by (simp add: Serialize_parts Let_def)
  show "wf_key k" using l by (auto simp: wf_key_def k)
qed

section \<open>Paths\<close>

text \<open>The textual form of a path: the index of every component and whether it is hardened.\<close>

definition path_component :: "nat \<times> bool \<Rightarrow> string" where
  "path_component c = FormatUint (fst c) @ (if snd c then [CHR 0x27] else [])"

definition path_string :: "(nat \<times> bool) list \<Rightarrow> string" where
  "path_string p = ''m/'' @ strings_Join (map path_component p) ''/''"

definition path_index :: "nat \<times> bool \<Rightarrow> u32" where
  "path_index c = (if snd c then word_of_nat (fst c) + FirstHardenedChild else word_of_nat (fst c))"

lemma FormatUint_no_mark: "c \<in> set (FormatUint n) \<Longrightarrow> c \<noteq> CHR ''/'' \<and> c \<noteq> CHR 0x27"
  using FormatUint_digits [of c n] by (auto simp: char_nat_def)

lemma HasSuffix_component: "strings_HasSuffix (path_component c) [CHR 0x27] \<longleftrightarrow> snd c"
  using FormatUint_no_mark [of "last (FormatUint (fst c))" "fst c"]
  by (auto simp: path_component_def HasSuffix_single)

lemma TrimSuffix_component: "strings_TrimSuffix (path_component c) [CHR 0x27] = FormatUint (fst c)"
proof (cases "snd c")
  case False
  then show ?thesis using HasSuffix_component [of c]
    by (simp add: strings_TrimSuffix_def path_component_def)
qed (simp add: path_component_def)

lemma split_path:
  "p \<noteq> [] \<Longrightarrow> strings_Split (strings_TrimPrefix (path_string p) ''m/'') CHR ''/'' = map path_component p"
proof -
  assume "p \<noteq> []"
  moreover have "\<forall>s \<in> set (map path_component p). CHR ''/'' \<notin> set s"
    using FormatUint_no_mark by (auto simp: path_component_def)
  ultimately show ?thesis unfolding path_string_def TrimPrefix_append by (intro split_join) simp_all
qed

lemma derive_ECDSA_path:
  "\<forall>c \<in> set p. fst c < 2 ^ 31 \<Longrightarrow>
     derive_ECDSA E k (map path_component p) = foldM (NewChildKey E) k (map path_index p)"
proof (induction p arbitrary: k)
  case (Cons c p)
  then have "ParseUint 31 (strings_TrimSuffix (path_component c) [CHR 0x27]) = (fst c, None)"
    unfolding TrimSuffix_component by (intro ParseUint_FormatUint) simp
  with Cons show ?case by (simp add: HasSuffix_component path_index_def)
qed simp

lemma parse_path_components:
  "\<forall>c \<in> set p. fst c < 2 ^ 31 \<Longrightarrow>
     parse_path (map path_component p) = Inr (map (\<lambda>c. word_of_nat (fst c)) p)"
proof (induction p)
  case (Cons c p)
  then have "ParseUint 31 (strings_TrimSuffix (path_component c) [CHR 0x27]) = (fst c, None)"
    unfolding TrimSuffix_component by (intro ParseUint_FormatUint) simp
  with Cons show ?case by simp
qed simp

lemma derive_ED25519_foldM:
  "derive_ED25519 k vs = foldM NewChildKeyED25519 k (map ((+) FirstHardenedChild) vs)"
  by (induction vs arbitrary: k) simp_all

lemma hardened_index: "i < 2 ^ 31 \<Longrightarrow> FirstHardenedChild \<le> FirstHardenedChild + word_of_nat i"
proof -
  assume "i < 2 ^ 31"
  then have "unat (word_of_nat i :: u32) = i" "unat FirstHardenedChild + i < 2 ^ 32"
    by (simp_all add: unat_of_nat FirstHardenedChild_def)
  then show ?thesis by (simp add: word_le_nat_alt unat_word_ariths)
qed

lemma NewChildKeyED25519_ok: "i < 2 ^ 31 \<Longrightarrow> isOk (NewChildKeyED25519 k (FirstHardenedChild + word_of_nat i))"
  using hardened_index [of i] by (simp add: NewChildKeyED25519_def Let_def not_less)

lemma derive_ED25519_ok:
  "\<forall>c \<in> set p. fst c < 2 ^ 31 \<Longrightarrow>
     isOk (foldM NewChildKeyED25519 k (map (\<lambda>c. FirstHardenedChild + word_of_nat (fst c)) p))"
proof (induction p arbitrary: k)
  case (Cons c p)
  then have "isOk (NewChildKeyED25519 k (FirstHardenedChild + word_of_nat (fst c)))"
    by (intro NewChildKeyED25519_ok) simp
  with Cons show ?case by (auto simp: isOk_iff)
qed simp

section \<open>Properties\<close>

text \<open>
  reading the serialised form of a well-formed key gives the key.
\<close>
theorem deserialize_serialize:
  assumes "wf_key k"
  shows "Deserialize (Serialize k) = Inr k"
  using assms by (rule Deserialize_Serialize)

definition sample_key :: bip_key where
  "sample_key = \<lparr>Key = replicate 32 7, Version = PrivateWalletVersionDefault,
     ChildNumber = [0, 0, 0, 1], FingerPrint = [1, 2, 3, 4], ChainCode = replicate 32 9, Depth = 1,
     IsPrivate = True\<rparr>"

lemma wf_sample_key: "wf_key sample_key"
  by (simp add: wf_key_def sample_key_def PrivateWalletVersionDefault_def)

theorem deserialize_serialize_witness: "Deserialize (Serialize sample_key) = Inr sample_key"
  by (rule deserialize_serialize [OF wf_sample_key])

text \<open>
  the serialised form is canonical. Data that reads as a key is the serialised form of that
  key, and the key is well-formed.
\<close>
theorem serialize_deserialize:
  assumes "Deserialize d = Inr k"
  shows "Serialize k = d \<and> wf_key k"
  using Serialize_Deserialize [OF assms] by blast

theorem serialize_deserialize_witness:
  "\<exists>d k. Deserialize d = Inr k \<and> Serialize k = d \<and> wf_key k"
  using serialize_deserialize [OF Deserialize_Serialize [OF wf_sample_key]]
    Deserialize_Serialize [OF wf_sample_key] by blast

text \<open>
  C5: every key derived for an ECDSA path is a well-formed private key, not zero and below the
  order of the curve.
\<close>
theorem derived_key_valid:
  assumes "order_32_bytes E" and "\<And>x. length (ripemd160 E x) = 20"
  shows "case SeedToKeyForECDSA E seed path of Inl _ \<Rightarrow> True | Inr k \<Rightarrow> good_private E k"
proof (cases "SeedToKeyForECDSA E seed path")
  case (Inr k)
  then obtain m where m: "NewMasterKey E seed (Some PrivateWalletVersionDefault) = Inr m"
    and k: "m = k \<or> (\<exists>vs. derive_ECDSA E m vs = Inr k)"
    by (auto simp: SeedToKeyForECDSA_def andThen_eq_Inr split: if_splits)
  from NewMasterKey_good [OF assms(1) m] k have "good_private E k"
    using derive_good [OF assms] by blast
  with Inr show ?thesis by simp
qed simp

definition sample_ecc :: ecc where
  "sample_ecc = \<lparr>
     curveN = 0xFFFFFFFFFFFFFFFFFFFFFFFFFFFFFFFEBAAEDCE6AF48A03BBFD25E8CD0364141,
     curveP = 0xFFFFFFFFFFFFFFFFFFFFFFFFFFFFFFFFFFFFFFFFFFFFFFFFFFFFFFFEFFFFFC2F,
     curveB = 7, ScalarBaseMult = (\<lambda>k. (be_val k, 1)), curveAdd = (\<lambda>x1 y1 x2 y2. (x1 + x2, 1)),
     ripemd160 = (\<lambda>x. take 20 (x @ replicate 20 0))\<rparr>"

theorem derived_key_valid_witness:
  "case SeedToKeyForECDSA sample_ecc [1, 2, 3] (path_string [(44, True), (0, False)]) of
     Inl _ \<Rightarrow> True | Inr k \<Rightarrow> good_private sample_ecc k"
  by (rule derived_key_valid) (simp_all add: sample_ecc_def order_32_bytes_def)

text \<open>
  a path string derives the children it names, in order: each index below \<open>2 ^ 31\<close>, and
  \<open>2 ^ 31\<close> more when it is marked as hardened.
\<close>
theorem path_derivation:
  assumes "p \<noteq> []" and "\<forall>c \<in> set p. fst c < 2 ^ 31"
  shows "SeedToKeyForECDSA E seed (path_string p) =
    andThen (NewMasterKey E seed (Some PrivateWalletVersionDefault))
      (\<lambda>k. foldM (NewChildKey E) k (map path_index p))"
proof -
  have "path_string p \<noteq> []" by (simp add: path_string_def)
  then show ?thesis
    by (simp add: SeedToKeyForECDSA_def split_path [OF assms(1)] derive_ECDSA_path [OF assms(2)])
qed

theorem path_derivation_witness:
  "SeedToKeyForECDSA sample_ecc [5] (path_string [(44, True), (7, False)]) =
    andThen (NewMasterKey sample_ecc [5] (Some PrivateWalletVersionDefault))
      (\<lambda>k. foldM (NewChildKey sample_ecc) k [0x8000002C, 7])"
  using path_derivation [of "[(44, True), (7, False)]" sample_ecc "[5]"]
  by (simp add: path_index_def FirstHardenedChild_def)

text \<open>
  for ed25519 every component is hardened, whether or not the path marks it, and once the
  master key is valid the derivation cannot fail.
\<close>
theorem ed25519_path_hardened:
  assumes "p \<noteq> []" and "\<forall>c \<in> set p. fst c < 2 ^ 31"
  shows "SeedToKeyForED25519 E seed (path_string p) =
      andThen (NewMasterKeyED25519 E seed) (\<lambda>k. foldM NewChildKeyED25519 k
        (map (\<lambda>c. FirstHardenedChild + word_of_nat (fst c)) p)) \<and>
    isOk (SeedToKeyForED25519 E seed (path_string p)) = isOk (NewMasterKeyED25519 E seed)"
proof -
  have "path_string p \<noteq> []" by (simp add: path_string_def)
  then have "SeedToKeyForED25519 E seed (path_string p) =
      andThen (NewMasterKeyED25519 E seed) (\<lambda>k. foldM NewChildKeyED25519 k
        (map (\<lambda>c. FirstHardenedChild + word_of_nat (fst c)) p))"
    by (simp add: SeedToKeyForED25519_def split_path [OF assms(1)] derive_ED25519_foldM
        parse_path_components [OF assms(2)] comp_def)
  then show ?thesis
    using derive_ED25519_ok [OF assms(2)] by (cases "NewMasterKeyED25519 E seed") simp_all
qed

theorem ed25519_path_hardened_witness:
  "isOk (SeedToKeyForED25519 sample_ecc [5] (path_string [(44, True), (501, False)])) =
   isOk (NewMasterKeyED25519 sample_ecc [5])"
  by (rule ed25519_path_hardened [THEN conjunct2]) simp_all

end
