(* ===== verification/Codec.thy ===== *)
theory Codec
  imports GoLib
begin

text \<open>
  The interface of the transaction encoders. A prefix code is an encoding from whose output the
  encoded value and the rest of the input can be told apart; a codec has in addition a decoder
  that reads the value back. What is signed is such an encoding, so two different transactions
  never have the same bytes. The elementary codecs (fixed-width integers, LEB128, byte strings)
  are interpreted here, and the theories of the chains build their messages from them.
\<close>

section \<open>Prefix codes and codecs\<close>

locale prefix_code =
  fixes enc :: "'a \<Rightarrow> bytes" and wf :: "'a \<Rightarrow> bool"
  assumes prefix_free: "wf x \<Longrightarrow> wf y \<Longrightarrow> enc x @ r = enc y @ s \<Longrightarrow> x = y \<and> r = s"
begin

lemma enc_inject: "wf x \<Longrightarrow> wf y \<Longrightarrow> enc x = enc y \<Longrightarrow> x = y"
  using prefix_free [of x y "[]" "[]"] by simp

lemma enc_append: "wf x \<Longrightarrow> wf y \<Longrightarrow> enc x @ r = enc y @ s \<longleftrightarrow> x = y \<and> r = s"
  using prefix_free by blast

lemma enc_list_append:
  "length xs = length ys \<Longrightarrow> \<forall>x \<in> set xs. wf x \<Longrightarrow> \<forall>y \<in> set ys. wf y \<Longrightarrow>
     concat (map enc xs) @ r = concat (map enc ys) @ s \<longleftrightarrow> xs = ys \<and> r = s"
  by (induction xs ys rule: list_induct2) (simp_all add: enc_append)

end

locale codec =
  fixes enc :: "'a \<Rightarrow> bytes" and dec :: "bytes \<Rightarrow> ('a \<times> bytes) option" and wf :: "'a \<Rightarrow> bool"
  assumes dec_enc: "wf x \<Longrightarrow> dec (enc x @ rest) = Some (x, rest)"

sublocale codec \<subseteq> prefix_code enc wf
  by unfold_locales (metis dec_enc option.inject prod.inject)

section \<open>Fixed-width values\<close>

definition dec_le :: "nat \<Rightarrow> bytes \<Rightarrow> (nat \<times> bytes) option" where
  "dec_le k bs = (if length bs < k then None else Some (le_val (take k bs), drop k bs))"

definition dec_be :: "nat \<Rightarrow> bytes \<Rightarrow> (nat \<times> bytes) option" where
  "dec_be k bs = (if length bs < k then None else Some (be_val (take k bs), drop k bs))"

definition dec_raw :: "nat \<Rightarrow> bytes \<Rightarrow> (bytes \<times> bytes) option" where
  "dec_raw k bs = (if length bs < k then None else Some (take k bs, drop k bs))"

interpretation le: codec "le_bytes k" "dec_le k" "\<lambda>n. n < 256 ^ k"
  by unfold_locales (simp add: dec_le_def le_val_le_bytes)

interpretation be: codec "be_bytes k" "dec_be k" "\<lambda>n. n < 256 ^ k"
  by unfold_locales (simp add: dec_be_def be_val_be_bytes)

interpretation raw: codec "\<lambda>b. b" "dec_raw k" "\<lambda>b. length b = k"
  by unfold_locales (auto simp: dec_raw_def)

text \<open>Machine words in little-endian and big-endian order.\<close>

definition le_word :: "nat \<Rightarrow> 'a::len word \<Rightarrow> bytes" where
  "le_word k v = le_bytes k (unat v)"

definition be_word :: "nat \<Rightarrow> 'a::len word \<Rightarrow> bytes" where
  "be_word k v = be_bytes k (unat v)"

lemma length_le_word [simp, byte_simps]: "length (le_word k v) = k"
  by (simp add: le_word_def)

lemma length_be_word [simp, byte_simps]: "length (be_word k v) = k"
  by (simp add: be_word_def)

interpretation le_u64: codec "le_word 8 :: u64 \<Rightarrow> bytes"
  "\<lambda>bs. map_option (map_prod word_of_nat id) (dec_le 8 bs)" "\<lambda>_. True"
proof unfold_locales
  fix x :: u64 and rest
  have "unat x < 256 ^ 8" using unsigned_less [of x, where 'a = nat] by simp
  from le.dec_enc [OF this, of rest]
  show "map_option (map_prod word_of_nat id) (dec_le 8 (le_word 8 x @ rest)) = Some (x, rest)"
    by (simp add: le_word_def)
qed

interpretation le_u32: codec "le_word 4 :: u32 \<Rightarrow> bytes"
  "\<lambda>bs. map_option (map_prod word_of_nat id) (dec_le 4 bs)" "\<lambda>_. True"
proof unfold_locales
  fix x :: u32 and rest
  have "unat x < 256 ^ 4" using unsigned_less [of x, where 'a = nat] by simp
  from le.dec_enc [OF this, of rest]
  show "map_option (map_prod word_of_nat id) (dec_le 4 (le_word 4 x @ rest)) = Some (x, rest)"
    by (simp add: le_word_def)
qed

interpretation le_u16: codec "le_word 2 :: u16 \<Rightarrow> bytes"
  "\<lambda>bs. map_option (map_prod word_of_nat id) (dec_le 2 bs)" "\<lambda>_. True"
proof unfold_locales
  fix x :: u16 and rest
  have "unat x < 256 ^ 2" using unsigned_less [of x, where 'a = nat] by simp
  from le.dec_enc [OF this, of rest]
  show "map_option (map_prod word_of_nat id) (dec_le 2 (le_word 2 x @ rest)) = Some (x, rest)"
    by (simp add: le_word_def)
qed

interpretation be_u32: codec "be_word 4 :: u32 \<Rightarrow> bytes"
  "\<lambda>bs. map_option (map_prod word_of_nat id) (dec_be 4 bs)" "\<lambda>_. True"
proof unfold_locales
  fix x :: u32 and rest
  have "unat x < 256 ^ 4" using unsigned_less [of x, where 'a = nat] by simp
  from be.dec_enc [OF this, of rest]
  show "map_option (map_prod word_of_nat id) (dec_be 4 (be_word 4 x @ rest)) = Some (x, rest)"
    by (simp add: be_word_def)
qed

interpretation be_u64: codec "be_word 8 :: u64 \<Rightarrow> bytes"
  "\<lambda>bs. map_option (map_prod word_of_nat id) (dec_be 8 bs)" "\<lambda>_. True"
proof unfold_locales
  fix x :: u64 and rest
  have "unat x < 256 ^ 8" using unsigned_less [of x, where 'a = nat] by simp
  from be.dec_enc [OF this, of rest]
  show "map_option (map_prod word_of_nat id) (dec_be 8 (be_word 8 x @ rest)) = Some (x, rest)"
    by (simp add: be_word_def)
qed

lemma le_u64_inject [simp]: "le_word 8 (x :: u64) = le_word 8 y \<longleftrightarrow> x = y"
  using le_u64.enc_append [where x = x and y = y and r = "[]" and s = "[]"] by simp

lemma le_u32_inject [simp]: "le_word 4 (x :: u32) = le_word 4 y \<longleftrightarrow> x = y"
  using le_u32.enc_append [where x = x and y = y and r = "[]" and s = "[]"] by simp

lemma be_u32_inject [simp]: "be_word 4 (x :: u32) = be_word 4 y \<longleftrightarrow> x = y"
  using be_u32.enc_append [where x = x and y = y and r = "[]" and s = "[]"] by simp

lemma be_u64_inject [simp]: "be_word 8 (x :: u64) = be_word 8 y \<longleftrightarrow> x = y"
  using be_u64.enc_append [where x = x and y = y and r = "[]" and s = "[]"] by simp

text \<open>The shifts the encoders write out: byte \<open>i\<close> of a word.\<close>

lemma unat_ucast_u8: "unat (ucast (v :: 'a::len word) :: u8) = unat v mod 256"
  by (simp add: unsigned_ucast_eq take_bit_eq_mod)

lemma unat_drop_bit: "unat (drop_bit n (v :: 'a::len word)) = unat v div 2 ^ n"
  by (subst unat_drop_bit_eq) (rule drop_bit_eq_div)

lemma byte_of_word: "(word_of_nat (unat (v :: 'a::len word) div 2 ^ k) :: u8) = ucast (drop_bit k v)"
  by (simp only: word_unat_eq_iff unat_ucast_u8 unat_drop_bit unat_word_of_nat_u8)

lemma low_byte_of_word: "(word_of_nat (unat (v :: 'a::len word)) :: u8) = ucast v"
  by (simp only: word_unat_eq_iff unat_ucast_u8 unat_word_of_nat_u8)

lemma le_bytes_2: "le_bytes 2 n = [word_of_nat n, word_of_nat (n div 2 ^ 8)]"
  by (subst numeral_2_eq_2) simp

lemma le_bytes_4: "le_bytes 4 n =
  [word_of_nat n, word_of_nat (n div 2 ^ 8), word_of_nat (n div 2 ^ 16), word_of_nat (n div 2 ^ 24)]"
proof -
  have "4 = Suc (Suc (Suc (Suc 0)))" by simp
  then show ?thesis by (simp only: le_bytes.simps flip: div_mult2_eq) simp
qed

lemma le_bytes_8: "le_bytes 8 n =
  [word_of_nat n, word_of_nat (n div 2 ^ 8), word_of_nat (n div 2 ^ 16), word_of_nat (n div 2 ^ 24),
   word_of_nat (n div 2 ^ 32), word_of_nat (n div 2 ^ 40), word_of_nat (n div 2 ^ 48),
   word_of_nat (n div 2 ^ 56)]"
proof -
  have "8 = Suc (Suc (Suc (Suc (Suc (Suc (Suc (Suc 0)))))))" by simp
  then show ?thesis by (simp only: le_bytes.simps flip: div_mult2_eq) simp
qed

lemma le_word_2: "le_word 2 v = [ucast v, ucast (drop_bit 8 v)]"
  by (simp only: le_word_def le_bytes_2 byte_of_word low_byte_of_word)

lemma le_word_4: "le_word 4 v =
  [ucast v, ucast (drop_bit 8 v), ucast (drop_bit 16 v), ucast (drop_bit 24 v)]"
  by (simp only: le_word_def le_bytes_4 byte_of_word low_byte_of_word)

lemma le_word_8: "le_word 8 v =
  [ucast v, ucast (drop_bit 8 v), ucast (drop_bit 16 v), ucast (drop_bit 24 v),
   ucast (drop_bit 32 v), ucast (drop_bit 40 v), ucast (drop_bit 48 v), ucast (drop_bit 56 v)]"
  by (simp only: le_word_def le_bytes_8 byte_of_word low_byte_of_word)

section \<open>LEB128\<close>

text \<open>
  The loop every variable-length integer of the SDK is written with: seven bits per byte, the
  high bit set while more follow.
\<close>

function uleb :: "u64 \<Rightarrow> bytes" where
  "uleb v = (if v \<ge> 0x80 then (ucast v OR 0x80) # uleb (drop_bit 7 v) else [ucast v])"
  by pat_completeness auto
termination
proof (relation "measure unat", simp_all)
  fix v :: u64
  assume "0x80 \<le> v"
  then have "128 \<le> unat v" by (simp add: word_le_nat_alt)
  then show "unat (drop_bit 7 v) < unat v" by (simp add: unat_drop_bit)
qed

declare uleb.simps [simp del]

fun dec_uleb_nat :: "bytes \<Rightarrow> (nat \<times> bytes) option" where
  "dec_uleb_nat [] = None"
| "dec_uleb_nat (b # bs) =
     (if unat b < 128 then Some (unat b, bs)
      else map_option (\<lambda>(n, rest). (unat b mod 128 + 128 * n, rest)) (dec_uleb_nat bs))"

definition dec_uleb :: "bytes \<Rightarrow> (u64 \<times> bytes) option" where
  "dec_uleb bs = map_option (map_prod word_of_nat id) (dec_uleb_nat bs)"

lemma or_128: "n < 256 \<Longrightarrow> (n :: nat) OR 128 = 128 + n mod 128"
proof -
  assume "n < 256"
  then have q: "n div 128 = 0 \<or> n div 128 = 1" by linarith
  have "n = (n div 128) * 2 ^ 7 + n mod 128" by simp
  also have "\<dots> = (n div 128) * 2 ^ 7 OR n mod 128" by (rule or_shift_nat [symmetric]) simp
  finally have "n OR 128 = ((n div 128) * 2 ^ 7 OR 128) OR n mod 128" by (metis or.assoc or.commute)
  also have "(n div 128) * 2 ^ 7 OR 128 = (128 :: nat)" using q by auto
  also have "128 OR n mod 128 = 128 + n mod 128" using or_shift_nat [of "n mod 128" 7 1] by simp
  finally show ?thesis .
qed

lemma unat_or_128: "unat ((b :: u8) OR 0x80) = 128 + unat b mod 128"
  using or_128 [of "unat b"] by (simp add: unsigned_or_eq)

lemma dec_uleb_nat_uleb: "dec_uleb_nat (uleb v @ rest) = Some (unat v, rest)"
proof (induction v rule: uleb.induct)
  case (1 v)
  show ?case
  proof (cases "v \<ge> 0x80")
    case True
    have "unat v mod 256 mod 128 = unat v mod 128" by (simp add: mod_mod_cancel)
    then show ?thesis
      using 1 [OF True] True mod_mult_div_eq [of "unat v" 128]
      by (subst uleb.simps) (simp add: unat_or_128 unat_ucast_u8 unat_drop_bit)
  next
    case False
    then have "unat v < 128" by (simp add: word_le_nat_alt not_le)
    with False show ?thesis by (subst uleb.simps) (simp add: unat_ucast_u8)
  qed
qed

interpretation uleb: codec uleb dec_uleb "\<lambda>_. True"
  by unfold_locales (simp add: dec_uleb_def dec_uleb_nat_uleb)

lemma uleb_not_Nil [simp]: "uleb v \<noteq> []"
  by (subst uleb.simps) simp

lemma uleb_small: "v < 0x80 \<Longrightarrow> uleb v = [ucast v]"
  by (subst uleb.simps) (simp add: not_le)

text \<open>A byte string behind its length.\<close>

definition len_prefixed :: "bytes \<Rightarrow> bytes" where
  "len_prefixed b = uleb (word_of_nat (length b)) @ b"

definition dec_len_prefixed :: "bytes \<Rightarrow> (bytes \<times> bytes) option" where
  "dec_len_prefixed bs =
     (case dec_uleb_nat bs of None \<Rightarrow> None | Some (n, rest) \<Rightarrow> dec_raw n rest)"

text \<open>A Go slice is shorter than \<open>2 ^ 63\<close>.\<close>

definition slice :: "'a list \<Rightarrow> bool" where
  "slice b \<longleftrightarrow> length b < 2 ^ 63"

lemma slice_length: "slice b \<Longrightarrow> unat (word_of_nat (length b) :: u64) = length b"
  by (simp add: slice_def unat_of_nat)

lemma word_length_inject:
  "slice a \<Longrightarrow> slice b \<Longrightarrow> (word_of_nat (length a) :: u64) = word_of_nat (length b) \<longleftrightarrow> length a = length b"
  by (metis slice_length)

interpretation len_prefixed: codec len_prefixed dec_len_prefixed slice
proof unfold_locales
  fix x rest :: bytes
  assume "slice x"
  then show "dec_len_prefixed (len_prefixed x @ rest) = Some (x, rest)"
    by (simp add: len_prefixed_def dec_len_prefixed_def dec_uleb_nat_uleb slice_length dec_raw_def)
qed

text \<open>A list of encodings behind its count.\<close>

definition counted :: "('a \<Rightarrow> bytes) \<Rightarrow> 'a list \<Rightarrow> bytes" where
  "counted enc xs = uleb (word_of_nat (length xs)) @ concat (map enc xs)"

context prefix_code
begin

lemma counted_append:
  "slice xs \<Longrightarrow> slice ys \<Longrightarrow> \<forall>x \<in> set xs. wf x \<Longrightarrow> \<forall>y \<in> set ys. wf y \<Longrightarrow>
     counted enc xs @ r = counted enc ys @ s \<longleftrightarrow> xs = ys \<and> r = s"
  using enc_list_append [of xs ys r s]
  by (auto simp: counted_def uleb.enc_append word_length_inject)

end

end
