(* ===== verification/Aptos.thy ===== *)
theory Aptos
  imports Codec
begin

text \<open>
  \<open>signing/aptos\<close>: the BCS encoder of \<open>bcs.go\<close>, the addresses of \<open>utils.go\<close> and the transaction
  builder of \<open>tx.go\<close>. Every encoder method appends to the buffer; it is modelled by the bytes it
  appends. SHA3-256 (\<open>golang.org/x/crypto/sha3\<close>), the struct validator and the Ed25519 signer are
  packages outside the repository and are parameters of the definitions that use them.
\<close>

section \<open>The encoder\<close>

definition enc_u8 :: "u8 \<Rightarrow> bytes" where
  "enc_u8 v = [v]"

definition enc_u64 :: "u64 \<Rightarrow> bytes" where
  "enc_u64 v =
     [ucast v, ucast (drop_bit 8 v), ucast (drop_bit 16 v), ucast (drop_bit 24 v),
      ucast (drop_bit 32 v), ucast (drop_bit 40 v), ucast (drop_bit 48 v), ucast (drop_bit 56 v)]"

definition enc_uleb128 :: "u64 \<Rightarrow> bytes" where
  "enc_uleb128 v = uleb v"

definition enc_lenPrefixed :: "bytes \<Rightarrow> bytes" where
  "enc_lenPrefixed b = enc_uleb128 (word_of_nat (length b)) @ b"

definition enc_str :: "string \<Rightarrow> bytes" where
  "enc_str s = enc_lenPrefixed (bytes_of_string s)"

text \<open>An address is an array of 32 bytes.\<close>

type_synonym aptAddress = bytes

datatype address_error = HexError | AddressTooLong | NestedTypeArgs | InvalidStructTag | InvalidModuleId

definition parseHexAddress :: "string \<Rightarrow> address_error + aptAddress" where
  "parseHexAddress s =
     (let s = strings_TrimPrefix s ''0x'';
          s = strings_TrimPrefix s ''0X'';
          s = (if length s mod 2 \<noteq> 0 then CHR ''0'' # s else s)
      in andThen (orErr HexError (hex_decode s)) (\<lambda>b.
           if length b > 32 then Inl AddressTooLong
           else Inr (replicate (32 - length b) 0 @ b)))"

datatype typeTag = TypeTagStruct aptAddress string string "typeTag list"

fun encodeTag :: "typeTag \<Rightarrow> bytes" where
  "encodeTag (TypeTagStruct addr module name typeArgs) =
     enc_uleb128 7 @ addr @ enc_str module @ enc_str name @
     enc_uleb128 (word_of_nat (length typeArgs)) @ concat (map encodeTag typeArgs)"

definition parseTypeTagStruct :: "string \<Rightarrow> address_error + typeTag" where
  "parseTypeTagStruct s =
     (if strings_Contains s ''<'' then Inl NestedTypeArgs
      else case strings_SplitStr s ''::'' of
        [part0, part1, part2] \<Rightarrow>
          andThen (parseHexAddress part0) (\<lambda>addr. Inr (TypeTagStruct addr part1 part2 []))
      | _ \<Rightarrow> Inl InvalidStructTag)"

record entryFunction =
  moduleAddr :: aptAddress
  moduleName :: string
  function_name :: string
  typeArgs :: "typeTag list"
  args :: "bytes list"

definition encodePayload :: "entryFunction \<Rightarrow> bytes" where
  "encodePayload p =
     enc_uleb128 2 @ moduleAddr p @ enc_str (moduleName p) @ enc_str (function_name p) @
     enc_uleb128 (word_of_nat (length (typeArgs p))) @ concat (map encodeTag (typeArgs p)) @
     enc_uleb128 (word_of_nat (length (args p))) @ concat (map enc_lenPrefixed (args p))"

definition parseModuleId :: "string \<Rightarrow> address_error + aptAddress \<times> string" where
  "parseModuleId s =
     (case strings_SplitStr s ''::'' of
        [part0, part1] \<Rightarrow> andThen (parseHexAddress part0) (\<lambda>addr. Inr (addr, part1))
      | _ \<Rightarrow> Inl InvalidModuleId)"

record rawTransaction =
  sender :: aptAddress
  sequenceNumber :: u64
  payload :: entryFunction
  maxGasAmount :: u64
  gasUnitPrice :: u64
  expirationTimestampSecs :: u64
  chainId :: u8

definition encode_raw :: "rawTransaction \<Rightarrow> bytes" where
  "encode_raw r =
     sender r @ enc_u64 (sequenceNumber r) @ encodePayload (payload r) @ enc_u64 (maxGasAmount r) @
     enc_u64 (gasUnitPrice r) @ enc_u64 (expirationTimestampSecs r) @ enc_u8 (chainId r)"

definition encodeU64Arg :: "u64 \<Rightarrow> bytes" where
  "encodeU64Arg v = enc_u64 v"

definition encodeSignedTransaction :: "bytes \<Rightarrow> bytes \<Rightarrow> bytes \<Rightarrow> bytes" where
  "encodeSignedTransaction rawBytes publicKey signature =
     rawBytes @ enc_uleb128 0 @ enc_lenPrefixed publicKey @ enc_lenPrefixed signature"

section \<open>Addresses\<close>

definition MagicContactAddressForNative :: string where
  "MagicContactAddressForNative = ''0xeeeeeeeeeeeeeeeeeeeeeeeeeeeeeeeeeeeeeeee''"

definition validHexAddress :: "string \<Rightarrow> bool" where
  "validHexAddress address =
     (if \<not> strings_HasPrefix address ''0x'' \<and> \<not> strings_HasPrefix address ''0X'' then False
      else
        let digits = drop 2 address
        in if digits = [] \<or> length digits > 64 then False
           else list_all (\<lambda>c. fromHexChar c \<noteq> None) digits)"

definition move_letter :: "char \<Rightarrow> bool" where
  "move_letter c \<longleftrightarrow> c = CHR ''_'' \<or> (97 \<le> char_nat c \<and> char_nat c \<le> 122) \<or>
     (65 \<le> char_nat c \<and> char_nat c \<le> 90)"

definition validMoveIdentifier :: "string \<Rightarrow> bool" where
  "validMoveIdentifier name =
     (case name of
        [] \<Rightarrow> False
      | c # cs \<Rightarrow> move_letter c \<and> list_all (\<lambda>c. move_letter c \<or> digit_of c \<noteq> None) cs)"

definition ValidAddress :: "string \<Rightarrow> bool" where
  "ValidAddress address =
     (if address = MagicContactAddressForNative then True
      else case strings_SplitStr address ''::'' of
        [part0] \<Rightarrow> validHexAddress part0
      | [part0, part1, part2] \<Rightarrow>
          validHexAddress part0 \<and> validMoveIdentifier part1 \<and> validMoveIdentifier part2
      | _ \<Rightarrow> False)"

section \<open>The transaction builder\<close>

record Ingredient =
  TxType :: string
  ContractAddress :: string
  Sender :: string
  SenderPublicKey :: string
  Recipient :: string
  Amount :: string
  Nonce :: string
  GasPrice :: string
  GasLimit :: string
  ExpirationTimestamp :: string
  ChainId :: string

record TxBuilder =
  ingredient :: Ingredient
  unsignedHex :: string
  sigHash :: "string list"
  txHash :: string

datatype build_error =
    InvalidIngredient | SenderError address_error | RecipientIsSentinel
  | RecipientError address_error | ContractError address_error | InvalidTxType
  | NotBuilt | DerNotSupported | HexDecodeError | BadPublicKeyLength | BadSignatureLength
  | SignError

definition NewTxBuilder :: "Ingredient \<Rightarrow> TxBuilder" where
  "NewTxBuilder ti = \<lparr>ingredient = ti, unsignedHex = [], sigHash = [], txHash = []\<rparr>"

text \<open>The zero value of \<open>typeTagStruct\<close>, which \<open>token\<close> keeps for the native asset.\<close>

definition no_token :: typeTag where
  "no_token = TypeTagStruct (replicate 32 0) [] [] []"

definition parse_u64 :: "string \<Rightarrow> u64" where
  "parse_u64 s = word_of_nat (fst (ParseUint 64 s))"

text \<open>The module address and name \<open>parseModuleId\<close> yields; on an error both are zero values.\<close>

definition module_id :: "string \<Rightarrow> aptAddress \<times> string" where
  "module_id s = (case parseModuleId s of Inr p \<Rightarrow> p | Inl _ \<Rightarrow> (replicate 32 0, []))"

definition entry :: "string \<Rightarrow> string \<Rightarrow> typeTag list \<Rightarrow> bytes list \<Rightarrow> entryFunction" where
  "entry m f ts as =
     \<lparr>moduleAddr = fst (module_id m), moduleName = snd (module_id m), function_name = f,
      typeArgs = ts, args = as\<rparr>"

text \<open>The switch over the transaction type.\<close>

definition choose_payload ::
  "Ingredient \<Rightarrow> typeTag \<Rightarrow> aptAddress \<Rightarrow> bytes \<Rightarrow> build_error + entryFunction"
where
  "choose_payload ti token recipient amount =
     (if TxType ti = ''0'' then
        (if ContractAddress ti = MagicContactAddressForNative
         then Inr (entry ''0x1::aptos_account'' ''transfer'' [] [recipient, amount])
         else Inr (entry ''0x1::coin'' ''transfer'' [token] [recipient, amount]))
      else if TxType ti = ''1'' then
        Inr (entry ''0x1::managed_coin'' ''mint'' [token] [recipient, amount])
      else if TxType ti = ''2'' then Inr (entry ''0x1::managed_coin'' ''burn'' [token] [amount])
      else if TxType ti = ''4'' then Inr (entry ''0x1::managed_coin'' ''register'' [token] [])
      else Inl InvalidTxType)"

definition build_token :: "Ingredient \<Rightarrow> build_error + typeTag" where
  "build_token ti =
     (if ContractAddress ti \<noteq> MagicContactAddressForNative
      then mapErr ContractError (parseTypeTagStruct (ContractAddress ti))
      else Inr no_token)"

definition build_amount :: "Ingredient \<Rightarrow> bytes" where
  "build_amount ti = (if Amount ti \<noteq> [] then encodeU64Arg (parse_u64 (Amount ti)) else [])"

definition raw_of_ingredient ::
  "(Ingredient \<Rightarrow> bool) \<Rightarrow> Ingredient \<Rightarrow> build_error + rawTransaction"
where
  "raw_of_ingredient validate ti =
     andThen (require (validate ti) InvalidIngredient) (\<lambda>_.
     andThen (mapErr SenderError (parseHexAddress (Sender ti))) (\<lambda>snd.
     andThen (require (Recipient ti \<noteq> MagicContactAddressForNative) RecipientIsSentinel) (\<lambda>_.
     andThen (mapErr RecipientError (parseHexAddress (Recipient ti))) (\<lambda>recipient.
     andThen (build_token ti) (\<lambda>token.
     andThen (choose_payload ti token recipient (build_amount ti)) (\<lambda>payload.
         Inr \<lparr>sender = snd, sequenceNumber = parse_u64 (Nonce ti), payload = payload,
              maxGasAmount = parse_u64 (GasLimit ti), gasUnitPrice = parse_u64 (GasPrice ti),
              expirationTimestampSecs = parse_u64 (ExpirationTimestamp ti),
              chainId = ucast (parse_u64 (ChainId ti))\<rparr>))))))"

text \<open>\<open>Build\<close> resets the builder before anything can fail, so a failed build leaves it empty.\<close>

definition Build ::
  "(bytes \<Rightarrow> bytes) \<Rightarrow> (Ingredient \<Rightarrow> bool) \<Rightarrow> TxBuilder \<Rightarrow> TxBuilder \<times> (build_error + unit)"
where
  "Build sha3 validate tx =
     (let tx = tx\<lparr>sigHash := [], unsignedHex := [], txHash := []\<rparr>
      in case raw_of_ingredient validate (ingredient tx) of
           Inl e \<Rightarrow> (tx, Inl e)
         | Inr raw \<Rightarrow>
             let rawBytes = encode_raw raw;
                 signingMessage = sha3 (bytes_of_string ''APTOS::RawTransaction'') @ rawBytes
             in (tx\<lparr>unsignedHex := hex_encode rawBytes,
                    sigHash := [hex_encode signingMessage]\<rparr>, Inr ()))"

definition Sign ::
  "(bytes \<Rightarrow> bytes \<Rightarrow> bytes option) \<Rightarrow> TxBuilder \<Rightarrow> bytes \<Rightarrow> build_error + string"
where
  "Sign signer tx privateKey =
     (if length (sigHash tx) \<noteq> 1 then Inl NotBuilt
      else andThen (orErr HexDecodeError (hex_decode (sigHash tx ! 0))) (\<lambda>signingMessage.
        andThen (orErr SignError (signer privateKey signingMessage)) (\<lambda>signatureBytes.
          Inr (hex_encode signatureBytes))))"

definition ConcatSignature ::
  "(bytes \<Rightarrow> bytes) \<Rightarrow> TxBuilder \<Rightarrow> string \<Rightarrow> bool \<Rightarrow> TxBuilder \<times> (build_error + string)"
where
  "ConcatSignature sha3 tx signature isDerFormat =
     (case
        andThen (require (unsignedHex tx \<noteq> []) NotBuilt) (\<lambda>_.
        andThen (require (\<not> isDerFormat) DerNotSupported) (\<lambda>_.
        andThen (orErr HexDecodeError (hex_decode (unsignedHex tx))) (\<lambda>rawBytes.
        andThen (orErr HexDecodeError (hex_decode signature)) (\<lambda>sigBytes.
        andThen (orErr HexDecodeError (hex_decode (SenderPublicKey (ingredient tx)))) (\<lambda>pubBytes.
        andThen (require (length pubBytes = 32) BadPublicKeyLength) (\<lambda>_.
        andThen (require (length sigBytes = 64) BadSignatureLength) (\<lambda>_.
          Inr (encodeSignedTransaction rawBytes pubBytes sigBytes))))))))
      of Inl e \<Rightarrow> (tx, Inl e)
       | Inr signedBytes \<Rightarrow>
           let message = sha3 (bytes_of_string ''APTOS::Transaction'') @ [0] @ signedBytes
           in (tx\<lparr>txHash := ''0x'' @ hex_encode (sha3 message)\<rparr>, Inr (hex_encode signedBytes)))"

definition GetTxHash :: "TxBuilder \<Rightarrow> string" where
  "GetTxHash tx = txHash tx"

definition GetSigHash :: "TxBuilder \<Rightarrow> string list" where
  "GetSigHash tx = sigHash tx"

definition GetUnsignedHex :: "TxBuilder \<Rightarrow> string" where
  "GetUnsignedHex tx = unsignedHex tx"

definition SetSigHash :: "TxBuilder \<Rightarrow> string list \<Rightarrow> TxBuilder" where
  "SetSigHash tx h = tx\<lparr>sigHash := h\<rparr>"

definition SetUnsignedHex :: "TxBuilder \<Rightarrow> string \<Rightarrow> TxBuilder" where
  "SetUnsignedHex tx h = tx\<lparr>unsignedHex := h\<rparr>"

section \<open>The encoder is a prefix code\<close>

lemmas enc_simps =
  enc_u8_def enc_u64_def [folded le_word_8] enc_uleb128_def enc_lenPrefixed_def [unfolded enc_uleb128_def, folded len_prefixed_def]
  enc_str_def

lemma enc_list_same_length:
  assumes "length xs = length ys" and "concat (map enc xs) @ r = concat (map enc ys) @ s"
    and "\<And>x y r s. x \<in> set xs \<Longrightarrow> y \<in> set ys \<Longrightarrow> enc x @ r = enc y @ s \<Longrightarrow> x = y \<and> r = s"
  shows "xs = ys \<and> r = s"
  using assms
proof (induction xs ys rule: list_induct2)
  case (Cons x xs y ys)
  from Cons.prems(1) Cons.prems(2) [of x y "concat (map enc xs) @ r" "concat (map enc ys) @ s"]
  have "x = y" "concat (map enc xs) @ r = concat (map enc ys) @ s" by auto
  with Cons.IH Cons.prems(2) show ?case by auto
qed simp

fun wf_tag :: "typeTag \<Rightarrow> bool" where
  "wf_tag (TypeTagStruct addr module name targs) =
     (length addr = 32 \<and> slice module \<and> slice name \<and> slice targs \<and> list_all wf_tag targs)"

lemma slice_bytes_of_string [simp]: "slice (bytes_of_string s) = slice s"
  by (simp add: slice_def)

lemma enc_str_append:
  "slice s \<Longrightarrow> slice t \<Longrightarrow> enc_str s @ r = enc_str t @ q \<longleftrightarrow> s = t \<and> r = q"
  using len_prefixed.enc_append [of "bytes_of_string s" "bytes_of_string t" r q]
  by (simp add: enc_simps)

interpretation tag: prefix_code encodeTag wf_tag
proof unfold_locales
  fix x y r s
  show "wf_tag x \<Longrightarrow> wf_tag y \<Longrightarrow> encodeTag x @ r = encodeTag y @ s \<Longrightarrow> x = y \<and> r = s"
  proof (induction x arbitrary: y r s)
    case (TypeTagStruct a m n ts)
    obtain a' m' n' ts' where y: "y = TypeTagStruct a' m' n' ts'" by (cases y)
    have la: "length a = 32" "length a' = 32" and sl: "slice m" "slice n" "slice ts" "slice m'" "slice n'" "slice ts'"
      and ts: "list_all wf_tag ts" "list_all wf_tag ts'"
      using TypeTagStruct.prems(1,2) by (simp_all add: y)
    have eq: "a @ enc_str m @ enc_str n @ uleb (word_of_nat (length ts)) @ concat (map encodeTag ts) @ r =
        a' @ enc_str m' @ enc_str n' @ uleb (word_of_nat (length ts')) @ concat (map encodeTag ts') @ s"
      using TypeTagStruct.prems(3) by (simp add: y enc_uleb128_def uleb.enc_append)
    then have h: "a = a'" "m = m'" "n = n'" and l: "length ts = length ts'"
      and rest: "concat (map encodeTag ts) @ r = concat (map encodeTag ts') @ s"
      using la sl by (simp_all add: append_eq_append_conv enc_str_append uleb.enc_append word_length_inject)
    have "ts = ts' \<and> r = s"
      using l rest
    proof (rule enc_list_same_length)
      fix x y r s
      assume "x \<in> set ts" "y \<in> set ts'" "encodeTag x @ r = encodeTag y @ s"
      then show "x = y \<and> r = s"
        using TypeTagStruct.IH [of x y r s] ts by (auto simp: list_all_iff)
    qed
    with h show ?case by (simp add: y)
  qed
qed

definition wf_entry :: "entryFunction \<Rightarrow> bool" where
  "wf_entry p \<longleftrightarrow> length (moduleAddr p) = 32 \<and> slice (moduleName p) \<and> slice (function_name p) \<and>
     slice (typeArgs p) \<and> (\<forall>t \<in> set (typeArgs p). wf_tag t) \<and> slice (args p) \<and>
     (\<forall>a \<in> set (args p). slice a)"

lemma encodePayload_counted:
  "encodePayload p = uleb 2 @ moduleAddr p @ enc_str (moduleName p) @ enc_str (function_name p) @
     counted encodeTag (typeArgs p) @ counted len_prefixed (args p)"
  by (simp add: encodePayload_def counted_def enc_simps cong: map_cong)

interpretation payload: prefix_code encodePayload wf_entry
proof unfold_locales
  fix p q r s
  assume "wf_entry p" "wf_entry q" "encodePayload p @ r = encodePayload q @ s"
  then show "p = q \<and> r = s"
    unfolding wf_entry_def encodePayload_counted
    by (cases p, cases q)
      (simp add: uleb.enc_append enc_str_append tag.counted_append len_prefixed.counted_append)
qed

definition wf_raw :: "rawTransaction \<Rightarrow> bool" where
  "wf_raw r \<longleftrightarrow> length (sender r) = 32 \<and> wf_entry (payload r)"

interpretation raw_tx: prefix_code encode_raw wf_raw
proof unfold_locales
  fix p q r s
  assume "wf_raw p" "wf_raw q" "encode_raw p @ r = encode_raw q @ s"
  then show "p = q \<and> r = s"
    unfolding wf_raw_def encode_raw_def enc_simps
    by (cases p, cases q) (simp add: le_u64.enc_append payload.enc_append)
qed

section \<open>The builder\<close>

lemma split_str_length: "p \<in> set (split_str_loop sep acc s) \<Longrightarrow> length p \<le> length acc + length s"
proof (induction sep acc s rule: split_str_loop.induct)
  case (1 sep acc s)
  show ?case
  proof (cases "s = []")
    case True
    then show ?thesis using 1(3) by (simp add: split_str_loop.simps [of _ _ "[]"])
  next
    case False
    note unfold = split_str_loop.simps [of sep acc s]
    show ?thesis
    proof (cases "sep \<noteq> [] \<and> take (length sep) s = sep")
      case True
      then have "p = rev acc \<or> p \<in> set (split_str_loop sep [] (drop (length sep) s))"
        using 1(3) False unfold by simp
      then show ?thesis using 1(1) [OF False True] by auto
    next
      case sep: False
      then have "p \<in> set (split_str_loop sep (hd s # acc) (tl s))"
        using 1(3) False unfold by (simp only: if_False)
      from 1(2) [OF False sep this] show ?thesis using False by (cases s) auto
    qed
  qed
qed

lemma split_str_slice: "p \<in> set (strings_SplitStr s sep) \<Longrightarrow> slice s \<Longrightarrow> slice p"
  using split_str_length [of p sep "[]" s] by (simp add: strings_SplitStr_def slice_def)

lemma parseHexAddress_length: "parseHexAddress s = Inr a \<Longrightarrow> length a = 32"
  by (auto simp: parseHexAddress_def Let_def andThen_eq_Inr split: if_splits)

lemma parseTypeTag_wf: "parseTypeTagStruct s = Inr t \<Longrightarrow> slice s \<Longrightarrow> wf_tag t"
proof -
  assume t: "parseTypeTagStruct s = Inr t" and s: "slice s"
  then obtain p0 p1 p2 a where parts: "strings_SplitStr s ''::'' = [p0, p1, p2]"
    and a: "parseHexAddress p0 = Inr a" "t = TypeTagStruct a p1 p2 []"
    by (auto simp: parseTypeTagStruct_def andThen_eq_Inr split: if_splits list.splits)
  have "slice p1" "slice p2" using split_str_slice [OF _ s, of _ "''::''"] by (simp_all add: parts)
  then show ?thesis using a parseHexAddress_length [OF a(1)] by (simp add: slice_def)
qed

lemma module_id_wf: "length (fst (module_id m)) = 32" "slice m \<Longrightarrow> slice (snd (module_id m))"
proof -
  have "length (fst p) = 32 \<and> (slice m \<longrightarrow> slice (snd p))" if "parseModuleId m = Inr p" for p
  proof -
    from that obtain p0 p1 a where parts: "strings_SplitStr m ''::'' = [p0, p1]"
      and a: "parseHexAddress p0 = Inr a" "p = (a, p1)"
      by (auto simp: parseModuleId_def andThen_eq_Inr split: list.splits)
    then show ?thesis
      using parseHexAddress_length [OF a(1)] split_str_slice [of p1 m "''::''"] by simp
  qed
  then show "length (fst (module_id m)) = 32" "slice m \<Longrightarrow> slice (snd (module_id m))"
    by (auto simp: module_id_def slice_def split: sum.splits)
qed

lemma entry_wf:
  "slice m \<Longrightarrow> slice f \<Longrightarrow> slice ts \<Longrightarrow> list_all wf_tag ts \<Longrightarrow> slice as \<Longrightarrow> list_all slice as \<Longrightarrow>
    wf_entry (entry m f ts as)"
  using module_id_wf [of m] by (simp add: wf_entry_def entry_def list_all_iff)

lemma choose_payload_wf:
  assumes "choose_payload ti token recipient amount = Inr p"
    and "wf_tag token" and "slice recipient" and "slice amount"
  shows "wf_entry p"
  using assms by (auto simp: choose_payload_def slice_def intro!: entry_wf split: if_splits)

lemma raw_of_ingredient_wf:
  assumes "raw_of_ingredient validate ti = Inr raw" and "slice (ContractAddress ti)"
  shows "wf_raw raw"
proof -
  from assms(1) obtain a r token p where a: "parseHexAddress (Sender ti) = Inr a"
    and r: "parseHexAddress (Recipient ti) = Inr r" and token: "build_token ti = Inr token"
    and p: "choose_payload ti token r (build_amount ti) = Inr p"
    and raw: "sender raw = a" "payload raw = p"
    by (auto simp: raw_of_ingredient_def andThen_eq_Inr)
  have "wf_tag token"
    using token parseTypeTag_wf assms(2)
    by (auto simp: build_token_def no_token_def slice_def split: if_splits)
  moreover have "slice (build_amount ti)"
    by (simp add: build_amount_def slice_def encodeU64Arg_def enc_u64_def)
  moreover have "slice r" using parseHexAddress_length [OF r] by (simp add: slice_def)
  ultimately show ?thesis
    using choose_payload_wf [OF p] parseHexAddress_length [OF a] raw by (simp add: wf_raw_def)
qed

lemma Build_ok:
  "Build sha3 validate tx = (tx', Inr ()) \<longleftrightarrow> (\<exists>raw. raw_of_ingredient validate (ingredient tx) = Inr raw \<and>
     tx' = \<lparr>ingredient = ingredient tx, unsignedHex = hex_encode (encode_raw raw),
       sigHash = [hex_encode (sha3 (bytes_of_string ''APTOS::RawTransaction'') @ encode_raw raw)],
       txHash = []\<rparr>)"
  by (cases tx) (auto simp: Build_def Let_def split: sum.splits)

section \<open>Properties\<close>

text \<open>
  C6: BCS bytes determine the transaction. Two well-formed raw transactions have the same bytes
  only when they are equal, and nothing can follow one of them that makes it another.
\<close>
theorem raw_transaction_injective:
  assumes "wf_raw p" and "wf_raw q"
  shows "encode_raw p @ r = encode_raw q @ s \<longleftrightarrow> p = q \<and> r = s"
  using assms by (rule raw_tx.enc_append)

definition sample_raw :: rawTransaction where
  "sample_raw = \<lparr>sender = replicate 32 1, sequenceNumber = 5,
     payload = \<lparr>moduleAddr = replicate 32 0, moduleName = ''coin'', function_name = ''transfer'',
       typeArgs = [TypeTagStruct (replicate 32 2) ''m'' ''T'' []], args = [replicate 32 3, [1, 0]]\<rparr>,
     maxGasAmount = 300, gasUnitPrice = 100, expirationTimestampSecs = 7, chainId = 1\<rparr>"

lemma wf_sample_raw: "wf_raw sample_raw"
  by (simp add: wf_raw_def wf_entry_def sample_raw_def slice_def)

theorem raw_transaction_injective_witness:
  "encode_raw sample_raw @ [] \<noteq> encode_raw (sample_raw\<lparr>chainId := 2\<rparr>) @ [9]"
proof -
  have "wf_raw (sample_raw\<lparr>chainId := 2\<rparr>)" using wf_sample_raw by (simp add: wf_raw_def)
  then show ?thesis
    using raw_transaction_injective [OF wf_sample_raw, of "sample_raw\<lparr>chainId := 2\<rparr>" "[]" "[9]"]
    by simp
qed

text \<open>
  what is signed binds the transfer. If two transfers are built to the same signing message
  then sender, recipient, asset, amount, sequence number, gas and expiration are the same.
\<close>
theorem signing_message_binds:
  assumes "Build sha3 validate (NewTxBuilder ti) = (tx, Inr ())"
    and "Build sha3 validate (NewTxBuilder ti') = (tx', Inr ())"
    and "sigHash tx = sigHash tx'" and "TxType ti = ''0''" and "TxType ti' = ''0''"
    and "Amount ti \<noteq> []" and "Amount ti' \<noteq> []"
    and "slice (ContractAddress ti)" and "slice (ContractAddress ti')"
  shows "parseHexAddress (Sender ti) = parseHexAddress (Sender ti') \<and>
    parseHexAddress (Recipient ti) = parseHexAddress (Recipient ti') \<and>
    (ContractAddress ti = MagicContactAddressForNative \<longleftrightarrow>
       ContractAddress ti' = MagicContactAddressForNative) \<and> build_token ti = build_token ti' \<and>
    parse_u64 (Amount ti) = parse_u64 (Amount ti') \<and> parse_u64 (Nonce ti) = parse_u64 (Nonce ti') \<and>
    parse_u64 (GasLimit ti) = parse_u64 (GasLimit ti') \<and>
    parse_u64 (GasPrice ti) = parse_u64 (GasPrice ti') \<and>
    parse_u64 (ExpirationTimestamp ti) = parse_u64 (ExpirationTimestamp ti')"
proof -
  obtain raw raw' where raw: "raw_of_ingredient validate ti = Inr raw"
    "raw_of_ingredient validate ti' = Inr raw'" and eq: "encode_raw raw = encode_raw raw'"
    using assms(1,2,3) by (auto simp: Build_ok NewTxBuilder_def)
  have "raw = raw'"
    using raw_tx.enc_inject [OF raw_of_ingredient_wf raw_of_ingredient_wf] raw eq assms(8,9) by blast
  with raw assms(4-7) show ?thesis
    by (auto simp: raw_of_ingredient_def andThen_eq_Inr choose_payload_def entry_def
        build_amount_def build_token_def encodeU64Arg_def enc_simps split: if_splits)
qed

definition sample_hash :: "bytes \<Rightarrow> bytes" where
  "sample_hash b = take 32 (b @ replicate 32 0)"

definition sample_ingredient :: Ingredient where
  "sample_ingredient = \<lparr>TxType = ''0'', ContractAddress = ''0x1::m::T'', Sender = ''0x1'',
     SenderPublicKey = hex_encode (replicate 32 7), Recipient = ''0x2'', Amount = ''5'', Nonce = ''1'',
     GasPrice = ''100'', GasLimit = ''9'', ExpirationTimestamp = ''7'', ChainId = ''1''\<rparr>"

lemmas parse_address_simps =
  parseHexAddress_def strings_TrimPrefix_def strings_HasPrefix_def fromHexChar_def char_nat_def

lemma sample_addresses:
  "parseHexAddress ''0x1'' = Inr (replicate 31 0 @ [1])"
  "parseHexAddress ''0x2'' = Inr (replicate 31 0 @ [2])"
  "parseHexAddress ''0X02'' = Inr (replicate 31 0 @ [2])"
  by (simp_all add: parse_address_simps)

lemma sample_token: "parseTypeTagStruct ''0x1::m::T'' =
  Inr (TypeTagStruct (replicate 31 0 @ [1]) ''m'' ''T'' [])"
  by (simp add: parseTypeTagStruct_def strings_Contains.simps strings_SplitStr_def
      split_str_loop.simps sample_addresses)

lemma sample_builds:
  "\<exists>raw. raw_of_ingredient (\<lambda>_. True) sample_ingredient = Inr raw \<and>
     raw_of_ingredient (\<lambda>_. True) (sample_ingredient\<lparr>Recipient := ''0X02''\<rparr>) = Inr raw"
proof -
  let ?ti = sample_ingredient and ?ti' = "sample_ingredient\<lparr>Recipient := ''0X02''\<rparr>"
  have f: "Sender ?ti = ''0x1''" "Recipient ?ti = ''0x2''" "Recipient ?ti' = ''0X02''" "TxType ?ti = ''0''"
    "ContractAddress ?ti = ''0x1::m::T''"
    by (simp_all add: sample_ingredient_def)
  have t: "build_token ?ti = Inr (TypeTagStruct (replicate 31 0 @ [1]) ''m'' ''T'' [])"
    "build_token ?ti' = build_token ?ti" "build_amount ?ti' = build_amount ?ti"
    "choose_payload ?ti' = choose_payload ?ti"
    by (simp_all add: build_token_def f sample_token MagicContactAddressForNative_def build_amount_def
        choose_payload_def fun_eq_iff)
  let ?tk = "TypeTagStruct (replicate 31 0 @ [1]) ''m'' ''T'' []"
  have "isOk (choose_payload ?ti ?tk (replicate 31 0 @ [2]) (build_amount ?ti))"
    by (simp add: choose_payload_def f MagicContactAddressForNative_def)
  then obtain p where p: "choose_payload ?ti ?tk (replicate 31 0 @ [2]) (build_amount ?ti) = Inr p"
    by (auto simp: isOk_iff)
  have r: "''0x2'' \<noteq> MagicContactAddressForNative" "''0X02'' \<noteq> MagicContactAddressForNative"
    by (simp_all add: MagicContactAddressForNative_def)
  show ?thesis
    by (simp add: raw_of_ingredient_def t r f sample_addresses p)
qed

theorem signing_message_binds_witness:
  "\<exists>tx tx'. Build sample_hash (\<lambda>_. True) (NewTxBuilder sample_ingredient) = (tx, Inr ()) \<and>
     Build sample_hash (\<lambda>_. True) (NewTxBuilder (sample_ingredient\<lparr>Recipient := ''0X02''\<rparr>)) = (tx', Inr ()) \<and>
     parseHexAddress ''0x2'' = parseHexAddress ''0X02''"
proof -
  let ?ti = sample_ingredient and ?ti' = "sample_ingredient\<lparr>Recipient := ''0X02''\<rparr>"
  obtain raw where raw: "raw_of_ingredient (\<lambda>_. True) ?ti = Inr raw"
    "raw_of_ingredient (\<lambda>_. True) ?ti' = Inr raw" using sample_builds by blast
  then obtain tx tx' where b: "Build sample_hash (\<lambda>_. True) (NewTxBuilder ?ti) = (tx, Inr ())"
    "Build sample_hash (\<lambda>_. True) (NewTxBuilder ?ti') = (tx', Inr ())" "sigHash tx = sigHash tx'"
    unfolding Build_ok by (auto simp: NewTxBuilder_def)
  have "parseHexAddress (Recipient ?ti) = parseHexAddress (Recipient ?ti')"
    using signing_message_binds [OF b] by (simp add: sample_ingredient_def slice_def)
  then show ?thesis using b by (auto simp: sample_ingredient_def)
qed

lemma ChainId_irrelevant:
  "build_token (ti\<lparr>ChainId := c\<rparr>) = build_token ti"
  "build_amount (ti\<lparr>ChainId := c\<rparr>) = build_amount ti"
  "choose_payload (ti\<lparr>ChainId := c\<rparr>) = choose_payload ti"
  by (auto simp: build_token_def build_amount_def choose_payload_def fun_eq_iff)

text \<open>
  a chain id is signed modulo 256. Ingredients whose chain ids differ by 256 build the same
  signing message, although every other numeric field is signed at its full width.
\<close>
theorem chain_id_truncated:
  assumes "n + 256 < 2 ^ 64"
    and "validate (ti\<lparr>ChainId := FormatUint n\<rparr>)" and "validate (ti\<lparr>ChainId := FormatUint (n + 256)\<rparr>)"
  shows "raw_of_ingredient validate (ti\<lparr>ChainId := FormatUint (n + 256)\<rparr>) =
    raw_of_ingredient validate (ti\<lparr>ChainId := FormatUint n\<rparr>)"
proof -
  have "(ucast (parse_u64 (FormatUint (n + 256))) :: u8) = ucast (parse_u64 (FormatUint n))"
    using assms(1) ParseUint_FormatUint [of n 64] ParseUint_FormatUint [of "n + 256" 64]
    by (simp only: word_unat_eq_iff unat_ucast_u8 parse_u64_def fst_conv unat_of_nat) simp
  then show ?thesis using assms(2,3) by (simp add: raw_of_ingredient_def ChainId_irrelevant)
qed

theorem chain_id_truncated_witness:
  "raw_of_ingredient (\<lambda>_. True) (sample_ingredient\<lparr>ChainId := FormatUint 257\<rparr>) =
    raw_of_ingredient (\<lambda>_. True) (sample_ingredient\<lparr>ChainId := FormatUint 1\<rparr>)"
  using chain_id_truncated [of 1 "\<lambda>_. True" sample_ingredient] by simp

text \<open>
  completing a built transaction. With a signature of 64 bytes and a public key of 32 bytes
  the result is the signed bytes of exactly the transaction that was built, and with anything
  else an error that leaves the builder as it was.
\<close>
theorem concat_completes_build:
  assumes "Build sha3 validate (NewTxBuilder ti) = (tx, Inr ())"
  shows "\<exists>raw. raw_of_ingredient validate ti = Inr raw \<and>
    ConcatSignature sha3 tx signature False =
      (case (hex_decode signature, hex_decode (SenderPublicKey ti)) of
         (Some sig, Some pub) \<Rightarrow>
           if length pub \<noteq> 32 then (tx, Inl BadPublicKeyLength)
           else if length sig \<noteq> 64 then (tx, Inl BadSignatureLength)
           else
             let signed = encode_raw raw @ [0, 32] @ pub @ [64] @ sig
             in (tx\<lparr>txHash := ''0x'' @ hex_encode
                     (sha3 (sha3 (bytes_of_string ''APTOS::Transaction'') @ [0] @ signed))\<rparr>,
                 Inr (hex_encode signed))
       | _ \<Rightarrow> (tx, Inl HexDecodeError))"
proof -
  from assms obtain raw where raw: "raw_of_ingredient validate ti = Inr raw"
    and tx: "unsignedHex tx = hex_encode (encode_raw raw)" "ingredient tx = ti"
    by (auto simp: Build_ok NewTxBuilder_def)
  have "encode_raw raw \<noteq> []" by (simp add: encode_raw_def enc_u8_def)
  then have "hex_encode (encode_raw raw) \<noteq> []" by (cases "encode_raw raw") simp_all
  then have "ConcatSignature sha3 tx signature False =
      (case (hex_decode signature, hex_decode (SenderPublicKey ti)) of
         (Some sig, Some pub) \<Rightarrow>
           if length pub \<noteq> 32 then (tx, Inl BadPublicKeyLength)
           else if length sig \<noteq> 64 then (tx, Inl BadSignatureLength)
           else
             let signed = encode_raw raw @ [0, 32] @ pub @ [64] @ sig
             in (tx\<lparr>txHash := ''0x'' @ hex_encode
                     (sha3 (sha3 (bytes_of_string ''APTOS::Transaction'') @ [0] @ signed))\<rparr>,
                 Inr (hex_encode signed))
       | _ \<Rightarrow> (tx, Inl HexDecodeError))"
    using tx
    by (cases "hex_decode signature"; cases "hex_decode (SenderPublicKey ti)")
      (simp_all add: ConcatSignature_def encodeSignedTransaction_def enc_simps len_prefixed_def
        uleb_small Let_def require_def)
  with raw show ?thesis by blast
qed

theorem concat_completes_build_witness:
  "\<exists>tx raw. Build sample_hash (\<lambda>_. True) (NewTxBuilder sample_ingredient) = (tx, Inr ()) \<and>
     snd (ConcatSignature sample_hash tx (hex_encode (replicate 64 9)) False) =
       Inr (hex_encode (encode_raw raw @ [0, 32] @ replicate 32 7 @ [64] @ replicate 64 9))"
proof -
  obtain tx where b: "Build sample_hash (\<lambda>_. True) (NewTxBuilder sample_ingredient) = (tx, Inr ())"
    using sample_builds unfolding Build_ok by (auto simp: NewTxBuilder_def)
  have "hex_decode (SenderPublicKey sample_ingredient) = Some (replicate 32 7)"
    by (simp add: sample_ingredient_def del: hex_encode.simps replicate.simps)
  then show ?thesis
    using b concat_completes_build [OF b, of "hex_encode (replicate 64 9)"]
    by (auto simp: Let_def)
qed

end
