(* ===== verification/Sui.thy ===== *)
theory Sui
  imports Codec
begin

text \<open>
  \<open>signing/sui\<close>: the encoder of \<open>bcs.go\<close>, the coins of \<open>coins.go\<close> and the transaction builder of
  \<open>tx.go\<close>. An encoder has a buffer and an error flag; its methods are functions on that state.
  Base58 (\<open>btcd\<close>, \<open>mr-tron\<close>), BLAKE2b, the struct validator and the Ed25519 signer are parameters;
  so is the JSON reader that turns the coin list into records.

  The second half states what the encoded programmable transaction does when a validator runs it,
  and proves that it pays the recipient exactly the amount.
\<close>

section \<open>The encoder\<close>

record suiObjectRef =
  objectID :: string
  version :: u64
  digest :: string

record suiEnc =
  buf :: bytes
  err :: bool

definition e_raw :: "bytes \<Rightarrow> suiEnc \<Rightarrow> suiEnc" where
  "e_raw b e = e\<lparr>buf := buf e @ b\<rparr>"

definition e_u8 :: "u8 \<Rightarrow> suiEnc \<Rightarrow> suiEnc" where
  "e_u8 v = e_raw [v]"

definition e_u16 :: "u16 \<Rightarrow> suiEnc \<Rightarrow> suiEnc" where
  "e_u16 v = e_raw (le_word 2 v)"

definition e_u64 :: "u64 \<Rightarrow> suiEnc \<Rightarrow> suiEnc" where
  "e_u64 v = e_raw (le_word 8 v)"

definition e_uleb :: "u64 \<Rightarrow> suiEnc \<Rightarrow> suiEnc" where
  "e_uleb v = e_raw (uleb v)"

definition e_lenPrefixed :: "bytes \<Rightarrow> suiEnc \<Rightarrow> suiEnc" where
  "e_lenPrefixed b e = e_raw b (e_uleb (word_of_nat (length b)) e)"

text \<open>The address as \<open>address\<close> reads it; \<open>None\<close> where it sets the error.\<close>

definition address_bytes :: "string \<Rightarrow> bytes option" where
  "address_bytes addr =
     (let s = strings_TrimPrefix addr ''0x'';
          s = strings_TrimPrefix s ''0X'';
          s = (if length s mod 2 \<noteq> 0 then CHR ''0'' # s else s)
      in case hex_decode s of
           None \<Rightarrow> None
         | Some b \<Rightarrow> if length b > 32 then None else Some (replicate (32 - length b) 0 @ b))"

definition e_address :: "string \<Rightarrow> suiEnc \<Rightarrow> suiEnc" where
  "e_address addr e =
     (if err e then e
      else case address_bytes addr of None \<Rightarrow> e\<lparr>err := True\<rparr> | Some out \<Rightarrow> e_raw out e)"

definition argGasCoin :: "suiEnc \<Rightarrow> suiEnc" where
  "argGasCoin e = e_u8 0 e"

definition argInput :: "u16 \<Rightarrow> suiEnc \<Rightarrow> suiEnc" where
  "argInput i e = e_u16 i (e_u8 1 e)"

definition argResult :: "u16 \<Rightarrow> suiEnc \<Rightarrow> suiEnc" where
  "argResult i e = e_u16 i (e_u8 2 e)"

text \<open>Method calls in sequence.\<close>

definition steps :: "(suiEnc \<Rightarrow> suiEnc) list \<Rightarrow> suiEnc \<Rightarrow> suiEnc" where
  "steps fs e = foldl (\<lambda>e f. f e) e fs"

definition pureU64 :: "u64 \<Rightarrow> suiEnc \<Rightarrow> suiEnc" where
  "pureU64 v = steps [e_u8 0, e_uleb 8, e_u64 v]"

definition pureAddress :: "string \<Rightarrow> suiEnc \<Rightarrow> suiEnc" where
  "pureAddress addr = steps [e_u8 0, e_uleb 32, e_address addr]"

definition objectInput :: "(string \<Rightarrow> bytes) \<Rightarrow> suiObjectRef \<Rightarrow> suiEnc \<Rightarrow> suiEnc" where
  "objectInput b58 ref =
     steps [e_u8 1, e_u8 0, e_address (objectID ref), e_u64 (version ref),
            e_lenPrefixed (b58 (digest ref))]"

definition paymentRef :: "(string \<Rightarrow> bytes) \<Rightarrow> suiObjectRef \<Rightarrow> suiEnc \<Rightarrow> suiEnc" where
  "paymentRef b58 ref =
     steps [e_address (objectID ref), e_u64 (version ref), e_lenPrefixed (b58 (digest ref))]"

text \<open>The body of \<open>buildSuiTransfer\<close> for no, one and several token coins.\<close>

definition transfer_native :: "string \<Rightarrow> u64 \<Rightarrow> suiEnc \<Rightarrow> suiEnc" where
  "transfer_native recipient amount =
     steps [e_uleb 2, pureU64 amount, pureAddress recipient, e_uleb 2,
            e_u8 2, argGasCoin, e_uleb 1, argInput 0,
            e_u8 1, e_uleb 1, argResult 0, argInput 1]"

definition transfer_one ::
  "(string \<Rightarrow> bytes) \<Rightarrow> string \<Rightarrow> u64 \<Rightarrow> suiObjectRef \<Rightarrow> suiEnc \<Rightarrow> suiEnc"
where
  "transfer_one b58 recipient amount token =
     steps [e_uleb 3, objectInput b58 token, pureU64 amount, pureAddress recipient, e_uleb 2,
            e_u8 2, argInput 0, e_uleb 1, argInput 1,
            e_u8 1, e_uleb 1, argResult 0, argInput 2]"

definition transfer_many ::
  "(string \<Rightarrow> bytes) \<Rightarrow> string \<Rightarrow> u64 \<Rightarrow> suiObjectRef list \<Rightarrow> suiEnc \<Rightarrow> suiEnc"
where
  "transfer_many b58 recipient amount tokens =
     (let n = length tokens
      in steps ([e_uleb (word_of_nat (n + 2))] @ map (objectInput b58) tokens @
           [pureU64 amount, pureAddress recipient, e_uleb 3,
            e_u8 3, argInput (word_of_nat (n - 1)), e_uleb (word_of_nat (n - 1))] @
           map (\<lambda>i. argInput (word_of_nat i)) [0..<n - 1] @
           [e_u8 2, argInput (word_of_nat (n - 1)), e_uleb 1, argInput (word_of_nat n),
            e_u8 1, e_uleb 1, argResult 1, argInput (word_of_nat (n + 1))]))"

definition buildSuiTransfer ::
  "(string \<Rightarrow> bytes) \<Rightarrow> string \<Rightarrow> string \<Rightarrow> u64 \<Rightarrow> u64 \<Rightarrow> u64 \<Rightarrow>
     suiObjectRef list \<Rightarrow> suiObjectRef list \<Rightarrow> bytes option"
where
  "buildSuiTransfer b58 sender recipient amount gasPrice gasBudget payment tokens =
     (let e = steps ([e_u8 0, e_u8 0,
                case tokens of
                  [] \<Rightarrow> transfer_native recipient amount
                | [t] \<Rightarrow> transfer_one b58 recipient amount t
                | _ \<Rightarrow> transfer_many b58 recipient amount tokens,
                e_address sender, e_uleb (word_of_nat (length payment))] @
              map (paymentRef b58) payment @
              [e_address sender, e_u64 gasPrice, e_u64 gasBudget, e_u8 0])
            \<lparr>buf = [], err = False\<rparr>
      in if err e then None else Some (buf e))"

section \<open>Coins and the builder\<close>

record CoinItem =
  CoinType :: string
  CoinObjectId :: string
  Version :: string
  Digest :: string
  Balance :: string
  PreviousTransaction :: string

datatype sui_error =
    InvalidIngredient | SenderEmpty | RecipientEmpty | RecipientIsSentinel | AmountEmpty
  | CoinsError | InvalidCoinVersion | GasCoinsRequired | TokenCoinsRequired | TransferError
  | InvalidTxType | NotBuilt | DerNotSupported | HexDecodeError | BadPrivateKeyLength

fun coin_refs :: "CoinItem list \<Rightarrow> sui_error + suiObjectRef list" where
  "coin_refs [] = Inr []"
| "coin_refs (c # cs) =
     (case ParseUint 64 (Version c) of
        (_, Some _) \<Rightarrow> Inl InvalidCoinVersion
      | (v, None) \<Rightarrow> andThen (coin_refs cs) (\<lambda>refs.
          Inr (\<lparr>objectID = CoinObjectId c, version = word_of_nat v, digest = Digest c\<rparr> # refs)))"

definition parseCoinRefs ::
  "(string \<Rightarrow> CoinItem list option) \<Rightarrow> string \<Rightarrow> sui_error + suiObjectRef list"
where
  "parseCoinRefs unmarshal jsonStr =
     (if jsonStr = [] then Inr []
      else andThen (orErr CoinsError (unmarshal jsonStr)) coin_refs)"

record Ingredient =
  TxType :: string
  ContractAddress :: string
  Sender :: string
  Recipient :: string
  Amount :: string
  GasPrice :: string
  GasBudget :: string
  Coins :: string
  GasCoins :: string

record TxBuilder =
  ingredient :: Ingredient
  unsignedHex :: string
  sigHash :: "string list"
  txHash :: string

text \<open>The packages the builder calls.\<close>

record sui_env =
  b58_decode :: "string \<Rightarrow> bytes"
  b58_encode :: "bytes \<Rightarrow> string"
  blake2b :: "bytes \<Rightarrow> bytes"
  unmarshalCoins :: "string \<Rightarrow> CoinItem list option"
  validate :: "Ingredient \<Rightarrow> bool"
  ed25519_public :: "bytes \<Rightarrow> bytes"
  ed25519_sign :: "bytes \<Rightarrow> bytes \<Rightarrow> bytes"

definition MagicContactAddressForNative :: string where
  "MagicContactAddressForNative = ''0xeeeeeeeeeeeeeeeeeeeeeeeeeeeeeeeeeeeeeeee''"

definition parse_u64 :: "string \<Rightarrow> u64" where
  "parse_u64 s = word_of_nat (fst (ParseUint 64 s))"

definition transfer_bytes :: "sui_env \<Rightarrow> Ingredient \<Rightarrow> sui_error + bytes" where
  "transfer_bytes E ti =
     andThen (require (validate E ti) InvalidIngredient) (\<lambda>_.
     andThen (require (TxType ti = ''0'') InvalidTxType) (\<lambda>_.
     andThen (require (Sender ti \<noteq> []) SenderEmpty) (\<lambda>_.
     andThen (require (Recipient ti \<noteq> []) RecipientEmpty) (\<lambda>_.
     andThen (require (Recipient ti \<noteq> MagicContactAddressForNative) RecipientIsSentinel) (\<lambda>_.
     andThen (require (Amount ti \<noteq> []) AmountEmpty) (\<lambda>_.
     andThen (parseCoinRefs (unmarshalCoins E) (Coins ti)) (\<lambda>coinRefs.
       if ContractAddress ti = MagicContactAddressForNative then
         orErr TransferError (buildSuiTransfer (b58_decode E) (Sender ti) (Recipient ti)
           (parse_u64 (Amount ti)) (parse_u64 (GasPrice ti)) (parse_u64 (GasBudget ti)) coinRefs [])
       else
         andThen (parseCoinRefs (unmarshalCoins E) (GasCoins ti)) (\<lambda>gasRefs.
         andThen (require (gasRefs \<noteq> []) GasCoinsRequired) (\<lambda>_.
         andThen (require (coinRefs \<noteq> []) TokenCoinsRequired) (\<lambda>_.
         orErr TransferError (buildSuiTransfer (b58_decode E) (Sender ti) (Recipient ti)
           (parse_u64 (Amount ti)) (parse_u64 (GasPrice ti)) (parse_u64 (GasBudget ti))
           gasRefs coinRefs)))))))))))"

definition tx_digest :: "sui_env \<Rightarrow> bytes \<Rightarrow> string" where
  "tx_digest E txBytes =
     b58_encode E (blake2b E (bytes_of_string ''TransactionData::'' @ txBytes))"

definition Build :: "sui_env \<Rightarrow> TxBuilder \<Rightarrow> TxBuilder \<times> (sui_error + unit)" where
  "Build E tx =
     (let tx = tx\<lparr>sigHash := [], unsignedHex := [], txHash := []\<rparr>
      in case transfer_bytes E (ingredient tx) of
           Inl e \<Rightarrow> (tx, Inl e)
         | Inr txBytes \<Rightarrow>
             (tx\<lparr>unsignedHex := hex_encode txBytes,
                 sigHash := [hex_encode (blake2b E ([0, 0, 0] @ txBytes))],
                 txHash := tx_digest E txBytes\<rparr>, Inr ()))"

definition NewTxBuilderFromUnsignedHex ::
  "sui_env \<Rightarrow> Ingredient \<Rightarrow> string \<Rightarrow> sui_error + TxBuilder"
where
  "NewTxBuilderFromUnsignedHex E none hex =
     andThen (orErr HexDecodeError (hex_decode hex)) (\<lambda>txBytes.
       Inr \<lparr>ingredient = none, unsignedHex = hex_encode txBytes,
            sigHash = [hex_encode (blake2b E ([0, 0, 0] @ txBytes))],
            txHash = tx_digest E txBytes\<rparr>)"

definition PublicKey2Address :: "(bytes \<Rightarrow> bytes) \<Rightarrow> bytes \<Rightarrow> string" where
  "PublicKey2Address blake publicKey = ''0x'' @ take 64 (hex_encode (blake ([0] @ publicKey)))"

definition ValidAddress :: "string \<Rightarrow> bool" where
  "ValidAddress address =
     (if address = MagicContactAddressForNative then True
      else if length address > 66 then False
      else
        let address = (if length address \<ge> 2 \<and>
              (take 2 address = ''0x'' \<or> take 2 address = ''0X'') then drop 2 address else address)
        in list_all (\<lambda>c. fromHexChar c \<noteq> None) address)"

definition Sign :: "sui_env \<Rightarrow> TxBuilder \<Rightarrow> bytes \<Rightarrow> sui_error + string" where
  "Sign E tx privateKey =
     (if length (sigHash tx) \<noteq> 1 then Inl NotBuilt
      else andThen (orErr HexDecodeError (hex_decode (sigHash tx ! 0))) (\<lambda>signingMessage.
        if length privateKey \<noteq> 32 then Inl BadPrivateKeyLength
        else Inr (hex_encode (0 # ed25519_sign E privateKey signingMessage @
                              ed25519_public E privateKey))))"

section \<open>Programmable transactions\<close>

datatype argument = GasCoin | Input nat | Result nat

datatype call_arg = Pure bytes | Object bytes u64 bytes

datatype command =
    TransferObjects "argument list" argument
  | SplitCoins argument "argument list"
  | MergeCoins argument "argument list"

record transaction =
  inputs :: "call_arg list"
  commands :: "command list"
  from_address :: bytes
  gas_payment :: "(bytes \<times> u64 \<times> bytes) list"
  gas_price :: u64
  gas_budget :: u64

fun enc_argument :: "argument \<Rightarrow> bytes" where
  "enc_argument GasCoin = [0]"
| "enc_argument (Input i) = 1 # le_bytes 2 i"
| "enc_argument (Result i) = 2 # le_bytes 2 i"

fun enc_call_arg :: "call_arg \<Rightarrow> bytes" where
  "enc_call_arg (Pure b) = 0 # len_prefixed b"
| "enc_call_arg (Object i v d) = 1 # 0 # i @ le_word 8 v @ len_prefixed d"

fun enc_command :: "command \<Rightarrow> bytes" where
  "enc_command (TransferObjects as a) = 1 # counted enc_argument as @ enc_argument a"
| "enc_command (SplitCoins a as) = 2 # enc_argument a @ counted enc_argument as"
| "enc_command (MergeCoins a as) = 3 # enc_argument a @ counted enc_argument as"

fun enc_ref :: "bytes \<times> u64 \<times> bytes \<Rightarrow> bytes" where
  "enc_ref (i, v, d) = i @ le_word 8 v @ len_prefixed d"

definition enc_transaction :: "transaction \<Rightarrow> bytes" where
  "enc_transaction t =
     [0, 0] @ counted enc_call_arg (inputs t) @ counted enc_command (commands t) @
     from_address t @ counted enc_ref (gas_payment t) @ from_address t @
     le_word 8 (gas_price t) @ le_word 8 (gas_budget t) @ [0]"

subsection \<open>The encoding is a prefix code\<close>

fun wf_argument :: "argument \<Rightarrow> bool" where
  "wf_argument GasCoin = True"
| "wf_argument (Input i) = (i < 65536)"
| "wf_argument (Result i) = (i < 65536)"

fun wf_call_arg :: "call_arg \<Rightarrow> bool" where
  "wf_call_arg (Pure b) = slice b"
| "wf_call_arg (Object i v d) = (length i = 32 \<and> slice d)"

fun wf_command :: "command \<Rightarrow> bool" where
  "wf_command (TransferObjects as a) = (slice as \<and> (\<forall>a \<in> set as. wf_argument a) \<and> wf_argument a)"
| "wf_command (SplitCoins a as) = (wf_argument a \<and> slice as \<and> (\<forall>a \<in> set as. wf_argument a))"
| "wf_command (MergeCoins a as) = (wf_argument a \<and> slice as \<and> (\<forall>a \<in> set as. wf_argument a))"

fun wf_ref :: "bytes \<times> u64 \<times> bytes \<Rightarrow> bool" where
  "wf_ref (i, v, d) = (length i = 32 \<and> slice d)"

definition wf_transaction :: "transaction \<Rightarrow> bool" where
  "wf_transaction t \<longleftrightarrow> slice (inputs t) \<and> (\<forall>a \<in> set (inputs t). wf_call_arg a) \<and>
     slice (commands t) \<and> (\<forall>c \<in> set (commands t). wf_command c) \<and> length (from_address t) = 32 \<and>
     slice (gas_payment t) \<and> (\<forall>r \<in> set (gas_payment t). wf_ref r)"

lemma le_2_append:
  "i < 65536 \<Longrightarrow> j < 65536 \<Longrightarrow> le_bytes 2 i @ r = le_bytes 2 j @ s \<longleftrightarrow> i = j \<and> r = s"
  using le.enc_append [where k = 2 and x = i and y = j] by simp

lemma le_2_inject: "i < 65536 \<Longrightarrow> j < 65536 \<Longrightarrow> le_bytes 2 i = le_bytes 2 j \<longleftrightarrow> i = j"
  using le_bytes_inject [of i 2 j] by simp

interpretation argument: prefix_code enc_argument wf_argument
proof unfold_locales
  fix x y r s
  assume "wf_argument x" "wf_argument y" "enc_argument x @ r = enc_argument y @ s"
  then show "x = y \<and> r = s" by (cases x; cases y) (auto simp: le_2_append le_2_inject)
qed

interpretation call_arg: prefix_code enc_call_arg wf_call_arg
proof unfold_locales
  fix x y r s
  assume "wf_call_arg x" "wf_call_arg y" "enc_call_arg x @ r = enc_call_arg y @ s"
  then show "x = y \<and> r = s"
    by (cases x; cases y) (auto simp: len_prefixed.enc_append le_u64.enc_append)
qed

interpretation command: prefix_code enc_command wf_command
proof unfold_locales
  fix x y r s
  assume "wf_command x" "wf_command y" "enc_command x @ r = enc_command y @ s"
  then show "x = y \<and> r = s"
    by (cases x; cases y) (simp_all add: argument.enc_append argument.counted_append)
qed

interpretation ref: prefix_code enc_ref wf_ref
proof unfold_locales
  fix x y r s
  assume "wf_ref x" "wf_ref y" "enc_ref x @ r = enc_ref y @ s"
  then show "x = y \<and> r = s"
    by (cases x; cases y) (auto simp: len_prefixed.enc_append le_u64.enc_append)
qed

interpretation transaction: prefix_code enc_transaction wf_transaction
proof unfold_locales
  fix x y r s
  assume "wf_transaction x" "wf_transaction y" "enc_transaction x @ r = enc_transaction y @ s"
  then show "x = y \<and> r = s"
    unfolding wf_transaction_def enc_transaction_def
    by (cases x, cases y) (auto simp: call_arg.counted_append command.counted_append
        ref.counted_append le_u64.enc_append)
qed

section \<open>What the builder encodes\<close>

text \<open>An operation adds the bytes of \<open>r\<close>, or sets the error when \<open>r\<close> is \<open>None\<close>.\<close>

definition adds :: "(suiEnc \<Rightarrow> suiEnc) \<Rightarrow> bytes option \<Rightarrow> bool" where
  "adds f r \<longleftrightarrow> (\<forall>e. (err e \<longrightarrow> err (f e)) \<and>
     (\<not> err e \<longrightarrow> (case r of None \<Rightarrow> err (f e) | Some b \<Rightarrow> f e = e\<lparr>buf := buf e @ b\<rparr>)))"

lemma adds_raw: "adds (e_raw b) (Some b)"
  by (simp add: adds_def e_raw_def)

lemma adds_simple:
  "adds (e_u8 v) (Some [v])" "adds (e_u16 w) (Some (le_word 2 w))" "adds (e_u64 x) (Some (le_word 8 x))"
  "adds (e_uleb x) (Some (uleb x))"
  by (simp_all add: e_u8_def e_u16_def e_u64_def e_uleb_def adds_raw)

lemma adds_address: "adds (e_address a) (address_bytes a)"
  by (auto simp: adds_def e_address_def e_raw_def split: option.split)

lemma adds_lenPrefixed: "adds (e_lenPrefixed b) (Some (len_prefixed b))"
  by (simp add: adds_def e_lenPrefixed_def e_uleb_def e_raw_def len_prefixed_def)

lemma adds_arguments:
  "adds argGasCoin (Some (enc_argument GasCoin))"
  "adds (argInput (word_of_nat i)) (Some (enc_argument (Input i)))"
  "adds (argResult (word_of_nat i)) (Some (enc_argument (Result i)))"
proof -
  have "le_word 2 (word_of_nat i :: u16) = le_bytes 2 i"
    using le_bytes_mod [of 2 i] by (simp add: le_word_def unat_of_nat)
  then show "adds argGasCoin (Some (enc_argument GasCoin))"
    "adds (argInput (word_of_nat i)) (Some (enc_argument (Input i)))"
    "adds (argResult (word_of_nat i)) (Some (enc_argument (Result i)))"
    by (simp_all add: adds_def argGasCoin_def argInput_def argResult_def e_u8_def e_u16_def e_raw_def)
qed

definition joined :: "bytes option list \<Rightarrow> bytes option" where
  "joined rs = map_option concat (those rs)"

lemma joined_simps [simp]:
  "joined [] = Some []"
  "joined (None # rs) = None"
  "joined (Some b # rs) = map_option ((@) b) (joined rs)"
  by (auto simp: joined_def option.map_comp comp_def)

lemma joined_append: "joined (xs @ ys) =
  (case joined xs of None \<Rightarrow> None | Some b \<Rightarrow> map_option ((@) b) (joined ys))"
proof (induction xs)
  case Nil
  then show ?case by (cases "joined ys") simp_all
next
  case (Cons x xs)
  then show ?case by (cases x; cases "joined xs"; cases "joined ys") auto
qed

lemma adds_steps: "list_all2 adds fs rs \<Longrightarrow> adds (steps fs) (joined rs)"
proof (induction fs rs rule: list_all2_induct)
  case Nil
  then show ?case by (simp add: adds_def steps_def)
next
  case (Cons f fs r rs)
  then show ?case
    by (cases r; cases "joined rs") (auto simp: adds_def steps_def)
qed

lemma joined_Some [simp]: "joined (map (\<lambda>x. Some (f x)) xs) = Some (concat (map f xs))"
  by (induction xs) simp_all

lemma joined_map_Some [simp]: "joined (map Some xs) = Some (concat xs)"
  by (induction xs) simp_all

lemma address_bytes_length: "address_bytes a = Some b \<Longrightarrow> length b = 32"
  by (auto simp: address_bytes_def Let_def split: option.splits if_splits)

definition resolve :: "(string \<Rightarrow> bytes) \<Rightarrow> suiObjectRef \<Rightarrow> (bytes \<times> u64 \<times> bytes) option" where
  "resolve b58 ref =
     map_option (\<lambda>i. (i, version ref, b58 (digest ref))) (address_bytes (objectID ref))"

definition object_arg :: "bytes \<times> u64 \<times> bytes \<Rightarrow> call_arg" where
  "object_arg r = (case r of (i, v, d) \<Rightarrow> Object i v d)"

definition transfer_commands :: "nat \<Rightarrow> command list" where
  "transfer_commands n =
     (if n = 0 then [SplitCoins GasCoin [Input 0], TransferObjects [Result 0] (Input 1)]
      else if n = 1 then [SplitCoins (Input 0) [Input 1], TransferObjects [Result 0] (Input 2)]
      else [MergeCoins (Input (n - 1)) (map Input [0..<n - 1]), SplitCoins (Input (n - 1)) [Input n],
            TransferObjects [Result 1] (Input (n + 1))])"

definition transfer_transaction ::
  "bytes \<Rightarrow> bytes \<Rightarrow> u64 \<Rightarrow> u64 \<Rightarrow> u64 \<Rightarrow> (bytes \<times> u64 \<times> bytes) list \<Rightarrow>
     (bytes \<times> u64 \<times> bytes) list \<Rightarrow> transaction"
where
  "transfer_transaction sender recipient amount gasPrice gasBudget payment tokens =
     \<lparr>inputs = map object_arg tokens @ [Pure (le_word 8 amount), Pure recipient],
      commands = transfer_commands (length tokens), from_address = sender, gas_payment = payment,
      gas_price = gasPrice, gas_budget = gasBudget\<rparr>"

lemma uleb_consts: "uleb 0 = [0]" "uleb 1 = [1]" "uleb 2 = [2]" "uleb 3 = [3]" "uleb 8 = [8]" "uleb 32 = [32]"
  by (simp_all add: uleb_small)

lemma len_prefixed_8: "length b = 8 \<Longrightarrow> len_prefixed b = 8 # b"
  by (simp add: len_prefixed_def uleb_consts)

lemma len_prefixed_32: "length b = 32 \<Longrightarrow> len_prefixed b = 32 # b"
  by (simp add: len_prefixed_def uleb_consts)

lemma adds_pureU64: "adds (pureU64 v) (Some (enc_call_arg (Pure (le_word 8 v))))"
proof -
  have "adds (pureU64 v) (joined [Some [0], Some (uleb 8), Some (le_word 8 v)])"
    unfolding pureU64_def by (intro adds_steps) (simp add: adds_simple)
  then show ?thesis by (simp add: len_prefixed_8 uleb_consts)
qed

lemma adds_pureAddress:
  "adds (pureAddress a) (map_option (\<lambda>b. enc_call_arg (Pure b)) (address_bytes a))"
proof -
  have "adds (pureAddress a) (joined [Some [0], Some (uleb 32), address_bytes a])"
    unfolding pureAddress_def by (intro adds_steps) (simp add: adds_simple adds_address)
  then show ?thesis using address_bytes_length [of a]
    by (cases "address_bytes a") (auto simp: len_prefixed_32 uleb_consts)
qed

lemma adds_objectInput:
  "adds (objectInput b58 ref) (map_option (\<lambda>r. enc_call_arg (object_arg r)) (resolve b58 ref))"
proof -
  have "adds (objectInput b58 ref) (joined [Some [1], Some [0], address_bytes (objectID ref),
      Some (le_word 8 (version ref)), Some (len_prefixed (b58 (digest ref)))])"
    unfolding objectInput_def
    by (intro adds_steps) (simp add: adds_simple adds_address adds_lenPrefixed)
  then show ?thesis
    by (cases "address_bytes (objectID ref)") (auto simp: resolve_def object_arg_def)
qed

lemma adds_paymentRef: "adds (paymentRef b58 ref) (map_option enc_ref (resolve b58 ref))"
proof -
  have "adds (paymentRef b58 ref) (joined [address_bytes (objectID ref),
      Some (le_word 8 (version ref)), Some (len_prefixed (b58 (digest ref)))])"
    unfolding paymentRef_def
    by (intro adds_steps) (simp add: adds_simple adds_address adds_lenPrefixed)
  then show ?thesis by (cases "address_bytes (objectID ref)") (auto simp: resolve_def)
qed

text \<open>The bytes of the body in the three cases.\<close>

definition body_parts ::
  "(string \<Rightarrow> bytes) \<Rightarrow> string \<Rightarrow> u64 \<Rightarrow> suiObjectRef list \<Rightarrow> bytes option list"
where
  "body_parts b58 recipient amount tokens =
     Some (uleb (word_of_nat (length tokens + 2))) #
     map (\<lambda>t. map_option (\<lambda>r. enc_call_arg (object_arg r)) (resolve b58 t)) tokens @
     [Some (enc_call_arg (Pure (le_word 8 amount))),
      map_option (\<lambda>b. enc_call_arg (Pure b)) (address_bytes recipient),
      Some (counted enc_command (transfer_commands (length tokens)))]"

lemma adds_eq: "adds f r \<Longrightarrow> r = r' \<Longrightarrow> adds f r'"
  by simp

lemmas adds_rules =
  adds_simple adds_arguments adds_pureU64 adds_pureAddress adds_objectInput adds_paymentRef

lemmas adds_indices =
  adds_arguments(2) [of 0, unfolded semiring_1_class.of_nat_0] adds_arguments(2) [of 1, unfolded of_nat_1]
  adds_arguments(2) [of 2, unfolded of_nat_numeral] adds_arguments(3) [of 0, unfolded semiring_1_class.of_nat_0]
  adds_arguments(3) [of 1, unfolded of_nat_1]

lemma adds_native: "adds (transfer_native recipient amount) (joined (body_parts b58 recipient amount []))"
proof -
  have "adds (transfer_native recipient amount) (joined
     [Some (uleb 2), Some (enc_call_arg (Pure (le_word 8 amount))),
      map_option (\<lambda>b. enc_call_arg (Pure b)) (address_bytes recipient), Some (uleb 2),
      Some [2], Some (enc_argument GasCoin), Some (uleb 1), Some (enc_argument (Input 0)),
      Some [1], Some (uleb 1), Some (enc_argument (Result 0)), Some (enc_argument (Input 1))])"
    unfolding transfer_native_def
    by (intro adds_steps) (simp only: list_all2_Cons list_all2_Nil simp_thms adds_rules adds_indices)
  then show ?thesis
    by (rule adds_eq) (cases "address_bytes recipient";
      simp add: body_parts_def transfer_commands_def counted_def)
qed

lemma adds_one:
  "adds (transfer_one b58 recipient amount t) (joined (body_parts b58 recipient amount [t]))"
proof -
  have "adds (transfer_one b58 recipient amount t) (joined
     [Some (uleb 3), map_option (\<lambda>r. enc_call_arg (object_arg r)) (resolve b58 t),
      Some (enc_call_arg (Pure (le_word 8 amount))),
      map_option (\<lambda>b. enc_call_arg (Pure b)) (address_bytes recipient), Some (uleb 2),
      Some [2], Some (enc_argument (Input 0)), Some (uleb 1), Some (enc_argument (Input 1)),
      Some [1], Some (uleb 1), Some (enc_argument (Result 0)), Some (enc_argument (Input 2))])"
    unfolding transfer_one_def
    by (intro adds_steps) (simp only: list_all2_Cons list_all2_Nil simp_thms adds_rules adds_indices)
  then show ?thesis
    by (rule adds_eq) (cases "address_bytes recipient"; cases "resolve b58 t";
      simp add: body_parts_def transfer_commands_def counted_def)
qed

lemma list_all2_map: "(\<And>x. adds (f x) (g x)) \<Longrightarrow> list_all2 adds (map f xs) (map g xs)"
  by (induction xs) simp_all

lemma joined_None: "None \<in> set rs \<longleftrightarrow> joined rs = None"
  by (induction rs) (simp_all, case_tac a, simp_all)

lemma adds_many:
  assumes "2 \<le> length tokens"
  shows "adds (transfer_many b58 recipient amount tokens) (joined (body_parts b58 recipient amount tokens))"
proof -
  let ?n = "length tokens"
  let ?tok = "map (\<lambda>t. map_option (\<lambda>r. enc_call_arg (object_arg r)) (resolve b58 t)) tokens"
  have "adds (transfer_many b58 recipient amount tokens) (joined
    ([Some (uleb (word_of_nat (?n + 2)))] @ ?tok @
     [Some (enc_call_arg (Pure (le_word 8 amount))),
      map_option (\<lambda>b. enc_call_arg (Pure b)) (address_bytes recipient), Some (uleb 3),
      Some [3], Some (enc_argument (Input (?n - 1))), Some (uleb (word_of_nat (?n - 1)))] @
     map (\<lambda>i. Some (enc_argument (Input i))) [0..<?n - 1] @
     [Some [2], Some (enc_argument (Input (?n - 1))), Some (uleb 1), Some (enc_argument (Input ?n)),
      Some [1], Some (uleb 1), Some (enc_argument (Result 1)), Some (enc_argument (Input (?n + 1)))]))"
    unfolding transfer_many_def Let_def
    by (intro adds_steps list_all2_appendI list_all2_map adds_rules)
      (simp_all only: list_all2_Cons list_all2_Nil simp_thms adds_rules adds_indices)
  then show ?thesis
  proof (rule adds_eq, goal_cases)
    case 1
    have "tokens \<noteq> []" using assms by auto
    then show ?case
      using assms
      by (cases "address_bytes recipient"; cases "joined ?tok")
        (simp_all add: body_parts_def transfer_commands_def counted_def joined_append comp_def)
  qed
qed

lemma adds_run:
  "adds (steps fs) r \<Longrightarrow>
    (let e = steps fs \<lparr>buf = [], err = False\<rparr> in if err e then None else Some (buf e)) = r"
proof -
  let ?e = "\<lparr>buf = [], err = False\<rparr>"
  assume "adds (steps fs) r"
  then have "case r of None \<Rightarrow> err (steps fs ?e) | Some b \<Rightarrow> steps fs ?e = ?e\<lparr>buf := buf ?e @ b\<rparr>"
    by (simp add: adds_def)
  then show ?thesis by (cases r) (simp_all add: Let_def)
qed

lemma build_parts:
  "buildSuiTransfer b58 sender recipient amount gasPrice gasBudget payment tokens =
    joined ([Some [0], Some [0], joined (body_parts b58 recipient amount tokens), address_bytes sender,
      Some (uleb (word_of_nat (length payment)))] @ map (\<lambda>p. map_option enc_ref (resolve b58 p)) payment @
      [address_bytes sender, Some (le_word 8 gasPrice), Some (le_word 8 gasBudget), Some [0]])"
    (is "_ = joined ?rs")
proof -
  let ?body = "case tokens of [] \<Rightarrow> transfer_native recipient amount
                | [t] \<Rightarrow> transfer_one b58 recipient amount t
                | _ \<Rightarrow> transfer_many b58 recipient amount tokens"
  have body: "adds ?body (joined (body_parts b58 recipient amount tokens))"
  proof (cases tokens)
    case Nil
    then show ?thesis using adds_native by simp
  next
    case (Cons t ts)
    show ?thesis
    proof (cases ts)
      case Nil
      then show ?thesis using Cons adds_one by simp
    next
      case (Cons u us)
      then have "2 \<le> length tokens" using \<open>tokens = t # ts\<close> by simp
      from adds_many [OF this] show ?thesis using \<open>tokens = t # ts\<close> Cons by simp
    qed
  qed
  have "adds (steps ([e_u8 0, e_u8 0, ?body, e_address sender, e_uleb (word_of_nat (length payment))] @
      map (paymentRef b58) payment @ [e_address sender, e_u64 gasPrice, e_u64 gasBudget, e_u8 0]))
      (joined ?rs)"
    using body
    by (intro adds_steps list_all2_appendI list_all2_map adds_rules)
      (simp_all only: list_all2_Cons list_all2_Nil simp_thms adds_rules adds_address)
  from adds_run [OF this] show ?thesis unfolding buildSuiTransfer_def .
qed

lemma joined_map_option:
  "joined (map (\<lambda>x. map_option f (g x)) xs) = Some b \<Longrightarrow>
    \<exists>ys. map g xs = map Some ys \<and> b = concat (map f ys)"
proof (induction xs arbitrary: b)
  case (Cons x xs)
  then obtain y c where y: "g x = Some y" "joined (map (\<lambda>x. map_option f (g x)) xs) = Some c" "b = f y @ c"
    by (cases "g x") auto
  from Cons.IH [OF y(2)] obtain ys where "map g xs = map Some ys" "c = concat (map f ys)" by blast
  with y show ?case by (intro exI [of _ "y # ys"]) simp
qed simp

text \<open>A transfer that builds is the encoding of the transaction above.\<close>

lemma built_transaction:
  assumes "buildSuiTransfer b58 sender recipient amount gasPrice gasBudget payment tokens = Some bs"
  obtains s r ps ts where "address_bytes sender = Some s" and "address_bytes recipient = Some r"
    and "map (resolve b58) payment = map Some ps" and "map (resolve b58) tokens = map Some ts"
    and "bs = enc_transaction (transfer_transaction s r amount gasPrice gasBudget ps ts)"
proof -
  note b = assms [unfolded build_parts]
  then obtain s r where s: "address_bytes sender = Some s" and r: "address_bytes recipient = Some r"
    by (cases "address_bytes sender"; cases "address_bytes recipient"; cases
      "joined (map (\<lambda>t. map_option (\<lambda>r. enc_call_arg (object_arg r)) (resolve b58 t)) tokens)")
      (auto simp: body_parts_def joined_append)
  obtain tb where tb:
    "joined (map (\<lambda>t. map_option (\<lambda>r. enc_call_arg (object_arg r)) (resolve b58 t)) tokens) = Some tb"
    using b by (cases "joined (map (\<lambda>t. map_option (\<lambda>r. enc_call_arg (object_arg r)) (resolve b58 t)) tokens)")
      (auto simp: body_parts_def joined_append)
  obtain pb where pb: "joined (map (\<lambda>p. map_option enc_ref (resolve b58 p)) payment) = Some pb"
    using b s by (cases "joined (map (\<lambda>p. map_option enc_ref (resolve b58 p)) payment)";
      cases "joined (body_parts b58 recipient amount tokens)") (auto simp: joined_append)
  obtain ts where ts: "map (resolve b58) tokens = map Some ts"
    "tb = concat (map (\<lambda>r. enc_call_arg (object_arg r)) ts)" using joined_map_option [OF tb] by blast
  obtain ps where ps: "map (resolve b58) payment = map Some ps" "pb = concat (map enc_ref ps)"
    using joined_map_option [OF pb] by blast
  have "length tokens = length ts" "length payment = length ps"
    using ts(1) ps(1) by (auto dest: map_eq_imp_length_eq)
  then have "bs = enc_transaction (transfer_transaction s r amount gasPrice gasBudget ps ts)"
    using b s r tb pb ts(2) ps(2)
    by (simp add: body_parts_def joined_append enc_transaction_def transfer_transaction_def
        counted_def comp_def)
  with s r ps ts that show thesis by blast
qed

section \<open>What a transaction does\<close>

text \<open>
  The effect of the three commands on coins: every object input is a coin with a balance, the gas
  coin has one, and a command leaves the coins it makes as its result. A coin that is merged or
  sent is used up.
\<close>

record pstate =
  object_coins :: "nat \<Rightarrow> nat option"
  gas_coin :: nat
  results :: "nat list list"
  sent :: "(bytes \<times> nat) list"

fun pure_amount :: "call_arg list \<Rightarrow> argument \<Rightarrow> nat option" where
  "pure_amount ins (Input i) =
     (if i < length ins then
        (case ins ! i of Pure b \<Rightarrow> if length b = 8 then Some (le_val b) else None | _ \<Rightarrow> None)
      else None)"
| "pure_amount ins _ = None"

fun pure_address :: "call_arg list \<Rightarrow> argument \<Rightarrow> bytes option" where
  "pure_address ins (Input i) =
     (if i < length ins then
        (case ins ! i of Pure b \<Rightarrow> if length b = 32 then Some b else None | _ \<Rightarrow> None)
      else None)"
| "pure_address ins _ = None"

fun balance :: "pstate \<Rightarrow> argument \<Rightarrow> nat option" where
  "balance st GasCoin = Some (gas_coin st)"
| "balance st (Input i) = object_coins st i"
| "balance st (Result k) =
     (if k < length (results st) then (case results st ! k of [b] \<Rightarrow> Some b | _ \<Rightarrow> None) else None)"

fun set_balance :: "pstate \<Rightarrow> argument \<Rightarrow> nat \<Rightarrow> pstate" where
  "set_balance st GasCoin b = st\<lparr>gas_coin := b\<rparr>"
| "set_balance st (Input i) b = st\<lparr>object_coins := (object_coins st)(i \<mapsto> b)\<rparr>"
| "set_balance st (Result k) b = st\<lparr>results := (results st)[k := [b]]\<rparr>"

fun use_up :: "pstate \<Rightarrow> argument \<Rightarrow> pstate" where
  "use_up st GasCoin = st\<lparr>gas_coin := 0\<rparr>"
| "use_up st (Input i) = st\<lparr>object_coins := (object_coins st)(i := None)\<rparr>"
| "use_up st (Result k) = st\<lparr>results := (results st)[k := []]\<rparr>"

fun take_coins :: "pstate \<Rightarrow> argument list \<Rightarrow> (nat list \<times> pstate) option" where
  "take_coins st [] = Some ([], st)"
| "take_coins st (a # as) =
     (case balance st a of
        None \<Rightarrow> None
      | Some b \<Rightarrow> map_option (\<lambda>(bs, st). (b # bs, st)) (take_coins (use_up st a) as))"

fun exec_command :: "call_arg list \<Rightarrow> pstate \<Rightarrow> command \<Rightarrow> pstate option" where
  "exec_command ins st (SplitCoins c as) =
     (case (balance st c, those (map (pure_amount ins) as)) of
        (Some b, Some amounts) \<Rightarrow>
          if sum_list amounts \<le> b
          then let st = set_balance st c (b - sum_list amounts)
               in Some (st\<lparr>results := results st @ [amounts]\<rparr>)
          else None
      | _ \<Rightarrow> None)"
| "exec_command ins st (MergeCoins c as) =
     (case take_coins st as of
        None \<Rightarrow> None
      | Some (bs, st) \<Rightarrow>
          (case balance st c of
             None \<Rightarrow> None
           | Some b \<Rightarrow>
               let st = set_balance st c (b + sum_list bs)
               in Some (st\<lparr>results := results st @ [[]]\<rparr>)))"
| "exec_command ins st (TransferObjects as r) =
     (case (take_coins st as, pure_address ins r) of
        (Some (bs, st), Some addr) \<Rightarrow>
          Some (st\<lparr>results := results st @ [[]], sent := sent st @ map (Pair addr) bs\<rparr>)
      | _ \<Rightarrow> None)"

fun exec_commands :: "call_arg list \<Rightarrow> pstate \<Rightarrow> command list \<Rightarrow> pstate option" where
  "exec_commands ins st [] = Some st"
| "exec_commands ins st (c # cs) =
     (case exec_command ins st c of None \<Rightarrow> None | Some st \<Rightarrow> exec_commands ins st cs)"

definition execute :: "nat list \<Rightarrow> nat \<Rightarrow> transaction \<Rightarrow> pstate option" where
  "execute bals gas t =
     exec_commands (inputs t)
       \<lparr>object_coins = (\<lambda>i. if i < length bals then Some (bals ! i) else None), gas_coin = gas,
        results = [], sent = []\<rparr>
       (commands t)"

text \<open>What the state is when \<open>amount\<close> was paid to \<open>r\<close> out of these coins.\<close>

definition paid :: "nat list \<Rightarrow> nat \<Rightarrow> bytes \<Rightarrow> nat \<Rightarrow> pstate \<Rightarrow> bool" where
  "paid bals gas r amount st \<longleftrightarrow> sent st = [(r, amount)] \<and>
     (if bals = [] then gas_coin st = gas - amount
      else gas_coin st = gas \<and> object_coins st = [length bals - 1 \<mapsto> sum_list bals - amount])"

definition available :: "nat list \<Rightarrow> nat \<Rightarrow> nat" where
  "available bals gas = (if bals = [] then gas else sum_list bals)"

lemma take_inputs:
  "distinct is \<Longrightarrow> \<forall>i \<in> set is. object_coins st i = Some (f i) \<Longrightarrow>
    take_coins st (map Input is) =
      Some (map f is, st\<lparr>object_coins := (\<lambda>i. if i \<in> set is then None else object_coins st i)\<rparr>)"
proof (induction "is" arbitrary: st)
  case (Cons i "is")
  let ?st = "st\<lparr>object_coins := (object_coins st)(i := None)\<rparr>"
  have "\<forall>j \<in> set is. object_coins ?st j = Some (f j)" using Cons.prems by auto
  from Cons.IH [OF _ this] Cons.prems show ?case
    by (cases st) (auto simp: fun_eq_iff)
qed simp

lemma amount_input:
  "length ts = n \<Longrightarrow> pure_amount (map object_arg ts @ [Pure (le_word 8 amount), Pure r]) (Input n) =
    Some (unat (amount :: u64))"
proof -
  have "unat amount < 256 ^ 8" using unsigned_less [of amount, where 'a = nat] by simp
  then show "length ts = n \<Longrightarrow> ?thesis" by (simp add: nth_append le_word_def le_val_le_bytes)
qed

lemma address_input:
  "length ts = n \<Longrightarrow> length r = 32 \<Longrightarrow>
    pure_address (map object_arg ts @ [Pure (le_word 8 amount), Pure r]) (Input (n + 1)) = Some r"
  by (simp add: nth_append)

lemma sum_list_butlast: "(bals :: nat list) \<noteq> [] \<Longrightarrow>
    bals ! (length bals - 1) + sum_list (map ((!) bals) [0..<length bals - 1]) = sum_list bals"
proof (induction bals rule: rev_induct)
  case (snoc b bals)
  have "map ((!) (bals @ [b])) [0..<length bals] = bals"
    by (intro nth_equalityI) (simp_all add: nth_append)
  then have "sum_list (map ((!) (bals @ [b])) [0..<length bals]) = sum_list bals" by simp
  then show ?case by (simp only: length_append list.size nth_append_length) simp
qed simp

lemma execute_transfer:
  fixes amount :: u64
  assumes "length r = 32" and "length bals = length ts"
  shows "if unat amount \<le> available bals gas
    then \<exists>st. execute bals gas (transfer_transaction s r amount gp gb ps ts) = Some st \<and>
      paid bals gas r (unat amount) st
    else execute bals gas (transfer_transaction s r amount gp gb ps ts) = None"
proof -
  let ?n = "length ts" and ?a = "unat amount"
  let ?ins = "map object_arg ts @ [Pure (le_word 8 amount), Pure r]"
  have amt: "pure_amount ?ins (Input ?n) = Some ?a" by (rule amount_input) simp
  have adr: "pure_address ?ins (Input (?n + 1)) = Some r" using assms(1) by (intro address_input) simp_all
  consider "?n = 0" | "?n = 1" | "2 \<le> ?n" by linarith
  then show ?thesis
  proof cases
    case 1
    then show ?thesis using amt adr assms(2)
      by (auto simp: execute_def transfer_transaction_def transfer_commands_def available_def paid_def
          simp del: pure_amount.simps pure_address.simps)
  next
    case 2
    then obtain b where b: "bals = [b]" using assms(2) by (cases bals) auto
    have "(\<lambda>i. if i < length bals then Some (bals ! i) else None)(0 \<mapsto> b - ?a) = [0 \<mapsto> b - ?a]"
      by (auto simp: b fun_eq_iff)
    then show ?thesis using 2 amt adr b
      by (auto simp: execute_def transfer_transaction_def transfer_commands_def available_def paid_def
          numeral_2_eq_2 simp del: pure_amount.simps pure_address.simps)
  next
    case 3
    let ?st = "\<lparr>object_coins = (\<lambda>i. if i < length bals then Some (bals ! i) else None), gas_coin = gas,
      results = [], sent = []\<rparr>"
    let ?merged = "\<lparr>object_coins = [?n - 1 \<mapsto> sum_list bals], gas_coin = gas, results = [[]], sent = []\<rparr>"
    have ne: "bals \<noteq> []" using 3 assms(2) by auto
    have "take_coins ?st (map Input [0..<?n - 1]) = Some (map ((!) bals) [0..<?n - 1],
        ?st\<lparr>object_coins := (\<lambda>i. if i \<in> set [0..<?n - 1] then None else object_coins ?st i)\<rparr>)"
      using assms(2) by (intro take_inputs) auto
    then have "exec_command ?ins ?st (MergeCoins (Input (?n - 1)) (map Input [0..<?n - 1])) = Some ?merged"
      using 3 assms(2) sum_list_butlast [OF ne] by (auto simp: fun_eq_iff)
    then show ?thesis using 3 amt adr ne assms(2)
      by (auto simp: execute_def transfer_transaction_def transfer_commands_def available_def paid_def
          fun_eq_iff simp del: pure_amount.simps pure_address.simps)
  qed
qed

section \<open>Properties\<close>

lemma transfer_transaction_wf:
  assumes "length s = 32" and "length r = 32" and "length ts + 1 < 65536" and "slice ps"
    and "\<forall>x \<in> set ts \<union> set ps. wf_ref x"
  shows "wf_transaction (transfer_transaction s r amount gp gb ps ts)"
proof -
  have "wf_call_arg (object_arg x)" if "x \<in> set ts" for x
    using bspec [OF assms(5), of x] that by (cases x) (simp add: object_arg_def)
  then show ?thesis using assms
    by (auto simp: wf_transaction_def transfer_transaction_def transfer_commands_def slice_def)
qed

text \<open>
  C7: a transfer that builds pays exactly the amount. Its bytes are those of one transaction
  only; run on token coins with any balances (on the gas coin, when there are none) that
  transaction sends the amount to the recipient and nothing else and leaves the rest in the
  sender's last coin, and fails when the balances do not cover the amount.
\<close>
theorem transfer_pays_amount:
  fixes amount :: u64
  assumes "buildSuiTransfer b58 sender recipient amount gp gb payment tokens = Some bs"
    and "length bals = length tokens" and "length tokens + 1 < 65536" and "slice payment"
    and "\<forall>ref \<in> set tokens \<union> set payment. slice (b58 (digest ref))"
  shows "\<exists>t r. address_bytes recipient = Some r \<and> address_bytes sender = Some (from_address t) \<and>
    wf_transaction t \<and> bs = enc_transaction t \<and>
    (\<forall>u. wf_transaction u \<and> bs = enc_transaction u \<longrightarrow> u = t) \<and>
    (if unat amount \<le> available bals gas
     then \<exists>st. execute bals gas t = Some st \<and> paid bals gas r (unat amount) st
     else execute bals gas t = None)"
proof -
  obtain s r ps ts where s: "address_bytes sender = Some s" and r: "address_bytes recipient = Some r"
    and ps: "map (resolve b58) payment = map Some ps" and ts: "map (resolve b58) tokens = map Some ts"
    and bs: "bs = enc_transaction (transfer_transaction s r amount gp gb ps ts)"
    using assms(1) by (rule built_transaction)
  have len: "length ts = length tokens" "length ps = length payment"
    using ts ps by (auto dest: map_eq_imp_length_eq)
  have "wf_ref x" if x: "Some x \<in> resolve b58 ` (set tokens \<union> set payment)" for x
  proof -
    obtain ref where "ref \<in> set tokens \<union> set payment" "resolve b58 ref = Some x" using x by (metis imageE)
    then show ?thesis using assms(5)
      by (cases x) (auto simp: resolve_def dest: address_bytes_length)
  qed
  moreover have "Some ` set ts = resolve b58 ` set tokens" "Some ` set ps = resolve b58 ` set payment"
    using ts ps by (metis set_map)+
  ultimately have "\<forall>x \<in> set ts \<union> set ps. wf_ref x" by blast
  then have wf: "wf_transaction (transfer_transaction s r amount gp gb ps ts)"
    using s r assms(3,4) len
    by (intro transfer_transaction_wf) (auto simp: slice_def dest: address_bytes_length)
  have "length r = 32" using r by (rule address_bytes_length)
  from execute_transfer [OF this, of bals ts amount gas s gp gb ps] show ?thesis
    using s r wf bs assms(2) len(1) transaction.enc_inject [OF wf]
    by (intro exI [of _ "transfer_transaction s r amount gp gb ps ts"] exI [of _ r])
      (auto simp: transfer_transaction_def)
qed

definition sample_ref :: "string \<Rightarrow> suiObjectRef" where
  "sample_ref i = \<lparr>objectID = i, version = 7, digest = ''d''\<rparr>"

lemma sample_address_bytes:
  "address_bytes ''0x1'' = Some (replicate 31 0 @ [1])" "address_bytes ''0x2'' = Some (replicate 31 0 @ [2])"
  "address_bytes ''0x'' = Some (replicate 32 0)"
  by (simp_all add: address_bytes_def strings_TrimPrefix_def strings_HasPrefix_def fromHexChar_def
      char_nat_def)

theorem transfer_pays_amount_witness:
  "\<exists>bs t. buildSuiTransfer bytes_of_string ''0x1'' ''0x2'' 5 1 9 [] [sample_ref ''0x1'', sample_ref ''0x2''] =
       Some bs \<and> bs = enc_transaction t \<and>
     (\<exists>st. execute [3, 4] 0 t = Some st \<and> paid [3, 4] 0 (replicate 31 0 @ [2]) 5 st) \<and>
     execute [3, 1] 0 t = None"
proof -
  let ?ts = "[sample_ref ''0x1'', sample_ref ''0x2'']"
  obtain bs where b: "buildSuiTransfer bytes_of_string ''0x1'' ''0x2'' 5 1 9 [] ?ts = Some bs"
    by (simp add: build_parts body_parts_def resolve_def sample_ref_def sample_address_bytes)
  have side: "length bals = length ?ts \<Longrightarrow> \<forall>ref \<in> set ?ts \<union> set []. slice (bytes_of_string (digest ref))"
    for bals :: "nat list" by (simp add: sample_ref_def slice_def)
  obtain t where t: "wf_transaction t" "bs = enc_transaction t"
    "\<exists>st. execute [3, 4] 0 t = Some st \<and> paid [3, 4] 0 (replicate 31 0 @ [2]) 5 st"
    using transfer_pays_amount [OF b, of "[3, 4]" 0] side [of "[3, 4]"]
    by (auto simp: sample_address_bytes slice_def available_def)
  moreover have "execute [3, 1] 0 t = None"
    using transfer_pays_amount [OF b, of "[3, 1]" 0] side [of "[3, 1]"] t(1,2)
    by (auto simp: sample_address_bytes slice_def available_def)
  ultimately show ?thesis using b by blast
qed

text \<open>
  a builder restored from the hex of a built transaction signs the same digest and has the
  same transaction hash.
\<close>
theorem restored_builder_agrees:
  assumes "Build E tx = (tx', Inr ())"
  shows "NewTxBuilderFromUnsignedHex E (ingredient tx) (unsignedHex tx') = Inr tx'"
  using assms
  by (cases tx) (auto simp: Build_def NewTxBuilderFromUnsignedHex_def Let_def split: sum.splits)

definition sample_env :: sui_env where
  "sample_env = \<lparr>b58_decode = bytes_of_string, b58_encode = hex_encode, blake2b = take 32,
     unmarshalCoins = (\<lambda>_. Some []), validate = (\<lambda>_. True), ed25519_public = take 32,
     ed25519_sign = (\<lambda>k m. take 64 m)\<rparr>"

definition sample_builder :: "string \<Rightarrow> TxBuilder" where
  "sample_builder recipient = \<lparr>ingredient = \<lparr>TxType = ''0'', ContractAddress = MagicContactAddressForNative,
     Sender = ''0x1'', Recipient = recipient, Amount = ''5'', GasPrice = ''1'', GasBudget = ''9'',
     Coins = ''[]'', GasCoins = []\<rparr>, unsignedHex = [], sigHash = [], txHash = []\<rparr>"

lemma sample_transfer_builds:
  "\<exists>tx'. Build sample_env (sample_builder ''0x'') = (tx', Inr ())"
  by (simp add: Build_def transfer_bytes_def sample_builder_def sample_env_def parseCoinRefs_def
      MagicContactAddressForNative_def build_parts body_parts_def sample_address_bytes)

theorem restored_builder_agrees_witness:
  "\<exists>tx'. Build sample_env (sample_builder ''0x'') = (tx', Inr ()) \<and>
     NewTxBuilderFromUnsignedHex sample_env (ingredient (sample_builder ''0x'')) (unsignedHex tx') = Inr tx'"
  using sample_transfer_builds restored_builder_agrees by blast

text \<open>
  the prefix alone passes as an address. \<open>ValidAddress\<close> accepts \<open>0x\<close>, and a transfer to
  it builds as a transfer to the zero address.
\<close>
theorem bare_prefix_is_zero_address:
  "ValidAddress ''0x'' \<and> address_bytes ''0x'' = Some (replicate 32 0) \<and>
    (\<exists>tx'. Build sample_env (sample_builder ''0x'') = (tx', Inr ()))"
  using sample_transfer_builds sample_address_bytes(3)
  by (simp add: ValidAddress_def MagicContactAddressForNative_def)

end
