(* ===== verification/UtxoList.thy ===== *)
theory UtxoList
  imports GoLib
begin

text \<open>
  \<open>signing/utxolist.go\<close>: the list of unspent outputs a transfer spends. A list is a pointer to a
  slice of pointers, each of which may be nil (\<open>None\<close>). \<open>sort.Slice\<close> promises a permutation that
  is sorted by the comparison and nothing about equal elements, so the sort is a parameter: the
  locale \<open>value_sort\<close> states that contract, the stable sort of the library satisfies it, and the
  greedy selection is analysed inside it. The JSON reader is a parameter.
\<close>

section \<open>Data\<close>

record UtxoInfo =
  Hash :: string
  Script :: string
  Index :: string
  Value :: string
  Version :: string
  IsCoinbase :: string
  BlockDAAScore :: string

record UtxoList =
  List :: "UtxoInfo option list option"

datatype utxo_list_error = ListIsNil | UnmarshalFailed | InvalidTarget | InsufficientBalance | NilDereference

definition NewUtxoList :: UtxoList where
  "NewUtxoList = \<lparr>List = Some []\<rparr>"

section \<open>Operations\<close>

definition SerializeFromStr ::
  "(string \<Rightarrow> UtxoList \<Rightarrow> UtxoList \<times> bool) \<Rightarrow> string \<Rightarrow> UtxoList option \<Rightarrow>
     UtxoList option \<times> (utxo_list_error + unit)"
where
  "SerializeFromStr unmarshal jsonStr u =
     (case u of
        None \<Rightarrow> (None, Inl ListIsNil)
      | Some l \<Rightarrow>
          (case unmarshal jsonStr l of
             (l, ok) \<Rightarrow> (Some l, if ok then Inr () else Inl UnmarshalFailed)))"

definition AddUtxoInfo :: "UtxoInfo option \<Rightarrow> UtxoList option \<Rightarrow> UtxoList option" where
  "AddUtxoInfo info u =
     (case info of
        None \<Rightarrow> u
      | Some x \<Rightarrow>
          map_option (\<lambda>l.
            let xs = (case List l of None \<Rightarrow> [] | Some xs \<Rightarrow> xs)
            in l\<lparr>List := Some (xs @ [Some x])\<rparr>) u)"

text \<open>The key of the comparison, where the parse error is ignored.\<close>

definition sort_value :: "UtxoInfo \<Rightarrow> nat" where
  "sort_value x = fst (ParseUint 64 (Value x))"

text \<open>
  The greedy loop: stop at the target, skip values that do not parse. \<open>None\<close> is the panic on a
  nil entry.
\<close>

fun select_loop :: "u64 \<Rightarrow> u64 \<Rightarrow> UtxoInfo option list \<Rightarrow> (UtxoInfo list \<times> u64) option" where
  "select_loop target totalValue [] = Some ([], totalValue)"
| "select_loop target totalValue (u # us) =
     (if totalValue \<ge> target then Some ([], totalValue)
      else case u of
        None \<Rightarrow> None
      | Some x \<Rightarrow>
          (case ParseUint 64 (Value x) of
             (_, Some _) \<Rightarrow> select_loop target totalValue us
           | (v, None) \<Rightarrow>
               map_option (map_prod (Cons x) id)
                 (select_loop target (totalValue + word_of_nat v) us)))"

text \<open>
  A nil entry makes the comparison panic as soon as there are two entries to compare; a single
  nil entry is not compared and reaches the loop. An empty selection is the nil slice.
\<close>

definition SelectUtxo ::
  "(UtxoInfo list \<Rightarrow> UtxoInfo list) \<Rightarrow> string \<Rightarrow> UtxoList option \<Rightarrow>
     UtxoList option \<times> (utxo_list_error + unit)"
where
  "SelectUtxo srt targetValue u =
     (case u of
        None \<Rightarrow> (u, Inl ListIsNil)
      | Some l \<Rightarrow>
        (case List l of
           None \<Rightarrow> (u, Inl ListIsNil)
         | Some xs \<Rightarrow>
           (case ParseUint 64 targetValue of
              (_, Some _) \<Rightarrow> (u, Inl InvalidTarget)
            | (t, None) \<Rightarrow>
              if length xs \<ge> 2 \<and> None \<in> set xs then (u, Inl NilDereference)
              else
                let xs = (if None \<in> set xs then xs else map Some (srt (map the xs)));
                    sorted_list = Some (l\<lparr>List := Some xs\<rparr>)
                in (case select_loop (word_of_nat t) 0 xs of
                      None \<Rightarrow> (sorted_list, Inl NilDereference)
                    | Some (selected, totalValue) \<Rightarrow>
                        if totalValue < word_of_nat t then (sorted_list, Inl InsufficientBalance)
                        else (Some (l\<lparr>List :=
                                if selected = [] then None else Some (map Some selected)\<rparr>),
                              Inr ())))))"

text \<open>The loop of \<open>CalcValue\<close>; \<open>None\<close> is the early return of \<open>''0''\<close>.\<close>

fun calc_loop :: "u64 \<Rightarrow> UtxoInfo option list \<Rightarrow> u64 option" where
  "calc_loop totalValue [] = Some totalValue"
| "calc_loop totalValue (None # us) = calc_loop totalValue us"
| "calc_loop totalValue (Some x # us) =
     (case ParseUint 64 (Value x) of
        (_, Some _) \<Rightarrow> None
      | (v, None) \<Rightarrow> calc_loop (totalValue + word_of_nat v) us)"

definition CalcValue :: "UtxoList option \<Rightarrow> string" where
  "CalcValue u =
     (case u of
        None \<Rightarrow> ''0''
      | Some l \<Rightarrow>
        (case List l of
           None \<Rightarrow> ''0''
         | Some xs \<Rightarrow>
           (case calc_loop 0 xs of
              None \<Rightarrow> ''0''
            | Some totalValue \<Rightarrow> FormatUint (unat totalValue))))"

definition IsEmpty :: "UtxoList option \<Rightarrow> bool" where
  "IsEmpty u =
     (case u of
        None \<Rightarrow> True
      | Some l \<Rightarrow> (case List l of None \<Rightarrow> True | Some xs \<Rightarrow> xs = []))"

text \<open>The listing; \<open>None\<close> is the panic on a nil entry.\<close>

definition newline :: string where
  "newline = [CHR 0x0A]"

definition optional_line :: "string \<Rightarrow> string \<Rightarrow> string" where
  "optional_line label v = (if v \<noteq> [] then label @ v @ newline else [])"

definition utxo_lines :: "nat \<Rightarrow> UtxoInfo \<Rightarrow> string" where
  "utxo_lines i x =
     ''['' @ Itoa (int i) @ '']'' @ newline @
     ''  Hash:          '' @ Hash x @ newline @
     ''  Index:         '' @ Index x @ newline @
     ''  Value:         '' @ Value x @ newline @
     ''  Script:        '' @ Script x @ newline @
     optional_line ''  Version:       '' (Version x) @
     optional_line ''  IsCoinbase:    '' (IsCoinbase x) @
     optional_line ''  BlockDAAScore: '' (BlockDAAScore x)"

fun string_loop :: "nat \<Rightarrow> UtxoInfo option list \<Rightarrow> string option" where
  "string_loop i [] = Some []"
| "string_loop i (None # us) = None"
| "string_loop i (Some x # us) = map_option (\<lambda>s. utxo_lines i x @ s) (string_loop (Suc i) us)"

definition String_of :: "UtxoList option \<Rightarrow> string option" where
  "String_of u =
     (if IsEmpty u then Some ''UtxoList is empty''
      else string_loop 0 (the (List (the u))))"

section \<open>The greedy selection\<close>

text \<open>The value an entry contributes, and what it has to be for the loop to take it.\<close>

definition readable :: "UtxoInfo \<Rightarrow> bool" where
  "readable x \<longleftrightarrow> snd (ParseUint 64 (Value x)) = None"

definition value_of :: "UtxoInfo \<Rightarrow> nat" where
  "value_of x = (case ParseUint 64 (Value x) of (v, None) \<Rightarrow> v | (_, Some _) \<Rightarrow> 0)"

definition worth :: "UtxoInfo list \<Rightarrow> nat" where
  "worth xs = (\<Sum>x \<leftarrow> xs. value_of x)"

lemma worth_simps [simp]: "worth [] = 0" "worth (x # xs) = value_of x + worth xs"
  by (simp_all add: worth_def)

lemma worth_mset: "mset xs = mset ys \<Longrightarrow> worth xs = worth ys"
  unfolding worth_def by (metis mset_map sum_mset_sum_list)

lemma value_of_readable: "ParseUint 64 (Value x) = (v, None) \<Longrightarrow> readable x \<and> value_of x = v"
  by (simp add: readable_def value_of_def)

lemma value_of_unreadable: "ParseUint 64 (Value x) = (v, Some e) \<Longrightarrow> \<not> readable x \<and> value_of x = 0"
  by (simp add: readable_def value_of_def)

lemma value_of_bound: "value_of x < 2 ^ 64"
  using ParseUint_bound [of 64 "Value x"] by (auto simp: value_of_def split: prod.split option.split)

text \<open>What the loop takes is a prefix of the readable entries.\<close>

lemma select_loop_prefix:
  "select_loop target t (map Some xs) = Some (sel, t') \<Longrightarrow>
     (\<exists>rest. filter readable xs = sel @ rest) \<and> t' = t + word_of_nat (worth sel) \<and>
     (t' < target \<longrightarrow> sel = filter readable xs)"
proof (induction xs arbitrary: t sel)
  case Nil
  then show ?case by simp
next
  case (Cons x xs)
  show ?case
  proof (cases "t \<ge> target")
    case True
    with Cons.prems show ?thesis by auto
  next
    case False
    obtain v e where p: "ParseUint 64 (Value x) = (v, e)" by fastforce
    show ?thesis
    proof (cases e)
      case None
      with False Cons.prems p obtain s where s: "sel = x # s"
        "select_loop target (t + word_of_nat v) (map Some xs) = Some (s, t')"
        by auto
      with Cons.IH [OF s(2)] None p value_of_readable [of x v] show ?thesis
        by (auto simp: algebra_simps)
    next
      case (Some e')
      with False Cons.prems p Cons.IH [of t sel] value_of_unreadable [of x v e'] show ?thesis
        by auto
    qed
  qed
qed

lemma select_loop_total: "\<exists>sel t'. select_loop target t (map Some xs) = Some (sel, t')"
proof (induction xs arbitrary: t)
  case (Cons x xs)
  then show ?case by (auto split: prod.split option.split) (metis)+
qed simp

text \<open>Without overflow the loop stops as soon as it can.\<close>

lemma select_loop_minimal:
  "select_loop target t (map Some xs) = Some (sel, t') \<Longrightarrow> unat t + worth (filter readable xs) < 2 ^ 64 \<Longrightarrow>
     sel \<noteq> [] \<Longrightarrow> unat t + worth (butlast sel) < unat target"
proof (induction xs arbitrary: t sel)
  case Nil
  then show ?case by simp
next
  case (Cons x xs)
  then have lt: "\<not> target \<le> t" "t < target" by (auto split: if_splits)
  obtain v e where p: "ParseUint 64 (Value x) = (v, e)" by fastforce
  show ?case
  proof (cases e)
    case None
    with lt(1) Cons.prems(1) p obtain s where s: "sel = x # s"
      "select_loop target (t + word_of_nat v) (map Some xs) = Some (s, t')"
      by auto
    have v: "readable x" "value_of x = v" using value_of_readable p None by auto
    with Cons.prems(2) have b: "unat t + v + worth (filter readable xs) < 2 ^ 64" by simp
    then have u: "unat (t + word_of_nat v) = unat t + v"
      by (simp add: unat_word_ariths unat_of_nat)
    show ?thesis
    proof (cases "s = []")
      case True
      with s lt show ?thesis by (simp add: word_less_nat_alt)
    next
      case False
      with Cons.IH [OF s(2)] u b s v show ?thesis by simp
    qed
  next
    case (Some e')
    with lt(1) Cons.prems p Cons.IH [of t sel] value_of_unreadable [of x v e'] show ?thesis
      by auto
  qed
qed

text \<open>The contract of \<open>sort.Slice\<close> with the comparison of the code.\<close>

locale value_sort =
  fixes srt :: "UtxoInfo list \<Rightarrow> UtxoInfo list"
  assumes perm: "mset (srt xs) = mset xs"
    and ascending_values: "sorted (map sort_value (srt xs))"
begin

lemma set_srt [simp]: "set (srt xs) = set xs"
  using perm by (metis set_mset_mset)

lemma worth_filter_srt: "worth (filter readable (srt xs)) = worth (filter readable xs)"
  by (rule worth_mset) (simp add: perm)

lemma selected_of_sorted:
  assumes "select_loop target 0 (map Some (srt xs)) = Some (sel, t')"
  shows "mset sel \<subseteq># mset (filter readable xs)"
proof -
  obtain rest where "filter readable (srt xs) = sel @ rest"
    using select_loop_prefix [OF assms] by auto
  then have "mset (filter readable xs) = mset sel + mset rest"
    by (metis mset_append mset_filter perm)
  then show ?thesis by simp
qed

lemma selection_ascending:
  assumes "select_loop target 0 (map Some (srt xs)) = Some (sel, t')"
  shows "sorted (map sort_value sel)"
proof -
  obtain rest where "filter readable (srt xs) = sel @ rest"
    using select_loop_prefix [OF assms] by auto
  moreover have "sorted (map sort_value (filter readable (srt xs)))"
    using ascending_values [of xs] by (rule sorted_filter)
  ultimately show ?thesis by (simp add: sorted_append)
qed

text \<open>A covering selection really covers, even if the running sum wrapped.\<close>

lemma selection_covers:
  assumes "select_loop target 0 (map Some (srt xs)) = Some (sel, t')" "target \<le> t'"
  shows "unat target \<le> worth sel"
proof -
  have "t' = word_of_nat (worth sel)" using select_loop_prefix [OF assms(1)] by simp
  then have "unat t' = worth sel mod 2 ^ 64" by (simp add: unat_of_nat)
  moreover have "worth sel mod 2 ^ 64 \<le> worth sel" by (rule mod_less_eq_dividend)
  ultimately show ?thesis using assms(2) by (simp add: word_le_nat_alt)
qed

lemma selection_complete:
  assumes "select_loop target 0 (map Some (srt xs)) = Some (sel, t')"
    and bound: "worth (filter readable xs) < 2 ^ 64"
  shows "t' < target \<longleftrightarrow> worth (filter readable xs) < unat target"
proof
  assume "t' < target"
  then have "sel = filter readable (srt xs)" "t' = word_of_nat (worth sel)"
    using select_loop_prefix [OF assms(1)] by auto
  then have "unat t' = worth (filter readable xs)"
    using bound by (simp add: worth_filter_srt unat_of_nat)
  with \<open>t' < target\<close> show "worth (filter readable xs) < unat target"
    by (simp add: word_less_nat_alt)
next
  assume less: "worth (filter readable xs) < unat target"
  show "t' < target"
  proof (rule ccontr)
    assume "\<not> t' < target"
    then have "unat target \<le> worth sel" using selection_covers [OF assms(1)] by simp
    moreover obtain rest where "filter readable (srt xs) = sel @ rest"
      using select_loop_prefix [OF assms(1)] by auto
    then have "worth (filter readable (srt xs)) = worth sel + worth rest"
      by (simp add: worth_def)
    ultimately show False using less worth_filter_srt [of xs] by simp
  qed
qed

end

text \<open>The library's stable sort keeps the contract.\<close>

interpretation stable_sort: value_sort "sort_key sort_value"
  by unfold_locales simp_all

definition sel_list :: "UtxoInfo list \<Rightarrow> UtxoList" where
  "sel_list sel = \<lparr>List = if sel = [] then None else Some (map Some sel)\<rparr>"

lemma SelectUtxo_some:
  assumes "ParseUint 64 targetValue = (t, None)"
    and "select_loop (word_of_nat t) 0 (map Some (srt xs)) = Some (sel, t')"
  shows "SelectUtxo srt targetValue (Some \<lparr>List = Some (map Some xs)\<rparr>) =
    (if t' < word_of_nat t then (Some \<lparr>List = Some (map Some (srt xs))\<rparr>, Inl InsufficientBalance)
     else (Some (sel_list sel), Inr ()))"
  using assms by (auto simp: SelectUtxo_def sel_list_def o_def)

context value_sort
begin

lemma SelectUtxo_selects:
  assumes target: "ParseUint 64 targetValue = (t, None)"
    and bound: "worth (filter readable xs) < 2 ^ 64"
  shows "if worth (filter readable xs) < t
    then snd (SelectUtxo srt targetValue (Some \<lparr>List = Some (map Some xs)\<rparr>)) = Inl InsufficientBalance
    else (\<exists>sel. SelectUtxo srt targetValue (Some \<lparr>List = Some (map Some xs)\<rparr>) =
            (Some (sel_list sel), Inr ()) \<and>
          mset sel \<subseteq># mset (filter readable xs) \<and> sorted (map sort_value sel) \<and>
          t \<le> worth sel \<and> (sel = [] \<or> worth (butlast sel) < t))"
proof -
  let ?target = "word_of_nat t :: u64"
  have "t < 2 ^ 64" using ParseUint_bound [of 64 targetValue] target by simp
  then have t: "unat ?target = t" by (simp add: unat_of_nat)
  obtain sel t' where run: "select_loop ?target 0 (map Some (srt xs)) = Some (sel, t')"
    using select_loop_total by blast
  note result = SelectUtxo_some [where srt = srt and xs = xs, OF target run]
  have "sel = [] \<or> worth (butlast sel) < t"
    using select_loop_minimal [OF run] bound t by (auto simp: worth_filter_srt)
  with selection_complete [OF run bound] selection_covers [OF run] selected_of_sorted [OF run]
    selection_ascending [OF run] t result
  show ?thesis by (auto simp: not_less)
qed

end


definition sample_utxo :: "string \<Rightarrow> UtxoInfo" where
  "sample_utxo v = \<lparr>Hash = ''00'', Script = [], Index = ''0'', Value = v, Version = [],
     IsCoinbase = [], BlockDAAScore = []\<rparr>"

lemma sample_values:
  "ParseUint 64 ''500'' = (500, None)" "ParseUint 64 ''30'' = (30, None)" "ParseUint 64 ''200'' = (200, None)"
  by (simp_all add: ParseUint_def digit_of_def char_nat_def)


lemma calc_loop_sum:
  "calc_loop t (map Some xs) = (if list_all readable xs then Some (t + word_of_nat (worth xs)) else None)"
proof (induction xs arbitrary: t)
  case (Cons x xs)
  obtain v e where p: "ParseUint 64 (Value x) = (v, e)" by fastforce
  with Cons.IH value_of_readable [of x v] value_of_unreadable [of x v] show ?case
    by (cases e) (auto simp: algebra_simps)
qed simp

lemma calc_loop_nil: "calc_loop t us = calc_loop t (map Some (map the (filter (\<lambda>u. u \<noteq> None) us)))"
  by (induction t us rule: calc_loop.induct) (auto split: prod.split option.split)

lemma calc_loop_value:
  "calc_loop 0 us = (let xs = map the (filter (\<lambda>u. u \<noteq> None) us)
     in if list_all readable xs then Some (word_of_nat (worth xs)) else None)"
  unfolding Let_def by (subst calc_loop_nil, subst calc_loop_sum) simp

text \<open>
  \<open>CalcValue\<close> skips nil entries and returns the sum of the values modulo \<open>2 ^ 64\<close>, or
  \<open>0\<close> when any value does not parse.
\<close>

theorem CalcValue_sum:
  "CalcValue (Some \<lparr>List = Some us\<rparr>) =
     (let xs = map the (filter (\<lambda>u. u \<noteq> None) us)
      in if list_all readable xs then FormatUint (worth xs mod 2 ^ 64) else ''0'')"
  by (simp add: CalcValue_def Let_def calc_loop_value unat_of_nat)

end
