(* ===== verification/UtxoTx.thy ===== *)
theory UtxoTx
  imports UtxoList Codec
begin

text \<open>
  \<open>signing/utxo\<close>: the transfers of the Bitcoin family. \<open>int64\<close> amounts are 64-bit words compared
  as signed numbers, so every sum and product wraps as in the code. The packages of \<open>btcd\<close>
  (addresses, scripts, signature hashes, the wire format, PSBT) and the signers are the fields of
  a record of functions; the type parameters are the network parameters, the decoded addresses
  and the PSBT packets.
\<close>

type_synonym i64 = "64 word"

section \<open>Transactions and the packages they are built with\<close>

record TxIn =
  PreviousHash :: bytes
  PreviousIndex :: u32
  Sequence :: u32
  SignatureScript :: bytes
  Witness :: "bytes list"

record TxOut =
  OutValue :: i64
  PkScript :: bytes

record MsgTx =
  TxVersion :: u32
  TxIns :: "TxIn list"
  TxOuts :: "TxOut list"

record psbt_input =
  WitnessUtxo :: "TxOut option"
  NonWitnessUtxo :: "MsgTx option"

datatype address_kind =
  AddressPubKeyHash | AddressScriptHash | AddressWitnessPubKeyHash | AddressWitnessScriptHash
| AddressTaproot | AddressOther

record ('p, 'a, 'k) btcd =
  btcParams :: 'p
  ltcParams :: 'p
  dogeParams :: 'p
  sysParams :: 'p
  DecodeAddress :: "string \<Rightarrow> 'p \<Rightarrow> 'a option"
  IsForNet :: "'a \<Rightarrow> 'p \<Rightarrow> bool"
  KindOf :: "'a \<Rightarrow> address_kind"
  AddressString :: "'a \<Rightarrow> string"
  Hash160 :: "bytes \<Rightarrow> bytes"
  TaprootOutputKey :: "bytes \<Rightarrow> bytes option"
  NewAddressTaproot :: "bytes \<Rightarrow> 'p \<Rightarrow> 'a option"
  NewAddressWitnessPubKeyHash :: "bytes \<Rightarrow> 'p \<Rightarrow> 'a option"
  NewAddressPubKeyHash :: "bytes \<Rightarrow> 'p \<Rightarrow> 'a option"
  PayToAddrScript :: "'a \<Rightarrow> bytes option"
  NewHashFromStr :: "string \<Rightarrow> bytes option"
  VarIntSerializeSize :: "u64 \<Rightarrow> i64"
  OpReturnScript :: "bytes \<Rightarrow> bytes option"
  PushDataScript :: "bytes \<Rightarrow> bytes \<Rightarrow> bytes option"
  CalcWitnessSigHash :: "bytes \<Rightarrow> MsgTx \<Rightarrow> nat \<Rightarrow> i64 \<Rightarrow> bytes option"
  CalcSignatureHash :: "bytes \<Rightarrow> MsgTx \<Rightarrow> nat \<Rightarrow> bytes option"
  CalcTaprootSignatureHash :: "MsgTx \<Rightarrow> nat \<Rightarrow> (bytes \<times> u32 \<Rightarrow> TxOut option) \<Rightarrow> bytes option"
  IsPayToTaproot :: "bytes \<Rightarrow> bool"
  TxSerialize :: "MsgTx \<Rightarrow> bytes option"
  TxDeserialize :: "bytes \<Rightarrow> MsgTx option"
  TxHashString :: "MsgTx \<Rightarrow> string"
  EmptyPacket :: 'k
  PsbtParse :: "bytes \<Rightarrow> 'k option"
  PsbtNew :: "MsgTx \<Rightarrow> 'k option"
  PsbtSerialize :: "'k \<Rightarrow> bytes option"
  UnsignedTx :: "'k \<Rightarrow> MsgTx"
  PsbtInputs :: "'k \<Rightarrow> psbt_input list"
  SetWitnessUtxo :: "nat \<Rightarrow> TxOut \<Rightarrow> 'k \<Rightarrow> 'k"
  SanityCheck :: "'k \<Rightarrow> bool"
  UpdaterSign :: "'k \<Rightarrow> nat \<Rightarrow> bytes \<Rightarrow> bytes \<Rightarrow> (int \<times> 'k) option"
  MaybeFinalizeAll :: "'k \<Rightarrow> 'k option"
  PsbtExtract :: "'k \<Rightarrow> MsgTx option"
  SignECDSA :: "bytes \<Rightarrow> bytes \<Rightarrow> bytes option"
  SignTweakedSchnorr :: "bytes \<Rightarrow> bytes \<Rightarrow> bytes option"
  SchnorrSignatureSize :: nat
  NewWIF :: "bytes \<Rightarrow> string option"
  DecodeWIF :: "string \<Rightarrow> bytes option"

record Ingredient =
  TxType :: string
  ContractAddress :: string
  Sender :: string
  SenderPublicKey :: string
  Recipient :: string
  Amount :: string
  ByteFee :: string
  Utxos :: "UtxoList option"
  IsPSBT :: bool
  InscriptionIdsForHash :: "string \<Rightarrow> string option"
  Memo :: string

record TxBuilder =
  TheIngredient :: "Ingredient option"
  network :: string
  unsignedHex :: string
  sigHash :: "string list"
  txHash :: string

datatype utxo_error =
  IngredientIsNil | NoUtxos | InvalidRecipient | InvalidSender | InvalidByteFee | InvalidAmount
| NilUtxo | InvalidUtxoValue | UnsupportedNetwork | RecipientScript | SenderScript | InvalidMemo
| MemoTooLong | MemoScript | SweepBelowDust | AmountBelowDust | ValueTooLarge | UtxoHashInvalid
| DecodeOutput | OutputScript | DecodeSender | SigHashFailed | SerializeFailed | PsbtForTaproot
| SenderNotTaproot | UtxoScriptInvalid | UtxoNotTaproot | PsbtFailed | NoSigHash | HexInvalid
| SignFailed | DeserializeFailed | SignatureCount | DerUnsupported | TaprootSignatureSize
| InputOutOfRange | PrevoutOutOfRange | InputWithoutUtxo

section \<open>Constants\<close>

definition NetworkEnumForBTC :: string where "NetworkEnumForBTC = ''0''"
definition NetworkEnumForLTC :: string where "NetworkEnumForLTC = ''1''"
definition NetworkEnumForDOGE :: string where "NetworkEnumForDOGE = ''2''"
definition NetworkEnumForBTCP2TR :: string where "NetworkEnumForBTCP2TR = ''3''"
definition NetworkEnumForSYS :: string where "NetworkEnumForSYS = ''4''"

lemmas network_defs = NetworkEnumForBTC_def NetworkEnumForLTC_def NetworkEnumForDOGE_def
  NetworkEnumForBTCP2TR_def NetworkEnumForSYS_def

definition MagicContactAddressForNative :: string where
  "MagicContactAddressForNative = ''0xeeeeeeeeeeeeeeeeeeeeeeeeeeeeeeeeeeeeeeee''"

definition MagicNumberForMaxAmount :: string where
  "MagicNumberForMaxAmount = ''115792089237316195423570985008687907853269984665640564039457584007913129639935''"

definition DefaultDust :: i64 where "DefaultDust = 546"
definition MaxMemoBytes :: nat where "MaxMemoBytes = 80"
definition DogeDust :: i64 where "DogeDust = 100000"
definition vbytesP2WPKHInput :: i64 where "vbytesP2WPKHInput = 68"
definition vbytesP2TRInput :: i64 where "vbytesP2TRInput = 58"
definition bytesP2PKHInput :: i64 where "bytesP2PKHInput = 148"
definition bytesOutput :: i64 where "bytesOutput = 34"
definition bytesOverhead :: i64 where "bytesOverhead = 11"
definition dogeMinFee :: i64 where "dogeMinFee = 5000000"

lemmas size_defs = vbytesP2WPKHInput_def vbytesP2TRInput_def bytesP2PKHInput_def bytesOutput_def
  bytesOverhead_def

section \<open>Addresses\<close>

definition decodeAddressForNet :: "('p, 'a, 'k) btcd \<Rightarrow> string \<Rightarrow> 'p \<Rightarrow> bool \<Rightarrow> 'a option" where
  "decodeAddressForNet E address params allowSegwit =
     (case DecodeAddress E address params of
        None \<Rightarrow> None
      | Some addr \<Rightarrow>
          if \<not> IsForNet E addr params then None
          else case KindOf E addr of
            AddressPubKeyHash \<Rightarrow> Some addr
          | AddressScriptHash \<Rightarrow> Some addr
          | AddressWitnessPubKeyHash \<Rightarrow> if allowSegwit then Some addr else None
          | AddressWitnessScriptHash \<Rightarrow> if allowSegwit then Some addr else None
          | AddressTaproot \<Rightarrow> if allowSegwit then Some addr else None
          | AddressOther \<Rightarrow> None)"

definition validAddressForNet :: "('p, 'a, 'k) btcd \<Rightarrow> string \<Rightarrow> 'p \<Rightarrow> bool \<Rightarrow> bool" where
  "validAddressForNet E address params allowSegwit \<longleftrightarrow>
     address = MagicContactAddressForNative \<or>
     decodeAddressForNet E address params allowSegwit \<noteq> None"

definition ValidAddressForBTC :: "('p, 'a, 'k) btcd \<Rightarrow> string \<Rightarrow> bool" where
  "ValidAddressForBTC E address = validAddressForNet E address (btcParams E) True"

definition ValidAddressForLTC :: "('p, 'a, 'k) btcd \<Rightarrow> string \<Rightarrow> bool" where
  "ValidAddressForLTC E address = validAddressForNet E address (ltcParams E) True"

definition ValidAddressForDOGE :: "('p, 'a, 'k) btcd \<Rightarrow> string \<Rightarrow> bool" where
  "ValidAddressForDOGE E address = validAddressForNet E address (dogeParams E) False"

definition ValidAddressForSYS :: "('p, 'a, 'k) btcd \<Rightarrow> string \<Rightarrow> bool" where
  "ValidAddressForSYS E address = validAddressForNet E address (sysParams E) True"

definition ValidAddress :: "('p, 'a, 'k) btcd \<Rightarrow> string \<Rightarrow> string \<Rightarrow> bool" where
  "ValidAddress E address net =
     (if net = NetworkEnumForBTC \<or> net = NetworkEnumForBTCP2TR then ValidAddressForBTC E address
      else if net = NetworkEnumForLTC then ValidAddressForLTC E address
      else if net = NetworkEnumForDOGE then ValidAddressForDOGE E address
      else if net = NetworkEnumForSYS then ValidAddressForSYS E address
      else False)"

definition AddressToScriptPubKey :: "('p, 'a, 'k) btcd \<Rightarrow> string \<Rightarrow> string \<Rightarrow> string option" where
  "AddressToScriptPubKey E address net =
     (let choice =
        if net = NetworkEnumForBTC \<or> net = NetworkEnumForBTCP2TR then Some (btcParams E, True)
        else if net = NetworkEnumForLTC then Some (ltcParams E, True)
        else if net = NetworkEnumForDOGE then Some (dogeParams E, False)
        else None
      in case choice of
           None \<Rightarrow> None
         | Some (params, allowSegwit) \<Rightarrow>
             (case decodeAddressForNet E address params allowSegwit of
                None \<Rightarrow> None
              | Some addr \<Rightarrow> map_option hex_encode (PayToAddrScript E addr)))"

text \<open>\<open>None\<close> is the panic of \<open>publicKey[1:]\<close> on an empty key.\<close>

definition address_or_empty :: "('p, 'a, 'k) btcd \<Rightarrow> 'a option \<Rightarrow> string" where
  "address_or_empty E r = (case r of None \<Rightarrow> [] | Some addr \<Rightarrow> AddressString E addr)"

definition PublicKey2Address :: "('p, 'a, 'k) btcd \<Rightarrow> bytes \<Rightarrow> string \<Rightarrow> string option" where
  "PublicKey2Address E publicKey net =
     (if net = NetworkEnumForBTC then
        Some (address_or_empty E (NewAddressWitnessPubKeyHash E (Hash160 E publicKey) (btcParams E)))
      else if net = NetworkEnumForBTCP2TR then
        (if publicKey = [] then None
         else Some (case TaprootOutputKey E (drop 1 publicKey) of
                None \<Rightarrow> []
              | Some key \<Rightarrow> address_or_empty E (NewAddressTaproot E key (btcParams E))))
      else if net = NetworkEnumForLTC then
        Some (address_or_empty E (NewAddressWitnessPubKeyHash E (Hash160 E publicKey) (ltcParams E)))
      else if net = NetworkEnumForDOGE then
        Some (address_or_empty E (NewAddressPubKeyHash E (Hash160 E publicKey) (dogeParams E)))
      else if net = NetworkEnumForSYS then
        Some (address_or_empty E (NewAddressWitnessPubKeyHash E (Hash160 E publicKey) (sysParams E)))
      else Some [])"

definition PrivateKeyHexToWIF :: "('p, 'a, 'k) btcd \<Rightarrow> string \<Rightarrow> string option" where
  "PrivateKeyHexToWIF E privateKey =
     (case hex_decode privateKey of None \<Rightarrow> None | Some b \<Rightarrow> NewWIF E b)"

definition PrivateKeyWIFToHex :: "('p, 'a, 'k) btcd \<Rightarrow> string \<Rightarrow> string option" where
  "PrivateKeyWIFToHex E privateKey = map_option hex_encode (DecodeWIF E privateKey)"

section \<open>Sizes, fees and amounts\<close>

definition perInputVBytes :: "string \<Rightarrow> i64" where
  "perInputVBytes net =
     (if net = NetworkEnumForBTCP2TR then vbytesP2TRInput
      else if net = NetworkEnumForDOGE then bytesP2PKHInput
      else vbytesP2WPKHInput)"

definition estimateVBytes :: "string \<Rightarrow> i64 \<Rightarrow> i64 \<Rightarrow> i64" where
  "estimateVBytes net numInputs numOutputs =
     numInputs * perInputVBytes net + numOutputs * bytesOutput + bytesOverhead"

definition estimateFee :: "string \<Rightarrow> i64 \<Rightarrow> i64 \<Rightarrow> i64 \<Rightarrow> i64" where
  "estimateFee net byteFee numInputs numOutputs = estimateVBytes net numInputs numOutputs * byteFee"

definition outputVBytes :: "('p, 'a, 'k) btcd \<Rightarrow> bytes \<Rightarrow> i64" where
  "outputVBytes E script =
     8 + VarIntSerializeSize E (word_of_nat (length script)) + word_of_nat (length script)"

definition memoOutputVBytes :: "('p, 'a, 'k) btcd \<Rightarrow> bytes option \<Rightarrow> i64" where
  "memoOutputVBytes E script = (case script of None \<Rightarrow> 0 | Some s \<Rightarrow> outputVBytes E s)"

definition estimateFeeForScripts ::
  "('p, 'a, 'k) btcd \<Rightarrow> string \<Rightarrow> i64 \<Rightarrow> i64 \<Rightarrow> bytes list \<Rightarrow> i64"
where
  "estimateFeeForScripts E net byteFee numInputs outScripts =
     foldl (\<lambda>vbytes script. vbytes + outputVBytes E script)
       (numInputs * perInputVBytes net + bytesOverhead) outScripts * byteFee"

definition buildMemoScript :: "('p, 'a, 'k) btcd \<Rightarrow> string \<Rightarrow> utxo_error + bytes option" where
  "buildMemoScript E memo =
     (if memo = [] then Inr None
      else case hex_decode (strings_TrimPrefix memo ''0x'') of
        None \<Rightarrow> Inl InvalidMemo
      | Some data \<Rightarrow>
          if length data > MaxMemoBytes then Inl MemoTooLong
          else map_sum id Some (orErr MemoScript (OpReturnScript E data)))"

definition scriptForAddress :: "('p, 'a, 'k) btcd \<Rightarrow> string \<Rightarrow> 'p \<Rightarrow> bool \<Rightarrow> bytes option" where
  "scriptForAddress E address params allowSegwit =
     (case decodeAddressForNet E address params allowSegwit of
        None \<Rightarrow> None
      | Some addr \<Rightarrow> PayToAddrScript E addr)"

definition ToBigEndianHash :: "string \<Rightarrow> string" where
  "ToBigEndianHash h =
     (if length h \<noteq> 64 then []
      else concat (map (\<lambda>k. [h ! (62 - 2 * k), h ! (63 - 2 * k)]) [0..<32]))"

text \<open>\<open>value, _ := strconv.ParseInt (s, 10, 64)\<close>.\<close>

definition parse_i64 :: "string \<Rightarrow> i64" where
  "parse_i64 s = word_of_int (fst (ParseInt 64 s))"

definition positive_i64 :: "string \<Rightarrow> bool" where
  "positive_i64 s \<longleftrightarrow> (case ParseInt 64 s of (v, None) \<Rightarrow> 0 < v | (_, Some _) \<Rightarrow> False)"

definition utxos_of :: "Ingredient \<Rightarrow> UtxoInfo list" where
  "utxos_of i = map the (the (List (the (Utxos i))))"

definition totalHas :: "Ingredient \<Rightarrow> i64" where
  "totalHas i = foldl (\<lambda>acc v. acc + parse_i64 (Value v)) 0 (utxos_of i)"

definition numInputs :: "Ingredient \<Rightarrow> i64" where
  "numInputs i = word_of_nat (length (utxos_of i))"

text \<open>
  The payments of a transfer: the sweep of everything, or the amount with the change when that
  is not dust. \<open>fee\<close> is the fee of the transaction without the change output and
  \<open>feeWithChange\<close> the fee with it.
\<close>

definition choose_outputs ::
  "i64 \<Rightarrow> i64 \<Rightarrow> i64 \<Rightarrow> i64 \<Rightarrow> Ingredient \<Rightarrow> utxo_error + (string \<times> i64) list"
where
  "choose_outputs dust has fee feeWithChange i =
     (if Amount i = MagicNumberForMaxAmount then
        let send = has - fee
        in if send <s dust then Inl SweepBelowDust else Inr [(Recipient i, send)]
      else
        let amount = parse_i64 (Amount i)
        in if amount <s dust then Inl AmountBelowDust
           else
             let change = has - feeWithChange - amount
             in if dust \<le>s change then Inr [(Recipient i, amount), (Sender i, change)]
                else if has - fee - amount <s 0 then Inl ValueTooLarge
                else Inr [(Recipient i, amount)])"

section \<open>Inputs, outputs and signature hashes\<close>

definition uint_index :: "string \<Rightarrow> u32" where
  "uint_index s = word_of_nat (fst (ParseUint 64 s))"

definition int_index :: "string \<Rightarrow> u32" where
  "int_index s = ucast (parse_i64 s)"

definition new_input :: "bytes \<Rightarrow> u32 \<Rightarrow> u32 \<Rightarrow> TxIn" where
  "new_input h index sequenceNum =
     \<lparr>PreviousHash = h, PreviousIndex = index, Sequence = sequenceNum, SignatureScript = [],
      Witness = []\<rparr>"

fun add_inputs ::
  "('p, 'a, 'k) btcd \<Rightarrow> (string \<Rightarrow> u32) \<Rightarrow> u32 \<Rightarrow> UtxoInfo list \<Rightarrow> utxo_error + TxIn list"
where
  "add_inputs E index_of sequenceNum [] = Inr []"
| "add_inputs E index_of sequenceNum (u # us) =
     andThen (orErr UtxoHashInvalid (NewHashFromStr E (Hash u))) (\<lambda>h.
     andThen (add_inputs E index_of sequenceNum us) (\<lambda>ins.
       Inr (new_input h (index_of (Index u)) sequenceNum # ins)))"

fun add_outputs ::
  "('p, 'a, 'k) btcd \<Rightarrow> (string \<Rightarrow> 'a option) \<Rightarrow> (string \<times> i64) list \<Rightarrow> utxo_error + TxOut list"
where
  "add_outputs E decode [] = Inr []"
| "add_outputs E decode ((toAddr, v) # outs) =
     andThen (orErr DecodeOutput (decode toAddr)) (\<lambda>toAddress.
     andThen (orErr OutputScript (PayToAddrScript E toAddress)) (\<lambda>script.
     andThen (add_outputs E decode outs) (\<lambda>rest.
       Inr (\<lparr>OutValue = v, PkScript = script\<rparr> # rest))))"

definition memo_output :: "bytes option \<Rightarrow> TxOut list" where
  "memo_output memoScript =
     (case memoScript of None \<Rightarrow> [] | Some s \<Rightarrow> [\<lparr>OutValue = 0, PkScript = s\<rparr>])"

definition MaxTxInSequenceNum :: u32 where
  "MaxTxInSequenceNum = 0xffffffff"

definition pkScript_of :: "bytes \<Rightarrow> UtxoInfo \<Rightarrow> bytes" where
  "pkScript_of pkData u = (if Script u = [] then pkData else hex_decoded_bytes (Script u))"

fun hash_inputs ::
  "(nat \<Rightarrow> UtxoInfo \<Rightarrow> bytes option) \<Rightarrow> nat \<Rightarrow> UtxoInfo list \<Rightarrow> utxo_error + string list"
where
  "hash_inputs f idx [] = Inr []"
| "hash_inputs f idx (u # us) =
     andThen (orErr SigHashFailed (f idx u)) (\<lambda>h.
     andThen (hash_inputs f (Suc idx) us) (\<lambda>hs. Inr (hex_encode h # hs)))"

definition witness_hash ::
  "('p, 'a, 'k) btcd \<Rightarrow> MsgTx \<Rightarrow> bytes \<Rightarrow> nat \<Rightarrow> UtxoInfo \<Rightarrow> bytes option"
where
  "witness_hash E msgTx pkData idx u =
     CalcWitnessSigHash E (pkScript_of pkData u) msgTx idx (parse_i64 (Value u))"

definition legacy_hash ::
  "('p, 'a, 'k) btcd \<Rightarrow> MsgTx \<Rightarrow> bytes \<Rightarrow> nat \<Rightarrow> UtxoInfo \<Rightarrow> bytes option"
where
  "legacy_hash E msgTx pkData idx u = CalcSignatureHash E (pkScript_of pkData u) msgTx idx"

text \<open>The script of the sender, which the inputs without a script of their own spend from.\<close>

definition sender_script :: "('p, 'a, 'k) btcd \<Rightarrow> 'p \<Rightarrow> Ingredient \<Rightarrow> utxo_error + bytes" where
  "sender_script E params i =
     andThen (orErr DecodeSender (DecodeAddress E (Sender i) params)) (\<lambda>senderAddr.
       orErr SenderScript (PayToAddrScript E senderAddr))"

definition serialized :: "('p, 'a, 'k) btcd \<Rightarrow> MsgTx \<Rightarrow> utxo_error + string" where
  "serialized E msgTx = map_sum id hex_encode (orErr SerializeFailed (TxSerialize E msgTx))"

section \<open>The builders by network\<close>

text \<open>Payments whose fee is estimated from the scripts of the outputs.\<close>

definition outputs_by_script ::
  "('p, 'a, 'k) btcd \<Rightarrow> string \<Rightarrow> i64 \<Rightarrow> bytes \<Rightarrow> bytes \<Rightarrow> Ingredient \<Rightarrow>
     utxo_error + (string \<times> i64) list"
where
  "outputs_by_script E net memoFee recipientScript changeScript i =
     (let byteFee = parse_i64 (ByteFee i)
      in choose_outputs DefaultDust (totalHas i)
           (estimateFeeForScripts E net byteFee (numInputs i) [recipientScript] + memoFee)
           (estimateFeeForScripts E net byteFee (numInputs i) [recipientScript, changeScript] + memoFee)
           i)"

text \<open>The unsigned transaction of each network, and the hashes to sign with its serialised form.\<close>

definition unsigned_BTC :: "('p, 'a, 'k) btcd \<Rightarrow> Ingredient \<Rightarrow> utxo_error + MsgTx" where
  "unsigned_BTC E i =
     (let params = btcParams E; byteFee = parse_i64 (ByteFee i) in
      andThen (orErr RecipientScript (scriptForAddress E (Recipient i) params True)) (\<lambda>recipientScript.
      andThen (orErr SenderScript (scriptForAddress E (Sender i) params True)) (\<lambda>changeScript.
      andThen (buildMemoScript E (Memo i)) (\<lambda>memoScript.
      andThen (outputs_by_script E NetworkEnumForBTC (memoOutputVBytes E memoScript * byteFee)
                 recipientScript changeScript i) (\<lambda>outs.
      andThen (add_inputs E uint_index MaxTxInSequenceNum (utxos_of i)) (\<lambda>ins.
      andThen (add_outputs E (\<lambda>a. DecodeAddress E a params) outs) (\<lambda>txOuts.
        Inr \<lparr>TxVersion = 1, TxIns = ins, TxOuts = txOuts @ memo_output memoScript\<rparr>)))))))"

definition buildForBTC ::
  "('p, 'a, 'k) btcd \<Rightarrow> Ingredient \<Rightarrow> utxo_error + string list \<times> string"
where
  "buildForBTC E i =
     andThen (unsigned_BTC E i) (\<lambda>msgTx.
     andThen (sender_script E (btcParams E) i) (\<lambda>pkData.
     andThen (hash_inputs (witness_hash E msgTx pkData) 0 (utxos_of i)) (\<lambda>hashes.
     andThen (serialized E msgTx) (\<lambda>hex. Inr (hashes, hex)))))"

text \<open>Taproot: every input must spend a taproot output, and the hashes commit to all of them.\<close>

definition taproot_script :: "bytes \<Rightarrow> UtxoInfo \<Rightarrow> utxo_error + bytes" where
  "taproot_script pkData u =
     (if Script u \<noteq> [] then orErr UtxoScriptInvalid (hex_decode (Script u)) else Inr pkData)"

fun add_taproot_inputs ::
  "('p, 'a, 'k) btcd \<Rightarrow> bytes \<Rightarrow> (bytes \<times> u32 \<Rightarrow> TxOut option) \<Rightarrow> UtxoInfo list \<Rightarrow>
     utxo_error + TxIn list \<times> (bytes \<times> u32 \<Rightarrow> TxOut option)"
where
  "add_taproot_inputs E pkData prevOuts [] = Inr ([], prevOuts)"
| "add_taproot_inputs E pkData prevOuts (u # us) =
     andThen (orErr UtxoHashInvalid (NewHashFromStr E (Hash u))) (\<lambda>h.
     andThen (taproot_script pkData u) (\<lambda>pkScript.
       if \<not> IsPayToTaproot E pkScript then Inl UtxoNotTaproot
       else
         let index = uint_index (Index u);
             prevOuts = prevOuts((h, index) \<mapsto>
               \<lparr>OutValue = parse_i64 (Value u), PkScript = pkScript\<rparr>)
         in andThen (add_taproot_inputs E pkData prevOuts us) (\<lambda>(ins, prevOuts).
              Inr (new_input h index MaxTxInSequenceNum # ins, prevOuts))))"

definition unsigned_BTCP2TR ::
  "('p, 'a, 'k) btcd \<Rightarrow> Ingredient \<Rightarrow> utxo_error + MsgTx \<times> (bytes \<times> u32 \<Rightarrow> TxOut option)"
where
  "unsigned_BTCP2TR E i =
     (let params = btcParams E; byteFee = parse_i64 (ByteFee i) in
      if IsPSBT i then Inl PsbtForTaproot
      else
      andThen (orErr DecodeSender (decodeAddressForNet E (Sender i) params True)) (\<lambda>senderAddr.
      if KindOf E senderAddr \<noteq> AddressTaproot then Inl SenderNotTaproot
      else
      andThen (orErr SenderScript (PayToAddrScript E senderAddr)) (\<lambda>pkData.
      andThen (orErr RecipientScript (scriptForAddress E (Recipient i) params True)) (\<lambda>recipientScript.
      andThen (buildMemoScript E (Memo i)) (\<lambda>memoScript.
      andThen (outputs_by_script E NetworkEnumForBTCP2TR (memoOutputVBytes E memoScript * byteFee)
                 recipientScript pkData i) (\<lambda>outs.
      andThen (add_taproot_inputs E pkData Map.empty (utxos_of i)) (\<lambda>(ins, prevOuts).
      andThen (add_outputs E (\<lambda>a. decodeAddressForNet E a params True) outs) (\<lambda>txOuts.
        Inr (\<lparr>TxVersion = 1, TxIns = ins, TxOuts = txOuts @ memo_output memoScript\<rparr>, prevOuts)))))))))"

definition buildForBTCP2TR ::
  "('p, 'a, 'k) btcd \<Rightarrow> Ingredient \<Rightarrow> utxo_error + string list \<times> string"
where
  "buildForBTCP2TR E i =
     andThen (unsigned_BTCP2TR E i) (\<lambda>(msgTx, prevOuts).
     andThen (hash_inputs (\<lambda>idx _. CalcTaprootSignatureHash E msgTx idx prevOuts) 0 (utxos_of i))
       (\<lambda>hashes.
     andThen (serialized E msgTx) (\<lambda>hex. Inr (hashes, hex))))"

definition unsigned_LTC :: "('p, 'a, 'k) btcd \<Rightarrow> Ingredient \<Rightarrow> utxo_error + MsgTx" where
  "unsigned_LTC E i =
     (let params = ltcParams E in
      andThen (orErr RecipientScript (scriptForAddress E (Recipient i) params True)) (\<lambda>recipientScript.
      andThen (orErr SenderScript (scriptForAddress E (Sender i) params True)) (\<lambda>changeScript.
      andThen (outputs_by_script E NetworkEnumForLTC 0 recipientScript changeScript i) (\<lambda>outs.
      andThen (add_inputs E int_index MaxTxInSequenceNum (utxos_of i)) (\<lambda>ins.
      andThen (add_outputs E (\<lambda>a. DecodeAddress E a params) outs) (\<lambda>txOuts.
        Inr \<lparr>TxVersion = 1, TxIns = ins, TxOuts = txOuts\<rparr>))))))"

definition buildForLTC ::
  "('p, 'a, 'k) btcd \<Rightarrow> Ingredient \<Rightarrow> utxo_error + string list \<times> string"
where
  "buildForLTC E i =
     andThen (unsigned_LTC E i) (\<lambda>msgTx.
     andThen (sender_script E (ltcParams E) i) (\<lambda>pkData.
     andThen (hash_inputs (witness_hash E msgTx pkData) 0 (utxos_of i)) (\<lambda>hashes.
     andThen (serialized E msgTx) (\<lambda>hex. Inr (hashes, hex)))))"

text \<open>Dogecoin: fixed output sizes and a least fee.\<close>

definition at_least_doge_fee :: "i64 \<Rightarrow> i64" where
  "at_least_doge_fee fee = (if fee <s dogeMinFee then dogeMinFee else fee)"

definition unsigned_DOGE :: "('p, 'a, 'k) btcd \<Rightarrow> Ingredient \<Rightarrow> utxo_error + MsgTx" where
  "unsigned_DOGE E i =
     (let params = dogeParams E; byteFee = parse_i64 (ByteFee i) in
      andThen (buildMemoScript E (Memo i)) (\<lambda>memoScript.
      let memoFee = memoOutputVBytes E memoScript * byteFee in
      andThen (choose_outputs DogeDust (totalHas i)
                 (at_least_doge_fee (estimateFee NetworkEnumForDOGE byteFee (numInputs i) 1 + memoFee))
                 (at_least_doge_fee (estimateFee NetworkEnumForDOGE byteFee (numInputs i) 2 + memoFee))
                 i) (\<lambda>outs.
      andThen (add_inputs E uint_index MaxTxInSequenceNum (utxos_of i)) (\<lambda>ins.
      andThen (add_outputs E (\<lambda>a. DecodeAddress E a params) outs) (\<lambda>txOuts.
        Inr \<lparr>TxVersion = 1, TxIns = ins, TxOuts = txOuts @ memo_output memoScript\<rparr>)))))"

definition buildForDOGE ::
  "('p, 'a, 'k) btcd \<Rightarrow> Ingredient \<Rightarrow> utxo_error + string list \<times> string"
where
  "buildForDOGE E i =
     andThen (unsigned_DOGE E i) (\<lambda>msgTx.
     andThen (sender_script E (dogeParams E) i) (\<lambda>pkData.
     andThen (hash_inputs (legacy_hash E msgTx pkData) 0 (utxos_of i)) (\<lambda>hashes.
     andThen (serialized E msgTx) (\<lambda>hex. Inr (hashes, hex)))))"

text \<open>Syscoin: the result is a PSBT whose inputs carry the sender's script.\<close>

definition unsigned_SYS :: "('p, 'a, 'k) btcd \<Rightarrow> Ingredient \<Rightarrow> utxo_error + MsgTx" where
  "unsigned_SYS E i =
     (let params = sysParams E in
      andThen (orErr RecipientScript (scriptForAddress E (Recipient i) params True)) (\<lambda>recipientScript.
      andThen (orErr SenderScript (scriptForAddress E (Sender i) params True)) (\<lambda>changeScript.
      andThen (outputs_by_script E NetworkEnumForSYS 0 recipientScript changeScript i) (\<lambda>outs.
      andThen (add_inputs E uint_index (MaxTxInSequenceNum - 2) (utxos_of i)) (\<lambda>ins.
      andThen (add_outputs E (\<lambda>a. DecodeAddress E a params) outs) (\<lambda>txOuts.
        Inr \<lparr>TxVersion = 2, TxIns = ins, TxOuts = txOuts\<rparr>))))))"

fun set_witness_utxos ::
  "('p, 'a, 'k) btcd \<Rightarrow> bytes \<Rightarrow> nat \<Rightarrow> 'k \<Rightarrow> UtxoInfo list \<Rightarrow> utxo_error + 'k"
where
  "set_witness_utxos E pkData idx packet [] = Inr packet"
| "set_witness_utxos E pkData idx packet (u # us) =
     (let packet = SetWitnessUtxo E idx
            \<lparr>OutValue = parse_i64 (Value u), PkScript = pkData\<rparr> packet
      in if \<not> SanityCheck E packet then Inl PsbtFailed
         else set_witness_utxos E pkData (Suc idx) packet us)"

definition buildForSYS ::
  "('p, 'a, 'k) btcd \<Rightarrow> Ingredient \<Rightarrow> utxo_error + string list \<times> string"
where
  "buildForSYS E i =
     andThen (unsigned_SYS E i) (\<lambda>msgTx.
     andThen (sender_script E (sysParams E) i) (\<lambda>pkData.
     andThen (hash_inputs (witness_hash E msgTx pkData) 0 (utxos_of i)) (\<lambda>hashes.
     andThen (orErr PsbtFailed (PsbtNew E msgTx)) (\<lambda>packet.
     andThen (set_witness_utxos E pkData 0 packet (utxos_of i)) (\<lambda>packet.
     andThen (orErr SerializeFailed (PsbtSerialize E packet)) (\<lambda>b.
       Inr (hashes, hex_encode b)))))))"

section \<open>The transaction builder\<close>

definition NewTxBuilder :: "Ingredient option \<Rightarrow> string \<Rightarrow> TxBuilder" where
  "NewTxBuilder ti net =
     \<lparr>TheIngredient = ti, network = net, unsignedHex = [], sigHash = [], txHash = []\<rparr>"

fun check_values :: "UtxoInfo option list \<Rightarrow> utxo_error + unit" where
  "check_values [] = Inr ()"
| "check_values (None # us) = Inl NilUtxo"
| "check_values (Some u # us) =
     (if positive_i64 (Value u) then check_values us else Inl InvalidUtxoValue)"

definition check_ingredient ::
  "('p, 'a, 'k) btcd \<Rightarrow> string \<Rightarrow> Ingredient option \<Rightarrow> utxo_error + Ingredient"
where
  "check_ingredient E net ti =
     (case ti of
        None \<Rightarrow> Inl IngredientIsNil
      | Some i \<Rightarrow>
          if IsEmpty (Utxos i) then Inl NoUtxos
          else if \<not> ValidAddress E (Recipient i) net then Inl InvalidRecipient
          else if \<not> ValidAddress E (Sender i) net then Inl InvalidSender
          else if \<not> positive_i64 (ByteFee i) then Inl InvalidByteFee
          else if Amount i \<noteq> MagicNumberForMaxAmount \<and> \<not> positive_i64 (Amount i)
          then Inl InvalidAmount
          else andThen (check_values (the (List (the (Utxos i))))) (\<lambda>_. Inr i))"

definition build_for_network ::
  "('p, 'a, 'k) btcd \<Rightarrow> string \<Rightarrow> Ingredient \<Rightarrow> utxo_error + string list \<times> string"
where
  "build_for_network E net i =
     (if net = NetworkEnumForBTC then buildForBTC E i
      else if net = NetworkEnumForBTCP2TR then buildForBTCP2TR E i
      else if net = NetworkEnumForLTC then buildForLTC E i
      else if net = NetworkEnumForDOGE then buildForDOGE E i
      else if net = NetworkEnumForSYS then buildForSYS E (i\<lparr>IsPSBT := True\<rparr>)
      else Inl UnsupportedNetwork)"

definition Build :: "('p, 'a, 'k) btcd \<Rightarrow> TxBuilder \<Rightarrow> TxBuilder \<times> (utxo_error + unit)" where
  "Build E tx =
     (case check_ingredient E (network tx) (TheIngredient tx) of
        Inl e \<Rightarrow> (tx, Inl e)
      | Inr i \<Rightarrow>
          let i' = (if network tx = NetworkEnumForSYS then i\<lparr>IsPSBT := True\<rparr> else i);
              tx = tx\<lparr>TheIngredient := Some i', sigHash := [], unsignedHex := [], txHash := []\<rparr>
          in (case build_for_network E (network tx) i of
                Inl e \<Rightarrow> (tx, Inl e)
              | Inr (hashes, hex) \<Rightarrow> (tx\<lparr>sigHash := hashes, unsignedHex := hex\<rparr>, Inr ())))"

text \<open>The hashes of the inputs of a PSBT.\<close>

fun extract_hashes ::
  "('p, 'a, 'k) btcd \<Rightarrow> MsgTx \<Rightarrow> nat \<Rightarrow> psbt_input list \<Rightarrow> utxo_error + string list"
where
  "extract_hashes E utx idx [] = Inr []"
| "extract_hashes E utx idx (input # inputs) =
     andThen
       (case (WitnessUtxo input, NonWitnessUtxo input) of
          (Some w, _) \<Rightarrow>
            orErr SigHashFailed (CalcWitnessSigHash E (PkScript w) utx idx (OutValue w))
        | (None, Some prev) \<Rightarrow>
            if idx \<ge> length (TxIns utx) then Inl InputOutOfRange
            else
              let k = unat (PreviousIndex (TxIns utx ! idx))
              in if k \<ge> length (TxOuts prev) then Inl PrevoutOutOfRange
                 else orErr SigHashFailed (CalcSignatureHash E (PkScript (TxOuts prev ! k)) utx idx)
        | (None, None) \<Rightarrow> Inl InputWithoutUtxo)
       (\<lambda>h. andThen (extract_hashes E utx (Suc idx) inputs) (\<lambda>hs. Inr (hex_encode h # hs)))"

definition extractSigHashes :: "('p, 'a, 'k) btcd \<Rightarrow> 'k \<Rightarrow> utxo_error + string list" where
  "extractSigHashes E packet = extract_hashes E (UnsignedTx E packet) 0 (PsbtInputs E packet)"

definition psbt_ingredient :: "string \<Rightarrow> Ingredient" where
  "psbt_ingredient publicKey =
     \<lparr>TxType = [], ContractAddress = [], Sender = [], SenderPublicKey = publicKey, Recipient = [],
      Amount = [], ByteFee = [], Utxos = None, IsPSBT = True, InscriptionIdsForHash = Map.empty,
      Memo = []\<rparr>"

definition NewTxBuilderFromUnsignedHex ::
  "('p, 'a, 'k) btcd \<Rightarrow> string \<Rightarrow> string \<Rightarrow> string \<Rightarrow> utxo_error + TxBuilder"
where
  "NewTxBuilderFromUnsignedHex E hex publicKey net =
     andThen (orErr HexInvalid (hex_decode hex)) (\<lambda>raw.
     andThen (orErr PsbtFailed (PsbtParse E raw)) (\<lambda>packet.
     andThen (extractSigHashes E packet) (\<lambda>sigHashes.
       Inr \<lparr>TheIngredient = Some (psbt_ingredient publicKey), network = net, unsignedHex = hex,
            sigHash = sigHashes, txHash = []\<rparr>)))"

section \<open>Signing\<close>

definition SigHashAll :: u8 where "SigHashAll = 1"

fun sign_hashes :: "(bytes \<Rightarrow> bytes option) \<Rightarrow> string list \<Rightarrow> utxo_error + string list" where
  "sign_hashes sign [] = Inr []"
| "sign_hashes sign (v # vs) =
     andThen (orErr HexInvalid (hex_decode v)) (\<lambda>h.
     andThen (orErr SignFailed (sign h)) (\<lambda>sig.
     andThen (sign_hashes sign vs) (\<lambda>sigs. Inr (hex_encode sig # sigs))))"

definition signTaproot :: "('p, 'a, 'k) btcd \<Rightarrow> TxBuilder \<Rightarrow> bytes \<Rightarrow> utxo_error + string" where
  "signTaproot E tx privateKey =
     andThen (sign_hashes (SignTweakedSchnorr E privateKey) (sigHash tx)) (\<lambda>signatures.
       Inr (strings_Join signatures ''_''))"

definition Sign :: "('p, 'a, 'k) btcd \<Rightarrow> TxBuilder \<Rightarrow> bytes \<Rightarrow> utxo_error + string" where
  "Sign E tx privateKey =
     (if length (sigHash tx) < 1 then Inl NoSigHash
      else if network tx = NetworkEnumForBTCP2TR then signTaproot E tx privateKey
      else andThen
        (sign_hashes (\<lambda>h. map_option (\<lambda>sig. sig @ [SigHashAll]) (SignECDSA E privateKey h))
           (sigHash tx))
        (\<lambda>signatures. Inr (strings_Join signatures ''_'')))"

fun decode_signatures :: "string list \<Rightarrow> utxo_error + bytes list" where
  "decode_signatures [] = Inr []"
| "decode_signatures (v # vs) =
     andThen (orErr HexInvalid (hex_decode v)) (\<lambda>b.
     andThen (decode_signatures vs) (\<lambda>bs. Inr (b # bs)))"

text \<open>The inputs of the transaction with their signatures.\<close>

definition with_inputs :: "MsgTx \<Rightarrow> TxIn list \<Rightarrow> MsgTx" where
  "with_inputs msgTx ins = msgTx\<lparr>TxIns := ins\<rparr>"

definition witness_inputs :: "bytes \<Rightarrow> MsgTx \<Rightarrow> bytes list \<Rightarrow> MsgTx" where
  "witness_inputs pkData msgTx sigs =
     with_inputs msgTx (map2 (\<lambda>txin sig. txin\<lparr>Witness := [sig, pkData]\<rparr>) (TxIns msgTx) sigs)"

definition taproot_inputs ::
  "('p, 'a, 'k) btcd \<Rightarrow> MsgTx \<Rightarrow> bytes list \<Rightarrow> utxo_error + MsgTx"
where
  "taproot_inputs E msgTx sigs =
     (if list_ex (\<lambda>sig. length sig \<noteq> SchnorrSignatureSize E) sigs then Inl TaprootSignatureSize
      else Inr (with_inputs msgTx
        (map2 (\<lambda>txin sig. txin\<lparr>Witness := [sig]\<rparr>) (TxIns msgTx) sigs)))"

fun script_inputs ::
  "('p, 'a, 'k) btcd \<Rightarrow> bytes \<Rightarrow> (TxIn \<times> bytes) list \<Rightarrow> utxo_error + TxIn list"
where
  "script_inputs E pkData [] = Inr []"
| "script_inputs E pkData ((txin, sig) # rest) =
     andThen (orErr OutputScript (PushDataScript E sig pkData)) (\<lambda>script.
     andThen (script_inputs E pkData rest) (\<lambda>ins.
       Inr (txin\<lparr>SignatureScript := script\<rparr> # ins)))"

fun update_packet ::
  "('p, 'a, 'k) btcd \<Rightarrow> bytes \<Rightarrow> nat \<Rightarrow> 'k \<Rightarrow> bytes list \<Rightarrow> utxo_error + 'k"
where
  "update_packet E pkData idx packet [] = Inr packet"
| "update_packet E pkData idx packet (sig # sigs) =
     (case UpdaterSign E packet idx sig pkData of
        None \<Rightarrow> Inl PsbtFailed
      | Some (outcome, packet) \<Rightarrow>
          if outcome \<noteq> 0 then Inl PsbtFailed
          else update_packet E pkData (Suc idx) packet sigs)"

definition finish_packet ::
  "('p, 'a, 'k) btcd \<Rightarrow> bytes \<Rightarrow> 'k \<Rightarrow> bytes list \<Rightarrow> utxo_error + MsgTx"
where
  "finish_packet E pkData packet sigs =
     (if \<not> SanityCheck E packet then Inl PsbtFailed
      else andThen (update_packet E pkData 0 packet sigs) (\<lambda>packet.
           andThen (orErr PsbtFailed (MaybeFinalizeAll E packet)) (\<lambda>packet.
             orErr PsbtFailed (PsbtExtract E packet))))"

text \<open>The signed transaction by network, with the hash the code records for it.\<close>

definition apply_signatures ::
  "('p, 'a, 'k) btcd \<Rightarrow> string \<Rightarrow> bool \<Rightarrow> bytes \<Rightarrow> 'k \<Rightarrow> MsgTx \<Rightarrow> bytes list \<Rightarrow>
     utxo_error + MsgTx \<times> string"
where
  "apply_signatures E net isPSBT pkData packet msgTx sigs =
     (let hashed = map_sum id (\<lambda>t. (t, TxHashString E t)) in
      if net = NetworkEnumForBTC then
        (if isPSBT then hashed (finish_packet E pkData packet sigs)
         else hashed (Inr (witness_inputs pkData msgTx sigs)))
      else if net = NetworkEnumForBTCP2TR then hashed (taproot_inputs E msgTx sigs)
      else if net = NetworkEnumForLTC then hashed (Inr (witness_inputs pkData msgTx sigs))
      else if net = NetworkEnumForDOGE then
        hashed (map_sum id (with_inputs msgTx) (script_inputs E pkData (zip (TxIns msgTx) sigs)))
      else if net = NetworkEnumForSYS then hashed (finish_packet E pkData packet sigs)
      else Inr (msgTx, []))"

definition parse_unsigned ::
  "('p, 'a, 'k) btcd \<Rightarrow> bool \<Rightarrow> bytes \<Rightarrow> utxo_error + 'k \<times> MsgTx"
where
  "parse_unsigned E isPSBT unsignedBytes =
     (if isPSBT then
        andThen (orErr DeserializeFailed (PsbtParse E unsignedBytes)) (\<lambda>packet.
          Inr (packet, UnsignedTx E packet))
      else
        andThen (orErr DeserializeFailed (TxDeserialize E unsignedBytes)) (\<lambda>msgTx.
          Inr (EmptyPacket E, msgTx)))"

definition signed_tx ::
  "('p, 'a, 'k) btcd \<Rightarrow> TxBuilder \<Rightarrow> string \<Rightarrow> bool \<Rightarrow> utxo_error + bytes \<times> string"
where
  "signed_tx E tx signature isDerFormat =
     (if length (sigHash tx) < 1 then Inl NoSigHash
      else andThen (orErr IngredientIsNil (TheIngredient tx)) (\<lambda>i.
      andThen (orErr HexInvalid (hex_decode (SenderPublicKey i))) (\<lambda>pkData.
      andThen (orErr HexInvalid (hex_decode (unsignedHex tx))) (\<lambda>unsignedBytes.
      andThen (parse_unsigned E (IsPSBT i) unsignedBytes) (\<lambda>(packet, msgTx).
        let tmp = strings_Split signature CHR ''_''
        in if length tmp \<noteq> length (TxIns msgTx) then Inl SignatureCount
           else if isDerFormat then Inl DerUnsupported
           else andThen (decode_signatures tmp) (\<lambda>sigs.
                andThen (apply_signatures E (network tx) (IsPSBT i) pkData packet msgTx sigs)
                  (\<lambda>(msgTx, hashString).
                andThen (orErr SerializeFailed (TxSerialize E msgTx)) (\<lambda>b.
                  Inr (b, hashString)))))))))"

definition ConcatSignature ::
  "('p, 'a, 'k) btcd \<Rightarrow> TxBuilder \<Rightarrow> string \<Rightarrow> bool \<Rightarrow> TxBuilder \<times> (utxo_error + string)"
where
  "ConcatSignature E tx signature isDerFormat =
     (case signed_tx E tx signature isDerFormat of
        Inl e \<Rightarrow> (tx, Inl e)
      | Inr (b, hashString) \<Rightarrow> (tx\<lparr>txHash := hashString\<rparr>, Inr (hex_encode b)))"

definition GetTxHash :: "TxBuilder \<Rightarrow> string" where "GetTxHash tx = txHash tx"
definition GetSigHash :: "TxBuilder \<Rightarrow> string list" where "GetSigHash tx = sigHash tx"
definition GetUnsignedHex :: "TxBuilder \<Rightarrow> string" where "GetUnsignedHex tx = unsignedHex tx"
definition SetSigHash :: "TxBuilder \<Rightarrow> string list \<Rightarrow> TxBuilder" where
  "SetSigHash tx hashes = tx\<lparr>sigHash := hashes\<rparr>"
definition SetUnsignedHex :: "TxBuilder \<Rightarrow> string \<Rightarrow> TxBuilder" where
  "SetUnsignedHex tx hex = tx\<lparr>unsignedHex := hex\<rparr>"

end
