(* ===== verification/UtxoFees.thy ===== *)
theory UtxoFees
  imports UtxoTx
begin

text \<open>
  What the transfers of \<open>UtxoTx\<close> promise: where the money goes, which hashes are signed, and how
  the signatures reach their inputs. Amounts and fees are read as integers here; the hypotheses
  say that the sums and products stay in the range of \<open>int64\<close>.
\<close>

section \<open>Fees and amounts as integers\<close>

lemma sint_of_int: "- (2 ^ 63) \<le> k \<Longrightarrow> k < 2 ^ 63 \<Longrightarrow> sint (word_of_int k :: i64) = k"
  by (simp add: signed_of_int signed_take_bit_int_eq_self)

lemma sint_bounds: "- (2 ^ 63) \<le> sint (w :: i64)" "sint w < 2 ^ 63"
  using sint_greater_eq [of w] sint_less [of w] by simp_all

definition value_sum :: "UtxoInfo list \<Rightarrow> int" where
  "value_sum us = (\<Sum>u \<leftarrow> us. sint (parse_i64 (Value u)))"

definition scripts_size :: "('p, 'a, 'k) btcd \<Rightarrow> bytes list \<Rightarrow> int" where
  "scripts_size E scripts = (\<Sum>s \<leftarrow> scripts. sint (outputVBytes E s))"

definition paid_out :: "TxOut list \<Rightarrow> int" where
  "paid_out outs = (\<Sum>out \<leftarrow> outs. sint (OutValue out))"

lemma totalHas_sum: "totalHas i = word_of_int (value_sum (utxos_of i))"
proof -
  have "foldl (\<lambda>acc v. acc + parse_i64 (Value v)) a us = a + word_of_int (value_sum us)" for a us
    by (induction us arbitrary: a) (simp_all add: value_sum_def algebra_simps)
  then show ?thesis by (simp add: totalHas_def)
qed

lemma estimateFeeForScripts_int:
  "estimateFeeForScripts E net byteFee (numInputs i) scripts =
     word_of_int ((int (length (utxos_of i)) * sint (perInputVBytes net) + 11 + scripts_size E scripts) *
       sint byteFee)"
proof -
  have "foldl (\<lambda>vbytes script. vbytes + outputVBytes E script) a scripts =
      a + word_of_int (scripts_size E scripts)" for a
    by (induction scripts arbitrary: a) (simp_all add: scripts_size_def algebra_simps)
  then show ?thesis
    by (simp add: estimateFeeForScripts_def numInputs_def bytesOverhead_def)
qed

text \<open>
  The choice of the outputs, when no difference leaves the range of \<open>int64\<close>: a sweep pays
  everything but the fee; a payment with change leaves exactly the fee with the change output;
  and a payment without change leaves at least the fee, and less than a change output would need.
\<close>

lemma choose_outputs_exact:
  assumes outs: "choose_outputs dust (word_of_int has) (word_of_int fee) (word_of_int feeWithChange) i = Inr outs"
    and range: "0 \<le> has" "has < 2 ^ 63" "0 \<le> fee" "fee < 2 ^ 62" "0 \<le> feeWithChange" "feeWithChange < 2 ^ 62"
    and amount: "Amount i = MagicNumberForMaxAmount \<or> sint (parse_i64 (Amount i)) < 2 ^ 62"
    and dust: "0 < sint dust"
  shows "(\<exists>v. outs = [(Recipient i, v)] \<and> sint dust \<le> sint v \<and>
            (if Amount i = MagicNumberForMaxAmount then sint v = has - fee
             else v = parse_i64 (Amount i) \<and> fee \<le> has - sint v \<and>
                  has - sint v < feeWithChange + sint dust)) \<or>
         (\<exists>v c. outs = [(Recipient i, v), (Sender i, c)] \<and> sint dust \<le> sint v \<and> sint dust \<le> sint c \<and>
            Amount i \<noteq> MagicNumberForMaxAmount \<and> v = parse_i64 (Amount i) \<and>
            has - sint v - sint c = feeWithChange)"
proof (cases "Amount i = MagicNumberForMaxAmount")
  case True
  have "sint (word_of_int has - word_of_int fee :: i64) = has - fee"
    using sint_of_int [of "has - fee"] range by simp
  with True outs show ?thesis
    by (auto simp: choose_outputs_def Let_def word_sless_alt split: if_splits)
next
  case False
  let ?v = "parse_i64 (Amount i)"
  have v: "sint dust \<le> sint ?v" "sint ?v < 2 ^ 62"
    using False outs amount by (auto simp: choose_outputs_def Let_def word_sless_alt split: if_splits)
  have s: "sint (word_of_int has - word_of_int f - ?v :: i64) = has - f - sint ?v"
    if "0 \<le> f" "f < 2 ^ 62" for f
    using sint_of_int [of "has - f - sint ?v"] range v dust that by simp
  show ?thesis
    using False outs v s [OF range(3,4)] s [OF range(5,6)]
    by (auto simp: choose_outputs_def Let_def word_sless_alt word_sle_eq split: if_splits)
qed

lemma ParseInt_range: "ParseInt 64 s = (v, None) \<Longrightarrow> - (2 ^ 63) \<le> v \<and> v < 2 ^ 63"
  by (auto simp: ParseInt_def Let_def split: list.splits prod.splits option.splits num_error.splits if_splits)

lemma positive_sint:
  assumes "positive_i64 s"
  shows "0 < sint (parse_i64 s)"
proof -
  from assms obtain v where v: "ParseInt 64 s = (v, None)" "0 < v"
    by (auto simp: positive_i64_def split: prod.splits option.splits)
  have "sint (parse_i64 s) = v"
    using sint_of_int [of v] ParseInt_range [OF v(1)] by (simp add: parse_i64_def v(1))
  with v(2) show ?thesis by simp
qed

lemma check_values_positive:
  "check_values us = Inr () \<Longrightarrow> None \<notin> set us \<and> 0 \<le> value_sum (map the us)"
proof (induction us rule: check_values.induct)
  case (3 u us)
  then have "positive_i64 (Value u)" "check_values us = Inr ()" by (auto split: if_splits)
  with 3 positive_sint [of "Value u"] show ?case by (simp add: value_sum_def)
qed (simp_all add: value_sum_def)

section \<open>The unsigned transaction of a network\<close>

definition params_of :: "('p, 'a, 'k) btcd \<Rightarrow> string \<Rightarrow> 'p" where
  "params_of E net =
     (if net = NetworkEnumForLTC then ltcParams E
      else if net = NetworkEnumForDOGE then dogeParams E
      else if net = NetworkEnumForSYS then sysParams E
      else btcParams E)"

lemma params_of_simps [simp]:
  "params_of E NetworkEnumForBTC = btcParams E" "params_of E NetworkEnumForBTCP2TR = btcParams E"
  "params_of E NetworkEnumForLTC = ltcParams E" "params_of E NetworkEnumForDOGE = dogeParams E"
  "params_of E NetworkEnumForSYS = sysParams E"
  by (simp_all add: params_of_def network_defs)

definition unsigned_tx :: "('p, 'a, 'k) btcd \<Rightarrow> string \<Rightarrow> Ingredient \<Rightarrow> utxo_error + MsgTx" where
  "unsigned_tx E net i =
     (if net = NetworkEnumForBTC then unsigned_BTC E i
      else if net = NetworkEnumForBTCP2TR then map_sum id fst (unsigned_BTCP2TR E i)
      else if net = NetworkEnumForLTC then unsigned_LTC E i
      else if net = NetworkEnumForDOGE then unsigned_DOGE E i
      else if net = NetworkEnumForSYS then unsigned_SYS E i
      else Inl UnsupportedNetwork)"

text \<open>The script an address is paid with, the memo script, and the dust limit.\<close>

definition script_to :: "('p, 'a, 'k) btcd \<Rightarrow> string \<Rightarrow> string \<Rightarrow> bytes" where
  "script_to E net a =
     (case DecodeAddress E a (params_of E net) of
        None \<Rightarrow> []
      | Some addr \<Rightarrow> (case PayToAddrScript E addr of None \<Rightarrow> [] | Some s \<Rightarrow> s))"

definition memo_script :: "('p, 'a, 'k) btcd \<Rightarrow> string \<Rightarrow> Ingredient \<Rightarrow> bytes option" where
  "memo_script E net i =
     (if net = NetworkEnumForLTC \<or> net = NetworkEnumForSYS then None
      else case buildMemoScript E (Memo i) of Inl _ \<Rightarrow> None | Inr m \<Rightarrow> m)"

definition dust_of :: "string \<Rightarrow> int" where
  "dust_of net = (if net = NetworkEnumForDOGE then 100000 else 546)"

text \<open>The fee the network asks for a transaction that pays to the given scripts.\<close>

definition memo_size :: "('p, 'a, 'k) btcd \<Rightarrow> string \<Rightarrow> Ingredient \<Rightarrow> int" where
  "memo_size E net i = (case memo_script E net i of None \<Rightarrow> 0 | Some s \<Rightarrow> sint (outputVBytes E s))"

definition fee_for :: "('p, 'a, 'k) btcd \<Rightarrow> string \<Rightarrow> Ingredient \<Rightarrow> bytes list \<Rightarrow> int" where
  "fee_for E net i scripts =
     (let rate = sint (parse_i64 (ByteFee i)); n = int (length (utxos_of i))
      in if net = NetworkEnumForDOGE
         then max 5000000 ((n * 148 + 34 * int (length scripts) + 11 + memo_size E net i) * rate)
         else (n * sint (perInputVBytes net) + 11 + scripts_size E scripts + memo_size E net i) * rate)"

definition in_range :: "('p, 'a, 'k) btcd \<Rightarrow> string \<Rightarrow> Ingredient \<Rightarrow> bool" where
  "in_range E net i \<longleftrightarrow>
     value_sum (utxos_of i) < 2 ^ 63 \<and>
     (Amount i = MagicNumberForMaxAmount \<or> sint (parse_i64 (Amount i)) < 2 ^ 62) \<and>
     0 \<le> sint (outputVBytes E (script_to E net (Recipient i))) \<and>
     0 \<le> sint (outputVBytes E (script_to E net (Sender i))) \<and>
     0 \<le> memo_size E net i \<and>
     fee_for E net i [script_to E net (Recipient i), script_to E net (Sender i)] < 2 ^ 62"

text \<open>What the outputs \<open>pays\<close> have to do with the money of the inputs.\<close>

definition balanced :: "('p, 'a, 'k) btcd \<Rightarrow> string \<Rightarrow> Ingredient \<Rightarrow> TxOut list \<Rightarrow> bool" where
  "balanced E net i pays \<longleftrightarrow>
     (let rest = value_sum (utxos_of i) - paid_out pays;
          fee = fee_for E net i (map PkScript pays)
      in (if length pays = 2 \<or> Amount i = MagicNumberForMaxAmount then rest = fee
          else fee \<le> rest \<and>
               rest < fee_for E net i (map PkScript pays @ [script_to E net (Sender i)]) + dust_of net) \<and>
         list_all (\<lambda>p. dust_of net \<le> sint (OutValue p)) pays)"

definition pays_to :: "('p, 'a, 'k) btcd \<Rightarrow> string \<Rightarrow> (string \<times> i64) list \<Rightarrow> TxOut list" where
  "pays_to E net outs = map (\<lambda>(a, v). \<lparr>OutValue = v, PkScript = script_to E net a\<rparr>) outs"

lemma fee_for_pays: "fee_for E net i (map PkScript (pays_to E net outs)) = fee_for E net i (map (script_to E net \<circ> fst) outs)"
  by (simp add: pays_to_def o_def case_prod_unfold)

lemma decodeAddressForNet_sub: "decodeAddressForNet E a params b = Some addr \<Longrightarrow> DecodeAddress E a params = Some addr"
  by (auto simp: decodeAddressForNet_def split: option.splits if_splits address_kind.splits)

lemma scriptForAddress_to:
  "scriptForAddress E a (params_of E net) b = Some s \<Longrightarrow> script_to E net a = s"
  by (auto simp: scriptForAddress_def script_to_def split: option.splits dest: decodeAddressForNet_sub)

lemma add_outputs_to:
  "(\<And>a addr. decode a = Some addr \<Longrightarrow> DecodeAddress E a (params_of E net) = Some addr) \<Longrightarrow>
     add_outputs E decode outs = Inr txOuts \<Longrightarrow> txOuts = pays_to E net outs"
proof (induction E decode outs arbitrary: txOuts rule: add_outputs.induct)
  case (1 E decode)
  then show ?case by (simp add: pays_to_def)
next
  case (2 E decode toAddr v outs)
  then obtain addr s rest where *: "decode toAddr = Some addr" "PayToAddrScript E addr = Some s"
    "add_outputs E decode outs = Inr rest" "txOuts = \<lparr>OutValue = v, PkScript = s\<rparr> # rest"
    by (auto simp: andThen_eq_Inr)
  with 2 show ?case by (auto simp: pays_to_def script_to_def)
qed

lemma fee_for_mono:
  assumes "0 < sint (parse_i64 (ByteFee i))" "0 \<le> sint (outputVBytes E s)"
  shows "fee_for E net i [r] \<le> fee_for E net i [r, s]"
proof (cases "net = NetworkEnumForDOGE")
  case True
  have "(int (length (utxos_of i)) * 148 + 34 * int (length [r]) + 11 + memo_size E net i) *
      sint (parse_i64 (ByteFee i)) \<le>
    (int (length (utxos_of i)) * 148 + 34 * int (length [r, s]) + 11 + memo_size E net i) *
      sint (parse_i64 (ByteFee i))"
    using assms by (intro mult_right_mono) simp_all
  then show ?thesis unfolding fee_for_def Let_def if_P [OF True] by (rule max.mono [OF order_refl])
next
  case False
  with assms show ?thesis
    by (auto simp: fee_for_def scripts_size_def Let_def intro!: mult_right_mono)
qed

text \<open>From the choice of the outputs to the balance, for both kinds of estimate.\<close>

lemma balanced_choice:
  assumes outs: "choose_outputs dust (totalHas i) (word_of_int (fee_for E net i [script_to E net (Recipient i)]))
      (word_of_int (fee_for E net i [script_to E net (Recipient i), script_to E net (Sender i)])) i = Inr outs"
    and dust: "sint dust = dust_of net"
    and range: "in_range E net i" and has: "0 \<le> value_sum (utxos_of i)"
    and rate: "0 < sint (parse_i64 (ByteFee i))"
  shows "balanced E net i (pays_to E net outs)"
proof -
  let ?one = "fee_for E net i [script_to E net (Recipient i)]"
  let ?two = "fee_for E net i [script_to E net (Recipient i), script_to E net (Sender i)]"
  have per: "0 \<le> sint (perInputVBytes net)" by (simp add: perInputVBytes_def size_defs)
  have "?one \<le> ?two"
    using range rate by (intro fee_for_mono) (simp_all add: in_range_def)
  moreover have "0 \<le> ?one"
    using range rate per by (auto simp: fee_for_def in_range_def scripts_size_def Let_def)
  ultimately have fees: "0 \<le> ?one" "?one < 2 ^ 62" "0 \<le> ?two" "?two < 2 ^ 62"
    using range by (auto simp: in_range_def)
  have pos: "0 < sint dust" by (simp add: dust dust_of_def)
  have "value_sum (utxos_of i) < 2 ^ 63"
    "Amount i = MagicNumberForMaxAmount \<or> sint (parse_i64 (Amount i)) < 2 ^ 62"
    using range by (auto simp: in_range_def)
  from choose_outputs_exact [OF outs [unfolded totalHas_sum] has this(1) fees this(2) pos]
  show ?thesis
    by (auto simp: balanced_def pays_to_def paid_out_def Let_def dust)
qed

text \<open>Each network's transaction is balanced.\<close>

lemma outputs_by_script_balanced:
  assumes outs: "outputs_by_script E net (memoOutputVBytes E (memo_script E net i) * parse_i64 (ByteFee i))
      (script_to E net (Recipient i)) (script_to E net (Sender i)) i = Inr outs"
    and net: "net \<noteq> NetworkEnumForDOGE"
    and hyps: "in_range E net i" "0 \<le> value_sum (utxos_of i)" "0 < sint (parse_i64 (ByteFee i))"
  shows "balanced E net i (pays_to E net outs)"
proof (rule balanced_choice [of DefaultDust])
  have memo: "memoOutputVBytes E (memo_script E net i) = word_of_int (memo_size E net i)"
    by (simp add: memoOutputVBytes_def memo_size_def split: option.split)
  show "choose_outputs DefaultDust (totalHas i)
      (word_of_int (fee_for E net i [script_to E net (Recipient i)]))
      (word_of_int (fee_for E net i [script_to E net (Recipient i), script_to E net (Sender i)])) i =
    Inr outs"
    using outs net
    by (simp add: outputs_by_script_def Let_def estimateFeeForScripts_int memo fee_for_def algebra_simps)
  show "sint DefaultDust = dust_of net"
    using net by (simp add: DefaultDust_def dust_of_def)
qed (use hyps in simp_all)

lemma at_least_doge_fee_int:
  "0 \<le> k \<Longrightarrow> k < 2 ^ 63 \<Longrightarrow> at_least_doge_fee (word_of_int k) = word_of_int (max 5000000 k)"
  using sint_of_int [of k] by (simp add: at_least_doge_fee_def dogeMinFee_def word_sless_alt max_def)

lemma estimateFee_int:
  "estimateFee NetworkEnumForDOGE (parse_i64 (ByteFee i)) (numInputs i) (word_of_int k) +
     memoOutputVBytes E (memo_script E NetworkEnumForDOGE i) * parse_i64 (ByteFee i) =
   word_of_int ((int (length (utxos_of i)) * 148 + 34 * k + 11 + memo_size E NetworkEnumForDOGE i) *
     sint (parse_i64 (ByteFee i)))"
  by (simp add: estimateFee_def estimateVBytes_def perInputVBytes_def network_defs size_defs numInputs_def
    memoOutputVBytes_def memo_size_def algebra_simps split: option.split)

lemma unsigned_DOGE_balanced:
  assumes tx: "unsigned_DOGE E i = Inr msgTx"
    and hyps: "in_range E NetworkEnumForDOGE i" "0 \<le> value_sum (utxos_of i)" "0 < sint (parse_i64 (ByteFee i))"
  shows "\<exists>pays. TxOuts msgTx = pays @ memo_output (memo_script E NetworkEnumForDOGE i) \<and>
    balanced E NetworkEnumForDOGE i pays"
proof -
  let ?net = NetworkEnumForDOGE
  let ?fee = "\<lambda>k. (int (length (utxos_of i)) * 148 + 34 * k + 11 + memo_size E ?net i) *
      sint (parse_i64 (ByteFee i))"
  have "?fee 1 \<le> ?fee 2" "0 \<le> ?fee 1" "?fee 2 < 2 ^ 62"
    using hyps by (auto simp: in_range_def fee_for_def intro!: mult_right_mono)
  then have range: "0 \<le> ?fee 1" "?fee 1 < 2 ^ 63" "0 \<le> ?fee 2" "?fee 2 < 2 ^ 63" by auto
  from tx obtain memoScript outs ins txOuts where
    memo: "buildMemoScript E (Memo i) = Inr memoScript" and
    outs: "choose_outputs DogeDust (totalHas i)
       (at_least_doge_fee (estimateFee ?net (parse_i64 (ByteFee i)) (numInputs i) 1 +
          memoOutputVBytes E memoScript * parse_i64 (ByteFee i)))
       (at_least_doge_fee (estimateFee ?net (parse_i64 (ByteFee i)) (numInputs i) 2 +
          memoOutputVBytes E memoScript * parse_i64 (ByteFee i))) i = Inr outs" and
    txOuts: "add_outputs E (\<lambda>a. DecodeAddress E a (dogeParams E)) outs = Inr txOuts" and
    res: "TxOuts msgTx = txOuts @ memo_output memoScript"
    by (auto simp: unsigned_DOGE_def Let_def andThen_eq_Inr)
  have m: "memo_script E ?net i = memoScript" by (simp add: memo_script_def memo network_defs)
  have "balanced E ?net i (pays_to E ?net outs)"
  proof (rule balanced_choice [of DogeDust])
    show "choose_outputs DogeDust (totalHas i)
        (word_of_int (fee_for E ?net i [script_to E ?net (Recipient i)]))
        (word_of_int (fee_for E ?net i [script_to E ?net (Recipient i), script_to E ?net (Sender i)])) i =
      Inr outs"
      using outs estimateFee_int [of i 1 E] estimateFee_int [of i 2 E] at_least_doge_fee_int [OF range(1,2)]
        at_least_doge_fee_int [OF range(3,4)]
      by (simp add: m fee_for_def)
    show "sint DogeDust = dust_of ?net" by (simp add: DogeDust_def dust_of_def)
  qed (use hyps in simp_all)
  moreover have "txOuts = pays_to E ?net outs"
    using add_outputs_to [OF _ txOuts, of ?net] by simp
  ultimately show ?thesis using res m by blast
qed

lemma unsigned_balanced:
  assumes tx: "unsigned_tx E net i = Inr msgTx"
    and hyps: "in_range E net i" "0 \<le> value_sum (utxos_of i)" "0 < sint (parse_i64 (ByteFee i))"
  shows "\<exists>pays. TxOuts msgTx = pays @ memo_output (memo_script E net i) \<and> balanced E net i pays"
proof (cases "net = NetworkEnumForDOGE")
  case True
  with tx hyps unsigned_DOGE_balanced [of E i msgTx] show ?thesis
    by (simp add: unsigned_tx_def network_defs)
next
  case False
  from tx consider (BTC) "net = NetworkEnumForBTC" "unsigned_BTC E i = Inr msgTx"
    | (TR) "net = NetworkEnumForBTCP2TR" "map_sum id fst (unsigned_BTCP2TR E i) = Inr msgTx"
    | (LTC) "net = NetworkEnumForLTC" "unsigned_LTC E i = Inr msgTx"
    | (SYS) "net = NetworkEnumForSYS" "unsigned_SYS E i = Inr msgTx"
    using False by (auto simp: unsigned_tx_def split: if_splits)
  then obtain outs where outs:
    "outputs_by_script E net (memoOutputVBytes E (memo_script E net i) * parse_i64 (ByteFee i))
       (script_to E net (Recipient i)) (script_to E net (Sender i)) i = Inr outs"
    "TxOuts msgTx = pays_to E net outs @ memo_output (memo_script E net i)"
  proof cases
    case BTC
    from BTC(2) obtain r c m outs txOuts where *:
      "scriptForAddress E (Recipient i) (params_of E net) True = Some r"
      "scriptForAddress E (Sender i) (params_of E net) True = Some c"
      "buildMemoScript E (Memo i) = Inr m"
      "outputs_by_script E net (memoOutputVBytes E m * parse_i64 (ByteFee i)) r c i = Inr outs"
      "add_outputs E (\<lambda>a. DecodeAddress E a (params_of E net)) outs = Inr txOuts"
      "TxOuts msgTx = txOuts @ memo_output m"
      by (auto simp: unsigned_BTC_def Let_def andThen_eq_Inr BTC(1))
    moreover have "memo_script E net i = m" by (simp add: memo_script_def * BTC(1) network_defs)
    ultimately show ?thesis
      using that [of outs] scriptForAddress_to [OF *(1)] scriptForAddress_to [OF *(2)]
        add_outputs_to [OF _ *(5)] by simp
  next
    case TR
    from TR(2) obtain prevOuts where "unsigned_BTCP2TR E i = Inr (msgTx, prevOuts)"
      by (cases "unsigned_BTCP2TR E i") auto
    then obtain a r c m outs txOuts where *:
      "scriptForAddress E (Recipient i) (params_of E net) True = Some r"
      "decodeAddressForNet E (Sender i) (params_of E net) True = Some a" "PayToAddrScript E a = Some c"
      "buildMemoScript E (Memo i) = Inr m"
      "outputs_by_script E net (memoOutputVBytes E m * parse_i64 (ByteFee i)) r c i = Inr outs"
      "add_outputs E (\<lambda>a. decodeAddressForNet E a (params_of E net) True) outs = Inr txOuts"
      "TxOuts msgTx = txOuts @ memo_output m"
      by (auto simp: unsigned_BTCP2TR_def Let_def andThen_eq_Inr TR(1) split: if_splits)
    moreover have "memo_script E net i = m" by (simp add: memo_script_def * TR(1) network_defs)
    moreover have "scriptForAddress E (Sender i) (params_of E net) True = Some c"
      using * by (simp add: scriptForAddress_def)
    ultimately show ?thesis
      using that [of outs] scriptForAddress_to [OF *(1)] scriptForAddress_to [of E "Sender i" net True c]
        add_outputs_to [OF decodeAddressForNet_sub *(6)] by simp
  next
    case LTC
    from LTC(2) obtain r c outs txOuts where *:
      "scriptForAddress E (Recipient i) (params_of E net) True = Some r"
      "scriptForAddress E (Sender i) (params_of E net) True = Some c"
      "outputs_by_script E net 0 r c i = Inr outs"
      "add_outputs E (\<lambda>a. DecodeAddress E a (params_of E net)) outs = Inr txOuts"
      "TxOuts msgTx = txOuts"
      by (auto simp: unsigned_LTC_def Let_def andThen_eq_Inr LTC(1))
    moreover have "memo_script E net i = None" by (simp add: memo_script_def LTC(1))
    ultimately show ?thesis
      using that [of outs] scriptForAddress_to [OF *(1)] scriptForAddress_to [OF *(2)]
        add_outputs_to [OF _ *(4)] by (simp add: memo_output_def memoOutputVBytes_def)
  next
    case SYS
    from SYS(2) obtain r c outs txOuts where *:
      "scriptForAddress E (Recipient i) (params_of E net) True = Some r"
      "scriptForAddress E (Sender i) (params_of E net) True = Some c"
      "outputs_by_script E net 0 r c i = Inr outs"
      "add_outputs E (\<lambda>a. DecodeAddress E a (params_of E net)) outs = Inr txOuts"
      "TxOuts msgTx = txOuts"
      by (auto simp: unsigned_SYS_def Let_def andThen_eq_Inr SYS(1))
    moreover have "memo_script E net i = None" by (simp add: memo_script_def SYS(1))
    ultimately show ?thesis
      using that [of outs] scriptForAddress_to [OF *(1)] scriptForAddress_to [OF *(2)]
        add_outputs_to [OF _ *(4)] by (simp add: memo_output_def memoOutputVBytes_def)
  qed
  from outputs_by_script_balanced [OF outs(1) False hyps] outs(2) show ?thesis by blast
qed

section \<open>What \<open>Build\<close> leaves\<close>

lemma check_ingredient_ok:
  assumes "check_ingredient E net ti = Inr i"
  shows "ti = Some i" "0 \<le> value_sum (utxos_of i)" "0 < sint (parse_i64 (ByteFee i))" "utxos_of i \<noteq> []"
proof -
  show ti: "ti = Some i"
    using assms by (auto simp: check_ingredient_def andThen_eq_Inr split: option.splits if_splits)
  have "check_values (the (List (the (Utxos i)))) = Inr ()" and fee: "positive_i64 (ByteFee i)"
    and ne: "\<not> IsEmpty (Utxos i)"
    using assms by (auto simp: check_ingredient_def andThen_eq_Inr split: option.splits if_splits)
  from check_values_positive [OF this(1)] show "0 \<le> value_sum (utxos_of i)" by (simp add: utxos_of_def)
  from positive_sint [OF fee] show "0 < sint (parse_i64 (ByteFee i))" .
  from ne show "utxos_of i \<noteq> []" by (auto simp: IsEmpty_def utxos_of_def split: option.splits)
qed

lemma Build_succeeds:
  assumes "Build E tx = (tx', Inr ())"
  obtains i hashes hex where "check_ingredient E (network tx) (TheIngredient tx) = Inr i"
    "build_for_network E (network tx) i = Inr (hashes, hex)"
    "tx' = tx\<lparr>TheIngredient := Some (if network tx = NetworkEnumForSYS then i\<lparr>IsPSBT := True\<rparr> else i),
       sigHash := hashes, unsignedHex := hex, txHash := []\<rparr>"
  using assms by (auto simp: Build_def Let_def split: sum.splits prod.splits)

lemma utxos_of_update [simp]: "utxos_of (i\<lparr>IsPSBT := b\<rparr>) = utxos_of i"
  by (simp add: utxos_of_def)

lemma choose_outputs_update [simp]:
  "choose_outputs dust has f1 f2 (i\<lparr>IsPSBT := b\<rparr>) = choose_outputs dust has f1 f2 i"
  by (simp add: choose_outputs_def Let_def)

lemma unsigned_SYS_update [simp]: "unsigned_SYS E (i\<lparr>IsPSBT := b\<rparr>) = unsigned_SYS E i"
  by (simp add: unsigned_SYS_def outputs_by_script_def totalHas_def numInputs_def)

lemma length_hash_inputs: "hash_inputs f k us = Inr hs \<Longrightarrow> length hs = length us"
  by (induction f k us arbitrary: hs rule: hash_inputs.induct) (auto simp: andThen_eq_Inr)

lemma serialized_ok: "serialized E t = Inr hex \<Longrightarrow> \<exists>b. TxSerialize E t = Some b \<and> hex = hex_encode b"
  by (cases "TxSerialize E t") (auto simp: serialized_def)

text \<open>The hash of input \<open>k\<close>, by the signature scheme of the network.\<close>

lemma build_for_network_ok:
  assumes "build_for_network E net i = Inr (hashes, hex)"
  shows "\<exists>msgTx. unsigned_tx E net i = Inr msgTx \<and> length hashes = length (utxos_of i) \<and>
    (net \<noteq> NetworkEnumForSYS \<longrightarrow> (\<exists>b. TxSerialize E msgTx = Some b \<and> hex = hex_encode b))"
proof -
  from assms consider (BTC) "net = NetworkEnumForBTC" "buildForBTC E i = Inr (hashes, hex)"
    | (TR) "net = NetworkEnumForBTCP2TR" "buildForBTCP2TR E i = Inr (hashes, hex)"
    | (LTC) "net = NetworkEnumForLTC" "buildForLTC E i = Inr (hashes, hex)"
    | (DOGE) "net = NetworkEnumForDOGE" "buildForDOGE E i = Inr (hashes, hex)"
    | (SYS) "net = NetworkEnumForSYS" "buildForSYS E (i\<lparr>IsPSBT := True\<rparr>) = Inr (hashes, hex)"
    by (auto simp: build_for_network_def split: if_splits)
  then show ?thesis
  proof cases
    case BTC
    then show ?thesis
      by (auto simp: buildForBTC_def andThen_eq_Inr unsigned_tx_def dest!: serialized_ok length_hash_inputs)
  next
    case TR
    then show ?thesis
      by (auto simp: buildForBTCP2TR_def andThen_eq_Inr unsigned_tx_def network_defs
          dest!: serialized_ok length_hash_inputs)
  next
    case LTC
    then show ?thesis
      by (auto simp: buildForLTC_def andThen_eq_Inr unsigned_tx_def network_defs
          dest!: serialized_ok length_hash_inputs)
  next
    case DOGE
    then show ?thesis
      by (auto simp: buildForDOGE_def andThen_eq_Inr unsigned_tx_def network_defs
          dest!: serialized_ok length_hash_inputs)
  next
    case SYS
    then show ?thesis
      by (auto simp: buildForSYS_def andThen_eq_Inr unsigned_tx_def network_defs dest!: length_hash_inputs)
  qed
qed


text \<open>
  The balance check of a payment overflows: to a wallet that owns less than the fee, the
  amount \<open>2 ^ 63 - 1\<close> looks payable with a huge change.
\<close>

theorem huge_amount_accepted:
  assumes "0 \<le> has" "has + 1 < feeWithChange" "feeWithChange < 2 ^ 62"
    and "ParseInt 64 (Amount i) = (9223372036854775807, None)"
  shows "\<exists>change. choose_outputs DefaultDust (word_of_int has) fee (word_of_int feeWithChange) i =
      Inr [(Recipient i, 9223372036854775807), (Sender i, change)] \<and>
    sint change = 2 ^ 63 + 1 + has - feeWithChange"
proof -
  let ?change = "word_of_int has - word_of_int feeWithChange - 9223372036854775807 :: i64"
  have "?change = word_of_int (2 ^ 63 + 1 + has - feeWithChange)" by simp
  moreover have "sint (word_of_int (2 ^ 63 + 1 + has - feeWithChange) :: i64) = 2 ^ 63 + 1 + has - feeWithChange"
    using assms(1-3) by (intro sint_of_int) simp_all
  ultimately have c: "sint ?change = 2 ^ 63 + 1 + has - feeWithChange" by (simp only:)
  have "Amount i \<noteq> MagicNumberForMaxAmount"
    using assms(4) by (auto simp: MagicNumberForMaxAmount_def ParseInt_def ParseUint_def digit_of_def char_nat_def)
  moreover have "parse_i64 (Amount i) = 9223372036854775807" by (simp add: parse_i64_def assms(4))
  ultimately show ?thesis
    using c assms(1-3) by (simp add: choose_outputs_def Let_def word_sless_alt word_sle_eq DefaultDust_def)
qed

section \<open>Signatures reach their inputs\<close>

lemma decode_encoded: "decode_signatures (map hex_encode sigs) = Inr sigs"
  by (induction sigs) simp_all

lemma sign_hashes_ok:
  "sign_hashes sign hs = Inr ss \<Longrightarrow>
     \<exists>sigs. ss = map hex_encode sigs \<and>
       list_all2 (\<lambda>h sig. \<exists>b. hex_decode h = Some b \<and> sign b = Some sig) hs sigs"
proof (induction sign hs arbitrary: ss rule: sign_hashes.induct)
  case (2 sign v vs)
  then obtain b sig rest where *: "hex_decode v = Some b" "sign b = Some sig"
    "sign_hashes sign vs = Inr rest" "ss = hex_encode sig # rest"
    by (auto simp: andThen_eq_Inr)
  with 2 obtain sigs where "rest = map hex_encode sigs"
    "list_all2 (\<lambda>h sig. \<exists>b. hex_decode h = Some b \<and> sign b = Some sig) vs sigs"
    by blast
  with * show ?case by (intro exI [of _ "sig # sigs"]) simp
qed simp

lemma hash_inputs_nth:
  "hash_inputs f k us = Inr hs \<Longrightarrow> j < length us \<Longrightarrow>
     \<exists>h. f (k + j) (us ! j) = Some h \<and> hs ! j = hex_encode h"
proof (induction f k us arbitrary: hs j rule: hash_inputs.induct)
  case (2 f idx u us)
  then obtain h hs' where *: "f idx u = Some h" "hash_inputs f (Suc idx) us = Inr hs'"
    "hs = hex_encode h # hs'"
    by (auto simp: andThen_eq_Inr)
  show ?case
  proof (cases j)
    case (Suc j')
    with 2 * show ?thesis by force
  qed (use * in simp)
qed simp

lemma length_add_inputs: "add_inputs E f s us = Inr ins \<Longrightarrow> length ins = length us"
  by (induction E f s us arbitrary: ins rule: add_inputs.induct) (auto simp: andThen_eq_Inr)

lemma unsigned_inputs:
  assumes "unsigned_tx E net i = Inr msgTx" "net = NetworkEnumForBTC \<or> net = NetworkEnumForLTC"
  shows "length (TxIns msgTx) = length (utxos_of i)"
  using assms
  by (auto simp: unsigned_tx_def network_defs unsigned_BTC_def unsigned_LTC_def Let_def andThen_eq_Inr
      dest!: length_add_inputs)

lemma witness_build_hashes:
  assumes "build_for_network E net i = Inr (hashes, hex)" "net = NetworkEnumForBTC \<or> net = NetworkEnumForLTC"
  obtains msgTx pkData where "unsigned_tx E net i = Inr msgTx"
    "hash_inputs (witness_hash E msgTx pkData) 0 (utxos_of i) = Inr hashes"
    "sender_script E (params_of E net) i = Inr pkData" "serialized E msgTx = Inr hex"
  using assms
  by (auto simp: build_for_network_def network_defs buildForBTC_def buildForLTC_def unsigned_tx_def andThen_eq_Inr
      params_of_def)

text \<open>The outpoints, outputs and version of a transaction are not touched by signing.\<close>

definition same_body :: "MsgTx \<Rightarrow> MsgTx \<Rightarrow> bool" where
  "same_body s t \<longleftrightarrow> TxVersion s = TxVersion t \<and> TxOuts s = TxOuts t \<and>
     map (\<lambda>x. (PreviousHash x, PreviousIndex x, Sequence x)) (TxIns s) =
     map (\<lambda>x. (PreviousHash x, PreviousIndex x, Sequence x)) (TxIns t)"

lemma same_body_witness:
  "length sigs = length (TxIns t) \<Longrightarrow> same_body (witness_inputs pk t sigs) t"
  by (simp add: same_body_def witness_inputs_def with_inputs_def list_eq_iff_nth_eq)

lemma sign_appended:
  "list_all2 (\<lambda>h sig. \<exists>b. hex_decode h = Some b \<and> map_option (\<lambda>s. s @ [SigHashAll]) (sign b) = Some sig) hs sigs \<Longrightarrow>
     k < length hs \<Longrightarrow> hs ! k = hex_encode b \<Longrightarrow> \<exists>s. sign b = Some s \<and> sigs ! k = s @ [SigHashAll]"
  by (drule (1) list_all2_nthD) auto

lemma Sign_ok:
  assumes "Sign E tx privateKey = Inr signature" "network tx = NetworkEnumForBTC \<or> network tx = NetworkEnumForLTC"
  obtains sigs where "strings_Split signature CHR ''_'' = map hex_encode sigs"
    "list_all2 (\<lambda>h sig. \<exists>b. hex_decode h = Some b \<and>
       map_option (\<lambda>sig. sig @ [SigHashAll]) (SignECDSA E privateKey b) = Some sig) (sigHash tx) sigs"
proof -
  let ?sign = "\<lambda>h. map_option (\<lambda>sig. sig @ [SigHashAll]) (SignECDSA E privateKey h)"
  obtain ss where ne: "sigHash tx \<noteq> []" and "sign_hashes ?sign (sigHash tx) = Inr ss"
    and sig: "signature = strings_Join ss ''_''"
    using assms by (auto simp: Sign_def andThen_eq_Inr network_defs split: if_splits)
  from sign_hashes_ok [OF this(2)] obtain sigs where ss: "ss = map hex_encode sigs" and
    sigs: "list_all2 (\<lambda>h sig. \<exists>b. hex_decode h = Some b \<and> ?sign b = Some sig) (sigHash tx) sigs"
    by blast
  with ne have "sigs \<noteq> []" by auto
  then show thesis using that [OF _ sigs] by (simp add: sig ss split_signatures)
qed


section \<open>Restoring a Syscoin transaction\<close>

text \<open>The documented behaviour of PSBT packets, for the packet of one transaction.\<close>

definition psbt_laws :: "('p, 'a, 'k) btcd \<Rightarrow> MsgTx \<Rightarrow> bool" where
  "psbt_laws E t \<longleftrightarrow>
     (\<forall>p. PsbtNew E t = Some p \<longrightarrow>
        UnsignedTx E p = t \<and>
        PsbtInputs E p = replicate (length (TxIns t)) \<lparr>WitnessUtxo = None, NonWitnessUtxo = None\<rparr>) \<and>
     (\<forall>p k out. UnsignedTx E (SetWitnessUtxo E k out p) = UnsignedTx E p \<and>
        PsbtInputs E (SetWitnessUtxo E k out p) =
          (PsbtInputs E p)[k := (PsbtInputs E p ! k)\<lparr>WitnessUtxo := Some out\<rparr>]) \<and>
     (\<forall>p b. PsbtSerialize E p = Some b \<longrightarrow> PsbtParse E b = Some p)"

definition spent_by :: "bytes \<Rightarrow> UtxoInfo \<Rightarrow> TxOut" where
  "spent_by pkData u = \<lparr>OutValue = parse_i64 (Value u), PkScript = pkData\<rparr>"

lemma set_witness_utxos_inputs:
  assumes "psbt_laws E t"
  shows "set_witness_utxos E pkData k p us = Inr p' \<Longrightarrow> k + length us = length (PsbtInputs E p) \<Longrightarrow>
     UnsignedTx E p' = UnsignedTx E p \<and>
     PsbtInputs E p' = take k (PsbtInputs E p) @
       map2 (\<lambda>inp u. inp\<lparr>WitnessUtxo := Some (spent_by pkData u)\<rparr>) (drop k (PsbtInputs E p)) us"
proof (induction us arbitrary: k p)
  case Nil
  then show ?case by simp
next
  case (Cons u us)
  let ?p = "SetWitnessUtxo E k (spent_by pkData u) p"
  have step: "set_witness_utxos E pkData (Suc k) ?p us = Inr p'"
    using Cons.prems(1) by (auto simp: Let_def spent_by_def split: if_splits)
  have p: "UnsignedTx E ?p = UnsignedTx E p"
    "PsbtInputs E ?p = (PsbtInputs E p)[k := (PsbtInputs E p ! k)\<lparr>WitnessUtxo := Some (spent_by pkData u)\<rparr>]"
    using assms by (simp_all add: psbt_laws_def)
  have k: "k < length (PsbtInputs E p)" using Cons.prems(2) by simp
  from Cons.IH [OF step] p Cons.prems(2) k show ?case
    by (simp add: take_Suc_conv_app_nth take_update_cancel flip: Cons_nth_drop_Suc [OF k])
qed

lemma extract_hash_inputs:
  "extract_hashes E t k (map (\<lambda>u. \<lparr>WitnessUtxo = Some (spent_by pkData u), NonWitnessUtxo = None\<rparr>) us) =
     hash_inputs (\<lambda>k u. CalcWitnessSigHash E pkData t k (parse_i64 (Value u))) k us"
  by (induction us arbitrary: k) (simp_all add: spent_by_def)

lemma hash_inputs_cong:
  "(\<And>k u. u \<in> set us \<Longrightarrow> f k u = g k u) \<Longrightarrow> hash_inputs f k us = hash_inputs g k us"
  by (induction us arbitrary: k) simp_all

lemma length_SYS_inputs: "unsigned_SYS E i = Inr t \<Longrightarrow> length (TxIns t) = length (utxos_of i)"
  by (auto simp: unsigned_SYS_def Let_def andThen_eq_Inr dest!: length_add_inputs)

lemma map2_replicate: "map2 f (replicate (length us) x) us = map (f x) us"
  by (induction us) simp_all

text \<open>
  A Syscoin builder restored from the unsigned hex asks for the same signatures as the
  builder that built it, when no output names a script of its own.
\<close>

theorem restored_hashes_agree:
  assumes build: "Build E tx = (tx', Inr ())" "TheIngredient tx = Some i" "network tx = NetworkEnumForSYS"
    and laws: "\<And>t. unsigned_SYS E i = Inr t \<Longrightarrow> psbt_laws E t"
    and scripts: "list_all (\<lambda>u. Script u = []) (utxos_of i)"
  shows "\<exists>restored. NewTxBuilderFromUnsignedHex E (unsignedHex tx') publicKey NetworkEnumForSYS = Inr restored \<and>
    sigHash restored = sigHash tx' \<and> unsignedHex restored = unsignedHex tx'"
proof -
  obtain i' hashes hx where
    ok: "check_ingredient E (network tx) (TheIngredient tx) = Inr i'"
      "build_for_network E (network tx) i' = Inr (hashes, hx)" and
    tx': "tx' = tx\<lparr>TheIngredient := Some (if network tx = NetworkEnumForSYS then i'\<lparr>IsPSBT := True\<rparr> else i'),
       sigHash := hashes, unsignedHex := hx, txHash := []\<rparr>"
    by (rule Build_succeeds [OF build(1)])
  have i: "i' = i" using check_ingredient_ok(1) [OF ok(1)] build(2) by simp
  have "buildForSYS E (i\<lparr>IsPSBT := True\<rparr>) = Inr (hashes, hx)"
    using ok(2) build(3) by (simp add: i build_for_network_def network_defs)
  then obtain t pkData packet packet' b where t: "unsigned_SYS E i = Inr t" and
    hashes: "hash_inputs (witness_hash E t pkData) 0 (utxos_of i) = Inr hashes" and
    new: "PsbtNew E t = Some packet" and
    set: "set_witness_utxos E pkData 0 packet (utxos_of i) = Inr packet'" and
    b: "PsbtSerialize E packet' = Some b" "hx = hex_encode b"
    by (auto simp: buildForSYS_def andThen_eq_Inr)
  note L = laws [OF t]
  have packet: "UnsignedTx E packet = t"
    "PsbtInputs E packet = replicate (length (utxos_of i)) \<lparr>WitnessUtxo = None, NonWitnessUtxo = None\<rparr>"
    using L new length_SYS_inputs [OF t] by (auto simp: psbt_laws_def)
  have "UnsignedTx E packet' = t"
    "PsbtInputs E packet' =
       map (\<lambda>u. \<lparr>WitnessUtxo = Some (spent_by pkData u), NonWitnessUtxo = None\<rparr>) (utxos_of i)"
    using set_witness_utxos_inputs [OF L set] by (simp_all add: packet map2_replicate)
  moreover have "hash_inputs (\<lambda>k u. CalcWitnessSigHash E pkData t k (parse_i64 (Value u))) 0 (utxos_of i) =
      hash_inputs (witness_hash E t pkData) 0 (utxos_of i)"
    by (rule hash_inputs_cong) (use scripts in \<open>auto simp: witness_hash_def pkScript_of_def list_all_iff\<close>)
  ultimately have "extractSigHashes E packet' = Inr hashes"
    by (simp add: extractSigHashes_def extract_hash_inputs hashes)
  moreover have "PsbtParse E b = Some packet'" using L b(1) by (auto simp: psbt_laws_def)
  ultimately show ?thesis
    by (simp add: NewTxBuilderFromUnsignedHex_def tx' b(2))
qed

section \<open>A concrete instance\<close>

text \<open>
  Functions that stand for the packages: addresses are their own decoding, every script is one
  byte, and a packet is the witness output of its only input.
\<close>

definition sample_hash :: bytes where "sample_hash = [7]"

definition sample_input :: "u32 \<Rightarrow> TxIn" where
  "sample_input sequenceNum = new_input [0] 0 sequenceNum"

definition sample_out :: "i64 \<Rightarrow> TxOut" where
  "sample_out v = \<lparr>OutValue = v, PkScript = [5]\<rparr>"

definition sample_tx :: "u32 \<Rightarrow> u32 \<Rightarrow> MsgTx" where
  "sample_tx version sequenceNum =
     \<lparr>TxVersion = version, TxIns = [sample_input sequenceNum], TxOuts = [sample_out 1000, sample_out 3901]\<rparr>"

definition read_packet :: "bytes \<Rightarrow> psbt_input list" where
  "read_packet p =
     [\<lparr>WitnessUtxo = (if p = [] then None
        else Some \<lparr>OutValue = word_of_nat (le_val (take 8 p)), PkScript = drop 8 p\<rparr>),
       NonWitnessUtxo = None\<rparr>]"

definition sample_btcd :: "(unit, string, bytes) btcd" where
  "sample_btcd =
     \<lparr>btcParams = (), ltcParams = (), dogeParams = (), sysParams = (),
      DecodeAddress = (\<lambda>a _. Some a), IsForNet = (\<lambda>_ _. True), KindOf = (\<lambda>_. AddressWitnessPubKeyHash),
      AddressString = id, Hash160 = id, TaprootOutputKey = Some, NewAddressTaproot = (\<lambda>_ _. None),
      NewAddressWitnessPubKeyHash = (\<lambda>_ _. None), NewAddressPubKeyHash = (\<lambda>_ _. None),
      PayToAddrScript = (\<lambda>_. Some [5]), NewHashFromStr = hex_decode, VarIntSerializeSize = (\<lambda>_. 1),
      OpReturnScript = Some, PushDataScript = (\<lambda>a b. Some (a @ b)),
      CalcWitnessSigHash = (\<lambda>_ _ _ _. Some sample_hash), CalcSignatureHash = (\<lambda>_ _ _. Some sample_hash),
      CalcTaprootSignatureHash = (\<lambda>_ _ _. Some sample_hash), IsPayToTaproot = (\<lambda>_. True),
      TxSerialize = (\<lambda>_. Some [1]), TxDeserialize = (\<lambda>_. Some (sample_tx 1 MaxTxInSequenceNum)),
      TxHashString = (\<lambda>_. []), EmptyPacket = [], PsbtParse = Some, PsbtNew = (\<lambda>_. Some []),
      PsbtSerialize = Some, UnsignedTx = (\<lambda>_. sample_tx 2 (MaxTxInSequenceNum - 2)),
      PsbtInputs = read_packet,
      SetWitnessUtxo = (\<lambda>k out p. if k = 0 then le_word 8 (OutValue out) @ PkScript out else p),
      SanityCheck = (\<lambda>_. True), UpdaterSign = (\<lambda>p _ _ _. Some (0, p)), MaybeFinalizeAll = Some,
      PsbtExtract = (\<lambda>_. None), SignECDSA = (\<lambda>_ h. Some h), SignTweakedSchnorr = (\<lambda>_ h. Some h),
      SchnorrSignatureSize = 64, NewWIF = (\<lambda>_. None), DecodeWIF = (\<lambda>_. None)\<rparr>"

lemma sample_btcd_fields [simp]:
  "DecodeAddress sample_btcd = (\<lambda>a _. Some a)" "IsForNet sample_btcd = (\<lambda>_ _. True)"
  "KindOf sample_btcd = (\<lambda>_. AddressWitnessPubKeyHash)" "PayToAddrScript sample_btcd = (\<lambda>_. Some [5])"
  "NewHashFromStr sample_btcd = hex_decode" "VarIntSerializeSize sample_btcd = (\<lambda>_. 1)"
  "CalcWitnessSigHash sample_btcd = (\<lambda>_ _ _ _. Some sample_hash)"
  "TxSerialize sample_btcd = (\<lambda>_. Some [1])"
  "TxDeserialize sample_btcd = (\<lambda>_. Some (sample_tx 1 MaxTxInSequenceNum))"
  "PsbtNew sample_btcd = (\<lambda>_. Some [])" "PsbtSerialize sample_btcd = Some" "PsbtParse sample_btcd = Some"
  "UnsignedTx sample_btcd = (\<lambda>_. sample_tx 2 (MaxTxInSequenceNum - 2))"
  "PsbtInputs sample_btcd = read_packet" "SanityCheck sample_btcd = (\<lambda>_. True)"
  "SetWitnessUtxo sample_btcd = (\<lambda>k out p. if k = 0 then le_word 8 (OutValue out) @ PkScript out else p)"
  "SignECDSA sample_btcd = (\<lambda>_ h. Some h)" "TxHashString sample_btcd = (\<lambda>_. [])"
  by (simp_all add: sample_btcd_def)

definition sample_ingredient :: Ingredient where
  "sample_ingredient =
     \<lparr>TxType = ''0'', ContractAddress = [], Sender = ''alice'', SenderPublicKey = ''02'',
      Recipient = ''bob'', Amount = ''1000'', ByteFee = ''1'',
      Utxos = Some \<lparr>List = Some [Some (sample_utxo ''5000'')]\<rparr>, IsPSBT = False,
      InscriptionIdsForHash = Map.empty, Memo = []\<rparr>"

lemma sample_parses:
  "ParseInt 64 ''1000'' = (1000, None)" "ParseInt 64 ''5000'' = (5000, None)" "ParseInt 64 ''1'' = (1, None)"
  "ParseUint 64 ''0'' = (0, None)"
  by (simp_all add: ParseInt_def ParseUint_def digit_of_def char_nat_def)

lemmas sample_numbers = sample_parses parse_i64_def positive_i64_def uint_index_def

lemma sample_fields [simp]:
  "utxos_of sample_ingredient = [sample_utxo ''5000'']" "Amount sample_ingredient = ''1000''"
  "ByteFee sample_ingredient = ''1''" "Memo sample_ingredient = []" "Recipient sample_ingredient = ''bob''"
  "Sender sample_ingredient = ''alice''" "\<not> IsPSBT sample_ingredient"
  "SenderPublicKey sample_ingredient = ''02''"
  "Value (sample_utxo v) = v" "Script (sample_utxo v) = []" "Hash (sample_utxo v) = ''00''"
  "Index (sample_utxo v) = ''0''" "''1000'' \<noteq> MagicNumberForMaxAmount"
  by (simp_all add: sample_ingredient_def utxos_of_def sample_utxo_def MagicNumberForMaxAmount_def)

lemma sample_script [simp]:
  "scriptForAddress sample_btcd a p True = Some [5]" "script_to sample_btcd net a = [5]"
  "outputVBytes sample_btcd [5] = 10" "decodeAddressForNet sample_btcd a p True = Some a"
  by (simp_all add: scriptForAddress_def decodeAddressForNet_def script_to_def outputVBytes_def)

lemma sample_outputs:
  "net \<in> {NetworkEnumForBTC, NetworkEnumForSYS} \<Longrightarrow>
     outputs_by_script sample_btcd net 0 [5] [5] sample_ingredient = Inr [(''bob'', 1000), (''alice'', 3901)]"
  by (auto simp: outputs_by_script_def choose_outputs_def estimateFeeForScripts_def perInputVBytes_def network_defs
      size_defs totalHas_def numInputs_def sample_numbers DefaultDust_def word_sless_alt word_sle_eq)

lemma sample_inputs:
  "add_inputs sample_btcd uint_index s [sample_utxo v] = Inr [sample_input s]"
  by (simp add: sample_input_def sample_numbers fromHexChar_def char_nat_def)

lemma sample_add_outputs:
  "add_outputs sample_btcd (\<lambda>a. DecodeAddress sample_btcd a p) [(a, 1000), (b, 3901)] =
     Inr [sample_out 1000, sample_out 3901]"
  by (simp add: sample_out_def)

lemma sample_unsigned:
  "unsigned_BTC sample_btcd sample_ingredient = Inr (sample_tx 1 MaxTxInSequenceNum)"
  "unsigned_SYS sample_btcd sample_ingredient = Inr (sample_tx 2 (MaxTxInSequenceNum - 2))"
  by (simp_all add: unsigned_BTC_def unsigned_SYS_def buildMemoScript_def memoOutputVBytes_def sample_outputs
      sample_inputs sample_add_outputs memo_output_def sample_tx_def Let_def
      del: add_inputs.simps add_outputs.simps sample_btcd_fields)

lemma sample_check:
  "net \<in> {NetworkEnumForBTC, NetworkEnumForSYS} \<Longrightarrow>
     check_ingredient sample_btcd net (Some sample_ingredient) = Inr sample_ingredient"
  by (auto simp: check_ingredient_def ValidAddress_def ValidAddressForBTC_def ValidAddressForSYS_def
      validAddressForNet_def network_defs sample_numbers)
     (simp_all add: IsEmpty_def sample_ingredient_def sample_numbers)

definition sample_builder :: "string \<Rightarrow> TxBuilder" where
  "sample_builder net = NewTxBuilder (Some sample_ingredient) net"

lemma sample_sender [simp]: "sender_script sample_btcd p i = Inr [5]"
  by (simp add: sender_script_def)

lemma sample_hashes [simp]:
  "hash_inputs (witness_hash sample_btcd t pk) k [u] = Inr [hex_encode sample_hash]"
  by (simp add: witness_hash_def)

lemma sample_build_BTC:
  "Build sample_btcd (sample_builder NetworkEnumForBTC) =
     ((sample_builder NetworkEnumForBTC)\<lparr>sigHash := [hex_encode sample_hash], unsignedHex := hex_encode [1]\<rparr>, Inr ())"
  by (simp add: Build_def sample_builder_def NewTxBuilder_def sample_check build_for_network_def buildForBTC_def
      sample_unsigned serialized_def Let_def del: hash_inputs.simps)
     (simp add: network_defs)

lemma sample_build_SYS:
  "\<exists>tx'. Build sample_btcd (sample_builder NetworkEnumForSYS) = (tx', Inr ())"
  by (simp add: Build_def sample_builder_def NewTxBuilder_def sample_check build_for_network_def buildForSYS_def
      sample_unsigned serialized_def Let_def del: hash_inputs.simps)
     (simp add: network_defs sample_unsigned del: hash_inputs.simps)

lemma sample_in_range: "in_range sample_btcd NetworkEnumForBTC sample_ingredient"
  by (simp add: in_range_def value_sum_def memo_size_def memo_script_def buildMemoScript_def fee_for_def
      scripts_size_def perInputVBytes_def network_defs size_defs sample_numbers)

lemma sample_builder_fields [simp]:
  "TheIngredient (sample_builder net) = Some sample_ingredient" "network (sample_builder net) = net"
  by (simp_all add: sample_builder_def NewTxBuilder_def)


theorem huge_amount_accepted_witness:
  "\<exists>change. choose_outputs DefaultDust 1000 0 20000
      (sample_ingredient\<lparr>Amount := ''9223372036854775807''\<rparr>) =
      Inr [(''bob'', 9223372036854775807), (''alice'', change)] \<and> sint change = 2 ^ 63 + 1 + 1000 - 20000"
proof -
  have "ParseInt 64 (Amount (sample_ingredient\<lparr>Amount := ''9223372036854775807''\<rparr>)) = (9223372036854775807, None)"
    by (simp add: ParseInt_def ParseUint_def digit_of_def char_nat_def)
  from huge_amount_accepted [OF _ _ _ this, of 1000 20000 0] show ?thesis by simp
qed

lemma sample_sign:
  "Sign sample_btcd (fst (Build sample_btcd (sample_builder NetworkEnumForBTC))) [] = Inr (hex_encode [7, 1])"
  by (simp add: sample_build_BTC Sign_def sample_hash_def SigHashAll_def del: hex_encode.simps)
     (simp add: network_defs)

lemma sample_concat:
  "\<exists>tx'' hex. ConcatSignature sample_btcd (fst (Build sample_btcd (sample_builder NetworkEnumForBTC)))
     (hex_encode [7, 1]) False = (tx'', Inr hex)"
proof -
  have "strings_Split (hex_encode [7, 1]) CHR ''_'' = [hex_encode [7, 1]]"
    using split_signatures [of "[[7, 1]]"] by simp
  then show ?thesis
    by (simp add: sample_build_BTC ConcatSignature_def signed_tx_def parse_unsigned_def apply_signatures_def
        sample_tx_def fromHexChar_def [of "CHR ''0''"] fromHexChar_def [of "CHR ''2''"] char_nat_def
        del: hex_encode.simps)
qed


lemma sample_psbt_laws: "psbt_laws sample_btcd (sample_tx 2 (MaxTxInSequenceNum - 2))"
proof -
  have v: "word_of_nat (le_val (le_word 8 v)) = v" for v :: i64
  proof -
    have "unat v < 256 ^ 8" using unsigned_less [of v, where 'a = nat] by simp
    then show ?thesis by (simp add: le_word_def le_val_le_bytes)
  qed
  have "le_word 8 v \<noteq> []" for v :: i64 using length_le_word [of 8 v] by (metis list.size(3) numeral_eq_Suc nat.distinct(1))
  then show ?thesis
    by (auto simp: psbt_laws_def sample_tx_def read_packet_def v split: nat.split)
qed

theorem restored_hashes_agree_witness:
  "\<exists>tx' restored. Build sample_btcd (sample_builder NetworkEnumForSYS) = (tx', Inr ()) \<and>
    NewTxBuilderFromUnsignedHex sample_btcd (unsignedHex tx') [] NetworkEnumForSYS = Inr restored \<and>
    sigHash restored = sigHash tx' \<and> unsignedHex restored = unsignedHex tx'"
proof -
  obtain tx' where "Build sample_btcd (sample_builder NetworkEnumForSYS) = (tx', Inr ())"
    using sample_build_SYS by blast
  from this restored_hashes_agree [OF this, of sample_ingredient "[]"] sample_psbt_laws
  show ?thesis by (auto simp: sample_unsigned)
qed

end
