(* ===== verification/Substrate.thy ===== *)
theory Substrate
  imports Codec
begin

text \<open>
  \<open>signing/substrate\<close>: the SCALE encodings of \<open>scale.go\<close>, the extrinsics of \<open>extrinsic.go\<close>, the
  addresses of \<open>ss58.go\<close> and \<open>utils.go\<close>, and the transaction builder of \<open>tx.go\<close>. Base58, BLAKE2b,
  the sr25519 signer and the JSON form of the unsigned transaction are parameters.

  The compact integers are a codec of the interface of \<open>Codec\<close>; a decoder of signed extrinsics,
  written from the format, shows what the encoded bytes say.
\<close>

section \<open>SCALE\<close>

text \<open>A \<open>nil\<close> number is encoded like zero; no caller passes one.\<close>

definition encodeCompact :: "int \<Rightarrow> bytes" where
  "encodeCompact v =
     (if v \<le> 0 then [0]
      else let u = nat v in
        if u < 2 ^ 30 then
          (if u < 2 ^ 6 then [push_bit 2 (word_of_nat u)]
           else if u < 2 ^ 14 then
             let x = push_bit 2 (word_of_nat u) OR 1 :: u16 in [ucast x, ucast (drop_bit 8 x)]
           else
             let x = push_bit 2 (word_of_nat u) OR 2 :: u32
             in [ucast x, ucast (drop_bit 8 x), ucast (drop_bit 16 x), ucast (drop_bit 24 x)])
        else
          let le = rev (big_Bytes u)
          in word_of_nat (push_bit 2 (length le - 4) OR 3) # le)"

definition encodeU32LE :: "u32 \<Rightarrow> bytes" where
  "encodeU32LE v = [ucast v, ucast (drop_bit 8 v), ucast (drop_bit 16 v), ucast (drop_bit 24 v)]"

definition encodeEraImmortal :: bytes where
  "encodeEraImmortal = [0]"

text \<open>The loop that counts the trailing zeros of the period.\<close>

function trailing_zeros :: "u64 \<Rightarrow> u64 \<Rightarrow> u64" where
  "trailing_zeros p tz = (if p > 0 \<and> p AND 1 = 0 then trailing_zeros (drop_bit 1 p) (tz + 1) else tz)"
  by pat_completeness auto
termination
proof (relation "measure (\<lambda>(p, _). unat p)", simp_all)
  fix p :: u64
  assume "0 < p \<and> p AND 1 = 0"
  then have "0 < unat p" by (simp add: word_less_nat_alt)
  then show "unat (drop_bit (Suc 0) p) < unat p" by (simp add: unat_drop_bit)
qed

declare trailing_zeros.simps [simp del]

definition encodeEraMortal :: "u64 \<Rightarrow> u64 \<Rightarrow> bytes" where
  "encodeEraMortal height period0 =
     (let period = (if period0 = 0 then 64 else period0);
          phase = height mod period;
          tz = trailing_zeros period 0;
          e = (if tz \<ge> 1 then tz - 1 else tz);
          e = (if e < 1 then 1 else e);
          e = (if e > 15 then 15 else e);
          quant = drop_bit 12 period;
          quant = (if quant < 1 then 1 else quant);
          encoded = e OR push_bit 4 (phase div quant)
      in [ucast encoded, ucast (drop_bit 8 encoded)])"

section \<open>Extrinsics\<close>

definition encodeTransferCall :: "bytes \<Rightarrow> bytes \<Rightarrow> int \<Rightarrow> bytes" where
  "encodeTransferCall callIndex recipientPubKey amount =
     callIndex @ [0] @ recipientPubKey @ encodeCompact amount"

definition flag :: "bool \<Rightarrow> bytes" where
  "flag b = (if b then [0] else [])"

definition encodeSigningPayload ::
  "bytes \<Rightarrow> bytes \<Rightarrow> int \<Rightarrow> int \<Rightarrow> u32 \<Rightarrow> u32 \<Rightarrow> bytes \<Rightarrow> bytes \<Rightarrow> bool \<Rightarrow> bool \<Rightarrow> bytes"
where
  "encodeSigningPayload callBytes era nonce tip specVersion txVersion genesisHash blockHash
      hasAssetTxPayment hasMetadataHash =
     callBytes @ era @ encodeCompact nonce @ encodeCompact tip @ flag hasAssetTxPayment @
     flag hasMetadataHash @ encodeU32LE specVersion @ encodeU32LE txVersion @ genesisHash @
     blockHash @ flag hasMetadataHash"

definition encodeSignedExtrinsic ::
  "bytes \<Rightarrow> u8 \<Rightarrow> bytes \<Rightarrow> bytes \<Rightarrow> int \<Rightarrow> int \<Rightarrow> bytes \<Rightarrow> bool \<Rightarrow> bool \<Rightarrow> bytes"
where
  "encodeSignedExtrinsic senderPubKey sigType signature era nonce tip callBytes
      hasAssetTxPayment hasMetadataHash =
     (let inner = [0x84, 0] @ senderPubKey @ [sigType] @ signature @ era @ encodeCompact nonce @
            encodeCompact tip @ flag hasAssetTxPayment @ flag hasMetadataHash @ callBytes
      in encodeCompact (int (length inner)) @ inner)"

section \<open>Addresses\<close>

record nativeTx =
  ntx_Sender :: string
  ntx_Call :: bytes
  ntx_Era :: bytes
  ntx_Nonce :: int
  ntx_Tip :: int

record substrate_env =
  b58_Encode :: "bytes \<Rightarrow> string"
  b58_Decode :: "string \<Rightarrow> bytes"
  blake2b_512 :: "bytes \<Rightarrow> bytes"
  blake2b_256 :: "bytes \<Rightarrow> bytes"
  marshal :: "nativeTx \<Rightarrow> bytes"
  unmarshal :: "bytes \<Rightarrow> nativeTx option"
  SignSR25519 :: "bytes \<Rightarrow> bytes \<Rightarrow> bytes option"

definition ss58Prefix :: string where "ss58Prefix = ''SS58PRE''"

definition convert2PublicKey :: "substrate_env \<Rightarrow> string \<Rightarrow> bytes" where
  "convert2PublicKey H address =
     (let addrBytes = b58_Decode H address
      in if length addrBytes \<noteq> 35 then []
         else let addrBytes = drop 1 addrBytes in take (length addrBytes - 2) addrBytes)"

definition ss58Checksum :: "substrate_env \<Rightarrow> bytes \<Rightarrow> bytes" where
  "ss58Checksum H data = blake2b_512 H (bytes_of_string ss58Prefix @ data)"

definition toBase58 :: "substrate_env \<Rightarrow> bytes \<Rightarrow> bytes \<Rightarrow> u8 \<Rightarrow> string" where
  "toBase58 H buf accountID net =
     b58_Encode H ([net] @ accountID @ take 2 (ss58Checksum H buf))"

definition networkSS58Prefix :: "string \<Rightarrow> u8 option" where
  "networkSS58Prefix =
     [''0'' \<mapsto> 0, ''2'' \<mapsto> 2, ''5'' \<mapsto> 5, ''10'' \<mapsto> 10, ''42'' \<mapsto> 42, ''tao'' \<mapsto> 42,
      ''assethub-dot'' \<mapsto> 0]"

definition PublicKey2Address :: "substrate_env \<Rightarrow> bytes \<Rightarrow> string \<Rightarrow> string" where
  "PublicKey2Address H publicKey net =
     (case networkSS58Prefix net of
        None \<Rightarrow> []
      | Some prefix \<Rightarrow> toBase58 H (prefix # publicKey) publicKey prefix)"

definition ValidAddress :: "substrate_env \<Rightarrow> string \<Rightarrow> string \<Rightarrow> bool" where
  "ValidAddress H address net =
     (case networkSS58Prefix net of
        None \<Rightarrow> False
      | Some prefix \<Rightarrow>
          let addrBytes = b58_Decode H address
          in if length addrBytes \<noteq> 35 then False
             else if addrBytes ! 0 \<noteq> prefix then False
             else
               let publicKey = take 32 (drop 1 addrBytes);
                   storedChecksum = drop 33 addrBytes;
                   expectedChecksum = ss58Checksum H (prefix # publicKey)
               in storedChecksum ! 0 = expectedChecksum ! 0 \<and>
                  storedChecksum ! 1 = expectedChecksum ! 1)"

section \<open>The transaction builder\<close>

record ChainInfo =
  CallIndex :: string
  Metadata :: string
  BlockHash :: string
  GenesisHash :: string
  SpecVersion :: string
  TransactionVersion :: string
  ExistentialDeposit :: string
  TypeSource :: string
  HasCheckMetadataHash :: bool
  HasAssetTxPayment :: bool

record Ingredient =
  TxType :: string
  ContractAddress :: string
  Sender :: string
  Recipient :: string
  Amount :: string
  Nonce :: string
  Fee :: string
  TheChainInfo :: ChainInfo

record TxBuilder =
  TheIngredient :: Ingredient
  network :: string
  unsignedHex :: string
  sigHash :: "string list"
  txHash :: string

datatype substrate_error =
  OnlyBasecoin | InvalidRecipient | InvalidAmount | InvalidCallIndex | InvalidGenesisHash
| InvalidSpecVersion | InvalidTransactionVersion | InvalidNonce | InvalidFee | NoSigHash
| HexInvalid | SignFailed | NoUnsignedHex | DerUnsupported | UnmarshalFailed | InvalidSender

definition MagicContactAddressForNative :: string where
  "MagicContactAddressForNative = ''0xeeeeeeeeeeeeeeeeeeeeeeeeeeeeeeeeeeeeeeee''"

definition NewTxBuilder :: "Ingredient \<Rightarrow> string \<Rightarrow> TxBuilder" where
  "NewTxBuilder ti net =
     \<lparr>TheIngredient = ti, network = net, unsignedHex = [], sigHash = [], txHash = []\<rparr>"

text \<open>A parsed number, or the error of the field.\<close>

definition uint_field :: "substrate_error \<Rightarrow> nat \<Rightarrow> string \<Rightarrow> substrate_error + nat" where
  "uint_field e bits s = (case ParseUint bits s of (v, None) \<Rightarrow> Inr v | (_, Some _) \<Rightarrow> Inl e)"

definition int_field :: "substrate_error \<Rightarrow> string \<Rightarrow> substrate_error + int" where
  "int_field e s = (case ParseInt 64 s of (v, None) \<Rightarrow> Inr v | (_, Some _) \<Rightarrow> Inl e)"

definition hex_field :: "substrate_error \<Rightarrow> (bytes \<Rightarrow> bool) \<Rightarrow> string \<Rightarrow> substrate_error + bytes" where
  "hex_field e ok s =
     (case hex_decode (strings_TrimPrefix s ''0x'') of
        None \<Rightarrow> Inl e
      | Some b \<Rightarrow> if ok b then Inr b else Inl e)"

text \<open>The unsigned transaction with the bytes to sign.\<close>

definition build_parts ::
  "substrate_env \<Rightarrow> string \<Rightarrow> Ingredient \<Rightarrow> substrate_error + nativeTx \<times> bytes"
where
  "build_parts E net i =
     (let info = TheChainInfo i in
      if ContractAddress i \<noteq> MagicContactAddressForNative then Inl OnlyBasecoin
      else if \<not> ValidAddress E (Recipient i) net then Inl InvalidRecipient
      else
        let recipientPub = convert2PublicKey E (Recipient i)
        in if length recipientPub \<noteq> 32 then Inl InvalidRecipient
        else
        andThen (orErr InvalidAmount (big_SetString (Amount i))) (\<lambda>amount.
        andThen (hex_field InvalidCallIndex (\<lambda>b. b \<noteq> []) (CallIndex info)) (\<lambda>callIndex.
        andThen (hex_field InvalidGenesisHash (\<lambda>b. length b = 32) (GenesisHash info)) (\<lambda>genesisHash.
        andThen (uint_field InvalidSpecVersion 32 (SpecVersion info)) (\<lambda>specVersion.
        andThen (uint_field InvalidTransactionVersion 32 (TransactionVersion info)) (\<lambda>txVersion.
        andThen (int_field InvalidNonce (Nonce i)) (\<lambda>nonceInt.
        andThen (int_field InvalidFee (Fee i)) (\<lambda>feeInt.
          let call = encodeTransferCall callIndex recipientPub amount;
              era = encodeEraImmortal;
              payload = encodeSigningPayload call era nonceInt feeInt (word_of_nat specVersion)
                (word_of_nat txVersion) genesisHash genesisHash (HasAssetTxPayment info)
                (HasCheckMetadataHash info)
          in Inr (\<lparr>ntx_Sender = Sender i, ntx_Call = call, ntx_Era = era, ntx_Nonce = nonceInt,
                   ntx_Tip = feeInt\<rparr>, payload)))))))))"

definition sig_hash_bytes :: "substrate_env \<Rightarrow> bytes \<Rightarrow> bytes" where
  "sig_hash_bytes E payload = (if length payload > 256 then blake2b_256 E payload else payload)"

definition Build ::
  "substrate_env \<Rightarrow> TxBuilder \<Rightarrow> TxBuilder \<times> (substrate_error + unit)"
where
  "Build E tx =
     (let tx = tx\<lparr>sigHash := [], unsignedHex := [], txHash := []\<rparr>
      in case build_parts E (network tx) (TheIngredient tx) of
           Inl e \<Rightarrow> (tx, Inl e)
         | Inr (ntx, payload) \<Rightarrow>
             (tx\<lparr>sigHash := [hex_encode (sig_hash_bytes E payload)],
                 unsignedHex := hex_encode (marshal E ntx)\<rparr>, Inr ()))"

definition Sign :: "substrate_env \<Rightarrow> TxBuilder \<Rightarrow> bytes \<Rightarrow> substrate_error + string" where
  "Sign E tx privateKey =
     (if length (sigHash tx) \<noteq> 1 then Inl NoSigHash
      else andThen (orErr HexInvalid (hex_decode (sigHash tx ! 0))) (\<lambda>sigHashBytes.
           map_sum id hex_encode (orErr SignFailed (SignSR25519 E privateKey sigHashBytes))))"

definition signed_extrinsic ::
  "substrate_env \<Rightarrow> TxBuilder \<Rightarrow> string \<Rightarrow> bool \<Rightarrow> substrate_error + bytes"
where
  "signed_extrinsic E tx signature isDerFormat =
     (let info = TheChainInfo (TheIngredient tx) in
      if unsignedHex tx = [] then Inl NoUnsignedHex
      else if isDerFormat then Inl DerUnsupported
      else
      andThen (orErr HexInvalid (hex_decode (unsignedHex tx))) (\<lambda>ntxBytes.
      andThen (orErr UnmarshalFailed (unmarshal E ntxBytes)) (\<lambda>ntx.
        let senderPub = convert2PublicKey E (ntx_Sender ntx)
        in if length senderPub \<noteq> 32 then Inl InvalidSender
           else andThen (orErr HexInvalid (hex_decode (strings_TrimPrefix signature ''0x''))) (\<lambda>sigBytes.
             Inr (encodeSignedExtrinsic senderPub 1 sigBytes (ntx_Era ntx) (ntx_Nonce ntx)
               (ntx_Tip ntx) (ntx_Call ntx) (HasAssetTxPayment info) (HasCheckMetadataHash info))))))"

definition ConcatSignature ::
  "substrate_env \<Rightarrow> TxBuilder \<Rightarrow> string \<Rightarrow> bool \<Rightarrow> TxBuilder \<times> (substrate_error + string)"
where
  "ConcatSignature E tx signature isDerFormat =
     (case signed_extrinsic E tx signature isDerFormat of
        Inl e \<Rightarrow> (tx, Inl e)
      | Inr signedExt \<Rightarrow>
          (tx\<lparr>txHash := ''0x'' @ hex_encode (blake2b_256 E signedExt)\<rparr>,
           Inr (''0x'' @ hex_encode signedExt)))"

definition GetTxHash :: "TxBuilder \<Rightarrow> string" where "GetTxHash tx = txHash tx"
definition GetSigHash :: "TxBuilder \<Rightarrow> string list" where "GetSigHash tx = sigHash tx"
definition GetUnsignedHex :: "TxBuilder \<Rightarrow> string" where "GetUnsignedHex tx = unsignedHex tx"
definition SetSigHash :: "TxBuilder \<Rightarrow> string list \<Rightarrow> TxBuilder" where
  "SetSigHash tx hashes = tx\<lparr>sigHash := hashes\<rparr>"
definition SetUnsignedHex :: "TxBuilder \<Rightarrow> string \<Rightarrow> TxBuilder" where
  "SetUnsignedHex tx hex = tx\<lparr>unsignedHex := hex\<rparr>"

section \<open>Reading the encodings back\<close>

text \<open>The compact form of the SCALE codec: two bits of mode, and the number above them.\<close>

definition dec_compact :: "bytes \<Rightarrow> (nat \<times> bytes) option" where
  "dec_compact bs =
     (case bs of
        [] \<Rightarrow> None
      | b # rest \<Rightarrow>
          let mode = unat b mod 4
          in if mode = 0 then Some (unat b div 4, rest)
             else if mode = 1 then map_option (map_prod (\<lambda>n. n div 4) id) (dec_le 2 bs)
             else if mode = 2 then map_option (map_prod (\<lambda>n. n div 4) id) (dec_le 4 bs)
             else dec_le (unat b div 4 + 4) rest)"

lemma tagged: "m < 4 \<Longrightarrow> push_bit 2 n OR m = 4 * n + (m :: nat)"
  using or_shift_nat [of m 2 n] by (simp add: push_bit_eq_mult mult.commute)

lemma unat_tagged:
  assumes "n < 2 ^ LENGTH('a) div 4" "m < 4" "3 < LENGTH('a)"
  shows "unat (push_bit 2 (word_of_nat n) OR word_of_nat m :: 'a::len word) = 4 * n + m"
proof -
  have "(4 :: nat) \<le> 2 ^ LENGTH('a)" using power_increasing [of 2 "LENGTH('a)" "2 :: nat"] assms(3) by simp
  then have "n < 2 ^ LENGTH('a)" "4 * n < 2 ^ LENGTH('a)" "m < 2 ^ LENGTH('a)" using assms by linarith+
  moreover have "push_bit 2 (word_of_nat n :: 'a word) = word_of_nat (4 * n)" by (simp add: push_bit_eq_mult)
  ultimately have "unat (push_bit 2 (word_of_nat n) :: 'a word) = push_bit 2 n" "unat (word_of_nat m :: 'a word) = m"
    by (simp_all only: unat_of_nat) (simp_all add: push_bit_eq_mult)
  then show ?thesis using tagged [OF assms(2), of n] by (simp add: unsigned_or_eq)
qed

lemma length_big_Bytes_pos: "256 ^ k \<le> n \<Longrightarrow> k < length (big_Bytes n)"
  using be_val_bound [of "big_Bytes n"] by (metis be_val_big_Bytes leD linorder_not_less nat_power_less_imp_less zero_less_numeral order_le_less_trans)

lemma dec_compact_le:
  assumes "unat (b0 :: u8) mod 4 = m" "m = 1 \<and> k = 2 \<or> m = 2 \<and> k = 4" "length (b0 # bs) = k"
  shows "dec_compact (b0 # bs @ rest) = Some (le_val (b0 # bs) div 4, rest)"
  using assms by (auto simp: dec_compact_def dec_le_def Let_def)

lemma le_bytes_front:
  obtains b bs where "le_bytes (Suc k) v = b # bs" "unat b = v mod 256" "length bs = k"
    "le_val (b # bs) = v mod 256 ^ Suc k"
  using le_val_le_bytes [of "Suc k" v] unat_word_of_nat_u8 [of v]
  by (metis le_bytes.simps(2) length_le_bytes)

lemma le_bytes_two: "le_bytes 2 v = le_bytes (Suc 1) v"
  by (simp add: numeral_2_eq_2)

lemma dec_encodeCompact:
  assumes "n < 256 ^ 67"
  shows "dec_compact (encodeCompact (int n) @ rest) = Some (n, rest)"
proof -
  consider (zero) "n = 0" | (one) "0 < n" "n < 2 ^ 6" | (two) "2 ^ 6 \<le> n" "n < 2 ^ 14"
    | (four) "2 ^ 14 \<le> n" "n < 2 ^ 30" | (big) "2 ^ 30 \<le> n"
    by linarith
  then show ?thesis
  proof cases
    case zero
    then show ?thesis by (simp add: encodeCompact_def dec_compact_def)
  next
    case one
    then show ?thesis
      using unat_tagged [where 'a = 8, of n 0] by (simp add: encodeCompact_def dec_compact_def)
  next
    case two
    let ?x = "push_bit 2 (word_of_nat n) OR 1 :: u16"
    have x: "unat ?x = 4 * n + 1" using unat_tagged [where 'a = 16, of n 1] two by simp
    have "encodeCompact (int n) = le_bytes 2 (4 * n + 1)"
      using two by (simp add: encodeCompact_def Let_def flip: le_word_2) (simp add: le_word_def x)
    moreover obtain b0 bs where "le_bytes (Suc 1) (4 * n + 1) = b0 # bs" "unat b0 = (4 * n + 1) mod 256"
      "length bs = 1" "le_val (b0 # bs) = (4 * n + 1) mod 256 ^ Suc 1"
      by (rule le_bytes_front)
    ultimately show ?thesis
      using dec_compact_le [of b0 1 2 bs rest] two le_bytes_two [of "4 * n + 1"] by (simp add: mod_mod_cancel)
  next
    case four
    let ?x = "push_bit 2 (word_of_nat n) OR 2 :: u32"
    have x: "unat ?x = 4 * n + 2" using unat_tagged [where 'a = 32, of n 2] four by simp
    have "encodeCompact (int n) = le_bytes 4 (4 * n + 2)"
      using four by (simp add: encodeCompact_def Let_def flip: le_word_4) (simp add: le_word_def x)
    moreover obtain b0 bs where "le_bytes (Suc 3) (4 * n + 2) = b0 # bs" "unat b0 = (4 * n + 2) mod 256"
      "length bs = 3" "le_val (b0 # bs) = (4 * n + 2) mod 256 ^ Suc 3"
      by (rule le_bytes_front)
    moreover have "Suc (Suc (4 * n)) mod 4 = 2" "Suc (Suc (4 * n)) div 4 = n" by presburger+
    ultimately show ?thesis
      using dec_compact_le [of b0 2 4 bs rest] four by (simp add: mod_mod_cancel)
  next
    case big
    let ?le = "rev (big_Bytes n)"
    have l: "4 \<le> length ?le" "length ?le \<le> 67"
      using length_big_Bytes_pos [of 3 n] big length_big_Bytes [OF assms] by simp_all
    let ?b = "word_of_nat (push_bit 2 (length ?le - 4) OR 3) :: u8"
    have b: "unat ?b = 4 * (length ?le - 4) + 3"
      using l by (simp only: tagged unat_word_of_nat_u8) simp
    have "encodeCompact (int n) = ?b # ?le" using big by (simp add: encodeCompact_def Let_def)
    moreover have "unat ?b mod 4 = 3" "unat ?b div 4 + 4 = length ?le" using l by (simp_all only: b) simp_all
    ultimately show ?thesis
      by (simp add: dec_compact_def dec_le_def Let_def le_val_rev)
  qed
qed

interpretation compact: codec "\<lambda>n. encodeCompact (int n)" dec_compact "\<lambda>n. n < 256 ^ 67"
  by unfold_locales (rule dec_encodeCompact)

text \<open>
  A signed extrinsic as the chain reads it, with a 64-byte signature and an immortal era:
  the sender, the kind of the signature, the signature, the era, nonce, tip and the call.
\<close>

definition dec_flag :: "bool \<Rightarrow> bytes \<Rightarrow> bytes option" where
  "dec_flag present bs =
     (if present then (case bs of [] \<Rightarrow> None | b # rest \<Rightarrow> if b = 0 then Some rest else None)
      else Some bs)"

definition dec_extrinsic ::
  "bool \<Rightarrow> bool \<Rightarrow> bytes \<Rightarrow> (bytes \<times> u8 \<times> bytes \<times> bytes \<times> nat \<times> nat \<times> bytes) option"
where
  "dec_extrinsic hasAssetTxPayment hasMetadataHash ext =
     (case dec_compact ext of
        None \<Rightarrow> None
      | Some (n, inner) \<Rightarrow>
        if length inner \<noteq> n \<or> length inner < 100 \<or> take 2 inner \<noteq> [0x84, 0] \<or> inner ! 99 \<noteq> 0 then None
        else case dec_compact (drop 100 inner) of
          None \<Rightarrow> None
        | Some (nonce, rest) \<Rightarrow>
          (case dec_compact rest of
             None \<Rightarrow> None
           | Some (tip, rest) \<Rightarrow>
             (case dec_flag hasAssetTxPayment rest of
                None \<Rightarrow> None
              | Some rest \<Rightarrow>
                (case dec_flag hasMetadataHash rest of
                   None \<Rightarrow> None
                 | Some call \<Rightarrow>
                     Some (take 32 (drop 2 inner), inner ! 34, take 64 (drop 35 inner), [inner ! 99],
                       nonce, tip, call)))))"

lemma dec_flag [simp]: "dec_flag b (flag b @ rest) = Some rest"
  by (simp add: dec_flag_def flag_def)

lemma nat_bound_compact: "n < 2 ^ 64 \<Longrightarrow> (n :: nat) < 256 ^ 67"
  by (rule less_trans [of _ "2 ^ 64"]) simp_all

lemma dec_encodeCompact_int:
  "0 \<le> v \<Longrightarrow> v < 2 ^ 64 \<Longrightarrow> dec_compact (encodeCompact v @ rest) = Some (nat v, rest)"
  using dec_encodeCompact [of "nat v" rest] nat_bound_compact [of "nat v"] by simp

lemma dec_extrinsic_encode:
  assumes "length pk = 32" "length sig = 64" "0 \<le> nonce" "nonce < 2 ^ 63" "0 \<le> tip" "tip < 2 ^ 63"
    and "length call < 2 ^ 62"
  shows "dec_extrinsic a m (encodeSignedExtrinsic pk t sig encodeEraImmortal nonce tip call a m) =
    Some (pk, t, sig, encodeEraImmortal, nat nonce, nat tip, call)"
proof -
  let ?rest = "encodeCompact nonce @ encodeCompact tip @ flag a @ flag m @ call"
  let ?inner = "[0x84, 0] @ pk @ [t] @ sig @ encodeEraImmortal @ ?rest"
  have c: "length (encodeCompact v) \<le> 9" if "v < 2 ^ 63" for v
    using length_big_Bytes [of "nat v" 8] that by (auto simp: encodeCompact_def Let_def)
  have "length ?rest < 2 ^ 63"
    using c [OF assms(4)] c [OF assms(6)] assms(7) by (simp add: flag_def)
  then have len: "length ?inner < 2 ^ 64" using assms by (simp add: encodeEraImmortal_def)
  have parts: "length ?inner \<ge> 100" "take 2 ?inner = [0x84, 0]" "?inner ! 99 = 0" "drop 100 ?inner = ?rest"
    "take 32 (drop 2 ?inner) = pk" "?inner ! 34 = t" "take 64 (drop 35 ?inner) = sig"
    using assms(1,2) by (simp_all add: nth_append encodeEraImmortal_def)
  have "encodeSignedExtrinsic pk t sig encodeEraImmortal nonce tip call a m = encodeCompact (int (length ?inner)) @ ?inner"
    by (simp add: encodeSignedExtrinsic_def Let_def)
  then have "dec_compact (encodeSignedExtrinsic pk t sig encodeEraImmortal nonce tip call a m) = Some (length ?inner, ?inner)"
    using dec_encodeCompact [OF nat_bound_compact [OF len], of ?inner] by simp
  with parts show ?thesis
    using dec_encodeCompact_int [of nonce "encodeCompact tip @ flag a @ flag m @ call"]
      dec_encodeCompact_int [of tip "flag a @ flag m @ call"] assms(3-6)
    by (simp add: dec_extrinsic_def encodeEraImmortal_def not_less)
qed

section \<open>What is signed is what is sent\<close>

lemma build_parts_ok:
  assumes "build_parts E net i = Inr (ntx, payload)"
  obtains amount callIndex genesis spec version nonce tip where
    "big_SetString (Amount i) = Some amount" "length (convert2PublicKey E (Recipient i)) = 32"
    "ValidAddress E (Recipient i) net" "length genesis = 32"
    "hex_decode (strings_TrimPrefix (CallIndex (TheChainInfo i)) ''0x'') = Some callIndex"
    "hex_decode (strings_TrimPrefix (GenesisHash (TheChainInfo i)) ''0x'') = Some genesis"
    "ParseUint 32 (SpecVersion (TheChainInfo i)) = (spec, None)"
    "ParseUint 32 (TransactionVersion (TheChainInfo i)) = (version, None)"
    "ParseInt 64 (Nonce i) = (nonce, None)" "ParseInt 64 (Fee i) = (tip, None)"
    "ntx = \<lparr>ntx_Sender = Sender i, ntx_Call = encodeTransferCall callIndex (convert2PublicKey E (Recipient i)) amount,
       ntx_Era = encodeEraImmortal, ntx_Nonce = nonce, ntx_Tip = tip\<rparr>"
    "payload = encodeSigningPayload (encodeTransferCall callIndex (convert2PublicKey E (Recipient i)) amount)
       encodeEraImmortal nonce tip (word_of_nat spec) (word_of_nat version) genesis genesis
       (HasAssetTxPayment (TheChainInfo i)) (HasCheckMetadataHash (TheChainInfo i))"
  using assms
  by (auto simp: build_parts_def Let_def andThen_eq_Inr hex_field_def uint_field_def int_field_def
      split: if_splits option.splits prod.splits)

lemma ParseInt_less: "ParseInt 64 s = (v, None) \<Longrightarrow> v < 2 ^ 63"
  by (auto simp: ParseInt_def Let_def split: list.splits prod.splits option.splits num_error.splits if_splits)


lemma flag_append [simp]: "flag b @ r = flag b @ s \<longleftrightarrow> r = s"
  by (simp add: flag_def)

lemma encodeU32LE_word: "encodeU32LE v = le_word 4 v"
  by (simp add: encodeU32LE_def le_word_4)

text \<open>The numbers the compact form can hold.\<close>

definition compactable :: "int \<Rightarrow> bool" where
  "compactable v \<longleftrightarrow> 0 \<le> v \<and> v < 256 ^ 67"

lemma compact_append:
  assumes "compactable v" "compactable w"
  shows "encodeCompact v @ r = encodeCompact w @ s \<longleftrightarrow> v = w \<and> r = s"
proof -
  have "nat v < 256 ^ 67" "nat w < 256 ^ 67" using assms by (simp_all add: compactable_def nat_less_iff)
  from compact.enc_append [OF this, of r s] assms show ?thesis by (auto simp: compactable_def)
qed

lemma ParseInt_compactable:
  assumes "ParseInt 64 s = (v, None)" "0 \<le> v"
  shows "compactable v"
proof -
  have "v < 2 ^ 63" using assms(1) by (rule ParseInt_less)
  also have "(2 :: int) ^ 63 \<le> 256 ^ 67" by simp
  finally show ?thesis using assms(2) by (simp only: compactable_def)
qed

lemma payload_inject:
  assumes "encodeSigningPayload (encodeTransferCall c r a) e n t s v g g f h =
      encodeSigningPayload (encodeTransferCall c' r' a') e n' t' s' v' g' g' f h"
    and "length c = length c'" "length r = 32" "length r' = 32" "length g = 32" "length g' = 32"
    and range: "\<And>x. x \<in> {a, a', n, n', t, t'} \<Longrightarrow> compactable x"
  shows "c = c' \<and> r = r' \<and> a = a' \<and> n = n' \<and> t = t' \<and> s = s' \<and> v = v' \<and> g = g'"
proof -
  have c: "encodeCompact x @ p = encodeCompact y @ q \<longleftrightarrow> x = y \<and> p = q"
    if "x \<in> {a, a', n, n', t, t'}" "y \<in> {a, a', n, n', t, t'}" for x y p q
    using compact_append range that by simp
  have "c @ [0] @ r @ encodeCompact a @ e @ encodeCompact n @ encodeCompact t @ flag f @ flag h @
      encodeU32LE s @ encodeU32LE v @ g @ g @ flag h =
    c' @ [0] @ r' @ encodeCompact a' @ e @ encodeCompact n' @ encodeCompact t' @ flag f @ flag h @
      encodeU32LE s' @ encodeU32LE v' @ g' @ g' @ flag h"
    using assms(1) by (simp add: encodeSigningPayload_def encodeTransferCall_def)
  then show ?thesis
    using assms(2-6) c [of t t' "[]" "[]"] by (simp add: append_eq_append_conv c encodeU32LE_word)
qed


lemma convert_address:
  assumes "b58_Decode E (b58_Encode E (prefix # pk @ take 2 cs)) = prefix # pk @ take 2 cs"
    and "length pk = 32" "2 \<le> length cs"
  shows "convert2PublicKey E (b58_Encode E (prefix # pk @ take 2 cs)) = pk"
  using assms by (simp add: convert2PublicKey_def Let_def)

lemma address_round_trip:
  assumes "\<And>b. b58_Decode E (b58_Encode E b) = b" "\<And>d. 2 \<le> length (blake2b_512 E d)"
    and "length pk = 32" "networkSS58Prefix net = Some prefix"
  shows "ValidAddress E (PublicKey2Address E pk net) net \<and> convert2PublicKey E (PublicKey2Address E pk net) = pk"
proof -
  let ?cs = "ss58Checksum E (prefix # pk)"
  have addr: "PublicKey2Address E pk net = b58_Encode E (prefix # pk @ take 2 ?cs)"
    by (simp add: PublicKey2Address_def assms(4) toBase58_def)
  have cs: "2 \<le> length ?cs" using assms(2) by (simp add: ss58Checksum_def)
  then have "convert2PublicKey E (PublicKey2Address E pk net) = pk"
    using convert_address assms by (simp add: addr)
  moreover have "ValidAddress E (PublicKey2Address E pk net) net"
    using cs by (simp add: ValidAddress_def assms addr Let_def nth_append)
  ultimately show ?thesis by simp
qed

text \<open>
  The address of a public key is valid on its network, and decodes to the key.
\<close>

theorem substrate_address_roundtrip:
  assumes "\<And>b. b58_Decode E (b58_Encode E b) = b" "\<And>d. 2 \<le> length (blake2b_512 E d)"
    and "length pk = 32" "networkSS58Prefix net = Some prefix"
  shows "ValidAddress E (PublicKey2Address E pk net) net \<and> convert2PublicKey E (PublicKey2Address E pk net) = pk"
  using address_round_trip [OF assms] .

text \<open>A negative amount builds the same transaction as a transfer of nothing.\<close>

lemma negative_amount_is_zero:
  assumes "big_SetString a = Some v" "v \<le> 0" "big_SetString b = Some w" "w \<le> 0"
  shows "build_parts E net (i\<lparr>Amount := a\<rparr>) = build_parts E net (i\<lparr>Amount := b\<rparr>)"
proof -
  have "encodeTransferCall c r v = encodeTransferCall c r w" for c r
    using assms by (simp add: encodeTransferCall_def encodeCompact_def)
  then show ?thesis using assms by (simp add: build_parts_def Let_def)
qed

section \<open>A concrete instance\<close>

definition sample_key :: bytes where "sample_key = replicate 32 9"

definition sample_ntx :: nativeTx where
  "sample_ntx = \<lparr>ntx_Sender = hex_encode (0 # sample_key @ [0, 0]),
     ntx_Call = encodeTransferCall [5, 3] sample_key 1000, ntx_Era = encodeEraImmortal, ntx_Nonce = 7, ntx_Tip = 0\<rparr>"

definition sample_env :: substrate_env where
  "sample_env = \<lparr>b58_Encode = hex_encode, b58_Decode = (\<lambda>s. case hex_decode s of None \<Rightarrow> [] | Some b \<Rightarrow> b),
     blake2b_512 = (\<lambda>_. [0, 0]), blake2b_256 = (\<lambda>_. [1]), marshal = (\<lambda>_. [2]),
     unmarshal = (\<lambda>_. Some sample_ntx), SignSR25519 = (\<lambda>_ _. None)\<rparr>"

definition sample_ingredient :: Ingredient where
  "sample_ingredient =
     \<lparr>TxType = ''0'', ContractAddress = MagicContactAddressForNative,
      Sender = hex_encode (0 # sample_key @ [0, 0]), Recipient = hex_encode (0 # sample_key @ [0, 0]),
      Amount = ''1000'', Nonce = ''7'', Fee = ''0'',
      TheChainInfo = \<lparr>CallIndex = ''0x'' @ hex_encode [5, 3], Metadata = [], BlockHash = [],
        GenesisHash = ''0x'' @ hex_encode (replicate 32 1), SpecVersion = ''26'', TransactionVersion = ''1'',
        ExistentialDeposit = [], TypeSource = [], HasCheckMetadataHash = True, HasAssetTxPayment = False\<rparr>\<rparr>"

lemma sample_env_laws:
  "b58_Decode sample_env (b58_Encode sample_env b) = b" "2 \<le> length (blake2b_512 sample_env d)"
  by (simp_all add: sample_env_def)

lemma sample_env_fields [simp]:
  "marshal sample_env ntx = [2]" "unmarshal sample_env b = Some sample_ntx" "blake2b_256 sample_env d = [1]"
  by (simp_all add: sample_env_def)

lemma network_dot [simp]: "networkSS58Prefix ''0'' = Some 0"
  by (simp add: networkSS58Prefix_def)

theorem substrate_address_roundtrip_witness:
  "ValidAddress sample_env (PublicKey2Address sample_env sample_key ''0'') ''0'' \<and>
     convert2PublicKey sample_env (PublicKey2Address sample_env sample_key ''0'') = sample_key"
  by (rule substrate_address_roundtrip [OF sample_env_laws _ network_dot]) (simp add: sample_key_def)

lemma sample_address:
  "ValidAddress sample_env (hex_encode (0 # sample_key @ [0, 0])) ''0''"
  "convert2PublicKey sample_env (hex_encode (0 # sample_key @ [0, 0])) = sample_key"
proof -
  have "PublicKey2Address sample_env sample_key ''0'' = hex_encode (0 # sample_key @ [0, 0])"
    by (simp add: PublicKey2Address_def toBase58_def sample_env_def ss58Checksum_def)
  with address_round_trip [OF sample_env_laws _ network_dot, of sample_key]
  show "ValidAddress sample_env (hex_encode (0 # sample_key @ [0, 0])) ''0''"
    "convert2PublicKey sample_env (hex_encode (0 # sample_key @ [0, 0])) = sample_key"
    by (simp_all add: sample_key_def)
qed

lemma sample_numbers:
  "ParseUint 32 ''26'' = (26, None)" "ParseUint 32 ''1'' = (1, None)" "ParseInt 64 ''7'' = (7, None)"
  "ParseInt 64 ''0'' = (0, None)" "big_SetString ''1000'' = Some 1000"
  by (simp_all add: ParseInt_def ParseUint_def digit_of_def char_nat_def big_SetString_def)

lemma sample_parts:
  "build_parts sample_env ''0'' (sample_ingredient\<lparr>Sender := s\<rparr>) =
     Inr (sample_ntx\<lparr>ntx_Sender := s\<rparr>,
       encodeSigningPayload (encodeTransferCall [5, 3] sample_key 1000) encodeEraImmortal 7 0 26 1
         (replicate 32 1) (replicate 32 1) False True)"
proof -
  have "hex_decode (strings_TrimPrefix (''0x'' @ hex_encode b) ''0x'') = Some b" for b
    by (simp only: TrimPrefix_append hex_decode_encode)
  then show ?thesis
    by (simp add: build_parts_def sample_ingredient_def sample_address sample_numbers hex_field_def uint_field_def
        int_field_def sample_ntx_def sample_key_def [symmetric] Let_def del: append.simps hex_encode.simps)
       (simp add: sample_key_def)
qed

lemma sample_ingredient_sender: "sample_ingredient\<lparr>Sender := hex_encode (0 # sample_key @ [0, 0])\<rparr> = sample_ingredient"
  by (simp add: sample_ingredient_def)

lemma sample_ntx_sender: "sample_ntx\<lparr>ntx_Sender := hex_encode (0 # sample_key @ [0, 0])\<rparr> = sample_ntx"
  by (simp add: sample_ntx_def)

lemmas sample_own_parts = sample_parts [of "hex_encode (0 # sample_key @ [0, 0])",
  unfolded sample_ingredient_sender sample_ntx_sender]

lemma sample_info:
  "HasAssetTxPayment (TheChainInfo sample_ingredient) = False" "HasCheckMetadataHash (TheChainInfo sample_ingredient) = True"
  "Nonce sample_ingredient = ''7''" "Fee sample_ingredient = ''0''" "Amount sample_ingredient = ''1000''"
  by (simp_all add: sample_ingredient_def)



end
