(* ===== verification/Regroup.thy ===== *)
theory Regroup
  imports Codec
begin

text \<open>
  \<open>convertBits\<close> of \<open>signing/kaspa/bech32.go\<close>: bytes regrouped into five-bit symbols and back. The
  groups written and the group being filled spell one number, so regrouping is division with
  remainder, which gives the round trip. Base32 is the same regrouping.
\<close>

section \<open>Regrouping bits\<close>

record conversionType =
  fromBits :: nat
  toBits :: nat
  pad :: bool

definition fiveToEightBits :: conversionType where
  "fiveToEightBits = \<lparr>fromBits = 5, toBits = 8, pad = False\<rparr>"

definition eightToFiveBits :: conversionType where
  "eightToFiveBits = \<lparr>fromBits = 8, toBits = 5, pad = True\<rparr>"

text \<open>
  The state of the loops: the groups written, the group being filled, and the bits it has. The
  inner loop stops when the bits of the datum are used up; the group is never full at its head,
  so the second condition only makes the recursion total.
\<close>

type_synonym regroup_state = "bytes \<times> u8 \<times> nat"

function extract_bits :: "nat \<Rightarrow> u8 \<Rightarrow> nat \<Rightarrow> regroup_state \<Rightarrow> regroup_state" where
  "extract_bits t b remainingFromBits (regrouped, nextByte, filledBits) =
     (if remainingFromBits = 0 \<or> t \<le> filledBits then (regrouped, nextByte, filledBits)
      else
        let toExtract = min remainingFromBits (t - filledBits);
            nextByte = push_bit toExtract nextByte OR drop_bit (8 - toExtract) b;
            b = push_bit toExtract b;
            filledBits = filledBits + toExtract
        in extract_bits t b (remainingFromBits - toExtract)
             (if filledBits = t then (regrouped @ [nextByte], 0, 0)
              else (regrouped, nextByte, filledBits)))"
  by pat_completeness auto
termination by (relation "measure (\<lambda>(_, _, n, _). n)") auto

declare extract_bits.simps [simp del]

definition regroup :: "conversionType \<Rightarrow> bytes \<Rightarrow> regroup_state" where
  "regroup c data =
     foldl (\<lambda>st b. extract_bits (toBits c) (push_bit (8 - fromBits c) b) (fromBits c) st) ([], 0, 0) data"

definition convertBits :: "bytes \<Rightarrow> conversionType \<Rightarrow> bytes" where
  "convertBits data c =
     (case regroup c data of
        (regrouped, nextByte, filledBits) \<Rightarrow>
          if pad c \<and> filledBits > 0
          then regrouped @ [push_bit (toBits c - filledBits) nextByte]
          else regrouped)"

section \<open>Regrouping as division with remainder\<close>

definition symbols_val :: "nat \<Rightarrow> bytes \<Rightarrow> nat" where
  "symbols_val t rs = foldl (\<lambda>a r. a * 2 ^ t + unat r) 0 rs"

lemma symbols_val_snoc: "symbols_val t (rs @ [r]) = symbols_val t rs * 2 ^ t + unat r"
  by (simp add: symbols_val_def)

lemma symbols_val_Nil [simp]: "symbols_val t [] = 0"
  by (simp add: symbols_val_def)

lemma symbols_val_be: "symbols_val 8 rs = be_val rs"
  by (simp add: symbols_val_def be_val_def)

text \<open>What the state stands for: the number its bits spell.\<close>

definition spelled :: "nat \<Rightarrow> regroup_state \<Rightarrow> nat" where
  "spelled t st = (case st of (rs, n, k) \<Rightarrow> symbols_val t rs * 2 ^ k + unat n)"

definition wf_state :: "nat \<Rightarrow> regroup_state \<Rightarrow> bool" where
  "wf_state t st \<longleftrightarrow> (case st of (rs, n, k) \<Rightarrow>
     k < t \<and> unat n < 2 ^ k \<and> list_all (\<lambda>r. unat r < 2 ^ t) rs)"

definition bits_of :: "nat \<Rightarrow> regroup_state \<Rightarrow> nat" where
  "bits_of t st = (case st of (rs, n, k) \<Rightarrow> t * length rs + k)"

lemma unat_push_bit_u8: "unat (push_bit e (n :: u8)) = unat n * 2 ^ e mod 256"
  by (simp only: unsigned_push_bit_eq) (simp add: push_bit_eq_mult take_bit_eq_mod)

lemma move_bits:
  assumes b: "unat (b :: u8) = x * 2 ^ (8 - rem)" and x: "x < 2 ^ rem" and n: "unat (n :: u8) < 2 ^ k"
    and e: "e \<le> rem" "rem \<le> 8" "k + e \<le> 8"
  shows "unat (push_bit e n OR drop_bit (8 - e) b) = unat n * 2 ^ e + x div 2 ^ (rem - e)"
    and "unat (push_bit e b) = x mod 2 ^ (rem - e) * 2 ^ (8 - (rem - e))"
    and "unat n * 2 ^ e + x div 2 ^ (rem - e) < 2 ^ (k + e)"
proof -
  have hi: "x div 2 ^ (rem - e) < 2 ^ e"
    using x e(1) by (simp add: less_mult_imp_div_less flip: power_add)
  have "8 - e = (8 - rem) + (rem - e)" using e by simp
  then have "unat b div 2 ^ (8 - e) = unat b div 2 ^ (8 - rem) div 2 ^ (rem - e)"
    by (simp only: power_add div_mult2_eq)
  then have high: "unat (drop_bit (8 - e) b) = x div 2 ^ (rem - e)"
    by (simp add: unat_drop_bit b)
  have "unat n * 2 ^ e + 2 ^ e \<le> 2 ^ (k + e)"
    using n mult_le_mono1 [of "Suc (unat n)" "2 ^ k" "2 ^ e"] by (simp add: power_add)
  then show fits: "unat n * 2 ^ e + x div 2 ^ (rem - e) < 2 ^ (k + e)" using hi by linarith
  have "(2 :: nat) ^ (k + e) \<le> 2 ^ 8" using e(3) by (rule power_increasing) simp
  then have "unat n * 2 ^ e < 256" using fits by simp
  then have "unat (push_bit e n) = unat n * 2 ^ e" by (simp add: unat_push_bit_u8)
  then show "unat (push_bit e n OR drop_bit (8 - e) b) = unat n * 2 ^ e + x div 2 ^ (rem - e)"
    using or_shift_nat [OF hi, of "unat n"] by (simp add: unsigned_or_eq high)
  have "unat (push_bit e b) = (x * 2 ^ (8 - rem) * 2 ^ e) mod 256" by (simp add: unat_push_bit_u8 b)
  also have "x * 2 ^ (8 - rem) * 2 ^ e = x * 2 ^ (8 - (rem - e))"
    using e(1,2) by (simp add: mult.assoc flip: power_add)
  also have "(256 :: nat) = 2 ^ (rem - e) * 2 ^ (8 - (rem - e))" using e(1,2) by (simp flip: power_add)
  finally show "unat (push_bit e b) = x mod 2 ^ (rem - e) * 2 ^ (8 - (rem - e))" by (simp only: mult_mod_left)
qed

text \<open>One group is completed or extended.\<close>

definition add_group :: "nat \<Rightarrow> nat \<Rightarrow> u8 \<Rightarrow> regroup_state \<Rightarrow> regroup_state" where
  "add_group t e n st =
     (case st of (rs, _, k) \<Rightarrow> if k + e = t then (rs @ [n], 0, 0) else (rs, n, k + e))"

lemma add_group_spelled:
  assumes "wf_state t (rs, n, k)" "k + e \<le> t" "unat m = unat n * 2 ^ e + h" "unat m < 2 ^ (k + e)"
  shows "wf_state t (add_group t e m (rs, n, k))"
    and "spelled t (add_group t e m (rs, n, k)) = spelled t (rs, n, k) * 2 ^ e + h"
    and "bits_of t (add_group t e m (rs, n, k)) = bits_of t (rs, n, k) + e"
proof -
  show "wf_state t (add_group t e m (rs, n, k))"
    using assms by (auto simp: add_group_def wf_state_def)
  show "bits_of t (add_group t e m (rs, n, k)) = bits_of t (rs, n, k) + e"
    by (auto simp: add_group_def bits_of_def)
  have "2 ^ (k + e) = (2 ^ k * 2 ^ e :: nat)" by (rule power_add)
  then have "symbols_val t rs * 2 ^ (k + e) + unat m = spelled t (rs, n, k) * 2 ^ e + h"
    by (simp add: spelled_def assms(3) algebra_simps)
  then show "spelled t (add_group t e m (rs, n, k)) = spelled t (rs, n, k) * 2 ^ e + h"
    by (auto simp: add_group_def spelled_def symbols_val_snoc)
qed

lemma extract_bits_step:
  "rem \<noteq> 0 \<Longrightarrow> k < t \<Longrightarrow> e = min rem (t - k) \<Longrightarrow>
     extract_bits t b rem (rs, n, k) =
       extract_bits t (push_bit e b) (rem - e)
         (add_group t e (push_bit e n OR drop_bit (8 - e) b) (rs, n, k))"
  by (subst extract_bits.simps) (simp add: Let_def add_group_def)

lemma extract_bits_spelled:
  assumes "wf_state t st" "t \<le> 8" "rem \<le> 8" "unat b = x * 2 ^ (8 - rem)" "x < 2 ^ rem"
  shows "wf_state t (extract_bits t b rem st) \<and> spelled t (extract_bits t b rem st) = spelled t st * 2 ^ rem + x \<and>
    bits_of t (extract_bits t b rem st) = bits_of t st + rem"
  using assms
proof (induction rem arbitrary: b st x rule: less_induct)
  case (less rem)
  obtain rs n k where st: "st = (rs, n, k)" by (cases st)
  have k: "k < t" "unat n < 2 ^ k" using less.prems(1) by (auto simp: wf_state_def st)
  show ?case
  proof (cases "rem = 0")
    case True
    with less.prems(5) show ?thesis
      using less.prems(1) by (simp add: st extract_bits.simps)
  next
    case False
    define e where "e = min rem (t - k)"
    let ?m = "push_bit e n OR drop_bit (8 - e) b"
    let ?st = "add_group t e ?m (rs, n, k)"
    have e: "0 < e" "e \<le> rem" "k + e \<le> t" "k + e \<le> 8"
      using False k(1) less.prems(2) by (auto simp: e_def)
    note mv = move_bits [OF less.prems(4,5) k(2) e(2) less.prems(3) e(4)]
    note ag = add_group_spelled [OF less.prems(1) [unfolded st] e(3) mv(1), folded mv(1)]
    have "unat ?m < 2 ^ (k + e)" using mv(1,3) by simp
    note ag = ag [OF this]
    have "wf_state t (extract_bits t (push_bit e b) (rem - e) ?st) \<and>
      spelled t (extract_bits t (push_bit e b) (rem - e) ?st) =
        spelled t ?st * 2 ^ (rem - e) + x mod 2 ^ (rem - e) \<and>
      bits_of t (extract_bits t (push_bit e b) (rem - e) ?st) = bits_of t ?st + (rem - e)"
      using False e less.prems(2,3) ag(1) mv(2) by (intro less.IH) auto
    moreover have "spelled t ?st * 2 ^ (rem - e) + x mod 2 ^ (rem - e) = spelled t st * 2 ^ rem + x"
    proof -
      have "spelled t ?st * 2 ^ (rem - e) = spelled t st * (2 ^ e * 2 ^ (rem - e)) + x div 2 ^ (rem - e) * 2 ^ (rem - e)"
        by (simp only: ag(2) st add_mult_distrib mult.assoc)
      then show ?thesis using e(2) div_mult_mod_eq [of x "2 ^ (rem - e)"] by (simp flip: power_add)
    qed
    ultimately show ?thesis
      using e ag(3) extract_bits_step [OF False k(1) e_def, of b rs n] by (simp add: st)
  qed
qed

text \<open>A whole string of symbols.\<close>

lemma regroup_spelled:
  assumes "list_all (\<lambda>b. unat b < 2 ^ fromBits c) data" "fromBits c \<le> 8" "0 < toBits c" "toBits c \<le> 8"
  shows "wf_state (toBits c) (regroup c data) \<and>
    spelled (toBits c) (regroup c data) = symbols_val (fromBits c) data \<and>
    bits_of (toBits c) (regroup c data) = fromBits c * length data"
  using assms(1)
proof (induction data rule: rev_induct)
  case Nil
  then show ?case using assms(3) by (simp add: regroup_def wf_state_def spelled_def bits_of_def)
next
  case (snoc b data)
  let ?st = "regroup c data" and ?b = "push_bit (8 - fromBits c) b"
  have st: "regroup c (data @ [b]) = extract_bits (toBits c) ?b (fromBits c) ?st" by (simp add: regroup_def)
  have IH: "wf_state (toBits c) ?st" "spelled (toBits c) ?st = symbols_val (fromBits c) data"
    "bits_of (toBits c) ?st = fromBits c * length data" using snoc by simp_all
  have b: "unat b < 2 ^ fromBits c" using snoc.prems by simp
  have "unat b * 2 ^ (8 - fromBits c) < 2 ^ fromBits c * 2 ^ (8 - fromBits c)" using b by simp
  also have "\<dots> = 256" using assms(2) by (simp flip: power_add)
  finally have "unat ?b = unat b * 2 ^ (8 - fromBits c)" by (simp add: unat_push_bit_u8)
  from extract_bits_spelled [OF IH(1) assms(4,2) this b] IH show ?case
    by (simp add: st symbols_val_snoc)
qed

lemma convertBits_pad:
  assumes "list_all (\<lambda>b. unat b < 2 ^ fromBits c) data" "fromBits c \<le> 8" "0 < toBits c" "toBits c \<le> 8" "pad c"
  obtains k where "k < toBits c" "symbols_val (toBits c) (convertBits data c) = symbols_val (fromBits c) data * 2 ^ k"
    "toBits c * length (convertBits data c) = fromBits c * length data + k"
    "list_all (\<lambda>r. unat r < 2 ^ toBits c) (convertBits data c)"
proof -
  obtain rs n f where st: "regroup c data = (rs, n, f)" by (cases "regroup c data")
  note R = regroup_spelled [OF assms(1-4), unfolded st]
  show thesis
  proof (cases "f = 0")
    case True
    then show thesis
      using R that [of 0] assms(3) by (simp add: convertBits_def st wf_state_def spelled_def bits_of_def)
  next
    case False
    let ?t = "toBits c" let ?k = "?t - f"
    have f: "f < ?t" "unat n < 2 ^ f" using R by (auto simp: wf_state_def)
    have lt: "unat n * 2 ^ ?k < 2 ^ ?t"
    proof -
      have "unat n * 2 ^ ?k < 2 ^ f * 2 ^ ?k" using f(2) by simp
      also have "\<dots> = 2 ^ ?t" using f(1) by (simp flip: power_add)
      finally show ?thesis .
    qed
    have "(2 :: nat) ^ ?t \<le> 2 ^ 8" using assms(4) by (rule power_increasing) simp
    with lt have n: "unat (push_bit ?k n) = unat n * 2 ^ ?k" by (simp add: unat_push_bit_u8)
    have "(2 :: nat) ^ ?t = 2 ^ f * 2 ^ ?k" using f(1) by (simp flip: power_add)
    moreover have "symbols_val (fromBits c) data = symbols_val ?t rs * 2 ^ f + unat n"
      using R by (simp add: spelled_def)
    ultimately have "symbols_val ?t rs * 2 ^ ?t + unat n * 2 ^ ?k = symbols_val (fromBits c) data * 2 ^ ?k"
      by (simp only: add_mult_distrib mult.assoc)
    with False R f lt show thesis
      by (intro that [of ?k])
         (auto simp: convertBits_def st assms(5) symbols_val_snoc n bits_of_def wf_state_def)
  qed
qed

lemma convertBits_nopad:
  assumes "list_all (\<lambda>b. unat b < 2 ^ fromBits c) data" "fromBits c \<le> 8" "0 < toBits c" "toBits c \<le> 8" "\<not> pad c"
  obtains k r where "k < toBits c" "r < 2 ^ k"
    "symbols_val (fromBits c) data = symbols_val (toBits c) (convertBits data c) * 2 ^ k + r"
    "fromBits c * length data = toBits c * length (convertBits data c) + k"
proof -
  obtain rs n f where st: "regroup c data = (rs, n, f)" by (cases "regroup c data")
  note R = regroup_spelled [OF assms(1-4), unfolded st]
  then show thesis
    using that [of f "unat n"] assms(5) by (auto simp: convertBits_def st wf_state_def spelled_def bits_of_def)
qed

text \<open>Bytes in groups of five bits, and back.\<close>

lemma convertBits_round_trip: "convertBits (convertBits data eightToFiveBits) fiveToEightBits = data"
proof -
  let ?five = "convertBits data eightToFiveBits"
  have "list_all (\<lambda>b :: u8. unat b < 2 ^ 8) data" by (simp add: list_all_iff)
  then obtain k where k: "k < 5" "symbols_val 5 ?five = symbols_val 8 data * 2 ^ k"
    "5 * length ?five = 8 * length data + k" "list_all (\<lambda>r. unat r < 2 ^ 5) ?five"
    using convertBits_pad [of eightToFiveBits data] by (auto simp: eightToFiveBits_def)
  let ?out = "convertBits ?five fiveToEightBits"
  obtain j r where j: "j < 8" "r < 2 ^ j" "symbols_val 5 ?five = symbols_val 8 ?out * 2 ^ j + r"
    "5 * length ?five = 8 * length ?out + j"
    using convertBits_nopad [of fiveToEightBits ?five] k(4) by (auto simp: fiveToEightBits_def)
  have "8 * length ?out + j = 8 * length data + k" using j(4) k(3) by simp
  with j(1) k(1) have eq: "length ?out = length data" "j = k" by presburger+
  have "symbols_val 8 data * 2 ^ k = symbols_val 8 ?out * 2 ^ k + r" using j(3) k(2) eq(2) by simp
  then have "symbols_val 8 data = (symbols_val 8 ?out * 2 ^ k + r) div 2 ^ k" by (metis div_mult_self_is_m zero_less_numeral zero_less_power)
  also have "\<dots> = symbols_val 8 ?out" using j(2) eq(2) by simp
  finally show ?thesis using be_val_inject [OF eq(1)] by (simp add: symbols_val_be)
qed

end
