(* ===== verification/KaspaAddress.thy ===== *)
theory KaspaAddress
  imports Regroup
begin

text \<open>
  \<open>signing/kaspa/bech32.go\<close> and the address functions of \<open>utils.go\<close>: the 40-bit checksum over
  five-bit symbols, and the encoding and decoding of addresses. The checksum is linear over
  exclusive or, which gives both that an encoded address verifies and that a single wrong symbol
  never does.
\<close>

section \<open>Symbols and checksum\<close>

definition charset :: string where
  "charset = ''qpzry9x8gf2tvdw0s3jn54khce6mua7l''"

definition checksumLength :: nat where "checksumLength = 8"

definition encodeToBase32 :: "bytes \<Rightarrow> string" where
  "encodeToBase32 data =
     (if list_ex (\<lambda>b. unat b \<ge> length charset) data then []
      else map (\<lambda>b. charset ! unat b) data)"

fun index_of :: "char \<Rightarrow> string \<Rightarrow> nat option" where
  "index_of c [] = None"
| "index_of c (d # ds) = (if c = d then Some 0 else map_option Suc (index_of c ds))"

fun decodeFromBase32 :: "string \<Rightarrow> bytes option" where
  "decodeFromBase32 [] = Some []"
| "decodeFromBase32 (c # s) =
     (case index_of c charset of
        None \<Rightarrow> None
      | Some i \<Rightarrow> map_option (Cons (word_of_nat i)) (decodeFromBase32 s))"

definition prefixToUint5Array :: "string \<Rightarrow> u64 list" where
  "prefixToUint5Array prefix = map (\<lambda>c. word_of_nat (char_nat c) AND 31) prefix"

definition ints :: "bytes \<Rightarrow> u64 list" where
  "ints payload = map ucast payload"

definition generator :: "u64 list" where
  "generator = [656907472481, 522768456162, 1044723512260, 748107326120, 130178868336]"

text \<open>One step of the checksum; \<open>checksum >> 35\<close> is the arithmetic shift of \<open>int64\<close>.\<close>

definition polyMod_step :: "u64 \<Rightarrow> u64 \<Rightarrow> u64" where
  "polyMod_step checksum v =
     (let topBits = signed_drop_bit 35 checksum
      in foldl (\<lambda>c i. if drop_bit i topBits AND 1 = 1 then c XOR generator ! i else c)
           (push_bit 5 (checksum AND 0x07ffffffff) XOR v) [0..<length generator])"

definition polyMod :: "u64 list \<Rightarrow> u64" where
  "polyMod values = foldl polyMod_step 1 values XOR 1"

definition calculateChecksum :: "string \<Rightarrow> bytes \<Rightarrow> bytes" where
  "calculateChecksum prefix payload =
     (let polyModResult =
            polyMod (prefixToUint5Array prefix @ [0] @ ints payload @ replicate 8 0)
      in map (\<lambda>i. ucast (signed_drop_bit (5 * (checksumLength - 1 - i)) polyModResult AND 31))
           [0..<checksumLength])"

definition verifyChecksum :: "string \<Rightarrow> bytes \<Rightarrow> bool" where
  "verifyChecksum prefix payload \<longleftrightarrow>
     polyMod (prefixToUint5Array prefix @ [0] @ ints payload) = 0"

section \<open>Addresses\<close>

definition encode :: "string \<Rightarrow> bytes \<Rightarrow> string" where
  "encode prefix data =
     prefix @ '':'' @ encodeToBase32 (data @ calculateChecksum prefix data)"

definition encodeAddress :: "string \<Rightarrow> bytes \<Rightarrow> u8 \<Rightarrow> string" where
  "encodeAddress prefix payload version =
     encode prefix (convertBits (version # payload) eightToFiveBits)"

datatype address_error =
  InvalidLength | InvalidCharacter | MixedCase | InvalidColon | NotInCharset
| ChecksumFailed string | InvalidPrefix | EmptyPayload | UnsupportedVersion

text \<open>Case conversion of the ASCII characters, the only ones that reach it.\<close>

definition to_lower :: "string \<Rightarrow> string" where
  "to_lower = map (\<lambda>c. if 65 \<le> char_nat c \<and> char_nat c \<le> 90 then char_of (char_nat c + 32) else c)"

definition to_upper :: "string \<Rightarrow> string" where
  "to_upper = map (\<lambda>c. if 97 \<le> char_nat c \<and> char_nat c \<le> 122 then char_of (char_nat c - 32) else c)"

text \<open>\<open>strings.LastIndexByte\<close> as the parts before and after the last occurrence.\<close>

fun split_last :: "char \<Rightarrow> string \<Rightarrow> (string \<times> string) option" where
  "split_last c [] = None"
| "split_last c (d # s) =
     (case split_last c s of
        Some (a, b) \<Rightarrow> Some (d # a, b)
      | None \<Rightarrow> if d = c then Some ([], s) else None)"

definition decode :: "string \<Rightarrow> address_error + string \<times> bytes" where
  "decode encoded =
     (if length encoded < checksumLength + 2 then Inl InvalidLength
      else if list_ex (\<lambda>c. char_nat c < 33 \<or> char_nat c > 126) encoded then Inl InvalidCharacter
      else if encoded \<noteq> to_lower encoded \<and> encoded \<noteq> to_upper encoded then Inl MixedCase
      else
        case split_last CHR '':'' (to_lower encoded) of
          None \<Rightarrow> Inl InvalidColon
        | Some (prefix, data) \<Rightarrow>
            if length prefix < 1 \<or> length prefix + checksumLength + 1 > length encoded
            then Inl InvalidColon
            else case decodeFromBase32 data of
              None \<Rightarrow> Inl NotInCharset
            | Some decoded \<Rightarrow>
                let body = take (length decoded - checksumLength) decoded
                in if \<not> verifyChecksum prefix decoded
                   then Inl (ChecksumFailed (encodeToBase32 (calculateChecksum prefix body)))
                   else Inr (prefix, body))"

definition addressPayloadLength :: "u8 \<Rightarrow> nat option" where
  "addressPayloadLength = [0 \<mapsto> 32, 1 \<mapsto> 33, 8 \<mapsto> 32]"

definition decodeAddress :: "string \<Rightarrow> string \<Rightarrow> address_error + u8 \<times> bytes" where
  "decodeAddress addr expectedPrefix =
     andThen (decode addr) (\<lambda>(prefix, decoded).
       if prefix \<noteq> expectedPrefix then Inl InvalidPrefix
       else case convertBits decoded fiveToEightBits of
         [] \<Rightarrow> Inl EmptyPayload
       | version # payload \<Rightarrow>
           if addressPayloadLength version \<noteq> Some (length payload) then Inl UnsupportedVersion
           else Inr (version, payload))"

definition bech32PrefixKaspaMainnet :: string where
  "bech32PrefixKaspaMainnet = ''kaspa''"

definition pubKeyAddrID :: u8 where "pubKeyAddrID = 0"
definition pubKeyECDSAAddrID :: u8 where "pubKeyECDSAAddrID = 1"
definition scriptHashAddrID :: u8 where "scriptHashAddrID = 8"

text \<open>The expected checksum is read out of the error message.\<close>

definition correctAddress :: "string \<Rightarrow> string" where
  "correctAddress address =
     (case decodeAddress address bech32PrefixKaspaMainnet of
        Inl (ChecksumFailed expected) \<Rightarrow> take (length address - length expected) address @ expected
      | _ \<Rightarrow> address)"

definition PublicKey2Address :: "bytes \<Rightarrow> string" where
  "PublicKey2Address publicKey =
     (let publicKey = (if length publicKey = 33 then drop 1 publicKey else publicKey)
      in if length publicKey \<noteq> 32 then []
         else
           let address = encodeAddress bech32PrefixKaspaMainnet publicKey pubKeyAddrID
           in if address = [] then [] else correctAddress address)"

definition MagicContactAddressForNative :: string where
  "MagicContactAddressForNative = ''0xeeeeeeeeeeeeeeeeeeeeeeeeeeeeeeeeeeeeeeee''"

definition ValidAddress :: "string \<Rightarrow> bool" where
  "ValidAddress address \<longleftrightarrow>
     address = MagicContactAddressForNative \<or> isOk (decodeAddress address bech32PrefixKaspaMainnet)"

section \<open>The checksum is linear\<close>

text \<open>The feedback of the five top bits.\<close>

definition feedback :: "u64 \<Rightarrow> u64" where
  "feedback c =
     (if bit c 35 then 656907472481 else 0) XOR (if bit c 36 then 522768456162 else 0) XOR
     (if bit c 37 then 1044723512260 else 0) XOR (if bit c 38 then 748107326120 else 0) XOR
     (if bit c 39 then 130178868336 else 0)"

definition low35 :: "u64 \<Rightarrow> u64" where
  "low35 c = push_bit 5 (c AND 0x07ffffffff)"

lemma top_bit: "i < 5 \<Longrightarrow> drop_bit i (signed_drop_bit 35 (c :: u64)) AND 1 = 1 \<longleftrightarrow> bit c (35 + i)"
proof -
  assume "i < 5"
  then have "bit (drop_bit i (signed_drop_bit 35 c)) 0 = bit c (35 + i)"
    by (simp add: bit_drop_bit_eq bit_signed_drop_bit_iff)
  moreover have "w AND 1 = 1 \<longleftrightarrow> bit w 0" for w :: u64
    by (simp add: and_one_eq odd_iff_mod_2_eq_one bit_0)
  ultimately show ?thesis by simp
qed

lemma polyMod_step_eq: "polyMod_step c v = low35 c XOR v XOR feedback c"
proof -
  have "[0..<length generator] = [0, 1, 2, 3, 4]" by (simp add: generator_def upt_rec)
  then have "polyMod_step c v = foldl (\<lambda>d i. if bit c (35 + i) then d XOR generator ! i else d)
      (low35 c XOR v) [0, 1, 2, 3, 4]"
    using top_bit [of 0 c] top_bit [of 1 c] top_bit [of 2 c] top_bit [of 3 c] top_bit [of 4 c]
    by (simp add: polyMod_step_def low35_def Let_def)
  also have "\<dots> = low35 c XOR v XOR feedback c"
    by (simp add: generator_def feedback_def xor.assoc numeral_eq_Suc)
  finally show ?thesis .
qed

lemma bit_low35: "bit (low35 c) i \<longleftrightarrow> 5 \<le> i \<and> i < 40 \<and> bit c (i - 5)"
proof -
  have "(0x07ffffffff :: u64) = mask 35" by (simp add: mask_eq_exp_minus_1)
  then have "low35 c = push_bit 5 (c AND mask 35)" by (simp only: low35_def)
  then show ?thesis by (auto simp: bit_push_bit_iff bit_and_iff bit_mask_iff dest: bit_imp_le_length)
qed

lemma low35_xor: "low35 (c XOR d) = low35 c XOR low35 d"
  by (rule bit_eqI) (auto simp: bit_low35 bit_xor_iff)

lemma pick_xor: "(if a \<noteq> b then g else 0) = (if a then g else 0) XOR (if b then g else (0 :: u64))"
  by simp

lemma feedback_xor: "feedback (c XOR d) = feedback c XOR feedback d"
  by (simp only: feedback_def bit_xor_iff pick_xor ac_simps)

text \<open>The state stays below \<open>2 ^ 40\<close>, and a step loses nothing of it.\<close>

definition below40 :: "u64 \<Rightarrow> bool" where
  "below40 c \<longleftrightarrow> (\<forall>i. bit c i \<longrightarrow> i < 40)"

definition evolve :: "u64 \<Rightarrow> u64" where
  "evolve c = low35 c XOR feedback c"

lemma polyMod_step_evolve: "polyMod_step c v = evolve c XOR v"
  by (simp only: polyMod_step_eq evolve_def ac_simps)

lemma evolve_xor: "evolve (c XOR d) = evolve c XOR evolve d"
  by (simp only: evolve_def low35_xor feedback_xor ac_simps)

lemma evolve_0 [simp]: "evolve 0 = 0"
  by (simp add: evolve_def low35_def feedback_def)

lemma below40_xor: "below40 c \<Longrightarrow> below40 d \<Longrightarrow> below40 (c XOR d)"
  by (auto simp: below40_def bit_xor_iff)

lemma below40_small:
  assumes "unat w < 2 ^ 40"
  shows "below40 w"
proof -
  have "\<not> bit w i" if "40 \<le> i" for i
  proof -
    have "(2 :: nat) ^ 40 \<le> 2 ^ i" using that by (rule power_increasing) simp
    with assms have "unat w div 2 ^ i = 0" by simp
    then show ?thesis by (simp add: bit_word_nat)
  qed
  then show ?thesis by (auto simp: below40_def not_le [symmetric])
qed

lemma below40_low35: "below40 (low35 c)"
  by (simp add: below40_def bit_low35)

lemma below40_feedback: "below40 (feedback c)"
  unfolding feedback_def by (intro below40_xor) (auto intro: below40_small)

lemma below40_evolve: "below40 (evolve c)"
  unfolding evolve_def by (intro below40_xor below40_low35 below40_feedback)

lemma bit_pick: "bit (if b then g else (0 :: u64)) i \<longleftrightarrow> b \<and> bit g i"
  by simp

lemma feedback_low:
  "bit (feedback c) 0 = bit c 35" "bit (feedback c) 1 = bit c 36" "bit (feedback c) 2 = bit c 37"
  "bit (feedback c) 3 = bit c 38" "bit (feedback c) 4 = bit c 39"
  by (simp_all only: feedback_def bit_xor_iff bit_pick) simp_all

lemma xor_zero:
  assumes "a XOR b = 0"
  shows "a = (b :: u64)"
proof -
  have "a = (a XOR b) XOR b" by (simp add: xor.assoc)
  then show ?thesis by (simp add: assms)
qed

lemma evolve_nonzero:
  assumes "below40 e" "evolve e = 0"
  shows "e = 0"
proof -
  have low: "\<not> bit (low35 e) i" if "i < 5" for i using that by (simp add: bit_low35)
  have "low35 e XOR feedback e = 0" using assms(2) by (simp add: evolve_def)
  then have "low35 e = feedback e" by (rule xor_zero)
  then have top: "\<not> bit e 35" "\<not> bit e 36" "\<not> bit e 37" "\<not> bit e 38" "\<not> bit e 39"
    using feedback_low [of e] low [of 0] low [of 1] low [of 2] low [of 3] low [of 4] by auto
  then have "low35 e = 0" using \<open>low35 e = feedback e\<close> by (simp add: feedback_def)
  then have "\<not> bit e i" if "i < 35" for i
    using bit_low35 [of e "i + 5"] that by simp
  moreover have "\<not> bit e i" if "35 \<le> i" for i
  proof (cases "i < 40")
    case True
    with that have "i \<in> {35, 36, 37, 38, 39}" by auto
    with top show ?thesis by auto
  qed (use assms(1) in \<open>auto simp: below40_def\<close>)
  ultimately show "e = 0" by (intro bit_eqI) (metis bit_0_eq bot_apply bot_bool_def linorder_not_less)
qed

abbreviation evolved :: "nat \<Rightarrow> u64 \<Rightarrow> u64" where
  "evolved n c \<equiv> (evolve ^^ n) c"

lemma evolved_xor: "evolved n (c XOR d) = evolved n c XOR evolved n d"
  by (induction n) (simp_all add: evolve_xor)

lemma evolved_nonzero: "below40 e \<Longrightarrow> e \<noteq> 0 \<Longrightarrow> evolved n e \<noteq> 0 \<and> below40 (evolved n e)"
  by (induction n) (auto simp: below40_evolve dest: evolve_nonzero)

text \<open>A disturbed state stays disturbed; the final state is a sum of the symbols' effects.\<close>

lemma disturbed: "foldl polyMod_step (c XOR e) vs = foldl polyMod_step c vs XOR evolved (length vs) e"
proof (induction vs arbitrary: c e)
  case (Cons v vs)
  have "polyMod_step (c XOR e) v = polyMod_step c v XOR evolve e"
    by (simp only: polyMod_step_evolve evolve_xor ac_simps)
  with Cons [of "polyMod_step c v" "evolve e"] show ?case by (simp add: funpow_swap1)
qed simp

lemma superposed:
  "foldl polyMod_step c vs = foldl polyMod_step c (replicate (length vs) 0) XOR foldl polyMod_step 0 vs"
proof (induction vs rule: rev_induct)
  case (snoc v vs)
  have "replicate (length (vs @ [v])) (0 :: u64) = replicate (length vs) 0 @ [0]"
    by (simp add: replicate_append_same)
  with snoc show ?case by (simp add: polyMod_step_evolve evolve_xor xor.assoc del: replicate.simps)
qed simp

section \<open>Checksums verify, and single errors do not\<close>

text \<open>The effect of up to eight symbols on the zero state is the number they spell.\<close>

lemma unat_push_bit_5:
  "unat (w :: u64) < 2 ^ 35 \<Longrightarrow> evolve w = push_bit 5 w \<and> unat (push_bit 5 w) = unat w * 2 ^ 5"
proof -
  assume w: "unat w < 2 ^ 35"
  have high: "\<not> bit w i" if "35 \<le> i" for i
  proof -
    have "(2 :: nat) ^ 35 \<le> 2 ^ i" using that by (rule power_increasing) simp
    with w have "unat w div 2 ^ i = 0" by simp
    then show ?thesis by (simp add: bit_word_nat)
  qed
  then have low: "i < 35" if "bit w i" for i using that by (meson linorder_not_less)
  have "bit (low35 w) i = bit (push_bit 5 w) i" if "i < 64" for i
    using low [of "i - 5"] that by (auto simp: bit_low35 bit_push_bit_iff)
  then have "low35 w = push_bit 5 w" by (intro bit_eqI) simp
  moreover have "feedback w = 0" using high by (simp add: feedback_def)
  moreover have "unat (push_bit 5 w) = unat w * 2 ^ 5"
    using w by (simp only: unsigned_push_bit_eq) (simp add: push_bit_eq_mult take_bit_eq_mod)
  ultimately show ?thesis by (simp add: evolve_def)
qed

lemma xor_shift_nat: "(m :: nat) < 2 ^ k \<Longrightarrow> n * 2 ^ k XOR m = n * 2 ^ k + m"
proof (induction k arbitrary: m)
  case (Suc k)
  then have "n * 2 ^ k XOR m div 2 = n * 2 ^ k + m div 2" by simp
  moreover have "n * 2 ^ Suc k div 2 = n * 2 ^ k" by simp
  ultimately show ?case by (subst xor_nat_rec) simp
qed simp

lemma spelled_symbols:
  assumes "length ds \<le> 8" "list_all (\<lambda>d. unat d < 32) ds"
  shows "unat (foldl polyMod_step 0 (ints ds)) = symbols_val 5 ds \<and> symbols_val 5 ds < 32 ^ length ds"
  using assms
proof (induction ds rule: rev_induct)
  case Nil
  then show ?case by (simp add: ints_def)
next
  case (snoc d ds)
  let ?s = "foldl polyMod_step 0 (ints ds)"
  have IH: "unat ?s = symbols_val 5 ds" "symbols_val 5 ds < 32 ^ length ds" and d: "unat d < 2 ^ 5"
    using snoc by simp_all
  have "(32 :: nat) ^ length ds \<le> 32 ^ 7" using snoc.prems(1) by (intro power_increasing) auto
  with IH have "unat ?s < 2 ^ 35" by simp
  note e = unat_push_bit_5 [OF this]
  have "unat (ucast d :: u64) = unat d" by (simp add: unsigned_ucast_eq take_bit_eq_mod) (use d in simp)
  then have "unat (evolve ?s XOR ucast d) = (unat ?s * 2 ^ 5) XOR unat d"
    using e by (simp add: unsigned_xor_eq)
  also have "\<dots> = unat ?s * 2 ^ 5 + unat d"
    using xor_shift_nat [OF d, of "unat ?s"] by simp
  finally show ?case
    using IH d polyMod_step_evolve [of ?s "ucast d"] by (simp add: ints_def symbols_val_snoc)
qed

text \<open>The eight symbols of a number below \<open>2 ^ 40\<close>.\<close>

lemma symbols_of_number:
  "symbols_val 5 (map (\<lambda>i. word_of_nat (n div 2 ^ (5 * (m - 1 - i)) mod 32)) [0..<m]) = n mod 32 ^ m"
proof (induction m arbitrary: n)
  case (Suc m)
  have eq: "map (\<lambda>i. word_of_nat (n div 2 ^ (5 * (Suc m - 1 - i)) mod 32) :: u8) [0..<m] =
      map (\<lambda>i. word_of_nat (n div 32 div 2 ^ (5 * (m - 1 - i)) mod 32)) [0..<m]"
  proof (rule map_cong [OF refl])
    fix i assume "i \<in> set [0..<m]"
    then have "5 * (Suc m - 1 - i) = 5 + 5 * (m - 1 - i)" by auto
    then have "n div 2 ^ (5 * (Suc m - 1 - i)) = n div 32 div 2 ^ (5 * (m - 1 - i))"
      by (simp only: power_add div_mult2_eq) simp
    then show "(word_of_nat (n div 2 ^ (5 * (Suc m - 1 - i)) mod 32) :: u8) =
        word_of_nat (n div 32 div 2 ^ (5 * (m - 1 - i)) mod 32)" by simp
  qed
  have "map (\<lambda>i. word_of_nat (n div 2 ^ (5 * (Suc m - 1 - i)) mod 32) :: u8) [0..<Suc m] =
      map (\<lambda>i. word_of_nat (n div 32 div 2 ^ (5 * (m - 1 - i)) mod 32)) [0..<m] @ [word_of_nat (n mod 32)]"
    using eq by (simp only: upt_Suc_append [OF le0] map_append eq list.map) simp
  moreover have "n mod 32 mod 256 = n mod 32" by (rule mod_less) (rule less_trans [of _ 32], simp_all)
  ultimately show ?case
    by (simp only: symbols_val_snoc Suc.IH) (simp add: unat_word_of_nat_u8 mod_mult2_eq mult.commute)
qed simp

lemma checksum_symbols:
  assumes "below40 p"
  shows "symbols_val 5 (map (\<lambda>i. ucast (signed_drop_bit (5 * (checksumLength - 1 - i)) p AND 31))
      [0..<checksumLength]) = unat p"
    and "list_all (\<lambda>d. unat d < 32) (map (\<lambda>i. ucast (signed_drop_bit (5 * (checksumLength - 1 - i)) p AND 31) :: u8)
      [0..<checksumLength])"
proof -
  have p: "take_bit 40 p = p"
    using assms by (intro bit_eqI) (auto simp: bit_take_bit_iff below40_def)
  then have "unat p < 2 ^ 40" by (metis take_bit_nat_less_exp unsigned_take_bit_eq)
  have "signed_drop_bit k p = drop_bit k p" for k
  proof (rule bit_eqI)
    fix i :: nat
    show "bit (signed_drop_bit k p) i = bit (drop_bit k p) i"
      using assms by (auto simp: bit_signed_drop_bit_iff bit_drop_bit_eq below40_def dest: bit_imp_le_length)
  qed
  moreover have "(w AND 31 :: u64) = take_bit 5 w" for w
    by (simp only: take_bit_eq_mask) (simp add: mask_eq_exp_minus_1)
  moreover have "n mod 32 mod 256 = n mod 32" for n :: nat
    by (rule mod_less) (rule less_trans [of _ 32], simp_all)
  ultimately have digit: "(ucast (signed_drop_bit k p AND 31) :: u8) = word_of_nat (unat p div 2 ^ k mod 32)" for k
    by (simp only: word_unat_eq_iff unat_ucast_u8 unat_word_of_nat_u8 unsigned_take_bit_eq unat_drop_bit)
       (simp add: take_bit_eq_mod)
  from symbols_of_number [of "unat p" 8] \<open>unat p < 2 ^ 40\<close>
  show "symbols_val 5 (map (\<lambda>i. ucast (signed_drop_bit (5 * (checksumLength - 1 - i)) p AND 31))
      [0..<checksumLength]) = unat p"
    by (simp only: digit checksumLength_def) simp
  have "unat (word_of_nat (n mod 32) :: u8) < 32" for n
    by (simp add: unat_word_of_nat_u8)
  then show "list_all (\<lambda>d. unat d < 32) (map (\<lambda>i. ucast (signed_drop_bit (5 * (checksumLength - 1 - i)) p AND 31) :: u8)
      [0..<checksumLength])"
    by (simp only: digit list_all_iff set_map) blast
qed

lemma below40_step: "below40 v \<Longrightarrow> below40 (polyMod_step c v)"
  by (simp only: polyMod_step_evolve) (rule below40_xor [OF below40_evolve])

lemma below40_fold: "below40 c \<Longrightarrow> list_all below40 vs \<Longrightarrow> below40 (foldl polyMod_step c vs)"
  by (induction vs arbitrary: c) (simp_all add: below40_step)

lemma below40_symbol: "below40 (ucast (b :: u8))"
proof (rule below40_small)
  have "unat (ucast b :: u64) = unat b mod 2 ^ 64" by (simp add: unsigned_ucast_eq take_bit_eq_mod)
  also have "unat b mod 2 ^ 64 \<le> unat b" by (rule mod_less_eq_dividend)
  also have "unat b < 2 ^ 40" using unat_lt_256 [of b] by (rule less_trans) simp
  finally show "unat (ucast b :: u64) < 2 ^ 40" .
qed

lemma below40_prefix: "list_all below40 (prefixToUint5Array prefix)"
proof -
  have "below40 (w AND 31)" for w :: u64
  proof -
    have "(w AND 31 :: u64) = take_bit 5 w" by (simp add: take_bit_eq_mask mask_eq_exp_minus_1)
    then show ?thesis by (simp add: below40_def bit_take_bit_iff)
  qed
  then show ?thesis by (simp add: prefixToUint5Array_def list_all_iff)
qed

lemma below40_consts: "below40 0" "below40 1"
  by (rule below40_small, simp)+

lemma checksum_ok:
  "length (calculateChecksum prefix data) = 8 \<and> list_all (\<lambda>d. unat d < 32) (calculateChecksum prefix data) \<and>
     verifyChecksum prefix (data @ calculateChecksum prefix data)"
proof -
  let ?vs = "prefixToUint5Array prefix @ [0] @ ints data"
  let ?s = "foldl polyMod_step 1 ?vs"
  let ?p = "polyMod (?vs @ replicate 8 0)"
  have "list_all below40 (?vs @ replicate 8 0)"
    using below40_prefix by (auto simp: ints_def list_all_iff below40_symbol below40_consts)
  then have p: "below40 ?p" unfolding polyMod_def by (intro below40_xor below40_fold below40_consts)
  have sum: "calculateChecksum prefix data =
      map (\<lambda>i. ucast (signed_drop_bit (5 * (checksumLength - 1 - i)) ?p AND 31)) [0..<checksumLength]"
    by (simp add: calculateChecksum_def Let_def)
  note digits = checksum_symbols [OF p, folded sum]
  have len: "length (calculateChecksum prefix data) = 8" by (simp add: sum checksumLength_def)
  have "unat (foldl polyMod_step 0 (ints (calculateChecksum prefix data))) = unat ?p"
    using spelled_symbols [OF _ digits(2)] digits(1) len by simp
  then have effect: "foldl polyMod_step 0 (ints (calculateChecksum prefix data)) = ?p"
    by (rule word_unat_eq_iff [THEN iffD2])
  have "foldl polyMod_step ?s (ints (calculateChecksum prefix data)) = foldl polyMod_step ?s (replicate 8 0) XOR ?p"
    using superposed [of ?s "ints (calculateChecksum prefix data)"] effect len by (simp add: ints_def)
  also have "foldl polyMod_step ?s (replicate 8 0) = ?p XOR 1"
    by (simp add: polyMod_def xor.assoc)
  finally have "foldl polyMod_step ?s (ints (calculateChecksum prefix data)) = 1"
    by (simp add: xor.commute xor.left_commute)
  then have "verifyChecksum prefix (data @ calculateChecksum prefix data)"
    by (simp add: verifyChecksum_def polyMod_def ints_def)
  with len digits(2) show ?thesis by simp
qed

section \<open>Addresses read back\<close>

lemma index_of_nth: "i < 32 \<Longrightarrow> index_of (charset ! i) charset = Some i"
proof -
  have "list_all (\<lambda>i. index_of (charset ! i) charset = Some i) [0..<32]" by code_simp
  then show "i < 32 \<Longrightarrow> index_of (charset ! i) charset = Some i" by (simp add: list_all_iff)
qed

lemma charset_chars:
  "c \<in> set charset \<Longrightarrow> 33 \<le> char_nat c \<and> char_nat c \<le> 126 \<and> \<not> (65 \<le> char_nat c \<and> char_nat c \<le> 90) \<and> c \<noteq> CHR '':''"
proof -
  have "list_all (\<lambda>c. 33 \<le> char_nat c \<and> char_nat c \<le> 126 \<and> \<not> (65 \<le> char_nat c \<and> char_nat c \<le> 90) \<and> c \<noteq> CHR '':'') charset"
    by (simp add: charset_def char_nat_def)
  then show "c \<in> set charset \<Longrightarrow> 33 \<le> char_nat c \<and> char_nat c \<le> 126 \<and> \<not> (65 \<le> char_nat c \<and> char_nat c \<le> 90) \<and> c \<noteq> CHR '':''"
    by (simp add: list_all_iff)
qed

lemma length_charset: "length charset = 32"
  by (simp add: charset_def)

lemma encodeToBase32_map:
  "list_all (\<lambda>d. unat d < 32) ds \<Longrightarrow> encodeToBase32 ds = map (\<lambda>b. charset ! unat b) ds"
  by (auto simp: encodeToBase32_def length_charset list_ex_iff list_all_iff not_le)

lemma decode_base32: "list_all (\<lambda>d. unat d < 32) ds \<Longrightarrow> decodeFromBase32 (encodeToBase32 ds) = Some ds"
  by (simp only: encodeToBase32_map) (induction ds, simp_all add: index_of_nth)

lemma set_base32: "list_all (\<lambda>d. unat d < 32) ds \<Longrightarrow> set (encodeToBase32 ds) \<subseteq> set charset"
  by (auto simp: encodeToBase32_map list_all_iff length_charset)

lemma decodeFromBase32_chars: "decodeFromBase32 s = Some ds \<Longrightarrow> set s \<subseteq> set charset \<and> length ds = length s"
proof (induction s arbitrary: ds)
  case (Cons c s)
  have "index_of c cs = Some i \<Longrightarrow> c \<in> set cs" for c cs i
    by (induction cs arbitrary: i) (auto split: if_splits)
  with Cons show ?case by (auto split: option.splits)
qed simp

lemma split_last_none: "c \<notin> set s \<Longrightarrow> split_last c s = None"
  by (induction s) auto

lemma split_last_append: "c \<notin> set s \<Longrightarrow> split_last c (p @ c # s) = Some (p, s)"
  by (induction p) (auto simp: split_last_none)

text \<open>A prefix that is printable and has no upper-case letter.\<close>

definition good_prefix :: "string \<Rightarrow> bool" where
  "good_prefix p \<longleftrightarrow> p \<noteq> [] \<and>
     list_all (\<lambda>c. 33 \<le> char_nat c \<and> char_nat c \<le> 126 \<and> \<not> (65 \<le> char_nat c \<and> char_nat c \<le> 90)) p"

lemma formed_chars:
  assumes p: "good_prefix p" and s: "decodeFromBase32 s = Some ds"
  shows "to_lower (p @ '':'' @ s) = p @ '':'' @ s"
    and "\<not> list_ex (\<lambda>c. char_nat c < 33 \<or> char_nat c > 126) (p @ '':'' @ s)"
proof -
  let ?e = "p @ '':'' @ s"
  note chars = decodeFromBase32_chars [OF s]
  have ok: "33 \<le> char_nat c \<and> char_nat c \<le> 126 \<and> \<not> (65 \<le> char_nat c \<and> char_nat c \<le> 90)" if "c \<in> set ?e" for c
  proof -
    consider "c \<in> set p" | "c = CHR '':''" | "c \<in> set charset" using \<open>c \<in> set ?e\<close> chars by auto
    then show ?thesis
      by cases (use p charset_chars in \<open>auto simp: good_prefix_def list_all_iff char_nat_def [of "CHR '':''"]\<close>)
  qed
  then show "to_lower ?e = ?e" unfolding to_lower_def by (intro map_idI) auto
  show "\<not> list_ex (\<lambda>c. char_nat c < 33 \<or> char_nat c > 126) ?e"
    using ok by (auto simp: list_ex_iff not_less)
qed

text \<open>What decoding does with a string of the right form.\<close>

lemma decode_formed:
  assumes p: "good_prefix p" and s: "decodeFromBase32 s = Some ds" and len: "8 \<le> length ds"
  shows "decode (p @ '':'' @ s) =
    (if verifyChecksum p ds then Inr (p, take (length ds - 8) ds)
     else Inl (ChecksumFailed (encodeToBase32 (calculateChecksum p (take (length ds - 8) ds)))))"
proof -
  let ?e = "p @ '':'' @ s"
  note chars = decodeFromBase32_chars [OF s]
  note lower = formed_chars(1) [OF p s] and valid = formed_chars(2) [OF p s]
  have "CHR '':'' \<notin> set s" using chars charset_chars by blast
  then have split: "split_last CHR '':'' ?e = Some (p, s)" using split_last_append by simp
  have "1 \<le> length p" using p by (simp add: good_prefix_def Suc_le_eq)
  then have lens: "\<not> length ?e < checksumLength + 2"
    "\<not> (length p < 1 \<or> length p + checksumLength + 1 > length ?e)"
    using len chars unfolding checksumLength_def length_append list.size by linarith+
  show ?thesis
    using lens valid lower split s by (simp add: decode_def Let_def checksumLength_def)
qed

lemma decode_encode:
  assumes "good_prefix p" "list_all (\<lambda>d. unat d < 32) data"
  shows "decode (encode p data) = Inr (p, data)"
proof -
  let ?c = "calculateChecksum p data"
  have "list_all (\<lambda>d. unat d < 32) (data @ ?c)" using assms(2) checksum_ok [of p data] by simp
  from decode_formed [OF assms(1) decode_base32 [OF this]] checksum_ok [of p data]
  show ?thesis by (simp add: encode_def)
qed

lemma good_kaspa: "good_prefix bech32PrefixKaspaMainnet"
  by (simp add: good_prefix_def bech32PrefixKaspaMainnet_def char_nat_def)

lemma five_bits: "list_all (\<lambda>d. unat d < 32) (convertBits data eightToFiveBits)"
proof -
  have "list_all (\<lambda>b :: u8. unat b < 2 ^ 8) data" by (simp add: list_all_iff)
  then show ?thesis
    using convertBits_pad [of eightToFiveBits data] by (auto simp: eightToFiveBits_def)
qed

lemma decode_encode_address:
  assumes "addressPayloadLength version = Some (length payload)"
  shows "decodeAddress (encodeAddress bech32PrefixKaspaMainnet payload version) bech32PrefixKaspaMainnet =
    Inr (version, payload)"
  using assms decode_encode [OF good_kaspa five_bits]
  by (simp add: decodeAddress_def encodeAddress_def convertBits_round_trip)

text \<open>
  The address of a 32- or 33-byte public key is valid and decodes to the Schnorr address
  version and the 32 key bytes: regrouping, symbols and checksum are undone exactly.
\<close>

theorem kaspa_address_roundtrip:
  assumes "length publicKey = 32 \<or> length publicKey = 33"
  shows "ValidAddress (PublicKey2Address publicKey) \<and>
    decodeAddress (PublicKey2Address publicKey) bech32PrefixKaspaMainnet =
      Inr (pubKeyAddrID, drop (length publicKey - 32) publicKey)"
proof -
  let ?key = "drop (length publicKey - 32) publicKey"
  have key: "(if length publicKey = 33 then drop 1 publicKey else publicKey) = ?key"
    using assms by (elim disjE) simp_all
  have len: "length ?key = 32"
    using assms unfolding length_drop by linarith
  have "addressPayloadLength pubKeyAddrID = Some (length ?key)"
    by (simp only: len) (simp add: addressPayloadLength_def pubKeyAddrID_def)
  from decode_encode_address [OF this]
  have d: "decodeAddress (encodeAddress bech32PrefixKaspaMainnet ?key pubKeyAddrID) bech32PrefixKaspaMainnet =
      Inr (pubKeyAddrID, ?key)" .
  have "encodeAddress bech32PrefixKaspaMainnet ?key pubKeyAddrID \<noteq> []"
    by (simp add: encodeAddress_def encode_def)
  with d have "PublicKey2Address publicKey = encodeAddress bech32PrefixKaspaMainnet ?key pubKeyAddrID"
    unfolding PublicKey2Address_def Let_def key by (simp only: len) (simp add: correctAddress_def)
  with d show ?thesis by (simp add: ValidAddress_def)
qed

theorem kaspa_address_roundtrip_witness:
  "decodeAddress (PublicKey2Address (replicate 33 2)) bech32PrefixKaspaMainnet = Inr (pubKeyAddrID, replicate 32 2)"
  using kaspa_address_roundtrip [of "replicate 33 2"] by simp

section \<open>A wrong symbol is noticed\<close>

lemma xor_cancel: "a XOR (a XOR b) = (b :: u64)"
  by (simp flip: xor.assoc)

lemma decodeFromBase32_update:
  "decodeFromBase32 s = Some (u @ [a] @ v) \<Longrightarrow> unat b < 32 \<Longrightarrow>
     decodeFromBase32 (s[length u := charset ! unat b]) = Some (u @ [b] @ v)"
proof (induction u arbitrary: s)
  case Nil
  then obtain c s' where s: "s = c # s'" by (cases s) auto
  with Nil show ?case by (auto simp: index_of_nth split: option.splits)
next
  case (Cons d u)
  then obtain c s' where "s = c # s'" by (cases s) auto
  with Cons show ?case by (auto split: option.splits)
qed

lemma decode_length:
  assumes p: "good_prefix p" and d: "decode (p @ '':'' @ s) = Inr (p, data)"
    and s: "decodeFromBase32 s = Some ds"
  shows "8 \<le> length ds"
proof -
  note chars = decodeFromBase32_chars [OF s]
  have "CHR '':'' \<notin> set s" using chars charset_chars by blast
  then have split: "split_last CHR '':'' (p @ '':'' @ s) = Some (p, s)" using split_last_append by simp
  have lower: "to_lower (p @ '':'' @ s) = p @ '':'' @ s"
    using formed_chars(1) [OF p s] .
  have "\<not> length p + checksumLength + 1 > length (p @ '':'' @ s)"
    using d by (simp add: decode_def lower [simplified] split [simplified] Let_def split: if_splits)
  then show ?thesis using chars by (simp add: checksumLength_def)
qed

lemma verify_substituted:
  assumes "verifyChecksum prefix (u @ [a] @ v)" "a \<noteq> b"
  shows "\<not> verifyChecksum prefix (u @ [b] @ v)"
proof -
  let ?s = "foldl polyMod_step 1 (prefixToUint5Array prefix @ [0] @ ints u)"
  let ?e = "ucast a XOR ucast b :: u64"
  have fold: "foldl polyMod_step 1 (prefixToUint5Array prefix @ [0] @ ints (u @ [x] @ v)) =
      foldl polyMod_step (polyMod_step ?s (ucast x)) (ints v)" for x
    by (simp add: ints_def)
  have "unat (ucast w :: u64) = unat w" for w :: u8
  proof -
    have "unat w < 2 ^ 64" using unat_lt_256 [of w] by (rule less_trans) simp
    then show ?thesis by (simp add: unsigned_ucast_eq take_bit_eq_mod)
  qed
  then have "?e \<noteq> 0" using assms(2) xor_zero by (metis word_unat_eq_iff)
  moreover have "below40 ?e" by (rule below40_xor [OF below40_symbol below40_symbol])
  ultimately have e: "evolved (length (ints v)) ?e \<noteq> 0" by (simp add: evolved_nonzero)
  have "polyMod_step ?s (ucast b) = polyMod_step ?s (ucast a) XOR ?e"
    by (simp only: polyMod_step_evolve xor.assoc xor_self_eq xor_cancel)
  then have sum: "foldl polyMod_step (polyMod_step ?s (ucast b)) (ints v) =
      foldl polyMod_step (polyMod_step ?s (ucast a)) (ints v) XOR evolved (length (ints v)) ?e"
    by (simp only: disturbed)
  have good: "foldl polyMod_step (polyMod_step ?s (ucast a)) (ints v) = 1"
    using assms(1) unfolding verifyChecksum_def polyMod_def fold by (rule xor_zero)
  show ?thesis
  proof
    assume "verifyChecksum prefix (u @ [b] @ v)"
    then have "foldl polyMod_step (polyMod_step ?s (ucast b)) (ints v) = 1"
      unfolding verifyChecksum_def polyMod_def fold by (rule xor_zero)
    with sum good have "1 XOR evolved (length (ints v)) ?e = 1" by (simp only:)
    then have "1 XOR (1 XOR evolved (length (ints v)) ?e) = 0" by (simp only: xor_self_eq)
    with e show False by (simp only: xor_cancel)
  qed
qed

text \<open>
  C13: A wrong symbol in an address is noticed: when the part after the colon decodes and verifies,
  replacing any one of its symbols by another makes \<open>decode\<close> report the checksum.
\<close>

theorem wrong_symbol_detected:
  assumes "good_prefix p" "decode (p @ '':'' @ s) = Inr (p, data)" "decodeFromBase32 s = Some (u @ [a] @ v)"
    and "a \<noteq> b" "unat b < 32"
  shows "\<exists>expected. decode (p @ '':'' @ s[length u := charset ! unat b]) = Inl (ChecksumFailed expected)"
proof -
  have len: "8 \<le> length (u @ [a] @ v)"
    using decode_length [OF assms(1,2,3)] .
  have new: "decodeFromBase32 (s[length u := charset ! unat b]) = Some (u @ [b] @ v)"
    using decodeFromBase32_update [OF assms(3,5)] .
  have "verifyChecksum p (u @ [a] @ v)"
    using assms(2) decode_formed [OF assms(1,3) len] by (simp split: if_splits)
  then have "\<not> verifyChecksum p (u @ [b] @ v)" using assms(4) by (rule verify_substituted)
  with decode_formed [OF assms(1) new] len show ?thesis by simp
qed

theorem wrong_symbol_detected_witness:
  "\<exists>expected. decode (bech32PrefixKaspaMainnet @ '':'' @
     (encodeToBase32 ([3] @ calculateChecksum bech32PrefixKaspaMainnet [3]))[0 := charset ! 4]) =
     Inl (ChecksumFailed expected)"
proof -
  let ?c = "calculateChecksum bech32PrefixKaspaMainnet [3]"
  have "list_all (\<lambda>d. unat d < 32) ([3] @ ?c)"
    using checksum_ok [of bech32PrefixKaspaMainnet "[3]"] by simp
  note symbols = decode_base32 [OF this]
  have "list_all (\<lambda>d. unat d < 32) [3 :: u8]" by simp
  from decode_encode [OF good_kaspa this]
  have "decode (bech32PrefixKaspaMainnet @ '':'' @ encodeToBase32 ([3] @ ?c)) =
      Inr (bech32PrefixKaspaMainnet, [3])"
    by (simp only: encode_def)
  from wrong_symbol_detected [OF good_kaspa this, of "[]" 3 ?c 4] symbols show ?thesis by simp
qed

end
