(* ===== verification/KaspaScript.thy ===== *)
theory KaspaScript
  imports KaspaAddress
begin

text \<open>
  \<open>signing/kaspa/script.go\<close>: the builder of scripts, the scripts that pay to an address, the
  parser and the classification of scripts. The builder carries its first error along; the state
  after it is kept but never used. The hash and the address constructors of kaspad are parameters.
\<close>

section \<open>Opcodes\<close>

definition op0 :: u8 where "op0 = 0x00"
definition opData1 :: u8 where "opData1 = 0x01"
definition opData32 :: u8 where "opData32 = 0x20"
definition opData33 :: u8 where "opData33 = 0x21"
definition opPushData1 :: u8 where "opPushData1 = 0x4c"
definition opPushData2 :: u8 where "opPushData2 = 0x4d"
definition opPushData4 :: u8 where "opPushData4 = 0x4e"
definition op1Negate :: u8 where "op1Negate = 0x4f"
definition op1 :: u8 where "op1 = 0x51"
definition op16 :: u8 where "op16 = 0x60"
definition opEqual :: u8 where "opEqual = 0x87"
definition opBlake2b :: u8 where "opBlake2b = 0xaa"
definition opCheckSig :: u8 where "opCheckSig = 0xac"
definition opCheckSigECDSA :: u8 where "opCheckSigECDSA = 0xab"

lemmas opcode_defs = op0_def opData1_def opData32_def opData33_def opPushData1_def opPushData2_def
  opPushData4_def op1Negate_def op1_def op16_def opEqual_def opBlake2b_def opCheckSig_def
  opCheckSigECDSA_def

definition maxScriptSize :: nat where "maxScriptSize = 10000"
definition maxScriptElementSize :: nat where "maxScriptElementSize = 520"

datatype ScriptClass = NonStandardTy | PubKeyTy | PubKeyECDSATy | ScriptHashTy

datatype script_error =
  ScriptTooLong | ElementTooLong | UnsupportedScriptVersion
| MalformedPushData u8 | NotEnoughData u8

section \<open>The builder\<close>

record ScriptBuilder =
  script :: bytes
  err :: "script_error option"

definition NewScriptBuilder :: ScriptBuilder where
  "NewScriptBuilder = \<lparr>script = [], err = None\<rparr>"

definition append_script :: "bytes \<Rightarrow> ScriptBuilder \<Rightarrow> ScriptBuilder" where
  "append_script bs b = b\<lparr>script := script b @ bs\<rparr>"

definition AddOp :: "u8 \<Rightarrow> ScriptBuilder \<Rightarrow> ScriptBuilder" where
  "AddOp opcode b =
     (if err b \<noteq> None then b
      else if length (script b) + 1 > maxScriptSize then b\<lparr>err := Some ScriptTooLong\<rparr>
      else append_script [opcode] b)"

definition canonicalDataSize :: "bytes \<Rightarrow> nat" where
  "canonicalDataSize data =
     (let dataLen = length data
      in if dataLen = 0 then 1
         else if dataLen = 1 \<and> data ! 0 \<le> 16 then 1
         else if dataLen = 1 \<and> data ! 0 = 0x81 then 1
         else if dataLen < unat opPushData1 then 1 + dataLen
         else if dataLen \<le> 0xff then 2 + dataLen
         else if dataLen \<le> 0xffff then 3 + dataLen
         else 5 + dataLen)"

definition addData :: "bytes \<Rightarrow> ScriptBuilder \<Rightarrow> ScriptBuilder" where
  "addData data b =
     (let dataLen = length data
      in if dataLen = 0 \<or> dataLen = 1 \<and> data ! 0 = 0 then append_script [op0] b
         else if dataLen = 1 \<and> data ! 0 \<le> 16 then append_script [(op1 - 1) + data ! 0] b
         else if dataLen = 1 \<and> data ! 0 = 0x81 then append_script [op1Negate] b
         else if dataLen < unat opPushData1 then
           append_script (word_of_nat (unat opData1 - 1 + dataLen) # data) b
         else if dataLen \<le> 0xff then append_script (opPushData1 # word_of_nat dataLen # data) b
         else if dataLen \<le> 0xffff then append_script (opPushData2 # le_bytes 2 dataLen @ data) b
         else append_script (opPushData4 # le_bytes 4 dataLen @ data) b)"

definition AddData :: "bytes \<Rightarrow> ScriptBuilder \<Rightarrow> ScriptBuilder" where
  "AddData data b =
     (if err b \<noteq> None then b
      else if length (script b) + canonicalDataSize data > maxScriptSize then
        b\<lparr>err := Some ScriptTooLong\<rparr>
      else if length data > maxScriptElementSize then b\<lparr>err := Some ElementTooLong\<rparr>
      else addData data b)"

text \<open>
  The number as little-endian bytes with a sign bit. Negation of the least \<open>int64\<close> is itself, so
  the loop is not entered and reading the last byte panics: \<open>None\<close>.
\<close>

function scriptNum_loop :: "u64 \<Rightarrow> bytes" where
  "scriptNum_loop n =
     (if sint n > 0 then ucast (n AND 0xff) # scriptNum_loop (signed_drop_bit 8 n) else [])"
  by pat_completeness auto
termination
proof (relation "measure (\<lambda>n. nat (sint n))", simp_all)
  fix n :: u64
  assume "0 < sint n"
  then show "sint (signed_drop_bit 8 n) < sint n"
    by (simp add: sint_signed_drop_bit_eq drop_bit_eq_div)
qed

declare scriptNum_loop.simps [simp del]

definition scriptNumBytes :: "u64 \<Rightarrow> bytes option" where
  "scriptNumBytes n =
     (if n = 0 then Some []
      else
        let isNegative = sint n < 0;
            result = scriptNum_loop (if isNegative then - n else n)
        in if result = [] then None
           else if last result AND 0x80 \<noteq> 0 then
             Some (result @ [if isNegative then 0x80 else 0x00])
           else if isNegative then Some (butlast result @ [last result OR 0x80])
           else Some result)"

definition AddInt64 :: "u64 \<Rightarrow> ScriptBuilder \<Rightarrow> ScriptBuilder option" where
  "AddInt64 val b =
     (if err b \<noteq> None then Some b
      else if length (script b) + 1 > maxScriptSize then Some (b\<lparr>err := Some ScriptTooLong\<rparr>)
      else if val = 0 then Some (append_script [op0] b)
      else if val = -1 \<or> sint val \<ge> 1 \<and> sint val \<le> 16 then
        Some (append_script [ucast (ucast (op1 - 1) + val)] b)
      else map_option (\<lambda>bytes. AddData bytes b) (scriptNumBytes val))"

definition Script_of :: "ScriptBuilder \<Rightarrow> script_error + bytes" where
  "Script_of b = (case err b of None \<Rightarrow> Inr (script b) | Some e \<Rightarrow> Inl e)"

section \<open>Scripts that pay\<close>

definition PayToScriptHashScript :: "(bytes \<Rightarrow> bytes) \<Rightarrow> bytes \<Rightarrow> script_error + bytes" where
  "PayToScriptHashScript hash_blake2b redeemScript =
     Script_of (AddOp opEqual (AddData (hash_blake2b redeemScript) (AddOp opBlake2b NewScriptBuilder)))"

definition payToAddressScript :: "u8 \<Rightarrow> bytes \<Rightarrow> script_error + bytes" where
  "payToAddressScript version payload =
     (if version = pubKeyAddrID then
        Script_of (AddOp opCheckSig (AddData payload NewScriptBuilder))
      else if version = pubKeyECDSAAddrID then
        Script_of (AddOp opCheckSigECDSA (AddData payload NewScriptBuilder))
      else if version = scriptHashAddrID then
        Script_of (AddOp opEqual (AddData payload (AddOp opBlake2b NewScriptBuilder)))
      else Inl UnsupportedScriptVersion)"

section \<open>Parsing and classification\<close>

record scriptToken =
  opcode :: u8
  data :: bytes

text \<open>
  One turn of the loop at the rest of the script, which is not empty. The length field of a push
  has \<open>k\<close> bytes.
\<close>

definition sized_push :: "nat \<Rightarrow> bytes \<Rightarrow> script_error + scriptToken \<times> bytes" where
  "sized_push k rest =
     (if 1 + k > length rest then Inl (MalformedPushData (rest ! 0))
      else
        let n = le_val (take k (drop 1 rest)); rest' = drop (1 + k) rest
        in if n > length rest' then Inl (NotEnoughData (rest ! 0))
           else Inr (\<lparr>opcode = rest ! 0, data = take n rest'\<rparr>, drop n rest'))"

definition read_token :: "bytes \<Rightarrow> script_error + scriptToken \<times> bytes" where
  "read_token rest =
     (let oc = rest ! 0
      in if oc \<ge> opData1 \<and> oc < opPushData1 then
           if 1 + unat oc > length rest then Inl (NotEnoughData oc)
           else Inr (\<lparr>opcode = oc, data = take (unat oc) (drop 1 rest)\<rparr>, drop (1 + unat oc) rest)
         else if oc = opPushData1 then sized_push 1 rest
         else if oc = opPushData2 then sized_push 2 rest
         else if oc = opPushData4 then sized_push 4 rest
         else Inr (\<lparr>opcode = oc, data = []\<rparr>, drop 1 rest))"

lemma read_token_shorter: "read_token rest = Inr (t, rest') \<Longrightarrow> rest \<noteq> [] \<Longrightarrow> length rest' < length rest"
  by (cases rest) (auto simp: read_token_def sized_push_def Let_def split: if_splits)

function parseScript :: "bytes \<Rightarrow> script_error + scriptToken list" where
  "parseScript rest =
     (if rest = [] then Inr []
      else case read_token rest of
        Inl e \<Rightarrow> Inl e
      | Inr (t, rest') \<Rightarrow> andThen (parseScript rest') (\<lambda>tokens. Inr (t # tokens)))"
  by pat_completeness auto
termination by (relation "measure length") (auto dest: read_token_shorter)

declare parseScript.simps [simp del]

definition classifyScript :: "scriptToken list \<Rightarrow> ScriptClass" where
  "classifyScript tokens =
     (if length tokens = 2 \<and> opcode (tokens ! 0) = opData32 \<and> opcode (tokens ! 1) = opCheckSig
      then PubKeyTy
      else if length tokens = 2 \<and> opcode (tokens ! 0) = opData33 \<and> opcode (tokens ! 1) = opCheckSigECDSA
      then PubKeyECDSATy
      else if length tokens = 3 \<and> opcode (tokens ! 0) = opBlake2b \<and>
        opcode (tokens ! 1) = opData32 \<and> opcode (tokens ! 2) = opEqual
      then ScriptHashTy
      else NonStandardTy)"

text \<open>
  The constructors of kaspad for the three classes of address, with the prefix of the network; one
  that fails leaves the address nil. The highest known version is a constant of kaspad.
\<close>

definition ExtractScriptPubKeyAddress ::
  "(ScriptClass \<Rightarrow> bytes \<Rightarrow> 'addr option) \<Rightarrow> u16 \<Rightarrow> u16 \<Rightarrow> bytes \<Rightarrow>
     script_error + ScriptClass \<times> 'addr option"
where
  "ExtractScriptPubKeyAddress new_address maxVersion version s =
     (if version > maxVersion then Inr (NonStandardTy, None)
      else andThen (parseScript s) (\<lambda>tokens.
        case classifyScript tokens of
          PubKeyTy \<Rightarrow> Inr (PubKeyTy, new_address PubKeyTy (data (tokens ! 0)))
        | PubKeyECDSATy \<Rightarrow> Inr (PubKeyECDSATy, new_address PubKeyECDSATy (data (tokens ! 0)))
        | ScriptHashTy \<Rightarrow> Inr (ScriptHashTy, new_address ScriptHashTy (data (tokens ! 1)))
        | NonStandardTy \<Rightarrow> Inr (NonStandardTy, None)))"

section \<open>The redeem script of a KRC-20 operation\<close>

record Krc20Params =
  krc20_P :: string
  krc20_Op :: string
  krc20_Tick :: string
  krc20_Amt :: string
  krc20_To :: string

datatype krc20_error = MarshalError | ScriptError script_error | PrefixError | NilAddress

definition OpCheckSig :: u8 where "OpCheckSig = 172"
definition OpFalse :: u8 where "OpFalse = 0"
definition OpIf :: u8 where "OpIf = 99"
definition OpEndIf :: u8 where "OpEndIf = 104"

text \<open>
  The parameters are the JSON encoder, the hash, and kaspad's prefix table, address constructors
  and printer of addresses. \<open>AddInt64 0\<close> never takes the panicking branch, which reads as \<open>None\<close>.
\<close>

definition krc20_script :: "bytes \<Rightarrow> bytes \<Rightarrow> ScriptBuilder option" where
  "krc20_script pubKey json =
     (let sb = AddData pubKey NewScriptBuilder;
          sb = AddOp OpCheckSig sb;
          sb = AddOp OpFalse sb;
          sb = AddOp OpIf sb;
          sb = AddData (bytes_of_string ''kasplex'') sb
      in map_option (\<lambda>sb. AddOp OpEndIf (AddData json sb)) (AddInt64 0 sb))"

definition GetKrc20Params ::
  "(Krc20Params \<Rightarrow> bytes option) \<Rightarrow> (bytes \<Rightarrow> bytes) \<Rightarrow> (string \<Rightarrow> 'pre option) \<Rightarrow>
     ('pre \<Rightarrow> ScriptClass \<Rightarrow> bytes \<Rightarrow> 'addr option) \<Rightarrow> ('addr \<Rightarrow> string) \<Rightarrow> u16 \<Rightarrow>
     Krc20Params \<Rightarrow> bytes \<Rightarrow> (krc20_error + string) option"
where
  "GetKrc20Params json_Marshal hash_blake2b parsePrefix new_address addr_String maxVersion t pubKey =
     (case json_Marshal t of
        None \<Rightarrow> Some (Inl MarshalError)
      | Some json \<Rightarrow>
          map_option (\<lambda>sb.
            andThen (mapErr ScriptError (Script_of sb)) (\<lambda>redeemScript.
            andThen (mapErr ScriptError (PayToScriptHashScript hash_blake2b redeemScript)) (\<lambda>p2shScript.
            andThen (orErr PrefixError (parsePrefix ''kaspa'')) (\<lambda>prefix.
            andThen (mapErr ScriptError
                (ExtractScriptPubKeyAddress (new_address prefix) maxVersion 0 p2shScript)) (\<lambda>(_, p2shAcc).
            andThen (orErr NilAddress p2shAcc) (\<lambda>p2shAcc.
              Inr (hex_encode redeemScript @ ''_'' @ hex_encode p2shScript @ ''_'' @
                   addr_String p2shAcc)))))))
          (krc20_script pubKey json))"

section \<open>Built scripts\<close>

lemma least_integer_panics: "scriptNumBytes (push_bit 63 1) = None"
  by (simp add: scriptNumBytes_def Let_def scriptNum_loop.simps)

text \<open>What a script is made of, the bytes a part adds, and the token it is read back as.\<close>

datatype piece = Opcode u8 | Push bytes

definition push_bytes :: "bytes \<Rightarrow> bytes" where
  "push_bytes d = script (addData d NewScriptBuilder)"

fun piece_bytes :: "piece \<Rightarrow> bytes" where
  "piece_bytes (Opcode c) = [c]"
| "piece_bytes (Push d) = push_bytes d"

fun add_piece :: "piece \<Rightarrow> ScriptBuilder \<Rightarrow> ScriptBuilder" where
  "add_piece (Opcode c) b = AddOp c b"
| "add_piece (Push d) b = AddData d b"

definition build :: "piece list \<Rightarrow> ScriptBuilder" where
  "build ps = fold add_piece ps NewScriptBuilder"

definition push_token :: "bytes \<Rightarrow> scriptToken" where
  "push_token d =
     (if d = [] \<or> d = [0] then \<lparr>opcode = op0, data = []\<rparr>
      else if length d = 1 \<and> d ! 0 \<le> 16 then \<lparr>opcode = 0x50 + d ! 0, data = []\<rparr>
      else if d = [0x81] then \<lparr>opcode = op1Negate, data = []\<rparr>
      else if length d < 76 then \<lparr>opcode = word_of_nat (length d), data = d\<rparr>
      else if length d < 256 then \<lparr>opcode = opPushData1, data = d\<rparr>
      else \<lparr>opcode = opPushData2, data = d\<rparr>)"

fun piece_token :: "piece \<Rightarrow> scriptToken" where
  "piece_token (Opcode c) = \<lparr>opcode = c, data = []\<rparr>"
| "piece_token (Push d) = push_token d"

fun readable_piece :: "piece \<Rightarrow> bool" where
  "readable_piece (Opcode c) \<longleftrightarrow> c = 0 \<or> c > opPushData4"
| "readable_piece (Push d) \<longleftrightarrow> length d \<le> maxScriptElementSize"

lemma addData_push: "addData d b = append_script (push_bytes d) b"
  by (simp add: push_bytes_def addData_def append_script_def NewScriptBuilder_def Let_def)

lemma length_push_bytes: "length (push_bytes d) = canonicalDataSize d"
  by (simp add: push_bytes_def addData_def append_script_def NewScriptBuilder_def canonicalDataSize_def Let_def)

text \<open>One part is read back, whatever follows.\<close>

lemma read_direct:
  assumes "0 < length d" "length d < 76"
  shows "read_token (word_of_nat (length d) # d @ rest) = Inr (\<lparr>opcode = word_of_nat (length d), data = d\<rparr>, rest)"
proof -
  have n: "unat (word_of_nat (length d) :: u8) = length d" using assms by (simp add: unat_word_of_nat_u8)
  then have "opData1 \<le> word_of_nat (length d)" "word_of_nat (length d) < opPushData1"
    using assms by (simp_all add: word_le_nat_alt word_less_nat_alt opcode_defs Suc_le_eq)
  then show ?thesis by (simp add: read_token_def n)
qed

lemma read_sized:
  assumes "length d < 256 ^ k" "length field = k" "le_val field = length d"
  shows "sized_push k (c # field @ d @ rest) = Inr (\<lparr>opcode = c, data = d\<rparr>, rest)"
  using assms by (simp add: sized_push_def Let_def)

lemma read_opcode: "c = 0 \<or> c > opPushData4 \<Longrightarrow> read_token (c # rest) = Inr (\<lparr>opcode = c, data = []\<rparr>, rest)"
proof -
  assume c: "c = 0 \<or> c > opPushData4"
  then have "\<not> (opData1 \<le> c \<and> c < opPushData1)" "c \<noteq> opPushData1" "c \<noteq> opPushData2" "c \<noteq> opPushData4"
    by (auto simp: opcode_defs word_le_nat_alt word_less_nat_alt)
  then show ?thesis by (simp only: read_token_def Let_def nth_Cons_0 if_False) simp
qed

lemma small_number: "(b :: u8) \<le> 16 \<Longrightarrow> 0x50 + b > opPushData4"
proof -
  assume "b \<le> 16"
  then have "unat b \<le> 16" by (simp add: word_le_nat_alt)
  then have "unat (0x50 + b) = 80 + unat b" by (simp add: unat_word_ariths)
  then show ?thesis by (simp add: word_less_nat_alt opcode_defs)
qed

lemma push_bytes_cases:
  assumes "length d \<le> maxScriptElementSize"
  obtains (zero) "d = [] \<or> d = [0]"
    | (small) b where "d = [b]" "b \<noteq> 0" "b \<le> 16"
    | (negate) "d = [0x81]"
    | (direct) "0 < length d" "length d < 76" "\<not> (length d = 1 \<and> (d ! 0 \<le> 16 \<or> d ! 0 = 0x81))"
    | (push1) "76 \<le> length d" "length d < 256"
    | (push2) "256 \<le> length d" "length d \<le> 520"
proof -
  consider "length d = 0" | "length d = 1" | "1 < length d" "length d < 76"
    | "76 \<le> length d" "length d < 256" | "256 \<le> length d" by linarith
  then show thesis
  proof cases
    case 2
    then obtain b where "d = [b]" by (auto simp: length_Suc_conv)
    then show ?thesis using zero small negate direct by fastforce
  qed (use assms zero direct push1 push2 in \<open>auto simp: maxScriptElementSize_def\<close>)
qed

lemma read_push:
  assumes "length d \<le> maxScriptElementSize"
  shows "read_token (push_bytes d @ rest) = Inr (push_token d, rest)"
  using assms
proof (cases rule: push_bytes_cases)
  case zero
  then have "push_bytes d = [op0]" "push_token d = \<lparr>opcode = op0, data = []\<rparr>"
    by (auto simp: push_bytes_def addData_def append_script_def NewScriptBuilder_def push_token_def)
  then show ?thesis using read_opcode [of op0] by (simp add: op0_def)
next
  case (small b)
  then have "push_bytes d = [0x50 + b]" "push_token d = \<lparr>opcode = 0x50 + b, data = []\<rparr>"
    by (auto simp: push_bytes_def addData_def append_script_def NewScriptBuilder_def push_token_def op1_def)
  then show ?thesis using read_opcode [of "0x50 + b"] small_number [OF small(3)] by simp
next
  case negate
  then have "push_bytes d = [op1Negate]" "push_token d = \<lparr>opcode = op1Negate, data = []\<rparr>"
    by (auto simp: push_bytes_def addData_def append_script_def NewScriptBuilder_def push_token_def op1_def)
  then show ?thesis using read_opcode [of op1Negate] by (simp add: opcode_defs)
next
  case direct
  then have "push_bytes d = word_of_nat (length d) # d"
    "push_token d = \<lparr>opcode = word_of_nat (length d), data = d\<rparr>"
    by (auto simp: push_bytes_def addData_def append_script_def NewScriptBuilder_def push_token_def
      opData1_def opPushData1_def Let_def)
  then show ?thesis using read_direct [OF direct(1,2)] by simp
next
  case push1
  then have "push_bytes d = opPushData1 # [word_of_nat (length d)] @ d"
    "push_token d = \<lparr>opcode = opPushData1, data = d\<rparr>"
    by (auto simp: push_bytes_def addData_def append_script_def NewScriptBuilder_def push_token_def
      opPushData1_def Let_def)
  moreover have "le_val [word_of_nat (length d)] = length d" using push1 by (simp add: unat_word_of_nat_u8)
  then have "sized_push 1 (opPushData1 # [word_of_nat (length d)] @ d @ rest) =
      Inr (\<lparr>opcode = opPushData1, data = d\<rparr>, rest)"
    using push1 by (intro read_sized) simp_all
  ultimately show ?thesis by (simp add: read_token_def opcode_defs)
next
  case push2
  then have "push_bytes d = opPushData2 # le_bytes 2 (length d) @ d"
    "push_token d = \<lparr>opcode = opPushData2, data = d\<rparr>"
    by (auto simp: push_bytes_def addData_def append_script_def NewScriptBuilder_def push_token_def
      opPushData1_def Let_def)
  moreover have "sized_push 2 (opPushData2 # le_bytes 2 (length d) @ d @ rest) =
      Inr (\<lparr>opcode = opPushData2, data = d\<rparr>, rest)"
    using push2 by (intro read_sized) (simp_all add: le_val_le_bytes)
  ultimately show ?thesis by (simp add: read_token_def opcode_defs)
qed

lemma read_piece: "readable_piece p \<Longrightarrow> read_token (piece_bytes p @ rest) = Inr (piece_token p, rest)"
  by (cases p) (auto simp: read_push intro: read_opcode)

lemma push_bytes_not_Nil: "push_bytes d \<noteq> []"
  by (simp add: push_bytes_def addData_def append_script_def NewScriptBuilder_def Let_def)

lemma parse_pieces:
  "list_all readable_piece ps \<Longrightarrow> parseScript (concat (map piece_bytes ps)) = Inr (map piece_token ps)"
proof (induction ps)
  case (Cons p ps)
  have "piece_bytes p \<noteq> []" by (cases p) (simp_all add: push_bytes_not_Nil)
  with Cons show ?case
    by (subst parseScript.simps) (simp add: read_piece)
qed (simp add: parseScript.simps)

text \<open>The builder adds the bytes of its parts as long as they fit, and never exceeds the limits.\<close>

lemma add_piece_ok:
  "err (add_piece p b) = None \<Longrightarrow> script (add_piece p b) = script b @ piece_bytes p \<and> err b = None \<and>
     (case p of Opcode c \<Rightarrow> True | Push d \<Rightarrow> length d \<le> maxScriptElementSize)"
  by (cases p) (auto simp: AddOp_def AddData_def addData_push append_script_def split: if_splits)

lemma build_ok:
  "err (fold add_piece ps b) = None \<Longrightarrow>
     script (fold add_piece ps b) = script b @ concat (map piece_bytes ps) \<and> err b = None \<and>
     list_all (\<lambda>p. case p of Opcode c \<Rightarrow> True | Push d \<Rightarrow> length d \<le> maxScriptElementSize) ps"
  by (induction ps arbitrary: b) (auto dest: add_piece_ok)

lemma add_piece_bounded:
  "length (script b) \<le> maxScriptSize \<Longrightarrow> length (script (add_piece p b)) \<le> maxScriptSize"
  by (cases p) (auto simp: AddOp_def AddData_def addData_push append_script_def length_push_bytes)

lemma build_bounded: "length (script (build ps)) \<le> maxScriptSize"
proof -
  have "length (script b) \<le> maxScriptSize \<Longrightarrow> length (script (fold add_piece ps b)) \<le> maxScriptSize" for b
    by (induction ps arbitrary: b) (simp_all add: add_piece_bounded)
  then show ?thesis by (simp add: build_def NewScriptBuilder_def)
qed

definition operator :: "piece \<Rightarrow> bool" where
  "operator p \<longleftrightarrow> (case p of Opcode c \<Rightarrow> c = 0 \<or> c > opPushData4 | Push d \<Rightarrow> True)"

lemma script_of_build:
  assumes "Script_of (build ps) = Inr s" "list_all operator ps"
  shows "parseScript s = Inr (map piece_token ps) \<and> length s \<le> maxScriptSize"
proof -
  have ok: "err (build ps) = None" "s = script (build ps)"
    using assms(1) by (auto simp: Script_of_def split: option.splits)
  note built = build_ok [of ps NewScriptBuilder, folded build_def, OF ok(1)]
  then have "list_all readable_piece ps"
    using assms(2) by (auto simp: list_all_iff operator_def split: piece.splits) (metis piece.exhaust readable_piece.simps)+
  from parse_pieces [OF this] built ok(2) build_bounded [of ps] show ?thesis
    by (simp add: NewScriptBuilder_def)
qed


text \<open>
  C14: Scripts are read back as they were built: if a sequence of operators and pushes builds without
  an error, the parser returns one token per part, a push as its canonical opcode with its data.
\<close>

theorem built_script_parses:
  assumes "Script_of (build ps) = Inr s" "list_all operator ps"
  shows "parseScript s = Inr (map piece_token ps)"
  using script_of_build [OF assms] by simp

theorem built_script_parses_witness:
  "parseScript [1, 0x55, 0x56, 0xac] = Inr [\<lparr>opcode = 1, data = [0x55]\<rparr>, \<lparr>opcode = 0x56, data = []\<rparr>,
     \<lparr>opcode = 0xac, data = []\<rparr>]"
proof -
  have "Script_of (build [Push [0x55], Push [6], Opcode 0xac]) = Inr [1, 0x55, 0x56, 0xac]"
    by (simp add: build_def NewScriptBuilder_def AddData_def canonicalDataSize_def maxScriptSize_def
      maxScriptElementSize_def addData_def append_script_def AddOp_def Script_of_def opcode_defs)
  from built_script_parses [OF this] show ?thesis
    by (simp add: operator_def push_token_def opcode_defs)
qed

section \<open>Scripts of addresses\<close>

definition class_of :: "u8 \<Rightarrow> ScriptClass" where
  "class_of version =
     (if version = pubKeyAddrID then PubKeyTy
      else if version = pubKeyECDSAAddrID then PubKeyECDSATy else ScriptHashTy)"

lemma address_script:
  assumes "addressPayloadLength version = Some (length payload)"
  shows "payToAddressScript version payload = Inr (concat (map piece_bytes
    (if version = pubKeyAddrID then [Push payload, Opcode opCheckSig]
     else if version = pubKeyECDSAAddrID then [Push payload, Opcode opCheckSigECDSA]
     else [Opcode opBlake2b, Push payload, Opcode opEqual])))"
  using assms
  by (auto simp: addressPayloadLength_def payToAddressScript_def pubKeyAddrID_def pubKeyECDSAAddrID_def
    scriptHashAddrID_def NewScriptBuilder_def AddData_def canonicalDataSize_def maxScriptSize_def
    maxScriptElementSize_def addData_push append_script_def AddOp_def Script_of_def opPushData1_def
    length_push_bytes
    split: if_splits)

lemma address_token:
  assumes "length payload = 32 \<or> length payload = 33"
  shows "push_token payload = \<lparr>opcode = word_of_nat (length payload), data = payload\<rparr>"
  using assms by (auto simp: push_token_def)

lemma address_payload: "decodeAddress a p = Inr (version, payload) \<Longrightarrow> addressPayloadLength version = Some (length payload)"
proof -
  assume a: "decodeAddress a p = Inr (version, payload)"
  then obtain prefix decoded where "decode a = Inr (prefix, decoded)"
    by (auto simp: decodeAddress_def andThen_eq_Inr)
  with a show ?thesis
    by (cases "convertBits decoded fiveToEightBits") (auto simp: decodeAddress_def split: if_splits)
qed

lemma address_versions:
  "addressPayloadLength version = Some n \<Longrightarrow>
     version = pubKeyAddrID \<and> n = 32 \<or> version = pubKeyECDSAAddrID \<and> n = 33 \<or> version = scriptHashAddrID \<and> n = 32"
  by (auto simp: addressPayloadLength_def pubKeyAddrID_def pubKeyECDSAAddrID_def scriptHashAddrID_def
    split: if_splits)

lemma extracted_address:
  assumes "addressPayloadLength version = Some (length payload)"
  shows "\<exists>s. payToAddressScript version payload = Inr s \<and>
    ExtractScriptPubKeyAddress new_address maxVersion 0 s =
      Inr (class_of version, new_address (class_of version) payload)"
proof -
  note script = address_script [OF assms]
  consider "version = pubKeyAddrID" "length payload = 32" | "version = pubKeyECDSAAddrID" "length payload = 33"
    | "version = scriptHashAddrID" "length payload = 32"
    using address_versions [OF assms] by blast
  then show ?thesis
  proof cases
    case 1
    then have "parseScript (concat (map piece_bytes [Push payload, Opcode opCheckSig])) =
        Inr (map piece_token [Push payload, Opcode opCheckSig])"
      by (intro parse_pieces) (simp add: maxScriptElementSize_def opcode_defs)
    with 1 script show ?thesis
      by (simp add: ExtractScriptPubKeyAddress_def classifyScript_def address_token class_of_def opcode_defs)
  next
    case 2
    then have "parseScript (concat (map piece_bytes [Push payload, Opcode opCheckSigECDSA])) =
        Inr (map piece_token [Push payload, Opcode opCheckSigECDSA])"
      by (intro parse_pieces) (simp add: maxScriptElementSize_def opcode_defs)
    with 2 script show ?thesis
      by (simp add: ExtractScriptPubKeyAddress_def classifyScript_def address_token class_of_def opcode_defs
        pubKeyAddrID_def pubKeyECDSAAddrID_def)
  next
    case 3
    then have "parseScript (concat (map piece_bytes [Opcode opBlake2b, Push payload, Opcode opEqual])) =
        Inr (map piece_token [Opcode opBlake2b, Push payload, Opcode opEqual])"
      by (intro parse_pieces) (simp add: maxScriptElementSize_def opcode_defs)
    with 3 script show ?thesis
      by (simp add: ExtractScriptPubKeyAddress_def classifyScript_def address_token class_of_def opcode_defs
        pubKeyAddrID_def pubKeyECDSAAddrID_def scriptHashAddrID_def)
  qed
qed

text \<open>
  Whatever address a transfer is sent to, the script that pays to it is recognised as the class
  of that address and gives its payload back.
\<close>

theorem paid_address_recovered:
  assumes "decodeAddress a p = Inr (version, payload)"
  shows "\<exists>s. payToAddressScript version payload = Inr s \<and>
    ExtractScriptPubKeyAddress new_address maxVersion 0 s =
      Inr (class_of version, new_address (class_of version) payload)"
  by (rule extracted_address [OF address_payload [OF assms]])

theorem paid_address_recovered_witness:
  "\<exists>s. payToAddressScript scriptHashAddrID (replicate 32 7) = Inr s \<and>
    ExtractScriptPubKeyAddress (\<lambda>c payload. Some (c, payload)) 0 0 s =
      Inr (ScriptHashTy, Some (ScriptHashTy, replicate 32 7))"
proof -
  have "addressPayloadLength scriptHashAddrID = Some (length (replicate 32 (7 :: u8)))"
    by (simp add: addressPayloadLength_def scriptHashAddrID_def)
  from paid_address_recovered [OF decode_encode_address [OF this], of "\<lambda>c payload. Some (c, payload)" 0]
  show ?thesis by (simp add: class_of_def pubKeyAddrID_def pubKeyECDSAAddrID_def scriptHashAddrID_def)
qed

section \<open>KRC-20 scripts\<close>

definition envelope :: "bytes \<Rightarrow> bytes \<Rightarrow> piece list" where
  "envelope pubKey json = [Push pubKey, Opcode OpCheckSig, Opcode OpFalse, Opcode OpIf,
     Push (bytes_of_string ''kasplex''), Opcode OpFalse, Push json, Opcode OpEndIf]"

lemma fitting_script:
  assumes "list_all readable_piece ps" "length (script b) + length (concat (map piece_bytes ps)) \<le> maxScriptSize"
    and "err b = None"
  shows "fold add_piece ps b = append_script (concat (map piece_bytes ps)) b"
  using assms
proof (induction ps arbitrary: b)
  case (Cons p ps)
  then have "add_piece p b = append_script (piece_bytes p) b"
    by (cases p) (auto simp: AddOp_def AddData_def addData_push length_push_bytes)
  with Cons show ?case by (simp add: append_script_def)
qed (simp add: append_script_def)

lemma krc20_script_build: "krc20_script pubKey json = Some (build (envelope pubKey json))"
proof -
  have "AddInt64 0 b = Some (AddOp OpFalse b)" for b
    by (simp add: AddInt64_def AddOp_def OpFalse_def op0_def)
  then show ?thesis by (simp add: krc20_script_def build_def envelope_def Let_def)
qed

lemma canonicalDataSize_le: "canonicalDataSize d \<le> 5 + length d"
  by (simp add: canonicalDataSize_def Let_def)

lemma envelope_script:
  assumes "length pubKey \<le> 520" "length json \<le> 520"
  shows "Script_of (build (envelope pubKey json)) = Inr (concat (map piece_bytes (envelope pubKey json)))"
    and "parseScript (concat (map piece_bytes (envelope pubKey json))) =
      Inr (map piece_token (envelope pubKey json))"
proof -
  have pieces: "list_all readable_piece (envelope pubKey json)"
    using assms by (simp add: envelope_def maxScriptElementSize_def OpCheckSig_def OpFalse_def OpIf_def
      OpEndIf_def opPushData4_def)
  have "length (concat (map piece_bytes (envelope pubKey json))) \<le> maxScriptSize"
    using assms canonicalDataSize_le [of pubKey] canonicalDataSize_le [of json]
      canonicalDataSize_le [of "bytes_of_string ''kasplex''"]
    by (simp add: envelope_def length_push_bytes maxScriptSize_def)
  then show "Script_of (build (envelope pubKey json)) = Inr (concat (map piece_bytes (envelope pubKey json)))"
    using fitting_script [OF pieces, of NewScriptBuilder]
    by (simp add: build_def NewScriptBuilder_def append_script_def Script_of_def)
  show "parseScript (concat (map piece_bytes (envelope pubKey json))) =
      Inr (map piece_token (envelope pubKey json))"
    by (rule parse_pieces [OF pieces])
qed

definition p2sh_script :: "bytes \<Rightarrow> bytes" where
  "p2sh_script h = concat (map piece_bytes [Opcode opBlake2b, Push h, Opcode opEqual])"

lemma p2sh_extracted:
  assumes "length h = 32"
  shows "payToAddressScript scriptHashAddrID h = Inr (p2sh_script h)"
    and "ExtractScriptPubKeyAddress new_address maxVersion 0 (p2sh_script h) =
      Inr (ScriptHashTy, new_address ScriptHashTy h)"
proof -
  have v: "addressPayloadLength scriptHashAddrID = Some (length h)"
    using assms by (simp add: addressPayloadLength_def scriptHashAddrID_def)
  have c: "class_of scriptHashAddrID = ScriptHashTy"
    by (simp add: class_of_def pubKeyAddrID_def pubKeyECDSAAddrID_def scriptHashAddrID_def)
  show p: "payToAddressScript scriptHashAddrID h = Inr (p2sh_script h)"
    using address_script [OF v]
    by (simp add: p2sh_script_def pubKeyAddrID_def pubKeyECDSAAddrID_def scriptHashAddrID_def)
  show "ExtractScriptPubKeyAddress new_address maxVersion 0 (p2sh_script h) =
      Inr (ScriptHashTy, new_address ScriptHashTy h)"
    using extracted_address [OF v, of new_address maxVersion] p c by simp
qed

lemma PayToScriptHashScript_pay: "PayToScriptHashScript hash s = payToAddressScript scriptHashAddrID (hash s)"
  by (simp add: PayToScriptHashScript_def payToAddressScript_def pubKeyAddrID_def pubKeyECDSAAddrID_def
    scriptHashAddrID_def)

text \<open>
  The scripts of a KRC-20 operation: for a key and a JSON text that fit in a push, the result
  names a redeem script that parses to the expected envelope (key, check, and the tagged JSON in the
  branch never taken), the script that pays to its hash, and the address of that hash.
\<close>

theorem krc20_scripts:
  assumes "json_Marshal t = Some json" "length json \<le> 520" "length pubKey \<le> 520"
    and "\<And>s. length (hash_blake2b s) = 32" "parsePrefix ''kaspa'' = Some prefix"
    and "\<And>h. length h = 32 \<Longrightarrow> new_address prefix ScriptHashTy h = Some (acc h)"
  shows "\<exists>redeem. parseScript redeem = Inr (map piece_token (envelope pubKey json)) \<and>
    GetKrc20Params json_Marshal hash_blake2b parsePrefix new_address addr_String maxVersion t pubKey =
      Some (Inr (hex_encode redeem @ ''_'' @ hex_encode (p2sh_script (hash_blake2b redeem)) @ ''_'' @
        addr_String (acc (hash_blake2b redeem))))"
proof -
  note redeem = envelope_script [OF assms(3,2)]
  let ?redeem = "concat (map piece_bytes (envelope pubKey json))"
  have h: "length (hash_blake2b ?redeem) = 32" by (rule assms(4))
  have "GetKrc20Params json_Marshal hash_blake2b parsePrefix new_address addr_String maxVersion t pubKey =
      Some (Inr (hex_encode ?redeem @ ''_'' @ hex_encode (p2sh_script (hash_blake2b ?redeem)) @ ''_'' @
        addr_String (acc (hash_blake2b ?redeem))))"
    by (simp add: GetKrc20Params_def assms(1,5) krc20_script_build redeem(1) PayToScriptHashScript_pay
      p2sh_extracted [OF h] assms(6) [OF h])
  with redeem(2) show ?thesis by blast
qed

theorem krc20_scripts_witness:
  "\<exists>redeem. parseScript redeem = Inr (map piece_token (envelope (replicate 32 2) (bytes_of_string ''{}''))) \<and>
    GetKrc20Params (\<lambda>_. Some (bytes_of_string ''{}'')) (\<lambda>s. replicate 32 (word_of_nat (length s))) Some
      (\<lambda>_ _ h. Some h) (\<lambda>h. ''kaspa:'' @ hex_encode h) 0
      \<lparr>krc20_P = ''krc-20'', krc20_Op = ''mint'', krc20_Tick = ''NACHO'', krc20_Amt = [], krc20_To = []\<rparr>
      (replicate 32 2) =
      Some (Inr (hex_encode redeem @ ''_'' @
        hex_encode (p2sh_script (replicate 32 (word_of_nat (length redeem)))) @ ''_'' @
        ''kaspa:'' @ hex_encode (replicate 32 (word_of_nat (length redeem)))))"
  by (rule krc20_scripts [where acc = "\<lambda>h. h" and prefix = "''kaspa''"]) simp_all

end
