(* ===== verification/KaspaTx.thy ===== *)
theory KaspaTx
  imports KaspaScript UtxoList Codec
begin

text \<open>
  \<open>signing/kaspa/tx.go\<close> and \<open>serialize.go\<close>: building, signing and completing a transfer or one of
  the two transactions of a KRC-20 operation. What the code takes from kaspad (signature hash,
  transaction id, the RPC form of a transaction, its constants), the JSON encoder of the standard
  library on the structs of \<open>serialize.go\<close>, the sort and the Schnorr signer are the fields of a
  record of functions. The receiver is not nil; a nil ingredient or list panics, which reads as
  the error \<open>NilPointer\<close>.
\<close>

section \<open>Transactions\<close>

record DomainOutpoint =
  TransactionID :: bytes
  OutpointIndex :: u32

record UTXOEntry =
  EntryAmount :: u64
  EntryScript :: bytes
  EntryVersion :: u16
  EntryIsCoinbase :: bool
  EntryBlockDAAScore :: u64

record DomainTransactionInput =
  PreviousOutpoint :: DomainOutpoint
  SignatureScript :: bytes
  Sequence :: u64
  SigOpCount :: u8
  InputEntry :: "UTXOEntry option"

record DomainTransactionOutput =
  OutValue :: u64
  OutScript :: bytes
  OutVersion :: u16

record DomainTransaction =
  TxVersion :: u16
  Inputs :: "DomainTransactionInput list"
  Outputs :: "DomainTransactionOutput list"
  LockTime :: u64
  SubnetworkID :: bytes
  Gas :: u64
  Payload :: bytes

section \<open>The JSON form\<close>

text \<open>The anonymous structs of \<open>serialize.go\<close>, where byte strings are hex strings.\<close>

record aux_input =
  auxTransactionID :: string
  auxIndex :: u32
  auxSignatureScript :: string
  auxSequence :: u64
  auxSigOpCount :: u8

record aux_output =
  auxValue :: u64
  auxScript :: string
  auxScriptVersion :: u16

record aux_tx =
  auxVersion :: u16
  auxInputs :: "aux_input list"
  auxOutputs :: "aux_output list"
  auxLockTime :: u64
  auxSubnetworkID :: string
  auxGas :: u64
  auxPayload :: string

record signedTx =
  SignedHex :: string
  SignedTxHash :: string

record kaspad =
  MaxTransactionVersion :: u16
  SubnetworkIDSize :: nat
  SigHashAll :: u8
  HashBlake2b :: "bytes \<Rightarrow> bytes"
  CalculateSignatureHashSchnorr :: "DomainTransaction \<Rightarrow> nat \<Rightarrow> bytes option"
  TransactionID_of :: "DomainTransaction \<Rightarrow> string"
  rpc_Marshal :: "DomainTransaction \<Rightarrow> bytes option"
  json_Marshal :: "aux_tx \<Rightarrow> bytes option"
  json_Unmarshal :: "bytes \<Rightarrow> aux_tx option"
  stx_Marshal :: "signedTx \<Rightarrow> bytes option"
  sort_Slice :: "UtxoInfo list \<Rightarrow> UtxoInfo list"
  SignSchnorr :: "bytes \<Rightarrow> bytes \<Rightarrow> bytes option"

datatype kaspa_error =
  NilPointer | InvalidSender | SenderNotSchnorr | SenderScript | InvalidRecipient | RecipientScript
| RedeemScriptHash | DustAmount | NotOneUtxo | FeeExceedsValue | InsufficientFunds | SigHashFailed
| MarshalFailed | NoSigHash | HexInvalid | SignFailed | UnmarshalFailed | SubnetworkIDShort
| SignatureCount | SignatureScriptFailed

definition wrap_input :: "DomainTransactionInput \<Rightarrow> aux_input" where
  "wrap_input iw = \<lparr>auxTransactionID = hex_encode (TransactionID (PreviousOutpoint iw)),
     auxIndex = OutpointIndex (PreviousOutpoint iw),
     auxSignatureScript = hex_encode (SignatureScript iw),
     auxSequence = Sequence iw, auxSigOpCount = SigOpCount iw\<rparr>"

text \<open>A transaction id of another length than that of \<open>hashArray\<close> is an error.\<close>

definition unwrap_input :: "aux_input \<Rightarrow> kaspa_error + DomainTransactionInput" where
  "unwrap_input aux =
     andThen (orErr UnmarshalFailed (hex_decode (auxTransactionID aux))) (\<lambda>transactionID.
     andThen (orErr UnmarshalFailed (hex_decode (auxSignatureScript aux))) (\<lambda>signatureScript.
     andThen (require (length transactionID = 32) UnmarshalFailed) (\<lambda>_.
       Inr \<lparr>PreviousOutpoint = \<lparr>TransactionID = transactionID, OutpointIndex = auxIndex aux\<rparr>,
         SignatureScript = signatureScript, Sequence = auxSequence aux,
         SigOpCount = auxSigOpCount aux, InputEntry = None\<rparr>)))"

definition wrap_output :: "DomainTransactionOutput \<Rightarrow> aux_output" where
  "wrap_output ow = \<lparr>auxValue = OutValue ow, auxScript = hex_encode (OutScript ow),
     auxScriptVersion = OutVersion ow\<rparr>"

definition unwrap_output :: "aux_output \<Rightarrow> kaspa_error + DomainTransactionOutput" where
  "unwrap_output aux =
     andThen (orErr UnmarshalFailed (hex_decode (auxScript aux))) (\<lambda>scr.
       Inr \<lparr>OutValue = auxValue aux, OutScript = scr, OutVersion = auxScriptVersion aux\<rparr>)"

fun each :: "('a \<Rightarrow> 'e + 'b) \<Rightarrow> 'a list \<Rightarrow> 'e + 'b list" where
  "each f [] = Inr []"
| "each f (x # xs) = andThen (f x) (\<lambda>y. andThen (each f xs) (\<lambda>ys. Inr (y # ys)))"

definition wrap_tx :: "DomainTransaction \<Rightarrow> aux_tx" where
  "wrap_tx tw = \<lparr>auxVersion = TxVersion tw, auxInputs = map wrap_input (Inputs tw),
     auxOutputs = map wrap_output (Outputs tw), auxLockTime = LockTime tw,
     auxSubnetworkID = hex_encode (SubnetworkID tw), auxGas = Gas tw,
     auxPayload = hex_encode (Payload tw)\<rparr>"

definition MarshalJSON :: "kaspad \<Rightarrow> DomainTransaction \<Rightarrow> bytes option" where
  "MarshalJSON E tw = json_Marshal E (wrap_tx tw)"

text \<open>The conversion of the slice to an array panics when it is short and drops what is too long.\<close>

definition UnmarshalJSON :: "kaspad \<Rightarrow> bytes \<Rightarrow> kaspa_error + DomainTransaction" where
  "UnmarshalJSON E json =
     andThen (orErr UnmarshalFailed (json_Unmarshal E json)) (\<lambda>aux.
     andThen (each unwrap_input (auxInputs aux)) (\<lambda>inputs.
     andThen (each unwrap_output (auxOutputs aux)) (\<lambda>outputs.
     andThen (orErr UnmarshalFailed (hex_decode (auxSubnetworkID aux))) (\<lambda>subnetworkID.
     andThen (orErr UnmarshalFailed (hex_decode (auxPayload aux))) (\<lambda>payload.
     andThen (require (SubnetworkIDSize E \<le> length subnetworkID) SubnetworkIDShort) (\<lambda>_.
       Inr \<lparr>TxVersion = auxVersion aux, Inputs = inputs, Outputs = outputs,
         LockTime = auxLockTime aux, SubnetworkID = take (SubnetworkIDSize E) subnetworkID,
         Gas = auxGas aux, Payload = payload\<rparr>))))))"

section \<open>Building\<close>

record Ingredient =
  TxType :: string
  ContractAddress :: string
  Sender :: string
  Recipient :: string
  Amount :: string
  Fee :: string
  Utxos :: "UtxoList option"
  Krc20RedeemScript :: string

record TxBuilder =
  TheIngredient :: "Ingredient option"
  unsignedHex :: string
  sigHash :: "string list"
  txHash :: string

definition NewTxBuilder :: "Ingredient option \<Rightarrow> TxBuilder" where
  "NewTxBuilder ti = \<lparr>TheIngredient = ti, unsignedHex = [], sigHash = [], txHash = []\<rparr>"

definition DefaultDust :: u64 where "DefaultDust = 2000000"
definition TxTypeTransfer :: string where "TxTypeTransfer = ''0''"
definition TxTypeKrc20Commit :: string where "TxTypeKrc20Commit = ''5''"
definition TxTypeKrc20Reveal :: string where "TxTypeKrc20Reveal = ''6''"
definition addressPublicKeyScriptPublicKeyVersion :: nat where
  "addressPublicKeyScriptPublicKeyVersion = 0"

text \<open>A number whose parse error is ignored: zero for bad syntax, the largest one beyond the range.\<close>

definition parsed :: "string \<Rightarrow> u64" where
  "parsed s = word_of_nat (fst (ParseUint 64 s))"

definition check_dust :: "u64 \<Rightarrow> kaspa_error + unit" where
  "check_dust totalSend = require (\<not> totalSend \<le> DefaultDust) DustAmount"

definition the_list :: "UtxoList option \<Rightarrow> kaspa_error + UtxoInfo option list" where
  "the_list ul =
     (case ul of None \<Rightarrow> Inl NilPointer
      | Some l \<Rightarrow> Inr (case List l of None \<Rightarrow> [] | Some xs \<Rightarrow> xs))"

text \<open>The script paid to and the amount, by type; an unknown type pays nothing to no script.\<close>

definition payment :: "kaspad \<Rightarrow> Ingredient \<Rightarrow> bytes \<Rightarrow> u64 \<Rightarrow> kaspa_error + bytes \<times> u64" where
  "payment E i senderPubkey fee =
     (if TxType i = TxTypeTransfer then
        andThen (mapErr (\<lambda>_. InvalidRecipient) (decodeAddress (Recipient i) bech32PrefixKaspaMainnet))
          (\<lambda>(version, payload).
        andThen (mapErr (\<lambda>_. RecipientScript) (payToAddressScript version payload)) (\<lambda>recipientScript.
        andThen (check_dust (parsed (Amount i))) (\<lambda>_. Inr (recipientScript, parsed (Amount i)))))
      else if TxType i = TxTypeKrc20Commit then
        andThen (mapErr (\<lambda>_. RedeemScriptHash)
            (PayToScriptHashScript (HashBlake2b E) (hex_decoded_bytes (Krc20RedeemScript i))))
          (\<lambda>recipientScript.
        andThen (check_dust (parsed (Amount i))) (\<lambda>_. Inr (recipientScript, parsed (Amount i))))
      else if TxType i = TxTypeKrc20Reveal then
        andThen (mapErr (\<lambda>_. RecipientScript)
            (Script_of (AddOp OpCheckSig (AddData senderPubkey NewScriptBuilder)))) (\<lambda>recipientScript.
        andThen (the_list (Utxos i)) (\<lambda>us.
        andThen (require (length us = 1) NotOneUtxo) (\<lambda>_.
        andThen (orErr NilPointer (us ! 0)) (\<lambda>u.
          let v = parsed (Value u)
          in andThen (require (\<not> fee \<ge> v) FeeExceedsValue) (\<lambda>_.
             andThen (check_dust (v - fee)) (\<lambda>_. Inr (recipientScript, v - fee)))))))
      else Inr ([], 0))"

text \<open>
  The loop of the selection: values up to the dust limit are left out, and it stops once the need is
  covered. The sort before it compares the values as signed numbers; only that it permutes is used.
\<close>

fun filter_loop :: "u64 \<Rightarrow> u64 \<Rightarrow> UtxoInfo list \<Rightarrow> UtxoInfo list \<times> u64" where
  "filter_loop totalNeed selectedValue [] = ([], selectedValue)"
| "filter_loop totalNeed selectedValue (v # vs) =
     (let amount = parsed (Value v)
      in if amount \<le> DefaultDust then filter_loop totalNeed selectedValue vs
         else
           let selectedValue = selectedValue + amount
           in if selectedValue \<ge> totalNeed then ([v], selectedValue)
              else map_prod (Cons v) id (filter_loop totalNeed selectedValue vs))"

text \<open>A nil entry panics: in the comparison, or in the loop when it is the only one.\<close>

definition sorted_utxos :: "kaspad \<Rightarrow> UtxoList option \<Rightarrow> kaspa_error + UtxoInfo list" where
  "sorted_utxos E ul =
     andThen (the_list ul) (\<lambda>us.
       if None \<in> set us then Inl NilPointer else Inr (sort_Slice E (map the us)))"

definition selectUtxosFilter ::
  "kaspad \<Rightarrow> UtxoList option \<Rightarrow> u64 \<Rightarrow> kaspa_error + UtxoInfo list \<times> u64"
where
  "selectUtxosFilter E ori totalNeed =
     andThen (sorted_utxos E ori) (\<lambda>us. Inr (filter_loop totalNeed 0 us))"

definition hash_array :: "bytes \<Rightarrow> bytes" where
  "hash_array b = take 32 b @ replicate (32 - length b) 0"

definition build_input :: "Ingredient \<Rightarrow> UtxoInfo \<Rightarrow> DomainTransactionInput" where
  "build_input i utxo =
     \<lparr>PreviousOutpoint =
        \<lparr>TransactionID = hash_array (hex_decoded_bytes (Hash utxo)),
         OutpointIndex = word_of_nat (fst (ParseUint 32 (Index utxo)))\<rparr>,
      SignatureScript = [], Sequence = 0, SigOpCount = 1,
      InputEntry = Some
        \<lparr>EntryAmount = parsed (Value utxo),
         EntryScript = hex_decoded_bytes (Script utxo),
         EntryVersion = word_of_nat (fst (ParseUint 16 (Version utxo))),
         EntryIsCoinbase = (IsCoinbase utxo \<noteq> ''false''),
         EntryBlockDAAScore =
           (if TxType i \<noteq> TxTypeKrc20Reveal then parsed (BlockDAAScore utxo) else 0)\<rparr>\<rparr>"

definition build_outputs :: "bytes \<Rightarrow> u64 \<Rightarrow> bytes \<Rightarrow> u64 \<Rightarrow> DomainTransactionOutput list" where
  "build_outputs recipientScript totalSend senderScript change =
     \<lparr>OutValue = totalSend, OutScript = recipientScript,
      OutVersion = word_of_nat addressPublicKeyScriptPublicKeyVersion\<rparr> #
     (if change \<ge> DefaultDust then
        [\<lparr>OutValue = change, OutScript = senderScript,
          OutVersion = word_of_nat addressPublicKeyScriptPublicKeyVersion\<rparr>]
      else [])"

text \<open>
  \<open>Build\<close> in its three parts: the scripts and the amount, the transaction, the hashes. The sort
  is in place, so the ingredient keeps the sorted list once the selection was reached.
\<close>

definition prepare :: "kaspad \<Rightarrow> Ingredient \<Rightarrow> kaspa_error + bytes \<times> bytes \<times> u64" where
  "prepare E i =
     andThen (mapErr (\<lambda>_. InvalidSender) (decodeAddress (Sender i) bech32PrefixKaspaMainnet))
       (\<lambda>(senderVersion, senderPubkey).
     andThen (require (senderVersion = pubKeyAddrID) SenderNotSchnorr) (\<lambda>_.
     andThen (mapErr (\<lambda>_. SenderScript)
         (Script_of (AddOp OpCheckSig (AddData senderPubkey NewScriptBuilder)))) (\<lambda>senderScript.
     andThen (payment E i senderPubkey (parsed (Fee i))) (\<lambda>(recipientScript, totalSend).
       Inr (senderScript, recipientScript, totalSend)))))"

definition assemble ::
  "kaspad \<Rightarrow> Ingredient \<Rightarrow> bytes \<times> bytes \<times> u64 \<Rightarrow> kaspa_error + DomainTransaction"
where
  "assemble E i prepared =
     (let (senderScript, recipientScript, totalSend) = prepared;
          totalNeed = totalSend + parsed (Fee i)
      in andThen (selectUtxosFilter E (Utxos i) totalNeed) (\<lambda>(utxoList, totalHave).
         andThen (require (\<not> totalNeed > totalHave) InsufficientFunds) (\<lambda>_.
           Inr \<lparr>TxVersion = MaxTransactionVersion E,
             Inputs = map (build_input i) utxoList,
             Outputs = build_outputs recipientScript totalSend senderScript (totalHave - totalNeed),
             LockTime = 0, SubnetworkID = replicate (SubnetworkIDSize E) 0, Gas = 0,
             Payload = []\<rparr>)))"

definition build_tx :: "kaspad \<Rightarrow> Ingredient \<Rightarrow> kaspa_error + DomainTransaction" where
  "build_tx E i = andThen (prepare E i) (assemble E i)"

definition sort_ingredient :: "kaspad \<Rightarrow> Ingredient \<Rightarrow> Ingredient" where
  "sort_ingredient E i =
     (case sorted_utxos E (Utxos i) of
        Inl _ \<Rightarrow> i
      | Inr us \<Rightarrow> i\<lparr>Utxos := map_option (\<lambda>l. l\<lparr>List := Some (map Some us)\<rparr>) (Utxos i)\<rparr>)"

text \<open>The hashes so far are kept when one of them fails.\<close>

fun hash_loop ::
  "kaspad \<Rightarrow> DomainTransaction \<Rightarrow> nat list \<Rightarrow> string list \<Rightarrow> string list \<times> (kaspa_error + unit)"
where
  "hash_loop E dtx [] hashes = (hashes, Inr ())"
| "hash_loop E dtx (idx # idxs) hashes =
     (case CalculateSignatureHashSchnorr E dtx idx of
        None \<Rightarrow> (hashes, Inl SigHashFailed)
      | Some h \<Rightarrow> hash_loop E dtx idxs (hashes @ [hex_encode h]))"

definition finish_build :: "kaspad \<Rightarrow> TxBuilder \<Rightarrow> DomainTransaction \<Rightarrow> TxBuilder \<times> (kaspa_error + unit)" where
  "finish_build E tx dtx =
     (case hash_loop E dtx [0..<length (Inputs dtx)] (sigHash tx) of
        (hashes, Inl e) \<Rightarrow> (tx\<lparr>sigHash := hashes\<rparr>, Inl e)
      | (hashes, Inr _) \<Rightarrow>
          (case MarshalJSON E dtx of
             None \<Rightarrow> (tx\<lparr>sigHash := hashes\<rparr>, Inl MarshalFailed)
           | Some wrapperBytes \<Rightarrow>
               (tx\<lparr>sigHash := hashes, unsignedHex := hex_encode wrapperBytes\<rparr>, Inr ())))"

definition Build :: "kaspad \<Rightarrow> TxBuilder \<Rightarrow> TxBuilder \<times> (kaspa_error + unit)" where
  "Build E tx =
     (let tx = tx\<lparr>sigHash := [], unsignedHex := [], txHash := []\<rparr>
      in case TheIngredient tx of
           None \<Rightarrow> (tx, Inl NilPointer)
         | Some i \<Rightarrow>
             (case prepare E i of
                Inl e \<Rightarrow> (tx, Inl e)
              | Inr prepared \<Rightarrow>
                  let tx = tx\<lparr>TheIngredient := Some (sort_ingredient E i)\<rparr>
                  in (case assemble E i prepared of
                        Inl e \<Rightarrow> (tx, Inl e)
                      | Inr dtx \<Rightarrow> finish_build E tx dtx)))"

section \<open>Signing\<close>

definition sign_hash :: "kaspad \<Rightarrow> bytes \<Rightarrow> string \<Rightarrow> kaspa_error + string" where
  "sign_hash E privateKey h =
     andThen (orErr HexInvalid (hex_decode h)) (\<lambda>hash.
     andThen (orErr SignFailed (SignSchnorr E privateKey hash)) (\<lambda>signature.
       Inr (hex_encode (signature @ [SigHashAll E]))))"

definition Sign :: "kaspad \<Rightarrow> TxBuilder \<Rightarrow> bytes \<Rightarrow> kaspa_error + string" where
  "Sign E tx privateKey =
     (if length (sigHash tx) < 1 then Inl NoSigHash
      else andThen (each (sign_hash E privateKey) (sigHash tx)) (\<lambda>signatures.
        Inr (strings_Join signatures ''_'')))"

definition decode_signature :: "bool \<Rightarrow> string \<Rightarrow> kaspa_error + bytes" where
  "decode_signature isDerFormat v =
     orErr HexInvalid (hex_decode (if isDerFormat then v @ ''01'' else v))"

definition signature_script :: "bytes option \<Rightarrow> bytes \<Rightarrow> kaspa_error + bytes" where
  "signature_script redeemScript sig =
     mapErr (\<lambda>_. SignatureScriptFailed)
       (Script_of
         (let sb = AddData sig NewScriptBuilder
          in case redeemScript of None \<Rightarrow> sb | Some r \<Rightarrow> AddData r sb))"

text \<open>The transaction with a signature script in every input.\<close>

definition signed_tx ::
  "kaspad \<Rightarrow> Ingredient option \<Rightarrow> string \<Rightarrow> string \<Rightarrow> bool \<Rightarrow> kaspa_error + DomainTransaction"
where
  "signed_tx E ingredient unsigned_hex signature isDerFormat =
     andThen (orErr HexInvalid (hex_decode unsigned_hex)) (\<lambda>wrapperBytes.
     andThen (UnmarshalJSON E wrapperBytes) (\<lambda>wrapper.
       let tmp = strings_Split signature CHR ''_''
       in andThen (require (length tmp = length (Inputs wrapper)) SignatureCount) (\<lambda>_.
          andThen (each (decode_signature isDerFormat) tmp) (\<lambda>sig.
          andThen (orErr NilPointer ingredient) (\<lambda>i.
          andThen (if TxType i = TxTypeKrc20Reveal
                   then map_sum id Some (orErr HexInvalid (hex_decode (Krc20RedeemScript i)))
                   else Inr None) (\<lambda>redeemScript.
          andThen (each (signature_script redeemScript) sig) (\<lambda>scripts.
            Inr (wrapper\<lparr>Inputs :=
              map2 (\<lambda>txin scr. txin\<lparr>SignatureScript := scr\<rparr>) (Inputs wrapper) scripts\<rparr>))))))))"

definition ConcatSignature ::
  "kaspad \<Rightarrow> TxBuilder \<Rightarrow> string \<Rightarrow> bool \<Rightarrow> TxBuilder \<times> (kaspa_error + string)"
where
  "ConcatSignature E tx signature isDerFormat =
     (if length (strings_Split (unsignedHex tx) CHR ''_'') = 2 then (tx, Inr (unsignedHex tx))
      else
        case signed_tx E (TheIngredient tx) (unsignedHex tx) signature isDerFormat of
          Inl e \<Rightarrow> (tx, Inl e)
        | Inr dtx \<Rightarrow>
            let tx = tx\<lparr>txHash := TransactionID_of E dtx\<rparr>
            in (tx,
                andThen (orErr MarshalFailed (rpc_Marshal E dtx)) (\<lambda>rpcTxBytes.
                andThen (orErr MarshalFailed (stx_Marshal E
                  \<lparr>SignedHex = hex_encode rpcTxBytes, SignedTxHash = txHash tx\<rparr>)) (\<lambda>stxBytes.
                  Inr (hex_encode stxBytes)))))"

definition GetTxHash :: "TxBuilder \<Rightarrow> string" where "GetTxHash tx = txHash tx"
definition GetSigHash :: "TxBuilder \<Rightarrow> string list" where "GetSigHash tx = sigHash tx"
definition GetUnsignedHex :: "TxBuilder \<Rightarrow> string" where "GetUnsignedHex tx = unsignedHex tx"
definition SetSigHash :: "string list \<Rightarrow> TxBuilder \<Rightarrow> TxBuilder" where
  "SetSigHash hashes tx = tx\<lparr>sigHash := hashes\<rparr>"
definition SetUnsignedHex :: "string \<Rightarrow> TxBuilder \<Rightarrow> TxBuilder" where
  "SetUnsignedHex h tx = tx\<lparr>unsignedHex := h\<rparr>"

section \<open>The JSON form read back\<close>

lemma each_eq_Inr: "each f xs = Inr ys \<longleftrightarrow> list_all2 (\<lambda>x y. f x = Inr y) xs ys"
proof (induction xs arbitrary: ys)
  case (Cons x xs)
  then show ?case by (auto simp: andThen_eq_Inr list_all2_Cons1)
qed auto

lemma each_map: "(\<And>x. x \<in> set xs \<Longrightarrow> f (g x) = Inr (h x)) \<Longrightarrow> each f (map g xs) = Inr (map h xs)"
  by (induction xs) auto

definition without_entry :: "DomainTransactionInput \<Rightarrow> DomainTransactionInput" where
  "without_entry txin = txin\<lparr>InputEntry := None\<rparr>"

lemma without_entry_simps [simp]:
  "PreviousOutpoint (without_entry txin) = PreviousOutpoint txin"
  "Sequence (without_entry txin) = Sequence txin" "SigOpCount (without_entry txin) = SigOpCount txin"
  by (simp_all add: without_entry_def)

definition wf_tx :: "kaspad \<Rightarrow> DomainTransaction \<Rightarrow> bool" where
  "wf_tx E dtx \<longleftrightarrow> list_all (\<lambda>txin. length (TransactionID (PreviousOutpoint txin)) = 32) (Inputs dtx) \<and>
     length (SubnetworkID dtx) = SubnetworkIDSize E"

lemma unmarshal_marshal:
  assumes "wf_tx E dtx" "MarshalJSON E dtx = Some b" "json_Unmarshal E b = Some (wrap_tx dtx)"
  shows "UnmarshalJSON E b = Inr (dtx\<lparr>Inputs := map without_entry (Inputs dtx)\<rparr>)"
proof -
  have "each unwrap_input (map wrap_input (Inputs dtx)) = Inr (map without_entry (Inputs dtx))"
    using assms(1) by (intro each_map) (auto simp: wf_tx_def list_all_iff wrap_input_def unwrap_input_def without_entry_def)
  moreover have "each unwrap_output (map wrap_output (Outputs dtx)) = Inr (Outputs dtx)"
    using each_map [of "Outputs dtx" unwrap_output wrap_output "\<lambda>x. x"]
    by (simp add: wrap_output_def unwrap_output_def)
  ultimately show ?thesis
    using assms by (simp add: UnmarshalJSON_def wrap_tx_def wf_tx_def)
qed

lemma build_tx_wf: "build_tx E i = Inr dtx \<Longrightarrow> wf_tx E dtx"
  by (auto simp: build_tx_def assemble_def andThen_eq_Inr wf_tx_def Let_def list_all_iff build_input_def
    hash_array_def split: prod.splits)

section \<open>The value of a transaction\<close>

definition entry_amount :: "DomainTransactionInput \<Rightarrow> nat" where
  "entry_amount txin = (case InputEntry txin of None \<Rightarrow> 0 | Some e \<Rightarrow> unat (EntryAmount e))"

definition paid_in :: "DomainTransaction \<Rightarrow> nat" where
  "paid_in dtx = sum_list (map entry_amount (Inputs dtx))"

definition paid_out :: "DomainTransaction \<Rightarrow> nat" where
  "paid_out dtx = sum_list (map (unat \<circ> OutValue) (Outputs dtx))"

definition worth_of :: "UtxoInfo list \<Rightarrow> nat" where
  "worth_of us = sum_list (map (\<lambda>u. unat (parsed (Value u))) us)"

lemma worth_of_simps [simp]: "worth_of [] = 0" "worth_of (u # us) = unat (parsed (Value u)) + worth_of us"
  by (simp_all add: worth_of_def)

lemma worth_of_mset: "mset us = mset vs \<Longrightarrow> worth_of us = worth_of vs"
  unfolding worth_of_def by (metis mset_map sum_mset_sum_list)

lemma filter_loop_sum:
  assumes "filter_loop need s vs = (sel, t)" "unat s + worth_of vs < 2 ^ 64"
  shows "unat t = unat s + worth_of sel \<and> worth_of sel \<le> worth_of vs"
  using assms
proof (induction need s vs arbitrary: sel rule: filter_loop.induct)
  case (2 need s v vs)
  let ?a = "parsed (Value v)"
  have sum: "unat (s + ?a) = unat s + unat ?a"
    using 2(4) by (intro unat_add_lem [THEN iffD1]) simp
  consider "?a \<le> DefaultDust" | "\<not> ?a \<le> DefaultDust" "s + ?a \<ge> need"
    | "\<not> ?a \<le> DefaultDust" "\<not> s + ?a \<ge> need" by blast
  then show ?case
  proof cases
    case 1
    then have "filter_loop need s vs = (sel, t)" using 2(3) by (simp add: Let_def)
    from 2(1) [OF refl 1 this] 2(4) show ?thesis by simp
  next
    case 2
    then show ?thesis using "2.prems" sum by (auto simp: Let_def)
  next
    case 3
    then obtain sel' where "filter_loop need (s + ?a) vs = (sel', t)" "sel = v # sel'"
      using 2(3) by (auto simp: Let_def map_prod_def split: prod.splits)
    then show ?thesis using 2(2) [of ?a "s + ?a" sel'] 2(4) 3 sum by simp
  qed
qed simp

lemma paid_in_build: "sum_list (map entry_amount (map (build_input i) us)) = worth_of us"
  by (simp add: worth_of_def comp_def entry_amount_def build_input_def)

lemma paid_out_build:
  "sum_list (map (unat \<circ> OutValue) (build_outputs r v c change)) = unat v + (if change \<ge> DefaultDust then unat change else 0)"
  by (simp add: build_outputs_def)

definition fits :: "Ingredient \<Rightarrow> bool" where
  "fits i \<longleftrightarrow> TxType i \<noteq> TxTypeTransfer \<and> TxType i \<noteq> TxTypeKrc20Commit \<or>
     unat (parsed (Amount i)) + unat (parsed (Fee i)) < 2 ^ 64"

lemma payment_fits:
  assumes "payment E i key (parsed (Fee i)) = Inr (scr, v)" "fits i"
  shows "unat v + unat (parsed (Fee i)) < 2 ^ 64"
proof -
  have fee: "unat (parsed (Fee i)) < 2 ^ 64" using unsigned_less [of "parsed (Fee i)", where 'a = nat] by simp
  consider "TxType i = TxTypeTransfer \<or> TxType i = TxTypeKrc20Commit"
    | "TxType i = TxTypeKrc20Reveal" "TxType i \<noteq> TxTypeTransfer" "TxType i \<noteq> TxTypeKrc20Commit"
    | "TxType i \<noteq> TxTypeTransfer" "TxType i \<noteq> TxTypeKrc20Commit" "TxType i \<noteq> TxTypeKrc20Reveal"
    by blast
  then show ?thesis
  proof cases
    case 1
    then have "v = parsed (Amount i)" using assms(1) by (auto simp: payment_def andThen_eq_Inr split: if_splits)
    with 1 assms(2) show ?thesis by (auto simp: fits_def)
  next
    case 2
    then obtain u :: UtxoInfo where "v = parsed (Value u) - parsed (Fee i)" "\<not> parsed (Fee i) \<ge> parsed (Value u)"
      using assms(1) by (auto simp: payment_def andThen_eq_Inr Let_def split: if_splits)
    then have "unat v + unat (parsed (Fee i)) = unat (parsed (Value u))"
      by (simp add: unat_sub_if' word_le_nat_alt)
    then show ?thesis using unsigned_less [of "parsed (Value u)", where 'a = nat] by simp
  next
    case 3
    then have "v = 0" using assms(1) by (auto simp: payment_def)
    with fee show ?thesis by simp
  qed
qed


text \<open>
  The sum of amount and fee is not checked. When it wraps to a number that one output covers,
  the transaction is built and pays out more than its input holds.
\<close>

theorem kaspa_amount_wraps:
  assumes "prepare E i = Inr (senderScript, recipientScript, v)"
    and "Utxos i = Some \<lparr>List = Some [Some u]\<rparr>" "sort_Slice E [u] = [u]"
    and "unat v + unat (parsed (Fee i)) = 2 ^ 64 + n" "n \<le> unat (parsed (Value u))"
    and "unat DefaultDust < unat (parsed (Value u))" "unat (parsed (Value u)) < unat v"
  shows "\<exists>dtx. build_tx E i = Inr dtx \<and> paid_in dtx < paid_out dtx"
proof -
  let ?need = "v + parsed (Fee i)"
  have "unat ?need = n"
    using assms(4) assms(5) unsigned_less [of "parsed (Value u)", where 'a = nat]
    by (simp add: unat_word_ariths)
  then have need: "?need \<le> parsed (Value u)" using assms(5) by (simp add: word_le_nat_alt)
  have dust: "\<not> parsed (Value u) \<le> DefaultDust" using assms(6) by (simp add: word_le_nat_alt)
  have "selectUtxosFilter E (Utxos i) ?need = Inr ([u], parsed (Value u))"
    using assms(3) need dust by (simp add: selectUtxosFilter_def sorted_utxos_def the_list_def assms(2) Let_def)
  then obtain dtx where asm: "assemble E i (senderScript, recipientScript, v) = Inr dtx"
    "Inputs dtx = map (build_input i) [u]"
    "Outputs dtx = build_outputs recipientScript v senderScript (parsed (Value u) - ?need)"
    using need by (auto simp: assemble_def Let_def not_less)
  have "paid_in dtx = unat (parsed (Value u))"
    using paid_in_build [of i "[u]"] by (simp only: paid_in_def asm(2)) simp
  moreover have "unat v \<le> paid_out dtx"
    by (simp only: paid_out_def asm(3) paid_out_build)
  ultimately show ?thesis using assms(1,7) asm(1) by (auto simp: build_tx_def)
qed

section \<open>Signatures reach their inputs\<close>

lemma hash_loop_nth:
  assumes "hash_loop E dtx idxs hashes = (hs, Inr ())"
  shows "\<exists>rs. hs = hashes @ map hex_encode rs \<and> list_all2 (\<lambda>k h. CalculateSignatureHashSchnorr E dtx k = Some h) idxs rs"
  using assms
proof (induction E dtx idxs hashes rule: hash_loop.induct)
  case (2 E dtx k ks hashes)
  then obtain h where h: "CalculateSignatureHashSchnorr E dtx k = Some h"
    "hash_loop E dtx ks (hashes @ [hex_encode h]) = (hs, Inr ())"
    by (auto split: option.splits)
  from 2(1) [OF this] obtain rs where "hs = hashes @ map hex_encode (h # rs)"
    "list_all2 (\<lambda>k h. CalculateSignatureHashSchnorr E dtx k = Some h) ks rs" by auto
  with h(1) show ?case by (intro exI [of _ "h # rs"]) simp
qed simp

lemma Build_ok_kaspa:
  assumes "Build E tx = (tx', Inr ())" "TheIngredient tx = Some i"
  obtains dtx rs b where "build_tx E i = Inr dtx" "MarshalJSON E dtx = Some b"
    "tx' = tx\<lparr>TheIngredient := Some (sort_ingredient E i), sigHash := map hex_encode rs, unsignedHex := hex_encode b, txHash := []\<rparr>"
    "list_all2 (\<lambda>k h. CalculateSignatureHashSchnorr E dtx k = Some h) [0..<length (Inputs dtx)] rs"
proof -
  obtain prepared where p: "prepare E i = Inr prepared"
    using assms by (cases "prepare E i") (auto simp: Build_def)
  let ?tx = "tx\<lparr>sigHash := [], unsignedHex := [], txHash := [], TheIngredient := Some (sort_ingredient E i)\<rparr>"
  obtain dtx where a: "assemble E i prepared = Inr dtx" and fin: "finish_build E ?tx dtx = (tx', Inr ())"
    using assms p by (cases "assemble E i prepared") (auto simp: Build_def Let_def)
  obtain hs where h: "hash_loop E dtx [0..<length (Inputs dtx)] [] = (hs, Inr ())"
    using fin by (cases "hash_loop E dtx [0..<length (Inputs dtx)] []")
      (auto simp: finish_build_def split: sum.splits)
  then obtain b where b: "MarshalJSON E dtx = Some b" and
    tx': "tx' = ?tx\<lparr>sigHash := hs, unsignedHex := hex_encode b\<rparr>"
    using fin by (auto simp: finish_build_def split: option.splits)
  from hash_loop_nth [OF h] obtain rs where "hs = map hex_encode rs"
    "list_all2 (\<lambda>k h. CalculateSignatureHashSchnorr E dtx k = Some h) [0..<length (Inputs dtx)] rs" by auto
  moreover from this(1) tx' have "tx' = tx\<lparr>TheIngredient := Some (sort_ingredient E i), sigHash := map hex_encode rs,
      unsignedHex := hex_encode b, txHash := []\<rparr>" by (cases tx) simp
  ultimately show ?thesis using that p a b by (simp add: build_tx_def)
qed

lemma sign_hashes_kaspa:
  assumes "each (sign_hash E key) (map hex_encode rs) = Inr ss"
  obtains sigs where "ss = map hex_encode (map (\<lambda>s. s @ [SigHashAll E]) sigs)"
    "list_all2 (\<lambda>h s. SignSchnorr E key h = Some s) rs sigs"
proof -
  have "\<exists>sigs. ss = map hex_encode (map (\<lambda>s. s @ [SigHashAll E]) sigs) \<and>
      list_all2 (\<lambda>h s. SignSchnorr E key h = Some s) rs sigs"
    using assms
  proof (induction rs arbitrary: ss)
    case (Cons r rs)
    then obtain y rest where y: "sign_hash E key (hex_encode r) = Inr y" and
      rest: "each (sign_hash E key) (map hex_encode rs) = Inr rest" "ss = y # rest"
      by (auto simp: andThen_eq_Inr)
    then obtain s where s: "SignSchnorr E key r = Some s" "ss = hex_encode (s @ [SigHashAll E]) # rest"
      by (auto simp: sign_hash_def andThen_eq_Inr)
    from Cons(1) [OF rest(1)] obtain sigs where "rest = map hex_encode (map (\<lambda>s. s @ [SigHashAll E]) sigs)"
      "list_all2 (\<lambda>h s. SignSchnorr E key h = Some s) rs sigs" by blast
    with s show ?case by (intro exI [of _ "s # sigs"]) simp
  qed simp
  then show thesis using that by blast
qed

lemma decode_signatures_kaspa: "each (decode_signature False) (map hex_encode sigs) = Inr sigs"
  using each_map [of sigs "decode_signature False" hex_encode "\<lambda>x. x"] by (simp add: decode_signature_def)

text \<open>The tokens of a signature script.\<close>

definition script_pieces :: "bytes option \<Rightarrow> bytes \<Rightarrow> piece list" where
  "script_pieces redeemScript sig = Push sig # (case redeemScript of None \<Rightarrow> [] | Some r \<Rightarrow> [Push r])"

lemma signature_script_parses:
  assumes "signature_script redeemScript sig = Inr scr"
  shows "parseScript scr = Inr (map piece_token (script_pieces redeemScript sig))"
proof -
  have "Script_of (build (script_pieces redeemScript sig)) = Inr scr"
    using assms by (auto simp: signature_script_def script_pieces_def build_def Let_def split: option.splits)
  then show ?thesis
    by (rule script_of_build [THEN conjunct1]) (auto simp: script_pieces_def operator_def split: option.splits)
qed

definition same_body :: "DomainTransaction \<Rightarrow> DomainTransaction \<Rightarrow> bool" where
  "same_body s t \<longleftrightarrow> s\<lparr>Inputs := []\<rparr> = t\<lparr>Inputs := []\<rparr> \<and>
     map PreviousOutpoint (Inputs s) = map PreviousOutpoint (Inputs t) \<and>
     map Sequence (Inputs s) = map Sequence (Inputs t) \<and> map SigOpCount (Inputs s) = map SigOpCount (Inputs t)"

lemma with_scripts:
  "length ins = length scripts \<Longrightarrow>
     map f (map2 (\<lambda>txin scr. txin\<lparr>SignatureScript := scr\<rparr>) (map without_entry ins) scripts) = map f ins"
  if "\<And>txin scr. f (without_entry txin\<lparr>SignatureScript := scr\<rparr>) = f txin"
  by (induction ins scripts rule: list_induct2) (simp_all add: that)

definition redeem_of :: "Ingredient \<Rightarrow> bytes option" where
  "redeem_of i = (if TxType i = TxTypeKrc20Reveal then hex_decode (Krc20RedeemScript i) else None)"

lemma sort_ingredient_keeps [simp]:
  "TxType (sort_ingredient E i) = TxType i" "Krc20RedeemScript (sort_ingredient E i) = Krc20RedeemScript i"
  by (simp_all add: sort_ingredient_def split: sum.splits)

lemma redeem_ok:
  "(if TxType i = TxTypeKrc20Reveal then map_sum id Some (orErr e (hex_decode (Krc20RedeemScript i)))
     else Inr None) = Inr r \<Longrightarrow> r = redeem_of i"
  by (cases "hex_decode (Krc20RedeemScript i)") (auto simp: redeem_of_def split: if_splits)

lemma signed_tx_signs:
  assumes "wf_tx E dtx" "MarshalJSON E dtx = Some b" "json_Unmarshal E b = Some (wrap_tx dtx)"
    and "sigs \<noteq> []"
    and signed: "signed_tx E (Some i) (hex_encode b) (strings_Join (map hex_encode sigs) ''_'') False = Inr dtx'"
  shows "same_body dtx' dtx \<and> length sigs = length (Inputs dtx) \<and>
    (\<forall>k < length (Inputs dtx). parseScript (SignatureScript (Inputs dtx' ! k)) =
      Inr (map piece_token (script_pieces (redeem_of i) (sigs ! k))))"
proof -
  obtain r scripts where len: "length sigs = length (Inputs dtx)" and
    r: "(if TxType i = TxTypeKrc20Reveal
         then map_sum id Some (orErr HexInvalid (hex_decode (Krc20RedeemScript i))) else Inr None) = Inr r"
      "each (signature_script r) sigs = Inr scripts"
    and dtx': "dtx' = dtx\<lparr>Inputs := map2 (\<lambda>txin scr. txin\<lparr>SignatureScript := scr\<rparr>)
      (map without_entry (Inputs dtx)) scripts\<rparr>"
    using signed unmarshal_marshal [OF assms(1-3)]
    by (auto simp: signed_tx_def Let_def andThen_eq_Inr split_signatures [OF assms(4)] decode_signatures_kaspa)
  have scripts: "each (signature_script (redeem_of i)) sigs = Inr scripts"
    using r(2) redeem_ok [OF r(1)] by simp
  have all2: "list_all2 (\<lambda>sig scr. signature_script (redeem_of i) sig = Inr scr) sigs scripts"
    using scripts by (simp add: each_eq_Inr)
  then have l: "length (Inputs dtx) = length scripts" using len by (auto dest: list_all2_lengthD)
  have body: "same_body dtx' dtx"
    by (simp add: same_body_def dtx' with_scripts [OF _ l] del: map_map)
  have "parseScript (SignatureScript (Inputs dtx' ! k)) = Inr (map piece_token (script_pieces (redeem_of i) (sigs ! k)))"
    if "k < length (Inputs dtx)" for k
  proof -
    have "signature_script (redeem_of i) (sigs ! k) = Inr (scripts ! k)"
      using all2 that len by (simp add: list_all2_conv_all_nth)
    from signature_script_parses [OF this] show ?thesis using that l by (simp add: dtx')
  qed
  with body len show ?thesis by blast
qed

text \<open>
  What \<open>Build\<close> hashed and \<open>Sign\<close> signed, \<open>ConcatSignature\<close> puts together: the transaction
  completed is the one built, with its outpoints and outputs, and the script of every input parses
  to a push of the signature of that input's own hash with the sighash byte, followed by the redeem
  script when a KRC-20 operation is revealed. The hash recorded is the id of that transaction.
\<close>

theorem kaspa_signatures_reach_inputs:
  assumes build: "Build E tx = (tx', Inr ())" "TheIngredient tx = Some i"
    and json: "\<And>dtx b. build_tx E i = Inr dtx \<Longrightarrow> MarshalJSON E dtx = Some b \<Longrightarrow>
      json_Unmarshal E b = Some (wrap_tx dtx)"
    and sign: "Sign E tx' key = Inr signature"
    and concat: "ConcatSignature E tx' signature False = (tx'', Inr hex)"
  shows "\<exists>dtx signed. build_tx E i = Inr dtx \<and> same_body signed dtx \<and> txHash tx'' = TransactionID_of E signed \<and>
    list_all (\<lambda>k. \<exists>h s. CalculateSignatureHashSchnorr E dtx k = Some h \<and> SignSchnorr E key h = Some s \<and>
        parseScript (SignatureScript (Inputs signed ! k)) =
          Inr (map piece_token (script_pieces (redeem_of i) (s @ [SigHashAll E]))))
      [0..<length (Inputs dtx)]"
proof -
  obtain dtx rs b where dtx: "build_tx E i = Inr dtx" "MarshalJSON E dtx = Some b"
    and tx': "tx' = tx\<lparr>TheIngredient := Some (sort_ingredient E i), sigHash := map hex_encode rs,
      unsignedHex := hex_encode b, txHash := []\<rparr>"
    and rs: "list_all2 (\<lambda>k h. CalculateSignatureHashSchnorr E dtx k = Some h) [0..<length (Inputs dtx)] rs"
    by (rule Build_ok_kaspa [OF build])
  obtain ss where ne: "rs \<noteq> []" and each: "each (sign_hash E key) (map hex_encode rs) = Inr ss"
    and sig: "signature = strings_Join ss ''_''"
    using sign by (auto simp: Sign_def tx' andThen_eq_Inr split: if_splits)
  obtain sigs where ss: "ss = map hex_encode (map (\<lambda>s. s @ [SigHashAll E]) sigs)"
    and sigs: "list_all2 (\<lambda>h s. SignSchnorr E key h = Some s) rs sigs"
    by (rule sign_hashes_kaspa [OF each])
  have ne': "map (\<lambda>s. s @ [SigHashAll E]) sigs \<noteq> []" using ne sigs by auto
  have "strings_Split (hex_encode b) CHR ''_'' = [hex_encode b]" using split_signatures [of "[b]"] by simp
  then obtain signed where signed: "signed_tx E (Some (sort_ingredient E i)) (hex_encode b)
      (strings_Join (map hex_encode (map (\<lambda>s. s @ [SigHashAll E]) sigs)) ''_'') False = Inr signed"
    and hash: "txHash tx'' = TransactionID_of E signed"
    using concat by (auto simp: ConcatSignature_def tx' sig ss Let_def split: sum.splits)
  from signed_tx_signs [OF build_tx_wf [OF dtx(1)] dtx(2) json [OF dtx] ne' signed]
  have "list_all (\<lambda>k. \<exists>h s. CalculateSignatureHashSchnorr E dtx k = Some h \<and> SignSchnorr E key h = Some s \<and>
        parseScript (SignatureScript (Inputs signed ! k)) =
          Inr (map piece_token (script_pieces (redeem_of i) (s @ [SigHashAll E]))))
      [0..<length (Inputs dtx)]" and "same_body signed dtx"
    using rs sigs by (auto simp: list_all_iff list_all2_conv_all_nth redeem_of_def)
  with dtx(1) hash show ?thesis by blast
qed

section \<open>The properties at concrete transfers\<close>

definition pay_address :: string where
  "pay_address = encodeAddress bech32PrefixKaspaMainnet (replicate 32 7) pubKeyAddrID"

definition pay_script :: bytes where
  "pay_script = 32 # replicate 32 7 @ [0xac]"

lemma pay_address_decodes [simp]:
  "decodeAddress pay_address bech32PrefixKaspaMainnet = Inr (pubKeyAddrID, replicate 32 7)"
  unfolding pay_address_def
  by (rule decode_encode_address) (simp add: addressPayloadLength_def pubKeyAddrID_def)

lemma pay_script_built [simp]:
  "Script_of (AddOp OpCheckSig (AddData (replicate 32 7) NewScriptBuilder)) = Inr pay_script"
  "payToAddressScript pubKeyAddrID (replicate 32 7) = Inr pay_script"
  by (simp_all add: payToAddressScript_def AddOp_def AddData_def NewScriptBuilder_def canonicalDataSize_def
    maxScriptSize_def maxScriptElementSize_def addData_def append_script_def Script_of_def opcode_defs
    OpCheckSig_def pay_script_def)

definition transfer :: "string \<Rightarrow> string \<Rightarrow> string \<Rightarrow> Ingredient" where
  "transfer amount fee v = \<lparr>TxType = ''0'', ContractAddress = [], Sender = pay_address,
     Recipient = pay_address, Amount = amount, Fee = fee,
     Utxos = Some \<lparr>List = Some [Some (sample_utxo v)]\<rparr>, Krc20RedeemScript = []\<rparr>"

lemma transfer_simps [simp]:
  "Utxos (transfer a f v) = Some \<lparr>List = Some [Some (sample_utxo v)]\<rparr>" "Fee (transfer a f v) = f"
  "Amount (transfer a f v) = a" "TxType (transfer a f v) = ''0''"
  by (simp_all add: transfer_def)

lemma transfer_prepared:
  "\<not> parsed amount \<le> DefaultDust \<Longrightarrow>
     prepare E (transfer amount fee v) = Inr (pay_script, pay_script, parsed amount)"
  by (simp add: prepare_def transfer_def payment_def TxTypeTransfer_def check_dust_def)

definition transfer_tx :: "u64 \<Rightarrow> u64 \<Rightarrow> string \<Rightarrow> DomainTransaction" where
  "transfer_tx amount change v = \<lparr>TxVersion = 0, Inputs = [build_input (transfer [] [] []) (sample_utxo v)],
     Outputs = build_outputs pay_script amount pay_script change, LockTime = 0,
     SubnetworkID = replicate 20 0, Gas = 0, Payload = []\<rparr>"

definition sample_kaspad :: kaspad where
  "sample_kaspad = \<lparr>MaxTransactionVersion = 0, SubnetworkIDSize = 20, SigHashAll = 1,
     HashBlake2b = (\<lambda>_. replicate 32 0),
     CalculateSignatureHashSchnorr = (\<lambda>dtx k. Some [word_of_nat k, 9]),
     TransactionID_of = (\<lambda>dtx. concat (map (hex_encode \<circ> SignatureScript) (Inputs dtx))),
     rpc_Marshal = (\<lambda>_. Some [1]), json_Marshal = (\<lambda>_. Some [2]),
     json_Unmarshal = (\<lambda>_. Some (wrap_tx (transfer_tx 3000000 5000000 ''9000000''))),
     stx_Marshal = (\<lambda>_. Some [3]), sort_Slice = (\<lambda>us. us),
     SignSchnorr = (\<lambda>_ h. Some (h @ h))\<rparr>"

lemma sample_kaspad_simps [simp]:
  "MaxTransactionVersion sample_kaspad = 0" "SubnetworkIDSize sample_kaspad = 20" "SigHashAll sample_kaspad = 1"
  "CalculateSignatureHashSchnorr sample_kaspad dtx k = Some [word_of_nat k, 9]"
  "rpc_Marshal sample_kaspad dtx = Some [1]" "json_Marshal sample_kaspad aux = Some [2]"
  "json_Unmarshal sample_kaspad b = Some (wrap_tx (transfer_tx 3000000 5000000 ''9000000''))"
  "stx_Marshal sample_kaspad stx = Some [3]" "sort_Slice sample_kaspad us = us"
  "SignSchnorr sample_kaspad key h = Some (h @ h)"
  by (simp_all add: sample_kaspad_def)

lemma sample_parsed [simp]:
  "parsed ''3000000'' = 3000000" "parsed ''1000000'' = 1000000" "parsed ''9000000'' = 9000000"
  "parsed ''18446744073709551615'' = 18446744073709551615" "parsed ''5000000'' = 5000000"
  by (simp_all add: parsed_def ParseUint_def digit_of_def char_nat_def)

lemma Value_sample [simp]: "Value (sample_utxo v) = v"
  by (simp add: sample_utxo_def)

lemma transfer_input: "build_input (transfer a f v) u = build_input (transfer [] [] []) u"
  by (simp add: build_input_def)

lemma transfer_built:
  "build_tx sample_kaspad (transfer ''3000000'' ''1000000'' ''9000000'') =
     Inr (transfer_tx 3000000 5000000 ''9000000'')"
proof -
  have "prepare sample_kaspad (transfer ''3000000'' ''1000000'' ''9000000'') = Inr (pay_script, pay_script, 3000000)"
    using transfer_prepared [of "''3000000''"] by (simp add: DefaultDust_def)
  then show ?thesis
    by (simp add: build_tx_def assemble_def selectUtxosFilter_def sorted_utxos_def the_list_def transfer_tx_def
      DefaultDust_def transfer_input [of "''3000000''"])
qed


theorem kaspa_amount_wraps_witness:
  "\<exists>dtx. build_tx sample_kaspad (transfer ''18446744073709551615'' ''1000000'' ''5000000'') = Inr dtx \<and>
     paid_in dtx < paid_out dtx"
  by (rule kaspa_amount_wraps [where u = "sample_utxo ''5000000''" and n = 999999,
      OF transfer_prepared [of "''18446744073709551615''"]])
     (simp_all add: DefaultDust_def)

definition sample_key :: bytes where "sample_key = [1]"

lemma sample_kaspa_build:
  "Build sample_kaspad (NewTxBuilder (Some (transfer ''3000000'' ''1000000'' ''9000000''))) =
     (\<lparr>TheIngredient = Some (transfer ''3000000'' ''1000000'' ''9000000''), unsignedHex = hex_encode [2],
        sigHash = [hex_encode [0, 9]], txHash = []\<rparr>, Inr ())"
proof -
  let ?i = "transfer ''3000000'' ''1000000'' ''9000000''"
  obtain p where p: "prepare sample_kaspad ?i = Inr p" "assemble sample_kaspad ?i p = Inr (transfer_tx 3000000 5000000 ''9000000'')"
    using transfer_built by (auto simp: build_tx_def andThen_eq_Inr)
  have "sort_ingredient sample_kaspad ?i = ?i"
    by (simp add: sort_ingredient_def sorted_utxos_def the_list_def)
  then show ?thesis
    by (simp add: Build_def NewTxBuilder_def p finish_build_def MarshalJSON_def transfer_tx_def del: hex_encode.simps)
qed

theorem kaspa_signatures_reach_inputs_witness:
  "\<exists>signed. same_body signed (transfer_tx 3000000 5000000 ''9000000'') \<and>
     parseScript (SignatureScript (Inputs signed ! 0)) = Inr [\<lparr>opcode = 5, data = [0, 9, 0, 9, 1]\<rparr>]"
proof -
  let ?i = "transfer ''3000000'' ''1000000'' ''9000000''"
  let ?tx = "\<lparr>TheIngredient = Some ?i, unsignedHex = hex_encode [2], sigHash = [hex_encode [0, 9]], txHash = []\<rparr>"
  let ?sig = "hex_encode [0, 9, 0, 9, 1]"
  have sign: "Sign sample_kaspad ?tx sample_key = Inr ?sig"
    by (simp add: Sign_def sign_hash_def del: hex_encode.simps hex_encode_append)
  have wf: "wf_tx sample_kaspad (transfer_tx 3000000 5000000 ''9000000'')"
    using build_tx_wf [OF transfer_built] .
  have "UnmarshalJSON sample_kaspad [2] = Inr ((transfer_tx 3000000 5000000 ''9000000'')
      \<lparr>Inputs := map without_entry (Inputs (transfer_tx 3000000 5000000 ''9000000''))\<rparr>)"
    by (rule unmarshal_marshal [OF wf]) (simp_all add: MarshalJSON_def)
  moreover have "signature_script None [0, 9, 0, 9, 1] = Inr [5, 0, 9, 0, 9, 1]"
    by (simp add: signature_script_def AddData_def NewScriptBuilder_def canonicalDataSize_def
      maxScriptSize_def maxScriptElementSize_def addData_def append_script_def Script_of_def opcode_defs)
  ultimately obtain tx'' hex where concat: "ConcatSignature sample_kaspad ?tx ?sig False = (tx'', Inr hex)"
    using split_signatures [of "[[2]]"] split_signatures [of "[[0, 9, 0, 9, 1]]"]
    by (simp add: ConcatSignature_def signed_tx_def decode_signature_def TxTypeKrc20Reveal_def Let_def
      transfer_tx_def del: hex_encode.simps)
  have json: "json_Unmarshal sample_kaspad b = Some (wrap_tx dtx)"
    if "build_tx sample_kaspad ?i = Inr dtx" for dtx b
    using that transfer_built by simp
  from kaspa_signatures_reach_inputs [OF sample_kaspa_build _ json sign concat, of ?i]
  obtain signed where "same_body signed (transfer_tx 3000000 5000000 ''9000000'')"
    "list_all (\<lambda>k. parseScript (SignatureScript (Inputs signed ! k)) =
        Inr (map piece_token (script_pieces (redeem_of ?i) [word_of_nat k, 9, word_of_nat k, 9, 1])))
      [0..<length (Inputs (transfer_tx 3000000 5000000 ''9000000''))]"
    using transfer_built by (auto simp: NewTxBuilder_def)
  then show ?thesis
    by (auto simp: transfer_tx_def redeem_of_def TxTypeKrc20Reveal_def script_pieces_def push_token_def)
qed

end
