(* ===== verification/Base32.thy ===== *)
theory Base32
  imports Regroup
begin

text \<open>
  \<open>encoding/base32\<close> of the standard library without padding, as the address functions of Stellar,
  Algorand and Filecoin use it, over an alphabet of 32 characters. Its behaviours that matter to
  the callers are kept: line breaks are dropped before decoding, the unused bits of the last symbol
  are not looked at, and a last group of one, three or six symbols gives nothing. Without padding
  the padding character is the byte \<open>0xff\<close>.
\<close>

section \<open>Alphabets\<close>

definition encodeStdAlphabet :: string where
  "encodeStdAlphabet = ''ABCDEFGHIJKLMNOPQRSTUVWXYZ234567''"

fun position :: "char \<Rightarrow> string \<Rightarrow> nat option" where
  "position c [] = None"
| "position c (d # ds) = (if c = d then Some 0 else map_option Suc (position c ds))"

definition alphabet :: "string \<Rightarrow> bool" where
  "alphabet a \<longleftrightarrow> length a = 32 \<and> distinct a \<and> list_all (\<lambda>c. 33 \<le> char_nat c \<and> char_nat c < 127) a"

fun symbols :: "string \<Rightarrow> string \<Rightarrow> bytes option" where
  "symbols a [] = Some []"
| "symbols a (c # s) =
     (case position c a of
        None \<Rightarrow> None
      | Some i \<Rightarrow> map_option (Cons (word_of_nat i)) (symbols a s))"

section \<open>Encoding and decoding\<close>

definition base32_encode :: "string \<Rightarrow> bytes \<Rightarrow> string" where
  "base32_encode a bs = map (\<lambda>d. a ! unat d) (convertBits bs eightToFiveBits)"

definition line_break :: "char \<Rightarrow> bool" where
  "line_break c \<longleftrightarrow> char_nat c = 10 \<or> char_nat c = 13"

definition pad_char :: char where
  "pad_char = CHR 0xff"

text \<open>
  The symbols that count. The first padding character must be in the last eight characters and
  fill up a group that holds whole bytes; what follows that group is not read.
\<close>

definition unpadded :: "string \<Rightarrow> string option" where
  "unpadded s =
     (let p = takeWhile (\<lambda>c. c \<noteq> pad_char) s;
          rest = drop (length p) s;
          j = length p mod 8
      in if rest = [] then Some s
         else if 2 \<le> j \<and> j \<noteq> 3 \<and> j \<noteq> 6 \<and> length rest \<le> 8 \<and> 8 \<le> length rest + j \<and>
           list_all (\<lambda>c. c = pad_char) (take (8 - j) rest) then Some p
         else None)"

definition whole_groups :: "bytes \<Rightarrow> bytes" where
  "whole_groups ds =
     (let k = length ds mod 8
      in if k = 1 \<or> k = 3 \<or> k = 6 then take (length ds - k) ds else ds)"

definition base32_decode :: "string \<Rightarrow> string \<Rightarrow> bytes option" where
  "base32_decode a s =
     Option.bind (unpadded (filter (\<lambda>c. \<not> line_break c) s)) (\<lambda>s.
     map_option (\<lambda>ds. convertBits (whole_groups ds) fiveToEightBits) (symbols a s))"

section \<open>The round trip\<close>

lemma position_nth: "distinct a \<Longrightarrow> i < length a \<Longrightarrow> position (a ! i) a = Some i"
proof (induction a arbitrary: i)
  case (Cons c a)
  then show ?case by (cases i) auto
qed simp

lemma symbols_of_symbols:
  "alphabet a \<Longrightarrow> list_all (\<lambda>d. unat d < 32) ds \<Longrightarrow> symbols a (map (\<lambda>d. a ! unat d) ds) = Some ds"
  by (induction ds) (simp_all add: alphabet_def position_nth)

lemma five_symbols: "list_all (\<lambda>d. unat d < 32) (convertBits bs eightToFiveBits)"
proof -
  have "list_all (\<lambda>b :: u8. unat b < 2 ^ 8) bs" by (simp add: list_all_iff)
  then show ?thesis
    using convertBits_pad [of eightToFiveBits bs] by (auto simp: eightToFiveBits_def)
qed

lemma length_five:
  obtains k where "k < 5" "5 * length (convertBits bs eightToFiveBits) = 8 * length bs + k"
proof -
  have "list_all (\<lambda>b :: u8. unat b < 2 ^ 8) bs" by (simp add: list_all_iff)
  then show thesis
    using convertBits_pad [of eightToFiveBits bs] that by (auto simp: eightToFiveBits_def)
qed

lemma five_whole: "whole_groups (convertBits bs eightToFiveBits) = convertBits bs eightToFiveBits"
proof -
  obtain k where k: "k < 5" "5 * length (convertBits bs eightToFiveBits) = 8 * length bs + k"
    by (rule length_five)
  then have "5 * (length (convertBits bs eightToFiveBits) mod 8) mod 8 = k"
    by (simp only: mod_mult_right_eq) simp
  with k(1) have "length (convertBits bs eightToFiveBits) mod 8 \<notin> {1, 3, 6}" by auto
  then show ?thesis by (simp add: whole_groups_def Let_def)
qed

lemma alphabet_nth: "alphabet a \<Longrightarrow> unat d < 32 \<Longrightarrow> 33 \<le> char_nat (a ! unat d) \<and> char_nat (a ! unat d) < 127"
  by (auto simp: alphabet_def list_all_iff)

lemma encoded_chars:
  assumes "alphabet a" "c \<in> set (base32_encode a bs)"
  shows "33 \<le> char_nat c \<and> char_nat c < 127"
  using assms five_symbols [of bs] alphabet_nth [OF assms(1)] by (auto simp: base32_encode_def list_all_iff)

lemma unpadded_chars: "(\<And>c. c \<in> set s \<Longrightarrow> char_nat c < 127) \<Longrightarrow> unpadded s = Some s"
proof -
  assume *: "\<And>c. c \<in> set s \<Longrightarrow> char_nat c < 127"
  have "takeWhile (\<lambda>c. c \<noteq> pad_char) s = s"
    using * [of pad_char] by (auto simp: takeWhile_eq_all_conv pad_char_def char_nat_def)
  then show ?thesis unfolding unpadded_def Let_def by (simp only: drop_all order_refl if_True simp_thms)
qed

lemma base32_round_trip: "alphabet a \<Longrightarrow> base32_decode a (base32_encode a bs) = Some bs"
proof -
  assume a: "alphabet a"
  have "filter (\<lambda>c. \<not> line_break c) (base32_encode a bs) = base32_encode a bs"
    by (auto simp: filter_id_conv line_break_def dest!: encoded_chars [OF a])
  moreover have "unpadded (base32_encode a bs) = Some (base32_encode a bs)"
    by (rule unpadded_chars) (simp add: encoded_chars [OF a])
  ultimately show ?thesis
    using symbols_of_symbols [OF a five_symbols]
    by (simp add: base32_decode_def base32_encode_def five_whole convertBits_round_trip)
qed

lemma length_base32_encode: "length (base32_encode a bs) = length (convertBits bs eightToFiveBits)"
  by (simp add: base32_encode_def)

text \<open>Line breaks anywhere do not change what is decoded.\<close>

lemma base32_line_breaks: "line_break c \<Longrightarrow> base32_decode a (s @ c # t) = base32_decode a (s @ t)"
  by (simp add: base32_decode_def)

lemma std_alphabet: "alphabet encodeStdAlphabet"
  by (simp add: alphabet_def encodeStdAlphabet_def char_nat_def)

end
