(* ===== verification/StellarKey.thy ===== *)
theory StellarKey
  imports Base32
begin

text \<open>
  \<open>signing/stellar/utils.go\<close>: the textual keys of Stellar, a version byte, a payload and a CRC-16
  in base32. The checksum runs over a table; the table is the bitwise division by the polynomial
  \<open>0x1021\<close>.
\<close>

section \<open>The checksum\<close>

definition crc16tab :: "u16 list" where
  "crc16tab =
   [0x0000, 0x1021, 0x2042, 0x3063, 0x4084, 0x50a5, 0x60c6, 0x70e7,
    0x8108, 0x9129, 0xa14a, 0xb16b, 0xc18c, 0xd1ad, 0xe1ce, 0xf1ef,
    0x1231, 0x0210, 0x3273, 0x2252, 0x52b5, 0x4294, 0x72f7, 0x62d6,
    0x9339, 0x8318, 0xb37b, 0xa35a, 0xd3bd, 0xc39c, 0xf3ff, 0xe3de,
    0x2462, 0x3443, 0x0420, 0x1401, 0x64e6, 0x74c7, 0x44a4, 0x5485,
    0xa56a, 0xb54b, 0x8528, 0x9509, 0xe5ee, 0xf5cf, 0xc5ac, 0xd58d,
    0x3653, 0x2672, 0x1611, 0x0630, 0x76d7, 0x66f6, 0x5695, 0x46b4,
    0xb75b, 0xa77a, 0x9719, 0x8738, 0xf7df, 0xe7fe, 0xd79d, 0xc7bc,
    0x48c4, 0x58e5, 0x6886, 0x78a7, 0x0840, 0x1861, 0x2802, 0x3823,
    0xc9cc, 0xd9ed, 0xe98e, 0xf9af, 0x8948, 0x9969, 0xa90a, 0xb92b,
    0x5af5, 0x4ad4, 0x7ab7, 0x6a96, 0x1a71, 0x0a50, 0x3a33, 0x2a12,
    0xdbfd, 0xcbdc, 0xfbbf, 0xeb9e, 0x9b79, 0x8b58, 0xbb3b, 0xab1a,
    0x6ca6, 0x7c87, 0x4ce4, 0x5cc5, 0x2c22, 0x3c03, 0x0c60, 0x1c41,
    0xedae, 0xfd8f, 0xcdec, 0xddcd, 0xad2a, 0xbd0b, 0x8d68, 0x9d49,
    0x7e97, 0x6eb6, 0x5ed5, 0x4ef4, 0x3e13, 0x2e32, 0x1e51, 0x0e70,
    0xff9f, 0xefbe, 0xdfdd, 0xcffc, 0xbf1b, 0xaf3a, 0x9f59, 0x8f78,
    0x9188, 0x81a9, 0xb1ca, 0xa1eb, 0xd10c, 0xc12d, 0xf14e, 0xe16f,
    0x1080, 0x00a1, 0x30c2, 0x20e3, 0x5004, 0x4025, 0x7046, 0x6067,
    0x83b9, 0x9398, 0xa3fb, 0xb3da, 0xc33d, 0xd31c, 0xe37f, 0xf35e,
    0x02b1, 0x1290, 0x22f3, 0x32d2, 0x4235, 0x5214, 0x6277, 0x7256,
    0xb5ea, 0xa5cb, 0x95a8, 0x8589, 0xf56e, 0xe54f, 0xd52c, 0xc50d,
    0x34e2, 0x24c3, 0x14a0, 0x0481, 0x7466, 0x6447, 0x5424, 0x4405,
    0xa7db, 0xb7fa, 0x8799, 0x97b8, 0xe75f, 0xf77e, 0xc71d, 0xd73c,
    0x26d3, 0x36f2, 0x0691, 0x16b0, 0x6657, 0x7676, 0x4615, 0x5634,
    0xd94c, 0xc96d, 0xf90e, 0xe92f, 0x99c8, 0x89e9, 0xb98a, 0xa9ab,
    0x5844, 0x4865, 0x7806, 0x6827, 0x18c0, 0x08e1, 0x3882, 0x28a3,
    0xcb7d, 0xdb5c, 0xeb3f, 0xfb1e, 0x8bf9, 0x9bd8, 0xabbb, 0xbb9a,
    0x4a75, 0x5a54, 0x6a37, 0x7a16, 0x0af1, 0x1ad0, 0x2ab3, 0x3a92,
    0xfd2e, 0xed0f, 0xdd6c, 0xcd4d, 0xbdaa, 0xad8b, 0x9de8, 0x8dc9,
    0x7c26, 0x6c07, 0x5c64, 0x4c45, 0x3ca2, 0x2c83, 0x1ce0, 0x0cc1,
    0xef1f, 0xff3e, 0xcf5d, 0xdf7c, 0xaf9b, 0xbfba, 0x8fd9, 0x9ff8,
    0x6e17, 0x7e36, 0x4e55, 0x5e74, 0x2e93, 0x3eb2, 0x0ed1, 0x1ef0]"

definition crc16_step :: "u16 \<Rightarrow> u8 \<Rightarrow> u16" where
  "crc16_step crc b =
     (push_bit 8 crc AND 0xffff) XOR crc16tab ! unat ((drop_bit 8 crc XOR ucast b) AND 0x00FF)"

definition crc16Checksum :: "bytes \<Rightarrow> u16" where
  "crc16Checksum data = foldl crc16_step 0 data"

definition crc16Validate :: "bytes \<Rightarrow> u16 \<Rightarrow> bool" where
  "crc16Validate data expected \<longleftrightarrow> crc16Checksum data = expected"

section \<open>Textual keys\<close>

definition VersionByteAccountID :: u8 where "VersionByteAccountID = push_bit 3 6"
definition VersionByteSeed :: u8 where "VersionByteSeed = push_bit 3 18"
definition VersionByteMuxedAccount :: u8 where "VersionByteMuxedAccount = push_bit 3 12"
definition VersionByteHashTx :: u8 where "VersionByteHashTx = push_bit 3 19"
definition VersionByteHashX :: u8 where "VersionByteHashX = push_bit 3 23"

definition known_version :: "u8 \<Rightarrow> bool" where
  "known_version v \<longleftrightarrow> v = VersionByteAccountID \<or> v = VersionByteMuxedAccount \<or>
     v = VersionByteSeed \<or> v = VersionByteHashTx \<or> v = VersionByteHashX"

definition maxPayloadSize :: nat where "maxPayloadSize = 40"

datatype strkey_error =
  InvalidVersion | PayloadTooLong | TooShort | LeftoverCharacter | NotBase32 | UnusedBits
| DecodedTooShort | WrongVersion | WrongChecksum

definition decodingTable :: "char \<Rightarrow> u8" where
  "decodingTable ch =
     (case position ch encodeStdAlphabet of None \<Rightarrow> 0xff | Some i \<Rightarrow> word_of_nat i)"

definition decodeString :: "string \<Rightarrow> strkey_error + bytes" where
  "decodeString src =
     (if length src < 5 then Inl TooShort
      else
        let leftoverBits = (length src * 5) mod 8
        in if leftoverBits \<ge> 5 then Inl LeftoverCharacter
           else
             andThen
               (if leftoverBits > 0 then
                  let decodedLastChar = decodingTable (last src);
                      leftoverBitsMask = drop_bit (4 - leftoverBits) 0x0f
                  in if decodedLastChar = 0xff then Inl NotBase32
                     else if decodedLastChar AND leftoverBitsMask \<noteq> 0 then Inl UnusedBits
                     else Inr ()
                else Inr ()) (\<lambda>_.
             orErr NotBase32 (base32_decode encodeStdAlphabet src)))"

definition encode :: "u8 \<Rightarrow> bytes \<Rightarrow> strkey_error + string" where
  "encode version src =
     (if \<not> known_version version then Inl InvalidVersion
      else if length src > maxPayloadSize then Inl PayloadTooLong
      else
        let raw = version # src
        in Inr (base32_encode encodeStdAlphabet (raw @ le_word 2 (crc16Checksum raw))))"

definition decode :: "u8 \<Rightarrow> string \<Rightarrow> strkey_error + bytes" where
  "decode expected s =
     (if \<not> known_version expected then Inl InvalidVersion
      else
        andThen (decodeString s) (\<lambda>raw.
          if length raw < 3 then Inl DecodedTooShort
          else
            let version = raw ! 0;
                vp = take (length raw - 2) raw;
                payload = drop 1 vp;
                checksum = drop (length raw - 2) raw
            in if version \<noteq> expected then Inl WrongVersion
               else if \<not> crc16Validate vp (word_of_nat (le_val checksum)) then Inl WrongChecksum
               else Inr payload))"

definition ValidAddress :: "string \<Rightarrow> bool" where
  "ValidAddress address \<longleftrightarrow> isOk (decode VersionByteAccountID address)"

section \<open>The table\<close>

text \<open>One bit of the division of a message by \<open>x^16 + x^12 + x^5 + 1\<close>.\<close>

definition shift_bit :: "u16 \<Rightarrow> u16" where
  "shift_bit crc = (if bit crc 15 then push_bit 1 crc XOR 0x1021 else push_bit 1 crc)"

definition bitwise_step :: "u16 \<Rightarrow> u8 \<Rightarrow> u16" where
  "bitwise_step crc b = (shift_bit ^^ 8) (crc XOR push_bit 8 (ucast b))"

definition row :: "u16 \<Rightarrow> u16" where
  "row w = (shift_bit ^^ 8) (push_bit 8 w)"

lemma shift_bit_xor: "shift_bit (a XOR b) = shift_bit a XOR shift_bit b"
proof -
  have "push_bit 1 (a XOR b) = push_bit 1 a XOR push_bit 1 b" by (rule push_bit_xor)
  then show ?thesis by (simp add: shift_bit_def bit_xor_iff xor.assoc xor.left_commute xor.commute)
qed

lemma shift_bits_xor: "(shift_bit ^^ n) (a XOR b) = (shift_bit ^^ n) a XOR (shift_bit ^^ n) b"
  by (induction n) (simp_all add: shift_bit_xor)

lemma row_xor: "row (a XOR b) = row a XOR row b"
  by (simp only: row_def push_bit_xor shift_bits_xor)

text \<open>A table of a linear function doubles with every bit of the index.\<close>

fun doubled :: "u16 list \<Rightarrow> u16 list" where
  "doubled [] = [0]"
| "doubled (c # cs) = (let t = doubled cs in t @ map (\<lambda>x. c XOR x) t)"

lemma row_zero: "row 0 = 0"
proof -
  have "(shift_bit ^^ n) 0 = 0" for n by (induction n) (simp_all add: shift_bit_def)
  then show ?thesis by (simp add: row_def)
qed

lemma map_row_doubled:
  "n \<le> 16 \<Longrightarrow> map (\<lambda>i. row (word_of_nat i)) [0..<2 ^ n] = doubled (map (\<lambda>k. row (push_bit k 1)) (rev [0..<n]))"
proof (induction n)
  case (Suc n)
  have "row (word_of_nat (2 ^ n + i)) = row (push_bit n 1) XOR row (word_of_nat i)" if "i < 2 ^ n" for i
  proof -
    have "\<not> bit (word_of_nat i :: u16) n"
    proof -
      have "unat (word_of_nat i :: u16) \<le> i" by (simp add: unat_of_nat)
      then show ?thesis using that by (simp add: bit_word_nat)
    qed
    then have "push_bit n 1 AND (word_of_nat i :: u16) = 0"
      by (intro bit_eqI) (auto simp: bit_simps)
    then have "push_bit n 1 + (word_of_nat i :: u16) = push_bit n 1 XOR word_of_nat i"
      by (rule disjunctive_add_eq_xor)
    then have "(word_of_nat (2 ^ n + i) :: u16) = push_bit n 1 XOR word_of_nat i"
      by (simp add: push_bit_eq_mult)
    then show ?thesis by (simp only: row_xor)
  qed
  then have "map (\<lambda>i. row (word_of_nat i)) [2 ^ n..<2 ^ n + 2 ^ n] =
      map (\<lambda>i. row (push_bit n 1) XOR row (word_of_nat i)) [0..<2 ^ n]"
    by (intro nth_equalityI) auto
  moreover have "doubled (map (\<lambda>k. row (2 ^ k)) (rev [0..<n])) = map (\<lambda>i. row (word_of_nat i)) [0..<2 ^ n]"
    using Suc by simp
  ultimately show ?case
    by (simp add: mult_2 upt_add_eq_append [of 0 "2 ^ n" "2 ^ n"] Let_def comp_def)
qed (simp add: row_zero)

lemma basis_rows:
  "map (\<lambda>k. row (push_bit k 1)) (rev [0..<8]) =
     [0x9188, 0x48c4, 0x2462, 0x1231, 0x8108, 0x4084, 0x2042, 0x1021]"
proof -
  have eight: "(f ^^ 8) x = f (f (f (f (f (f (f (f x)))))))" for f :: "u16 \<Rightarrow> u16" and x
    by (simp add: eval_nat_numeral)
  have "[0..<8] = [0, 1, 2, 3, 4, 5, 6, 7 :: nat]" by (simp add: upt_rec)
  then show ?thesis by (simp add: row_def eight shift_bit_def)
qed

lemma crc16tab_doubled: "crc16tab = doubled [0x9188, 0x48c4, 0x2462, 0x1231, 0x8108, 0x4084, 0x2042, 0x1021]"
  by (simp add: crc16tab_def Let_def)

lemma crc16tab_row: "i < 256 \<Longrightarrow> crc16tab ! i = row (word_of_nat i)"
proof -
  assume i: "i < 256"
  have "crc16tab = map (\<lambda>i. row (word_of_nat i)) [0..<2 ^ 8]"
    using map_row_doubled [of 8] by (simp only: basis_rows crc16tab_doubled)
  then have "crc16tab ! i = map (\<lambda>i. row (word_of_nat i)) [0..<2 ^ 8] ! i" by (rule arg_cong)
  also have "\<dots> = row (word_of_nat (0 + i))" using i by (intro nth_map_upt) simp
  finally show ?thesis by (simp only: add_0)
qed

lemma shift_low: "n \<le> 8 \<Longrightarrow> (shift_bit ^^ n) (take_bit 8 c) = push_bit n (take_bit 8 c)"
proof (induction n)
  case (Suc n)
  then have "\<not> bit (push_bit n (take_bit 8 c)) 15" using Suc.prems
    by (auto simp: bit_push_bit_iff bit_take_bit_iff)
  with Suc show ?case by (simp add: shift_bit_def)
qed simp

lemma crc16_step_bitwise: "crc16_step crc b = bitwise_step crc b"
proof -
  let ?t = "drop_bit 8 crc XOR ucast b :: u16"
  have low: "w AND 0x00FF = take_bit 8 w" for w :: u16
    by (simp add: take_bit_eq_mask mask_eq_exp_minus_1)
  have "(0xffff :: u16) = - 1" by simp
  then have all: "w AND 0xffff = w" for w :: u16 by (simp only: and.right_neutral)
  have t: "take_bit 8 ?t = ?t"
    by (rule bit_eqI) (auto simp: bit_simps dest: bit_imp_le_length)
  have "unat (take_bit 8 ?t) < 256"
    by (simp only: unsigned_take_bit_eq) (simp add: take_bit_eq_mod)
  then have tab: "crc16tab ! unat ?t = row ?t" using crc16tab_row [of "unat ?t"] t by simp
  have split: "crc XOR push_bit 8 (ucast b) = take_bit 8 crc XOR push_bit 8 ?t"
    by (rule bit_eqI) (auto simp: bit_simps)
  have "push_bit 8 (take_bit 8 crc) = push_bit 8 crc"
    by (rule bit_eqI) (auto simp: bit_simps)
  then have "bitwise_step crc b = push_bit 8 crc XOR row ?t"
    unfolding bitwise_step_def split shift_bits_xor row_def by (simp only: shift_low order_refl)
  then show ?thesis by (simp only: crc16_step_def low all t tab)
qed

text \<open>
  The checksum is the CRC it is meant to be: reading the table byte by byte gives, on every
  message, the remainder the bitwise division by \<open>x^16 + x^12 + x^5 + 1\<close> leaves.
\<close>

theorem crc16_is_polynomial_division: "crc16Checksum data = foldl bitwise_step 0 data"
proof -
  have "foldl crc16_step c data = foldl bitwise_step c data" for c
    by (induction data arbitrary: c) (simp_all add: crc16_step_bitwise)
  then show ?thesis by (simp add: crc16Checksum_def)
qed

section \<open>Textual keys read back\<close>

lemma le_val_le_word2: "word_of_nat (le_val (le_word 2 (c :: u16))) = c"
proof -
  have "unat c < 256 ^ 2" using unsigned_less [of c, where 'a = nat] by simp
  then show ?thesis by (simp add: le_word_def le_val_le_bytes)
qed

lemma account_version [simp]: "known_version VersionByteAccountID"
  by (simp add: known_version_def)

lemma decode_raw:
  assumes "decodeString s = Inr (version # src @ le_word 2 (crc16Checksum (version # src)))" "known_version version"
  shows "decode version s = Inr src"
  using assms by (simp add: decode_def crc16Validate_def le_val_le_word2 Let_def)

lemma encoded_length:
  assumes "length bs = 35"
  shows "length (base32_encode a bs) = 56"
proof -
  obtain k where "k < 5" "5 * length (convertBits bs eightToFiveBits) = 8 * length bs + k"
    by (rule length_five)
  then show ?thesis using assms by (simp add: length_base32_encode)
qed

definition account_id :: "bytes \<Rightarrow> string" where
  "account_id src =
     (let vp = VersionByteAccountID # src
      in base32_encode encodeStdAlphabet (vp @ le_word 2 (crc16Checksum vp)))"

lemma account_id_read:
  assumes "length src = 32"
  shows "encode VersionByteAccountID src = Inr (account_id src)" "length (account_id src) = 56"
    "decode VersionByteAccountID (account_id src) = Inr src"
proof -
  let ?raw = "VersionByteAccountID # src @ le_word 2 (crc16Checksum (VersionByteAccountID # src))"
  have s: "account_id src = base32_encode encodeStdAlphabet ?raw" by (simp add: account_id_def Let_def)
  show len: "length (account_id src) = 56" unfolding s using assms by (intro encoded_length) simp
  then have "decodeString (account_id src) = Inr ?raw"
    by (simp add: decodeString_def s base32_round_trip [OF std_alphabet])
  then show "decode VersionByteAccountID (account_id src) = Inr src" by (rule decode_raw) simp
  show "encode VersionByteAccountID src = Inr (account_id src)"
    using assms by (simp add: encode_def maxPayloadSize_def account_id_def Let_def)
qed

text \<open>
  C81: The address of a public key decodes to it: an account id of 32 bytes is written as 56
  characters, which are valid and give the 32 bytes back.
\<close>

theorem stellar_address_roundtrip:
  assumes "length src = 32"
  shows "\<exists>s. encode VersionByteAccountID src = Inr s \<and> length s = 56 \<and>
    decode VersionByteAccountID s = Inr src \<and> ValidAddress s"
  using account_id_read [OF assms] by (simp add: ValidAddress_def)

theorem stellar_address_roundtrip_witness:
  "\<exists>s. encode VersionByteAccountID (replicate 32 1) = Inr s \<and> length s = 56 \<and>
    decode VersionByteAccountID s = Inr (replicate 32 1) \<and> ValidAddress s"
  by (rule stellar_address_roundtrip) simp

text \<open>The length of the payload is not checked: a key without any byte is a valid address.\<close>

lemma empty_account_valid: "decode VersionByteAccountID (base32_encode encodeStdAlphabet [48, 0x53, 0x36]) = Inr []"
  by code_simp

end
