(* ===== verification/StellarTx.thy ===== *)
theory StellarTx
  imports StellarKey Sha256
begin

text \<open>
  \<open>signing/stellar/xdrmini.go\<close> and \<open>tx.go\<close>: the XDR form of a native payment or account creation,
  its envelope, and the builder. A writer appends to a buffer; padding fills up the whole buffer, not
  the string written. The ed25519 signer is a parameter. The receiver is not nil; a nil ingredient
  and an index out of range panic, which reads as the error \<open>Panic\<close>.
\<close>

type_synonym i64 = "64 word"

section \<open>The XDR writer\<close>

definition w_u32 :: "u32 \<Rightarrow> bytes \<Rightarrow> bytes" where
  "w_u32 v w = w @ be_word 4 v"

definition w_u64 :: "u64 \<Rightarrow> bytes \<Rightarrow> bytes" where
  "w_u64 v w = w @ be_word 8 v"

definition w_i64 :: "i64 \<Rightarrow> bytes \<Rightarrow> bytes" where
  "w_i64 v w = w_u64 v w"

definition w_raw :: "bytes \<Rightarrow> bytes \<Rightarrow> bytes" where
  "w_raw b w = w @ b"

definition fill :: "bytes \<Rightarrow> bytes" where
  "fill w = w @ replicate (if length w mod 4 = 0 then 0 else 4 - length w mod 4) 0"

definition w_opaque :: "bytes \<Rightarrow> bytes \<Rightarrow> bytes" where
  "w_opaque b w = fill (w_raw b (w_u32 (word_of_nat (length b)) w))"

section \<open>Transactions\<close>

record stellarOp =
  isPayment :: bool
  destKey :: bytes
  amount :: i64

record stellarTx =
  sourceKey :: bytes
  fee :: u32
  seqNum :: i64
  memo :: string
  theOp :: stellarOp

definition w_op :: "stellarOp \<Rightarrow> bytes \<Rightarrow> bytes" where
  "w_op op w =
     (if isPayment op then
        let w = w_u32 1 w; w = w_u32 0 w; w = w_raw (destKey op) w; w = w_u32 0 w
        in w_i64 (amount op) w
      else
        let w = w_u32 0 w; w = w_u32 0 w; w = w_raw (destKey op) w
        in w_i64 (amount op) w)"

definition marshalTx :: "stellarTx \<Rightarrow> bytes" where
  "marshalTx t =
     (let w = [];
          w = w_u32 0 w; w = w_raw (sourceKey t) w; w = w_u32 (fee t) w; w = w_i64 (seqNum t) w;
          w = w_u32 1 w; w = w_u64 0 w; w = w_u64 0 w;
          w = w_u32 1 w; w = w_opaque (bytes_of_string (memo t)) w;
          w = w_u32 1 w; w = w_u32 0 w;
          w = w_op (theOp t) w
      in w_u32 0 w)"

definition marshalEnvelope :: "stellarTx \<Rightarrow> bytes list \<Rightarrow> bytes list \<Rightarrow> bytes" where
  "marshalEnvelope t hints sigs =
     (let w = w_u32 2 [];
          w = w_raw (marshalTx t) w;
          w = w_u32 (word_of_nat (length sigs)) w
      in foldl (\<lambda>w (hint, sig). w_opaque sig (w_raw hint w)) w (zip hints sigs))"

definition marshalSigPayload :: "stellarTx \<Rightarrow> bytes \<Rightarrow> bytes" where
  "marshalSigPayload t networkID = w_raw (marshalTx t) (w_u32 2 (w_raw networkID []))"

section \<open>The builder\<close>

record Ingredient =
  TxType :: string
  Sender :: string
  Recipient :: string
  ContractAddress :: string
  Amount :: string
  Memo :: string
  Sequence :: string
  IsRecipientActivated :: string

record TxBuilder =
  TheIngredient :: "Ingredient option"
  unsignedHex :: string
  sigHash :: "string list"
  txHash :: string

record ed25519 =
  PublicOfSeed :: "bytes \<Rightarrow> bytes"
  SignWithSeed :: "bytes \<Rightarrow> bytes \<Rightarrow> bytes"

datatype stellar_error =
  Panic | NotNative | InvalidSender | InvalidRecipient | InvalidAmount | InvalidSequence
| BelowMinimum | NoSigHash | HexInvalid | InvalidKeyLength | NoUnsigned | DerUnsupported
| InvalidSignature | InvalidEnvelope | AlreadySigned

definition MagicContactAddressForNative :: string where
  "MagicContactAddressForNative = ''0xeeeeeeeeeeeeeeeeeeeeeeeeeeeeeeeeeeeeeeee''"

definition PublicNetworkPassphrase :: string where
  "PublicNetworkPassphrase = ''Public Global Stellar Network ; September 2015''"

definition SeedSize :: nat where "SeedSize = 32"
definition MinBaseFee :: u32 where "MinBaseFee = 100"
definition MinAccountBalance :: i64 where "MinAccountBalance = 10000000"

definition NewTxBuilder :: "Ingredient option \<Rightarrow> TxBuilder" where
  "NewTxBuilder ti = \<lparr>TheIngredient = ti, unsignedHex = [], sigHash = [], txHash = []\<rparr>"

definition parse_i64 :: "stellar_error \<Rightarrow> string \<Rightarrow> stellar_error + i64" where
  "parse_i64 e s =
     (case ParseInt 64 s of (n, None) \<Rightarrow> Inr (word_of_int n) | (_, Some _) \<Rightarrow> Inl e)"

definition build_tx :: "Ingredient \<Rightarrow> stellar_error + stellarTx" where
  "build_tx i =
     andThen (require (ContractAddress i = MagicContactAddressForNative) NotNative) (\<lambda>_.
     andThen (mapErr (\<lambda>_. InvalidSender) (decode VersionByteAccountID (Sender i))) (\<lambda>senderBytes.
     andThen (mapErr (\<lambda>_. InvalidRecipient) (decode VersionByteAccountID (Recipient i))) (\<lambda>recipientBytes.
     andThen (parse_i64 InvalidAmount (Amount i)) (\<lambda>amt.
     andThen (parse_i64 InvalidSequence (Sequence i)) (\<lambda>sequence.
     let activated = (IsRecipientActivated i = ''true'')
     in andThen (require (activated \<or> \<not> amt <s MinAccountBalance) BelowMinimum) (\<lambda>_.
        Inr \<lparr>sourceKey = senderBytes, fee = MinBaseFee, seqNum = sequence + 1, memo = Memo i,
          theOp = \<lparr>isPayment = activated, destKey = recipientBytes, amount = amt\<rparr>\<rparr>))))))"

definition payload_hash :: "stellarTx \<Rightarrow> bytes" where
  "payload_hash mtx =
     sha256 (marshalSigPayload mtx (sha256 (bytes_of_string PublicNetworkPassphrase)))"

definition Build :: "TxBuilder \<Rightarrow> TxBuilder \<times> (stellar_error + unit)" where
  "Build tx =
     (let tx = tx\<lparr>sigHash := [], unsignedHex := [], txHash := []\<rparr>
      in case andThen (orErr Panic (TheIngredient tx)) build_tx of
           Inl e \<Rightarrow> (tx, Inl e)
         | Inr mtx \<Rightarrow>
             (tx\<lparr>sigHash := [hex_encode (payload_hash mtx)],
                 unsignedHex := hex_encode (marshalEnvelope mtx [] [])\<rparr>, Inr ()))"

definition Sign :: "ed25519 \<Rightarrow> TxBuilder \<Rightarrow> bytes \<Rightarrow> stellar_error + string" where
  "Sign E tx privateKey =
     (if length (sigHash tx) \<noteq> 1 then Inl NoSigHash
      else
        andThen (orErr HexInvalid (hex_decode (sigHash tx ! 0))) (\<lambda>h.
        andThen (require (length privateKey = SeedSize) InvalidKeyLength) (\<lambda>_.
          let hint = drop 28 (PublicOfSeed E privateKey);
              hint = take 4 hint @ replicate (4 - length hint) 0
          in Inr (hex_encode hint @ ''_'' @ hex_encode (SignWithSeed E privateKey h)))))"

definition ConcatSignature ::
  "TxBuilder \<Rightarrow> string \<Rightarrow> bool \<Rightarrow> TxBuilder \<times> (stellar_error + string)"
where
  "ConcatSignature tx signature isDerFormat =
     (case
        (if unsignedHex tx = [] then Inl NoUnsigned
         else
           andThen (orErr HexInvalid (hex_decode (unsignedHex tx))) (\<lambda>envBytes.
           andThen (require (\<not> isDerFormat) DerUnsupported) (\<lambda>_.
             let tmp = strings_Split signature CHR ''_''
             in andThen (require (length tmp = 2) InvalidSignature) (\<lambda>_.
                andThen (orErr HexInvalid (hex_decode (tmp ! 0))) (\<lambda>tmpHint.
                andThen (orErr HexInvalid (hex_decode (tmp ! 1))) (\<lambda>sig.
                andThen (require (\<not> length envBytes < 4) InvalidEnvelope) (\<lambda>_.
                  let body = take (length envBytes - 4) envBytes;
                      count = drop (length envBytes - 4) envBytes
                  in andThen (require (be_val count = 0) AlreadySigned) (\<lambda>_.
                     andThen (require (sigHash tx \<noteq> []) Panic) (\<lambda>_.
                       let w = w_u32 1 body; w = w_raw tmpHint w
                       in Inr (hex_encode (w_opaque sig w))))))))))) of
        Inl e \<Rightarrow> (tx, Inl e)
      | Inr hex \<Rightarrow> (tx\<lparr>txHash := sigHash tx ! 0\<rparr>, Inr hex))"

definition GetTxHash :: "TxBuilder \<Rightarrow> string" where "GetTxHash tx = txHash tx"
definition GetSigHash :: "TxBuilder \<Rightarrow> string list" where "GetSigHash tx = sigHash tx"
definition GetUnsignedHex :: "TxBuilder \<Rightarrow> string" where "GetUnsignedHex tx = unsignedHex tx"
definition SetSigHash :: "string list \<Rightarrow> TxBuilder \<Rightarrow> TxBuilder" where
  "SetSigHash s tx = tx\<lparr>sigHash := s\<rparr>"
definition SetUnsignedHex :: "string \<Rightarrow> TxBuilder \<Rightarrow> TxBuilder" where
  "SetUnsignedHex s tx = tx\<lparr>unsignedHex := s\<rparr>"

section \<open>What is signed binds the transaction\<close>

definition zeros :: "nat \<Rightarrow> bytes" where
  "zeros n = replicate (if n mod 4 = 0 then 0 else 4 - n mod 4) 0"

lemma w_opaque_aligned:
  "length w mod 4 = 0 \<Longrightarrow> w_opaque b w = w @ be_word 4 (word_of_nat (length b) :: u32) @ b @ zeros (length b)"
proof -
  assume "length w mod 4 = 0"
  then have "(length w + (4 + length b)) mod 4 = length b mod 4" by presburger
  then show ?thesis by (simp add: w_opaque_def w_u32_def w_raw_def fill_def zeros_def)
qed

definition head_bytes :: "stellarTx \<Rightarrow> bytes" where
  "head_bytes t = be_word 4 (0 :: u32) @ sourceKey t @ be_word 4 (fee t) @ be_word 8 (seqNum t) @
     be_word 4 (1 :: u32) @ be_word 8 (0 :: u64) @ be_word 8 (0 :: u64) @ be_word 4 (1 :: u32)"

definition op_bytes :: "stellarOp \<Rightarrow> bytes" where
  "op_bytes op = w_op op []"

lemma w_op_append: "w_op op w = w @ op_bytes op"
  by (simp add: op_bytes_def w_op_def w_u32_def w_raw_def w_i64_def w_u64_def Let_def)

lemma marshalTx_parts:
  assumes "length (sourceKey t) = 32"
  shows "marshalTx t = head_bytes t @ be_word 4 (word_of_nat (length (memo t)) :: u32) @
    bytes_of_string (memo t) @ zeros (length (memo t)) @ be_word 4 (1 :: u32) @ be_word 4 (0 :: u32) @
    op_bytes (theOp t) @ be_word 4 (0 :: u32)"
proof -
  have "length (head_bytes t) mod 4 = 0" using assms by (simp add: head_bytes_def)
  from w_opaque_aligned [OF this, of "bytes_of_string (memo t)"] show ?thesis
    by (simp add: marshalTx_def Let_def w_u32_def w_raw_def w_i64_def w_u64_def w_op_append head_bytes_def)
qed

definition wf_tx :: "stellarTx \<Rightarrow> bool" where
  "wf_tx t \<longleftrightarrow> length (sourceKey t) = 32 \<and> length (destKey (theOp t)) = 32 \<and> length (memo t) < 2 ^ 32"

lemma op_bytes_parts:
  "op_bytes op = be_word 4 (if isPayment op then 1 else 0 :: u32) @ be_word 4 (0 :: u32) @ destKey op @
     (if isPayment op then be_word 4 (0 :: u32) else []) @ be_word 8 (amount op)"
  by (simp add: op_bytes_def w_op_def w_u32_def w_raw_def w_i64_def w_u64_def Let_def)

lemma op_bytes_inject:
  assumes "length (destKey x) = 32" "length (destKey y) = 32" "op_bytes x = op_bytes y"
  shows "x = y"
proof -
  have "(if isPayment x then 1 else 0 :: u32) = (if isPayment y then 1 else 0)"
    using assms(3) by (simp only: op_bytes_parts be_u32.enc_append [OF TrueI TrueI])
  then have "isPayment x = isPayment y" by (simp split: if_splits)
  with assms show ?thesis by (auto simp: op_bytes_parts split: if_splits)
qed

lemma marshalTx_inject:
  assumes "wf_tx t" "wf_tx t'" "marshalTx t = marshalTx t'"
  shows "t = t'"
proof -
  have len: "length (sourceKey t) = 32" "length (sourceKey t') = 32" using assms by (simp_all add: wf_tx_def)
  note eq = assms(3) [unfolded marshalTx_parts [OF len(1)] marshalTx_parts [OF len(2)]]
  have heads: "length (head_bytes t) = length (head_bytes t')" using len by (simp add: head_bytes_def)
  have head: "head_bytes t = head_bytes t'" and rest:
    "be_word 4 (word_of_nat (length (memo t)) :: u32) @ bytes_of_string (memo t) @ zeros (length (memo t)) @
       be_word 4 (1 :: u32) @ be_word 4 (0 :: u32) @ op_bytes (theOp t) @ be_word 4 (0 :: u32) =
     be_word 4 (word_of_nat (length (memo t')) :: u32) @ bytes_of_string (memo t') @ zeros (length (memo t')) @
       be_word 4 (1 :: u32) @ be_word 4 (0 :: u32) @ op_bytes (theOp t') @ be_word 4 (0 :: u32)"
    using eq heads by (simp_all add: append_eq_append_conv)
  from rest have "(word_of_nat (length (memo t)) :: u32) = word_of_nat (length (memo t'))" by simp
  then have "length (memo t) = length (memo t')"
    using assms(1,2) by (simp add: wf_tx_def of_nat_inverse word_unat_eq_iff unat_of_nat)
  with rest have "memo t = memo t'" "op_bytes (theOp t) = op_bytes (theOp t')" by simp_all
  moreover from this(2) have "theOp t = theOp t'"
    using assms(1,2) by (intro op_bytes_inject) (simp_all add: wf_tx_def)
  moreover from head len have "sourceKey t = sourceKey t'" "fee t = fee t'" "seqNum t = seqNum t'"
    by (simp_all add: head_bytes_def)
  ultimately show ?thesis by simp
qed



section \<open>The signed envelope\<close>

lemma envelope_unsigned: "marshalEnvelope t [] [] = w_u32 2 [] @ marshalTx t @ be_word 4 (0 :: u32)"
  by (simp add: marshalEnvelope_def w_u32_def w_raw_def Let_def)

lemma envelope_signed:
  "marshalEnvelope t [hint] [sig] = w_opaque sig (w_raw hint (w_u32 1 (w_u32 2 [] @ marshalTx t)))"
  by (simp add: marshalEnvelope_def w_raw_def Let_def)

text \<open>
  C17: The envelope that is submitted holds the transaction that was signed: after \<open>Build\<close> and
  \<open>Sign\<close>, \<open>ConcatSignature\<close> returns the XDR envelope of the transaction built with one decorated
  signature, whose hint is the end of the public key and which signs the hash of that transaction's
  payload on the public network.
\<close>

theorem stellar_envelope_of_built:
  assumes build: "Build tx = (tx', Inr ())" "TheIngredient tx = Some i"
    and sign: "Sign E tx' key = Inr signature"
    and public: "length (PublicOfSeed E key) = 32"
  shows "\<exists>t. build_tx i = Inr t \<and>
    ConcatSignature tx' signature False = (tx'\<lparr>txHash := hex_encode (payload_hash t)\<rparr>,
      Inr (hex_encode (marshalEnvelope t [drop 28 (PublicOfSeed E key)] [SignWithSeed E key (payload_hash t)])))"
proof -
  obtain t where t: "build_tx i = Inr t" and tx': "sigHash tx' = [hex_encode (payload_hash t)]"
    "unsignedHex tx' = hex_encode (marshalEnvelope t [] [])"
    using build by (auto simp: Build_def Let_def split: sum.splits)
  let ?hint = "drop 28 (PublicOfSeed E key)" and ?sig = "SignWithSeed E key (payload_hash t)"
  have "signature = hex_encode ?hint @ ''_'' @ hex_encode ?sig"
    using sign public by (auto simp: Sign_def tx'(1) Let_def andThen_eq_Inr)
  then have split: "strings_Split signature CHR ''_'' = [hex_encode ?hint, hex_encode ?sig]"
    using split_signatures [of "[?hint, ?sig]"] by simp
  let ?body = "w_u32 2 [] @ marshalTx t"
  have "length (hex_encode (marshalEnvelope t [] [])) \<noteq> 0"
    by (simp only: length_hex_encode) (simp add: envelope_unsigned w_u32_def)
  then have ne: "hex_encode (marshalEnvelope t [] []) \<noteq> []" by (simp only: length_0_conv simp_thms)
  have env: "take (length (marshalEnvelope t [] []) - 4) (marshalEnvelope t [] []) = ?body"
    "be_val (drop (length (marshalEnvelope t [] []) - 4) (marshalEnvelope t [] [])) = 0"
    "\<not> length (marshalEnvelope t [] []) < 4"
    by (simp_all add: envelope_unsigned be_word_def be_val_be_bytes)
  have "ConcatSignature tx' signature False = (tx'\<lparr>txHash := hex_encode (payload_hash t)\<rparr>,
      Inr (hex_encode (marshalEnvelope t [?hint] [?sig])))"
    using ne env by (simp add: ConcatSignature_def tx' split envelope_signed del: hex_encode.simps)
  with t show ?thesis by blast
qed

definition native_payment :: Ingredient where
  "native_payment = \<lparr>TxType = ''0'', Sender = account_id (replicate 32 1), Recipient = account_id (replicate 32 2),
     ContractAddress = MagicContactAddressForNative, Amount = ''5'', Memo = ''rent'', Sequence = ''7'',
     IsRecipientActivated = ''true''\<rparr>"

definition sample_ed25519 :: ed25519 where
  "sample_ed25519 = \<lparr>PublicOfSeed = (\<lambda>key. key), SignWithSeed = (\<lambda>key h. key @ h)\<rparr>"

lemma native_payment_built:
  "build_tx native_payment = Inr \<lparr>sourceKey = replicate 32 1, fee = 100, seqNum = 8, memo = ''rent'',
     theOp = \<lparr>isPayment = True, destKey = replicate 32 2, amount = 5\<rparr>\<rparr>"
  by (simp add: build_tx_def native_payment_def account_id_read parse_i64_def ParseInt_def ParseUint_def
    digit_of_def char_nat_def MinBaseFee_def Let_def)

theorem stellar_envelope_of_built_witness:
  "\<exists>t tx' sig. build_tx native_payment = Inr t \<and>
    ConcatSignature tx' sig False = (tx'\<lparr>txHash := hex_encode (payload_hash t)\<rparr>,
      Inr (hex_encode (marshalEnvelope t [replicate 4 3] [replicate 32 3 @ payload_hash t])))"
proof -
  obtain tx' where build: "Build (NewTxBuilder (Some native_payment)) = (tx', Inr ())"
    by (simp add: Build_def NewTxBuilder_def native_payment_built Let_def)
  then obtain t where "sigHash tx' = [hex_encode (payload_hash t)]"
    by (auto simp: Build_def NewTxBuilder_def native_payment_built Let_def)
  then obtain signature where sign: "Sign sample_ed25519 tx' (replicate 32 3) = Inr signature"
    by (simp add: Sign_def SeedSize_def Let_def)
  have "TheIngredient (NewTxBuilder (Some native_payment)) = Some native_payment" by (simp add: NewTxBuilder_def)
  from stellar_envelope_of_built [OF build this sign] show ?thesis
    by (auto simp: sample_ed25519_def)
qed

end
