(* ===== verification/Filecoin.thy ===== *)
theory Filecoin
  imports Base32
begin

text \<open>
  \<open>signing/filecoin\<close>: addresses with their variable-length identifiers, and the builder of native
  transfers. BLAKE2b, the CBOR and JSON encoders, base58, multibase, the public key parser and the
  ECDSA signer are the fields of a record of functions. The receiver is not nil; a nil ingredient or
  hasher and an index out of range panic, which reads as the error \<open>Panic\<close>.
\<close>

section \<open>Variable-length identifiers\<close>

definition MaxLenUvarint63 :: nat where "MaxLenUvarint63 = 9"

datatype varint_error = TooLarge | NotMinimal | Malformed

text \<open>The state of the loop: the index, the value and the shift, both as in the code.\<close>

fun uvarint_loop :: "nat \<Rightarrow> u64 \<Rightarrow> nat \<Rightarrow> bytes \<Rightarrow> varint_error + u64 \<times> nat" where
  "uvarint_loop i x s [] = Inl Malformed"
| "uvarint_loop i x s (b # bs) =
     (if i = 8 \<and> b \<ge> 0x80 \<or> i \<ge> MaxLenUvarint63 then Inl TooLarge
      else if b < 0x80 then
        if b = 0 \<and> s > 0 then Inl NotMinimal
        else Inr (x OR push_bit s (ucast b), i + 1)
      else uvarint_loop (i + 1) (x OR push_bit s (ucast (b AND 0x7f))) (s + 7) bs)"

definition fromUvarint :: "bytes \<Rightarrow> varint_error + u64 \<times> nat" where
  "fromUvarint buf = uvarint_loop 0 0 0 buf"

text \<open>\<open>bits.Len64\<close>.\<close>

fun Len64 :: "nat \<Rightarrow> nat" where
  "Len64 n = (if n = 0 then 0 else 1 + Len64 (n div 2))"

declare Len64.simps [simp del]

definition uvarintSize :: "u64 \<Rightarrow> nat" where
  "uvarintSize num =
     (let bits = Len64 (unat num); q = bits div 7; r = bits mod 7
      in if r > 0 \<or> q = 0 then q + 1 else q)"

text \<open>\<open>binary.PutUvarint\<close> panics when the buffer is short.\<close>

definition toUvarint :: "u64 \<Rightarrow> bytes option" where
  "toUvarint num = (if length (uleb num) \<le> uvarintSize num then Some (uleb num) else None)"

section \<open>Addresses\<close>

datatype Protocol = ID | SECP256K1 | Actor | BLS

fun protocol_byte :: "Protocol \<Rightarrow> u8" where
  "protocol_byte ID = 0"
| "protocol_byte SECP256K1 = 1"
| "protocol_byte Actor = 2"
| "protocol_byte BLS = 3"

definition PayloadHashLength :: nat where "PayloadHashLength = 20"
definition ChecksumHashLength :: nat where "ChecksumHashLength = 4"
definition encodeStd :: string where "encodeStd = ''abcdefghijklmnopqrstuvwxyz234567''"

record nativeTx =
  Version :: u64
  To :: string
  From :: string
  Nonce :: u64
  TxValue :: int
  GasLimit :: "64 word"
  GasFeeCap :: int
  GasPremium :: int
  Method :: u64
  Params :: bytes

text \<open>The items the message is encoded from; a nil slice is not an empty one.\<close>

datatype cbor_item = CborUint nat | CborInt int | CborBytes "bytes option"

record filecoin_env =
  Blake2b :: "nat \<Rightarrow> bytes \<Rightarrow> bytes option"
  Sum256 :: "bytes \<Rightarrow> bytes"
  ParsePubKey :: "bytes \<Rightarrow> bytes option"
  cbor_Marshal :: "cbor_item list \<Rightarrow> bytes"
  json_Marshal :: "nativeTx \<Rightarrow> bytes option"
  json_Unmarshal :: "bytes \<Rightarrow> nativeTx option"
  json_MarshalSigned :: "nativeTx \<Rightarrow> u8 \<Rightarrow> bytes \<Rightarrow> bytes option"
  b58_Encode :: "bytes \<Rightarrow> string"
  mbase_Encode :: "bytes \<Rightarrow> string option"
  SignEVM :: "bytes \<Rightarrow> bytes \<Rightarrow> bytes option"

datatype filecoin_error =
  Panic | InvalidPublicKey | HashFailed | HashLength | OnlyNative | InvalidAmount | NegativeAmount
| InvalidNonce | InvalidGasLimit | InvalidGasFeeCap | NegativeGasFeeCap | InvalidGasPremium
| NegativeGasPremium | MarshalFailed | NoSigHash | HexInvalid | SignFailed | NoUnsigned
| UnmarshalFailed | DerUnsupported

definition PublicKey2Address :: "filecoin_env \<Rightarrow> bytes \<Rightarrow> filecoin_error + string" where
  "PublicKey2Address E publicKey =
     andThen (orErr InvalidPublicKey (ParsePubKey E publicKey)) (\<lambda>uncompressed.
     andThen (orErr HashFailed (Blake2b E PayloadHashLength uncompressed)) (\<lambda>addrHash.
     andThen (require (length addrHash = PayloadHashLength) HashLength) (\<lambda>_.
     andThen (orErr HashFailed (Blake2b E ChecksumHashLength (protocol_byte SECP256K1 # addrHash))) (\<lambda>checkHash.
       Inr (''f1'' @ base32_encode encodeStd (addrHash @ checkHash))))))"

definition toBytes :: "Protocol \<Rightarrow> bytes \<Rightarrow> bytes option" where
  "toBytes protocol payload =
     (if (case protocol of
            ID \<Rightarrow> (case fromUvarint payload of Inl _ \<Rightarrow> False | Inr (_, n) \<Rightarrow> n = length payload)
          | SECP256K1 \<Rightarrow> length payload = 20
          | Actor \<Rightarrow> length payload = 20
          | BLS \<Rightarrow> length payload = 48)
      then Some (protocol_byte protocol # payload) else None)"

text \<open>The error of the hash is dropped: its digest is then nil.\<close>

definition validateChecksum :: "filecoin_env \<Rightarrow> bytes \<Rightarrow> bytes \<Rightarrow> bool" where
  "validateChecksum E ingest expect \<longleftrightarrow>
     (case Blake2b E ChecksumHashLength ingest of None \<Rightarrow> [] | Some d \<Rightarrow> d) = expect"

definition protocol_of :: "char \<Rightarrow> Protocol option" where
  "protocol_of c =
     (if c = CHR ''0'' then Some ID
      else if c = CHR ''1'' then Some SECP256K1
      else if c = CHR ''2'' then Some Actor
      else if c = CHR ''3'' then Some BLS
      else None)"

text \<open>Nil is \<open>None\<close>; the result of an address that is valid is never empty.\<close>

definition addressToBytes :: "filecoin_env \<Rightarrow> string \<Rightarrow> bytes option" where
  "addressToBytes E addr =
     (if length addr < 3 then None
      else if addr ! 0 \<noteq> CHR ''f'' then None
      else case protocol_of (addr ! 1) of
        None \<Rightarrow> None
      | Some protocol \<Rightarrow>
          let raw = drop 2 addr
          in if protocol = ID then
               if length raw > 20 then None
               else (case ParseUint 64 raw of
                 (_, Some _) \<Rightarrow> None
               | (i, None) \<Rightarrow> Option.bind (toUvarint (word_of_nat i)) (toBytes protocol))
             else (case base32_decode encodeStd raw of
                 None \<Rightarrow> None
               | Some payloadcksm \<Rightarrow>
                   if length payloadcksm < ChecksumHashLength then None
                   else
                     let payload = take (length payloadcksm - 4) payloadcksm;
                         cksm = drop (length payloadcksm - 4) payloadcksm
                     in if (protocol = SECP256K1 \<or> protocol = Actor) \<and> length payload \<noteq> 20 then None
                        else if \<not> validateChecksum E (protocol_byte protocol # payload) cksm then None
                        else toBytes protocol payload))"

definition ValidAddress :: "filecoin_env \<Rightarrow> string \<Rightarrow> bool" where
  "ValidAddress E address \<longleftrightarrow> addressToBytes E address \<noteq> None"

section \<open>The message\<close>

definition cborBytes :: "int \<Rightarrow> bytes" where
  "cborBytes b =
     (if b = 0 then []
      else if b < 0 then 1 # big_Bytes (nat (- b))
      else 0 # big_Bytes (nat b))"

definition Serialize :: "filecoin_env \<Rightarrow> nativeTx \<Rightarrow> bytes" where
  "Serialize E m = cbor_Marshal E
     [CborInt 0, CborBytes (addressToBytes E (To m)), CborBytes (addressToBytes E (From m)),
      CborUint (unat (Nonce m)), CborBytes (Some (cborBytes (TxValue m))), CborInt (sint (GasLimit m)),
      CborBytes (Some (cborBytes (GasFeeCap m))), CborBytes (Some (cborBytes (GasPremium m))),
      CborUint (unat (Method m)), CborBytes (Some (Params m))]"

definition Cid :: "filecoin_env \<Rightarrow> nativeTx \<Rightarrow> filecoin_error + bytes" where
  "Cid E m =
     map_sum id (\<lambda>sum. [0x01, 0x71, 0xa0, 0xe4, 0x02, 0x20] @ sum)
       (orErr Panic (Blake2b E 32 (Serialize E m)))"

definition TxHash :: "filecoin_env \<Rightarrow> nativeTx \<Rightarrow> filecoin_error + string" where
  "TxHash E m =
     andThen (Cid E m) (\<lambda>cid.
       if length cid = 34 \<and> cid ! 0 = 18 \<and> cid ! 1 = 32 then Inr (b58_Encode E cid)
       else Inr (case mbase_Encode E cid of None \<Rightarrow> [] | Some mbstr \<Rightarrow> mbstr))"

section \<open>The builder\<close>

record Ingredient =
  TxType :: string
  ContractAddress :: string
  Sender :: string
  Recipient :: string
  Amount :: string
  NonceText :: string
  MethodText :: string
  ParamsText :: string
  GasModel :: "(string \<times> string \<times> string) option"

record TxBuilder =
  TheIngredient :: "Ingredient option"
  unsignedHex :: string
  sigHash :: "string list"
  txHash :: string

definition MagicContactAddressForNative :: string where
  "MagicContactAddressForNative = ''0xeeeeeeeeeeeeeeeeeeeeeeeeeeeeeeeeeeeeeeee''"

definition NewTxBuilder :: "Ingredient option \<Rightarrow> TxBuilder" where
  "NewTxBuilder ti = \<lparr>TheIngredient = ti, unsignedHex = [], sigHash = [], txHash = []\<rparr>"

definition natural :: "filecoin_error \<Rightarrow> filecoin_error \<Rightarrow> string \<Rightarrow> filecoin_error + int" where
  "natural invalid negative s =
     andThen (orErr invalid (big_SetString s)) (\<lambda>n.
     andThen (require (\<not> n < 0) negative) (\<lambda>_. Inr n))"

definition build_tx :: "Ingredient \<Rightarrow> filecoin_error + nativeTx" where
  "build_tx i =
     andThen (require (TxType i = ''0'' \<and> ContractAddress i = MagicContactAddressForNative) OnlyNative) (\<lambda>_.
     andThen (natural InvalidAmount NegativeAmount (Amount i)) (\<lambda>amount.
     andThen (case ParseUint 64 (NonceText i) of (n, None) \<Rightarrow> Inr n | (_, Some _) \<Rightarrow> Inl InvalidNonce) (\<lambda>nonce.
     andThen (orErr Panic (GasModel i)) (\<lambda>(gas_limit, gas_fee_cap, gas_premium).
     andThen (case ParseInt 64 gas_limit of (n, None) \<Rightarrow> Inr n | (_, Some _) \<Rightarrow> Inl InvalidGasLimit) (\<lambda>gasLimit.
     andThen (natural InvalidGasFeeCap NegativeGasFeeCap gas_fee_cap) (\<lambda>gasFeeCap.
     andThen (natural InvalidGasPremium NegativeGasPremium gas_premium) (\<lambda>gasPremium.
       Inr \<lparr>Version = 0, To = Recipient i, From = Sender i, Nonce = word_of_nat nonce,
         TxValue = amount, GasLimit = word_of_int gasLimit, GasFeeCap = gasFeeCap,
         GasPremium = gasPremium, Method = 0, Params = []\<rparr>)))))))"

definition Build :: "filecoin_env \<Rightarrow> TxBuilder \<Rightarrow> TxBuilder \<times> (filecoin_error + unit)" where
  "Build E tx =
     (let tx = tx\<lparr>sigHash := [], unsignedHex := [], txHash := []\<rparr>
      in case andThen (orErr Panic (TheIngredient tx)) (\<lambda>i.
                andThen (build_tx i) (\<lambda>ntx.
                andThen (orErr MarshalFailed (json_Marshal E ntx)) (\<lambda>ntxBytes.
                andThen (Cid E ntx) (\<lambda>cid. Inr (ntxBytes, cid))))) of
           Inl e \<Rightarrow> (tx, Inl e)
         | Inr (ntxBytes, cid) \<Rightarrow>
             (tx\<lparr>sigHash := [hex_encode (Sum256 E cid)], unsignedHex := hex_encode ntxBytes\<rparr>, Inr ()))"

definition Sign :: "filecoin_env \<Rightarrow> TxBuilder \<Rightarrow> bytes \<Rightarrow> filecoin_error + string" where
  "Sign E tx privateKey =
     (if length (sigHash tx) \<noteq> 1 then Inl NoSigHash
      else
        andThen (orErr HexInvalid (hex_decode (sigHash tx ! 0))) (\<lambda>h.
        andThen (orErr SignFailed (SignEVM E privateKey h)) (\<lambda>signature.
          Inr (hex_encode signature))))"

definition ConcatSignature ::
  "filecoin_env \<Rightarrow> TxBuilder \<Rightarrow> string \<Rightarrow> bool \<Rightarrow> TxBuilder \<times> (filecoin_error + string)"
where
  "ConcatSignature E tx signature isDerFormat =
     (case
        andThen (require (unsignedHex tx \<noteq> []) NoUnsigned) (\<lambda>_.
        andThen (orErr HexInvalid (hex_decode (unsignedHex tx))) (\<lambda>ntxBytes.
        andThen (orErr UnmarshalFailed (json_Unmarshal E ntxBytes)) (\<lambda>ntx.
        andThen (require (\<not> isDerFormat) DerUnsupported) (\<lambda>_.
        andThen (orErr HexInvalid (hex_decode signature)) (\<lambda>sigBytes.
        andThen (orErr MarshalFailed (json_MarshalSigned E ntx (protocol_byte SECP256K1) sigBytes)) (\<lambda>signedTxBytes.
        andThen (TxHash E ntx) (\<lambda>h. Inr (h, hex_encode signedTxBytes)))))))) of
        Inl e \<Rightarrow> (tx, Inl e)
      | Inr (h, hex) \<Rightarrow> (tx\<lparr>txHash := h\<rparr>, Inr hex))"

definition GetTxHash :: "TxBuilder \<Rightarrow> string" where "GetTxHash tx = txHash tx"
definition GetSigHash :: "TxBuilder \<Rightarrow> string list" where "GetSigHash tx = sigHash tx"
definition GetUnsignedHex :: "TxBuilder \<Rightarrow> string" where "GetUnsignedHex tx = unsignedHex tx"
definition SetSigHash :: "string list \<Rightarrow> TxBuilder \<Rightarrow> TxBuilder" where
  "SetSigHash s tx = tx\<lparr>sigHash := s\<rparr>"
definition SetUnsignedHex :: "string \<Rightarrow> TxBuilder \<Rightarrow> TxBuilder" where
  "SetUnsignedHex s tx = tx\<lparr>unsignedHex := s\<rparr>"

section \<open>Identifiers read back\<close>

lemma Len64_0 [simp]: "Len64 0 = 0"
  by (simp add: Len64.simps)

lemma Len64_pos: "0 < n \<Longrightarrow> Len64 n = Suc (Len64 (n div 2))"
  by (subst Len64.simps) simp

lemma Len64_bounds: "0 < n \<Longrightarrow> 2 ^ (Len64 n - 1) \<le> n \<and> n < 2 ^ Len64 n \<and> 0 < Len64 n"
proof (induction n rule: Len64.induct)
  case (1 n)
  show ?case
  proof (cases "n div 2 = 0")
    case True
    then have "n = 1" using 1(2) by linarith
    then show ?thesis by (simp add: Len64_pos)
  next
    case False
    obtain k where k: "Len64 (n div 2) = k" by simp
    have IH: "2 ^ (k - 1) \<le> n div 2" "n div 2 < 2 ^ k" "0 < k"
      using 1 False by (auto simp: k)
    then have "2 ^ k \<le> 2 * (n div 2)" by (metis Suc_diff_1 mult_le_mono2 power_Suc)
    then have "2 ^ k \<le> n" "n < 2 * 2 ^ k" using IH(2) by linarith+
    then show ?thesis using 1(2) k by (simp only: Len64_pos) simp
  qed
qed

lemma Len64_shift: "128 \<le> n \<Longrightarrow> Len64 n = 7 + Len64 (n div 128)"
proof -
  assume n: "128 \<le> n"
  have "n div 2 div 2 div 2 div 2 div 2 div 2 div 2 = n div 128" by (simp flip: div_mult2_eq)
  moreover have "0 < n" "0 < n div 2" "0 < n div 2 div 2" "0 < n div 2 div 2 div 2"
    "0 < n div 2 div 2 div 2 div 2" "0 < n div 2 div 2 div 2 div 2 div 2"
    "0 < n div 2 div 2 div 2 div 2 div 2 div 2" using n by simp_all
  ultimately show ?thesis by (simp only: Len64_pos)
qed

lemma length_uleb: "length (uleb v) = uvarintSize v"
proof (induction v rule: uleb.induct)
  case (1 v)
  show ?case
  proof (cases "v \<ge> 0x80")
    case True
    then have big: "128 \<le> unat v" by (simp add: word_le_nat_alt)
    then have "0 < unat v div 128" by simp
    from Len64_bounds [OF this] have "0 < Len64 (unat v div 128)" by simp
    moreover have "(7 + l) div 7 = Suc (l div 7)" "(7 + l) mod 7 = l mod 7" for l :: nat by simp_all
    ultimately have "uvarintSize v = Suc (uvarintSize (drop_bit 7 v))"
      using Len64_shift [OF big] by (auto simp: uvarintSize_def Let_def unat_drop_bit)
    with 1 [OF True] True show ?thesis by (subst uleb.simps) simp
  next
    case False
    then have small: "unat v < 2 ^ 7" by (simp add: word_le_nat_alt not_le)
    have "Len64 (unat v) \<le> 7"
    proof (cases "unat v = 0")
      case False
      then have "2 ^ (Len64 (unat v) - 1) < (2 :: nat) ^ 7"
        using Len64_bounds [of "unat v"] small by (meson le_less_trans neq0_conv)
      then have "Len64 (unat v) - 1 < 7" by (simp only: power_strict_increasing_iff one_less_numeral_iff semiring_norm)
      then show ?thesis by simp
    qed simp
    then have "uvarintSize v = 1"
      by (cases "Len64 (unat v) = 7") (auto simp: uvarintSize_def Let_def)
    with False show ?thesis by (subst uleb.simps) (simp add: not_le)
  qed
qed

lemma toUvarint_uleb: "toUvarint num = Some (uleb num)"
  by (simp add: toUvarint_def length_uleb)

text \<open>One byte of the encoding is put in its place.\<close>

lemma low_septet: "(ucast ((ucast (v :: u64) OR 0x80 :: u8) AND 0x7f) :: u64) = take_bit 7 v"
proof -
  have "(w AND 0x7f :: u8) = take_bit 7 w" for w by (simp add: take_bit_eq_mask mask_eq_exp_minus_1)
  then show ?thesis by (intro bit_eqI) (auto simp: bit_simps)
qed

lemma high_septet: "(ucast (v :: u64) OR 0x80 :: u8) \<ge> 0x80"
  using unat_or_128 [of "ucast v"] by (simp add: word_le_nat_alt)

lemma septets: "(x OR push_bit s (take_bit 7 v)) OR push_bit (s + 7) (drop_bit 7 v) = x OR push_bit s (v :: u64)"
proof (rule bit_eqI)
  fix n
  show "bit ((x OR push_bit s (take_bit 7 v)) OR push_bit (s + 7) (drop_bit 7 v)) n = bit (x OR push_bit s v) n"
  proof (cases "n < s + 7")
    case False
    then have "7 + (n - (s + 7)) = n - s" by simp
    then show ?thesis using False by (auto simp: bit_or_iff bit_push_bit_iff bit_take_bit_iff bit_drop_bit_eq dest: bit_imp_le_length)
  qed (auto simp: bit_or_iff bit_push_bit_iff bit_take_bit_iff bit_drop_bit_eq)
qed

lemma septet_bound:
  assumes "i < 8"
  shows "(n div 128) * 2 ^ (7 * Suc i) < 2 ^ 63 \<longleftrightarrow> n * 2 ^ (7 * i) < (2 :: nat) ^ 63"
proof -
  have "(2 :: nat) ^ 63 = 2 ^ (56 - 7 * i) * 2 ^ (7 * Suc i)" using assms by (simp flip: power_add)
  then have "(n div 128) * 2 ^ (7 * Suc i) < 2 ^ 63 \<longleftrightarrow> n div 128 < 2 ^ (56 - 7 * i)"
    by (simp only: mult_less_cancel2) simp
  also have "\<dots> \<longleftrightarrow> n < 2 ^ (56 - 7 * i) * 128" by (simp add: div_less_iff_less_mult)
  also have "\<dots> \<longleftrightarrow> n * 2 ^ (7 * i) < 2 ^ (56 - 7 * i) * 128 * 2 ^ (7 * i)" by simp
  also have "2 ^ (56 - 7 * i) * 128 * 2 ^ (7 * i) = (2 :: nat) ^ (56 - 7 * i + 7 + 7 * i)"
    by (simp only: power_add) simp
  also have "56 - 7 * i + 7 + 7 * i = 63" using assms by simp
  finally show ?thesis .
qed

lemma uvarint_loop_more:
  "\<not> b < 0x80 \<Longrightarrow> i < 8 \<Longrightarrow>
     uvarint_loop i x s (b # bs) = uvarint_loop (Suc i) (x OR push_bit s (ucast (b AND 0x7f))) (s + 7) bs"
  by (simp add: MaxLenUvarint63_def)

lemma narrow_and_back:
  fixes v :: u64
  assumes "unat v < 128"
  shows "ucast (ucast v :: u8) = v"
proof -
  have "take_bit 8 v = v" using assms by (simp add: take_bit_eq_mod word_unat_eq_iff unat_mod)
  moreover have "ucast (ucast v :: u8) = take_bit 8 v" by (rule bit_word_eqI) (simp add: bit_simps)
  ultimately show ?thesis by simp
qed

lemma uvarint_loop_uleb:
  "i \<le> 8 \<Longrightarrow> (i = 0 \<or> v \<noteq> 0) \<Longrightarrow>
     uvarint_loop i x (7 * i) (uleb v @ rest) =
       (if unat v * 2 ^ (7 * i) < 2 ^ 63 then Inr (x OR push_bit (7 * i) v, i + length (uleb v)) else Inl TooLarge)"
proof (induction v arbitrary: i x rule: uleb.induct)
  case (1 v)
  show ?case
  proof (cases "v \<ge> 0x80")
    case True
    then have big: "128 \<le> unat v" by (simp add: word_le_nat_alt)
    have unfold: "uleb v @ rest = (ucast v OR 0x80) # uleb (drop_bit 7 v) @ rest"
      using True by (subst uleb.simps) simp
    show ?thesis
    proof (cases "i = 8")
      case i: True
      have "(2 :: nat) ^ 63 \<le> unat v * 2 ^ 56" using big mult_le_mono1 [OF big, of "2 ^ 56"] by simp
      then show ?thesis using i high_septet [of v] by (simp add: unfold)
    next
      case False
      then have i: "i < 8" using 1(2) by simp
      have "unat (drop_bit 7 v) = unat v div 128" by (simp add: unat_drop_bit)
      with big have ne: "drop_bit 7 v \<noteq> 0" by auto
      have "uvarint_loop i x (7 * i) (uleb v @ rest) =
          uvarint_loop (Suc i) (x OR push_bit (7 * i) (take_bit 7 v)) (7 * Suc i) (uleb (drop_bit 7 v) @ rest)"
      proof -
        have seven: "7 * Suc i = 7 * i + 7" and high: "\<not> (ucast v OR 0x80 :: u8) < 0x80"
          using high_septet [of v] by (simp_all only: not_less mult_Suc_right add.commute)
        show ?thesis by (simp only: unfold seven uvarint_loop_more [OF high i] low_septet)
      qed
      also have "\<dots> = (if unat (drop_bit 7 v) * 2 ^ (7 * Suc i) < 2 ^ 63
          then Inr ((x OR push_bit (7 * i) (take_bit 7 v)) OR push_bit (7 * Suc i) (drop_bit 7 v),
            Suc i + length (uleb (drop_bit 7 v))) else Inl TooLarge)"
        by (rule 1(1) [OF True]) (use i ne in simp_all)
      also have "unat (drop_bit 7 v) * 2 ^ (7 * Suc i) < 2 ^ 63 \<longleftrightarrow> unat v * 2 ^ (7 * i) < 2 ^ 63"
        using septet_bound [OF i, of "unat v"] by (simp only: unat_drop_bit) simp
      also have "(x OR push_bit (7 * i) (take_bit 7 v)) OR push_bit (7 * Suc i) (drop_bit 7 v) = x OR push_bit (7 * i) v"
        using septets [of x "7 * i" v] by (simp add: add.commute)
      also have "Suc i + length (uleb (drop_bit 7 v)) = i + length (uleb v)"
        using True by (subst (2) uleb.simps) simp
      finally show ?thesis .
    qed
  next
    case False
    then have small: "unat v < 128" by (simp add: word_le_nat_alt not_le)
    have b: "uleb v = [ucast v]" using False by (simp add: uleb_small not_le)
    have "(2 :: nat) ^ (7 * i) \<le> 2 ^ 56" using 1(2) by (intro power_increasing) simp_all
    then have "unat v * 2 ^ (7 * i) \<le> 127 * 2 ^ 56" using small by (intro mult_le_mono) simp_all
    then have bound: "unat v * 2 ^ (7 * i) < 2 ^ 63" by simp
    have "unat (ucast v :: u8) = unat v" using small by (simp add: unat_ucast_u8)
    then have lt: "(ucast v :: u8) < 0x80" and zero: "(ucast v :: u8) = 0 \<longleftrightarrow> v = 0"
      using small by (simp_all add: word_less_nat_alt word_unat_eq_iff)
    have again: "ucast (ucast v :: u8) = v" using small by (rule narrow_and_back)
    show ?thesis
      using 1(2,3) lt bound by (auto simp: b again zero MaxLenUvarint63_def not_le)
  qed
qed

lemma fromUvarint_uleb:
  "fromUvarint (uleb num) = (if unat num < 2 ^ 63 then Inr (num, length (uleb num)) else Inl TooLarge)"
  using uvarint_loop_uleb [of 0 num 0 "[]"] by (simp add: fromUvarint_def)

lemma length_FormatUint: "n < 10 ^ k \<Longrightarrow> 0 < k \<Longrightarrow> length (FormatUint n) \<le> k"
proof (induction k arbitrary: n)
  case (Suc k)
  show ?case
  proof (cases "n < 10")
    case True
    then show ?thesis by (subst FormatUint.simps) simp
  next
    case False
    then have "n div 10 < 10 ^ k" "0 < k" using Suc.prems by (auto simp: div_less_iff_less_mult mult.commute intro: Nat.gr0I)
    with Suc.IH False show ?thesis by (subst FormatUint.simps) simp
  qed
qed simp

definition sample_filecoin :: filecoin_env where
  "sample_filecoin = \<lparr>Blake2b = (\<lambda>n d. Some (replicate n (word_of_nat (length d)))), Sum256 = (\<lambda>b. b),
     ParsePubKey = Some, cbor_Marshal = (\<lambda>items. [word_of_nat (length items)]),
     json_Marshal = (\<lambda>_. Some [1]), json_Unmarshal = (\<lambda>_. None), json_MarshalSigned = (\<lambda>_ _ _. None),
     b58_Encode = (\<lambda>_. []), mbase_Encode = (\<lambda>_. None), SignEVM = (\<lambda>_ h. Some h)\<rparr>"

lemma sample_filecoin_simps [simp]:
  "Blake2b sample_filecoin n d = Some (replicate n (word_of_nat (length d)))" "ParsePubKey sample_filecoin b = Some b"
  "Sum256 sample_filecoin b = b" "cbor_Marshal sample_filecoin items = [word_of_nat (length items)]"
  "json_Marshal sample_filecoin t = Some [1]"
  by (simp_all add: sample_filecoin_def)

text \<open>
  C18: Identifiers are read back exactly, and only those below \<open>2^63\<close>: the address of an identifier
  is its protocol byte and its variable-length form, which reads back as the identifier, and every
  larger identifier is rejected although it parses as a 64-bit number.
\<close>

theorem id_address_bytes:
  assumes "n < 2 ^ 64"
  shows "addressToBytes E (''f0'' @ FormatUint n) = (if n < 2 ^ 63 then Some (0 # uleb (word_of_nat n)) else None) \<and>
    (n < 2 ^ 63 \<longrightarrow> fromUvarint (uleb (word_of_nat n)) = Inr (word_of_nat n, uvarintSize (word_of_nat n)))"
proof -
  have n: "unat (word_of_nat n :: u64) = n" using assms by (simp add: unat_of_nat)
  have "n < 10 ^ 20" using assms by simp
  then have len: "length (FormatUint n) \<le> 20" by (rule length_FormatUint) simp
  have "\<not> length (''f0'' @ FormatUint n) < 3" using FormatUint_not_Nil [of n] by (cases "FormatUint n") simp_all
  moreover have "toBytes ID (uleb (word_of_nat n)) = (if n < 2 ^ 63 then Some (0 # uleb (word_of_nat n)) else None)"
    by (simp add: toBytes_def fromUvarint_uleb n)
  ultimately show ?thesis
    using len by (auto simp: addressToBytes_def protocol_of_def ParseUint_FormatUint [OF assms] toUvarint_uleb
      fromUvarint_uleb n length_uleb)
qed

theorem id_address_bytes_witness:
  "addressToBytes sample_filecoin (''f0'' @ FormatUint (2 ^ 63)) = None"
  using id_address_bytes [of "2 ^ 63" sample_filecoin] by simp

section \<open>Key addresses read back\<close>

lemma filecoin_alphabet: "alphabet encodeStd"
  by (simp add: alphabet_def encodeStd_def char_nat_def)

text \<open>
  The address of a public key is valid and stands for it: its bytes are the protocol and the
  hash of the uncompressed key. Of the hash only its length is used.
\<close>

theorem filecoin_address_roundtrip:
  assumes "PublicKey2Address E publicKey = Inr a"
    and "\<And>d h. Blake2b E ChecksumHashLength d = Some h \<Longrightarrow> length h = ChecksumHashLength"
  shows "\<exists>key h. ParsePubKey E publicKey = Some key \<and> Blake2b E PayloadHashLength key = Some h \<and>
    addressToBytes E a = Some (1 # h) \<and> ValidAddress E a"
proof -
  obtain key h c where key: "ParsePubKey E publicKey = Some key" "Blake2b E PayloadHashLength key = Some h"
    and h: "length h = 20" and c: "Blake2b E ChecksumHashLength (1 # h) = Some c"
    and a: "a = ''f1'' @ base32_encode encodeStd (h @ c)"
    using assms(1) by (auto simp: PublicKey2Address_def andThen_eq_Inr PayloadHashLength_def)
  have len: "length c = 4" using assms(2) [OF c] by (simp add: ChecksumHashLength_def)
  have "base32_encode encodeStd (h @ c) \<noteq> []"
  proof -
    obtain k where "5 * length (convertBits (h @ c) eightToFiveBits) = 8 * length (h @ c) + k"
      by (rule length_five)
    then show ?thesis using h by (auto simp: base32_encode_def)
  qed
  then have "\<not> length a < 3" by (simp add: a Suc_le_eq)
  then have "addressToBytes E a = Some (1 # h)"
    using h len c
    by (simp add: addressToBytes_def a protocol_of_def base32_round_trip [OF filecoin_alphabet]
      validateChecksum_def toBytes_def ChecksumHashLength_def)
  with key show ?thesis by (simp add: ValidAddress_def)
qed

theorem filecoin_address_roundtrip_witness:
  "\<exists>a. PublicKey2Address sample_filecoin [4, 5] = Inr a \<and> addressToBytes sample_filecoin a = Some (1 # replicate 20 2)"
proof -
  obtain a where a: "PublicKey2Address sample_filecoin [4, 5] = Inr a"
    by (simp add: PublicKey2Address_def)
  have "\<exists>key h. ParsePubKey sample_filecoin [4, 5] = Some key \<and> Blake2b sample_filecoin PayloadHashLength key = Some h \<and>
      addressToBytes sample_filecoin a = Some (1 # h) \<and> ValidAddress sample_filecoin a"
    by (rule filecoin_address_roundtrip [OF a]) auto
  with a show ?thesis by (auto simp: PayloadHashLength_def)
qed

section \<open>What is hashed\<close>

lemma cborBytes_inject: "cborBytes m = cborBytes n \<Longrightarrow> m = n"
proof -
  assume *: "cborBytes m = cborBytes n"
  have "big_Bytes (nat i) = big_Bytes (nat j) \<Longrightarrow> 0 \<le> i \<Longrightarrow> 0 \<le> j \<Longrightarrow> i = j" for i j :: int
    by (metis be_val_big_Bytes nat_eq_iff2 int_nat_eq)
  with * show "m = n" by (auto simp: cborBytes_def split: if_splits) force+
qed

lemma map_sum_andThen: "map_sum id f (andThen r g) = andThen r (\<lambda>x. map_sum id f (g x))"
  by (cases r) simp_all

text \<open>
  Neither address of a transfer is checked. Two transfers to different recipients that are not
  valid addresses build, and are signed over one and the same hash.
\<close>

theorem invalid_recipients_hash_alike:
  assumes "addressToBytes E (Recipient i) = None" "addressToBytes E r = None"
    and "Build E (NewTxBuilder (Some i)) = (tx', Inr ())"
    and "Build E (NewTxBuilder (Some (i\<lparr>Recipient := r\<rparr>))) = (tx'', Inr ())"
  shows "sigHash tx' = sigHash tx''"
proof -
  obtain ntx where ntx: "build_tx i = Inr ntx" "To ntx = Recipient i"
    using assms(3) by (auto simp: Build_def NewTxBuilder_def andThen_eq_Inr build_tx_def Let_def split: sum.splits prod.splits)
  have "build_tx (i\<lparr>Recipient := r\<rparr>) = map_sum id (\<lambda>t. t\<lparr>To := r\<rparr>) (build_tx i)"
    by (simp add: build_tx_def map_sum_andThen split_def)
  with ntx show ?thesis
    using assms by (auto simp: Build_def NewTxBuilder_def andThen_eq_Inr Cid_def Serialize_def Let_def split: sum.splits)
qed

definition sample_filecoin_transfer :: "string \<Rightarrow> Ingredient" where
  "sample_filecoin_transfer r = \<lparr>TxType = ''0'', ContractAddress = MagicContactAddressForNative, Sender = [],
     Recipient = r, Amount = ''7'', NonceText = ''1'', MethodText = [], ParamsText = [],
     GasModel = Some (''2'', ''3'', ''4'')\<rparr>"

lemma sample_native_builds:
  assumes "addressToBytes sample_filecoin r = None"
  shows "\<exists>tx'. Build sample_filecoin (NewTxBuilder (Some (sample_filecoin_transfer r))) = (tx', Inr ())"
  using assms
  by (simp add: Build_def NewTxBuilder_def sample_filecoin_transfer_def build_tx_def natural_def big_SetString_def
      ParseUint_def ParseInt_def digit_of_def char_nat_def require_def Cid_def Let_def)

theorem invalid_recipients_hash_alike_witness:
  "\<exists>tx' tx''. Build sample_filecoin (NewTxBuilder (Some (sample_filecoin_transfer ''f1''))) = (tx', Inr ()) \<and>
     Build sample_filecoin (NewTxBuilder (Some (sample_filecoin_transfer ''x''))) = (tx'', Inr ()) \<and> sigHash tx' = sigHash tx''"
proof -
  have none: "addressToBytes sample_filecoin ''f1'' = None" "addressToBytes sample_filecoin ''x'' = None"
    by (simp_all add: addressToBytes_def)
  from sample_native_builds [OF none(1)] sample_native_builds [OF none(2)]
  obtain tx' tx'' where b: "Build sample_filecoin (NewTxBuilder (Some (sample_filecoin_transfer ''f1''))) = (tx', Inr ())"
    "Build sample_filecoin (NewTxBuilder (Some (sample_filecoin_transfer ''x''))) = (tx'', Inr ())" by blast
  moreover have "sigHash tx' = sigHash tx''"
    by (rule invalid_recipients_hash_alike [of sample_filecoin "sample_filecoin_transfer ''f1''" "''x''" tx' tx''])
      (use none b in \<open>simp_all add: sample_filecoin_transfer_def\<close>)
  ultimately show ?thesis by blast
qed

end
