(* ===== verification/Keystore.thy ===== *)
theory Keystore
  imports Bip39 Bip32
begin

text \<open>
  \<open>crypto/keystore.go\<close> and \<open>crypto/aes.go\<close>: secrets encrypted under a password. The counter mode
  of \<open>crypto/cipher\<close> and the count of the runes of a password are written out; the AES block
  itself, \<open>scrypt.Key\<close>, \<open>Keccak256\<close>, the Ethereum address of a private key, the random UUID and
  the JSON encoder are the fields of \<open>keystore_env\<close>. \<open>rand.Reader\<close> is the byte stream \<open>rng\<close>.
\<close>

section \<open>Counter mode\<close>

record keystore_env =
  Scrypt :: "bytes \<Rightarrow> bytes \<Rightarrow> int \<Rightarrow> int \<Rightarrow> int \<Rightarrow> int \<Rightarrow> bytes option"
  AesBlock :: "bytes \<Rightarrow> bytes \<Rightarrow> bytes"
  Keccak256 :: "bytes \<Rightarrow> bytes"
  EthAddress :: "string \<Rightarrow> string option"
  NewUuid :: "bytes \<Rightarrow> string option"

datatype keystore_error =
  InvalidMnemonic | SeedFailed bip39_error | KeyFailed bip32_error | AddressFailed | PasswordTooShort
| RandFailed | KdfFailed | InvalidKeySize | InvalidIvLength | UuidFailed | MarshalFailed
| UnmarshalFailed | UnsupportedKdf | UnsupportedCipher | UnsupportedDklen | InvalidN | NTooLarge
| InvalidR | InvalidP | InvalidSalt | InvalidCiphertext | InvalidMac | MacMismatch | InvalidIv

definition BlockSize :: nat where "BlockSize = 16"

text \<open>The counter is the whole block, big-endian, and wraps.\<close>

definition ctr_block :: "'a keystore_env_scheme \<Rightarrow> bytes \<Rightarrow> bytes \<Rightarrow> nat \<Rightarrow> bytes" where
  "ctr_block E key iv i = AesBlock E key (be_bytes BlockSize (be_val iv + i))"

definition keystream :: "'a keystore_env_scheme \<Rightarrow> bytes \<Rightarrow> bytes \<Rightarrow> nat \<Rightarrow> bytes" where
  "keystream E key iv n = take n (concat (map (ctr_block E key iv) [0..<(n + 15) div 16]))"

definition AesEncryptCTR :: "'a keystore_env_scheme \<Rightarrow> bytes \<Rightarrow> bytes \<Rightarrow> bytes \<Rightarrow> keystore_error + bytes" where
  "AesEncryptCTR E text key iv =
     andThen (require (length key = 16 \<or> length key = 24 \<or> length key = 32) InvalidKeySize) (\<lambda>_.
     andThen (require (length iv = BlockSize) InvalidIvLength) (\<lambda>_.
       Inr (map2 (XOR) text (keystream E key iv (length text)))))"

definition AesDecryptCTR :: "'a keystore_env_scheme \<Rightarrow> bytes \<Rightarrow> bytes \<Rightarrow> bytes \<Rightarrow> keystore_error + bytes" where
  "AesDecryptCTR E text key iv = AesEncryptCTR E text key iv"

section \<open>Passwords\<close>

text \<open>
  The number of bytes of the rune a string starts with, as \<open>utf8.DecodeRune\<close> reads it; a byte that
  starts no rune is a rune of its own.
\<close>

definition tail_byte :: "nat \<Rightarrow> bool" where
  "tail_byte n \<longleftrightarrow> 0x80 \<le> n \<and> n \<le> 0xbf"

fun second_byte :: "nat \<Rightarrow> nat \<Rightarrow> bool" where
  "second_byte b n =
     (if b = 0xe0 then 0xa0 \<le> n \<and> n \<le> 0xbf
      else if b = 0xed then 0x80 \<le> n \<and> n \<le> 0x9f
      else if b = 0xf0 then 0x90 \<le> n \<and> n \<le> 0xbf
      else if b = 0xf4 then 0x80 \<le> n \<and> n \<le> 0x8f
      else tail_byte n)"

definition rune_len :: "nat list \<Rightarrow> nat" where
  "rune_len s =
     (let b = s ! 0
      in if 0xc2 \<le> b \<and> b \<le> 0xdf \<and> length s \<ge> 2 \<and> tail_byte (s ! 1) then 2
         else if 0xe0 \<le> b \<and> b \<le> 0xef \<and> length s \<ge> 3 \<and> second_byte b (s ! 1) \<and> tail_byte (s ! 2) then 3
         else if 0xf0 \<le> b \<and> b \<le> 0xf4 \<and> length s \<ge> 4 \<and> second_byte b (s ! 1) \<and> tail_byte (s ! 2) \<and>
           tail_byte (s ! 3) then 4
         else 1)"

lemma rune_len_pos: "0 < rune_len s"
  by (simp add: rune_len_def Let_def)

function rune_count :: "nat list \<Rightarrow> nat" where
  "rune_count s = (if s = [] then 0 else 1 + rune_count (drop (rune_len s) s))"
  by auto
termination by (relation "measure length") (auto simp: rune_len_pos)

declare rune_count.simps [simp del]

definition validatePassword :: "string \<Rightarrow> keystore_error + unit" where
  "validatePassword pw = require (\<not> rune_count (map char_nat pw) < 8) PasswordTooShort"

section \<open>The file\<close>

record ActiveAccount =
  AccountAddress :: string
  Coin :: int
  DerivationPath :: string

record CryptoStruct =
  Cipher :: string
  Iv :: string
  Ciphertext :: string
  Kdf :: string
  Dklen :: int
  ParamN :: int
  ParamP :: int
  ParamR :: int
  Salt :: string
  Mac :: string

record KeyStore =
  ActiveAccounts :: "ActiveAccount list"
  Crypto :: CryptoStruct
  FileId :: string
  Name :: string
  FileType :: string
  FileVersion :: int

record GethKeyStore =
  GethAddress :: string
  GethCrypto :: CryptoStruct
  GethId :: string
  GethVersion :: int

record wallet_env = keystore_env +
  MarshalKeyStore :: "KeyStore \<Rightarrow> string option"
  UnmarshalKeyStore :: "string \<Rightarrow> KeyStore option"
  UnmarshalGeth :: "string \<Rightarrow> GethKeyStore option"
  Words :: wordlist
  Stretch :: "bytes \<Rightarrow> bytes \<Rightarrow> nat \<Rightarrow> nat \<Rightarrow> bytes"
  Nfkd :: "string \<Rightarrow> string"
  Curve :: ecc

definition checkScryptParams :: "int \<Rightarrow> int \<Rightarrow> int \<Rightarrow> keystore_error + unit" where
  "checkScryptParams n r p =
     (if n \<le> 1 \<or> n AND (n - 1) \<noteq> 0 then Inl InvalidN
      else if n > 2 ^ 20 then Inl NTooLarge
      else if r < 1 \<or> r > 16 then Inl InvalidR
      else if p < 1 \<or> p > 16 then Inl InvalidP
      else Inr ())"

definition draw :: "nat \<Rightarrow> bytes \<Rightarrow> keystore_error + bytes \<times> bytes" where
  "draw n rng = (if length rng < n then Inl RandFailed else Inr (take n rng, drop n rng))"

text \<open>A slice \<open>string (clearText)\<close>.\<close>

definition string_of_bytes :: "bytes \<Rightarrow> string" where
  "string_of_bytes bs = map (\<lambda>b. char_of (unat b)) bs"

text \<open>The address of the first Ethereum account of the mnemonic.\<close>

definition keystore_path :: string where
  "keystore_path = ''m/44'' @ [CHR 0x27] @ ''/60'' @ [CHR 0x27] @ ''/0'' @ [CHR 0x27] @ ''/0/0''"

definition account_of :: "wallet_env \<Rightarrow> string \<Rightarrow> keystore_error + ActiveAccount" where
  "account_of E mn =
     andThen (require (IsValidMnemonic (Words E) mn) InvalidMnemonic) (\<lambda>_.
     andThen (mapErr SeedFailed (NewSeedWithErrorChecking (Stretch E) (Nfkd E) (Words E) mn [])) (\<lambda>seed.
     andThen (mapErr KeyFailed (SeedToKeyForECDSA (Curve E) seed keystore_path)) (\<lambda>k.
     andThen (orErr AddressFailed (EthAddress E (hex_encode (Key k)))) (\<lambda>address.
       Inr \<lparr>AccountAddress = address, Coin = 60, DerivationPath = keystore_path\<rparr>))))"

definition any_account :: ActiveAccount where
  "any_account = \<lparr>AccountAddress = ''address'', Coin = 0, DerivationPath = ''path''\<rparr>"

definition encrypt_part :: "wallet_env \<Rightarrow> string \<Rightarrow> string \<Rightarrow> bytes \<Rightarrow> keystore_error + CryptoStruct \<times> bytes" where
  "encrypt_part E txt password rng =
     andThen (draw 32 rng) (\<lambda>(salt, rng).
     andThen (orErr KdfFailed (Scrypt E (bytes_of_string password) salt 262144 8 1 32)) (\<lambda>derivedKey.
     andThen (draw BlockSize rng) (\<lambda>(iv, rng).
     andThen (AesEncryptCTR E (bytes_of_string txt) (take 16 derivedKey) iv) (\<lambda>cipherText.
       Inr (\<lparr>Cipher = ''aes-128-ctr'', Iv = hex_encode iv, Ciphertext = hex_encode cipherText,
           Kdf = ''scrypt'', Dklen = 32, ParamN = 262144, ParamP = 1, ParamR = 8, Salt = hex_encode salt,
           Mac = hex_encode (Keccak256 E (take 16 (drop 16 derivedKey) @ cipherText))\<rparr>, rng)))))"

definition WriteToKeyStore ::
  "wallet_env \<Rightarrow> string \<Rightarrow> string \<Rightarrow> string \<Rightarrow> bool \<Rightarrow> bytes \<Rightarrow> keystore_error + string"
where
  "WriteToKeyStore E name txt password isMn rng =
     andThen (if isMn then account_of E txt else Inr any_account) (\<lambda>activeAccount.
     andThen (validatePassword password) (\<lambda>_.
     andThen (encrypt_part E txt password rng) (\<lambda>(cryptoPart, rng).
     andThen (orErr UuidFailed (NewUuid E rng)) (\<lambda>uuid.
       orErr MarshalFailed (MarshalKeyStore E
         \<lparr>ActiveAccounts = [activeAccount], Crypto = cryptoPart, FileId = uuid, Name = name,
           FileType = (if isMn then ''mnemonic'' else ''any''), FileVersion = 3\<rparr>)))))"

definition check_kdf :: "CryptoStruct \<Rightarrow> keystore_error + unit" where
  "check_kdf c =
     andThen (require (Kdf c = ''scrypt'') UnsupportedKdf) (\<lambda>_.
     andThen (require (Cipher c = ''aes-128-ctr'') UnsupportedCipher) (\<lambda>_.
       require (Dklen c = 32) UnsupportedDklen))"

text \<open>What both readers do with the derived key: authenticate, then decrypt.\<close>

definition open_text :: "wallet_env \<Rightarrow> CryptoStruct \<Rightarrow> bytes \<Rightarrow> keystore_error + bytes" where
  "open_text E c derivedKey =
     andThen (orErr InvalidCiphertext (hex_decode (Ciphertext c))) (\<lambda>ct.
     andThen (orErr InvalidMac (hex_decode (Mac c))) (\<lambda>expectedMAC.
     andThen (require (Keccak256 E (take 16 (drop 16 derivedKey) @ ct) = expectedMAC) MacMismatch) (\<lambda>_.
     andThen (orErr InvalidIv (hex_decode (Iv c))) (\<lambda>iv.
       AesDecryptCTR E ct (take 16 derivedKey) iv))))"

definition derive_key :: "wallet_env \<Rightarrow> CryptoStruct \<Rightarrow> string \<Rightarrow> bytes \<Rightarrow> keystore_error + bytes" where
  "derive_key E c password salt =
     orErr KdfFailed (Scrypt E (bytes_of_string password) salt (ParamN c) (ParamR c) (ParamP c) (Dklen c))"

definition ReadFromKeyStore :: "wallet_env \<Rightarrow> string \<Rightarrow> string \<Rightarrow> bool \<Rightarrow> keystore_error + string" where
  "ReadFromKeyStore E ksString password isMn =
     andThen (orErr UnmarshalFailed (UnmarshalKeyStore E ksString)) (\<lambda>ks.
     let c = Crypto ks
     in andThen (validatePassword password) (\<lambda>_.
        andThen (check_kdf c) (\<lambda>_.
        andThen (checkScryptParams (ParamN c) (ParamR c) (ParamP c)) (\<lambda>_.
        andThen (orErr InvalidSalt (hex_decode (Salt c))) (\<lambda>salt.
        andThen (derive_key E c password salt) (\<lambda>derivedKey.
        andThen (open_text E c derivedKey) (\<lambda>clearText.
          let mn = string_of_bytes clearText
          in if isMn \<and> \<not> IsValidMnemonic (Words E) mn then Inl InvalidMnemonic else Inr mn)))))))"

text \<open>The reader of Geth's files checks the salt before the parameters, and no password length.\<close>

definition ReadFromGethKeyStore :: "wallet_env \<Rightarrow> string \<Rightarrow> string \<Rightarrow> keystore_error + string" where
  "ReadFromGethKeyStore E ksString password =
     andThen (orErr UnmarshalFailed (UnmarshalGeth E ksString)) (\<lambda>ks.
     let c = GethCrypto ks
     in andThen (check_kdf c) (\<lambda>_.
        andThen (orErr InvalidSalt (hex_decode (Salt c))) (\<lambda>salt.
        andThen (checkScryptParams (ParamN c) (ParamR c) (ParamP c)) (\<lambda>_.
        andThen (derive_key E c password salt) (\<lambda>derivedKey.
        andThen (open_text E c derivedKey) (\<lambda>clearText. Inr (hex_encode clearText)))))))"

section \<open>The bounds on the work\<close>

lemma int_and_predecessor_odd: "(2 * m + 1) AND (2 * m) = 2 * (m :: int)"
  by (subst and_int_rec) simp

lemma int_and_predecessor_even: "(2 * m) AND (2 * m - 1) = 2 * (m AND (m - 1))" for m :: int
proof -
  have "(2 * m - 1) div 2 = m - 1" by simp
  then show ?thesis by (subst and_int_rec) simp
qed

lemma single_bit: "0 < k \<Longrightarrow> int k AND (int k - 1) = 0 \<longleftrightarrow> (\<exists>j. k = 2 ^ j)"
proof (induction k rule: less_induct)
  case (less k)
  show ?case
  proof (cases "even k")
    case True
    then obtain m where m: "k = 2 * m" by (elim evenE)
    with less.prems have "0 < m" "m < k" by simp_all
    have "int k AND (int k - 1) = 2 * (int m AND (int m - 1))"
      using int_and_predecessor_even [of "int m"] m by simp
    then have "int k AND (int k - 1) = 0 \<longleftrightarrow> (\<exists>j. m = 2 ^ j)"
      using less.IH [OF \<open>m < k\<close> \<open>0 < m\<close>] by simp
    also have "\<dots> \<longleftrightarrow> (\<exists>j. k = 2 ^ j)"
    proof
      assume "\<exists>j. k = 2 ^ j"
      then obtain j where "2 * m = 2 ^ j" using m by auto
      then show "\<exists>j. m = 2 ^ j" using \<open>0 < m\<close> by (cases j) auto
    qed (auto simp: m intro: exI [of _ "Suc _"])
    finally show ?thesis .
  next
    case False
    then obtain m where m: "k = 2 * m + 1" by (elim oddE)
    have "int k AND (int k - 1) = 2 * int m" using int_and_predecessor_odd [of "int m"] m by (simp add: add.commute)
    moreover have "(\<exists>j. k = 2 ^ j) \<longleftrightarrow> m = 0"
    proof
      assume "\<exists>j. k = 2 ^ j"
      then obtain j where "2 * m + 1 = 2 ^ j" using m by auto
      then show "m = 0" by (cases j) (auto dest: arg_cong [of _ _ even])
    qed (auto simp: m intro: exI [of _ 0])
    ultimately show ?thesis by simp
  qed
qed

lemma checkScryptParams_ok:
  "checkScryptParams n r p = Inr () \<longleftrightarrow>
     (\<exists>k. 0 < k \<and> k \<le> 20 \<and> n = 2 ^ k) \<and> 1 \<le> r \<and> r \<le> 16 \<and> 1 \<le> p \<and> p \<le> 16"
proof (cases "n \<le> 1")
  case True
  have "2 \<le> (2 :: int) ^ k" if "0 < k" for k :: nat
    using power_increasing [of 1 k "2 :: int"] that by simp
  with True have "n < 2 ^ k" if "0 < k" for k :: nat using that by (smt (verit))
  then have "n \<noteq> 2 ^ k" if "0 < k" for k :: nat using that by (simp add: order.strict_implies_not_eq)
  then have "\<not> (\<exists>k. 0 < k \<and> k \<le> (20 :: nat) \<and> n = 2 ^ k)" by blast
  moreover have "checkScryptParams n r p = Inl InvalidN" using True by (simp only: checkScryptParams_def) simp
  ultimately show ?thesis by simp
next
  case False
  define m where "m = nat n"
  with False have m: "n = int m" "1 < m" by simp_all
  have "n AND (n - 1) = 0 \<longleftrightarrow> (\<exists>j. n = 2 ^ j)"
  proof -
    have "int m = 2 ^ j \<longleftrightarrow> m = 2 ^ j" for j by (metis of_nat_eq_iff of_nat_numeral of_nat_power)
    moreover have "0 < m" using m(2) by simp
    ultimately show ?thesis using single_bit [of m] by (simp only: m(1))
  qed
  moreover have "(\<exists>j. n = 2 ^ j) \<and> n \<le> 2 ^ 20 \<longleftrightarrow> (\<exists>k. 0 < k \<and> k \<le> 20 \<and> n = 2 ^ k)"
  proof
    assume "(\<exists>j. n = 2 ^ j) \<and> n \<le> 2 ^ 20"
    then obtain j where j: "n = 2 ^ j" "(2 :: int) ^ j \<le> 2 ^ 20" by blast
    from j(2) have "j \<le> 20" by (rule power_le_imp_le_exp [rotated]) simp
    moreover have "0 < j" using j(1) False by (cases j) simp_all
    ultimately show "\<exists>k. 0 < k \<and> k \<le> 20 \<and> n = 2 ^ k" using j(1) by blast
  next
    assume "\<exists>k. 0 < k \<and> k \<le> 20 \<and> n = 2 ^ k"
    then obtain k :: nat where k: "k \<le> 20" "n = 2 ^ k" by blast
    from k(1) have "(2 :: int) ^ k \<le> 2 ^ 20" by (rule power_increasing) simp
    with k(2) show "(\<exists>j. n = 2 ^ j) \<and> n \<le> 2 ^ 20" by blast
  qed
  moreover have "checkScryptParams n r p = Inr () \<longleftrightarrow> n AND (n - 1) = 0 \<and> n \<le> 2 ^ 20 \<and>
      1 \<le> r \<and> r \<le> 16 \<and> 1 \<le> p \<and> p \<le> 16"
    using False by (simp only: checkScryptParams_def) (auto simp: not_le not_less)
  ultimately show ?thesis by blast
qed

text \<open>
  C20: However a key store file is made, scrypt runs with a cost that is bounded: both readers ask for
  it with at most \<open>2^20\<close> rounds, a power of two, and with block size and parallelism at most 16.
  Changing the function at every other parameter changes no result.
\<close>

theorem keystore_work_bounded:
  assumes "\<And>pw salt k r p. 0 < k \<and> k \<le> 20 \<and> 1 \<le> r \<and> r \<le> 16 \<and> 1 \<le> p \<and> p \<le> 16 \<Longrightarrow>
    f pw salt (2 ^ k) r p 32 = Scrypt E pw salt (2 ^ k) r p 32"
  shows "ReadFromKeyStore (E\<lparr>Scrypt := f\<rparr>) s pw isMn = ReadFromKeyStore E s pw isMn \<and>
    ReadFromGethKeyStore (E\<lparr>Scrypt := f\<rparr>) s pw = ReadFromGethKeyStore E s pw"
proof -
  have derive: "derive_key (E\<lparr>Scrypt := f\<rparr>) c pw salt = derive_key E c pw salt"
    if "check_kdf c = Inr ()" "checkScryptParams (ParamN c) (ParamR c) (ParamP c) = Inr ()" for c salt
    using that assms by (auto simp: checkScryptParams_ok derive_key_def check_kdf_def andThen_eq_Inr)
  have opened: "open_text (E\<lparr>Scrypt := f\<rparr>) = open_text E"
  proof -
    have "ctr_block (E\<lparr>Scrypt := f\<rparr>) = ctr_block E" by (intro ext) (simp add: ctr_block_def)
    then show ?thesis
      by (intro ext) (simp add: open_text_def AesDecryptCTR_def AesEncryptCTR_def keystream_def)
  qed
  have "ReadFromKeyStore (E\<lparr>Scrypt := f\<rparr>) s pw isMn = ReadFromKeyStore E s pw isMn"
    by (auto simp: ReadFromKeyStore_def Let_def opened intro!: andThen_cong derive)
  moreover have "ReadFromGethKeyStore (E\<lparr>Scrypt := f\<rparr>) s pw = ReadFromGethKeyStore E s pw"
    by (auto simp: ReadFromGethKeyStore_def Let_def opened intro!: andThen_cong derive)
  ultimately show ?thesis ..
qed

section \<open>What is written is read back\<close>

lemma bytes_of_string_of_bytes [simp]: "string_of_bytes (bytes_of_string s) = s"
  by (induction s) (simp_all add: string_of_bytes_def bytes_of_string_def unat_of_char char_nat_def)

lemma string_of_bytes_of_string [simp]: "bytes_of_string (string_of_bytes bs) = bs"
proof -
  have "unat (of_char (char_of (unat b)) :: u8) = unat b" for b :: u8
    by (simp add: unat_of_char char_nat_def)
  then have "of_char (char_of (unat b)) = b" for b :: u8 by (metis word_unat_eq_iff)
  then show ?thesis by (induction bs) (simp_all add: string_of_bytes_def bytes_of_string_def)
qed

lemma length_keystream:
  assumes "\<And>k b. length b = BlockSize \<Longrightarrow> length (AesBlock E k b) = BlockSize"
  shows "length (keystream E key iv n) = n"
proof -
  have block: "length (ctr_block E key iv i) = 16" for i
    using assms [of "be_bytes BlockSize (be_val iv + i)" key] by (simp add: ctr_block_def BlockSize_def)
  have "length (concat (map (ctr_block E key iv) [0..<m])) = m * 16" for m
    by (simp add: length_concat comp_def block sum_list_triv)
  moreover have "n \<le> (n + 15) div 16 * 16" by presburger
  ultimately show ?thesis by (simp add: keystream_def)
qed

lemma xor_twice:
  "length ks = length d \<Longrightarrow> map2 (XOR) (map2 (XOR) d ks) ks = (d :: bytes)"
  by (induction ks d rule: list_induct2) (simp_all add: xor.assoc)


lemma ctr_decrypts:
  assumes "\<And>k b. length b = BlockSize \<Longrightarrow> length (AesBlock E k b) = BlockSize"
    and "AesEncryptCTR E d key iv = Inr ct"
  shows "AesDecryptCTR E ct key iv = Inr d"
  using assms(2) length_keystream [OF assms(1)]
  by (auto simp: AesDecryptCTR_def AesEncryptCTR_def andThen_eq_Inr xor_twice)

lemma written_parameters: "checkScryptParams 262144 8 1 = Inr ()"
proof -
  have "(262144 :: int) = 2 ^ 18" by simp
  then have "\<exists>k. 0 < k \<and> k \<le> 20 \<and> (262144 :: int) = 2 ^ k" by (intro exI [of _ 18]) simp
  then show ?thesis by (simp only: checkScryptParams_ok) simp
qed

lemma encrypt_part_opens:
  assumes "\<And>k b. length b = BlockSize \<Longrightarrow> length (AesBlock E k b) = BlockSize"
    and "encrypt_part E txt password rng = Inr (c, r)"
  shows "\<exists>salt d. check_kdf c = Inr () \<and> checkScryptParams (ParamN c) (ParamR c) (ParamP c) = Inr () \<and>
    hex_decode (Salt c) = Some salt \<and> derive_key E c password salt = Inr d \<and>
    open_text E c d = Inr (bytes_of_string txt)"
  using assms(2) ctr_decrypts [OF assms(1), of "bytes_of_string txt"]
  by (auto simp: encrypt_part_def andThen_eq_Inr written_parameters check_kdf_def derive_key_def open_text_def)

lemma written_is_read:
  assumes "WriteToKeyStore E name txt password isMn rng = Inr s"
    and "\<And>k b. length b = BlockSize \<Longrightarrow> length (AesBlock E k b) = BlockSize"
    and "\<And>ks. MarshalKeyStore E ks = Some s \<Longrightarrow> UnmarshalKeyStore E s = Some ks"
  shows "ReadFromKeyStore E s password isMn = Inr txt"
proof -
  obtain a c r uuid where w: "(if isMn then account_of E txt else Inr any_account) = Inr a"
    "validatePassword password = Inr ()" "encrypt_part E txt password rng = Inr (c, r)"
    and json: "MarshalKeyStore E \<lparr>ActiveAccounts = [a], Crypto = c, FileId = uuid, Name = name,
        FileType = (if isMn then ''mnemonic'' else ''any''), FileVersion = 3\<rparr> = Some s"
    using assms(1) by (auto simp: WriteToKeyStore_def andThen_eq_Inr)
  from encrypt_part_opens [OF assms(2) w(3)] assms(3) [OF json] w(1,2)
  show ?thesis by (auto simp: ReadFromKeyStore_def account_of_def andThen_eq_Inr split: if_splits)
qed

text \<open>
  C19: What is written under a password is read back under it: whenever \<open>WriteToKeyStore\<close> returns a
  file, \<open>ReadFromKeyStore\<close> returns the text from it, and a mnemonic is one that was valid. Of the
  packages outside only the length of an AES block and the JSON of this file are used.
\<close>

theorem keystore_roundtrip:
  assumes "WriteToKeyStore E name txt password isMn rng = Inr s"
    and "\<And>k b. length b = BlockSize \<Longrightarrow> length (AesBlock E k b) = BlockSize"
    and "\<And>ks. MarshalKeyStore E ks = Some s \<Longrightarrow> UnmarshalKeyStore E s = Some ks"
  shows "ReadFromKeyStore E s password isMn = Inr txt"
  using assms by (rule written_is_read)


section \<open>A file\<close>

definition sample_file :: "bytes \<Rightarrow> KeyStore" where
  "sample_file iv = \<lparr>ActiveAccounts = [any_account],
     Crypto = \<lparr>Cipher = ''aes-128-ctr'', Iv = hex_encode iv, Ciphertext = hex_encode [0x61], Kdf = ''scrypt'',
       Dklen = 32, ParamN = 262144, ParamP = 1, ParamR = 8, Salt = hex_encode (replicate 32 0),
       Mac = hex_encode (replicate 16 7 @ [0x61])\<rparr>,
     FileId = ''id'', Name = ''n'', FileType = ''any'', FileVersion = 3\<rparr>"

definition sample_wallet :: wallet_env where
  "sample_wallet = \<lparr>Scrypt = (\<lambda>pw salt n r p k. Some (replicate 32 7)), AesBlock = (\<lambda>key b. b),
     Keccak256 = (\<lambda>b. b), EthAddress = (\<lambda>_. None), NewUuid = (\<lambda>_. Some ''id''),
     MarshalKeyStore = (\<lambda>ks. if ks = sample_file (replicate 16 0) then Some ''A'' else None),
     UnmarshalKeyStore = (\<lambda>s. if s = ''A'' then Some (sample_file (replicate 16 0))
       else if s = ''B'' then Some (sample_file (replicate 16 1)) else None),
     UnmarshalGeth = (\<lambda>_. None), Words = SetWordList [], Stretch = (\<lambda>_ _ _ _. []), Nfkd = (\<lambda>s. s),
     Curve = sample_ecc\<rparr>"

lemma sample_wallet_simps [simp]:
  "Scrypt sample_wallet pw salt n r p k = Some (replicate 32 7)" "AesBlock sample_wallet key b = b"
  "Keccak256 sample_wallet x = x" "NewUuid sample_wallet x = Some ''id''"
  "MarshalKeyStore sample_wallet ks = (if ks = sample_file (replicate 16 0) then Some ''A'' else None)"
  "UnmarshalKeyStore sample_wallet ''A'' = Some (sample_file (replicate 16 0))"
  "UnmarshalKeyStore sample_wallet ''B'' = Some (sample_file (replicate 16 1))"
  by (simp_all add: sample_wallet_def)

lemma sample_stream: "length iv = 16 \<Longrightarrow> keystream sample_wallet key iv (Suc 0) = take 1 iv"
  by (simp add: keystream_def ctr_block_def BlockSize_def) (metis be_bytes_be_val)

lemma sample_password: "validatePassword ''password'' = Inr ()"
  by (simp add: validatePassword_def char_nat_def rune_count.simps rune_len_def)

lemma sample_written: "WriteToKeyStore sample_wallet ''n'' ''a'' ''password'' False (replicate 48 0) = Inr ''A''"
  by (simp add: WriteToKeyStore_def sample_password encrypt_part_def draw_def AesEncryptCTR_def
    BlockSize_def bytes_of_string_def sample_stream sample_file_def any_account_def)

theorem keystore_roundtrip_witness: "ReadFromKeyStore sample_wallet ''A'' ''password'' False = Inr ''a''"
  by (rule keystore_roundtrip [OF sample_written]) (simp_all split: if_splits)

lemma sample_read: "ReadFromKeyStore sample_wallet ''A'' ''password'' False = Inr ''a''"
  by (rule written_is_read [OF sample_written]) (simp_all split: if_splits)


theorem keystore_work_bounded_witness:
  "ReadFromKeyStore (sample_wallet\<lparr>Scrypt := \<lambda>pw salt n r p k. if n \<le> 2 ^ 20 then Some (replicate 32 7) else None\<rparr>)
     ''A'' ''password'' False = ReadFromKeyStore sample_wallet ''A'' ''password'' False"
proof -
  have "(2 :: int) ^ k \<le> 2 ^ 20" if "k \<le> 20" for k :: nat using that by (rule power_increasing) simp
  then show ?thesis by (intro keystore_work_bounded [THEN conjunct1]) simp
qed

end
