(* ===== verification/TextCipher.thy ===== *)
theory TextCipher
  imports Sha256
begin

text \<open>
  \<open>crypto/cipher.go\<close> and \<open>crypto/rsa.go\<close>: text encrypted under a password, and messages encrypted to
  an RSA key. The layout of the encrypted text, the limits and the checks on keys and messages are
  written out; AES-GCM, scrypt, PEM, the key parsers, OAEP and the JOSE package are the fields of
  \<open>cipher_env\<close>, and \<open>rand.Reader\<close> is the byte stream \<open>rng\<close>. Wiping of keys after use has no result.
\<close>

section \<open>The packages used\<close>

record pem_block =
  BlockType :: string
  Headers :: "(string \<times> string) list"
  BlockBytes :: bytes

text \<open>The modulus may be nil; \<open>Handle\<close> is the key itself.\<close>

record rsa_key =
  Modulus :: "nat option"
  Exponent :: int
  Handle :: bytes

datatype parsed_key = RsaPublic rsa_key | RsaPrivate rsa_key | OtherKey

record 'o cipher_env =
  ScryptKey :: "bytes \<Rightarrow> bytes \<Rightarrow> int \<Rightarrow> int \<Rightarrow> int \<Rightarrow> int \<Rightarrow> bytes option"
  GcmSeal :: "bytes \<Rightarrow> bytes \<Rightarrow> bytes \<Rightarrow> bytes"
  GcmOpen :: "bytes \<Rightarrow> bytes \<Rightarrow> bytes \<Rightarrow> bytes option"
  pem_Decode :: "bytes \<Rightarrow> (pem_block \<times> bytes) option"
  ParsePKIXPublicKey :: "bytes \<Rightarrow> parsed_key option"
  ParsePKCS8PrivateKey :: "bytes \<Rightarrow> parsed_key option"
  ParseEncryptedPKCS8 :: "bytes \<Rightarrow> bytes \<Rightarrow> parsed_key option"
  ParsePKCS1PrivateKey :: "bytes \<Rightarrow> rsa_key option"
  ValidateKey :: "rsa_key \<Rightarrow> bool"
  EncryptOAEP :: "rsa_key \<Rightarrow> bytes \<Rightarrow> bytes \<Rightarrow> bytes option"
  DecryptOAEP :: "rsa_key \<Rightarrow> bytes \<Rightarrow> bytes option"
  JoseEncrypt :: "rsa_key \<Rightarrow> string \<Rightarrow> bytes \<Rightarrow> bytes \<Rightarrow> string option"
  JoseParse :: "string \<Rightarrow> 'o option"
  JoseDecrypt :: "'o \<Rightarrow> rsa_key \<Rightarrow> bytes option"
  RawURLDecode :: "string \<Rightarrow> bytes option"
  HeaderFields :: "bytes \<Rightarrow> string list option"

datatype cipher_error =
  InvalidInput | SaltFailed | KeyDerivationFailed | CipherFailed | NonceFailed | InvalidEncryptedData
| DecryptionFailed | SizeLimit | EmptyPlaintext | NotOnePublicKey | InvalidPublicKey | BadPublicKey
| EncryptFailed | TooManyPasswords | NotOnePrivateKey | PasswordRequired | PrivateKeyLocked
| UnknownKeyType | InvalidPrivateKey | NotCompact | InvalidHeader | Compressed | InvalidJWE
| JweDecryptionFailed | InvalidPlaintextSize | NoPem | NotRsa

section \<open>Text under a password\<close>

definition cipherSaltSize :: nat where "cipherSaltSize = 32"
definition cipherKeySize :: int where "cipherKeySize = 32"
definition cipherScryptN :: int where "cipherScryptN = 32768"
definition cipherScryptR :: int where "cipherScryptR = 8"
definition cipherScryptP :: int where "cipherScryptP = 1"

text \<open>\<open>gcm.NonceSize\<close> of the standard construction.\<close>

definition NonceSize :: nat where "NonceSize = 12"

definition take_random :: "cipher_error \<Rightarrow> nat \<Rightarrow> bytes \<Rightarrow> cipher_error + bytes \<times> bytes" where
  "take_random e n rng = (if length rng < n then Inl e else Inr (take n rng, drop n rng))"

definition text_key :: "('o, 'a) cipher_env_scheme \<Rightarrow> bytes \<Rightarrow> bytes \<Rightarrow> cipher_error + bytes" where
  "text_key E password salt =
     orErr KeyDerivationFailed (ScryptKey E password salt cipherScryptN cipherScryptR cipherScryptP cipherKeySize)"

definition new_cipher :: "bytes \<Rightarrow> cipher_error + unit" where
  "new_cipher key = require (length key = 16 \<or> length key = 24 \<or> length key = 32) CipherFailed"

definition EncryptText :: "('o, 'a) cipher_env_scheme \<Rightarrow> bytes \<Rightarrow> bytes \<Rightarrow> bytes \<Rightarrow> cipher_error + bytes" where
  "EncryptText E clearText password rng =
     (if length clearText = 0 \<or> length password = 0 then Inl InvalidInput
      else
        andThen (take_random SaltFailed cipherSaltSize rng) (\<lambda>(salt, rng).
        andThen (text_key E password salt) (\<lambda>key.
        andThen (new_cipher key) (\<lambda>_.
        andThen (take_random NonceFailed NonceSize rng) (\<lambda>(nonce, rng).
          Inr (salt @ nonce @ GcmSeal E key nonce clearText))))))"

text \<open>A nil slice is \<open>None\<close>.\<close>

definition DecryptText :: "('o, 'a) cipher_env_scheme \<Rightarrow> bytes option \<Rightarrow> bytes \<Rightarrow> cipher_error + bytes" where
  "DecryptText E cipherText password =
     (if cipherText = None \<or> length password = 0 then Inl InvalidInput
      else
        let cipherText = the cipherText
        in if length cipherText < cipherSaltSize + 12 then Inl InvalidEncryptedData
           else
             let salt = take cipherSaltSize cipherText;
                 nonce = take 12 (drop cipherSaltSize cipherText);
                 ciphertext = drop (cipherSaltSize + 12) cipherText
             in andThen (text_key E password salt) (\<lambda>key.
                andThen (new_cipher key) (\<lambda>_.
                  orErr DecryptionFailed (GcmOpen E key nonce ciphertext))))"

section \<open>Messages to a key\<close>

definition MaxJWEPublicKeyBytes :: nat where "MaxJWEPublicKeyBytes = 16 * 1024"
definition MaxJWEPlaintextBytes :: nat where "MaxJWEPlaintextBytes = 1024 * 1024"
definition MaxJWEPrivateKeyBytes :: nat where "MaxJWEPrivateKeyBytes = 32 * 1024"
definition MaxJWECiphertextBytes :: nat where "MaxJWECiphertextBytes = 2 * 1024 * 1024"

fun BitLen :: "nat \<Rightarrow> nat" where
  "BitLen n = (if n = 0 then 0 else 1 + BitLen (n div 2))"

declare BitLen.simps [simp del]

definition acceptable :: "rsa_key \<Rightarrow> bool" where
  "acceptable key \<longleftrightarrow>
     (case Modulus key of
        None \<Rightarrow> False
      | Some n \<Rightarrow> \<not> BitLen n < 3072 \<and> \<not> BitLen n > 8192 \<and> Exponent key = 65537)"

definition string_of :: "bytes \<Rightarrow> string" where
  "string_of bs = map (\<lambda>b. char_of (unat b)) bs"

definition EncryptJWE :: "('o, 'a) cipher_env_scheme \<Rightarrow> bytes \<Rightarrow> bytes \<Rightarrow> bytes \<Rightarrow> cipher_error + bytes" where
  "EncryptJWE E publicKeyPEM plaintext rng =
     (if length publicKeyPEM > MaxJWEPublicKeyBytes \<or> length plaintext > MaxJWEPlaintextBytes then Inl SizeLimit
      else if length plaintext = 0 then Inl EmptyPlaintext
      else
        andThen (orErr NotOnePublicKey (pem_Decode E publicKeyPEM)) (\<lambda>(block, rest).
        andThen (require (BlockType block = ''PUBLIC KEY'' \<and> strings_TrimSpace (string_of rest) = []) NotOnePublicKey) (\<lambda>_.
        andThen (orErr InvalidPublicKey (ParsePKIXPublicKey E (BlockBytes block))) (\<lambda>parsed.
        case parsed of
          RsaPublic key \<Rightarrow>
            andThen (require (acceptable key) BadPublicKey) (\<lambda>_.
            andThen (orErr EncryptFailed (JoseEncrypt E key (hex_encode (sha256 (BlockBytes block))) plaintext rng)) (\<lambda>compact.
              Inr (bytes_of_string compact)))
        | _ \<Rightarrow> Inl BadPublicKey))))"

text \<open>The key in a block, nil when the block holds a key of another kind.\<close>

definition rsa_private :: "parsed_key \<Rightarrow> rsa_key option" where
  "rsa_private p = (case p of RsaPrivate key \<Rightarrow> Some key | _ \<Rightarrow> None)"

definition read_private_key ::
  "('o, 'a) cipher_env_scheme \<Rightarrow> pem_block \<Rightarrow> bytes list \<Rightarrow> cipher_error + rsa_key option"
where
  "read_private_key E block passwords =
     (if BlockType block = ''ENCRYPTED PRIVATE KEY'' then
        if passwords = [] \<or> hd passwords = [] then Inl PasswordRequired
        else andThen (orErr PrivateKeyLocked (ParseEncryptedPKCS8 E (BlockBytes block) (hd passwords)))
          (\<lambda>parsed. Inr (rsa_private parsed))
      else if BlockType block = ''PRIVATE KEY'' then
        Inr (Option.bind (ParsePKCS8PrivateKey E (BlockBytes block)) rsa_private)
      else if BlockType block = ''RSA PRIVATE KEY'' then
        Inr (ParsePKCS1PrivateKey E (BlockBytes block))
      else Inl UnknownKeyType)"

definition checked_key :: "('o, 'a) cipher_env_scheme \<Rightarrow> rsa_key option \<Rightarrow> cipher_error + rsa_key" where
  "checked_key E k =
     (case k of
        None \<Rightarrow> Inl InvalidPrivateKey
      | Some key \<Rightarrow> if acceptable key \<and> ValidateKey E key then Inr key else Inl InvalidPrivateKey)"

definition checked_header :: "('o, 'a) cipher_env_scheme \<Rightarrow> string \<Rightarrow> cipher_error + unit" where
  "checked_header E ciphertext =
     (let parts = strings_Split ciphertext CHR ''.''
      in if length parts \<noteq> 5 \<or> length (parts ! 0) > 4096 then Inl NotCompact
         else
           andThen (orErr InvalidHeader (RawURLDecode E (parts ! 0))) (\<lambda>header.
           andThen (orErr InvalidHeader (HeaderFields E header)) (\<lambda>fields.
             require (''zip'' \<notin> set fields) Compressed)))"

definition DecryptJWE ::
  "('o, 'a) cipher_env_scheme \<Rightarrow> bytes \<Rightarrow> bytes \<Rightarrow> bytes list \<Rightarrow> cipher_error + bytes"
where
  "DecryptJWE E privateKeyPEM ciphertext passwords =
     (if length passwords > 1 then Inl TooManyPasswords
      else if length privateKeyPEM > MaxJWEPrivateKeyBytes \<or> length ciphertext > MaxJWECiphertextBytes then Inl SizeLimit
      else
        andThen (orErr NotOnePrivateKey (pem_Decode E privateKeyPEM)) (\<lambda>(block, rest).
        andThen (require (length (Headers block) = 0 \<and> strings_TrimSpace (string_of rest) = []) NotOnePrivateKey) (\<lambda>_.
        andThen (read_private_key E block passwords) (\<lambda>k.
        andThen (checked_key E k) (\<lambda>key.
        andThen (checked_header E (string_of ciphertext)) (\<lambda>_.
        andThen (orErr InvalidJWE (JoseParse E (string_of ciphertext))) (\<lambda>obj.
        andThen (orErr JweDecryptionFailed (JoseDecrypt E obj key)) (\<lambda>plaintext.
          if length plaintext = 0 \<or> length plaintext > MaxJWEPlaintextBytes then Inl InvalidPlaintextSize
          else Inr plaintext))))))))"

section \<open>OAEP\<close>

definition RsaEncryptWithPub :: "('o, 'a) cipher_env_scheme \<Rightarrow> bytes \<Rightarrow> bytes \<Rightarrow> bytes \<Rightarrow> cipher_error + bytes" where
  "RsaEncryptWithPub E pub plainText rng =
     andThen (orErr NoPem (pem_Decode E pub)) (\<lambda>(block, rest).
     andThen (orErr InvalidPublicKey (ParsePKIXPublicKey E (BlockBytes block))) (\<lambda>parsed.
     case parsed of
       RsaPublic key \<Rightarrow> orErr EncryptFailed (EncryptOAEP E key plainText rng)
     | _ \<Rightarrow> Inl NotRsa))"

definition RsaDecryptWithPriv :: "('o, 'a) cipher_env_scheme \<Rightarrow> bytes \<Rightarrow> bytes \<Rightarrow> cipher_error + bytes" where
  "RsaDecryptWithPriv E priv cipherText =
     andThen (orErr NoPem (pem_Decode E priv)) (\<lambda>(block, rest).
     andThen (case ParsePKCS1PrivateKey E (BlockBytes block) of
         Some key \<Rightarrow> Inr key
       | None \<Rightarrow> andThen (orErr InvalidPrivateKey (ParsePKCS8PrivateKey E (BlockBytes block)))
           (\<lambda>p. orErr NotRsa (rsa_private p))) (\<lambda>key.
       orErr DecryptionFailed (DecryptOAEP E key cipherText)))"

section \<open>Results\<close>

text \<open>What is encrypted under a password is decrypted under it.\<close>

theorem text_cipher_roundtrip:
  assumes "EncryptText E clearText password rng = Inr ct"
    and "\<And>key nonce. length nonce = NonceSize \<Longrightarrow> GcmOpen E key nonce (GcmSeal E key nonce clearText) = Some clearText"
  shows "DecryptText E (Some ct) password = Inr clearText"
  using assms
  by (auto simp: EncryptText_def DecryptText_def andThen_eq_Inr take_random_def cipherSaltSize_def NonceSize_def
      split: if_splits)

text \<open>
  A message is only ever decrypted with a valid RSA key of 3072 to 8192 bits and the usual exponent,
  and only when its header does not ask for decompression; what is returned is within the limit.
\<close>

theorem jwe_guarded:
  assumes "DecryptJWE E privateKeyPEM ciphertext passwords = Inr plaintext"
  shows "\<exists>key obj. acceptable key \<and> ValidateKey E key \<and> checked_header E (string_of ciphertext) = Inr () \<and>
    JoseParse E (string_of ciphertext) = Some obj \<and> JoseDecrypt E obj key = Some plaintext \<and>
    0 < length plaintext \<and> length plaintext \<le> MaxJWEPlaintextBytes"
  using assms
  by (auto simp: DecryptJWE_def andThen_eq_Inr checked_key_def split: if_splits option.splits)

end
