(* ===== verification/Quotes.thy ===== *)
theory Quotes
  imports Complex_Main GoLib "HOL-Library.Product_Lexorder"
begin

text \<open>
  \<open>dex/engine.go\<close> with the types of \<open>common/dexmodel/dex.go\<close>: one quote for every candidate, each
  from its own goroutine, and the ranking of the answers. Fields that several structs share carry the
  initial of their struct. The double-precision operations are the fields of \<open>floats\<close>; what a channel
  answers is a parameter, and so is whether the deadline has passed at the end.
\<close>

section \<open>Floating-point numbers\<close>

text \<open>\<open>FormatDigits d x\<close> is the verb \<open>%.df\<close>, \<open>FormatShortest\<close> is \<open>strconv.FormatFloat (x, 'f', -1, 64)\<close>.\<close>

record 'f floats =
  OfInt :: "int \<Rightarrow> 'f"
  Less :: "'f \<Rightarrow> 'f \<Rightarrow> bool"
  Equal :: "'f \<Rightarrow> 'f \<Rightarrow> bool"
  Plus :: "'f \<Rightarrow> 'f \<Rightarrow> 'f"
  Minus :: "'f \<Rightarrow> 'f \<Rightarrow> 'f"
  Times :: "'f \<Rightarrow> 'f \<Rightarrow> 'f"
  Divide :: "'f \<Rightarrow> 'f \<Rightarrow> 'f"
  TwentiethPart :: 'f
  OfRat :: "rat \<Rightarrow> 'f"
  RatSetString :: "string \<Rightarrow> rat option"
  ParseFloat :: "string \<Rightarrow> 'f"
  FormatShortest :: "'f \<Rightarrow> string"
  FormatDigits :: "nat \<Rightarrow> 'f \<Rightarrow> string"

section \<open>Data\<close>

record DexWarning =
  Code :: string
  Message :: string

record DexTx =
  DexTo :: string
  DexData :: string
  DexValue :: string
  DexGasPrice :: string
  DexGasLimit :: string
  DexFeeLimit :: string

record DexApproval =
  ApprovalToken :: string
  Spender :: string
  ApprovalAmount :: string

record 'f Candidate =
  cChannel :: string
  Via :: string
  cFromChain :: string
  cFromToken :: string
  cFromAddress :: string
  cToChain :: string
  cToToken :: string
  cToAddress :: string
  cToDecimals :: int
  cLiquidityUsd :: 'f
  cSourceIssuer :: string
  cFromCoinCode :: string
  cToCoinCode :: string

record 'f Request =
  qFromAmount :: string
  SlippageBps :: int
  Timeout :: int
  FromAmountUsd :: 'f
  ToPriceUsd :: 'f
  qFeeRate :: string
  qFeeReceiver :: string
  qUserOps :: "string list"
  qRefundAddress :: string
  qContractCaller :: string
  qFeeBps :: string
  qFeeTakerAddress :: string
  qRefuel :: "bool option"
  qDestinationPayload :: string
  qDestinationGasLimit :: string
  qIncludeProvider :: string
  qExcludeProvider :: string
  qExchange :: string
  qIncludeQuoteRejections :: "bool option"
  qPrivate :: "bool option"
  qSimulatedQuotesRequired :: "bool option"
  qSolanaSponsorAddress :: string
  qEquipmentNo :: string
  qSourceType :: string
  qFixedRateFlag :: "int option"
  ScamCheck :: "(string \<Rightarrow> string \<Rightarrow> bool) option"

record DexQuoteIn =
  FromChain :: string
  ToChain :: string
  FromToken :: string
  ToToken :: string
  FromAddress :: string
  ToAddress :: string
  FromAmount :: string
  Slippage :: string
  FeeRate :: string
  FeeReceiver :: string
  FromValueUsd :: string
  GasOnDestination :: string
  UserOps :: "string list"
  RefundAddress :: string
  ContractCaller :: string
  FeeBps :: string
  FeeTakerAddress :: string
  Refuel :: "bool option"
  DestinationPayload :: string
  DestinationGasLimit :: string
  IncludeProvider :: string
  ExcludeProvider :: string
  Exchange :: string
  IncludeQuoteRejections :: "bool option"
  Private :: "bool option"
  SimulatedQuotesRequired :: "bool option"
  SolanaSponsorAddress :: string
  EquipmentNo :: string
  SourceType :: string
  FromCoinCode :: string
  ToCoinCode :: string
  FixedRateFlag :: "int option"

record 'f DexRoute =
  dRouteId :: string
  RequestHash :: string
  DexName :: string
  AmountOut :: string
  dAmountOutMin :: string
  dSlippage :: 'f
  SuggestedSlippage :: 'f
  FeeInUsd :: string
  EstimatedTime :: int
  dNeedBuild :: bool
  Gasless :: bool
  RequestId :: string
  dTxData :: "DexTx option"
  dApprovalData :: "DexApproval option"
  UserOp :: string
  SignTypedData :: bytes
  dSubmitRequest :: bytes
  dTrustedSpenders :: "string list"
  dPriceImpactPct :: 'f
  dWarnings :: "DexWarning list"
  RouteGasLimit :: string
  dRouteTags :: "string list"
  dExpiresAt :: int

record 'f DexQuoteOut =
  oChannel :: string
  oRoutes :: "'f DexRoute list"

record 'f Route =
  Rank :: int
  Recommended :: bool
  rCrossChain :: bool
  rFromChain :: string
  rFromToken :: string
  rToChain :: string
  rToToken :: string
  rToDecimals :: int
  rSourceIssuer :: string
  ToAmount :: string
  ToAmountUsd :: 'f
  ExpectedFillUsd :: 'f
  rChannel :: string
  rRouteId :: string
  rAmountOutMin :: string
  rNeedBuild :: bool
  rTxData :: "DexTx option"
  rApprovalData :: "DexApproval option"
  rTrustedSpenders :: "string list"
  FeeUsd :: 'f
  rPriceImpactPct :: 'f
  rLiquidityUsd :: 'f
  EstSeconds :: int
  rRouteTags :: "string list"
  rExpiresAt :: int
  rSubmitRequest :: bytes
  rWarnings :: "DexWarning list"
  rReason :: string

record CandidateFailure =
  fFromChain :: string
  fToChain :: string
  fToToken :: string
  fSourceIssuer :: string
  fCode :: string
  RetryAfterSeconds :: int

record 'f Response =
  Routes :: "'f Route list"
  Failures :: "CandidateFailure list"
  Reason :: string
  ReasonMessage :: string

text \<open>
  An error as \<open>classifyQuoteFailure\<close> looks at it: whether it wraps a configuration error, the status
  and retry delay of the HTTP status error it wraps, whether it is the end of the deadline, its text.
\<close>

record quote_err =
  AsConfiguration :: bool
  AsHTTPStatus :: "(int \<times> int) option"
  IsDeadlineExceeded :: bool
  ErrorText :: string

record 'f quote_result =
  Cand :: "'f Candidate"
  Out :: "'f DexQuoteOut option"
  Err :: "quote_err option"

section \<open>Classification\<close>

definition WarnThinLiquidity :: string where "WarnThinLiquidity = ''THIN_LIQUIDITY''"
definition WarnPriceImpactHigh :: string where "WarnPriceImpactHigh = ''PRICE_IMPACT_HIGH''"
definition FailureRateLimited :: string where "FailureRateLimited = ''RATE_LIMITED''"
definition FailureTimeout :: string where "FailureTimeout = ''TIMEOUT''"
definition FailureProvider :: string where "FailureProvider = ''PROVIDER_ERROR''"
definition FailureNoRoute :: string where "FailureNoRoute = ''NO_ROUTE''"
definition FailureConfig :: string where "FailureConfig = ''CONFIGURATION_ERROR''"

definition CrossChain :: "('f, 'a) Candidate_scheme \<Rightarrow> bool" where
  "CrossChain c \<longleftrightarrow> cFromChain c \<noteq> cToChain c"

text \<open>
  \<open>strings.ToLower\<close> as far as ASCII text is concerned: beside the ASCII letters only the runes
  \<open>U+0130\<close> and \<open>U+212A\<close> have an ASCII letter as their lower case; every other rune keeps out of ASCII.
\<close>

definition lower_char :: "char \<Rightarrow> char" where
  "lower_char c = (if 65 \<le> char_nat c \<and> char_nat c \<le> 90 then char_of (char_nat c + 32) else c)"

fun ToLower :: "string \<Rightarrow> string" where
  "ToLower [] = []"
| "ToLower (c # s) =
     (if char_nat c = 0xc4 \<and> s \<noteq> [] \<and> char_nat (hd s) = 0xb0 then CHR ''i'' # ToLower (tl s)
      else if char_nat c = 0xe2 \<and> length s \<ge> 2 \<and> char_nat (s ! 0) = 0x84 \<and> char_nat (s ! 1) = 0xaa
      then CHR ''k'' # ToLower (drop 2 s)
      else lower_char c # ToLower s)"

definition retry_delay :: "quote_err \<Rightarrow> int option" where
  "retry_delay err =
     (case AsHTTPStatus err of
        None \<Rightarrow> None
      | Some (status, retry) \<Rightarrow> if status = 429 then Some retry else None)"

definition classifyQuoteFailure :: "quote_err option \<Rightarrow> string \<times> int" where
  "classifyQuoteFailure e =
     (case e of
        None \<Rightarrow> (FailureProvider, 0)
      | Some err \<Rightarrow>
          if AsConfiguration err then (FailureConfig, 0)
          else case retry_delay err of
            Some retry \<Rightarrow> (FailureRateLimited, retry)
          | None \<Rightarrow>
            if IsDeadlineExceeded err then (FailureTimeout, 0)
            else
              let errText = ToLower (ErrorText err)
              in if strings_Contains errText ''rate limit'' \<or> strings_Contains errText ''status=429'' \<or>
                    strings_Contains errText ''statuscode=429'' \<or> strings_Contains errText ''error code: 1015''
                 then (FailureRateLimited, 0) else (FailureProvider, 0))"

definition candidateFailure :: "'f Candidate option \<Rightarrow> string \<Rightarrow> int \<Rightarrow> CandidateFailure" where
  "candidateFailure c code retryAfterSeconds =
     (case c of
        None \<Rightarrow> \<lparr>fFromChain = [], fToChain = [], fToToken = [], fSourceIssuer = [], fCode = code,
          RetryAfterSeconds = retryAfterSeconds\<rparr>
      | Some c \<Rightarrow> \<lparr>fFromChain = cFromChain c, fToChain = cToChain c, fToToken = cToToken c,
          fSourceIssuer = cSourceIssuer c, fCode = code, RetryAfterSeconds = retryAfterSeconds\<rparr>)"

definition IsRouteUnsafe :: "'f Route option \<Rightarrow> bool" where
  "IsRouteUnsafe r \<longleftrightarrow>
     (case r of
        None \<Rightarrow> False
      | Some r \<Rightarrow> list_ex (\<lambda>w. Code w = WarnPriceImpactHigh \<or> Code w = WarnThinLiquidity) (rWarnings r))"

definition AtLeast :: "'f floats \<Rightarrow> 'f \<Rightarrow> 'f \<Rightarrow> bool" where
  "AtLeast F x y \<longleftrightarrow> Less F y x \<or> Equal F x y"

definition FormatUSD :: "'f floats \<Rightarrow> 'f \<Rightarrow> string" where
  "FormatUSD F v =
     (if AtLeast F v (OfInt F 1000000) then ''$'' @ FormatDigits F 1 (Divide F v (OfInt F 1000000)) @ ''M''
      else if AtLeast F v (OfInt F 1000) then ''$'' @ FormatDigits F 1 (Divide F v (OfInt F 1000)) @ ''k''
      else ''$'' @ FormatDigits F 0 v)"

definition ReasonFor :: "'f floats \<Rightarrow> 'f Candidate option \<Rightarrow> string \<Rightarrow> string" where
  "ReasonFor F c channel =
     (case c of
        None \<Rightarrow> []
      | Some c \<Rightarrow>
          if CrossChain c then ''cross-chain via '' @ channel @ '' ('' @ cToChain c @ '' pool)''
          else if Less F (OfInt F 0) (cLiquidityUsd c) then ''same-chain, liq '' @ FormatUSD F (cLiquidityUsd c)
          else ''same-chain'')"

definition RawToHuman :: "'f floats \<Rightarrow> string \<Rightarrow> int \<Rightarrow> 'f" where
  "RawToHuman F raw decimals =
     (if raw = [] \<or> decimals \<le> 0 then OfInt F 0
      else case RatSetString F raw of
        None \<Rightarrow> OfInt F 0
      | Some r \<Rightarrow> OfRat F (r / 10 ^ nat decimals))"

section \<open>What is asked\<close>

definition DefaultTimeout :: int where "DefaultTimeout = 5000000000"

definition slippagePct :: "'f floats \<Rightarrow> 'f Request \<Rightarrow> string" where
  "slippagePct F req =
     (if SlippageBps req > 0 then FormatShortest F (Divide F (OfInt F (SlippageBps req)) (OfInt F 100)) else ''1'')"

definition quote_timeout :: "'f Request \<Rightarrow> int" where
  "quote_timeout req = (if Timeout req \<le> 0 then DefaultTimeout else Timeout req)"

definition quote_in :: "'f floats \<Rightarrow> 'f Request \<Rightarrow> 'f Candidate \<Rightarrow> DexQuoteIn" where
  "quote_in F req c = \<lparr>
     FromChain = cFromChain c, ToChain = cToChain c, FromToken = cFromToken c, ToToken = cToToken c,
     FromAddress = cFromAddress c, ToAddress = cToAddress c, FromAmount = qFromAmount req,
     Slippage = slippagePct F req, FeeRate = (if qFeeRate req = [] then ''0'' else qFeeRate req),
     FeeReceiver = qFeeReceiver req, FromValueUsd = [], GasOnDestination = [], UserOps = qUserOps req,
     RefundAddress = qRefundAddress req, ContractCaller = qContractCaller req, FeeBps = qFeeBps req,
     FeeTakerAddress = qFeeTakerAddress req, Refuel = qRefuel req,
     DestinationPayload = qDestinationPayload req, DestinationGasLimit = qDestinationGasLimit req,
     IncludeProvider = qIncludeProvider req, ExcludeProvider = qExcludeProvider req,
     Exchange = qExchange req, IncludeQuoteRejections = qIncludeQuoteRejections req,
     Private = qPrivate req, SimulatedQuotesRequired = qSimulatedQuotesRequired req,
     SolanaSponsorAddress = qSolanaSponsorAddress req, EquipmentNo = qEquipmentNo req,
     SourceType = qSourceType req, FromCoinCode = cFromCoinCode c, ToCoinCode = cToCoinCode c,
     FixedRateFlag = qFixedRateFlag req\<rparr>"

definition scam_error :: "'f Candidate \<Rightarrow> quote_err" where
  "scam_error c = \<lparr>AsConfiguration = False, AsHTTPStatus = None, IsDeadlineExceeded = False,
     ErrorText = ''scam-filtered: '' @ cToChain c @ ''/'' @ cToToken c\<rparr>"

definition scam_filtered :: "'f Request \<Rightarrow> 'f Candidate \<Rightarrow> bool" where
  "scam_filtered req c \<longleftrightarrow> (case ScamCheck req of None \<Rightarrow> False | Some check \<Rightarrow> check (cToChain c) (cToToken c))"

text \<open>
  What the goroutine of a candidate may store: the filter's error, or what the channel answers.
  A channel may answer anything, also neither a quote nor an error.
\<close>

type_synonym 'f channel = "'f Candidate \<Rightarrow> DexQuoteIn \<Rightarrow> 'f DexQuoteOut option \<times> quote_err option \<Rightarrow> bool"

definition outcome :: "'f floats \<Rightarrow> 'f Request \<Rightarrow> 'f channel \<Rightarrow> 'f Candidate \<Rightarrow> 'f quote_result \<Rightarrow> bool" where
  "outcome F req quote c r \<longleftrightarrow>
     (if scam_filtered req c then r = \<lparr>Cand = c, Out = None, Err = Some (scam_error c)\<rparr>
      else Cand r = c \<and> quote c (quote_in F req c) (Out r, Err r))"

section \<open>The goroutines\<close>

text \<open>
  The loop has started the first \<open>spawned\<close> goroutines; \<open>running\<close> are those that have not stored
  their result, \<open>waiting\<close> is the counter of the wait group, and \<open>joined\<close> that \<open>Wait\<close> has returned.
  A slot is \<open>None\<close> until its goroutine writes it. The write and \<open>Done\<close> are one step: no one reads
  the slot in between.
\<close>

record 'r fan_out =
  spawned :: nat
  running :: "nat set"
  slots :: "'r option list"
  waiting :: nat
  joined :: bool

definition fan_start :: "nat \<Rightarrow> 'r fan_out" where
  "fan_start n = \<lparr>spawned = 0, running = {}, slots = replicate n None, waiting = 0, joined = False\<rparr>"

inductive fan_step :: "(nat \<Rightarrow> 'r \<Rightarrow> bool) \<Rightarrow> 'r fan_out \<Rightarrow> 'r fan_out \<Rightarrow> bool" for answers where
  spawn: "spawned s < length (slots s) \<Longrightarrow>
    fan_step answers s (s\<lparr>spawned := spawned s + 1, running := insert (spawned s) (running s), waiting := waiting s + 1\<rparr>)"
| store: "i \<in> running s \<Longrightarrow> answers i r \<Longrightarrow>
    fan_step answers s (s\<lparr>running := running s - {i}, slots := (slots s)[i := Some r], waiting := waiting s - 1\<rparr>)"
| join: "spawned s = length (slots s) \<Longrightarrow> waiting s = 0 \<Longrightarrow> \<not> joined s \<Longrightarrow>
    fan_step answers s (s\<lparr>joined := True\<rparr>)"

section \<open>The answer\<close>

definition ThinLiquidityRatio :: "'f floats \<Rightarrow> 'f" where
  "ThinLiquidityRatio F = TwentiethPart F"

definition expected_fill :: "'f floats \<Rightarrow> 'f Request \<Rightarrow> 'f Candidate \<Rightarrow> 'f DexRoute \<Rightarrow> 'f \<Rightarrow> 'f" where
  "expected_fill F req c best gross =
     (if Less F (OfInt F 0) (dPriceImpactPct best) then
        Times F gross (Minus F (OfInt F 1) (Divide F (dPriceImpactPct best) (OfInt F 100)))
      else if Less F (OfInt F 0) (FromAmountUsd req) \<and> Less F (OfInt F 0) (cLiquidityUsd c) then
        Times F gross (Divide F (cLiquidityUsd c) (Plus F (cLiquidityUsd c) (FromAmountUsd req)))
      else OfInt F 0)"

definition thin_warning :: "'f floats \<Rightarrow> 'f Request \<Rightarrow> 'f \<Rightarrow> DexWarning list" where
  "thin_warning F req liquidity =
     (if Less F (OfInt F 0) (FromAmountUsd req) \<and> Less F (OfInt F 0) liquidity \<and>
         Less F (Times F liquidity (ThinLiquidityRatio F)) (FromAmountUsd req)
      then [\<lparr>Code = WarnThinLiquidity,
        Message = ''this trade is '' @ FormatDigits F 0 (Times F (Divide F (FromAmountUsd req) liquidity) (OfInt F 100)) @
          ''% of the pool ($'' @ FormatDigits F 0 (FromAmountUsd req) @ '' of $'' @ FormatDigits F 0 liquidity @
          '') '' @ [CHR 0xe2, CHR 0x80, CHR 0x94] @ '' real fill will be much worse than quoted''\<rparr>]
      else [])"

definition route_of ::
  "'f floats \<Rightarrow> 'f Request \<Rightarrow> 'f Candidate \<Rightarrow> 'f DexQuoteOut \<Rightarrow> 'f DexRoute \<Rightarrow> 'f Route"
where
  "route_of F req c quoted best =
     (let gross = Times F (RawToHuman F (AmountOut best) (cToDecimals c)) (ToPriceUsd req);
          channel = (if oChannel quoted = [] then cChannel c else oChannel quoted)
      in \<lparr>Rank = 0, Recommended = False, rCrossChain = CrossChain c, rFromChain = cFromChain c,
        rFromToken = cFromToken c, rToChain = cToChain c, rToToken = cToToken c, rToDecimals = cToDecimals c,
        rSourceIssuer = cSourceIssuer c, ToAmount = AmountOut best, ToAmountUsd = gross,
        ExpectedFillUsd = expected_fill F req c best gross, rChannel = channel, rRouteId = dRouteId best,
        rAmountOutMin = dAmountOutMin best, rNeedBuild = dNeedBuild best, rTxData = dTxData best,
        rApprovalData = dApprovalData best, rTrustedSpenders = dTrustedSpenders best,
        FeeUsd = ParseFloat F (FeeInUsd best), rPriceImpactPct = dPriceImpactPct best,
        rLiquidityUsd = cLiquidityUsd c, EstSeconds = EstimatedTime best, rRouteTags = dRouteTags best,
        rExpiresAt = dExpiresAt best, rSubmitRequest = dSubmitRequest best,
        rWarnings = dWarnings best @ thin_warning F req (cLiquidityUsd c),
        rReason = ReasonFor F (Some c) channel\<rparr>)"

text \<open>The counters and flags of the loop over the results.\<close>

record 'f tally =
  found :: "'f Route list"
  failed :: "CandidateFailure list"
  providerErrors :: nat
  configurationErrors :: nat
  emptyResponses :: nat
  timedOut :: bool
  rateLimited :: bool

definition count_result :: "'f floats \<Rightarrow> 'f Request \<Rightarrow> 'f tally \<Rightarrow> 'f quote_result \<Rightarrow> 'f tally" where
  "count_result F req t r =
     (case Err r of
        Some e \<Rightarrow>
          let (code, retryAfter) = classifyQuoteFailure (Some e)
          in t\<lparr>providerErrors := providerErrors t + 1,
               configurationErrors := configurationErrors t + (if code = FailureConfig then 1 else 0),
               timedOut := (timedOut t \<or> code = FailureTimeout),
               rateLimited := (rateLimited t \<or> code = FailureRateLimited),
               failed := failed t @ [candidateFailure (Some (Cand r)) code retryAfter]\<rparr>
      | None \<Rightarrow>
        (case Out r of
           None \<Rightarrow> t\<lparr>providerErrors := providerErrors t + 1,
             failed := failed t @ [candidateFailure (Some (Cand r)) FailureProvider 0]\<rparr>
         | Some quoted \<Rightarrow>
           (case oRoutes quoted of
              [] \<Rightarrow> t\<lparr>emptyResponses := emptyResponses t + 1,
                failed := failed t @ [candidateFailure (Some (Cand r)) FailureNoRoute 0]\<rparr>
            | best # _ \<Rightarrow> t\<lparr>found := found t @ [route_of F req (Cand r) quoted best]\<rparr>)))"

definition tally_start :: "'f tally" where
  "tally_start = \<lparr>found = [], failed = [], providerErrors = 0, configurationErrors = 0, emptyResponses = 0,
     timedOut = False, rateLimited = False\<rparr>"

definition sort_key :: "'f floats \<Rightarrow> 'f Route \<Rightarrow> 'f" where
  "sort_key F r = (if Equal F (ExpectedFillUsd r) (OfInt F 0) then ToAmountUsd r else ExpectedFillUsd r)"

definition route_before :: "'f floats \<Rightarrow> 'f Route \<Rightarrow> 'f Route \<Rightarrow> bool" where
  "route_before F a b =
     (if IsRouteUnsafe (Some a) \<noteq> IsRouteUnsafe (Some b) then \<not> IsRouteUnsafe (Some a)
      else if \<not> Equal F (sort_key F a) (sort_key F b) then Less F (sort_key F b) (sort_key F a)
      else \<not> rCrossChain a \<and> rCrossChain b)"

text \<open>
  \<open>sort.SliceStable\<close>: insertion from the right, which is what it does up to 20 elements, and what its
  merges amount to for an order that is one. The prefix sorted so far is kept in reverse.
\<close>

fun insert_back :: "('a \<Rightarrow> 'a \<Rightarrow> bool) \<Rightarrow> 'a \<Rightarrow> 'a list \<Rightarrow> 'a list" where
  "insert_back before x [] = [x]"
| "insert_back before x (y # ys) = (if before x y then y # insert_back before x ys else x # y # ys)"

definition SliceStable :: "('a \<Rightarrow> 'a \<Rightarrow> bool) \<Rightarrow> 'a list \<Rightarrow> 'a list" where
  "SliceStable before xs = rev (foldl (\<lambda>acc x. insert_back before x acc) [] xs)"

definition ranked :: "'f Route list \<Rightarrow> 'f Route list" where
  "ranked rs = map (\<lambda>i. (rs ! i)\<lparr>Rank := int i + 1, Recommended := (i = 0 \<and> \<not> IsRouteUnsafe (Some (rs ! i)))\<rparr>)
     [0..<length rs]"

definition no_route_reason :: "bool \<Rightarrow> 'f tally \<Rightarrow> string \<times> string" where
  "no_route_reason deadline t =
     (if configurationErrors t > 0 then (''QUOTE_CONFIGURATION_ERROR'',
        ''one or more requested quote channels are not configured for the selected chain'')
      else if deadline \<or> timedOut t then (''QUOTE_TIMEOUT'',
        ''quote request timed out '' @ [CHR 0xe2, CHR 0x80, CHR 0x94] @ '' try again'')
      else if rateLimited t then (''QUOTE_RATE_LIMITED'',
        ''quote provider is busy '' @ [CHR 0xe2, CHR 0x80, CHR 0x94] @ '' wait a moment and try again'')
      else if providerErrors t > 0 then (''QUOTE_PROVIDER_ERROR'',
        ''quote provider could not complete the request '' @ [CHR 0xe2, CHR 0x80, CHR 0x94] @ '' try again'')
      else if emptyResponses t > 0 then (''NO_ROUTE_AVAILABLE'', ''no route is available for this pair at the moment'')
      else (''NO_ROUTE_AVAILABLE'', ''no route is available at the moment''))"

definition respond :: "'f floats \<Rightarrow> 'f Request \<Rightarrow> bool \<Rightarrow> 'f quote_result list \<Rightarrow> 'f Response" where
  "respond F req deadline results =
     (let t = foldl (count_result F req) tally_start results;
          out = ranked (SliceStable (route_before F) (found t));
          (reason, message) = (if out = [] then no_route_reason deadline t else ([], []))
      in \<lparr>Routes = out, Failures = failed t, Reason = reason, ReasonMessage = message\<rparr>)"

text \<open>
  \<open>Engine.Quote\<close>: the requests refused before any goroutine is started, and the response to the
  results the goroutines have stored.
\<close>

definition refused :: "'f Request option \<Rightarrow> bool \<Rightarrow> 'f Candidate list \<Rightarrow> string option" where
  "refused req has_quote cands =
     (case req of
        None \<Rightarrow> Some ''INVALID_REQUEST''
      | Some req \<Rightarrow>
          if \<not> has_quote then Some ''INVALID_REQUEST''
          else if length cands = 0 then Some ''NO_CANDIDATE''
          else if big_SetString (qFromAmount req) = None then Some ''INVALID_AMOUNT''
          else None)"

inductive Quote ::
  "'f floats \<Rightarrow> 'f Request option \<Rightarrow> 'f Candidate list \<Rightarrow> 'f channel option \<Rightarrow> 'f Response \<Rightarrow> bool"
  for F req cands quote
where
  refuse: "refused req (quote \<noteq> None) cands = Some reason \<Longrightarrow>
    Quote F req cands quote \<lparr>Routes = [], Failures = [], Reason = reason, ReasonMessage = []\<rparr>"
| answer: "refused req (quote \<noteq> None) cands = None \<Longrightarrow>
    (fan_step (\<lambda>i. outcome F (the req) (the quote) (cands ! i)))\<^sup>*\<^sup>* (fan_start (length cands)) s \<Longrightarrow> joined s \<Longrightarrow>
    Quote F req cands quote (respond F (the req) deadline (map the (slots s)))"

section \<open>Every run of the goroutines ends\<close>

inductive_cases fan_stepE: "fan_step answers s s'"

definition fan_ok :: "(nat \<Rightarrow> 'r \<Rightarrow> bool) \<Rightarrow> nat \<Rightarrow> 'r fan_out \<Rightarrow> bool" where
  "fan_ok answers n s \<longleftrightarrow>
     length (slots s) = n \<and> spawned s \<le> n \<and> running s \<subseteq> {..<spawned s} \<and> waiting s = card (running s) \<and>
     (\<forall>i < spawned s. slots s ! i = None \<longrightarrow> i \<in> running s) \<and> (\<forall>i<n. \<forall>r. slots s ! i = Some r \<longrightarrow> answers i r) \<and>
     (joined s \<longrightarrow> spawned s = n \<and> waiting s = 0)"

definition fan_left :: "'r fan_out \<Rightarrow> nat" where
  "fan_left s = 2 * (length (slots s) - spawned s) + card (running s) + (if joined s then 0 else 1)"

lemma fan_ok_start: "fan_ok answers n (fan_start n)"
  by (simp add: fan_ok_def fan_start_def)

lemma fan_left_start: "fan_left (fan_start n) = 2 * n + 1"
  by (simp add: fan_left_def fan_start_def)

lemma fan_ok_running: "fan_ok answers n s \<Longrightarrow> finite (running s)"
  by (auto simp: fan_ok_def intro: finite_subset)

lemma fan_okD:
  assumes "fan_ok answers n s"
  shows "length (slots s) = n" "spawned s \<le> n" "running s \<subseteq> {..<spawned s}" "waiting s = card (running s)"
    "i < spawned s \<Longrightarrow> slots s ! i = None \<Longrightarrow> i \<in> running s" "i < n \<Longrightarrow> slots s ! i = Some r \<Longrightarrow> answers i r"
    "joined s \<Longrightarrow> spawned s = n \<and> waiting s = 0"
  using assms by (auto simp: fan_ok_def)

lemma fan_step_ok:
  assumes "fan_step answers s s'" "fan_ok answers n s"
  shows "fan_ok answers n s' \<and> fan_left s = Suc (fan_left s')"
  using assms(1)
proof (cases rule: fan_step.cases)
  case spawn
  note ok = fan_okD [OF assms(2)]
  have new: "spawned s \<notin> running s" and not_joined: "\<not> joined s" using ok(1,3,7) spawn(2) by auto
  have card: "card (insert (spawned s) (running s)) = Suc (card (running s))"
    using new fan_ok_running [OF assms(2)] by simp
  have "fan_ok answers n s'"
    unfolding fan_ok_def spawn(1)
    using ok(1,3,4,5,6) spawn(2) card not_joined by (auto simp: less_Suc_eq)
  moreover have "fan_left s = Suc (fan_left s')"
    unfolding fan_left_def spawn(1) using spawn(2) card by simp
  ultimately show ?thesis ..
next
  case (store i r)
  note ok = fan_okD [OF assms(2)]
  have card: "card (running s) = Suc (card (running s - {i}))"
    using store(2) fan_ok_running [OF assms(2)] by (rule card.remove [rotated])
  then have not_joined: "\<not> joined s" using ok(4,7) by auto
  have "i < length (slots s)" using ok(1-3) store(2) by auto
  then have slot: "(slots s)[i := Some r] ! j = (if j = i then Some r else slots s ! j)" for j
    by (cases "j = i") simp_all
  have "\<forall>j < spawned s. (slots s)[i := Some r] ! j = None \<longrightarrow> j \<in> running s - {i}"
    using ok(5) by (simp add: slot)
  moreover have "\<forall>j<n. \<forall>x. (slots s)[i := Some r] ! j = Some x \<longrightarrow> answers j x"
    using ok(6) store(3) by (simp add: slot)
  moreover have "running s - {i} \<subseteq> {..<spawned s}" using ok(3) by blast
  moreover have "waiting s - 1 = card (running s - {i})" using ok(4) card by simp
  ultimately have "fan_ok answers n s'"
    unfolding fan_ok_def store(1) using ok(1,2) not_joined by simp
  moreover have "fan_left s = Suc (fan_left s')"
    unfolding fan_left_def store(1) using card by simp
  ultimately show ?thesis ..
next
  case join
  then show ?thesis using fan_okD [OF assms(2)] assms(2) by (simp add: fan_ok_def fan_left_def)
qed

lemma fan_run_ok:
  "(fan_step answers ^^ k) s s' \<Longrightarrow> fan_ok answers n s \<Longrightarrow> fan_ok answers n s' \<and> fan_left s = k + fan_left s'"
proof (induction k arbitrary: s')
  case (Suc k)
  then obtain t where "(fan_step answers ^^ k) s t" "fan_step answers t s'" by (auto elim: relpowp_Suc_E)
  with Suc fan_step_ok show ?case by fastforce
qed simp

lemma fan_left_joined: "fan_ok answers n s \<Longrightarrow> fan_left s = 0 \<longleftrightarrow> joined s"
  by (auto simp: fan_ok_def fan_left_def)

lemma fan_progress:
  assumes "fan_ok answers n s" "\<not> joined s" "\<And>i. i < n \<Longrightarrow> \<exists>r. answers i r"
  shows "\<exists>s'. fan_step answers s s'"
proof -
  consider "spawned s < length (slots s)" | i where "i \<in> running s"
    | "spawned s = length (slots s)" "running s = {}"
    using assms(1) by (auto simp: fan_ok_def le_less)
  then show ?thesis
  proof cases
    case 2
    then have "i < n" using assms(1) by (auto simp: fan_ok_def)
    with assms(3) obtain r where "answers i r" by blast
    with 2 show ?thesis by (blast intro: fan_step.store)
  next
    case 1
    then show ?thesis by (blast intro: fan_step.spawn)
  next
    case 3
    then have "waiting s = 0" using assms(1) by (simp add: fan_ok_def)
    with 3 assms(2) show ?thesis by (blast intro: fan_step.join)
  qed
qed

lemma fan_joined_results:
  assumes "fan_ok answers n s" "joined s"
  shows "length (map the (slots s)) = n" "i < n \<Longrightarrow> answers i (map the (slots s) ! i)"
proof -
  have "running s = {}" using assms fan_ok_running [OF assms(1)] by (auto simp: fan_ok_def)
  with assms show "length (map the (slots s)) = n" "i < n \<Longrightarrow> answers i (map the (slots s) ! i)"
    by (auto simp: fan_ok_def)
qed

text \<open>
  C23: Quoting ends: whatever order the goroutines run in, the wait group is released after exactly
  two steps for every candidate and one to join, and until then a step is possible, provided every
  channel answers. No run is longer and none is stuck.
\<close>

theorem quote_fan_out_ends:
  assumes "\<And>c q. \<exists>a. quote c q a"
    and "(fan_step (\<lambda>i. outcome F req quote (cands ! i)) ^^ k) (fan_start (length cands)) s"
  shows "k \<le> 2 * length cands + 1 \<and> (joined s \<longleftrightarrow> k = 2 * length cands + 1) \<and>
    (joined s \<or> (\<exists>s'. fan_step (\<lambda>i. outcome F req quote (cands ! i)) s s'))"
proof -
  let ?answers = "\<lambda>i. outcome F req quote (cands ! i)"
  have ok: "fan_ok ?answers (length cands) s" and left: "2 * length cands + 1 = k + fan_left s"
    using fan_run_ok [OF assms(2) fan_ok_start] by (simp_all add: fan_left_start)
  have "\<exists>r. outcome F req quote c r" for c
  proof -
    obtain o' e where "quote c (quote_in F req c) (o', e)" using assms(1) by (metis surj_pair)
    then have "\<not> scam_filtered req c \<Longrightarrow> outcome F req quote c \<lparr>Cand = c, Out = o', Err = e\<rparr>"
      by (simp add: outcome_def)
    then show ?thesis by (cases "scam_filtered req c") (blast | simp add: outcome_def)+
  qed
  then have "joined s \<or> (\<exists>s'. fan_step ?answers s s')" using fan_progress [OF ok] by blast
  moreover have "k \<le> 2 * length cands + 1" "joined s \<longleftrightarrow> k = 2 * length cands + 1"
    using left fan_left_joined [OF ok] by auto
  ultimately show ?thesis by blast
qed

section \<open>The sort\<close>

lemma mset_insert_back: "mset (insert_back before x ys) = add_mset x (mset ys)"
  by (induction ys) simp_all

lemma insert_back_key:
  assumes "\<And>y. y \<in> set ys \<Longrightarrow> before x y \<longleftrightarrow> (K x :: 'k :: linorder) < K y"
    and "sorted_wrt (\<lambda>a b. K b \<le> K a) ys"
  shows "sorted_wrt (\<lambda>a b. K b \<le> K a) (insert_back before x ys)"
    "filter (\<lambda>y. K y = k) (insert_back before x ys) = filter (\<lambda>y. K y = k) (x # ys)"
proof -
  have members: "set (insert_back before x zs) = insert x (set zs)" for zs
    by (metis mset_insert_back set_mset_mset set_mset_add_mset_insert)
  have "sorted_wrt (\<lambda>a b. K b \<le> K a) (insert_back before x ys) \<and>
    filter (\<lambda>y. K y = k) (insert_back before x ys) = filter (\<lambda>y. K y = k) (x # ys)"
    using assms by (induction ys) (force simp: members)+
  then show "sorted_wrt (\<lambda>a b. K b \<le> K a) (insert_back before x ys)"
    "filter (\<lambda>y. K y = k) (insert_back before x ys) = filter (\<lambda>y. K y = k) (x # ys)" by simp_all
qed

lemma SliceStable_snoc: "SliceStable before (xs @ [x]) = rev (insert_back before x (rev (SliceStable before xs)))"
  by (simp add: SliceStable_def)

lemma mset_SliceStable: "mset (SliceStable before xs) = mset xs"
  by (induction xs rule: rev_induct) (simp_all add: SliceStable_snoc mset_insert_back, simp add: SliceStable_def)

text \<open>For an order given by a key the sort is the stable sort by that key.\<close>

lemma SliceStable_sort_key:
  assumes "\<And>x y. x \<in> set xs \<Longrightarrow> y \<in> set xs \<Longrightarrow> before x y \<longleftrightarrow> (K x :: 'k :: linorder) < K y"
  shows "SliceStable before xs = List.linorder_class.sort_key K xs"
proof -
  have "sorted (map K (SliceStable before xs)) \<and> (\<forall>k. filter (\<lambda>y. K y = k) (SliceStable before xs) = filter (\<lambda>y. K y = k) xs)"
    using assms
  proof (induction xs rule: rev_induct)
    case Nil
    then show ?case by (simp add: SliceStable_def)
  next
    case (snoc x xs)
    let ?ys = "rev (SliceStable before xs)"
    have IH: "sorted_wrt (\<lambda>a b. K b \<le> K a) ?ys" "\<And>k. filter (\<lambda>y. K y = k) ?ys = rev (filter (\<lambda>y. K y = k) xs)"
    proof -
      have ih: "sorted (map K (SliceStable before xs))"
        "\<And>k. filter (\<lambda>y. K y = k) (SliceStable before xs) = filter (\<lambda>y. K y = k) xs" using snoc by simp_all
      show "sorted_wrt (\<lambda>a b. K b \<le> K a) ?ys" using ih(1) by (simp add: sorted_map sorted_wrt_rev)
      show "filter (\<lambda>y. K y = k) ?ys = rev (filter (\<lambda>y. K y = k) xs)" for k
        by (simp only: rev_filter [symmetric] ih(2))
    qed
    have "set ?ys = set xs" by (metis set_rev mset_SliceStable set_mset_mset)
    then have b: "y \<in> set ?ys \<Longrightarrow> before x y \<longleftrightarrow> K x < K y" for y using snoc.prems by auto
    show ?case
      using insert_back_key [where ys = ?ys and before = before and x = x and K = K, OF b IH(1)] IH(2)
      by (simp add: SliceStable_snoc sorted_map sorted_wrt_rev rev_filter [symmetric])
  qed
  then show ?thesis
    by (intro properties_for_sort_key [symmetric]) (auto simp: mset_SliceStable eq_commute)
qed

section \<open>Every candidate is answered\<close>

text \<open>What a result stands for: a route, or else a failure that names the candidate.\<close>

definition answer_route :: "'f floats \<Rightarrow> 'f Request \<Rightarrow> 'f quote_result \<Rightarrow> 'f Route option" where
  "answer_route F req r =
     (if Err r \<noteq> None then None
      else case Out r of None \<Rightarrow> None
      | Some quoted \<Rightarrow> (case oRoutes quoted of [] \<Rightarrow> None | best # _ \<Rightarrow> Some (route_of F req (Cand r) quoted best)))"

definition answer_failure :: "'f quote_result \<Rightarrow> CandidateFailure option" where
  "answer_failure r =
     (case Err r of
        Some e \<Rightarrow> Some (case classifyQuoteFailure (Some e) of (code, retry) \<Rightarrow> candidateFailure (Some (Cand r)) code retry)
      | None \<Rightarrow>
        (case Out r of None \<Rightarrow> Some (candidateFailure (Some (Cand r)) FailureProvider 0)
         | Some quoted \<Rightarrow> if oRoutes quoted = [] then Some (candidateFailure (Some (Cand r)) FailureNoRoute 0) else None))"

lemma route_or_failure: "answer_route F req r = None \<longleftrightarrow> answer_failure r \<noteq> None"
  by (auto simp: answer_route_def answer_failure_def split: option.splits list.splits)

lemma count_results:
  "found (foldl (count_result F req) t results) = found t @ List.map_filter (answer_route F req) results \<and>
   failed (foldl (count_result F req) t results) = failed t @ List.map_filter answer_failure results"
  by (induction results arbitrary: t)
    (auto simp: map_filter_simps count_result_def answer_route_def answer_failure_def split: option.splits list.splits prod.splits)

text \<open>A route without its rank.\<close>

definition unranked :: "'f Route \<Rightarrow> 'f Route" where
  "unranked r = r\<lparr>Rank := 0, Recommended := False\<rparr>"

lemma ranked_simps [simp]:
  "length (ranked rs) = length rs" "ranked rs = [] \<longleftrightarrow> rs = []"
  "i < length rs \<Longrightarrow> Rank (ranked rs ! i) = int i + 1"
  "i < length rs \<Longrightarrow> Recommended (ranked rs ! i) \<longleftrightarrow> i = 0 \<and> \<not> IsRouteUnsafe (Some (rs ! i))"
  "i < length rs \<Longrightarrow> IsRouteUnsafe (Some (ranked rs ! i)) \<longleftrightarrow> IsRouteUnsafe (Some (rs ! i))"
  "i < length rs \<Longrightarrow> sort_key F (ranked rs ! i) = sort_key F (rs ! i)"
  "i < length rs \<Longrightarrow> rCrossChain (ranked rs ! i) = rCrossChain (rs ! i)"
  by (simp_all add: ranked_def IsRouteUnsafe_def sort_key_def)

lemma unranked_ranked: "map unranked (ranked rs) = map unranked rs"
  by (rule nth_equalityI) (simp_all add: ranked_def unranked_def)

lemma answer_route_unranked: "answer_route F req r = Some x \<Longrightarrow> unranked x = x"
  by (auto simp: answer_route_def route_of_def unranked_def Let_def split: if_splits option.splits list.splits)

lemma respond_simps:
  "Failures (respond F req deadline results) = List.map_filter answer_failure results"
  "Routes (respond F req deadline results) = ranked (SliceStable (route_before F) (List.map_filter (answer_route F req) results))"
  "Reason (respond F req deadline results) = [] \<longleftrightarrow> Routes (respond F req deadline results) \<noteq> []"
  using count_results [of F req tally_start results]
  by (simp_all add: respond_def Let_def tally_start_def no_route_reason_def split: prod.splits)

lemma unranked_routes:
  "mset (map unranked (Routes (respond F req deadline results))) = mset (List.map_filter (answer_route F req) results)"
proof -
  let ?found = "List.map_filter (answer_route F req) results"
  have "mset (map unranked (Routes (respond F req deadline results))) = image_mset unranked (mset ?found)"
    by (simp only: respond_simps unranked_ranked mset_map mset_SliceStable)
  also have "\<dots> = mset ?found"
    by (induction results) (auto simp: map_filter_simps answer_route_unranked split: option.splits)
  finally show ?thesis .
qed

lemma answers_count: "length (List.map_filter (answer_route F req) rs) + length (List.map_filter answer_failure rs) = length rs"
proof (induction rs)
  case (Cons r rs)
  then show ?case
    using route_or_failure [of F req r]
    by (cases "answer_route F req r"; cases "answer_failure r") (simp_all add: map_filter_simps)
qed (simp add: map_filter_simps)

lemma quote_answered:
  assumes "Quote F (Some req) cands (Some quote) resp" "refused (Some req) True cands = None"
  obtains results deadline where "list_all2 (outcome F req quote) cands results" "resp = respond F req deadline results"
  using assms(1)
proof (cases rule: Quote.cases)
  case (answer s deadline)
  let ?answers = "\<lambda>i. outcome F req quote (cands ! i)"
  have "(fan_step ?answers)\<^sup>*\<^sup>* (fan_start (length cands)) s" using answer(3) by simp
  then obtain k where "(fan_step ?answers ^^ k) (fan_start (length cands)) s" by (auto simp: rtranclp_power)
  then have ok: "fan_ok ?answers (length cands) s" using fan_run_ok fan_ok_start by blast
  have "list_all2 (outcome F req quote) cands (map the (slots s))"
    using fan_joined_results [OF ok answer(4)] by (intro list_all2_all_nthI) simp_all
  with answer(1) that show thesis by simp
qed (use assms(2) in simp)

text \<open>
  C24: Every candidate is answered, whichever order the goroutines finish in: there are results, one
  for each candidate and each of its own channel, such that the routes are those of the results that
  hold one, in some order, the failures are the others in the order of the candidates, and the reason
  for having no route is given exactly when there is none.
\<close>

theorem every_candidate_answered:
  assumes "Quote F (Some req) cands (Some quote) resp" "refused (Some req) True cands = None"
  shows "\<exists>results. list_all2 (outcome F req quote) cands results \<and>
    mset (map unranked (Routes resp)) = mset (List.map_filter (answer_route F req) results) \<and>
    Failures resp = List.map_filter answer_failure results \<and>
    length (Routes resp) + length (Failures resp) = length cands \<and> (Reason resp = [] \<longleftrightarrow> Routes resp \<noteq> [])"
proof -
  obtain results deadline where r: "list_all2 (outcome F req quote) cands results" "resp = respond F req deadline results"
    by (rule quote_answered [OF assms])
  have "length (Routes resp) = length (List.map_filter (answer_route F req) results)"
    using unranked_routes [of F req deadline results] r(2) by (metis length_map size_mset)
  with r answers_count [of F req results] unranked_routes [of F req deadline results] show ?thesis
    by (intro exI [of _ results]) (simp add: respond_simps list_all2_lengthD)
qed

section \<open>The best route comes first\<close>

lemma routes_ordered:
  assumes "resp = respond F req deadline results"
    and "\<And>a b. a \<in> set (Routes resp) \<Longrightarrow> b \<in> set (Routes resp) \<Longrightarrow>
      (Less F (sort_key F a) (sort_key F b) \<longleftrightarrow> val (sort_key F a) < (val (sort_key F b) :: real)) \<and>
      (Equal F (sort_key F a) (sort_key F b) \<longleftrightarrow> val (sort_key F a) = val (sort_key F b))"
  shows "sorted (map (\<lambda>r. (IsRouteUnsafe (Some r), - val (sort_key F r), rCrossChain r)) (Routes resp))"
proof -
  let ?found = "List.map_filter (answer_route F req) results"
  let ?K = "\<lambda>r. (IsRouteUnsafe (Some r), - val (sort_key F r), rCrossChain r)"
  let ?sorted = "SliceStable (route_before F) ?found"
  have routes: "Routes resp = ranked ?sorted" by (simp add: assms(1) respond_simps)
  have *: "\<exists>a' \<in> set (Routes resp). sort_key F a' = sort_key F a" if "a \<in> set ?found" for a
  proof -
    from that have "a \<in> set ?sorted" by (metis mset_SliceStable set_mset_mset)
    then obtain i where "i < length ?sorted" "?sorted ! i = a" by (metis in_set_conv_nth)
    then show ?thesis by (metis nth_mem ranked_simps(1,6) routes)
  qed
  have "route_before F a b \<longleftrightarrow> ?K a < ?K b" if "a \<in> set ?found" "b \<in> set ?found" for a b
  proof -
    have "(Less F (sort_key F b) (sort_key F a) \<longleftrightarrow> val (sort_key F b) < val (sort_key F a)) \<and>
      (Equal F (sort_key F a) (sort_key F b) \<longleftrightarrow> val (sort_key F a) = val (sort_key F b))"
      using * [OF that(1)] * [OF that(2)] assms(2) by metis
    then show ?thesis by (auto simp: route_before_def less_prod_def' less_bool_def)
  qed
  then have "?sorted = List.linorder_class.sort_key ?K ?found" by (rule SliceStable_sort_key)
  then have "sorted (map ?K ?sorted)" by simp
  moreover have "map ?K (ranked ?sorted) = map ?K ?sorted" by (rule nth_equalityI) simp_all
  ultimately show ?thesis by (simp add: routes)
qed

text \<open>
  C25: The routes are ranked: the ranks count from one, only the first route can be recommended, and
  it is whenever some route is safe. It is then the best of the safe routes: none of them promises
  more, and none as much on one chain when it crosses chains. The keys of the routes must be numbers:
  \<open>val\<close> reads the floating-point values that are not NaN.
\<close>

theorem best_route_first:
  assumes "Quote F (Some req) cands (Some quote) resp" "refused (Some req) True cands = None"
    and "\<And>a b. a \<in> set (Routes resp) \<Longrightarrow> b \<in> set (Routes resp) \<Longrightarrow>
      (Less F (sort_key F a) (sort_key F b) \<longleftrightarrow> val (sort_key F a) < (val (sort_key F b) :: real)) \<and>
      (Equal F (sort_key F a) (sort_key F b) \<longleftrightarrow> val (sort_key F a) = val (sort_key F b))"
  shows "map Rank (Routes resp) = map int [1..<length (Routes resp) + 1] \<and>
    (\<forall>i < length (Routes resp). Recommended (Routes resp ! i) \<longrightarrow> i = 0 \<and> \<not> IsRouteUnsafe (Some (Routes resp ! i))) \<and>
    (\<forall>r \<in> set (Routes resp). \<not> IsRouteUnsafe (Some r) \<longrightarrow> Recommended (hd (Routes resp)) \<and>
      (val (sort_key F r) < val (sort_key F (hd (Routes resp))) \<or>
       val (sort_key F r) = val (sort_key F (hd (Routes resp))) \<and> (rCrossChain (hd (Routes resp)) \<longrightarrow> rCrossChain r)))"
proof -
  obtain results deadline where r: "resp = respond F req deadline results"
    by (rule quote_answered [OF assms(1,2)])
  let ?K = "\<lambda>r. (IsRouteUnsafe (Some r), - val (sort_key F r), rCrossChain r)"
  let ?rs = "Routes resp"
  obtain rs where rs: "?rs = ranked rs" by (simp add: r respond_simps)
  have ordered: "sorted (map ?K ?rs)" by (rule routes_ordered [OF r assms(3)])
  have first: "?K (hd ?rs) \<le> ?K x" if "x \<in> set ?rs" for x
    using that ordered by (cases ?rs) auto
  have ranks: "map Rank ?rs = map int [1..<length ?rs + 1]"
    by (rule nth_equalityI) (simp_all add: rs del: upt_Suc)
  have only: "Recommended (?rs ! i) \<longleftrightarrow> i = 0 \<and> \<not> IsRouteUnsafe (Some (?rs ! i))" if "i < length ?rs" for i
    using that by (simp add: rs)
  have "Recommended (hd ?rs) \<and> (val (sort_key F x) < val (sort_key F (hd ?rs)) \<or>
       val (sort_key F x) = val (sort_key F (hd ?rs)) \<and> (rCrossChain (hd ?rs) \<longrightarrow> rCrossChain x))"
    if "x \<in> set ?rs" "\<not> IsRouteUnsafe (Some x)" for x
  proof -
    have ne: "?rs \<noteq> []" using that(1) by auto
    have "?K (hd ?rs) \<le> ?K x" by (rule first [OF that(1)])
    then have safe: "\<not> IsRouteUnsafe (Some (hd ?rs))" and
      "val (sort_key F x) < val (sort_key F (hd ?rs)) \<or>
       val (sort_key F x) = val (sort_key F (hd ?rs)) \<and> (rCrossChain (hd ?rs) \<longrightarrow> rCrossChain x)"
      using that(2) by (auto simp: less_le)
    moreover have "Recommended (hd ?rs)" using only [of 0] safe ne by (simp add: hd_conv_nth)
    ultimately show ?thesis by blast
  qed
  with ranks only show ?thesis by blast
qed

section \<open>The goroutines as a loop\<close>

definition fan_at :: "'r list \<Rightarrow> nat \<Rightarrow> 'r fan_out" where
  "fan_at rs k = \<lparr>spawned = k, running = {}, slots = map Some (take k rs) @ replicate (length rs - k) None,
     waiting = 0, joined = False\<rparr>"

lemma fan_runs_in_order:
  assumes "\<And>i. i < length rs \<Longrightarrow> answers i (rs ! i)" "k \<le> length rs"
  shows "(fan_step answers)\<^sup>*\<^sup>* (fan_start (length rs)) (fan_at rs k)"
  using assms(2)
proof (induction k)
  case 0
  then show ?case by (simp add: fan_at_def fan_start_def)
next
  case (Suc k)
  define t where "t = (fan_at rs k)\<lparr>spawned := k + 1, running := {k}, waiting := 1\<rparr>"
  have "fan_step answers (fan_at rs k) t"
    using fan_step.spawn [of "fan_at rs k" answers] Suc.prems by (simp add: fan_at_def t_def)
  moreover have "fan_step answers t (fan_at rs (Suc k))"
  proof -
    have "(map Some (take k rs) @ replicate (length rs - k) None)[k := Some (rs ! k)] =
        map Some (take (Suc k) rs) @ replicate (length rs - Suc k) None"
      using Suc.prems
      by (intro nth_equalityI) (auto simp: nth_append nth_list_update less_Suc_eq)
    then show ?thesis
      using fan_step.store [of k t answers "rs ! k"] assms(1) [of k] Suc.prems
      by (simp add: fan_at_def t_def)
  qed
  ultimately show ?case using Suc by (meson Suc_leD rtranclp.rtrancl_into_rtrancl)
qed

lemma fan_joins:
  assumes "\<And>i. i < length rs \<Longrightarrow> answers i (rs ! i)"
  shows "(fan_step answers)\<^sup>*\<^sup>* (fan_start (length rs)) ((fan_at rs (length rs))\<lparr>joined := True\<rparr>)"
proof -
  have "fan_step answers (fan_at rs (length rs)) ((fan_at rs (length rs))\<lparr>joined := True\<rparr>)"
    by (rule fan_step.join) (simp_all add: fan_at_def)
  moreover have "(fan_step answers)\<^sup>*\<^sup>* (fan_start (length rs)) (fan_at rs (length rs))"
    using assms by (intro fan_runs_in_order) simp_all
  ultimately show ?thesis by (rule rtranclp.rtrancl_into_rtrancl [rotated])
qed

lemma quote_possible:
  assumes "refused (Some req) True cands = None" "list_all2 (outcome F req quote) cands results"
  shows "Quote F (Some req) cands (Some quote) (respond F req deadline results)"
proof -
  have len: "length cands = length results" using assms(2) by (rule list_all2_lengthD)
  let ?s = "(fan_at results (length results))\<lparr>joined := True\<rparr>"
  have "(fan_step (\<lambda>i. outcome F req quote (cands ! i)))\<^sup>*\<^sup>* (fan_start (length cands)) ?s"
    unfolding len by (rule fan_joins) (use assms(2) in \<open>simp add: list_all2_conv_all_nth\<close>)
  then have "Quote F (Some req) cands (Some quote) (respond F (the (Some req)) deadline (map the (slots ?s)))"
    using assms(1) by (intro Quote.answer) simp_all
  then show ?thesis by (simp add: fan_at_def comp_def)
qed

text \<open>
  C22: The concurrent program is the loop: for a request that is not refused, the responses that some
  interleaving of the goroutines can give are exactly those computed from one outcome for each
  candidate, in order, with no goroutines at all.
\<close>

theorem quote_is_sequential:
  assumes "refused (Some req) True cands = None"
  shows "Quote F (Some req) cands (Some quote) resp \<longleftrightarrow>
    (\<exists>results deadline. list_all2 (outcome F req quote) cands results \<and> resp = respond F req deadline results)"
  using quote_answered [OF _ assms] quote_possible [OF assms] by metis

section \<open>A request\<close>

definition int_floats :: "int floats" where
  "int_floats = \<lparr>OfInt = (\<lambda>i. i), Less = (<), Equal = (=), Plus = (+), Minus = (-), Times = (*), Divide = (div),
     TwentiethPart = 0, OfRat = floor, RatSetString = (\<lambda>s. map_option of_int (big_SetString s)),
     ParseFloat = (\<lambda>_. 0), FormatShortest = (\<lambda>_. []), FormatDigits = (\<lambda>_ _. [])\<rparr>"

definition sample_quote_request :: "int Request" where
  "sample_quote_request = \<lparr>qFromAmount = ''100'', SlippageBps = 0, Timeout = 0, FromAmountUsd = 0, ToPriceUsd = 1,
     qFeeRate = [], qFeeReceiver = [], qUserOps = [], qRefundAddress = [], qContractCaller = [], qFeeBps = [],
     qFeeTakerAddress = [], qRefuel = None, qDestinationPayload = [], qDestinationGasLimit = [],
     qIncludeProvider = [], qExcludeProvider = [], qExchange = [], qIncludeQuoteRejections = None,
     qPrivate = None, qSimulatedQuotesRequired = None, qSolanaSponsorAddress = [], qEquipmentNo = [],
     qSourceType = [], qFixedRateFlag = None, ScamCheck = None\<rparr>"

definition sample_candidate :: "int Candidate" where
  "sample_candidate = \<lparr>cChannel = ''univ2'', Via = [], cFromChain = ''BSC'', cFromToken = ''A'', cFromAddress = [],
     cToChain = ''BSC'', cToToken = ''B'', cToAddress = [], cToDecimals = 1, cLiquidityUsd = 0, cSourceIssuer = [],
     cFromCoinCode = [], cToCoinCode = []\<rparr>"

definition sample_dex_route :: "int DexRoute" where
  "sample_dex_route = \<lparr>dRouteId = [], RequestHash = [], DexName = [], AmountOut = ''90'', dAmountOutMin = [],
     dSlippage = 0, SuggestedSlippage = 0, FeeInUsd = [], EstimatedTime = 0, dNeedBuild = True, Gasless = False,
     RequestId = [], dTxData = None, dApprovalData = None, UserOp = [], SignTypedData = [], dSubmitRequest = [],
     dTrustedSpenders = [], dPriceImpactPct = 0, dWarnings = [], RouteGasLimit = [], dRouteTags = [], dExpiresAt = 0\<rparr>"

text \<open>A channel that quotes the candidate itself and fails on every other.\<close>

definition sample_channel :: "int channel" where
  "sample_channel c q a \<longleftrightarrow>
     a = (if c = sample_candidate then (Some \<lparr>oChannel = [], oRoutes = [sample_dex_route]\<rparr>, None)
          else (None, Some (scam_error c)))"

definition sample_answer :: "int quote_result" where
  "sample_answer = \<lparr>Cand = sample_candidate, Out = Some \<lparr>oChannel = [], oRoutes = [sample_dex_route]\<rparr>, Err = None\<rparr>"

lemma sample_not_refused: "refused (Some sample_quote_request) True [sample_candidate] = None"
  by (simp add: refused_def sample_quote_request_def big_SetString_def digit_of_def char_nat_def)

lemma sample_outcome: "outcome int_floats sample_quote_request sample_channel sample_candidate sample_answer"
  by (simp add: outcome_def scam_filtered_def sample_quote_request_def sample_channel_def sample_answer_def)

lemma sample_outcomes: "list_all2 (outcome int_floats sample_quote_request sample_channel) [sample_candidate] [sample_answer]"
  by (simp add: sample_outcome)

lemma sample_quoted:
  "Quote int_floats (Some sample_quote_request) [sample_candidate] (Some sample_channel)
     (respond int_floats sample_quote_request False [sample_answer])"
  by (rule quote_possible [OF sample_not_refused sample_outcomes])

theorem quote_fan_out_ends_witness:
  "\<exists>s. (fan_step (\<lambda>i. outcome int_floats sample_quote_request sample_channel ([sample_candidate] ! i)) ^^ 3) (fan_start 1) s \<and> joined s"
proof -
  let ?step = "fan_step (\<lambda>i. outcome int_floats sample_quote_request sample_channel ([sample_candidate] ! i))"
  have "?step\<^sup>*\<^sup>* (fan_start (length [sample_answer])) ((fan_at [sample_answer] 1)\<lparr>joined := True\<rparr>)"
    using fan_joins [of "[sample_answer]" "\<lambda>i. outcome int_floats sample_quote_request sample_channel ([sample_candidate] ! i)"]
    by (simp add: sample_outcome)
  then obtain k where k: "(?step ^^ k) (fan_start (length [sample_candidate])) ((fan_at [sample_answer] 1)\<lparr>joined := True\<rparr>)"
    by (auto simp: rtranclp_power)
  have "k = 3" by (use quote_fan_out_ends [OF _ k] in \<open>simp add: sample_channel_def\<close>)
  with k show ?thesis by auto
qed

theorem quote_is_sequential_witness:
  "\<exists>results deadline. list_all2 (outcome int_floats sample_quote_request sample_channel) [sample_candidate] results \<and>
     respond int_floats sample_quote_request False [sample_answer] = respond int_floats sample_quote_request deadline results"
  using quote_is_sequential [OF sample_not_refused] sample_quoted by blast

theorem every_candidate_answered_witness:
  "length (Routes (respond int_floats sample_quote_request False [sample_answer])) +
   length (Failures (respond int_floats sample_quote_request False [sample_answer])) = 1"
  using every_candidate_answered [OF sample_quoted sample_not_refused] by auto

lemma sample_found: "answer_route int_floats sample_quote_request sample_answer =
    Some (route_of int_floats sample_quote_request sample_candidate \<lparr>oChannel = [], oRoutes = [sample_dex_route]\<rparr> sample_dex_route)"
  by (simp add: answer_route_def sample_answer_def)

theorem best_route_first_witness:
  "Recommended (hd (Routes (respond int_floats sample_quote_request False [sample_answer])))"
proof -
  let ?rs = "Routes (respond int_floats sample_quote_request False [sample_answer])"
  let ?r = "route_of int_floats sample_quote_request sample_candidate \<lparr>oChannel = [], oRoutes = [sample_dex_route]\<rparr> sample_dex_route"
  have "\<not> IsRouteUnsafe (Some ?r)"
    by (simp add: IsRouteUnsafe_def route_of_def thin_warning_def sample_quote_request_def sample_dex_route_def
      int_floats_def Let_def)
  moreover have "?rs = ranked [?r]" by (simp add: respond_simps map_filter_simps sample_found SliceStable_def)
  then have "?rs ! 0 \<in> set ?rs" "IsRouteUnsafe (Some (?rs ! 0)) = IsRouteUnsafe (Some ?r)" by simp_all
  moreover have "\<forall>x \<in> set ?rs. \<not> IsRouteUnsafe (Some x) \<longrightarrow> Recommended (hd ?rs)"
    using best_route_first [OF sample_quoted sample_not_refused, of real_of_int] by (simp add: int_floats_def)
  ultimately show ?thesis by blast
qed

end
