(* ===== verification/Univ2.thy ===== *)
theory Univ2
  imports Quotes
begin

text \<open>
  \<open>dex/univ2/client.go\<close> with \<open>dex/univ2/types.go\<close>: quotes from a Uniswap V2 deployment. The checks of
  a configuration and of a request, the paths tried, the choice between them, the slippage and the
  calls encoded are written out. Addresses of go-ethereum, the ABI coder, the node and URLs are the
  fields of \<open>univ2_env\<close>; the node answers the same call the same way during a quote. Durations and
  times are in nanoseconds. A nil client is not modelled.
\<close>

section \<open>The packages used\<close>

type_synonym address = bytes

datatype abi_value =
  AbiAddress address | AbiUint int | AbiAddresses "address list" | AbiUints "int option list" | AbiOther

datatype receipt = ReceiptNotFound | ReceiptError | Receipt nat

record univ2_env =
  IsHexAddress :: "string \<Rightarrow> bool"
  HexToAddress :: "string \<Rightarrow> address"
  AddressHex :: "address \<Rightarrow> string"
  EqualFold :: "string \<Rightarrow> string \<Rightarrow> bool"
  UrlParse :: "string \<Rightarrow> (string \<times> string) option"
  Dial :: "string \<Rightarrow> bool"
  AbiPack :: "string \<Rightarrow> abi_value list \<Rightarrow> bytes option"
  AbiUnpack :: "string \<Rightarrow> bytes \<Rightarrow> abi_value list option"
  CallContract :: "address \<Rightarrow> bytes \<Rightarrow> bytes option"
  EthChainID :: "int option"
  TransactionReceipt :: "bytes \<Rightarrow> receipt"
  HexutilDecode :: "string \<Rightarrow> bytes option"
  Keccak256Hash :: "bytes \<Rightarrow> bytes"
  HashHex :: "bytes \<Rightarrow> string"
  Now :: int

datatype univ2_error =
  ChainNameRequired | ChainIDRequired | RPCRequired | InvalidRPC | UnsupportedScheme
| InvalidAddress string | ZeroAddress string | SameAddresses | TTLTooShort | DialFailed
| WrongChain | BadAmount | NativeToNative | SameToken | BadSlippage | PackFailed | CallFailed
| UnpackFailed | BadResponse | NoAmounts | ChainIDFailed | WrongChainID | WrongFactory
| WrongWETH | InputNil | OnlyTxHash | FromChainMismatch | ToChainMismatch | InvalidHash | ReceiptFailed

section \<open>Configurations\<close>

record Config =
  ChainName :: string
  ChainID :: nat
  RPC :: string
  Factory :: string
  Router02 :: string
  WrappedNative :: string
  QuoteBaseTokens :: "string list"
  DeadlineTTL :: int

record Client =
  config :: Config
  factory :: address
  router02 :: address
  wrappedNative :: address
  quoteBaseTokens :: "address list"
  chainChecked :: bool
  deployChecked :: bool

definition Channel :: string where "Channel = ''univ2''"
definition DefaultDeadlineTTL :: int where "DefaultDeadlineTTL = 20 * 60 * 1000000000"
definition MagicContactAddressForNative :: string where
  "MagicContactAddressForNative = ''0xeeeeeeeeeeeeeeeeeeeeeeeeeeeeeeeeeeeeeeee''"
definition MagicAddressForZeroEVM :: string where
  "MagicAddressForZeroEVM = ''0x0000000000000000000000000000000000000000''"

definition zero_address :: address where "zero_address = replicate 20 0"

text \<open>The text is checked without the space around it and read with it.\<close>

definition requiredAddress :: "univ2_env \<Rightarrow> string \<Rightarrow> string \<Rightarrow> univ2_error + address" where
  "requiredAddress E name raw =
     (if \<not> IsHexAddress E (strings_TrimSpace raw) then Inl (InvalidAddress name)
      else
        let addr = HexToAddress E raw
        in if addr = zero_address then Inl (ZeroAddress name) else Inr addr)"

definition validateRPCURL :: "univ2_env \<Rightarrow> string \<Rightarrow> univ2_error + unit" where
  "validateRPCURL E raw =
     (if raw = [] then Inl RPCRequired
      else case UrlParse E raw of
        None \<Rightarrow> Inl InvalidRPC
      | Some (scheme, host) \<Rightarrow>
          if host = [] then Inl InvalidRPC
          else if ToLower scheme \<in> {''http'', ''https'', ''ws'', ''wss''} then Inr ()
          else Inl UnsupportedScheme)"

text \<open>The base tokens read so far, without repetitions.\<close>

fun read_bases ::
  "univ2_env \<Rightarrow> nat \<Rightarrow> string list \<Rightarrow> address list \<Rightarrow> univ2_error + address list"
where
  "read_bases E i [] bases = Inr bases"
| "read_bases E i (raw # raws) bases =
     andThen (requiredAddress E (''quoteBaseTokens['' @ FormatUint i @ '']'') raw) (\<lambda>base.
       read_bases E (i + 1) raws (if base \<in> set bases then bases else bases @ [base]))"

definition normalizeConfig ::
  "univ2_env \<Rightarrow> Config \<Rightarrow> univ2_error + Config \<times> address \<times> address \<times> address \<times> address list"
where
  "normalizeConfig E c =
     (let c = c\<lparr>ChainName := strings_TrimSpace (ChainName c), RPC := strings_TrimSpace (RPC c)\<rparr>
      in andThen (require (ChainName c \<noteq> []) ChainNameRequired) (\<lambda>_.
         andThen (require (ChainID c \<noteq> 0) ChainIDRequired) (\<lambda>_.
         andThen (validateRPCURL E (RPC c)) (\<lambda>_.
         andThen (requiredAddress E ''factory'' (Factory c)) (\<lambda>fac.
         andThen (requiredAddress E ''router02'' (Router02 c)) (\<lambda>router.
         andThen (requiredAddress E ''wrappedNative'' (WrappedNative c)) (\<lambda>wrapped.
         andThen (require (fac \<noteq> router) SameAddresses) (\<lambda>_.
         andThen (read_bases E 0 (QuoteBaseTokens c) []) (\<lambda>seen.
           let bases = (if wrapped \<in> set seen then seen else seen @ [wrapped]);
               c = c\<lparr>Factory := AddressHex E fac, Router02 := AddressHex E router,
                     WrappedNative := AddressHex E wrapped, QuoteBaseTokens := map (AddressHex E) seen,
                     DeadlineTTL := (if DeadlineTTL c = 0 then DefaultDeadlineTTL else DeadlineTTL c)\<rparr>
           in andThen (require (\<not> DeadlineTTL c < 1000000000) TTLTooShort) (\<lambda>_.
                Inr (c, fac, router, wrapped, bases)))))))))))"

definition NewClient :: "univ2_env \<Rightarrow> Config \<Rightarrow> univ2_error + Client" where
  "NewClient E c =
     andThen (normalizeConfig E c) (\<lambda>(normalized, fac, router, wrapped, bases).
     andThen (require (Dial E (RPC normalized)) DialFailed) (\<lambda>_.
       Inr \<lparr>config = normalized, factory = fac, router02 = router, wrappedNative = wrapped,
         quoteBaseTokens = bases, chainChecked = False, deployChecked = False\<rparr>))"

section \<open>Requests\<close>

definition isNative :: "univ2_env \<Rightarrow> string \<Rightarrow> bool" where
  "isNative E raw \<longleftrightarrow> EqualFold E (strings_TrimSpace raw) MagicContactAddressForNative \<or>
     EqualFold E (strings_TrimSpace raw) MagicAddressForZeroEVM"

definition matchesChain :: "univ2_env \<Rightarrow> Client \<Rightarrow> string \<Rightarrow> bool" where
  "matchesChain E c raw \<longleftrightarrow>
     (let raw = strings_TrimSpace raw
      in EqualFold E raw (ChainName (config c)) \<or> raw = FormatUint (ChainID (config c)))"

definition swapToken :: "univ2_env \<Rightarrow> Client \<Rightarrow> string \<Rightarrow> string \<Rightarrow> bool \<Rightarrow> univ2_error + address" where
  "swapToken E c name raw native = (if native then Inr (wrappedNative c) else requiredAddress E name raw)"

definition parseSlippage :: "'f floats \<Rightarrow> string \<Rightarrow> univ2_error + rat" where
  "parseSlippage F raw =
     (let raw = strings_TrimSpace raw
      in if raw = [] then Inr 0
         else case RatSetString F raw of
           None \<Rightarrow> Inl BadSlippage
         | Some s \<Rightarrow> if s < 0 \<or> s \<ge> 100 then Inl BadSlippage else Inr s)"

definition applySlippage :: "int \<Rightarrow> rat \<Rightarrow> int" where
  "applySlippage amountOut slippage =
     (let v = of_int amountOut * (100 - slippage) / 100; (num, den) = quotient_of v
      in sgn num * (\<bar>num\<bar> div den))"

record request =
  amountIn :: int
  tokenIn :: address
  tokenOut :: address
  inputNative :: bool
  outputNative :: bool
  recipient :: address
  slippage :: rat

definition validateQuote :: "'f floats \<Rightarrow> univ2_env \<Rightarrow> Client \<Rightarrow> DexQuoteIn option \<Rightarrow> univ2_error + request" where
  "validateQuote F E c i =
     andThen (orErr InputNil i) (\<lambda>i.
     andThen (require (matchesChain E c (FromChain i) \<and> matchesChain E c (ToChain i)) WrongChain) (\<lambda>_.
     andThen (orErr BadAmount (big_SetString (strings_TrimSpace (FromAmount i)))) (\<lambda>amt.
     andThen (require (\<not> amt \<le> 0) BadAmount) (\<lambda>_.
     let inNative = isNative E (FromToken i); outNative = isNative E (ToToken i)
     in andThen (require (\<not> (inNative \<and> outNative)) NativeToNative) (\<lambda>_.
        andThen (swapToken E c ''fromToken'' (FromToken i) inNative) (\<lambda>tin.
        andThen (swapToken E c ''toToken'' (ToToken i) outNative) (\<lambda>tout.
        andThen (require (tin \<noteq> tout) SameToken) (\<lambda>_.
        andThen (requiredAddress E ''fromAddress'' (FromAddress i)) (\<lambda>_.
        andThen (requiredAddress E ''toAddress'' (ToAddress i)) (\<lambda>rcpt.
        andThen (parseSlippage F (Slippage i)) (\<lambda>s.
          Inr \<lparr>amountIn = amt, tokenIn = tin, tokenOut = tout, inputNative = inNative,
            outputNative = outNative, recipient = rcpt, slippage = s\<rparr>)))))))))))"

section \<open>The node\<close>

text \<open>A call of a contract: encode, call, decode.\<close>

definition call_contract :: "univ2_env \<Rightarrow> address \<Rightarrow> string \<Rightarrow> abi_value list \<Rightarrow> univ2_error + abi_value list" where
  "call_contract E contract method args =
     andThen (orErr PackFailed (AbiPack E method args)) (\<lambda>d.
     andThen (orErr CallFailed (CallContract E contract d)) (\<lambda>raw.
       orErr UnpackFailed (AbiUnpack E method raw)))"

definition one_address :: "abi_value list \<Rightarrow> univ2_error + address" where
  "one_address values =
     (if length values \<noteq> 1 then Inl BadResponse
      else case hd values of AbiAddress a \<Rightarrow> Inr a | _ \<Rightarrow> Inl BadResponse)"

definition getPair :: "univ2_env \<Rightarrow> Client \<Rightarrow> address \<Rightarrow> address \<Rightarrow> univ2_error + address" where
  "getPair E c tokenA tokenB =
     andThen (call_contract E (factory c) ''getPair'' [AbiAddress tokenA, AbiAddress tokenB]) one_address"

definition callRouterAddress :: "univ2_env \<Rightarrow> Client \<Rightarrow> string \<Rightarrow> univ2_error + address" where
  "callRouterAddress E c methodName = andThen (call_contract E (router02 c) methodName []) one_address"

definition getAmountsOut :: "univ2_env \<Rightarrow> Client \<Rightarrow> int \<Rightarrow> address list \<Rightarrow> univ2_error + int" where
  "getAmountsOut E c amt path =
     andThen (call_contract E (router02 c) ''getAmountsOut'' [AbiUint amt, AbiAddresses path]) (\<lambda>values.
       if length values \<noteq> 1 then Inl BadResponse
       else case hd values of
         AbiUints amounts \<Rightarrow>
           if length amounts \<noteq> length path \<or> amounts = [] then Inl BadResponse
           else (case last amounts of None \<Rightarrow> Inl BadResponse | Some n \<Rightarrow> if n \<le> 0 then Inl BadResponse else Inr n)
       | _ \<Rightarrow> Inl BadResponse)"

definition ensureChainID :: "univ2_env \<Rightarrow> Client \<Rightarrow> Client \<times> (univ2_error + unit)" where
  "ensureChainID E c =
     (if chainChecked c then (c, Inr ())
      else case EthChainID E of
        None \<Rightarrow> (c, Inl ChainIDFailed)
      | Some i \<Rightarrow>
          if \<not> (0 \<le> i \<and> i < 2 ^ 64) \<or> nat i \<noteq> ChainID (config c) then (c, Inl WrongChainID)
          else (c\<lparr>chainChecked := True\<rparr>, Inr ()))"

definition check_deployment :: "univ2_env \<Rightarrow> Client \<Rightarrow> univ2_error + unit" where
  "check_deployment E c =
     andThen (callRouterAddress E c ''factory'') (\<lambda>fac.
     andThen (require (fac = factory c) WrongFactory) (\<lambda>_.
     andThen (callRouterAddress E c ''WETH'') (\<lambda>wrapped.
       require (wrapped = wrappedNative c) WrongWETH)))"

definition ensureDeployment :: "univ2_env \<Rightarrow> Client \<Rightarrow> Client \<times> (univ2_error + unit)" where
  "ensureDeployment E c =
     (if deployChecked c then (c, Inr ())
      else case check_deployment E c of
        Inl e \<Rightarrow> (c, Inl e)
      | Inr _ \<Rightarrow> (c\<lparr>deployChecked := True\<rparr>, Inr ()))"

section \<open>Paths\<close>

definition pathKey :: "univ2_env \<Rightarrow> address list \<Rightarrow> string" where
  "pathKey E path = strings_Join (map (\<lambda>a. ToLower (AddressHex E a)) path) ''>''"

fun string_less :: "string \<Rightarrow> string \<Rightarrow> bool" where
  "string_less s [] = False"
| "string_less [] (d # t) = True"
| "string_less (c # s) (d # t) = (char_nat c < char_nat d \<or> c = d \<and> string_less s t)"

definition pairKey :: "univ2_env \<Rightarrow> address \<Rightarrow> address \<Rightarrow> string" where
  "pairKey E a b =
     (let left = ToLower (AddressHex E a); right = ToLower (AddressHex E b)
      in if string_less right left then right @ '':'' @ left else left @ '':'' @ right)"

text \<open>The loop over the base tokens; \<open>seen\<close> holds the keys of the paths taken.\<close>

fun add_paths :: "univ2_env \<Rightarrow> address \<Rightarrow> address \<Rightarrow> address list \<Rightarrow> string set \<Rightarrow> address list list \<Rightarrow> address list list" where
  "add_paths E tin tout [] seen paths = paths"
| "add_paths E tin tout (base # bases) seen paths =
     (if base = tin \<or> base = tout then add_paths E tin tout bases seen paths
      else
        let path = [tin, base, tout]; key = pathKey E path
        in if key \<in> seen then add_paths E tin tout bases seen paths
           else add_paths E tin tout bases (insert key seen) (paths @ [path]))"

definition candidatePaths :: "univ2_env \<Rightarrow> address \<Rightarrow> address \<Rightarrow> address list \<Rightarrow> address list list" where
  "candidatePaths E tin tout bases = add_paths E tin tout bases {pathKey E [tin, tout]} [[tin, tout]]"

type_synonym pair_cache = "string \<Rightarrow> bool option"

fun pathHasPairs ::
  "univ2_env \<Rightarrow> Client \<Rightarrow> address list \<Rightarrow> pair_cache \<Rightarrow> pair_cache \<times> (univ2_error + bool)"
where
  "pathHasPairs E c (a # b # path) cache =
     (let key = pairKey E a b
      in case cache key of
           Some hasPair \<Rightarrow> if \<not> hasPair then (cache, Inr False) else pathHasPairs E c (b # path) cache
         | None \<Rightarrow>
           (case getPair E c a b of
              Inl e \<Rightarrow> (cache, Inl e)
            | Inr pair \<Rightarrow>
                let hasPair = (pair \<noteq> zero_address); cache = cache(key \<mapsto> hasPair)
                in if \<not> hasPair then (cache, Inr False) else pathHasPairs E c (b # path) cache))"
| "pathHasPairs E c path cache = (cache, Inr True)"

fun viable_paths ::
  "univ2_env \<Rightarrow> Client \<Rightarrow> address list list \<Rightarrow> pair_cache \<Rightarrow> univ2_error + address list list"
where
  "viable_paths E c [] cache = Inr []"
| "viable_paths E c (path # paths) cache =
     (case pathHasPairs E c path cache of
        (cache, Inl e) \<Rightarrow> Inl e
      | (cache, Inr hasPairs) \<Rightarrow>
          andThen (viable_paths E c paths cache) (\<lambda>rest. Inr (if hasPairs then path # rest else rest)))"

text \<open>The best amount so far and its path; a path whose quote fails is passed over.\<close>

fun best_path ::
  "univ2_env \<Rightarrow> Client \<Rightarrow> int \<Rightarrow> address list list \<Rightarrow> (int \<times> address list) option \<Rightarrow> (int \<times> address list) option"
where
  "best_path E c amt [] best = best"
| "best_path E c amt (path # paths) best =
     (case getAmountsOut E c amt path of
        Inl _ \<Rightarrow> best_path E c amt paths best
      | Inr n \<Rightarrow> best_path E c amt paths
          (case best of None \<Rightarrow> Some (n, path) | Some (m, p) \<Rightarrow> if n > m then Some (n, path) else best))"

section \<open>Quotes\<close>

definition swap_call :: "request \<Rightarrow> int \<Rightarrow> address list \<Rightarrow> int \<Rightarrow> string \<times> abi_value list" where
  "swap_call r amountOutMin path deadline =
     (if inputNative r then (''swapExactETHForTokens'',
        [AbiUint amountOutMin, AbiAddresses path, AbiAddress (recipient r), AbiUint deadline])
      else if outputNative r then (''swapExactTokensForETH'',
        [AbiUint (amountIn r), AbiUint amountOutMin, AbiAddresses path, AbiAddress (recipient r), AbiUint deadline])
      else (''swapExactTokensForTokens'',
        [AbiUint (amountIn r), AbiUint amountOutMin, AbiAddresses path, AbiAddress (recipient r), AbiUint deadline]))"

definition encodeSwap :: "univ2_env \<Rightarrow> request \<Rightarrow> int \<Rightarrow> address list \<Rightarrow> int \<Rightarrow> univ2_error + bytes \<times> string" where
  "encodeSwap E r amountOutMin path deadline =
     (case swap_call r amountOutMin path deadline of
        (method, args) \<Rightarrow> andThen (orErr PackFailed (AbiPack E method args)) (\<lambda>d. Inr (d, method)))"

definition routeID :: "univ2_env \<Rightarrow> Client \<Rightarrow> string \<Rightarrow> request \<Rightarrow> int \<Rightarrow> address list \<Rightarrow> int \<Rightarrow> string" where
  "routeID E c method r amountOutMin path deadline =
     (let payload = strings_Join
            [FormatUint (ChainID (config c)), ToLower (AddressHex E (factory c)), ToLower (AddressHex E (router02 c)),
             method, Itoa (amountIn r), Itoa amountOutMin, pathKey E path, ToLower (AddressHex E (recipient r)),
             Itoa deadline] ''|''
      in ''univ2-'' @ FormatUint (ChainID (config c)) @ ''-'' @
         hex_encode (take 8 (Keccak256Hash E (bytes_of_string payload))))"

definition swap_route ::
  "'f floats \<Rightarrow> univ2_env \<Rightarrow> Client \<Rightarrow> request \<Rightarrow> int \<Rightarrow> address list \<Rightarrow> univ2_error + 'f DexRoute"
where
  "swap_route F E c r bestAmount bestPath =
     (let amountOutMin = applySlippage bestAmount (slippage r);
          deadline = (Now E + DeadlineTTL (config c)) div 1000000000
      in andThen (encodeSwap E r amountOutMin bestPath deadline) (\<lambda>(calldata, method).
           Inr \<lparr>dRouteId = routeID E c method r amountOutMin bestPath deadline, RequestHash = [],
             DexName = ChainName (config c) @ '' Uniswap V2'', AmountOut = Itoa bestAmount,
             dAmountOutMin = Itoa amountOutMin, dSlippage = OfRat F (slippage r),
             SuggestedSlippage = OfRat F (slippage r), FeeInUsd = [], EstimatedTime = 30, dNeedBuild = False,
             Gasless = False, RequestId = [],
             dTxData = Some \<lparr>DexTo = AddressHex E (router02 c), DexData = ''0x'' @ hex_encode calldata,
               DexValue = (if inputNative r then Itoa (amountIn r) else []), DexGasPrice = [], DexGasLimit = [],
               DexFeeLimit = []\<rparr>,
             dApprovalData = (if inputNative r then None else
               Some \<lparr>ApprovalToken = AddressHex E (tokenIn r), Spender = AddressHex E (router02 c),
                 ApprovalAmount = Itoa (amountIn r)\<rparr>),
             UserOp = [], SignTypedData = [], dSubmitRequest = [],
             dTrustedSpenders = (if inputNative r then [] else [AddressHex E (router02 c)]),
             dPriceImpactPct = OfInt F 0, dWarnings = [], RouteGasLimit = [], dRouteTags = [''MAX_OUTPUT''],
             dExpiresAt = deadline\<rparr>))"

definition quote_paths :: "'f floats \<Rightarrow> univ2_env \<Rightarrow> Client \<Rightarrow> request \<Rightarrow> univ2_error + 'f DexQuoteOut" where
  "quote_paths F E c r =
     andThen (viable_paths E c (candidatePaths E (tokenIn r) (tokenOut r) (quoteBaseTokens c)) Map.empty) (\<lambda>viable.
       if viable = [] then Inr \<lparr>oChannel = Channel, oRoutes = []\<rparr>
       else case best_path E c (amountIn r) viable None of
         None \<Rightarrow> Inl NoAmounts
       | Some (bestAmount, bestPath) \<Rightarrow>
           andThen (swap_route F E c r bestAmount bestPath) (\<lambda>route.
             Inr \<lparr>oChannel = Channel, oRoutes = [route]\<rparr>))"

definition Quote_univ2 ::
  "'f floats \<Rightarrow> univ2_env \<Rightarrow> Client \<Rightarrow> DexQuoteIn option \<Rightarrow> Client \<times> (univ2_error + 'f DexQuoteOut)"
where
  "Quote_univ2 F E c i =
     (case validateQuote F E c i of
        Inl e \<Rightarrow> (c, Inl e)
      | Inr r \<Rightarrow>
        (case ensureChainID E c of
           (c, Inl e) \<Rightarrow> (c, Inl e)
         | (c, Inr _) \<Rightarrow>
           (case ensureDeployment E c of
              (c, Inl e) \<Rightarrow> (c, Inl e)
            | (c, Inr _) \<Rightarrow> (c, quote_paths F E c r))))"

section \<open>Status\<close>

record DexCheckTxIn =
  tChannel :: string
  HashType :: string
  Hash :: string
  tFromChain :: string
  tToChain :: string
  Bridge :: string
  IncludeQuoteDetails :: "bool option"

record DexCheckTxOut =
  sChannel :: string
  Status :: string
  sToChain :: string
  ToHash :: string
  FromHash :: string
  ProviderStatus :: string
  ProviderStatusCode :: string
  OriginStatus :: string
  DestinationStatus :: string
  sUserOp :: string
  RouteName :: string
  RouteLogoURI :: string
  IsDestPayloadExecuted :: "bool option"
  QuoteDetails :: bytes
  Msg :: string

definition status_of :: "Client \<Rightarrow> string \<Rightarrow> string \<Rightarrow> string \<Rightarrow> DexCheckTxOut" where
  "status_of c status hash provider = \<lparr>sChannel = Channel, Status = status, sToChain = ChainName (config c),
     ToHash = hash, FromHash = hash, ProviderStatus = provider, ProviderStatusCode = [], OriginStatus = [],
     DestinationStatus = [], sUserOp = [], RouteName = [], RouteLogoURI = [], IsDestPayloadExecuted = None,
     QuoteDetails = [], Msg = []\<rparr>"

definition Status_univ2 ::
  "univ2_env \<Rightarrow> Client \<Rightarrow> DexCheckTxIn option \<Rightarrow> Client \<times> (univ2_error + DexCheckTxOut)"
where
  "Status_univ2 E c i =
     (case andThen (orErr InputNil i) (\<lambda>i.
             andThen (require (HashType i = [] \<or> HashType i = ''txHash'') OnlyTxHash) (\<lambda>_.
             andThen (require (tFromChain i = [] \<or> matchesChain E c (tFromChain i)) FromChainMismatch) (\<lambda>_.
             andThen (require (tToChain i = [] \<or> matchesChain E c (tToChain i)) ToChainMismatch) (\<lambda>_.
             andThen (orErr InvalidHash (HexutilDecode E (Hash i))) (\<lambda>h.
             andThen (require (length h = 32) InvalidHash) (\<lambda>_. Inr h)))))) of
        Inl e \<Rightarrow> (c, Inl e)
      | Inr h \<Rightarrow>
        (case ensureChainID E c of
           (c, Inl e) \<Rightarrow> (c, Inl e)
         | (c, Inr _) \<Rightarrow>
             (c, case TransactionReceipt E h of
                ReceiptNotFound \<Rightarrow> Inr (status_of c ''Pending'' (HashHex E h) [])
              | ReceiptError \<Rightarrow> Inl ReceiptFailed
              | Receipt status \<Rightarrow> Inr (status_of c (if status = 1 then ''Succeeded'' else ''Failed'')
                  (HashHex E h) (FormatUint status)))))"

section \<open>The quote is the best one\<close>

lemma best_path_best:
  assumes "best_path E c amt paths best = Some (n, p)"
  shows "(best = Some (n, p) \<or> p \<in> set paths \<and> getAmountsOut E c amt p = Inr n) \<and>
    (\<forall>q m. q \<in> set paths \<longrightarrow> getAmountsOut E c amt q = Inr m \<longrightarrow> m \<le> n) \<and>
    (\<forall>m q. best = Some (m, q) \<longrightarrow> m \<le> n)"
  using assms
proof (induction paths arbitrary: best)
  case (Cons path paths)
  show ?case
  proof (cases "getAmountsOut E c amt path")
    case (Inl e)
    with Cons show ?thesis by auto
  next
    case (Inr k)
    let ?best = "case best of None \<Rightarrow> Some (k, path) | Some (m, q) \<Rightarrow> if k > m then Some (k, path) else best"
    have "best_path E c amt paths ?best = Some (n, p)" using Cons.prems Inr by simp
    from Cons.IH [OF this] Inr show ?thesis
      by (auto split: option.splits prod.splits if_splits)
  qed
qed simp

text \<open>A path is linked when each of its neighbours share a pair.\<close>

fun linked :: "univ2_env \<Rightarrow> Client \<Rightarrow> address list \<Rightarrow> bool" where
  "linked E c (a # b # path) = ((\<exists>pair. getPair E c a b = Inr pair \<and> pair \<noteq> zero_address) \<and> linked E c (b # path))"
| "linked E c path = True"

text \<open>The factory does not tell the order of the tokens apart, nor their spelling.\<close>

definition pairs_agree :: "univ2_env \<Rightarrow> Client \<Rightarrow> bool" where
  "pairs_agree E c \<longleftrightarrow> (\<forall>a b a' b'. pairKey E a b = pairKey E a' b' \<longrightarrow> getPair E c a b = getPair E c a' b')"

lemma pairs_agreeD: "pairs_agree E c \<Longrightarrow> pairKey E a b = pairKey E a' b' \<Longrightarrow> getPair E c a b = getPair E c a' b'"
  unfolding pairs_agree_def by blast

definition cache_ok :: "univ2_env \<Rightarrow> Client \<Rightarrow> pair_cache \<Rightarrow> bool" where
  "cache_ok E c cache \<longleftrightarrow>
     (\<forall>a b h. cache (pairKey E a b) = Some h \<longrightarrow> (\<exists>pair. getPair E c a b = Inr pair \<and> h = (pair \<noteq> zero_address)))"

lemma pathHasPairs_linked:
  assumes "pathHasPairs E c path cache = (cache', Inr h)" "cache_ok E c cache" "pairs_agree E c"
  shows "cache_ok E c cache' \<and> (h \<longleftrightarrow> linked E c path)"
  using assms
proof (induction E c path cache arbitrary: cache' h rule: pathHasPairs.induct)
  case (1 E c a b path cache)
  show ?case
  proof (cases "cache (pairKey E a b)")
    case None
    then obtain pair where pair: "getPair E c a b = Inr pair" using "1.prems"(1) by (auto simp: Let_def split: sum.splits)
    let ?cache = "cache(pairKey E a b \<mapsto> pair \<noteq> zero_address)"
    have "cache_ok E c ?cache"
      unfolding cache_ok_def
    proof (intro allI impI)
      fix a' b' h' assume h': "?cache (pairKey E a' b') = Some h'"
      show "\<exists>pair. getPair E c a' b' = Inr pair \<and> h' = (pair \<noteq> zero_address)"
      proof (cases "pairKey E a' b' = pairKey E a b")
        case True
        from pairs_agreeD [OF "1.prems"(3) this] pair have "getPair E c a' b' = Inr pair" by simp
        with h' True show ?thesis by simp
      next
        case False
        with h' "1.prems"(2) show ?thesis by (simp add: cache_ok_def)
      qed
    qed
    show ?thesis
    proof (cases "pair = zero_address")
      case True
      then have "cache' = ?cache" "\<not> h" using "1.prems"(1) None pair by (simp_all add: Let_def)
      with \<open>cache_ok E c ?cache\<close> True pair show ?thesis by (simp add: fun_upd_def)
    next
      case False
      then have "pathHasPairs E c (b # path) ?cache = (cache', Inr h)"
        using "1.prems"(1) None pair by (simp add: Let_def)
      then have "cache_ok E c cache' \<and> (h \<longleftrightarrow> linked E c (b # path))"
        using "1.IH"(1) [OF refl None pair refl refl] False \<open>cache_ok E c ?cache\<close> "1.prems"(3) by (simp add: fun_upd_def)
      with False pair show ?thesis by simp
    qed
  next
    case (Some hasPair)
    then obtain pair where "getPair E c a b = Inr pair" "hasPair = (pair \<noteq> zero_address)"
      using "1.prems"(2) unfolding cache_ok_def by blast
    then show ?thesis
    proof (cases hasPair)
      case True
      then have "pathHasPairs E c (b # path) cache = (cache', Inr h)"
        using "1.prems"(1) Some by (simp add: Let_def)
      then have "cache_ok E c cache' \<and> (h \<longleftrightarrow> linked E c (b # path))"
        using "1.IH"(2) [OF refl Some] True "1.prems"(2,3) by simp
      with True \<open>getPair E c a b = Inr pair\<close> \<open>hasPair = (pair \<noteq> zero_address)\<close> show ?thesis by simp
    next
      case False
      then have "cache' = cache" "\<not> h" using "1.prems"(1) Some by (simp_all add: Let_def)
      with False "1.prems"(2) \<open>getPair E c a b = Inr pair\<close> \<open>hasPair = (pair \<noteq> zero_address)\<close>
      show ?thesis by simp
    qed
  qed
qed auto

lemma viable_linked:
  assumes "viable_paths E c paths cache = Inr viable" "cache_ok E c cache" "pairs_agree E c"
  shows "viable = filter (linked E c) paths"
  using assms
proof (induction paths arbitrary: cache viable)
  case (Cons path paths)
  obtain cache' r where r: "pathHasPairs E c path cache = (cache', r)" by fastforce
  with Cons.prems(1) obtain h rest where h: "r = Inr h" "viable_paths E c paths cache' = Inr rest"
    "viable = (if h then path # rest else rest)"
    by (auto simp: andThen_eq_Inr split: sum.splits)
  have "cache_ok E c cache'" "h \<longleftrightarrow> linked E c path"
    using pathHasPairs_linked [OF _ Cons.prems(2,3)] r h(1) by blast+
  with Cons.IH [OF h(2) _ Cons.prems(3)] h(3) show ?case by simp
qed simp

lemma add_paths_ends:
  "path \<in> set (add_paths E tin tout bases seen paths) \<Longrightarrow>
     path \<in> set paths \<or> (\<exists>base \<in> set bases. base \<noteq> tin \<and> base \<noteq> tout \<and> path = [tin, base, tout])"
  by (induction bases arbitrary: seen paths) (auto simp: Let_def split: if_splits, fastforce+)

text \<open>The amount kept after slippage is rounded down.\<close>

lemma applySlippage_floor:
  assumes "0 \<le> n" "0 \<le> s" "s < 100"
  shows "applySlippage n s = \<lfloor>of_int n * (100 - s) / 100\<rfloor>"
proof -
  let ?v = "of_int n * (100 - s) / 100"
  obtain num den where q: "quotient_of ?v = (num, den)" by fastforce
  have den: "0 < den" using quotient_of_denom_pos [OF q] .
  have v: "?v = of_int num / of_int den" by (rule quotient_of_div [OF q])
  have "0 \<le> ?v" using assms by simp
  then have "0 \<le> num" using den v by (simp add: zero_le_divide_iff)
  then have "sgn num * (\<bar>num\<bar> div den) = num div den" by (cases "num = 0") simp_all
  moreover have "\<lfloor>?v\<rfloor> = num div den" by (simp only: v floor_divide_of_int_eq)
  ultimately show ?thesis by (simp add: applySlippage_def Let_def q)
qed

lemma applySlippage_bounds:
  assumes "0 \<le> n" "0 \<le> s" "s < 100"
  shows "0 \<le> applySlippage n s \<and> applySlippage n s \<le> n"
proof -
  have "of_int n * (100 - s) \<le> of_int n * 100" by (rule mult_left_mono) (use assms in simp_all)
  then show ?thesis using assms by (simp add: applySlippage_floor floor_le_iff)
qed

lemma parseSlippage_range: "parseSlippage F raw = Inr s \<Longrightarrow> 0 \<le> s \<and> s < 100"
  by (auto simp: parseSlippage_def Let_def split: if_splits option.splits)

lemma getPair_flags [simp]:
  "getPair E (c\<lparr>chainChecked := x\<rparr>) = getPair E c" "getPair E (c\<lparr>deployChecked := x\<rparr>) = getPair E c"
  "getAmountsOut E (c\<lparr>chainChecked := x\<rparr>) = getAmountsOut E c" "getAmountsOut E (c\<lparr>deployChecked := x\<rparr>) = getAmountsOut E c"
  by (intro ext, simp add: getPair_def getAmountsOut_def)+

lemma quote_parts:
  assumes "Quote_univ2 F E c i = (c', Inr quoted)"
  obtains r where "validateQuote F E c i = Inr r" "quote_paths F E c' r = Inr quoted"
    "getPair E c' = getPair E c" "getAmountsOut E c' = getAmountsOut E c" "config c' = config c"
    "router02 c' = router02 c" "quoteBaseTokens c' = quoteBaseTokens c"
  using assms
  by (force simp: Quote_univ2_def ensureChainID_def ensureDeployment_def
    split: sum.splits prod.splits if_splits option.splits)

lemma linked_cong:
  assumes "getPair E c' = getPair E c"
  shows "linked E c' = linked E c"
proof
  show "linked E c' path = linked E c path" for path
    using assms by (induction E c path rule: linked.induct) simp_all
qed

lemma pairs_agree_cong: "getPair E c' = getPair E c \<Longrightarrow> pairs_agree E c' = pairs_agree E c"
  by (simp add: pairs_agree_def)

lemma path_ends:
  "path \<in> set (candidatePaths E tin tout bases) \<Longrightarrow> hd path = tin \<and> last path = tout \<and> length path \<le> 3"
  by (auto simp: candidatePaths_def dest: add_paths_ends)

text \<open>
  C26: A quoted route is the best one and asks for no more than it says: it follows a path of pairs
  from the token paid to the token bought, whose amount is the largest of all the paths tried that
  have pairs and a quote; its least amount is that amount less the slippage, rounded down; it is sent
  to the router for the recipient checked, with the approval of exactly the amount paid, or with that
  amount as value when the chain's own coin is paid.
\<close>

theorem univ2_quote_sound:
  assumes "Quote_univ2 F E c i = (c', Inr quoted)" "route \<in> set (oRoutes quoted)" "pairs_agree E c"
  shows "\<exists>r path n calldata. validateQuote F E c i = Inr r \<and>
    hd path = tokenIn r \<and> last path = tokenOut r \<and> linked E c path \<and> getAmountsOut E c (amountIn r) path = Inr n \<and>
    (\<forall>q m. q \<in> set (candidatePaths E (tokenIn r) (tokenOut r) (quoteBaseTokens c)) \<longrightarrow> linked E c q \<longrightarrow>
       getAmountsOut E c (amountIn r) q = Inr m \<longrightarrow> m \<le> n) \<and>
    AmountOut route = Itoa n \<and> dAmountOutMin route = Itoa \<lfloor>of_int n * (100 - slippage r) / 100\<rfloor> \<and>
    (case swap_call r \<lfloor>of_int n * (100 - slippage r) / 100\<rfloor> path (dExpiresAt route) of
       (method, args) \<Rightarrow> AbiPack E method args = Some calldata) \<and>
    (case dTxData route of None \<Rightarrow> False | Some tx \<Rightarrow> DexTo tx = AddressHex E (router02 c) \<and>
       DexData tx = ''0x'' @ hex_encode calldata \<and> DexValue tx = (if inputNative r then Itoa (amountIn r) else [])) \<and>
    dApprovalData route = (if inputNative r then None else Some \<lparr>ApprovalToken = AddressHex E (tokenIn r),
       Spender = AddressHex E (router02 c), ApprovalAmount = Itoa (amountIn r)\<rparr>)"
proof -
  obtain r where r: "validateQuote F E c i = Inr r" "quote_paths F E c' r = Inr quoted"
    and same: "getPair E c' = getPair E c" "getAmountsOut E c' = getAmountsOut E c" "config c' = config c"
      "router02 c' = router02 c" "quoteBaseTokens c' = quoteBaseTokens c"
    by (rule quote_parts [OF assms(1)])
  let ?paths = "candidatePaths E (tokenIn r) (tokenOut r) (quoteBaseTokens c)"
  obtain viable n path where viable: "viable_paths E c' ?paths Map.empty = Inr viable"
    and best: "best_path E c' (amountIn r) viable None = Some (n, path)"
    and route: "swap_route F E c' r n path = Inr route"
    using r(2) assms(2) same
    by (auto simp: quote_paths_def andThen_eq_Inr split: if_splits option.splits)
  have "viable = filter (linked E c) ?paths"
    using viable_linked [OF viable] assms(3) linked_cong [OF same(1)] pairs_agree_cong [OF same(1)]
    by (simp add: cache_ok_def)
  with best_path_best [OF best] same(2) have p: "path \<in> set ?paths" "linked E c path"
    "getAmountsOut E c (amountIn r) path = Inr n"
    and max: "\<forall>q m. q \<in> set ?paths \<longrightarrow> linked E c q \<longrightarrow> getAmountsOut E c (amountIn r) q = Inr m \<longrightarrow> m \<le> n"
    by auto
  have "0 \<le> n" using p(3) by (auto simp: getAmountsOut_def andThen_eq_Inr split: if_splits abi_value.splits option.splits)
  moreover have "0 \<le> slippage r \<and> slippage r < 100"
    using r(1) by (auto simp: validateQuote_def andThen_eq_Inr Let_def dest: parseSlippage_range)
  ultimately have least: "applySlippage n (slippage r) = \<lfloor>of_int n * (100 - slippage r) / 100\<rfloor>"
    by (simp add: applySlippage_floor)
  from route r(1) p max path_ends [OF p(1)] show ?thesis
    unfolding swap_route_def Let_def least
    by (intro exI [of _ r] exI [of _ path] exI [of _ n])
      (auto simp: andThen_eq_Inr encodeSwap_def same split: prod.splits)
qed

section \<open>A quote\<close>

definition sample_univ2 :: univ2_env where
  "sample_univ2 = \<lparr>IsHexAddress = (\<lambda>_. True), HexToAddress = (\<lambda>s. replicate 20 (word_of_nat (length s))),
     AddressHex = hex_encode, EqualFold = (=), UrlParse = (\<lambda>_. None), Dial = (\<lambda>_. True),
     AbiPack = (\<lambda>method args. Some (case args of [_, AbiAddresses path] \<Rightarrow> replicate (length path) 0 | _ \<Rightarrow> [])),
     AbiUnpack = (\<lambda>method raw. Some (if method = ''getPair'' then [AbiAddress (replicate 20 9)]
       else [AbiUints (replicate (length raw) (Some 50))])),
     CallContract = (\<lambda>_ d. Some d), EthChainID = None, TransactionReceipt = (\<lambda>_. ReceiptError),
     HexutilDecode = (\<lambda>_. None), Keccak256Hash = (\<lambda>d. d), HashHex = hex_encode, Now = 0\<rparr>"

lemma sample_univ2_simps [simp]:
  "IsHexAddress sample_univ2 s" "HexToAddress sample_univ2 s = replicate 20 (word_of_nat (length s))"
  "EqualFold sample_univ2 = (=)" "CallContract sample_univ2 a d = Some d"
  "AbiPack sample_univ2 method args = Some (case args of [_, AbiAddresses path] \<Rightarrow> replicate (length path) 0 | _ \<Rightarrow> [])"
  "AbiUnpack sample_univ2 method raw = Some (if method = ''getPair'' then [AbiAddress (replicate 20 9)]
     else [AbiUints (replicate (length raw) (Some 50))])"
  by (simp_all add: sample_univ2_def)

definition sample_client :: Client where
  "sample_client = \<lparr>config = \<lparr>ChainName = ''BSC'', ChainID = 56, RPC = [], Factory = [], Router02 = [],
     WrappedNative = [], QuoteBaseTokens = [], DeadlineTTL = 60000000000\<rparr>, factory = replicate 20 1,
     router02 = replicate 20 5, wrappedNative = replicate 20 6, quoteBaseTokens = [], chainChecked = True,
     deployChecked = True\<rparr>"

definition sample_question :: DexQuoteIn where
  "sample_question = (quote_in int_floats sample_quote_request sample_candidate)
     \<lparr>ToToken := ''BB'', FromAddress := ''CCC'', ToAddress := ''CCC''\<rparr>"

lemma sample_pair: "getPair sample_univ2 sample_client a b = Inr (replicate 20 9)"
  by (simp add: getPair_def call_contract_def one_address_def)

lemma sample_amounts: "path \<noteq> [] \<Longrightarrow> getAmountsOut sample_univ2 sample_client n path = Inr 50"
  by (simp add: getAmountsOut_def call_contract_def last_replicate)

lemma sample_trims:
  "strings_TrimSpace ''1'' = ''1''" "strings_TrimSpace ''100'' = ''100''" "strings_TrimSpace ''A'' = ''A''"
  "strings_TrimSpace ''BB'' = ''BB''" "strings_TrimSpace ''BSC'' = ''BSC''" "strings_TrimSpace ''CCC'' = ''CCC''"
  by (simp_all add: strings_TrimSpace_def trim_left.simps trim_right.simps space_len_def space_suffix_len_def
    char_nat_def)

lemma sample_validated: "\<exists>r. validateQuote int_floats sample_univ2 sample_client (Some sample_question) = Inr r"
proof -
  have f: "FromChain sample_question = ''BSC''" "ToChain sample_question = ''BSC''" "FromToken sample_question = ''A''"
    "ToToken sample_question = ''BB''" "FromAddress sample_question = ''CCC''" "ToAddress sample_question = ''CCC''"
    "FromAmount sample_question = ''100''" "Slippage sample_question = ''1''"
    by (simp_all add: sample_question_def quote_in_def sample_quote_request_def sample_candidate_def slippagePct_def)
  have "RatSetString int_floats ''1'' = Some 1"
    by (simp add: int_floats_def big_SetString_def digit_of_def char_nat_def)
  then show ?thesis
    by (simp add: validateQuote_def f sample_trims matchesChain_def isNative_def swapToken_def requiredAddress_def
      zero_address_def parseSlippage_def sample_client_def big_SetString_def digit_of_def char_nat_def
      MagicContactAddressForNative_def MagicAddressForZeroEVM_def Let_def)
qed

lemma sample_quotes:
  "\<exists>quoted route. Quote_univ2 int_floats sample_univ2 sample_client (Some sample_question) = (sample_client, Inr quoted) \<and>
     route \<in> set (oRoutes quoted)"
proof -
  obtain r where r: "validateQuote int_floats sample_univ2 sample_client (Some sample_question) = Inr r"
    using sample_validated ..
  let ?path = "[tokenIn r, tokenOut r]"
  have "candidatePaths sample_univ2 (tokenIn r) (tokenOut r) (quoteBaseTokens sample_client) = [?path]"
    by (simp add: candidatePaths_def sample_client_def)
  moreover have "viable_paths sample_univ2 sample_client [?path] Map.empty = Inr [?path]"
    by (simp add: sample_pair zero_address_def Let_def)
  moreover have "best_path sample_univ2 sample_client (amountIn r) [?path] None = Some (50, ?path)"
    by (simp add: sample_amounts)
  moreover obtain route where "swap_route int_floats sample_univ2 sample_client r 50 ?path = Inr route"
    by (simp add: swap_route_def encodeSwap_def split_def Let_def)
  ultimately have "quote_paths int_floats sample_univ2 sample_client r = Inr \<lparr>oChannel = Channel, oRoutes = [route]\<rparr>"
    by (simp add: quote_paths_def)
  moreover have "chainChecked sample_client" "deployChecked sample_client" by (simp_all add: sample_client_def)
  ultimately show ?thesis
    using r by (simp add: Quote_univ2_def ensureChainID_def ensureDeployment_def)
qed

theorem univ2_quote_sound_witness:
  "\<exists>quoted route. Quote_univ2 int_floats sample_univ2 sample_client (Some sample_question) = (sample_client, Inr quoted) \<and>
     route \<in> set (oRoutes quoted) \<and> AmountOut route = ''50''"
proof -
  obtain quoted route where q: "Quote_univ2 int_floats sample_univ2 sample_client (Some sample_question) = (sample_client, Inr quoted)"
    "route \<in> set (oRoutes quoted)" using sample_quotes by blast
  have "pairs_agree sample_univ2 sample_client" by (simp add: pairs_agree_def sample_pair)
  from univ2_quote_sound [OF q this] obtain r :: request and path n where
    n: "getAmountsOut sample_univ2 sample_client (amountIn r) path = Inr n" "AmountOut route = Itoa n" by (elim exE conjE)
  have "n = 50" using n(1) sample_amounts [of path "amountIn r"]
    by (cases "path = []") (simp_all add: getAmountsOut_def call_contract_def)
  moreover have "Itoa 50 = ''50''" by (simp add: Itoa_def FormatUint.simps char_of_eq_iff take_bit_eq_mod)
  ultimately show ?thesis using n(2) q by metis
qed

end
