(* ===== verification/Protobuf.thy ===== *)
theory Protobuf
  imports Codec
begin

text \<open>
  The wire format of protocol buffers as \<open>signing/tron/protobuf.go\<close> writes it: variable-length
  integers, tags, and fields that are left out when they are zero or empty. The reference reader
  \<open>pb_read\<close> is written after the published format; reading a message gives the fields it was written
  from, without the empty ones. The messages of Tron and MultiversX are shown to be such messages.
\<close>

section \<open>Writing\<close>

definition pbUvarint :: "u64 \<Rightarrow> bytes" where
  "pbUvarint v = uleb v"

definition pbTag :: "nat \<Rightarrow> nat \<Rightarrow> bytes" where
  "pbTag field wire = pbUvarint (push_bit 3 (word_of_nat field) OR word_of_nat wire)"

definition pbVarintField :: "nat \<Rightarrow> u64 \<Rightarrow> bytes" where
  "pbVarintField field v = (if v = 0 then [] else pbTag field 0 @ pbUvarint v)"

definition pbBytesField :: "nat \<Rightarrow> bytes \<Rightarrow> bytes" where
  "pbBytesField field d =
     (if length d = 0 then [] else pbTag field 2 @ pbUvarint (word_of_nat (length d)) @ d)"

section \<open>Reading\<close>

datatype pb_value = PbVarint u64 | PbBytes bytes

type_synonym pb_field = "nat \<times> pb_value"

definition pb_read_field :: "bytes \<Rightarrow> (pb_field \<times> bytes) option" where
  "pb_read_field bs =
     (case dec_uleb_nat bs of
        None \<Rightarrow> None
      | Some (tag, rest) \<Rightarrow>
          if tag mod 8 = 0 then map_option (\<lambda>(v, r). ((tag div 8, PbVarint v), r)) (dec_uleb rest)
          else if tag mod 8 = 2 then map_option (\<lambda>(d, r). ((tag div 8, PbBytes d), r)) (dec_len_prefixed rest)
          else None)"

lemma dec_uleb_nat_shorter: "dec_uleb_nat bs = Some (n, rest) \<Longrightarrow> length rest < length bs"
  by (induction bs arbitrary: n rest rule: dec_uleb_nat.induct) (force split: if_splits option.splits)+

lemma pb_read_field_shorter: "pb_read_field bs = Some (f, rest) \<Longrightarrow> length rest < length bs"
  by (auto simp: pb_read_field_def dec_uleb_def dec_len_prefixed_def dec_raw_def
           split: option.splits prod.splits if_splits dest!: dec_uleb_nat_shorter)

function pb_read :: "bytes \<Rightarrow> pb_field list option" where
  "pb_read bs =
     (if bs = [] then Some []
      else case pb_read_field bs of
        None \<Rightarrow> None
      | Some (f, rest) \<Rightarrow> map_option (\<lambda>fs. f # fs) (pb_read rest))"
  by pat_completeness auto
termination
  by (relation "measure length") (auto dest: pb_read_field_shorter)

declare pb_read.simps [simp del]

section \<open>Reading what was written\<close>

fun pb_present :: "pb_field \<Rightarrow> bool" where
  "pb_present (_, PbVarint v) \<longleftrightarrow> v \<noteq> 0"
| "pb_present (_, PbBytes d) \<longleftrightarrow> d \<noteq> []"

fun pb_write :: "pb_field \<Rightarrow> bytes" where
  "pb_write (n, PbVarint v) = pbVarintField n v"
| "pb_write (n, PbBytes d) = pbBytesField n d"

text \<open>Field numbers of the format are below \<open>2 ^ 29\<close>, and a byte string is a Go slice.\<close>

fun pb_ok :: "pb_field \<Rightarrow> bool" where
  "pb_ok (n, PbVarint v) \<longleftrightarrow> n < 2 ^ 29"
| "pb_ok (n, PbBytes d) \<longleftrightarrow> n < 2 ^ 29 \<and> slice d"

lemma pbTag_word:
  assumes "n < 2 ^ 29" "w < 8"
  shows "push_bit 3 (word_of_nat n) OR word_of_nat w = (word_of_nat (8 * n + w) :: u64)"
proof -
  have "push_bit 3 (word_of_nat n :: u64) = word_of_nat (push_bit 3 n)" by (simp add: push_bit_of_nat)
  moreover have "push_bit 3 n OR w = 8 * n + w"
    using or_shift_nat [of w 3 n] assms(2) by (simp add: push_bit_eq_mult mult.commute)
  ultimately show ?thesis by (metis of_nat_or_eq)
qed

lemma read_pbTag:
  "n < 2 ^ 29 \<Longrightarrow> w < 8 \<Longrightarrow> dec_uleb_nat (pbTag n w @ rest) = Some (8 * n + w, rest)"
proof -
  assume n: "n < 2 ^ 29" "w < 8"
  then have "unat (word_of_nat (8 * n + w) :: u64) = 8 * n + w" by (simp add: unat_of_nat del: of_nat_add of_nat_mult)
  then show ?thesis by (simp only: pbTag_def pbTag_word [OF n] pbUvarint_def dec_uleb_nat_uleb)
qed

lemma pb_read_field_write:
  "pb_ok f \<Longrightarrow> pb_present f \<Longrightarrow> pb_read_field (pb_write f @ rest) = Some (f, rest)"
proof (cases f)
  case (Pair n v)
  assume "pb_ok f" "pb_present f"
  moreover have "Suc (Suc (8 * n)) mod 8 = 2" by presburger
  moreover have "Suc (Suc (8 * n)) div 8 = n" by presburger
  ultimately show ?thesis
    by (cases v)
       (auto simp: Pair pbVarintField_def pbBytesField_def pb_read_field_def read_pbTag
          uleb.dec_enc pbUvarint_def dec_uleb_nat_uleb dec_len_prefixed_def slice_length dec_raw_def)
qed

lemma pb_write_absent: "\<not> pb_present f \<Longrightarrow> pb_write f = []"
  by (cases f; cases "snd f") (auto simp: pbVarintField_def pbBytesField_def)

lemma pb_write_present: "pb_present f \<Longrightarrow> pb_write f \<noteq> []"
  by (cases f; cases "snd f") (auto simp: pbVarintField_def pbBytesField_def pbTag_def pbUvarint_def)

lemma pb_read_write_append:
  "list_all pb_ok fs \<Longrightarrow>
     pb_read (concat (map pb_write fs) @ rest) = map_option (\<lambda>gs. filter pb_present fs @ gs) (pb_read rest)"
proof (induction fs)
  case (Cons f fs)
  show ?case
  proof (cases "pb_present f")
    case True
    then show ?thesis
      using Cons pb_write_present [OF True]
      by (subst pb_read.simps) (cases "pb_read rest"; simp add: pb_read_field_write)
  next
    case False
    then show ?thesis using Cons by (simp add: pb_write_absent)
  qed
qed (cases "pb_read rest"; simp)

text \<open>A message is read back as its fields, but for the zero and empty ones.\<close>

lemma pb_read_write:
  "list_all pb_ok fs \<Longrightarrow> pb_read (concat (map pb_write fs)) = Some (filter pb_present fs)"
  using pb_read_write_append [of fs "[]"] by (simp add: pb_read.simps)

text \<open>In a message that is a Go slice every byte string is one.\<close>

lemma pb_ok_of_slice:
  "list_all (\<lambda>f. fst f < 2 ^ 29) fs \<Longrightarrow> slice (concat (map pb_write fs)) \<Longrightarrow> list_all pb_ok fs"
proof (induction fs)
  case (Cons f fs)
  then have "slice (pb_write f)" "slice (concat (map pb_write fs))" by (auto simp: slice_def)
  with Cons show ?case by (cases f; cases "snd f") (auto simp: pbBytesField_def slice_def split: if_splits)
qed simp

lemma pb_read_slice:
  "list_all (\<lambda>f. fst f < 2 ^ 29) fs \<Longrightarrow> slice (concat (map pb_write fs)) \<Longrightarrow>
     pb_read (concat (map pb_write fs)) = Some (filter pb_present fs)"
  by (rule pb_read_write [OF pb_ok_of_slice])

lemma pb_read_Nil [simp]: "pb_read [] = Some []"
  by (simp add: pb_read.simps)

text \<open>The value of a field that may be left out.\<close>

definition pb_bytes :: "nat \<Rightarrow> pb_field list \<Rightarrow> bytes" where
  "pb_bytes n fs = (case map_of fs n of Some (PbBytes d) \<Rightarrow> d | _ \<Rightarrow> [])"

definition pb_varint :: "nat \<Rightarrow> pb_field list \<Rightarrow> u64" where
  "pb_varint n fs = (case map_of fs n of Some (PbVarint v) \<Rightarrow> v | _ \<Rightarrow> 0)"

lemma pb_bytes_Nil [simp]: "pb_bytes n [] = []"
  by (simp add: pb_bytes_def)

lemma pb_varint_Nil [simp]: "pb_varint n [] = 0"
  by (simp add: pb_varint_def)

lemma pb_bytes_Cons [simp]:
  "pb_bytes n ((m, v) # fs) = (if m = n then case v of PbBytes d \<Rightarrow> d | _ \<Rightarrow> [] else pb_bytes n fs)"
  by (simp add: pb_bytes_def split: pb_value.splits)

lemma pb_varint_Cons [simp]:
  "pb_varint n ((m, v) # fs) = (if m = n then case v of PbVarint d \<Rightarrow> d | _ \<Rightarrow> 0 else pb_varint n fs)"
  by (simp add: pb_varint_def split: pb_value.splits)

lemma pb_bytes_present [simp]:
  "distinct (map fst fs) \<Longrightarrow> pb_bytes n (filter pb_present fs) = pb_bytes n fs"
proof (induction fs)
  case (Cons f fs)
  have "n \<notin> fst ` set fs \<Longrightarrow> pb_bytes n fs = []"
    by (simp add: pb_bytes_def map_of_eq_None_iff [symmetric])
  with Cons show ?case by (cases f; cases "snd f") auto
qed simp

lemma pb_varint_present [simp]:
  "distinct (map fst fs) \<Longrightarrow> pb_varint n (filter pb_present fs) = pb_varint n fs"
proof (induction fs)
  case (Cons f fs)
  have "n \<notin> fst ` set fs \<Longrightarrow> pb_varint n fs = 0"
    by (simp add: pb_varint_def map_of_eq_None_iff [symmetric])
  with Cons show ?case by (cases f; cases "snd f") auto
qed simp

end
