(* ===== verification/Validator.thy ===== *)
theory Validator
  imports GoLib
begin

text \<open>
  \<open>signing/validator.go\<close> and \<open>signing/constants.go\<close>: the validators the struct tags of the
  ingredients name, as predicates on the field's text. The tags of the validator package itself that
  the ingredients use (\<open>required\<close>, \<open>omitempty\<close>, \<open>oneof\<close>, \<open>alphanum\<close>) are part of the predicate of
  each ingredient. The lemmas say what text that passes reads as.
\<close>

section \<open>Constants\<close>

definition MagicContactAddressForNative :: string where
  "MagicContactAddressForNative = ''0xeeeeeeeeeeeeeeeeeeeeeeeeeeeeeeeeeeeeeeee''"

definition TxTypes :: "string list" where
  "TxTypes = [''0'', ''1'', ''2'', ''3'', ''4'', ''5'', ''6'']"

section \<open>Validators\<close>

definition valid_u64 :: "string \<Rightarrow> bool" where
  "valid_u64 s \<longleftrightarrow> (if s = [] then False else snd (ParseUint 64 s) = None)"

definition valid_u64_gt0 :: "string \<Rightarrow> bool" where
  "valid_u64_gt0 s \<longleftrightarrow>
     (if s = [] then False else case ParseUint 64 s of (v, err) \<Rightarrow> err = None \<and> v > 0)"

definition valid_i64 :: "string \<Rightarrow> bool" where
  "valid_i64 s \<longleftrightarrow> (if s = [] then False else snd (ParseInt 64 s) = None)"

definition valid_bigint_gt0 :: "string \<Rightarrow> bool" where
  "valid_bigint_gt0 s \<longleftrightarrow>
     (if s = [] then False else case big_SetString s of None \<Rightarrow> False | Some n \<Rightarrow> n > 0)"

definition valid_bigint_gte0 :: "string \<Rightarrow> bool" where
  "valid_bigint_gte0 s \<longleftrightarrow>
     (if s = [] then False else case big_SetString s of None \<Rightarrow> False | Some n \<Rightarrow> n \<ge> 0)"

definition hex_char :: "char \<Rightarrow> bool" where
  "hex_char c \<longleftrightarrow>
     \<not> ((char_nat c < 48 \<or> char_nat c > 57) \<and> (char_nat c < 97 \<or> char_nat c > 102) \<and>
        (char_nat c < 65 \<or> char_nat c > 70))"

definition valid_hex_str :: "string \<Rightarrow> bool" where
  "valid_hex_str s \<longleftrightarrow>
     (if s = [] then False
      else let t = (if strings_HasPrefix s ''0x'' \<or> strings_HasPrefix s ''0X'' then drop 2 s else s)
           in if t = [] \<or> length t mod 2 \<noteq> 0 then False else list_all hex_char t)"

definition valid_bool_str :: "string \<Rightarrow> bool" where
  "valid_bool_str s \<longleftrightarrow> s = ''true'' \<or> s = ''false''"

text \<open>
  \<open>strings.EqualFold\<close> where one side is hexadecimal text: no letter outside ASCII folds to a
  hexadecimal digit or to \<open>x\<close>, so folding the letters of ASCII decides it.
\<close>

definition ascii_lower :: "char \<Rightarrow> char" where
  "ascii_lower c = (if 65 \<le> char_nat c \<and> char_nat c \<le> 90 then char_of (char_nat c + 32) else c)"

definition equal_fold :: "string \<Rightarrow> string \<Rightarrow> bool" where
  "equal_fold s t \<longleftrightarrow> map ascii_lower s = map ascii_lower t"

definition valid_native :: "string \<Rightarrow> bool" where
  "valid_native s \<longleftrightarrow> equal_fold s MagicContactAddressForNative"

section \<open>What text that passes reads as\<close>

lemma valid_u64_reads: "valid_u64 s \<longleftrightarrow> (\<exists>n < 2 ^ 64. ParseUint 64 s = (n, None))"
  using ParseUint_bound [of 64 s]
  by (cases "ParseUint 64 s") (auto simp: valid_u64_def ParseUint_def split: if_splits)

lemma valid_u64_gt0_reads: "valid_u64_gt0 s \<longleftrightarrow> (\<exists>n < 2 ^ 64. 0 < n \<and> ParseUint 64 s = (n, None))"
  using ParseUint_bound [of 64 s]
  by (cases "ParseUint 64 s") (auto simp: valid_u64_gt0_def ParseUint_def split: if_splits)

lemma ParseUint_sound: "ParseUint b s = (n, None) \<Longrightarrow> digits_value 0 s = Some n \<and> n < 2 ^ b \<and> s \<noteq> []"
  by (auto simp: ParseUint_def split: if_splits dest: ParseUint_loop_sound)

lemma ParseUint_first_digit: "ParseUint b (c # s) = (n, None) \<Longrightarrow> c \<noteq> CHR ''+'' \<and> c \<noteq> CHR ''-''"
  by (auto simp: ParseUint_def digit_of_def char_nat_def split: option.splits if_splits)

text \<open>Text that passes as a 64-bit natural number is read by \<open>ParseInt\<close> as the smaller of its value and \<open>2 ^ 63 - 1\<close>.\<close>

lemma ParseInt_of_ParseUint:
  assumes "ParseUint 64 s = (n, None)"
  shows "ParseInt 64 s = (if n < 2 ^ 63 then (int n, None) else (2 ^ 63 - 1, Some ErrRange))"
proof -
  obtain c cs where s: "s = c # cs" using assms by (cases s) (auto simp: ParseUint_def)
  have "c \<noteq> CHR ''+'' \<and> c \<noteq> CHR ''-''" using ParseUint_first_digit assms unfolding s by blast
  then show ?thesis using assms s by (simp add: ParseInt_def)
qed

lemma fromHexChar_hex_char: "fromHexChar c \<noteq> None \<longleftrightarrow> hex_char c"
  by (auto simp: fromHexChar_def hex_char_def Let_def)

lemma hex_decode_Some: "even (length s) \<Longrightarrow> list_all hex_char s \<Longrightarrow> \<exists>b. hex_decode s = Some b"
proof (induction s rule: hex_decode.induct)
  case (3 c d s)
  then obtain x y where xy: "fromHexChar c = Some x" "fromHexChar d = Some y"
    using fromHexChar_hex_char [of c] fromHexChar_hex_char [of d] by auto
  moreover obtain b where "hex_decode s = Some b" using 3 by (auto simp: xy)
  ultimately show ?case by simp
qed auto

text \<open>Hexadecimal text that passes decodes once its prefix is gone.\<close>

lemma valid_hex_str_decodes:
  "valid_hex_str s \<Longrightarrow> \<not> strings_HasPrefix s ''0X'' \<Longrightarrow> \<exists>b. hex_decode (strings_TrimPrefix s ''0x'') = Some b"
proof -
  assume s: "valid_hex_str s" "\<not> strings_HasPrefix s ''0X''"
  have "strings_TrimPrefix s ''0x'' = (if strings_HasPrefix s ''0x'' then drop 2 s else s)"
    by (simp add: strings_TrimPrefix_def numeral_2_eq_2)
  with s have "even (length (strings_TrimPrefix s ''0x'')) \<and> list_all hex_char (strings_TrimPrefix s ''0x'')"
    by (cases "strings_HasPrefix s ''0x''")
       (simp_all add: valid_hex_str_def Let_def even_iff_mod_2_eq_zero del: length_drop split: if_splits)
  then show ?thesis by (blast intro: hex_decode_Some)
qed

lemma equal_fold_refl [simp]: "equal_fold s s"
  by (simp add: equal_fold_def)

lemma valid_native_magic [simp]: "valid_native MagicContactAddressForNative"
  by (simp add: valid_native_def)

end
