(* ===== verification/Tokens.thy ===== *)
theory Tokens
  imports Validator
begin

text \<open>
  \<open>contracts/erc20\<close>, \<open>contracts/erc721\<close> and \<open>contracts/trc20\<close>: the calldata of token contracts. The
  ABI coder, the JSON decoder, the address types of go-ethereum and base58 are the fields of a
  record of functions; the ABI a call is packed with is named by a constructor that stands for its
  text. \<open>Pack\<close> returns an error or panics, which reads as the error \<open>Panic\<close>. A \<open>*big.Int\<close> that was
  not set is \<open>AbiUint None\<close>.
\<close>

section \<open>The interface of the ABI coder\<close>

datatype abi_text = ABIERC20 | ABIERC20ForTransferWithData | ABIERC721 | ABITRC20

datatype abi_value =
  AbiAddress bytes | AbiUint "int option" | AbiUint8 u8 | AbiBytes bytes | AbiString string | AbiBool bool

datatype token_error =
  Panic | WrongParams | InvalidAmount | InvalidMemo | InvalidTokenId | InvalidIndex | InvalidData
| InvalidTronAddress | AbiInvalid | AmountRequired | PackFailed | FunctionNotFound | PayloadTooShort
| HexInvalid | NoMethod | UnpackFailed | BadPayloadLength | BadParamsLength | BadParamType
| BadResultLength | BadResultType

record CallErc20In =
  c_Address :: string
  c_Owner :: string
  c_Spender :: string
  c_From :: string
  c_To :: string
  c_Recipient :: string
  c_Amount :: string
  c_Memo :: string

record callErc20InNative =
  n_Address :: bytes
  n_Owner :: bytes
  n_Spender :: bytes
  n_From :: bytes
  n_To :: bytes
  n_Recipient :: bytes
  n_Amount :: "int option"
  n_Memo :: bytes

record CallErc721In =
  t_Address :: string
  t_Owner :: string
  t_Operator :: string
  t_Approved :: bool
  t_From :: string
  t_To :: string
  t_Recipient :: string
  t_TokenId :: string
  t_Index :: string
  t_Data :: string

record callErc721Native =
  m_Owner :: bytes
  m_Operator :: bytes
  m_From :: bytes
  m_To :: bytes
  m_Recipient :: bytes
  m_TokenId :: "int option"
  m_Index :: "int option"
  m_Data :: bytes

record token_env =
  AbiParses :: "abi_text \<Rightarrow> bool"
  Pack :: "abi_text \<Rightarrow> string \<Rightarrow> abi_value list \<Rightarrow> token_error + bytes"
  MethodById :: "abi_text \<Rightarrow> bytes \<Rightarrow> string option"
  UnpackInputs :: "abi_text \<Rightarrow> string \<Rightarrow> bytes \<Rightarrow> abi_value list option"
  UnpackOutputs :: "abi_text \<Rightarrow> string \<Rightarrow> bytes \<Rightarrow> abi_value list option"
  json_Erc20In :: "bytes \<Rightarrow> CallErc20In option"
  json_Erc721In :: "bytes \<Rightarrow> CallErc721In option"
  HexToAddress :: "string \<Rightarrow> bytes"
  AddressHex :: "bytes \<Rightarrow> string"
  b58_CheckDecode :: "string \<Rightarrow> (bytes \<times> u8) option"

text \<open>The fields of an empty struct, which nil params leave.\<close>

definition no_erc20_in :: CallErc20In where
  "no_erc20_in = \<lparr>c_Address = [], c_Owner = [], c_Spender = [], c_From = [], c_To = [], c_Recipient = [],
     c_Amount = [], c_Memo = []\<rparr>"

definition no_erc721_in :: CallErc721In where
  "no_erc721_in = \<lparr>t_Address = [], t_Owner = [], t_Operator = [], t_Approved = False, t_From = [], t_To = [],
     t_Recipient = [], t_TokenId = [], t_Index = [], t_Data = []\<rparr>"

definition read_params :: "(bytes \<Rightarrow> 'p option) \<Rightarrow> 'p \<Rightarrow> bytes option \<Rightarrow> token_error + 'p" where
  "read_params json none params =
     (case params of None \<Rightarrow> Inr none | Some b \<Rightarrow> orErr WrongParams (json b))"

text \<open>A number that may be left out, and bytes that may.\<close>

definition optional_int :: "token_error \<Rightarrow> string \<Rightarrow> token_error + int option" where
  "optional_int e s =
     (if s \<noteq> [] then map_sum id Some (orErr e (big_SetString s)) else Inr None)"

definition optional_hex :: "token_error \<Rightarrow> string \<Rightarrow> token_error + bytes" where
  "optional_hex e s =
     (if s \<noteq> [] then orErr e (hex_decode (strings_TrimPrefix s ''0x'')) else Inr [])"

section \<open>ERC-20\<close>

definition amount_functions :: "string list" where
  "amount_functions = [''mint'', ''burn'', ''transfer'', ''transferFrom'', ''approve'']"

definition erc20_native :: "token_env \<Rightarrow> CallErc20In \<Rightarrow> token_error + callErc20InNative" where
  "erc20_native E p =
     andThen (optional_int InvalidAmount (c_Amount p)) (\<lambda>amount.
     andThen (optional_hex InvalidMemo (c_Memo p)) (\<lambda>memo.
       Inr \<lparr>n_Address = HexToAddress E (c_Address p), n_Owner = HexToAddress E (c_Owner p),
         n_Spender = HexToAddress E (c_Spender p), n_From = HexToAddress E (c_From p),
         n_To = HexToAddress E (c_To p), n_Recipient = HexToAddress E (c_Recipient p),
         n_Amount = amount, n_Memo = memo\<rparr>))"

text \<open>The switch on the function: which ABI the call is packed with, and its arguments.\<close>

definition erc20_args :: "string \<Rightarrow> CallErc20In \<Rightarrow> callErc20InNative \<Rightarrow> (abi_text \<times> abi_value list) option" where
  "erc20_args function p pp =
     (if function \<in> set [''name'', ''symbol'', ''decimals'', ''totalSupply''] then Some (ABIERC20, [])
      else if function \<in> set [''balanceOf'', ''transferOwnership''] then
        Some (ABIERC20, [AbiAddress (n_Address pp)])
      else if function = ''allowance'' then
        Some (ABIERC20, [AbiAddress (n_Owner pp), AbiAddress (n_Spender pp)])
      else if function \<in> set [''mint'', ''burn''] then
        Some (ABIERC20, [AbiAddress (n_Recipient pp), AbiUint (n_Amount pp)])
      else if function = ''transfer'' then
        (if c_Memo p \<noteq> [] then
           Some (ABIERC20ForTransferWithData,
             [AbiAddress (n_Recipient pp), AbiUint (n_Amount pp), AbiBytes (n_Memo pp)])
         else Some (ABIERC20, [AbiAddress (n_Recipient pp), AbiUint (n_Amount pp)]))
      else if function = ''transferFrom'' then
        Some (ABIERC20, [AbiAddress (n_From pp), AbiAddress (n_To pp), AbiUint (n_Amount pp)])
      else if function = ''approve'' then
        Some (ABIERC20, [AbiAddress (n_Spender pp), AbiUint (n_Amount pp)])
      else None)"

definition PackPayloadForErc20 :: "token_env \<Rightarrow> string \<Rightarrow> bytes option \<Rightarrow> token_error + string" where
  "PackPayloadForErc20 E function params =
     andThen (read_params (json_Erc20In E) no_erc20_in params) (\<lambda>p.
     andThen (erc20_native E p) (\<lambda>pp.
     andThen (require (AbiParses E ABIERC20) AbiInvalid) (\<lambda>_.
     andThen (require (AbiParses E ABIERC20ForTransferWithData) AbiInvalid) (\<lambda>_.
     andThen (require (\<not> (function \<in> set amount_functions \<and> n_Amount pp = None)) AmountRequired) (\<lambda>_.
     andThen (orErr FunctionNotFound (erc20_args function p pp)) (\<lambda>(abi, args).
     andThen (Pack E abi function args) (\<lambda>d. Inr (hex_encode d))))))))"

text \<open>The type assertions on an element of the list of unpacked values.\<close>

fun as_address :: "abi_value \<Rightarrow> token_error + bytes" where
  "as_address (AbiAddress a) = Inr a"
| "as_address _ = Inl BadParamType"

fun as_uint :: "abi_value \<Rightarrow> token_error + int option" where
  "as_uint (AbiUint n) = Inr n"
| "as_uint _ = Inl BadParamType"

fun as_bytes :: "abi_value \<Rightarrow> token_error + bytes" where
  "as_bytes (AbiBytes b) = Inr b"
| "as_bytes _ = Inl BadParamType"

text \<open>\<open>strings.ToLower (address.Hex ())\<close> and \<open>amount.String ()\<close>, which is \<open><nil>\<close> for a nil number.\<close>

definition lower_hex :: "token_env \<Rightarrow> bytes \<Rightarrow> string" where
  "lower_hex E a = map ascii_lower (AddressHex E a)"

definition int_String :: "int option \<Rightarrow> string" where
  "int_String n = (case n of None \<Rightarrow> ''<nil>'' | Some i \<Rightarrow> Itoa i)"

record UnpackErc20 = Function :: string
  CallIn :: CallErc20In

definition two_params ::
  "token_env \<Rightarrow> string \<Rightarrow> abi_value list \<Rightarrow> token_error + bytes \<times> int option"
where
  "two_params E payload paramsList =
     (if length payload \<noteq> 136 then Inl BadPayloadLength
      else if length paramsList \<noteq> 2 then Inl BadParamsLength
      else
        andThen (as_address (paramsList ! 0)) (\<lambda>a.
        andThen (as_uint (paramsList ! 1)) (\<lambda>n. Inr (a, n))))"

definition unpack_transfer :: "token_env \<Rightarrow> abi_value list \<Rightarrow> token_error + CallErc20In" where
  "unpack_transfer E paramsList =
     (if length paramsList \<noteq> 2 \<and> length paramsList \<noteq> 3 then Inl BadParamsLength
      else
        andThen (as_address (paramsList ! 0)) (\<lambda>recipient.
        andThen (as_uint (paramsList ! 1)) (\<lambda>amount.
        andThen (if length paramsList = 3 then map_sum id hex_encode (as_bytes (paramsList ! 2)) else Inr []) (\<lambda>memo.
          Inr (no_erc20_in\<lparr>c_Recipient := lower_hex E recipient, c_Amount := int_String amount,
            c_Memo := memo\<rparr>)))))"

definition UnpackPayloadForErc20 :: "token_env \<Rightarrow> string \<Rightarrow> token_error + UnpackErc20" where
  "UnpackPayloadForErc20 E payload0 =
     (let payload = strings_TrimPrefix payload0 ''0x''
      in if length payload < 8 then Inl PayloadTooShort
         else
           andThen (require (AbiParses E ABIERC20) AbiInvalid) (\<lambda>_.
           andThen (require (AbiParses E ABIERC20ForTransferWithData) AbiInvalid) (\<lambda>_.
           andThen (orErr HexInvalid (hex_decode (take 8 payload))) (\<lambda>methodSig.
           andThen
             (case MethodById E ABIERC20 methodSig of
                Some m \<Rightarrow> Inr (ABIERC20, m)
              | None \<Rightarrow>
                  (case MethodById E ABIERC20ForTransferWithData methodSig of
                     Some m \<Rightarrow> Inr (ABIERC20ForTransferWithData, m)
                   | None \<Rightarrow> Inl NoMethod)) (\<lambda>(abi, function).
           andThen (orErr HexInvalid (hex_decode (drop 8 payload))) (\<lambda>paramsBytes.
           andThen (orErr UnpackFailed (UnpackInputs E abi function paramsBytes)) (\<lambda>paramsList.
           andThen
             (if function = ''transfer'' then unpack_transfer E paramsList
              else if function = ''approve'' then
                map_sum id (\<lambda>(spender, amount).
                  no_erc20_in\<lparr>c_Spender := lower_hex E spender, c_Amount := int_String amount\<rparr>)
                  (two_params E payload paramsList)
              else if function \<in> set [''mint'', ''burn''] then
                map_sum id (\<lambda>(recipient, amount).
                  no_erc20_in\<lparr>c_Recipient := lower_hex E recipient, c_Amount := int_String amount\<rparr>)
                  (two_params E payload paramsList)
              else Inl FunctionNotFound) (\<lambda>call.
             Inr \<lparr>Function = function, CallIn = call\<rparr>))))))))"

definition UnpackReturnsForErc20 :: "token_env \<Rightarrow> string \<Rightarrow> bytes \<Rightarrow> token_error + string" where
  "UnpackReturnsForErc20 E function returns =
     andThen (require (AbiParses E ABIERC20) AbiInvalid) (\<lambda>_.
     andThen (orErr UnpackFailed (UnpackOutputs E ABIERC20 function returns)) (\<lambda>out.
       if function = ''name'' \<or> function = ''symbol'' then
         (case out of [AbiString s] \<Rightarrow> Inr s | [_] \<Rightarrow> Inl BadResultType | _ \<Rightarrow> Inl BadResultLength)
       else if function = ''decimals'' then
         (case out of [AbiUint8 d] \<Rightarrow> Inr (Itoa (uint d)) | [_] \<Rightarrow> Inl BadResultType | _ \<Rightarrow> Inl BadResultLength)
       else if function = ''allowance'' then
         (case out of [AbiUint n] \<Rightarrow> Inr (int_String n) | [_] \<Rightarrow> Inl BadResultType | _ \<Rightarrow> Inl BadResultLength)
       else Inl FunctionNotFound))"

section \<open>ERC-721\<close>

definition toNative :: "token_env \<Rightarrow> CallErc721In \<Rightarrow> token_error + callErc721Native" where
  "toNative E i =
     (let owner = (if t_Owner i = [] then t_Address i else t_Owner i)
      in andThen (optional_int InvalidTokenId (t_TokenId i)) (\<lambda>tokenId.
         andThen (optional_int InvalidIndex (t_Index i)) (\<lambda>index.
         andThen (optional_hex InvalidData (t_Data i)) (\<lambda>d.
           Inr \<lparr>m_Owner = HexToAddress E owner, m_Operator = HexToAddress E (t_Operator i),
             m_From = HexToAddress E (t_From i), m_To = HexToAddress E (t_To i),
             m_Recipient = HexToAddress E (t_Recipient i), m_TokenId = tokenId, m_Index = index,
             m_Data = d\<rparr>))))"

definition erc721_args :: "string \<Rightarrow> CallErc721In \<Rightarrow> callErc721Native \<Rightarrow> abi_value list option" where
  "erc721_args function p pp =
     (if function \<in> set [''name'', ''symbol'', ''totalSupply''] then Some []
      else if function = ''balanceOf'' then Some [AbiAddress (m_Owner pp)]
      else if function \<in> set [''ownerOf'', ''tokenURI'', ''getApproved''] then Some [AbiUint (m_TokenId pp)]
      else if function = ''tokenByIndex'' then Some [AbiUint (m_Index pp)]
      else if function = ''tokenOfOwnerByIndex'' then Some [AbiAddress (m_Owner pp), AbiUint (m_Index pp)]
      else if function = ''isApprovedForAll'' then Some [AbiAddress (m_Owner pp), AbiAddress (m_Operator pp)]
      else if function = ''approve'' then Some [AbiAddress (m_Recipient pp), AbiUint (m_TokenId pp)]
      else if function = ''setApprovalForAll'' then Some [AbiAddress (m_Operator pp), AbiBool (t_Approved p)]
      else if function \<in> set [''transferFrom'', ''safeTransferFrom''] then
        Some [AbiAddress (m_From pp), AbiAddress (m_To pp), AbiUint (m_TokenId pp)]
      else if function = ''safeTransferFromWithData'' then
        Some [AbiAddress (m_From pp), AbiAddress (m_To pp), AbiUint (m_TokenId pp), AbiBytes (m_Data pp)]
      else None)"

definition PackPayloadForErc721 :: "token_env \<Rightarrow> string \<Rightarrow> bytes option \<Rightarrow> token_error + string" where
  "PackPayloadForErc721 E function params =
     andThen (read_params (json_Erc721In E) no_erc721_in params) (\<lambda>p.
     andThen (toNative E p) (\<lambda>pp.
     andThen (require (AbiParses E ABIERC721) AbiInvalid) (\<lambda>_.
     andThen (orErr FunctionNotFound (erc721_args function p pp)) (\<lambda>args.
     andThen (Pack E ABIERC721 function args) (\<lambda>d. Inr (hex_encode d))))))"

definition UnpackReturnsForErc721 :: "token_env \<Rightarrow> string \<Rightarrow> bytes \<Rightarrow> token_error + string" where
  "UnpackReturnsForErc721 E function returns =
     andThen (require (AbiParses E ABIERC721) AbiInvalid) (\<lambda>_.
     andThen (orErr UnpackFailed (UnpackOutputs E ABIERC721 function returns)) (\<lambda>out.
     andThen (require (length out = 1) BadResultLength) (\<lambda>_.
       if function \<in> set [''name'', ''symbol'', ''tokenURI''] then
         (case out ! 0 of AbiString s \<Rightarrow> Inr s | _ \<Rightarrow> Inl BadResultType)
       else if function \<in> set [''balanceOf'', ''totalSupply'', ''tokenByIndex'', ''tokenOfOwnerByIndex''] then
         (case out ! 0 of AbiUint n \<Rightarrow> Inr (int_String n) | _ \<Rightarrow> Inl BadResultType)
       else if function \<in> set [''ownerOf'', ''getApproved''] then
         (case out ! 0 of AbiAddress a \<Rightarrow> Inr (lower_hex E a) | _ \<Rightarrow> Inl BadResultType)
       else if function = ''isApprovedForAll'' then
         (case out ! 0 of AbiBool b \<Rightarrow> Inr (if b then ''true'' else ''false'') | _ \<Rightarrow> Inl BadResultType)
       else Inl FunctionNotFound)))"

section \<open>TRC-20\<close>

definition ConvertToBytes :: "token_env \<Rightarrow> string \<Rightarrow> bytes option" where
  "ConvertToBytes E address =
     (case b58_CheckDecode E address of
        None \<Rightarrow> None
      | Some (result, version) \<Rightarrow>
          if version \<noteq> 0x41 \<or> length result \<noteq> 20 then None else Some (version # result))"

definition ConvertToHex :: "token_env \<Rightarrow> string \<Rightarrow> token_error + string" where
  "ConvertToHex E address =
     (case ConvertToBytes E address of
        None \<Rightarrow> Inl InvalidTronAddress
      | Some payload \<Rightarrow> Inr (hex_encode (drop 1 payload)))"

definition toAddress :: "token_env \<Rightarrow> string \<Rightarrow> token_error + bytes" where
  "toAddress E address =
     (if address = [] then Inr (replicate 20 0)
      else andThen (ConvertToHex E address) (\<lambda>h. Inr (HexToAddress E h)))"

text \<open>The struct of TRC-20 has no memo, which stays empty here.\<close>

definition trc20_native :: "token_env \<Rightarrow> CallErc20In \<Rightarrow> token_error + callErc20InNative" where
  "trc20_native E p =
     andThen (toAddress E (c_Address p)) (\<lambda>address.
     andThen (toAddress E (c_Owner p)) (\<lambda>owner.
     andThen (toAddress E (c_Spender p)) (\<lambda>spender.
     andThen (toAddress E (c_From p)) (\<lambda>from.
     andThen (toAddress E (c_To p)) (\<lambda>to.
     andThen (toAddress E (c_Recipient p)) (\<lambda>recipient.
     andThen (optional_int InvalidAmount (c_Amount p)) (\<lambda>amount.
       Inr \<lparr>n_Address = address, n_Owner = owner, n_Spender = spender, n_From = from, n_To = to,
         n_Recipient = recipient, n_Amount = amount, n_Memo = []\<rparr>)))))))"

definition trc20_args :: "string \<Rightarrow> callErc20InNative \<Rightarrow> abi_value list option" where
  "trc20_args function pp =
     (if function \<in> set [''name'', ''symbol'', ''decimals'', ''totalSupply''] then Some []
      else if function \<in> set [''balanceOf'', ''transferOwnership''] then Some [AbiAddress (n_Address pp)]
      else if function = ''allowance'' then Some [AbiAddress (n_Owner pp), AbiAddress (n_Spender pp)]
      else if function \<in> set [''mint'', ''burn'', ''transfer''] then
        Some [AbiAddress (n_Recipient pp), AbiUint (n_Amount pp)]
      else if function = ''transferFrom'' then
        Some [AbiAddress (n_From pp), AbiAddress (n_To pp), AbiUint (n_Amount pp)]
      else if function = ''approve'' then Some [AbiAddress (n_Spender pp), AbiUint (n_Amount pp)]
      else None)"

definition PackPayloadForTrc20 :: "token_env \<Rightarrow> string \<Rightarrow> bytes option \<Rightarrow> token_error + string" where
  "PackPayloadForTrc20 E function params =
     andThen (read_params (json_Erc20In E) no_erc20_in params) (\<lambda>p.
     andThen (trc20_native E p) (\<lambda>pp.
     andThen (require (AbiParses E ABITRC20) AbiInvalid) (\<lambda>_.
     andThen (require (\<not> (function \<in> set amount_functions \<and> n_Amount pp = None)) AmountRequired) (\<lambda>_.
     andThen (orErr FunctionNotFound (trc20_args function pp)) (\<lambda>args.
     andThen (Pack E ABITRC20 function args) (\<lambda>d. Inr (hex_encode d)))))))"

definition unpack_trc20 ::
  "token_env \<Rightarrow> string \<Rightarrow> string \<Rightarrow> abi_value list \<Rightarrow> token_error + CallErc20In"
where
  "unpack_trc20 E payload function paramsList =
     (if function = ''transferOwnership'' then
        if length payload \<noteq> 72 then Inl BadPayloadLength
        else if length paramsList \<noteq> 1 then Inl BadParamsLength
        else andThen (as_address (paramsList ! 0)) (\<lambda>address. Inr (no_erc20_in\<lparr>c_Address := lower_hex E address\<rparr>))
      else if function \<in> set [''mint'', ''burn'', ''transfer''] then
        map_sum id (\<lambda>(recipient, amount).
          no_erc20_in\<lparr>c_Recipient := lower_hex E recipient, c_Amount := int_String amount\<rparr>)
          (two_params E payload paramsList)
      else if function = ''transferFrom'' then
        if length payload \<noteq> 200 then Inl BadPayloadLength
        else if length paramsList \<noteq> 3 then Inl BadParamsLength
        else
          andThen (as_address (paramsList ! 0)) (\<lambda>from.
          andThen (as_address (paramsList ! 1)) (\<lambda>to.
          andThen (as_uint (paramsList ! 2)) (\<lambda>amount.
            Inr (no_erc20_in\<lparr>c_From := lower_hex E from, c_To := lower_hex E to, c_Amount := int_String amount\<rparr>))))
      else if function = ''approve'' then
        map_sum id (\<lambda>(spender, amount).
          no_erc20_in\<lparr>c_Spender := lower_hex E spender, c_Amount := int_String amount\<rparr>)
          (two_params E payload paramsList)
      else Inl FunctionNotFound)"

definition UnpackPayloadForTrc20 :: "token_env \<Rightarrow> string \<Rightarrow> token_error + UnpackErc20" where
  "UnpackPayloadForTrc20 E payload0 =
     (let payload = strings_TrimPrefix payload0 ''0x''
      in if length payload < 8 then Inl PayloadTooShort
         else
           andThen (require (AbiParses E ABITRC20) AbiInvalid) (\<lambda>_.
           andThen (orErr HexInvalid (hex_decode (take 8 payload))) (\<lambda>methodSig.
           andThen (orErr NoMethod (MethodById E ABITRC20 methodSig)) (\<lambda>function.
           andThen (orErr HexInvalid (hex_decode (drop 8 payload))) (\<lambda>paramsBytes.
           andThen (orErr UnpackFailed (UnpackInputs E ABITRC20 function paramsBytes)) (\<lambda>paramsList.
           andThen (unpack_trc20 E payload function paramsList) (\<lambda>call.
             Inr \<lparr>Function = function, CallIn = call\<rparr>)))))))"

section \<open>What the ABI coder answers\<close>

text \<open>
  The documented behaviour of the coder the proofs use. Values the types hold are unpacked as they
  were packed, behind the four bytes of the selector; a call with addresses and numbers only takes a
  word for each. Packing panics on a number that is nil, and on nothing else.
\<close>

fun abi_in_range :: "abi_value \<Rightarrow> bool" where
  "abi_in_range (AbiAddress a) \<longleftrightarrow> length a = 20"
| "abi_in_range (AbiUint (Some n)) \<longleftrightarrow> 0 \<le> n \<and> n < 2 ^ 256"
| "abi_in_range (AbiUint None) \<longleftrightarrow> False"
| "abi_in_range _ \<longleftrightarrow> True"

fun abi_word :: "abi_value \<Rightarrow> bool" where
  "abi_word (AbiAddress a) \<longleftrightarrow> True"
| "abi_word (AbiUint n) \<longleftrightarrow> True"
| "abi_word _ \<longleftrightarrow> False"

definition abi_unpacks :: "token_env \<Rightarrow> bool" where
  "abi_unpacks E \<longleftrightarrow>
     (\<forall>abi f args d. list_all abi_in_range args \<longrightarrow> Pack E abi f args = Inr d \<longrightarrow>
        4 \<le> length d \<and> MethodById E abi (take 4 d) = Some f \<and> UnpackInputs E abi f (drop 4 d) = Some args \<and>
        (list_all abi_word args \<longrightarrow> length d = 4 + 32 * length args))"

definition pack_panics_on_nil :: "token_env \<Rightarrow> bool" where
  "pack_panics_on_nil E \<longleftrightarrow>
     (\<forall>abi f args. Pack E abi f args = Inl Panic \<longleftrightarrow> AbiUint None \<in> set args)"

lemma abi_unpacksD:
  assumes "abi_unpacks E" "list_all abi_in_range args" "Pack E abi f args = Inr d"
  shows "4 \<le> length d" "MethodById E abi (take 4 d) = Some f" "UnpackInputs E abi f (drop 4 d) = Some args"
    "list_all abi_word args \<Longrightarrow> length d = 4 + 32 * length args"
  using assms by (auto simp: abi_unpacks_def)

lemma hex_not_prefixed [simp]: "strings_TrimPrefix (hex_encode b) ''0x'' = hex_encode b"
proof -
  have "take 2 (hex_encode b) \<noteq> ''0x''"
  proof (cases b)
    case (Cons x xs)
    have "char_nat (hexDigit n) \<noteq> char_nat (CHR ''x'')" if "n < 16" for n
      using that by (simp add: char_nat_hexDigit) (simp add: char_nat_def)
    from this [of "unat x mod 16"] have "hexDigit (unat x mod 16) \<noteq> CHR ''x''" by auto
    then show ?thesis by (auto simp: Cons numeral_2_eq_2)
  qed simp
  then show ?thesis by (simp add: strings_TrimPrefix_def strings_HasPrefix_def numeral_2_eq_2)
qed

lemma take_hex_encode [simp]: "take (2 * k) (hex_encode b) = hex_encode (take k b)"
  by (induction b arbitrary: k; case_tac k) auto

lemma drop_hex_encode [simp]: "drop (2 * k) (hex_encode b) = hex_encode (drop k b)"
  by (induction b arbitrary: k; case_tac k) auto

lemma hex_selector [simp]:
  "take 8 (hex_encode b) = hex_encode (take 4 b)" "drop 8 (hex_encode b) = hex_encode (drop 4 b)"
  using take_hex_encode [of 4 b] drop_hex_encode [of 4 b] by simp_all

lemma optional_int_Inr: "optional_int e s = Inr r \<longleftrightarrow> (if s = [] then r = None else r = big_SetString s \<and> r \<noteq> None)"
  by (cases "big_SetString s") (auto simp: optional_int_def)

lemma erc20_args_named:
  "f \<notin> set amount_functions \<Longrightarrow> erc20_args f p pp = Some (abi, args) \<Longrightarrow> AbiUint None \<notin> set args"
  by (simp add: amount_functions_def erc20_args_def split: if_split_asm; clarsimp)

lemma erc20_args_some:
  "n_Amount pp = Some n \<Longrightarrow> erc20_args f p pp = Some (abi, args) \<Longrightarrow> AbiUint None \<notin> set args"
  by (simp add: erc20_args_def split: if_split_asm; clarsimp)

lemma erc20_args_nil:
  "erc20_args f p pp = Some (abi, args) \<Longrightarrow> AbiUint None \<in> set args \<Longrightarrow> f \<in> set amount_functions \<and> n_Amount pp = None"
  using erc20_args_named erc20_args_some by (metis not_None_eq)

lemma trc20_args_named:
  "f \<notin> set amount_functions \<Longrightarrow> trc20_args f pp = Some args \<Longrightarrow> AbiUint None \<notin> set args"
  by (simp add: amount_functions_def trc20_args_def split: if_split_asm; clarsimp)

lemma trc20_args_some:
  "n_Amount pp = Some n \<Longrightarrow> trc20_args f pp = Some args \<Longrightarrow> AbiUint None \<notin> set args"
  by (simp add: trc20_args_def split: if_split_asm; clarsimp)

lemma trc20_args_nil:
  "trc20_args f pp = Some args \<Longrightarrow> AbiUint None \<in> set args \<Longrightarrow> f \<in> set amount_functions \<and> n_Amount pp = None"
  using trc20_args_named trc20_args_some by (metis not_None_eq)

lemma erc20_args_transfer:
  "erc20_args ''transfer'' p pp = Some
     (if c_Memo p \<noteq> []
      then (ABIERC20ForTransferWithData, [AbiAddress (n_Recipient pp), AbiUint (n_Amount pp), AbiBytes (n_Memo pp)])
      else (ABIERC20, [AbiAddress (n_Recipient pp), AbiUint (n_Amount pp)]))"
  by (simp add: erc20_args_def)

lemma trc20_args_transfer:
  "trc20_args ''transfer'' pp = Some [AbiAddress (n_Recipient pp), AbiUint (n_Amount pp)]"
  by (simp add: trc20_args_def)

lemma erc721_args_nil:
  "f \<in> {''ownerOf'', ''tokenURI'', ''getApproved'', ''approve'', ''transferFrom'', ''safeTransferFrom'',
      ''safeTransferFromWithData''} \<Longrightarrow> m_TokenId pp = None \<Longrightarrow>
     \<exists>args. erc721_args f p pp = Some args \<and> AbiUint None \<in> set args"
  by (elim insertE emptyE) (simp_all add: erc721_args_def)

lemma read_params_not_panic: "read_params j none params \<noteq> Inl Panic"
  by (cases params) (auto simp: read_params_def)

text \<open>Reading the hex text of a packed call.\<close>

lemma unpack_erc20_packed:
  assumes "abi_unpacks E" "list_all abi_in_range args" "Pack E ABIERC20 ''transfer'' args = Inr d"
    and "AbiParses E ABIERC20" "AbiParses E ABIERC20ForTransferWithData"
  shows "UnpackPayloadForErc20 E (hex_encode d) =
    map_sum id (\<lambda>c. \<lparr>Function = ''transfer'', CallIn = c\<rparr>) (unpack_transfer E args)"
  using assms(4,5) abi_unpacksD [OF assms(1-3)]
  by (cases "unpack_transfer E args") (simp_all add: UnpackPayloadForErc20_def require_def)

lemma unpack_erc20_packed_memo:
  assumes "abi_unpacks E" "list_all abi_in_range args" "Pack E ABIERC20ForTransferWithData ''transfer'' args = Inr d"
    and "AbiParses E ABIERC20" "AbiParses E ABIERC20ForTransferWithData"
    and "MethodById E ABIERC20 (take 4 d) = None"
  shows "UnpackPayloadForErc20 E (hex_encode d) =
    map_sum id (\<lambda>c. \<lparr>Function = ''transfer'', CallIn = c\<rparr>) (unpack_transfer E args)"
  using assms(4-6) abi_unpacksD [OF assms(1-3)]
  by (cases "unpack_transfer E args") (simp_all add: UnpackPayloadForErc20_def require_def)

section \<open>Properties\<close>


text \<open>A coder that knows one call.\<close>

definition sample_erc20 :: CallErc20In where
  "sample_erc20 = no_erc20_in\<lparr>c_Recipient := ''0x01'', c_Amount := ''5''\<rparr>"

definition sample_args :: "abi_value list" where
  "sample_args = [AbiAddress (replicate 20 1), AbiUint (Some 5)]"

definition sample_tokens :: token_env where
  "sample_tokens =
     \<lparr>AbiParses = \<lambda>_. True,
      Pack = \<lambda>abi f args.
        if AbiUint None \<in> set args then Inl Panic
        else if abi \<noteq> ABIERC20ForTransferWithData \<and> f = ''transfer'' \<and> args = sample_args
        then Inr ([1, 2, 3, 4] @ replicate 64 7) else Inl PackFailed,
      MethodById = \<lambda>_ m. if m = [1, 2, 3, 4] then Some ''transfer'' else None,
      UnpackInputs = \<lambda>_ f b. if f = ''transfer'' \<and> b = replicate 64 7 then Some sample_args else None,
      UnpackOutputs = \<lambda>_ _ _. None,
      json_Erc20In = \<lambda>_. Some sample_erc20,
      json_Erc721In = \<lambda>_. Some no_erc721_in,
      HexToAddress = \<lambda>_. replicate 20 1,
      AddressHex = hex_encode,
      b58_CheckDecode = \<lambda>_. Some (replicate 20 1, 0x41)\<rparr>"

lemma sample_tokens_simps [simp]:
  "AbiParses sample_tokens abi" "json_Erc20In sample_tokens b = Some sample_erc20"
  "json_Erc721In sample_tokens b = Some no_erc721_in"
  "HexToAddress sample_tokens t = replicate 20 1"
  "b58_CheckDecode sample_tokens t = Some (replicate 20 1, 0x41)"
  by (simp_all add: sample_tokens_def)

lemma sample_tokens_pack:
  "Pack sample_tokens abi f args =
     (if AbiUint None \<in> set args then Inl Panic
      else if abi \<noteq> ABIERC20ForTransferWithData \<and> f = ''transfer'' \<and> args = sample_args
      then Inr ([1, 2, 3, 4] @ replicate 64 7) else Inl PackFailed)"
  by (simp add: sample_tokens_def)

lemma sample_tokens_laws: "abi_unpacks sample_tokens" "pack_panics_on_nil sample_tokens"
  unfolding abi_unpacks_def pack_panics_on_nil_def sample_tokens_pack
  by (auto simp: sample_tokens_def sample_args_def split: if_splits)

lemma sample_erc20_simps [simp]:
  "c_Recipient sample_erc20 = ''0x01''" "c_Amount sample_erc20 = ''5''" "c_Memo sample_erc20 = []"
  "c_Address sample_erc20 = []" "c_Owner sample_erc20 = []" "c_Spender sample_erc20 = []"
  "c_From sample_erc20 = []" "c_To sample_erc20 = []"
  by (simp_all add: sample_erc20_def no_erc20_in_def)

lemma five [simp]: "big_SetString ''5'' = Some 5"
  by (simp add: big_SetString_def digit_of_def char_nat_def)

lemma sample_packed:
  "PackPayloadForErc20 sample_tokens ''transfer'' (Some []) = Inr (hex_encode ([1, 2, 3, 4] @ replicate 64 7))"
  by (simp add: PackPayloadForErc20_def read_params_def erc20_native_def optional_int_def optional_hex_def
      require_def sample_tokens_pack sample_args_def erc20_args_transfer)


text \<open>What each function of TRC-20 unpacks of the call it was packed from.\<close>

definition trc20_view :: "token_env \<Rightarrow> string \<Rightarrow> callErc20InNative \<Rightarrow> CallErc20In" where
  "trc20_view E f pp =
     (if f = ''transferFrom'' then
        no_erc20_in\<lparr>c_From := lower_hex E (n_From pp), c_To := lower_hex E (n_To pp),
          c_Amount := int_String (n_Amount pp)\<rparr>
      else if f = ''approve'' then
        no_erc20_in\<lparr>c_Spender := lower_hex E (n_Spender pp), c_Amount := int_String (n_Amount pp)\<rparr>
      else no_erc20_in\<lparr>c_Recipient := lower_hex E (n_Recipient pp), c_Amount := int_String (n_Amount pp)\<rparr>)"

lemma unpack_trc20_packed:
  assumes "abi_unpacks E" "list_all abi_in_range args" "Pack E ABITRC20 f args = Inr d" "AbiParses E ABITRC20"
  shows "UnpackPayloadForTrc20 E (hex_encode d) =
    map_sum id (\<lambda>c. \<lparr>Function = f, CallIn = c\<rparr>) (unpack_trc20 E (hex_encode d) f args)"
  using assms(4) abi_unpacksD [OF assms(1-3)]
  by (cases "unpack_trc20 E (hex_encode d) f args") (simp_all add: UnpackPayloadForTrc20_def require_def)

text \<open>
Calldata of a TRC-20 call that moves or approves an amount is read back: for each of the five
  functions the payload unpacks to the function, the addresses and the amount it was packed from.
\<close>

theorem trc20_roundtrip:
  assumes laws: "abi_unpacks E"
    and f: "f \<in> {''mint'', ''burn'', ''transfer'', ''transferFrom'', ''approve''}"
    and json: "json_Erc20In E params = Some p"
    and addresses: "\<And>t. length (HexToAddress E t) = 20"
    and amount: "big_SetString (c_Amount p) = Some n" "0 \<le> n" "n < 2 ^ 256"
    and packed: "PackPayloadForTrc20 E f (Some params) = Inr payload"
  shows "\<exists>pp. trc20_native E p = Inr pp \<and>
    UnpackPayloadForTrc20 E payload = Inr \<lparr>Function = f, CallIn = trc20_view E f pp\<rparr>"
proof -
  have "c_Amount p \<noteq> []" using amount(1) by (auto simp: big_SetString_def)
  then have int: "optional_int InvalidAmount (c_Amount p) = Inr (Some n)"
    using amount(1) by (simp add: optional_int_Inr)
  have len: "toAddress E t = Inr a \<Longrightarrow> length a = 20" for t a
    using addresses by (auto simp: toAddress_def andThen_eq_Inr split: if_splits)
  obtain pp where pp: "trc20_native E p = Inr pp"
    using packed by (auto simp: PackPayloadForTrc20_def read_params_def json andThen_eq_Inr)
  then have fields: "length (n_From pp) = 20" "length (n_To pp) = 20" "length (n_Spender pp) = 20"
    "length (n_Recipient pp) = 20" "n_Amount pp = Some n"
    using int by (auto simp: trc20_native_def andThen_eq_Inr intro: len)
  obtain args d where args: "trc20_args f pp = Some args"
    and d: "Pack E ABITRC20 f args = Inr d" "payload = hex_encode d" "AbiParses E ABITRC20"
    using packed
    by (auto simp: PackPayloadForTrc20_def read_params_def json pp andThen_eq_Inr require_def split: if_splits)
  have range: "list_all abi_in_range args" "list_all abi_word args"
    using fields amount f args by (elim insertE emptyE; force simp: trc20_args_def)+
  have "length d = 4 + 32 * length args" by (rule abi_unpacksD(4) [OF laws range(1) d(1) range(2)])
  then have "unpack_trc20 E (hex_encode d) f args = Inr (trc20_view E f pp)"
    using f args by (elim insertE emptyE) (auto simp: unpack_trc20_def trc20_view_def trc20_args_def two_params_def)
  then show ?thesis using unpack_trc20_packed [OF laws range(1) d(1,3)] pp d(2) by simp
qed

lemma sample_trc20_native:
  "trc20_native sample_tokens sample_erc20 =
     Inr \<lparr>n_Address = replicate 20 0, n_Owner = replicate 20 0, n_Spender = replicate 20 0,
       n_From = replicate 20 0, n_To = replicate 20 0, n_Recipient = replicate 20 1,
       n_Amount = Some 5, n_Memo = []\<rparr>"
  by (simp add: trc20_native_def toAddress_def ConvertToHex_def ConvertToBytes_def optional_int_def)

lemma sample_trc20_packed:
  "PackPayloadForTrc20 sample_tokens ''transfer'' (Some []) = Inr (hex_encode ([1, 2, 3, 4] @ replicate 64 7))"
  by (simp add: PackPayloadForTrc20_def read_params_def sample_trc20_native require_def sample_tokens_pack
      sample_args_def trc20_args_transfer)

theorem trc20_roundtrip_witness:
  "\<exists>pp. trc20_native sample_tokens sample_erc20 = Inr pp \<and>
    UnpackPayloadForTrc20 sample_tokens (hex_encode ([1, 2, 3, 4] @ replicate 64 7)) =
      Inr \<lparr>Function = ''transfer'', CallIn = trc20_view sample_tokens ''transfer'' pp\<rparr>"
  by (rule trc20_roundtrip [OF sample_tokens_laws(1), where params = "[]" and n = 5])
     (simp_all add: sample_trc20_packed)

text \<open>
The token calls that carry an amount never reach the coder without one: neither
  \<open>PackPayloadForErc20\<close> nor \<open>PackPayloadForTrc20\<close> panics, whatever the function and the parameters.
\<close>

theorem amount_calls_never_panic:
  assumes "pack_panics_on_nil E"
  shows "PackPayloadForErc20 E f params \<noteq> Inl Panic \<and> PackPayloadForTrc20 E f params \<noteq> Inl Panic"
proof -
  have pack: "Pack E abi g args = Inl Panic \<longleftrightarrow> AbiUint None \<in> set args" for abi g args
    using assms by (simp add: pack_panics_on_nil_def)
  have int: "optional_int e s \<noteq> Inl Panic" if "e \<noteq> Panic" for e s
    using that by (cases "big_SetString s") (auto simp: optional_int_def)
  have addr: "toAddress E t \<noteq> Inl Panic" for t
    by (auto simp: toAddress_def ConvertToHex_def andThen_eq_Inl split: option.splits)
  have native: "erc20_native E p \<noteq> Inl Panic" "trc20_native E p \<noteq> Inl Panic" for p
    using int addr by (auto simp: erc20_native_def trc20_native_def andThen_eq_Inl optional_hex_def split: if_splits)
  have "PackPayloadForErc20 E f params \<noteq> Inl Panic"
    using native pack by (auto simp: PackPayloadForErc20_def andThen_eq_Inl require_def read_params_not_panic dest: erc20_args_nil)
  moreover have "PackPayloadForTrc20 E f params \<noteq> Inl Panic"
    using native pack by (auto simp: PackPayloadForTrc20_def andThen_eq_Inl require_def read_params_not_panic dest: trc20_args_nil)
  ultimately show ?thesis by simp
qed

theorem amount_calls_never_panic_witness:
  "PackPayloadForErc20 sample_tokens ''transfer'' None \<noteq> Inl Panic \<and>
   PackPayloadForTrc20 sample_tokens ''transfer'' None \<noteq> Inl Panic"
  by (rule amount_calls_never_panic [OF sample_tokens_laws(2)])

text \<open>
  ERC-721 calls lack that guard: a request without a token id for a function that takes one
  panics in the coder.
\<close>

theorem erc721_missing_token_id_panics:
  assumes "pack_panics_on_nil E" "AbiParses E ABIERC721"
    and "f \<in> {''ownerOf'', ''tokenURI'', ''getApproved'', ''approve'', ''transferFrom'', ''safeTransferFrom'',
      ''safeTransferFromWithData''}"
    and "json_Erc721In E params = Some p" "t_TokenId p = []" "t_Index p = []" "t_Data p = []"
  shows "PackPayloadForErc721 E f (Some params) = Inl Panic"
proof -
  have pack: "Pack E abi g args = Inl Panic \<longleftrightarrow> AbiUint None \<in> set args" for abi g args
    using assms(1) by (simp add: pack_panics_on_nil_def)
  obtain pp where pp: "toNative E p = Inr pp" "m_TokenId pp = None"
    using assms(5-) by (simp add: toNative_def optional_int_def optional_hex_def)
  obtain args where "erc721_args f p pp = Some args" "AbiUint None \<in> set args"
    using erc721_args_nil [of f pp p] assms(3) pp(2) by blast
  then show ?thesis
    using assms(2,4) pp by (simp add: PackPayloadForErc721_def read_params_def require_def andThen_eq_Inl pack)
qed

theorem erc721_missing_token_id_panics_witness:
  "PackPayloadForErc721 sample_tokens ''ownerOf'' (Some []) = Inl Panic"
  by (rule erc721_missing_token_id_panics [OF sample_tokens_laws(2), where p = no_erc721_in])
     (simp_all add: no_erc721_in_def)

end
