(* ===== verification/Tron.thy ===== *)
theory Tron
  imports Protobuf Tokens Sha256 "HOL-Library.Signed_Division"
begin

text \<open>
  \<open>signing/tron\<close>: addresses, the fee limits, and the builder of transfers and contract calls with the
  protobuf messages it hashes. Base58, the curve, the address of go-ethereum, JSON and the signer are
  the fields of a record of functions; the calldata of a TRC-20 transfer is packed by the model of
  \<open>contracts/trc20\<close>. The receiver of a method is not nil; an ingredient may be. A nil slice is the
  empty one, except for the result of \<open>ConvertToBytes\<close>, where nil is \<open>None\<close>.
\<close>

type_synonym i64 = "64 word"

section \<open>Types\<close>

record ContractValue =
  OwnerAddress :: string
  ToAddress :: string
  Data :: string
  ContractOf :: string
  ValueAmount :: i64
  CallValue :: i64

record TrxContract =
  Type :: string
  Value :: ContractValue
  TypeUrl :: string

text \<open>The elements of \<open>Contracts\<close> are pointers, and so may be nil.\<close>

record TxRaw =
  Contracts :: "TrxContract option list"
  RefBlockBytes :: string
  RefHash :: string
  Timestamp :: i64
  Expiration :: i64
  RawFeeLimit :: i64

record NativeTx =
  Signature :: "string list"
  ID :: string
  RawData :: "TxRaw option"
  RawDataHex :: string
  Visible :: bool
  Ret :: "string list"

record tron_env =
  Token :: token_env
  CheckDecode :: "string \<Rightarrow> (bytes \<times> u8) option"
  CheckEncode :: "bytes \<Rightarrow> u8 \<Rightarrow> string"
  ParsePubKey :: "bytes \<Rightarrow> bytes option"
  UnmarshalPubkey :: "bytes \<Rightarrow> bytes option"
  PubkeyToAddress :: "bytes \<Rightarrow> string"
  json_MarshalCall :: "CallErc20In \<Rightarrow> bytes"
  json_Marshal :: "NativeTx \<Rightarrow> bytes option"
  json_Unmarshal :: "bytes \<Rightarrow> NativeTx option"
  json_DecodeStrict :: "bytes \<Rightarrow> NativeTx option"
  SignEVM :: "bytes \<Rightarrow> bytes \<Rightarrow> bytes option"

section \<open>Addresses and fee limits\<close>

text \<open>The address text of go-ethereum begins with \<open>0x\<close>, which is cut off.\<close>

definition PublicKey2Address :: "tron_env \<Rightarrow> bytes \<Rightarrow> string" where
  "PublicKey2Address E publicKey =
     (case ParsePubKey E publicKey of
        None \<Rightarrow> []
      | Some uncompressed \<Rightarrow>
          (case UnmarshalPubkey E uncompressed of
             None \<Rightarrow> []
           | Some ecdsaPub \<Rightarrow>
               (case hex_decode (''41'' @ map ascii_lower (drop 2 (PubkeyToAddress E ecdsaPub))) of
                  None \<Rightarrow> []
                | Some b \<Rightarrow> CheckEncode E (tl b) (hd b))))"

definition ValidAddress :: "tron_env \<Rightarrow> string \<Rightarrow> bool" where
  "ValidAddress E address =
     (if address = MagicContactAddressForNative then True
      else if length address \<noteq> 34 \<or> address ! 0 \<noteq> CHR ''T'' then False
      else case CheckDecode E address of
        None \<Rightarrow> False
      | Some (result, version) \<Rightarrow> version = 0x41 \<and> length result = 20)"

definition ConvertToBytes :: "tron_env \<Rightarrow> string \<Rightarrow> bytes option" where
  "ConvertToBytes E address =
     map_option (\<lambda>(result, version). version # result) (CheckDecode E address)"

definition ConvertToHex :: "tron_env \<Rightarrow> string \<Rightarrow> string" where
  "ConvertToHex E address =
     (case ConvertToBytes E address of
        None \<Rightarrow> []
      | Some payload \<Rightarrow>
          if payload ! 0 = 0 then Itoa (int (be_val payload))
          else let h = hex_encode payload in if h = [] then ''0'' else h)"

definition EnergyFeeSun :: i64 where "EnergyFeeSun = 100"
definition ProtocolMaxFeeLimitSun :: i64 where "ProtocolMaxFeeLimitSun = 15000000000"
definition MaxFeeLimitSun :: i64 where "MaxFeeLimitSun = 300000000"

definition FeeLimitFromSun :: "i64 \<Rightarrow> i64 \<Rightarrow> i64 \<times> bool" where
  "FeeLimitFromSun sun headroom =
     (if sint sun \<le> 0 \<or> sint headroom \<le> 0 \<or> sint headroom > 100 then (0, False)
      else if sint sun > sint MaxFeeLimitSun sdiv sint headroom then (MaxFeeLimitSun, True)
      else (sun * headroom, True))"

definition FeeLimitForEnergyAt :: "i64 \<Rightarrow> i64 \<Rightarrow> i64 \<Rightarrow> i64 \<times> bool" where
  "FeeLimitForEnergyAt energy energyFeeSun headroom =
     (if sint energy \<le> 0 \<or> sint energyFeeSun \<le> 0 \<or>
         sint energy > sint ProtocolMaxFeeLimitSun sdiv sint energyFeeSun then (0, False)
      else FeeLimitFromSun (energy * energyFeeSun) headroom)"

definition FeeLimitForEnergy :: "i64 \<Rightarrow> i64 \<Rightarrow> i64 \<times> bool" where
  "FeeLimitForEnergy energy headroom = FeeLimitForEnergyAt energy EnergyFeeSun headroom"

definition normalizeAddressHex :: "tron_env \<Rightarrow> string \<Rightarrow> string" where
  "normalizeAddressHex E address =
     (if length address = 34 \<and> ValidAddress E address then ConvertToHex E address else address)"

definition ConvertFromHex :: "tron_env \<Rightarrow> string \<Rightarrow> string" where
  "ConvertFromHex E hexAddress =
     (case hex_decode hexAddress of
        None \<Rightarrow> []
      | Some b \<Rightarrow> if length b = 0 then [] else CheckEncode E (tl b) (hd b))"

definition Int64ToBytes :: "i64 \<Rightarrow> bytes" where
  "Int64ToBytes n = be_word 8 n"

section \<open>The messages\<close>

definition contractTypeTransfer :: nat where "contractTypeTransfer = 1"
definition contractTypeTriggerSmart :: nat where "contractTypeTriggerSmart = 31"

definition contractTypeName :: "nat \<Rightarrow> string" where
  "contractTypeName t =
     (if t = contractTypeTransfer then ''TransferContract''
      else if t = contractTypeTriggerSmart then ''TriggerSmartContract'' else [])"

definition marshalTransferContract :: "bytes \<Rightarrow> bytes \<Rightarrow> i64 \<Rightarrow> bytes" where
  "marshalTransferContract owner to amount =
     pbBytesField 1 owner @ pbBytesField 2 to @ pbVarintField 3 amount"

definition marshalTriggerSmartContract :: "bytes \<Rightarrow> bytes \<Rightarrow> bytes \<Rightarrow> i64 \<Rightarrow> bytes" where
  "marshalTriggerSmartContract owner contract d callValue =
     pbBytesField 1 owner @ pbBytesField 2 contract @ pbVarintField 3 callValue @ pbBytesField 4 d"

definition marshalAny :: "string \<Rightarrow> bytes \<Rightarrow> bytes" where
  "marshalAny typeURL v = pbBytesField 1 (bytes_of_string typeURL) @ pbBytesField 2 v"

definition marshalContract :: "nat \<Rightarrow> bytes \<Rightarrow> bytes" where
  "marshalContract contractType parameter =
     pbVarintField 1 (word_of_nat contractType) @ pbBytesField 2 parameter"

definition marshalRawTx :: "bytes \<Rightarrow> bytes \<Rightarrow> bytes \<Rightarrow> i64 \<Rightarrow> i64 \<Rightarrow> i64 \<Rightarrow> bytes" where
  "marshalRawTx contract refBlockBytes refBlockHash timestamp expiration feeLimit =
     pbBytesField 1 refBlockBytes @ pbBytesField 4 refBlockHash @ pbVarintField 8 expiration @
     pbBytesField 11 contract @ pbVarintField 14 timestamp @ pbVarintField 18 feeLimit"

section \<open>The builder\<close>

record Ingredient =
  TxType :: string
  ContractAddress :: string
  Sender :: string
  Recipient :: string
  Amount :: string
  Payload :: string
  FeeLimit :: string
  RefBlockHash :: string
  RefBlockNumber :: string
  RefBlockTimestamp :: string

record TxBuilder =
  TheIngredient :: "Ingredient option"
  unsignedHex :: string
  sigHash :: "string list"
  txHash :: string

datatype tron_error =
  InvalidIngredient | InvalidRefBlockHash | RefBlockHashTooShort | RecipientRequired | InvalidAmount
| FeeLimitRequired | ContractAddressRequired | PayloadRequired | PackFailed | InvalidPayload
| InvalidTxType | MarshalFailed | NoSigHash | HexInvalid | SignFailed | UnmarshalFailed | DerUnsupported

definition NewTxBuilder :: "Ingredient option \<Rightarrow> TxBuilder" where
  "NewTxBuilder ti = \<lparr>TheIngredient = ti, unsignedHex = [], sigHash = [], txHash = []\<rparr>"

definition valid_ingredient :: "tron_env \<Rightarrow> Ingredient \<Rightarrow> bool" where
  "valid_ingredient E i \<longleftrightarrow>
     TxType i \<in> set TxTypes \<and>
     ContractAddress i \<noteq> [] \<and> ValidAddress E (ContractAddress i) \<and>
     Sender i \<noteq> [] \<and> ValidAddress E (Sender i) \<and>
     (Recipient i = [] \<or> ValidAddress E (Recipient i)) \<and>
     (Amount i = [] \<or> valid_bigint_gt0 (Amount i)) \<and>
     (Payload i = [] \<or> valid_hex_str (Payload i)) \<and>
     FeeLimit i \<noteq> [] \<and> valid_u64 (FeeLimit i) \<and>
     RefBlockHash i \<noteq> [] \<and> valid_hex_str (RefBlockHash i) \<and>
     RefBlockNumber i \<noteq> [] \<and> valid_u64_gt0 (RefBlockNumber i) \<and>
     RefBlockTimestamp i \<noteq> [] \<and> valid_u64_gt0 (RefBlockTimestamp i)"

text \<open>The value \<open>strconv.ParseInt\<close> returns, with its error dropped.\<close>

definition parsed_i64 :: "string \<Rightarrow> i64" where
  "parsed_i64 s = word_of_int (fst (ParseInt 64 s))"

text \<open>What the switch on the kind of transaction leaves in the variables of \<open>Build\<close>.\<close>

record call_parts =
  p_type :: nat
  p_recipient :: bytes
  p_contract :: bytes
  p_payload :: bytes
  p_amount :: i64
  p_fee :: i64
  p_value :: bytes

definition nil_bytes :: "bytes option \<Rightarrow> bytes" where
  "nil_bytes b = (case b of None \<Rightarrow> [] | Some b \<Rightarrow> b)"

definition transfer_parts :: "tron_env \<Rightarrow> Ingredient \<Rightarrow> bytes \<Rightarrow> tron_error + call_parts" where
  "transfer_parts E i senderBytes =
     (if Recipient i = [] then Inl RecipientRequired
      else if ContractAddress i = MagicContactAddressForNative then
        (let recipientBytes = nil_bytes (ConvertToBytes E (Recipient i))
         in case ParseInt 64 (Amount i) of
              (_, Some _) \<Rightarrow> Inl InvalidAmount
            | (n, None) \<Rightarrow>
                Inr \<lparr>p_type = contractTypeTransfer, p_recipient = recipientBytes, p_contract = [],
                  p_payload = [], p_amount = word_of_int n, p_fee = 0,
                  p_value = marshalTransferContract senderBytes recipientBytes (word_of_int n)\<rparr>)
      else if FeeLimit i = [] then Inl FeeLimitRequired
      else
        (let contractBytes = nil_bytes (ConvertToBytes E (ContractAddress i));
             params = json_MarshalCall E
               (no_erc20_in\<lparr>c_Recipient := Recipient i, c_Amount := Amount i\<rparr>)
         in case PackPayloadForTrc20 (Token E) ''transfer'' (Some params) of
              Inl _ \<Rightarrow> Inl PackFailed
            | Inr hexData \<Rightarrow>
                let d = hex_decoded_bytes hexData
                in Inr \<lparr>p_type = contractTypeTriggerSmart, p_recipient = [], p_contract = contractBytes,
                     p_payload = d, p_amount = 0, p_fee = parsed_i64 (FeeLimit i),
                     p_value = marshalTriggerSmartContract senderBytes contractBytes d 0\<rparr>))"

definition call_parts_of :: "tron_env \<Rightarrow> Ingredient \<Rightarrow> bytes \<Rightarrow> tron_error + call_parts" where
  "call_parts_of E i senderBytes =
     (if FeeLimit i = [] then Inl FeeLimitRequired
      else if ContractAddress i = [] then Inl ContractAddressRequired
      else if Payload i = [] then Inl PayloadRequired
      else
        andThen (orErr InvalidPayload (hex_decode (strings_TrimPrefix (Payload i) ''0x''))) (\<lambda>payload.
          let contractBytes = nil_bytes (ConvertToBytes E (ContractAddress i));
              amount = (if Amount i \<noteq> [] then parsed_i64 (Amount i) else 0)
          in Inr \<lparr>p_type = contractTypeTriggerSmart, p_recipient = [], p_contract = contractBytes,
               p_payload = payload, p_amount = amount, p_fee = parsed_i64 (FeeLimit i),
               p_value = marshalTriggerSmartContract senderBytes contractBytes payload amount\<rparr>))"

definition parts_of :: "tron_env \<Rightarrow> Ingredient \<Rightarrow> bytes \<Rightarrow> tron_error + call_parts" where
  "parts_of E i senderBytes =
     (if TxType i = ''0'' then transfer_parts E i senderBytes
      else if TxType i = ''3'' then call_parts_of E i senderBytes
      else Inl InvalidTxType)"

text \<open>The bytes that are hashed, and the transaction that goes with them.\<close>

definition type_url :: "nat \<Rightarrow> string" where
  "type_url t = ''type.googleapis.com/protocol.'' @ contractTypeName t"

definition raw_bytes :: "call_parts \<Rightarrow> bytes \<Rightarrow> bytes \<Rightarrow> i64 \<Rightarrow> bytes" where
  "raw_bytes p refBytes refHash timeStamp =
     marshalRawTx (marshalContract (p_type p) (marshalAny (type_url (p_type p)) (p_value p)))
       refBytes refHash timeStamp (timeStamp + 36000000) (p_fee p)"

definition native_tx :: "call_parts \<Rightarrow> bytes \<Rightarrow> bytes \<Rightarrow> bytes \<Rightarrow> i64 \<Rightarrow> NativeTx" where
  "native_tx p senderBytes refBytes refHash timeStamp =
     \<lparr>Signature = [], ID = hex_encode (sha256 (raw_bytes p refBytes refHash timeStamp)),
      RawData = Some
        \<lparr>Contracts = [Some
           \<lparr>Type = contractTypeName (p_type p),
            Value = \<lparr>OwnerAddress = hex_encode senderBytes, ToAddress = hex_encode (p_recipient p),
              Data = hex_encode (p_payload p), ContractOf = hex_encode (p_contract p),
              ValueAmount = p_amount p, CallValue = p_amount p\<rparr>,
            TypeUrl = type_url (p_type p)\<rparr>],
         RefBlockBytes = hex_encode refBytes, RefHash = hex_encode refHash,
         Timestamp = timeStamp, Expiration = timeStamp + 36000000, RawFeeLimit = p_fee p\<rparr>,
      RawDataHex = [], Visible = False, Ret = []\<rparr>"

definition build_tx :: "tron_env \<Rightarrow> Ingredient \<Rightarrow> tron_error + call_parts \<times> bytes \<times> bytes \<times> bytes \<times> i64" where
  "build_tx E i =
     (let senderBytes = nil_bytes (ConvertToBytes E (Sender i))
      in andThen (orErr InvalidRefBlockHash (hex_decode (RefBlockHash i))) (\<lambda>refBlockHash.
         andThen (require (\<not> length refBlockHash < 16) RefBlockHashTooShort) (\<lambda>_.
           let refBlockNumBytes = Int64ToBytes (parsed_i64 (RefBlockNumber i));
               timeStamp = parsed_i64 (RefBlockTimestamp i)
           in andThen (parts_of E i senderBytes) (\<lambda>p.
                Inr (p, senderBytes, drop 6 refBlockNumBytes, take 8 (drop 8 refBlockHash), timeStamp)))))"

definition Build :: "tron_env \<Rightarrow> TxBuilder \<Rightarrow> TxBuilder \<times> (tron_error + unit)" where
  "Build E tx0 =
     (let tx = tx0\<lparr>sigHash := [], unsignedHex := [], txHash := []\<rparr>
      in case TheIngredient tx of
           None \<Rightarrow> (tx, Inl InvalidIngredient)
         | Some i \<Rightarrow>
             if \<not> valid_ingredient E i then (tx, Inl InvalidIngredient)
             else (case build_tx E i of
               Inl e \<Rightarrow> (tx, Inl e)
             | Inr (p, senderBytes, refBytes, refHash, timeStamp) \<Rightarrow>
                 let ntx = native_tx p senderBytes refBytes refHash timeStamp
                 in case json_Marshal E ntx of
                      None \<Rightarrow> (tx, Inl MarshalFailed)
                    | Some ntxBytes \<Rightarrow>
                        (tx\<lparr>unsignedHex := hex_encode ntxBytes, sigHash := sigHash tx @ [ID ntx]\<rparr>, Inr ())))"

definition Sign :: "tron_env \<Rightarrow> TxBuilder \<Rightarrow> bytes \<Rightarrow> tron_error + string" where
  "Sign E tx privateKey =
     (if length (sigHash tx) \<noteq> 1 then Inl NoSigHash
      else
        andThen (orErr HexInvalid (hex_decode (sigHash tx ! 0))) (\<lambda>h.
        andThen (orErr SignFailed (SignEVM E privateKey h)) (\<lambda>signature.
          Inr (hex_encode signature))))"

definition ConcatSignature ::
  "tron_env \<Rightarrow> TxBuilder \<Rightarrow> string \<Rightarrow> bool \<Rightarrow> TxBuilder \<times> (tron_error + string)"
where
  "ConcatSignature E tx signature isDerFormat =
     (case
        andThen (orErr HexInvalid (hex_decode (unsignedHex tx))) (\<lambda>unsignedBytes.
        andThen (orErr UnmarshalFailed (json_Unmarshal E unsignedBytes)) (\<lambda>ntx.
        andThen (require (\<not> isDerFormat) DerUnsupported) (\<lambda>_.
        andThen (orErr HexInvalid (hex_decode signature)) (\<lambda>sigBytes.
        andThen (orErr MarshalFailed (json_Marshal E (ntx\<lparr>Signature := [hex_encode sigBytes]\<rparr>))) (\<lambda>ntxBytes.
          Inr (ID ntx, hex_encode ntxBytes)))))) of
        Inl e \<Rightarrow> (tx, Inl e)
      | Inr (h, hex) \<Rightarrow> (tx\<lparr>txHash := h\<rparr>, Inr hex))"

definition GetTxHash :: "TxBuilder \<Rightarrow> string" where "GetTxHash tx = txHash tx"
definition GetSigHash :: "TxBuilder \<Rightarrow> string list" where "GetSigHash tx = sigHash tx"
definition GetUnsignedHex :: "TxBuilder \<Rightarrow> string" where "GetUnsignedHex tx = unsignedHex tx"
definition SetSigHash :: "string list \<Rightarrow> TxBuilder \<Rightarrow> TxBuilder" where
  "SetSigHash s tx = tx\<lparr>sigHash := s\<rparr>"
definition SetUnsignedHex :: "string \<Rightarrow> TxBuilder \<Rightarrow> TxBuilder" where
  "SetUnsignedHex s tx = tx\<lparr>unsignedHex := s\<rparr>"

section \<open>Builders restored from a prepared contract call\<close>

text \<open>
  The decoder is strict: it refuses unknown fields and anything after the value. The checks of the
  code are one conjunction each: on the times and the limit, on the contract, on the decoded bytes.
\<close>

definition raw_in_bounds :: "TxRaw \<Rightarrow> bool" where
  "raw_in_bounds r \<longleftrightarrow>
     \<not> (sint (Timestamp r) \<le> 0 \<or> sint (Expiration r) \<le> sint (Timestamp r) \<or>
        sint (Expiration r - Timestamp r) > 86400000 \<or> sint (RawFeeLimit r) \<le> 0 \<or>
        sint (RawFeeLimit r) > 1000000000)"

definition contract_matches :: "tron_env \<Rightarrow> string \<Rightarrow> TrxContract \<Rightarrow> bool" where
  "contract_matches E sender c \<longleftrightarrow>
     (let v = Value c
      in \<not> (Type c \<noteq> ''TriggerSmartContract'' \<or>
            TypeUrl c \<noteq> ''type.googleapis.com/protocol.TriggerSmartContract'' \<or>
            \<not> equal_fold (normalizeAddressHex E (OwnerAddress v)) (ConvertToHex E sender) \<or>
            ToAddress v \<noteq> [] \<or> sint (CallValue v) < 0 \<or>
            (ValueAmount v \<noteq> 0 \<and> ValueAmount v \<noteq> CallValue v)))"

definition decoded_parts ::
  "tron_env \<Rightarrow> TxRaw \<Rightarrow> ContractValue \<Rightarrow> (bytes \<times> bytes \<times> bytes \<times> bytes \<times> bytes) option"
where
  "decoded_parts E r v =
     (case (hex_decode (normalizeAddressHex E (OwnerAddress v)),
            hex_decode (normalizeAddressHex E (ContractOf v)), hex_decode (Data v),
            hex_decode (RefBlockBytes r), hex_decode (RefHash r)) of
        (Some owner, Some contract, Some d, Some refBytes, Some refHash) \<Rightarrow>
          if length owner \<noteq> 21 \<or> owner ! 0 \<noteq> 0x41 \<or> length contract \<noteq> 21 \<or> contract ! 0 \<noteq> 0x41 \<or>
             length d < 4 \<or> length refBytes \<noteq> 2 \<or> length refHash \<noteq> 8
          then None else Some (owner, contract, d, refBytes, refHash)
      | _ \<Rightarrow> None)"

definition prepared_bytes :: "TxRaw \<Rightarrow> TrxContract \<Rightarrow> bytes \<times> bytes \<times> bytes \<times> bytes \<times> bytes \<Rightarrow> bytes" where
  "prepared_bytes r c parts =
     (case parts of (owner, contract, d, refBytes, refHash) \<Rightarrow>
        marshalRawTx
          (marshalContract contractTypeTriggerSmart
            (marshalAny (TypeUrl c) (marshalTriggerSmartContract owner contract d (CallValue (Value c)))))
          refBytes refHash (Timestamp r) (Expiration r) (RawFeeLimit r))"

definition NewTxBuilderFromUnsignedHex :: "tron_env \<Rightarrow> string \<Rightarrow> string \<Rightarrow> TxBuilder option" where
  "NewTxBuilderFromUnsignedHex E hex sender =
     (if length hex = 0 \<or> length hex > 65536 \<or> \<not> ValidAddress E sender then None
      else case Option.bind (hex_decode hex) (json_DecodeStrict E) of
        None \<Rightarrow> None
      | Some tx \<Rightarrow>
          if length (Signature tx) \<noteq> 0 \<or> length (Ret tx) \<noteq> 0 then None
          else (case RawData tx of
            None \<Rightarrow> None
          | Some r \<Rightarrow>
              (case Contracts r of
                 [Some c] \<Rightarrow>
                   if \<not> raw_in_bounds r \<or> \<not> contract_matches E sender c then None
                   else (case decoded_parts E r (Value c) of
                     None \<Rightarrow> None
                   | Some parts \<Rightarrow>
                       if ID tx \<noteq> hex_encode (sha256 (prepared_bytes r c parts)) then None
                       else Some \<lparr>TheIngredient = None, unsignedHex = hex, sigHash = [ID tx], txHash = []\<rparr>)
               | _ \<Rightarrow> None)))"

section \<open>What the hashed bytes say\<close>

record tron_message =
  mg_type :: u64
  mg_url :: bytes
  mg_owner :: bytes
  mg_other :: bytes
  mg_amount :: i64
  mg_data :: bytes
  mg_ref_bytes :: bytes
  mg_ref_hash :: bytes
  mg_time :: i64
  mg_expiration :: i64
  mg_fee :: i64

text \<open>
  The reference reader of a raw transaction, after the message definitions of the chain: the contract
  in field 11 of the transaction, its parameter in field 2, the packed message in field 2 of that.
\<close>

definition read_raw :: "bytes \<Rightarrow> tron_message option" where
  "read_raw raw =
     Option.bind (pb_read raw) (\<lambda>t.
     Option.bind (pb_read (pb_bytes 11 t)) (\<lambda>c.
     Option.bind (pb_read (pb_bytes 2 c)) (\<lambda>a.
     Option.bind (pb_read (pb_bytes 2 a)) (\<lambda>v.
       Some \<lparr>mg_type = pb_varint 1 c, mg_url = pb_bytes 1 a, mg_owner = pb_bytes 1 v,
         mg_other = pb_bytes 2 v, mg_amount = pb_varint 3 v, mg_data = pb_bytes 4 v,
         mg_ref_bytes = pb_bytes 1 t, mg_ref_hash = pb_bytes 4 t, mg_time = pb_varint 14 t,
         mg_expiration = pb_varint 8 t, mg_fee = pb_varint 18 t\<rparr>))))"

lemma pb_write_transfer:
  "marshalTransferContract owner to amount =
     concat (map pb_write [(1, PbBytes owner), (2, PbBytes to), (3, PbVarint amount)])"
  by (simp add: marshalTransferContract_def)

lemma pb_write_trigger:
  "marshalTriggerSmartContract owner contract d v =
     concat (map pb_write [(1, PbBytes owner), (2, PbBytes contract), (3, PbVarint v), (4, PbBytes d)])"
  by (simp add: marshalTriggerSmartContract_def)

lemma pb_write_any:
  "marshalAny url v = concat (map pb_write [(1, PbBytes (bytes_of_string url)), (2, PbBytes v)])"
  by (simp add: marshalAny_def)

lemma pb_write_contract:
  "marshalContract t p = concat (map pb_write [(1, PbVarint (word_of_nat t)), (2, PbBytes p)])"
  by (simp add: marshalContract_def)

lemma pb_write_raw:
  "marshalRawTx c rb rh ts e f =
     concat (map pb_write [(1, PbBytes rb), (4, PbBytes rh), (8, PbVarint e), (11, PbBytes c),
       (14, PbVarint ts), (18, PbVarint f)])"
  by (simp add: marshalRawTx_def)

text \<open>The parts of a message are no longer than the message.\<close>

lemma length_pbBytesField: "length d \<le> length (pbBytesField n d)"
  by (simp add: pbBytesField_def)

lemma slice_parts: "slice (pbBytesField n d) \<Longrightarrow> slice d" "slice (a @ b) \<Longrightarrow> slice a \<and> slice b"
  using length_pbBytesField [of d n] by (simp_all add: slice_def)

lemma read_raw_marshal:
  assumes raw: "slice (marshalRawTx (marshalContract t (marshalAny url (concat (map pb_write fs)))) rb rh ts e f)"
    and fs: "list_all pb_ok fs" "distinct (map fst fs)"
  shows "read_raw (marshalRawTx (marshalContract t (marshalAny url (concat (map pb_write fs)))) rb rh ts e f) =
    Some \<lparr>mg_type = word_of_nat t, mg_url = bytes_of_string url, mg_owner = pb_bytes 1 fs,
      mg_other = pb_bytes 2 fs, mg_amount = pb_varint 3 fs, mg_data = pb_bytes 4 fs,
      mg_ref_bytes = rb, mg_ref_hash = rh, mg_time = ts, mg_expiration = e, mg_fee = f\<rparr>"
proof -
  let ?v = "concat (map pb_write fs)"
  let ?a = "marshalAny url ?v"
  let ?c = "marshalContract t ?a"
  have c: "slice rb" "slice rh" "slice ?c"
    using raw unfolding marshalRawTx_def by (auto dest!: slice_parts)
  then have a: "slice ?a" unfolding marshalContract_def by (auto dest!: slice_parts)
  then have v: "slice (bytes_of_string url)" "slice ?v" unfolding marshalAny_def by (auto dest!: slice_parts)
  have "pb_read (marshalRawTx ?c rb rh ts e f) = Some (filter pb_present
    [(1, PbBytes rb), (4, PbBytes rh), (8, PbVarint e), (11, PbBytes ?c), (14, PbVarint ts), (18, PbVarint f)])"
    unfolding pb_write_raw by (rule pb_read_write) (simp add: c)
  moreover have "pb_read ?c = Some (filter pb_present [(1, PbVarint (word_of_nat t)), (2, PbBytes ?a)])"
    unfolding pb_write_contract by (rule pb_read_write) (simp add: a)
  moreover have "pb_read ?a = Some (filter pb_present [(1, PbBytes (bytes_of_string url)), (2, PbBytes ?v)])"
    unfolding pb_write_any by (rule pb_read_write) (simp add: v)
  moreover have "pb_read ?v = Some (filter pb_present fs)"
    by (rule pb_read_write [OF fs(1)])
  ultimately show ?thesis
    by (simp add: read_raw_def fs(2) del: filter.simps)
qed

section \<open>Properties\<close>

lemma length_uleb_bound: "unat v < 128 ^ Suc k \<Longrightarrow> length (uleb v) \<le> Suc k"
proof (induction k arbitrary: v)
  case 0
  then show ?case by (simp add: uleb_small word_less_nat_alt)
next
  case (Suc k)
  show ?case
  proof (cases "v \<ge> 0x80")
    case True
    have "unat (drop_bit 7 v) < 128 ^ Suc k"
      using Suc.prems by (simp add: unat_drop_bit div_less_iff_less_mult)
    from Suc.IH [OF this] show ?thesis using True by (subst uleb.simps) simp
  next
    case False
    then show ?thesis by (subst uleb.simps) simp
  qed
qed

lemma length_uleb_10: "length (uleb v) \<le> 10"
proof -
  have "unat v < 2 ^ 64" using unsigned_less [of v, where 'a = nat] by simp
  then have "unat v < 128 ^ Suc 9" by simp
  from length_uleb_bound [OF this] show ?thesis by simp
qed

lemma length_fields:
  "length (pbVarintField n v) \<le> 20" "length (pbBytesField n d) \<le> 20 + length d"
  using length_uleb_10 [of v] length_uleb_10 [of "word_of_nat (length d)"]
    length_uleb_10 [of "push_bit 3 (word_of_nat n) OR word_of_nat 0"]
    length_uleb_10 [of "push_bit 3 (word_of_nat n) OR word_of_nat 2"]
  by (auto simp: pbVarintField_def pbBytesField_def pbTag_def pbUvarint_def)

lemma length_marshalRawTx:
  "length (marshalRawTx (marshalContract t (marshalAny url v)) rb rh ts e f) \<le>
     220 + length url + length v + length rb + length rh"
proof -
  have "length (marshalAny url v) \<le> 40 + length url + length v"
    using length_fields(2) [of 1 "bytes_of_string url"] length_fields(2) [of 2 v] by (simp add: marshalAny_def)
  then have "length (marshalContract t (marshalAny url v)) \<le> 80 + length url + length v"
    using length_fields(1) [of 1 "word_of_nat t"] length_fields(2) [of 2 "marshalAny url v"]
    by (simp add: marshalContract_def)
  then show ?thesis
    using length_fields(2) [of 1 rb] length_fields(2) [of 4 rh] length_fields(1) [of 8 e]
      length_fields(2) [of 11 "marshalContract t (marshalAny url v)"] length_fields(1) [of 14 ts]
      length_fields(1) [of 18 f]
    by (simp add: marshalRawTx_def)
qed

text \<open>
  The address the code takes for a native transfer is no base58 text, so it has no bytes; every
  other valid address has a version byte and twenty more.
\<close>

lemma valid_address_bytes:
  assumes "ValidAddress E a" "CheckDecode E MagicContactAddressForNative = None"
  shows "if a = MagicContactAddressForNative then nil_bytes (ConvertToBytes E a) = []
    else length (nil_bytes (ConvertToBytes E a)) = 21 \<and> hd (nil_bytes (ConvertToBytes E a)) = 0x41"
  using assms by (auto simp: ValidAddress_def ConvertToBytes_def nil_bytes_def split: if_splits option.splits)

lemma valid_address_length:
  "ValidAddress E a \<Longrightarrow> CheckDecode E MagicContactAddressForNative = None \<Longrightarrow>
     length (nil_bytes (ConvertToBytes E a)) \<le> 21"
  using valid_address_bytes [of E a] by (auto split: if_splits)

lemma length_raw_bytes:
  "length (raw_bytes p rb rh ts) \<le> 300 + length (p_value p) + length rb + length rh"
proof -
  have "length (type_url (p_type p)) \<le> 80" by (simp add: type_url_def contractTypeName_def)
  with length_marshalRawTx [of "p_type p" "type_url (p_type p)" "p_value p" rb rh ts "ts + 36000000" "p_fee p"]
  show ?thesis by (simp add: raw_bytes_def)
qed

lemma slice_raw_bytes: "length (p_value p) + length rb + length rh < 2 ^ 62 \<Longrightarrow> slice (raw_bytes p rb rh ts)"
  using length_raw_bytes [of p rb rh ts] by (simp add: slice_def)

lemma BuildD:
  assumes "Build E tx = (tx', Inr ())" "TheIngredient tx = Some i"
  obtains p sb rb rh ts b where "valid_ingredient E i" "build_tx E i = Inr (p, sb, rb, rh, ts)"
    "json_Marshal E (native_tx p sb rb rh ts) = Some b"
    "tx' = \<lparr>TheIngredient = Some i, unsignedHex = hex_encode b,
       sigHash = [hex_encode (sha256 (raw_bytes p rb rh ts))], txHash = []\<rparr>"
  using assms
  by (cases tx)
     (auto simp: Build_def Let_def native_tx_def split: option.splits if_splits sum.splits prod.splits)

lemma build_txD:
  assumes "build_tx E i = Inr (p, sb, rb, rh, ts)"
  shows "sb = nil_bytes (ConvertToBytes E (Sender i))" "parts_of E i sb = Inr p"
    "rb = drop 6 (Int64ToBytes (parsed_i64 (RefBlockNumber i)))" "length rb = 2" "length rh = 8"
    "ts = parsed_i64 (RefBlockTimestamp i)"
    "\<exists>h. hex_decode (RefBlockHash i) = Some h \<and> 16 \<le> length h \<and> rh = take 8 (drop 8 h)"
  using assms
  by (auto simp: build_tx_def Let_def andThen_eq_Inr require_def Int64ToBytes_def split: if_splits)

lemma ParseUint_loop_range: "ParseUint_loop b n s = (m, Some ErrRange) \<Longrightarrow> m = 2 ^ b - 1"
  by (induction b n s rule: ParseUint_loop.induct) (auto split: option.splits if_splits)

text \<open>A valid amount that \<open>ParseInt\<close> reads without an error is its decimal value.\<close>

lemma ParseInt_value:
  assumes "ParseInt 64 s = (n, None)"
  shows "big_SetString s = Some n" "n < 2 ^ 63" "- (2 ^ 63) \<le> n"
proof -
  obtain c cs where s: "s = c # cs" using assms by (cases s) (auto simp: ParseInt_def)
  define d where "d = (if c = CHR ''+'' \<or> c = CHR ''-'' then cs else s)"
  obtain un e where un: "ParseUint 64 d = (un, e)" by (cases "ParseUint 64 d")
  have r: "(case e of Some ErrSyntax \<Rightarrow> (0, Some ErrSyntax)
      | _ \<Rightarrow> if c \<noteq> CHR ''-'' \<and> un \<ge> 2 ^ 63 then (2 ^ 63 - 1, Some ErrRange)
        else if c = CHR ''-'' \<and> un > 2 ^ 63 then (- (2 ^ 63), Some ErrRange)
        else (if c = CHR ''-'' then - int un else int un, None)) = (n, None :: num_error option)"
    using assms un by (auto simp: ParseInt_def Let_def s d_def split: option.splits num_error.splits if_splits)
  have e: "e = None"
  proof (cases e)
    case (Some x)
    then have "x = ErrRange" using r by (cases x) auto
    then have "2 ^ 64 - 1 = un" using un Some
      by (auto simp: ParseUint_def split: if_splits dest!: ParseUint_loop_range)
    then show ?thesis using r Some \<open>x = ErrRange\<close> by (auto split: if_splits)
  qed
  then have "digits_value 0 d = Some un" "d \<noteq> []" using un ParseUint_sound by auto
  then show "big_SetString s = Some n" "n < 2 ^ 63" "- (2 ^ 63) \<le> n"
    using r e by (auto simp: big_SetString_def s d_def Let_def split: if_splits)
qed

lemma transfer_parts_native:
  assumes "transfer_parts E i sb = Inr p" "ContractAddress i = MagicContactAddressForNative"
  obtains n where "ParseInt 64 (Amount i) = (n, None)" "p_type p = 1" "p_fee p = 0" "Recipient i \<noteq> []"
    "p_value p = marshalTransferContract sb (nil_bytes (ConvertToBytes E (Recipient i))) (word_of_int n)"
  using assms
  by (cases "ParseInt 64 (Amount i)")
     (auto simp: transfer_parts_def contractTypeTransfer_def Let_def split: if_splits option.splits)

lemma length_marshalTransferContract:
  "length (marshalTransferContract a b n) \<le> 60 + length a + length b"
  using length_fields(2) [of 1 a] length_fields(2) [of 2 b] length_fields(1) [of 3 n]
  by (simp add: marshalTransferContract_def)

text \<open>
  C28: What is signed for a transfer of the native coin, read by the format of the chain: a transfer
  from the sender to the recipient of exactly the decimal amount, valid for ten hours, without a fee
  limit, and bound to the block number's last two bytes and to eight bytes of the block hash.
\<close>

theorem tron_transfer_signed:
  assumes magic: "CheckDecode E MagicContactAddressForNative = None"
    and built: "Build E tx = (tx', Inr ())" "TheIngredient tx = Some i"
    and transfer: "TxType i = ''0''" "ContractAddress i = MagicContactAddressForNative"
  shows "\<exists>raw n h. GetSigHash tx' = [hex_encode (sha256 raw)] \<and>
    big_SetString (Amount i) = Some n \<and> 0 < n \<and> n < 2 ^ 63 \<and> hex_decode (RefBlockHash i) = Some h \<and>
    read_raw raw = Some
      \<lparr>mg_type = 1, mg_url = bytes_of_string ''type.googleapis.com/protocol.TransferContract'',
       mg_owner = nil_bytes (ConvertToBytes E (Sender i)),
       mg_other = nil_bytes (ConvertToBytes E (Recipient i)), mg_amount = word_of_int n, mg_data = [],
       mg_ref_bytes = drop 6 (Int64ToBytes (parsed_i64 (RefBlockNumber i))),
       mg_ref_hash = take 8 (drop 8 h), mg_time = parsed_i64 (RefBlockTimestamp i),
       mg_expiration = parsed_i64 (RefBlockTimestamp i) + 36000000, mg_fee = 0\<rparr>"
proof -
  obtain p sb rb rh ts b where valid: "valid_ingredient E i" and bt: "build_tx E i = Inr (p, sb, rb, rh, ts)"
    and tx': "tx' = \<lparr>TheIngredient = Some i, unsignedHex = hex_encode b,
       sigHash = [hex_encode (sha256 (raw_bytes p rb rh ts))], txHash = []\<rparr>"
    using BuildD [OF built] by metis
  note parts = build_txD [OF bt]
  obtain h where h: "hex_decode (RefBlockHash i) = Some h" "rh = take 8 (drop 8 h)" using parts(7) by blast
  have "transfer_parts E i sb = Inr p" using parts(2) transfer(1) by (simp add: parts_of_def)
  then obtain n where n: "ParseInt 64 (Amount i) = (n, None)" and p: "p_type p = 1" "p_fee p = 0"
    "p_value p = marshalTransferContract sb (nil_bytes (ConvertToBytes E (Recipient i))) (word_of_int n)"
    and r: "Recipient i \<noteq> []"
    using transfer_parts_native [OF _ transfer(2)] by metis
  have "Amount i \<noteq> []" using n by (auto simp: ParseInt_def)
  with valid ParseInt_value [OF n] have amount: "big_SetString (Amount i) = Some n" "0 < n" "n < 2 ^ 63"
    by (auto simp: valid_ingredient_def valid_bigint_gt0_def)
  let ?to = "nil_bytes (ConvertToBytes E (Recipient i))"
  have "length sb \<le> 21" "length ?to \<le> 21"
    using valid r parts(1) valid_address_length [OF _ magic] by (auto simp: valid_ingredient_def)
  then have len: "length (p_value p) \<le> 200" and s: "slice sb" "slice ?to"
    using length_marshalTransferContract [of sb ?to "word_of_int n"] p(3) by (auto simp: slice_def)
  have "slice (raw_bytes p rb rh ts)" by (rule slice_raw_bytes) (use len parts in simp)
  then have "read_raw (raw_bytes p rb rh ts) = Some
    \<lparr>mg_type = word_of_nat (p_type p), mg_url = bytes_of_string (type_url (p_type p)),
     mg_owner = sb, mg_other = ?to, mg_amount = word_of_int n, mg_data = [], mg_ref_bytes = rb, mg_ref_hash = rh,
     mg_time = ts, mg_expiration = ts + 36000000, mg_fee = p_fee p\<rparr>"
    unfolding raw_bytes_def p(3) pb_write_transfer
    by (subst read_raw_marshal) (simp_all add: s)
  then show ?thesis
    using h amount p parts
    by (intro exI [of _ "raw_bytes p rb rh ts"] exI [of _ n] exI [of _ h])
       (simp add: tx' GetSigHash_def type_url_def contractTypeName_def contractTypeTransfer_def)
qed

lemma call_parts_ofD:
  assumes "call_parts_of E i sb = Inr p"
  obtains d where "hex_decode (strings_TrimPrefix (Payload i) ''0x'') = Some d" "p_type p = 31"
    "p_fee p = parsed_i64 (FeeLimit i)" "p_recipient p = []" "p_payload p = d"
    "p_contract p = nil_bytes (ConvertToBytes E (ContractAddress i))"
    "p_amount p = (if Amount i \<noteq> [] then parsed_i64 (Amount i) else 0)"
    "p_value p = marshalTriggerSmartContract sb (p_contract p) d (p_amount p)"
  using assms
  by (auto simp: call_parts_of_def contractTypeTriggerSmart_def Let_def andThen_eq_Inr split: if_splits)

lemma length_marshalTriggerSmartContract:
  "length (marshalTriggerSmartContract a b d n) \<le> 80 + length a + length b + length d"
  using length_fields(2) [of 1 a] length_fields(2) [of 2 b] length_fields(1) [of 3 n] length_fields(2) [of 4 d]
  by (simp add: marshalTriggerSmartContract_def)

lemma read_raw_trigger:
  assumes "slice (marshalRawTx (marshalContract t (marshalAny url (marshalTriggerSmartContract a b d n))) rb rh ts e f)"
    "slice a" "slice b" "slice d"
  shows "read_raw (marshalRawTx (marshalContract t (marshalAny url (marshalTriggerSmartContract a b d n))) rb rh ts e f) =
    Some \<lparr>mg_type = word_of_nat t, mg_url = bytes_of_string url, mg_owner = a, mg_other = b, mg_amount = n,
      mg_data = d, mg_ref_bytes = rb, mg_ref_hash = rh, mg_time = ts, mg_expiration = e, mg_fee = f\<rparr>"
  using assms unfolding pb_write_trigger by (subst read_raw_marshal) simp_all

text \<open>
  What is signed for a contract call: a call of the contract by the sender with exactly the
  payload, where the fee limit and the value sent along are the numbers of the ingredient as
  \<open>ParseInt\<close> clamps them.
\<close>

theorem tron_call_signed:
  assumes magic: "CheckDecode E MagicContactAddressForNative = None"
    and built: "Build E tx = (tx', Inr ())" "TheIngredient tx = Some i"
    and call: "TxType i = ''3''" "length (Payload i) < 2 ^ 60"
  shows "\<exists>raw d m. GetSigHash tx' = [hex_encode (sha256 raw)] \<and> read_raw raw = Some m \<and>
    hex_decode (strings_TrimPrefix (Payload i) ''0x'') = Some d \<and> mg_type m = 31 \<and>
    mg_owner m = nil_bytes (ConvertToBytes E (Sender i)) \<and>
    mg_other m = nil_bytes (ConvertToBytes E (ContractAddress i)) \<and> mg_data m = d \<and>
    mg_amount m = (if Amount i \<noteq> [] then parsed_i64 (Amount i) else 0) \<and>
    mg_fee m = parsed_i64 (FeeLimit i) \<and> mg_expiration m = mg_time m + 36000000"
proof -
  obtain p sb rb rh ts b where valid: "valid_ingredient E i" and bt: "build_tx E i = Inr (p, sb, rb, rh, ts)"
    and tx': "tx' = \<lparr>TheIngredient = Some i, unsignedHex = hex_encode b,
       sigHash = [hex_encode (sha256 (raw_bytes p rb rh ts))], txHash = []\<rparr>"
    using BuildD [OF built] by metis
  note parts = build_txD [OF bt]
  have "call_parts_of E i sb = Inr p" using parts(2) call(1) by (simp add: parts_of_def)
  then obtain d where d: "hex_decode (strings_TrimPrefix (Payload i) ''0x'') = Some d" and p: "p_type p = 31"
    "p_fee p = parsed_i64 (FeeLimit i)" "p_contract p = nil_bytes (ConvertToBytes E (ContractAddress i))"
    "p_amount p = (if Amount i \<noteq> [] then parsed_i64 (Amount i) else 0)"
    "p_value p = marshalTriggerSmartContract sb (p_contract p) d (p_amount p)"
    by (rule call_parts_ofD)
  have "length sb \<le> 21" "length (p_contract p) \<le> 21"
    using valid parts(1) p(3) valid_address_length [OF _ magic] by (auto simp: valid_ingredient_def)
  moreover have "length d < 2 ^ 60"
    using length_hex_decode [OF d] call(2) by (simp add: strings_TrimPrefix_def split: if_splits)
  ultimately have len: "length (p_value p) < 2 ^ 61" and s: "slice sb" "slice (p_contract p)" "slice d"
    using length_marshalTriggerSmartContract [of sb "p_contract p" d "p_amount p"] p(5) by (auto simp: slice_def)
  have "slice (raw_bytes p rb rh ts)" by (rule slice_raw_bytes) (use len parts in simp)
  then have "read_raw (raw_bytes p rb rh ts) = Some
    \<lparr>mg_type = word_of_nat (p_type p), mg_url = bytes_of_string (type_url (p_type p)),
     mg_owner = sb, mg_other = p_contract p, mg_amount = p_amount p, mg_data = d, mg_ref_bytes = rb,
     mg_ref_hash = rh, mg_time = ts, mg_expiration = ts + 36000000, mg_fee = p_fee p\<rparr>"
    unfolding raw_bytes_def p(5) by (rule read_raw_trigger) (rule s)+
  then show ?thesis
    using d p parts(1) by (intro exI [of _ "raw_bytes p rb rh ts"] exI [of _ d]) (simp add: tx' GetSigHash_def)
qed

text \<open>Arithmetic on \<open>int64\<close> that stays in range.\<close>

lemma sint_exact:
  fixes a b :: i64
  shows "- (2 ^ 63) \<le> sint a - sint b \<Longrightarrow> sint a - sint b < 2 ^ 63 \<Longrightarrow> sint (a - b) = sint a - sint b"
    and "- (2 ^ 63) \<le> sint a + sint b \<Longrightarrow> sint a + sint b < 2 ^ 63 \<Longrightarrow> sint (a + b) = sint a + sint b"
    and "- (2 ^ 63) \<le> sint a * sint b \<Longrightarrow> sint a * sint b < 2 ^ 63 \<Longrightarrow> sint (a * b) = sint a * sint b"
  by (simp_all add: sint_word_ariths signed_take_bit_int_eq_self)

lemma sint_i64: "- (2 ^ 63) \<le> sint (a :: i64)" "sint (a :: i64) < 2 ^ 63"
  using sint_ge [of a] sint_lt [of a] by simp_all

text \<open>Hexadecimal text decodes alike in either case.\<close>

lemma char_nat_of_nat: "n < 256 \<Longrightarrow> char_nat (char_of n) = n"
  by (simp add: char_nat_def)

lemma fromHexChar_lower: "fromHexChar (ascii_lower c) = fromHexChar c"
proof (cases "65 \<le> char_nat c \<and> char_nat c \<le> 90")
  case True
  then have "char_nat (ascii_lower c) = char_nat c + 32" by (simp add: ascii_lower_def char_nat_of_nat)
  with True show ?thesis by (simp add: fromHexChar_def Let_def)
qed (auto simp: ascii_lower_def)

lemma hex_decode_lower: "hex_decode (map ascii_lower s) = hex_decode s"
  by (induction s rule: hex_decode.induct) (auto simp: fromHexChar_lower split: option.splits)

lemma hex_decode_fold: "equal_fold s (hex_encode b) \<Longrightarrow> hex_decode s = Some b"
  by (metis equal_fold_def hex_decode_lower hex_decode_encode)

lemma restoredD:
  assumes "NewTxBuilderFromUnsignedHex E hex sender = Some b"
  obtains raw tx r c owner contract d rb rh where
    "ValidAddress E sender" "hex_decode hex = Some raw" "json_DecodeStrict E raw = Some tx" "RawData tx = Some r"
    "Contracts r = [Some c]" "Signature tx = []" "raw_in_bounds r" "contract_matches E sender c"
    "decoded_parts E r (Value c) = Some (owner, contract, d, rb, rh)"
    "ID tx = hex_encode (sha256 (prepared_bytes r c (owner, contract, d, rb, rh)))"
    "b = \<lparr>TheIngredient = None, unsignedHex = hex, sigHash = [ID tx], txHash = []\<rparr>"
  using assms
  by (auto simp: NewTxBuilderFromUnsignedHex_def Option.bind_eq_Some_conv
           split: if_splits option.splits list.splits)

lemma decoded_partsD:
  assumes "decoded_parts E r v = Some (owner, contract, d, rb, rh)"
  shows "hex_decode (normalizeAddressHex E (OwnerAddress v)) = Some owner" "length owner = 21"
    "hex_decode (normalizeAddressHex E (ContractOf v)) = Some contract" "length contract = 21"
    "hd contract = 0x41" "hex_decode (Data v) = Some d" "4 \<le> length d" "length rb = 2" "length rh = 8"
    "hex_decode (RefBlockBytes r) = Some rb" "hex_decode (RefHash r) = Some rh" "hd owner = 0x41"
proof -
  have hd: "length b = 21 \<Longrightarrow> hd b = b ! 0" for b :: bytes by (cases b) auto
  show "hex_decode (normalizeAddressHex E (OwnerAddress v)) = Some owner" "length owner = 21"
    "hex_decode (normalizeAddressHex E (ContractOf v)) = Some contract" "length contract = 21"
    "hd contract = 0x41" "hex_decode (Data v) = Some d" "4 \<le> length d" "length rb = 2" "length rh = 8"
    "hex_decode (RefBlockBytes r) = Some rb" "hex_decode (RefHash r) = Some rh" "hd owner = 0x41"
    using assms by (auto simp: decoded_parts_def hd split: option.splits if_splits)
qed

text \<open>The sender's text stands for bytes that begin with the version, or for none.\<close>

lemma sender_hex:
  assumes "ValidAddress E sender" "CheckDecode E MagicContactAddressForNative = None"
  shows "ConvertToHex E sender = hex_encode (nil_bytes (ConvertToBytes E sender))"
  using assms
  by (auto simp: ValidAddress_def ConvertToHex_def ConvertToBytes_def nil_bytes_def Let_def
           split: option.splits if_splits)

text \<open>
  C29: A builder restored from prepared hex signs what the decoded JSON shows and nothing more: its
  one hash is the hash of bytes that read as a contract call by the given sender, with the contract,
  the data and the value of the JSON, no transfer target, at most a thousand TRX of fees and a
  lifetime of at most a day.
\<close>

theorem restored_signs_what_it_shows:
  assumes magic: "CheckDecode E MagicContactAddressForNative = None"
    and restored: "NewTxBuilderFromUnsignedHex E hex sender = Some b"
  shows "\<exists>json tx r c raw m. hex_decode hex = Some json \<and> json_DecodeStrict E json = Some tx \<and>
    RawData tx = Some r \<and> Contracts r = [Some c] \<and> ToAddress (Value c) = [] \<and>
    GetSigHash b = [hex_encode (sha256 raw)] \<and> GetUnsignedHex b = hex \<and>
    (slice raw \<longrightarrow> read_raw raw = Some m) \<and> mg_type m = 31 \<and>
    Some (mg_owner m) = ConvertToBytes E sender \<and>
    hex_decode (normalizeAddressHex E (ContractOf (Value c))) = Some (mg_other m) \<and>
    hex_decode (Data (Value c)) = Some (mg_data m) \<and> mg_amount m = CallValue (Value c) \<and>
    0 \<le> sint (mg_amount m) \<and> 0 < sint (mg_fee m) \<and> sint (mg_fee m) \<le> 1000000000 \<and>
    0 < sint (mg_time m) \<and> sint (mg_time m) < sint (mg_expiration m) \<and>
    sint (mg_expiration m) - sint (mg_time m) \<le> 86400000"
proof -
  obtain json tx r c owner contract d rb rh where
    sender: "ValidAddress E sender" and json: "hex_decode hex = Some json" "json_DecodeStrict E json = Some tx"
    and r: "RawData tx = Some r" "Contracts r = [Some c]" and bounds: "raw_in_bounds r"
    and matches: "contract_matches E sender c" and dec: "decoded_parts E r (Value c) = Some (owner, contract, d, rb, rh)"
    and id: "ID tx = hex_encode (sha256 (prepared_bytes r c (owner, contract, d, rb, rh)))"
    and b: "b = \<lparr>TheIngredient = None, unsignedHex = hex, sigHash = [ID tx], txHash = []\<rparr>"
    using restored by (rule restoredD)
  note parts = decoded_partsD [OF dec]
  let ?raw = "prepared_bytes r c (owner, contract, d, rb, rh)"
  let ?m = "\<lparr>mg_type = 31, mg_url = bytes_of_string (TypeUrl c), mg_owner = owner, mg_other = contract,
    mg_amount = CallValue (Value c), mg_data = d, mg_ref_bytes = rb, mg_ref_hash = rh, mg_time = Timestamp r,
    mg_expiration = Expiration r, mg_fee = RawFeeLimit r\<rparr>"
  have c: "ToAddress (Value c) = []" "0 \<le> sint (CallValue (Value c))"
    "equal_fold (normalizeAddressHex E (OwnerAddress (Value c))) (ConvertToHex E sender)"
    using matches by (auto simp: contract_matches_def Let_def)
  then have "owner = nil_bytes (ConvertToBytes E sender)"
    using hex_decode_fold parts(1) by (simp add: sender_hex [OF sender magic])
  then have owner: "ConvertToBytes E sender = Some owner"
    using parts(2) by (auto simp: nil_bytes_def split: option.splits)
  have "sint (Expiration r - Timestamp r) = sint (Expiration r) - sint (Timestamp r)"
    using bounds sint_i64 [of "Expiration r"] sint_i64 [of "Timestamp r"]
    by (intro sint_exact) (auto simp: raw_in_bounds_def)
  then have times: "0 < sint (Timestamp r)" "sint (Timestamp r) < sint (Expiration r)"
    "sint (Expiration r) - sint (Timestamp r) \<le> 86400000" "0 < sint (RawFeeLimit r)"
    "sint (RawFeeLimit r) \<le> 1000000000"
    using bounds by (auto simp: raw_in_bounds_def)
  have "read_raw ?raw = Some ?m" if s: "slice ?raw"
  proof -
    have "slice (marshalTriggerSmartContract owner contract d (CallValue (Value c)))"
      using s unfolding prepared_bytes_def prod.case marshalRawTx_def marshalContract_def marshalAny_def
      by (auto dest!: slice_parts)
    then have "slice owner" "slice contract" "slice d"
      unfolding marshalTriggerSmartContract_def by (auto dest!: slice_parts)
    with s show ?thesis
      unfolding prepared_bytes_def prod.case by (subst read_raw_trigger) (simp_all add: contractTypeTriggerSmart_def)
  qed
  then show ?thesis
    using json r c(1,2) owner times parts(3,6)
    by (intro exI [of _ json] exI [of _ tx] exI [of _ r] exI [of _ c] exI [of _ ?raw] exI [of _ ?m])
       (simp add: b id GetSigHash_def GetUnsignedHex_def)
qed

text \<open>
  C30: A fee limit computed from an energy estimate neither wraps nor leaves its bounds: it is the
  product of the energy, its price and the headroom, cut at 300 TRX, and is refused for an estimate
  above the limit of the protocol.
\<close>

theorem fee_limit_exact:
  assumes "FeeLimitForEnergyAt energy price headroom = (limit, True)"
  shows "0 < sint limit \<and> sint limit \<le> 300000000 \<and>
    sint limit = min (sint energy * sint price * sint headroom) 300000000 \<and>
    sint energy * sint price \<le> 15000000000"
proof -
  let ?sun = "energy * price"
  have e: "0 < sint energy" "0 < sint price" "sint energy \<le> 15000000000 sdiv sint price"
    and f: "FeeLimitFromSun ?sun headroom = (limit, True)"
    using assms by (auto simp: FeeLimitForEnergyAt_def ProtocolMaxFeeLimitSun_def split: if_splits)
  then have "sint energy \<le> 15000000000 div sint price"
    by (simp add: signed_divide_int_def split: if_splits)
  then have "sint energy * sint price \<le> 15000000000 div sint price * sint price"
    using e(2) by (simp add: mult_right_mono)
  also have "\<dots> \<le> 15000000000" using e(2) minus_mod_eq_div_mult [of 15000000000 "sint price"]
    pos_mod_sign [of "sint price" 15000000000] by linarith
  finally have prod: "sint energy * sint price \<le> 15000000000" .
  moreover have "0 < sint energy * sint price" using e by simp
  ultimately have sun: "sint ?sun = sint energy * sint price" by (intro sint_exact(3)) auto
  have h: "0 < sint ?sun" "0 < sint headroom" "sint headroom \<le> 100"
    using f by (auto simp: FeeLimitFromSun_def split: if_splits)
  have "300000000 sdiv sint headroom = 300000000 div sint headroom"
    using h by (simp add: signed_divide_int_def)
  then have f': "limit = (if sint ?sun > 300000000 div sint headroom then 300000000 else ?sun * headroom)"
    using f h by (auto simp: FeeLimitFromSun_def MaxFeeLimitSun_def split: if_splits)
  show ?thesis
  proof (cases "sint ?sun > 300000000 div sint headroom")
    case True
    have "sint ?sun * sint headroom \<le> 300000000 \<Longrightarrow> sint ?sun \<le> 300000000 div sint headroom"
      using zdiv_mono1 [of "sint ?sun * sint headroom" 300000000 "sint headroom"] h(2) by simp
    with True have "300000000 < sint ?sun * sint headroom" by linarith
    then show ?thesis using f' True prod sun by simp
  next
    case False
    then have "sint ?sun * sint headroom \<le> 300000000 div sint headroom * sint headroom"
      using h(2) by (simp add: mult_right_mono)
    also have "\<dots> \<le> 300000000" using h(2) minus_mod_eq_div_mult [of 300000000 "sint headroom"]
      pos_mod_sign [of "sint headroom" 300000000] by linarith
    finally have le: "sint ?sun * sint headroom \<le> 300000000" .
    moreover have "0 < sint ?sun * sint headroom" using h by simp
    ultimately have "sint (?sun * headroom) = sint ?sun * sint headroom" by (intro sint_exact(3)) auto
    then show ?thesis using f' False prod sun le h by auto
  qed
qed

theorem fee_limit_exact_witness:
  "0 < sint (130000 * 100 * 2 :: i64) \<and> sint (130000 * 100 * 2 :: i64) \<le> 300000000 \<and>
    sint (130000 * 100 * 2 :: i64) = min (sint (130000 :: i64) * sint (100 :: i64) * sint (2 :: i64)) 300000000 \<and>
    sint (130000 :: i64) * sint (100 :: i64) \<le> 15000000000"
  by (rule fee_limit_exact)
     (simp add: FeeLimitForEnergyAt_def FeeLimitFromSun_def ProtocolMaxFeeLimitSun_def MaxFeeLimitSun_def
       signed_divide_int_def)

lemma ParseInt_nonneg:
  assumes "big_SetString s = Some n" "0 < n"
  shows "0 \<le> fst (ParseInt 64 s)" "fst (ParseInt 64 s) < 2 ^ 63"
proof -
  obtain c cs where s: "s = c # cs" using assms(1) by (cases s) (auto simp: big_SetString_def)
  have "c \<noteq> CHR ''-''" using assms by (auto simp: big_SetString_def s split: if_splits)
  then show "0 \<le> fst (ParseInt 64 s)" "fst (ParseInt 64 s) < 2 ^ 63"
    by (auto simp: ParseInt_def s Let_def split: prod.splits option.splits num_error.splits)
qed

lemma sint_of_range: "0 \<le> n \<Longrightarrow> n < 2 ^ 63 \<Longrightarrow> sint (word_of_int n :: i64) = n"
  by (simp add: signed_of_int signed_take_bit_int_eq_self)

lemma parsed_timestamp_pos: "valid_u64_gt0 s \<Longrightarrow> 0 < sint (parsed_i64 s)"
  by (auto simp: valid_u64_gt0_reads parsed_i64_def ParseInt_of_ParseUint sint_of_range)

lemma parsed_amount_nonneg: "valid_bigint_gt0 s \<Longrightarrow> 0 \<le> sint (parsed_i64 s)"
  using ParseInt_nonneg [of s]
  by (auto simp: valid_bigint_gt0_def parsed_i64_def sint_of_range split: if_splits option.splits)

lemma normalize_hex: "length b = 21 \<Longrightarrow> normalizeAddressHex E (hex_encode b) = hex_encode b"
  by (simp add: normalizeAddressHex_def)

lemma build_restores:
  assumes magic: "CheckDecode E MagicContactAddressForNative = None"
    and json: "\<And>ntx b. json_Marshal E ntx = Some b \<Longrightarrow> json_DecodeStrict E b = Some ntx"
    and built: "Build E tx = (tx', Inr ())" "TheIngredient tx = Some i" "TxType i = ''3''"
    and addresses: "Sender i \<noteq> MagicContactAddressForNative" "ContractAddress i \<noteq> MagicContactAddressForNative"
    and fee: "0 < sint (parsed_i64 (FeeLimit i))" "sint (parsed_i64 (FeeLimit i)) \<le> 1000000000"
    and payload: "\<And>d. hex_decode (strings_TrimPrefix (Payload i) ''0x'') = Some d \<Longrightarrow> 4 \<le> length d"
    and time: "sint (parsed_i64 (RefBlockTimestamp i)) + 36000000 < 2 ^ 63"
    and size: "GetUnsignedHex tx' \<noteq> []" "length (GetUnsignedHex tx') \<le> 65536"
  shows "NewTxBuilderFromUnsignedHex E (GetUnsignedHex tx') (Sender i) = Some (tx'\<lparr>TheIngredient := None\<rparr>)"
proof -
  obtain p sb rb rh ts b where valid: "valid_ingredient E i" and bt: "build_tx E i = Inr (p, sb, rb, rh, ts)"
    and marshal: "json_Marshal E (native_tx p sb rb rh ts) = Some b"
    and tx': "tx' = \<lparr>TheIngredient = Some i, unsignedHex = hex_encode b,
       sigHash = [hex_encode (sha256 (raw_bytes p rb rh ts))], txHash = []\<rparr>"
    using BuildD [OF built(1,2)] by metis
  note parts = build_txD [OF bt]
  have "call_parts_of E i sb = Inr p" using parts(2) built(3) by (simp add: parts_of_def)
  then obtain d where d: "hex_decode (strings_TrimPrefix (Payload i) ''0x'') = Some d" and p: "p_type p = 31"
    "p_fee p = parsed_i64 (FeeLimit i)" "p_recipient p = []" "p_payload p = d"
    "p_contract p = nil_bytes (ConvertToBytes E (ContractAddress i))"
    "p_amount p = (if Amount i \<noteq> [] then parsed_i64 (Amount i) else 0)"
    "p_value p = marshalTriggerSmartContract sb (p_contract p) d (p_amount p)"
    by (rule call_parts_ofD)
  have va: "ValidAddress E (Sender i)" "ValidAddress E (ContractAddress i)"
    using valid by (auto simp: valid_ingredient_def)
  have sb: "length sb = 21" "hd sb = 0x41" "length (p_contract p) = 21" "hd (p_contract p) = 0x41"
    using valid_address_bytes [OF va(1) magic] valid_address_bytes [OF va(2) magic] addresses p(5) parts(1)
    by auto
  have hd: "length x = 21 \<Longrightarrow> x ! 0 = hd x" for x :: bytes by (cases x) auto
  let ?ntx = "native_tx p sb rb rh ts"
  obtain r c where r: "RawData ?ntx = Some r" "Contracts r = [Some c]"
    and c: "Type c = ''TriggerSmartContract''" "TypeUrl c = type_url 31"
      "OwnerAddress (Value c) = hex_encode sb" "ContractOf (Value c) = hex_encode (p_contract p)"
      "ToAddress (Value c) = []" "Data (Value c) = hex_encode d" "CallValue (Value c) = p_amount p"
      "ValueAmount (Value c) = p_amount p"
    and t: "Timestamp r = ts" "Expiration r = ts + 36000000" "RawFeeLimit r = p_fee p"
      "RefBlockBytes r = hex_encode rb" "RefHash r = hex_encode rh"
    by (rule that [of "the (RawData ?ntx)" "the (hd (Contracts (the (RawData ?ntx))))"])
       (simp_all add: native_tx_def p contractTypeName_def contractTypeTransfer_def contractTypeTriggerSmart_def)
  have pos: "0 < sint ts" using valid parts(6) parsed_timestamp_pos by (auto simp: valid_ingredient_def)
  have exp: "sint (ts + 36000000) = sint ts + 36000000"
    using sint_exact(2) [of ts 36000000] pos time parts(6) by simp
  then have "sint (ts + 36000000 - ts) = 36000000" by simp
  then have "raw_in_bounds r" using pos exp fee by (simp add: raw_in_bounds_def t p(2))
  moreover have "0 \<le> sint (p_amount p)"
    using valid parsed_amount_nonneg [of "Amount i"] by (auto simp: valid_ingredient_def p(6))
  then have "contract_matches E (Sender i) c"
    using sb
    by (simp add: contract_matches_def c type_url_def contractTypeName_def contractTypeTransfer_def
        contractTypeTriggerSmart_def normalize_hex sender_hex [OF va(1) magic] parts(1))
  moreover have "decoded_parts E r (Value c) = Some (sb, p_contract p, d, rb, rh)"
    using sb payload [OF d] parts(4,5) by (simp add: decoded_parts_def c t normalize_hex hd)
  moreover have "prepared_bytes r c (sb, p_contract p, d, rb, rh) = raw_bytes p rb rh ts"
    by (simp add: prepared_bytes_def raw_bytes_def t c p(1,7) contractTypeTriggerSmart_def)
  moreover have "Signature ?ntx = []" "Ret ?ntx = []" "ID ?ntx = hex_encode (sha256 (raw_bytes p rb rh ts))"
    by (simp_all add: native_tx_def)
  ultimately show ?thesis
    using size va(1) r json [OF marshal]
    by (simp add: NewTxBuilderFromUnsignedHex_def tx' GetUnsignedHex_def) (cases b; simp)
qed

text \<open>
  A contract call that was built is accepted when it is prepared elsewhere: restoring a builder
  from the unsigned hex of \<open>Build\<close> and the sender gives the same hash and the same hex, for a fee
  limit of at most a thousand TRX and a payload with a selector.
\<close>

theorem built_call_restored:
  assumes magic: "CheckDecode E MagicContactAddressForNative = None"
    and json: "\<And>ntx b. json_Marshal E ntx = Some b \<Longrightarrow> json_DecodeStrict E b = Some ntx"
    and built: "Build E tx = (tx', Inr ())" "TheIngredient tx = Some i" "TxType i = ''3''"
    and addresses: "Sender i \<noteq> MagicContactAddressForNative" "ContractAddress i \<noteq> MagicContactAddressForNative"
    and fee: "0 < sint (parsed_i64 (FeeLimit i))" "sint (parsed_i64 (FeeLimit i)) \<le> 1000000000"
    and payload: "\<And>d. hex_decode (strings_TrimPrefix (Payload i) ''0x'') = Some d \<Longrightarrow> 4 \<le> length d"
    and time: "sint (parsed_i64 (RefBlockTimestamp i)) + 36000000 < 2 ^ 63"
    and size: "GetUnsignedHex tx' \<noteq> []" "length (GetUnsignedHex tx') \<le> 65536"
  shows "NewTxBuilderFromUnsignedHex E (GetUnsignedHex tx') (Sender i) = Some (tx'\<lparr>TheIngredient := None\<rparr>)"
  using assms by (rule build_restores)

section \<open>Concrete transactions\<close>

text \<open>An environment whose JSON encoder knows one transaction, and three addresses.\<close>

definition sample_address :: "char \<Rightarrow> string" where
  "sample_address c = CHR ''T'' # replicate 33 c"

definition sample_ingredient :: "string \<Rightarrow> Ingredient" where
  "sample_ingredient kind =
     \<lparr>TxType = kind,
      ContractAddress = (if kind = ''0'' then MagicContactAddressForNative else sample_address (CHR ''c'')),
      Sender = sample_address (CHR ''a''), Recipient = sample_address (CHR ''b''), Amount = ''7'',
      Payload = ''0xa9059cbb'', FeeLimit = ''9'', RefBlockHash = replicate 32 (CHR ''1''),
      RefBlockNumber = ''5'', RefBlockTimestamp = ''3''\<rparr>"

definition sample_tron :: "NativeTx \<Rightarrow> tron_env" where
  "sample_tron ntx =
     \<lparr>Token = sample_tokens,
      CheckDecode = \<lambda>s. if s = MagicContactAddressForNative then None
        else Some (replicate 20 (of_char (last s)), 0x41),
      CheckEncode = \<lambda>b v. [], ParsePubKey = Some, UnmarshalPubkey = Some, PubkeyToAddress = \<lambda>_. [],
      json_MarshalCall = \<lambda>_. [], json_Marshal = \<lambda>n. if n = ntx then Some [123] else None,
      json_Unmarshal = \<lambda>b. if b = [123] then Some ntx else None,
      json_DecodeStrict = \<lambda>b. if b = [123] then Some ntx else None,
      SignEVM = \<lambda>k h. Some k\<rparr>"

lemma sample_tron_simps [simp]:
  "CheckDecode (sample_tron ntx) MagicContactAddressForNative = None"
  "CheckDecode (sample_tron ntx) (sample_address c) = Some (replicate 20 (of_char c), 0x41)"
  "json_Marshal (sample_tron ntx) n = (if n = ntx then Some [123] else None)"
  "json_DecodeStrict (sample_tron ntx) b = (if b = [123] then Some ntx else None)"
  by (simp_all add: sample_tron_def sample_address_def MagicContactAddressForNative_def)

lemma sample_not_magic [simp]: "sample_address c \<noteq> MagicContactAddressForNative"
  by (simp add: sample_address_def MagicContactAddressForNative_def)

lemma sample_valid_address [simp]: "ValidAddress (sample_tron ntx) (sample_address c)"
  by (simp add: ValidAddress_def) (simp add: sample_address_def)

lemma sample_not_Nil [simp]: "sample_address c \<noteq> []" "MagicContactAddressForNative \<noteq> []"
  by (simp_all add: sample_address_def MagicContactAddressForNative_def)

lemma sample_valid_magic [simp]: "ValidAddress E MagicContactAddressForNative"
  by (simp add: ValidAddress_def)

lemma sample_digits [simp]:
  "ParseUint 64 ''9'' = (9, None)" "ParseUint 64 ''5'' = (5, None)" "ParseUint 64 ''3'' = (3, None)"
  "ParseInt 64 ''7'' = (7, None)" "big_SetString ''7'' = Some 7"
  by (simp_all add: ParseUint_def ParseInt_def big_SetString_def digit_of_def char_nat_def)

lemma sample_hash [simp]: "hex_decode (replicate 32 (CHR ''1'')) = Some (replicate 16 0x11)"
proof -
  have "hex_decode (hex_encode (replicate k 0x11)) = Some (replicate k 0x11)" for k by (rule hex_decode_encode)
  moreover have "hex_encode (replicate k 0x11) = replicate (2 * k) (CHR ''1'')" for k
    by (induction k) (simp_all add: hexDigit_def char_of_eq_iff take_bit_eq_mod)
  ultimately show ?thesis by (metis (no_types) mult_2 numeral_Bit0)
qed

lemma sample_payload [simp]: "hex_decode (strings_TrimPrefix ''0xa9059cbb'' ''0x'') = Some [0xa9, 0x05, 0x9c, 0xbb]"
  by (simp add: strings_TrimPrefix_def strings_HasPrefix_def fromHexChar_def char_nat_def Let_def)

lemma sample_valid [simp]:
  "kind = ''0'' \<or> kind = ''3'' \<Longrightarrow> valid_ingredient (sample_tron ntx) (sample_ingredient kind)"
  by (auto simp: valid_ingredient_def sample_ingredient_def TxTypes_def sample_address_def [symmetric]
      valid_bigint_gt0_def valid_u64_def valid_u64_gt0_def valid_hex_str_def strings_HasPrefix_def
      hex_char_def char_nat_def Let_def list_all_iff)

definition sample_bytes :: "char \<Rightarrow> bytes" where
  "sample_bytes c = 0x41 # replicate 20 (of_char c)"

definition sample_parts :: "string \<Rightarrow> call_parts" where
  "sample_parts kind =
     (if kind = ''0'' then
        \<lparr>p_type = 1, p_recipient = sample_bytes (CHR ''b''), p_contract = [], p_payload = [], p_amount = 7,
         p_fee = 0, p_value = marshalTransferContract (sample_bytes (CHR ''a'')) (sample_bytes (CHR ''b'')) 7\<rparr>
      else
        \<lparr>p_type = 31, p_recipient = [], p_contract = sample_bytes (CHR ''c''),
         p_payload = [0xa9, 0x05, 0x9c, 0xbb], p_amount = 7, p_fee = 9,
         p_value = marshalTriggerSmartContract (sample_bytes (CHR ''a'')) (sample_bytes (CHR ''c''))
           [0xa9, 0x05, 0x9c, 0xbb] 7\<rparr>)"

definition sample_ntx :: "string \<Rightarrow> NativeTx" where
  "sample_ntx kind = native_tx (sample_parts kind) (sample_bytes (CHR ''a'')) [0, 5] (replicate 8 0x11) 3"

definition sample_built :: "string \<Rightarrow> TxBuilder" where
  "sample_built kind =
     \<lparr>TheIngredient = Some (sample_ingredient kind), unsignedHex = hex_encode [123],
      sigHash = [ID (sample_ntx kind)], txHash = []\<rparr>"

abbreviation sample_tron_env :: "string \<Rightarrow> tron_env" where
  "sample_tron_env kind \<equiv> sample_tron (sample_ntx kind)"

lemma sample_nil_bytes [simp]:
  "nil_bytes (ConvertToBytes (sample_tron ntx) (sample_address c)) = sample_bytes c"
  by (simp add: ConvertToBytes_def nil_bytes_def sample_bytes_def)

lemma tron_sample_parsed [simp]: "parsed_i64 ''9'' = 9" "parsed_i64 ''5'' = 5" "parsed_i64 ''3'' = 3" "parsed_i64 ''7'' = 7"
  by (simp_all add: parsed_i64_def ParseInt_of_ParseUint)

lemma sample_ref [simp]: "drop 6 (Int64ToBytes 5) = [0, 5]"
proof -
  have "Int64ToBytes 5 = [0, 0, 0, 0, 0, 0, 0, 5]" by (simp add: Int64ToBytes_def be_word_def be_bytes_def le_bytes_8)
  then show ?thesis by simp
qed

lemma sample_transfer_parts:
  "parts_of (sample_tron ntx) (sample_ingredient ''0'') (sample_bytes (CHR ''a'')) = Inr (sample_parts ''0'')"
  by (simp add: parts_of_def transfer_parts_def sample_ingredient_def sample_parts_def contractTypeTransfer_def Let_def)

lemma sample_call_parts:
  "parts_of (sample_tron ntx) (sample_ingredient ''3'') (sample_bytes (CHR ''a'')) = Inr (sample_parts ''3'')"
  by (simp add: parts_of_def call_parts_of_def sample_ingredient_def sample_parts_def contractTypeTriggerSmart_def
      Let_def)

lemma sample_build_tx:
  "kind = ''0'' \<or> kind = ''3'' \<Longrightarrow> build_tx (sample_tron ntx) (sample_ingredient kind) =
     Inr (sample_parts kind, sample_bytes (CHR ''a''), [0, 5], replicate 8 0x11, 3)"
  using sample_transfer_parts [of ntx] sample_call_parts [of ntx]
  by (auto simp: build_tx_def Let_def require_def) (simp_all add: sample_ingredient_def)

lemma sample_build:
  "kind = ''0'' \<or> kind = ''3'' \<Longrightarrow>
     Build (sample_tron_env kind) (NewTxBuilder (Some (sample_ingredient kind))) = (sample_built kind, Inr ())"
  using sample_build_tx [of kind "sample_ntx kind"]
  by (simp add: Build_def Let_def NewTxBuilder_def sample_built_def sample_ntx_def [symmetric])

lemma sample_new [simp]: "TheIngredient (NewTxBuilder i) = i"
  by (simp add: NewTxBuilder_def)

lemma tron_sample_fields [simp]:
  "TxType (sample_ingredient kind) = kind" "Amount (sample_ingredient kind) = ''7''"
  "Payload (sample_ingredient kind) = ''0xa9059cbb''" "FeeLimit (sample_ingredient kind) = ''9''"
  "RefBlockTimestamp (sample_ingredient kind) = ''3''" "Sender (sample_ingredient kind) = sample_address (CHR ''a'')"
  "ContractAddress (sample_ingredient ''0'') = MagicContactAddressForNative"
  "ContractAddress (sample_ingredient ''3'') = sample_address (CHR ''c'')"
  by (simp_all add: sample_ingredient_def)

theorem tron_transfer_signed_witness:
  "\<exists>raw n h. GetSigHash (sample_built ''0'') = [hex_encode (sha256 raw)] \<and>
    big_SetString (Amount (sample_ingredient ''0'')) = Some n \<and> 0 < n \<and> n < 2 ^ 63 \<and>
    hex_decode (RefBlockHash (sample_ingredient ''0'')) = Some h \<and>
    read_raw raw = Some
      \<lparr>mg_type = 1, mg_url = bytes_of_string ''type.googleapis.com/protocol.TransferContract'',
       mg_owner = nil_bytes (ConvertToBytes (sample_tron_env ''0'') (Sender (sample_ingredient ''0''))),
       mg_other = nil_bytes (ConvertToBytes (sample_tron_env ''0'') (Recipient (sample_ingredient ''0''))),
       mg_amount = word_of_int n, mg_data = [],
       mg_ref_bytes = drop 6 (Int64ToBytes (parsed_i64 (RefBlockNumber (sample_ingredient ''0'')))),
       mg_ref_hash = take 8 (drop 8 h), mg_time = parsed_i64 (RefBlockTimestamp (sample_ingredient ''0'')),
       mg_expiration = parsed_i64 (RefBlockTimestamp (sample_ingredient ''0'')) + 36000000, mg_fee = 0\<rparr>"
  by (rule tron_transfer_signed [OF _ sample_build]) simp_all

theorem tron_call_signed_witness:
  "\<exists>raw d m. GetSigHash (sample_built ''3'') = [hex_encode (sha256 raw)] \<and> read_raw raw = Some m \<and>
    hex_decode (strings_TrimPrefix (Payload (sample_ingredient ''3'')) ''0x'') = Some d \<and> mg_type m = 31 \<and>
    mg_owner m = nil_bytes (ConvertToBytes (sample_tron_env ''3'') (Sender (sample_ingredient ''3''))) \<and>
    mg_other m = nil_bytes (ConvertToBytes (sample_tron_env ''3'') (ContractAddress (sample_ingredient ''3''))) \<and>
    mg_data m = d \<and>
    mg_amount m = (if Amount (sample_ingredient ''3'') \<noteq> [] then parsed_i64 (Amount (sample_ingredient ''3'')) else 0) \<and>
    mg_fee m = parsed_i64 (FeeLimit (sample_ingredient ''3'')) \<and> mg_expiration m = mg_time m + 36000000"
  by (rule tron_call_signed [OF _ sample_build]) simp_all

lemma sample_hex_ne [simp]: "GetUnsignedHex (sample_built kind) = hex_encode [123]"
  by (simp add: GetUnsignedHex_def sample_built_def)

theorem built_call_restored_witness:
  "NewTxBuilderFromUnsignedHex (sample_tron_env ''3'') (GetUnsignedHex (sample_built ''3''))
     (Sender (sample_ingredient ''3'')) = Some (sample_built ''3''\<lparr>TheIngredient := None\<rparr>)"
  by (rule built_call_restored [OF _ _ sample_build]) (auto split: if_splits)

lemma sample_restored:
  "NewTxBuilderFromUnsignedHex (sample_tron_env ''3'') (hex_encode [123]) (sample_address (CHR ''a'')) =
     Some (sample_built ''3''\<lparr>TheIngredient := None\<rparr>)"
proof -
  have "NewTxBuilderFromUnsignedHex (sample_tron_env ''3'') (GetUnsignedHex (sample_built ''3''))
      (Sender (sample_ingredient ''3'')) = Some (sample_built ''3''\<lparr>TheIngredient := None\<rparr>)"
    by (rule build_restores [OF _ _ sample_build]) (auto split: if_splits)
  then show ?thesis by (simp only: sample_hex_ne tron_sample_fields)
qed

theorem restored_signs_what_it_shows_witness:
  "\<exists>json tx r c raw m. hex_decode (hex_encode [123]) = Some json \<and>
    json_DecodeStrict (sample_tron_env ''3'') json = Some tx \<and>
    RawData tx = Some r \<and> Contracts r = [Some c] \<and> ToAddress (Value c) = [] \<and>
    GetSigHash (sample_built ''3''\<lparr>TheIngredient := None\<rparr>) = [hex_encode (sha256 raw)] \<and>
    GetUnsignedHex (sample_built ''3''\<lparr>TheIngredient := None\<rparr>) = hex_encode [123] \<and>
    (slice raw \<longrightarrow> read_raw raw = Some m) \<and> mg_type m = 31 \<and>
    Some (mg_owner m) = ConvertToBytes (sample_tron_env ''3'') (sample_address (CHR ''a'')) \<and>
    hex_decode (normalizeAddressHex (sample_tron_env ''3'') (ContractOf (Value c))) = Some (mg_other m) \<and>
    hex_decode (Data (Value c)) = Some (mg_data m) \<and> mg_amount m = CallValue (Value c) \<and>
    0 \<le> sint (mg_amount m) \<and> 0 < sint (mg_fee m) \<and> sint (mg_fee m) \<le> 1000000000 \<and>
    0 < sint (mg_time m) \<and> sint (mg_time m) < sint (mg_expiration m) \<and>
    sint (mg_expiration m) - sint (mg_time m) \<le> 86400000"
  by (rule restored_signs_what_it_shows [OF _ sample_restored]) simp

end
