(* ===== verification/Multiversx.thy ===== *)
theory Multiversx
  imports Protobuf Validator
begin

text \<open>
  \<open>signing/multiversx\<close> and \<open>contracts/esdt\<close>: addresses, the token payload, the protobuf message whose
  BLAKE2b hash is the transaction's identifier, and the builder, which signs the JSON itself. Bech32,
  JSON, base64, BLAKE2b and the signer are the fields of a record of functions. The receiver of a
  method is not nil; an ingredient and its network part may be.
\<close>

section \<open>Types\<close>

record NetWorkConfig =
  GasPrice :: string
  GasLimit :: string
  ChainID :: string
  Version :: string

record Ingredient =
  TxType :: string
  ContractAddress :: string
  Sender :: string
  Recipient :: string
  Amount :: string
  Nonce :: string
  Network :: "NetWorkConfig option"

record TxBuilder =
  TheIngredient :: "Ingredient option"
  unsignedHex :: string
  sigHash :: "string list"
  txHash :: string

record nativeTx =
  j_nonce :: u64
  j_value :: string
  j_receiver :: string
  j_sender :: string
  j_gasPrice :: u64
  j_gasLimit :: u64
  j_data :: string
  j_signature :: string
  j_chainID :: string
  j_version :: u32

record multiversx_env =
  ConvertBits :: "bytes \<Rightarrow> nat \<Rightarrow> nat \<Rightarrow> bool \<Rightarrow> bytes option"
  bech32_Encode :: "string \<Rightarrow> bytes \<Rightarrow> string option"
  bech32_Decode :: "string \<Rightarrow> (string \<times> bytes) option"
  base64_Encode :: "bytes \<Rightarrow> string"
  json_Marshal :: "nativeTx \<Rightarrow> bytes option"
  json_Unmarshal :: "bytes \<Rightarrow> nativeTx option"
  Sum256 :: "bytes \<Rightarrow> bytes"
  SignED25519 :: "bytes \<Rightarrow> bytes \<Rightarrow> bytes option"

datatype multiversx_error =
  Panic | InvalidIngredient | InvalidAmount | InvalidTxType | MarshalFailed | NoSigHash | HexInvalid
| SignFailed | NoUnsigned | UnmarshalFailed | DerUnsupported | InvalidNonce | InvalidGasPrice
| InvalidGasLimit | InvalidVersion | InvalidRecipient | InvalidSender

section \<open>Addresses\<close>

definition PublicKey2Address :: "multiversx_env \<Rightarrow> bytes \<Rightarrow> string" where
  "PublicKey2Address E publicKey =
     (case ConvertBits E publicKey 8 5 True of
        None \<Rightarrow> []
      | Some conv \<Rightarrow> (case bech32_Encode E ''erd'' conv of None \<Rightarrow> [] | Some a \<Rightarrow> a))"

definition validChars :: string where "validChars = ''023456789abcdefghjklmnpqrstuvwxyz''"

definition ValidAddress :: "string \<Rightarrow> bool" where
  "ValidAddress address =
     (if address = MagicContactAddressForNative then True
      else if length address \<noteq> 62 \<or> take 4 address \<noteq> ''erd1'' then False
      else list_all (\<lambda>c. c \<in> set validChars) (drop 4 address))"

definition addressByteLen :: nat where "addressByteLen = 32"
definition addressHRP :: string where "addressHRP = ''erd''"

definition decodeAddress :: "multiversx_env \<Rightarrow> string \<Rightarrow> bytes option" where
  "decodeAddress E address =
     (case bech32_Decode E address of
        None \<Rightarrow> None
      | Some (hrp, words) \<Rightarrow>
          if hrp \<noteq> addressHRP then None
          else (case ConvertBits E words 5 8 False of
            None \<Rightarrow> None
          | Some raw \<Rightarrow> if length raw \<noteq> addressByteLen then None else Some raw))"

section \<open>The token payload\<close>

definition PackPayloadForESDT :: "string \<Rightarrow> string \<Rightarrow> string option" where
  "PackPayloadForESDT assetsID amount =
     (case big_SetString amount of
        None \<Rightarrow> None
      | Some amountBig \<Rightarrow>
          let h = Sprintf_x amountBig;
              amountHex = (if length h mod 2 \<noteq> 0 then CHR ''0'' # h else h)
          in Some (''ESDTTransfer'' @ ''@'' @ hex_encode (bytes_of_string assetsID) @ ''@'' @ amountHex))"

section \<open>The hashed message\<close>

record protoTx =
  p_Nonce :: u64
  p_Value :: "int option"
  p_RcvAddr :: bytes
  p_SndAddr :: bytes
  p_GasPrice :: u64
  p_GasLimit :: u64
  p_Data :: bytes
  p_ChainID :: bytes
  p_Version :: u32
  p_Signature :: bytes

definition appendVarint :: "bytes \<Rightarrow> u64 \<Rightarrow> bytes" where
  "appendVarint b v = b @ uleb v"

text \<open>\<open>big.Int.Bytes\<close> drops the sign.\<close>

definition marshalValue :: "int option \<Rightarrow> bytes" where
  "marshalValue a =
     (case a of
        None \<Rightarrow> [0]
      | Some n \<Rightarrow>
          let raw = big_Bytes (nat (abs n))
          in if length raw = 0 then [0, 0] else (if n < 0 then 1 else 0) # raw)"

definition varint_part :: "u8 \<Rightarrow> u64 \<Rightarrow> bytes" where
  "varint_part tag v = (if v \<noteq> 0 then appendVarint [tag] v else [])"

definition bytes_part :: "u8 \<Rightarrow> bytes \<Rightarrow> bytes" where
  "bytes_part tag d = (if length d > 0 then appendVarint [tag] (word_of_nat (length d)) @ d else [])"

definition Marshal :: "protoTx \<Rightarrow> bytes" where
  "Marshal t =
     varint_part 0x08 (p_Nonce t) @
     (let v = marshalValue (p_Value t) in appendVarint [0x12] (word_of_nat (length v)) @ v) @
     bytes_part 0x1a (p_RcvAddr t) @ bytes_part 0x2a (p_SndAddr t) @
     varint_part 0x38 (p_GasPrice t) @ varint_part 0x40 (p_GasLimit t) @
     bytes_part 0x4a (p_Data t) @ bytes_part 0x52 (p_ChainID t) @
     varint_part 0x58 (ucast (p_Version t)) @ bytes_part 0x62 (p_Signature t)"

definition parse_u64 :: "multiversx_error \<Rightarrow> string \<Rightarrow> multiversx_error + u64" where
  "parse_u64 e s = (case ParseUint 64 s of (n, None) \<Rightarrow> Inr (word_of_nat n) | (_, Some _) \<Rightarrow> Inl e)"

text \<open>What is paid: a value, or a payload for the token of the contract.\<close>

definition value_and_payload :: "Ingredient \<Rightarrow> multiversx_error + string \<times> string" where
  "value_and_payload i =
     (if ContractAddress i = MagicContactAddressForNative then Inr (Amount i, [])
      else map_sum id (\<lambda>payload. (''0'', payload)) (orErr InvalidAmount (PackPayloadForESDT (ContractAddress i) (Amount i))))"

definition computeTxHash :: "multiversx_env \<Rightarrow> TxBuilder \<Rightarrow> string \<Rightarrow> multiversx_error + string" where
  "computeTxHash E tx signature =
     andThen (orErr Panic (TheIngredient tx)) (\<lambda>i.
     andThen (parse_u64 InvalidNonce (Nonce i)) (\<lambda>nonce.
     andThen (orErr Panic (Network i)) (\<lambda>net.
     andThen (parse_u64 InvalidGasPrice (GasPrice net)) (\<lambda>gasPrice.
     andThen (parse_u64 InvalidGasLimit (GasLimit net)) (\<lambda>gasLimit.
     andThen (parse_u64 InvalidVersion (Version net)) (\<lambda>version.
     andThen (orErr InvalidRecipient (decodeAddress E (Recipient i))) (\<lambda>receiverBytes.
     andThen (orErr InvalidSender (decodeAddress E (Sender i))) (\<lambda>senderBytes.
     andThen (orErr HexInvalid (hex_decode signature)) (\<lambda>signatureBytes.
     andThen (value_and_payload i) (\<lambda>(amount, payload).
     andThen (orErr InvalidAmount (big_SetString amount)) (\<lambda>valueBI.
       Inr (hex_encode (Sum256 E (Marshal
         \<lparr>p_Nonce = nonce, p_Value = Some valueBI, p_RcvAddr = receiverBytes, p_SndAddr = senderBytes,
          p_GasPrice = gasPrice, p_GasLimit = gasLimit, p_Data = bytes_of_string payload,
          p_ChainID = bytes_of_string (ChainID net), p_Version = ucast version,
          p_Signature = signatureBytes\<rparr>))))))))))))))"

section \<open>The builder\<close>

definition NewTxBuilder :: "Ingredient option \<Rightarrow> TxBuilder" where
  "NewTxBuilder ti = \<lparr>TheIngredient = ti, unsignedHex = [], sigHash = [], txHash = []\<rparr>"

definition alphanum :: "string \<Rightarrow> bool" where
  "alphanum s \<longleftrightarrow> s \<noteq> [] \<and> list_all (\<lambda>c. 48 \<le> char_nat c \<and> char_nat c \<le> 57 \<or>
     65 \<le> char_nat c \<and> char_nat c \<le> 90 \<or> 97 \<le> char_nat c \<and> char_nat c \<le> 122) s"

definition valid_ingredient :: "Ingredient \<Rightarrow> bool" where
  "valid_ingredient i \<longleftrightarrow>
     TxType i \<in> set TxTypes \<and> ContractAddress i \<noteq> [] \<and> ValidAddress (Sender i) \<and>
     ValidAddress (Recipient i) \<and> valid_bigint_gt0 (Amount i) \<and> valid_bigint_gte0 (Nonce i) \<and>
     (case Network i of
        None \<Rightarrow> False
      | Some net \<Rightarrow> valid_u64_gt0 (GasPrice net) \<and> valid_u64_gt0 (GasLimit net) \<and>
          alphanum (ChainID net) \<and> valid_u64 (Version net))"

text \<open>The value of \<open>strconv.ParseUint\<close> with its error dropped.\<close>

definition parsed_u64 :: "string \<Rightarrow> u64" where
  "parsed_u64 s = word_of_nat (fst (ParseUint 64 s))"

definition build_tx :: "multiversx_env \<Rightarrow> Ingredient \<Rightarrow> NetWorkConfig \<Rightarrow> multiversx_error + nativeTx" where
  "build_tx E i net =
     andThen (if TxType i = ''0'' then value_and_payload i else Inl InvalidTxType) (\<lambda>(v, payload).
       Inr \<lparr>j_nonce = parsed_u64 (Nonce i), j_value = v, j_receiver = Recipient i, j_sender = Sender i,
         j_gasPrice = parsed_u64 (GasPrice net), j_gasLimit = parsed_u64 (GasLimit net),
         j_data = base64_Encode E (bytes_of_string payload), j_signature = [], j_chainID = ChainID net,
         j_version = ucast (parsed_u64 (Version net))\<rparr>)"

definition Build :: "multiversx_env \<Rightarrow> TxBuilder \<Rightarrow> TxBuilder \<times> (multiversx_error + unit)" where
  "Build E tx0 =
     (let tx = tx0\<lparr>sigHash := [], unsignedHex := [], txHash := []\<rparr>
      in case TheIngredient tx of
           None \<Rightarrow> (tx, Inl InvalidIngredient)
         | Some i \<Rightarrow>
             if \<not> valid_ingredient i then (tx, Inl InvalidIngredient)
             else (case andThen (orErr Panic (Network i)) (\<lambda>net.
                          andThen (build_tx E i net) (\<lambda>ntx. orErr MarshalFailed (json_Marshal E ntx))) of
               Inl e \<Rightarrow> (tx, Inl e)
             | Inr ntxBytes \<Rightarrow>
                 (tx\<lparr>unsignedHex := hex_encode ntxBytes, sigHash := sigHash tx @ [hex_encode ntxBytes]\<rparr>,
                  Inr ())))"

definition Sign :: "multiversx_env \<Rightarrow> TxBuilder \<Rightarrow> bytes \<Rightarrow> multiversx_error + string" where
  "Sign E tx privateKey =
     (if length (sigHash tx) \<noteq> 1 then Inl NoSigHash
      else
        andThen (orErr HexInvalid (hex_decode (sigHash tx ! 0))) (\<lambda>signingMessage.
        andThen (orErr SignFailed (SignED25519 E privateKey signingMessage)) (\<lambda>signature.
          Inr (hex_encode signature))))"

definition ConcatSignature ::
  "multiversx_env \<Rightarrow> TxBuilder \<Rightarrow> string \<Rightarrow> bool \<Rightarrow> TxBuilder \<times> (multiversx_error + string)"
where
  "ConcatSignature E tx signature isDerFormat =
     (case
        andThen (require (unsignedHex tx \<noteq> []) NoUnsigned) (\<lambda>_.
        andThen (orErr HexInvalid (hex_decode (unsignedHex tx))) (\<lambda>ntxBytes.
        andThen (orErr UnmarshalFailed (json_Unmarshal E ntxBytes)) (\<lambda>ntx.
        andThen (require (\<not> isDerFormat) DerUnsupported) (\<lambda>_.
          orErr MarshalFailed (json_Marshal E (ntx\<lparr>j_signature := signature\<rparr>)))))) of
        Inl e \<Rightarrow> (tx, Inl e)
      | Inr ntxBytes \<Rightarrow>
          (case computeTxHash E tx signature of
             Inl e \<Rightarrow> (if e = Panic then tx else tx\<lparr>txHash := []\<rparr>, Inl e)
           | Inr h \<Rightarrow> (tx\<lparr>txHash := h\<rparr>, Inr (hex_encode ntxBytes))))"

definition GetTxHash :: "TxBuilder \<Rightarrow> string" where "GetTxHash tx = txHash tx"
definition GetSigHash :: "TxBuilder \<Rightarrow> string list" where "GetSigHash tx = sigHash tx"
definition GetUnsignedHex :: "TxBuilder \<Rightarrow> string" where "GetUnsignedHex tx = unsignedHex tx"
definition SetSigHash :: "string list \<Rightarrow> TxBuilder \<Rightarrow> TxBuilder" where
  "SetSigHash s tx = tx\<lparr>sigHash := s\<rparr>"
definition SetUnsignedHex :: "string \<Rightarrow> TxBuilder \<Rightarrow> TxBuilder" where
  "SetUnsignedHex s tx = tx\<lparr>unsignedHex := s\<rparr>"

section \<open>The message is a protobuf message\<close>

text \<open>The fields of a transaction by their numbers in the protocol.\<close>

definition tx_fields :: "protoTx \<Rightarrow> pb_field list" where
  "tx_fields t =
     [(1, PbVarint (p_Nonce t)), (2, PbBytes (marshalValue (p_Value t))), (3, PbBytes (p_RcvAddr t)),
      (5, PbBytes (p_SndAddr t)), (7, PbVarint (p_GasPrice t)), (8, PbVarint (p_GasLimit t)),
      (9, PbBytes (p_Data t)), (10, PbBytes (p_ChainID t)), (11, PbVarint (ucast (p_Version t))),
      (12, PbBytes (p_Signature t))]"

text \<open>The tag bytes the code writes out are the tags of the fields.\<close>

lemma tag_bytes:
  "pbTag 1 0 = [0x08]" "pbTag 2 2 = [0x12]" "pbTag 3 2 = [0x1a]" "pbTag 5 2 = [0x2a]" "pbTag 7 0 = [0x38]"
  "pbTag 8 0 = [0x40]" "pbTag 9 2 = [0x4a]" "pbTag 10 2 = [0x52]" "pbTag 11 0 = [0x58]" "pbTag 12 2 = [0x62]"
  by (simp_all add: pbTag_def pbUvarint_def uleb_small)

lemma marshalValue_not_Nil [simp]: "marshalValue a \<noteq> []"
  by (simp add: marshalValue_def Let_def split: option.split)

lemma Marshal_fields: "Marshal t = concat (map pb_write (tx_fields t))"
  by (simp add: Marshal_def tx_fields_def varint_part_def bytes_part_def appendVarint_def pbVarintField_def
      pbBytesField_def pbUvarint_def tag_bytes Let_def del: One_nat_def)

text \<open>A sign byte and the magnitude are read back.\<close>

definition read_value :: "bytes \<Rightarrow> int" where
  "read_value b = (if hd b = 1 then - int (be_val (tl b)) else int (be_val (tl b)))"

lemma read_marshalValue: "read_value (marshalValue (Some n)) = n"
proof (cases "n = 0")
  case False
  have "be_val (big_Bytes (nat \<bar>n\<bar>)) = nat \<bar>n\<bar>" by (rule be_val_big_Bytes)
  moreover have "big_Bytes (nat \<bar>n\<bar>) \<noteq> []" using False calculation by (metis be_val_Nil nat_0_iff abs_le_zero_iff)
  ultimately show ?thesis by (auto simp: marshalValue_def read_value_def Let_def)
qed (simp add: marshalValue_def read_value_def big_Bytes_def big_Bytes_le.simps)

lemma read_Marshal:
  assumes "slice (Marshal t)"
  shows "pb_read (Marshal t) = Some (filter pb_present (tx_fields t))"
  using assms unfolding Marshal_fields by (intro pb_read_slice) (simp_all add: tx_fields_def)

section \<open>Reading the token payload\<close>

lemma at_not_hex: "CHR ''@'' \<notin> set (hex_encode bs)"
proof
  assume "CHR ''@'' \<in> set (hex_encode bs)"
  from set_hex_lower [OF this] show False by (simp add: char_nat_def)
qed

text \<open>
  The payload of a token transfer splits at its separators into the call, the token's identifier
  in hexadecimal, and the amount's big-endian bytes in hexadecimal, two digits for each.
\<close>

theorem esdt_payload_reads:
  assumes "PackPayloadForESDT token amount = Some payload" "big_SetString amount = Some n" "0 < n"
  shows "strings_Split payload CHR ''@'' =
    [''ESDTTransfer'', hex_encode (bytes_of_string token), hex_encode (big_Bytes (nat n))]"
proof -
  have "payload = strings_Join
    [''ESDTTransfer'', hex_encode (bytes_of_string token), hex_encode (big_Bytes (nat n))] ''@''"
    using assms padded_hex_digits [of "nat n"]
    by (auto simp: PackPayloadForESDT_def Sprintf_x_def Let_def split: if_splits)
  moreover have "strings_Split (strings_Join
      [''ESDTTransfer'', hex_encode (bytes_of_string token), hex_encode (big_Bytes (nat n))] ''@'') CHR ''@'' =
    [''ESDTTransfer'', hex_encode (bytes_of_string token), hex_encode (big_Bytes (nat n))]"
    by (rule split_join) (auto simp: at_not_hex)
  ultimately show ?thesis by simp
qed

theorem esdt_payload_reads_witness:
  "strings_Split ''ESDTTransfer@54@0190'' CHR ''@'' =
    [''ESDTTransfer'', hex_encode (bytes_of_string ''T''), hex_encode (big_Bytes (nat 400))]"
  by (rule esdt_payload_reads [where amount = "''400''"])
     (simp_all add: PackPayloadForESDT_def big_SetString_def digit_of_def char_nat_def Sprintf_x_def Let_def
       bytes_of_string_def hex_digits.simps hexDigit_def char_of_eq_iff take_bit_eq_mod)

section \<open>The identifier belongs to the signed JSON\<close>

lemma multiversx_BuildD:
  assumes "Build E tx = (tx', Inr ())"
  obtains i net ntx b where "TheIngredient tx = Some i" "Network i = Some net" "valid_ingredient i"
    "build_tx E i net = Inr ntx" "json_Marshal E ntx = Some b"
    "tx' = \<lparr>TheIngredient = Some i, unsignedHex = hex_encode b, sigHash = [hex_encode b], txHash = []\<rparr>"
  using assms
  by (cases tx) (auto simp: Build_def Let_def andThen_eq_Inr split: option.splits if_splits sum.splits)

lemma ConcatSignatureD:
  assumes "ConcatSignature E tx signature False = (tx', Inr out)"
  obtains jb ntx b where "hex_decode (unsignedHex tx) = Some jb" "json_Unmarshal E jb = Some ntx"
    "json_Marshal E (ntx\<lparr>j_signature := signature\<rparr>) = Some b" "out = hex_encode b"
    "computeTxHash E tx signature = Inr (txHash tx')"
  using assms
  by (auto simp: ConcatSignature_def andThen_eq_Inr require_def
           split: option.splits if_splits sum.splits)

lemma computeTxHashD:
  assumes "computeTxHash E tx signature = Inr h" "TheIngredient tx = Some i" "Network i = Some net"
  obtains m amount payload where "h = hex_encode (Sum256 E (Marshal m))" "value_and_payload i = Inr (amount, payload)"
    "ParseUint 64 (Nonce i) = (unat (p_Nonce m), None)" "p_Value m = big_SetString amount" "p_Value m \<noteq> None"
    "decodeAddress E (Recipient i) = Some (p_RcvAddr m)" "decodeAddress E (Sender i) = Some (p_SndAddr m)"
    "p_GasPrice m = parsed_u64 (GasPrice net)" "p_GasLimit m = parsed_u64 (GasLimit net)"
    "p_Data m = bytes_of_string payload" "p_ChainID m = bytes_of_string (ChainID net)"
    "p_Version m = ucast (parsed_u64 (Version net))" "hex_decode signature = Some (p_Signature m)"
proof -
  have u: "parse_u64 e s = Inr v \<longleftrightarrow> ParseUint 64 s = (unat v, None)" for e s v
  proof
    assume "parse_u64 e s = Inr v"
    then obtain n where n: "ParseUint 64 s = (n, None)" "v = word_of_nat n"
      by (auto simp: parse_u64_def split: prod.splits option.splits)
    have "n < 2 ^ 64" using ParseUint_bound [of 64 s] n(1) by simp
    then have "unat v = n" using n(2) by (simp add: unat_of_nat)
    then show "ParseUint 64 s = (unat v, None)" using n(1) by simp
  qed (simp add: parse_u64_def)
  have p: "parse_u64 e s = Inr v \<Longrightarrow> v = parsed_u64 s" for e s v by (simp add: u parsed_u64_def)
  from assms obtain nonce gp gl v r sd sg amount payload n where
    "parse_u64 InvalidNonce (Nonce i) = Inr nonce" "parse_u64 InvalidGasPrice (GasPrice net) = Inr gp"
    "parse_u64 InvalidGasLimit (GasLimit net) = Inr gl" "parse_u64 InvalidVersion (Version net) = Inr v"
    "decodeAddress E (Recipient i) = Some r" "decodeAddress E (Sender i) = Some sd" "hex_decode signature = Some sg"
    "value_and_payload i = Inr (amount, payload)" "big_SetString amount = Some n"
    "h = hex_encode (Sum256 E (Marshal
         \<lparr>p_Nonce = nonce, p_Value = Some n, p_RcvAddr = r, p_SndAddr = sd,
          p_GasPrice = gp, p_GasLimit = gl, p_Data = bytes_of_string payload,
          p_ChainID = bytes_of_string (ChainID net), p_Version = ucast v,
          p_Signature = sg\<rparr>))"
    by (auto simp: computeTxHash_def andThen_eq_Inr)
  then show ?thesis using u p by (intro that) auto
qed


section \<open>A concrete transfer\<close>

definition sample_address :: string where "sample_address = ''erd1'' @ replicate 58 (CHR ''q'')"

definition sample_ingredient :: Ingredient where
  "sample_ingredient =
     \<lparr>TxType = ''0'', ContractAddress = MagicContactAddressForNative, Sender = sample_address,
      Recipient = sample_address, Amount = ''7'', Nonce = ''5'',
      Network = Some \<lparr>GasPrice = ''9'', GasLimit = ''9'', ChainID = ''D'', Version = ''1''\<rparr>\<rparr>"

definition sample_ntx :: nativeTx where
  "sample_ntx =
     \<lparr>j_nonce = 5, j_value = ''7'', j_receiver = sample_address, j_sender = sample_address,
      j_gasPrice = 9, j_gasLimit = 9, j_data = [], j_signature = [], j_chainID = ''D'', j_version = 1\<rparr>"

definition sample_env :: multiversx_env where
  "sample_env =
     \<lparr>ConvertBits = \<lambda>b _ _ _. Some (replicate 32 3), bech32_Encode = \<lambda>h b. Some sample_address,
      bech32_Decode = \<lambda>a. Some (''erd'', []), base64_Encode = \<lambda>b. [],
      json_Marshal = \<lambda>n. if n = sample_ntx then Some [1]
        else if n = sample_ntx\<lparr>j_signature := ''ff''\<rparr> then Some [2] else None,
      json_Unmarshal = \<lambda>b. if b = [1] then Some sample_ntx
        else if b = [2] then Some (sample_ntx\<lparr>j_signature := ''ff''\<rparr>) else None,
      Sum256 = id, SignED25519 = \<lambda>_ _. Some [255]\<rparr>"

lemma multiversx_sample_env_simps [simp]:
  "json_Marshal sample_env n = (if n = sample_ntx then Some [1]
     else if n = sample_ntx\<lparr>j_signature := ''ff''\<rparr> then Some [2] else None)"
  "json_Unmarshal sample_env b = (if b = [1] then Some sample_ntx
     else if b = [2] then Some (sample_ntx\<lparr>j_signature := ''ff''\<rparr>) else None)"
  "base64_Encode sample_env b = []" "decodeAddress sample_env a = Some (replicate 32 3)"
  by (simp_all add: sample_env_def decodeAddress_def addressHRP_def addressByteLen_def)

lemma sample_address_valid [simp]: "ValidAddress sample_address"
  by (simp add: ValidAddress_def sample_address_def list_all_iff) (simp add: validChars_def)

lemma multiversx_sample_numbers [simp]:
  "ParseUint 64 ''9'' = (9, None)" "ParseUint 64 ''5'' = (5, None)" "ParseUint 64 ''1'' = (1, None)"
  "big_SetString ''7'' = Some 7" "big_SetString ''5'' = Some 5"
  by (simp_all add: ParseUint_def big_SetString_def digit_of_def char_nat_def)

lemma sample_ingredient_valid [simp]: "valid_ingredient sample_ingredient"
  by (simp add: valid_ingredient_def sample_ingredient_def TxTypes_def valid_bigint_gt0_def valid_bigint_gte0_def
      valid_u64_def valid_u64_gt0_def alphanum_def char_nat_def MagicContactAddressForNative_def)

lemma multiversx_sample_build:
  "Build sample_env (NewTxBuilder (Some sample_ingredient)) =
     (\<lparr>TheIngredient = Some sample_ingredient, unsignedHex = hex_encode [1], sigHash = [hex_encode [1]],
       txHash = []\<rparr>, Inr ())"
proof -
  have "build_tx sample_env sample_ingredient \<lparr>GasPrice = ''9'', GasLimit = ''9'', ChainID = ''D'', Version = ''1''\<rparr> =
      Inr sample_ntx"
    by (simp add: build_tx_def sample_ingredient_def value_and_payload_def parsed_u64_def sample_ntx_def)
  moreover have "Network sample_ingredient = Some \<lparr>GasPrice = ''9'', GasLimit = ''9'', ChainID = ''D'', Version = ''1''\<rparr>"
    by (simp add: sample_ingredient_def)
  ultimately show ?thesis by (simp add: Build_def NewTxBuilder_def)
qed

definition sample_message :: protoTx where
  "sample_message =
     \<lparr>p_Nonce = 5, p_Value = Some 7, p_RcvAddr = replicate 32 3, p_SndAddr = replicate 32 3, p_GasPrice = 9,
      p_GasLimit = 9, p_Data = [], p_ChainID = bytes_of_string ''D'', p_Version = 1, p_Signature = [255]\<rparr>"

lemma multiversx_sample_hash:
  "computeTxHash sample_env
     \<lparr>TheIngredient = Some sample_ingredient, unsignedHex = hex_encode [1], sigHash = [hex_encode [1]], txHash = []\<rparr> ''ff'' =
   Inr (hex_encode (Marshal sample_message))"
  by (simp add: computeTxHash_def sample_ingredient_def parse_u64_def value_and_payload_def sample_message_def
      fromHexChar_def char_nat_def Let_def bytes_of_string_def)
     (simp add: sample_env_def)

lemma multiversx_sample_concat:
  "ConcatSignature sample_env
     \<lparr>TheIngredient = Some sample_ingredient, unsignedHex = hex_encode [1], sigHash = [hex_encode [1]], txHash = []\<rparr>
     ''ff'' False =
   (\<lparr>TheIngredient = Some sample_ingredient, unsignedHex = hex_encode [1], sigHash = [hex_encode [1]],
      txHash = hex_encode (Marshal sample_message)\<rparr>, Inr (hex_encode [2]))"
proof -
  have "sample_ntx\<lparr>j_signature := ''ff''\<rparr> \<noteq> sample_ntx" by (simp add: sample_ntx_def)
  then show ?thesis using multiversx_sample_hash by (simp add: ConcatSignature_def require_def)
qed


end
