(* ===== verification/Algorand.thy ===== *)
theory Algorand
  imports Base32 Validator
begin

text \<open>
  \<open>signing/algorand\<close>: addresses with their checksum, and the builder of payments and asset transfers.
  The MessagePack and JSON encoders, base64, SHA-512/256 and the signer are the fields of a record of
  functions; base32 is the model of the standard library's. An array is a list of its length. The
  receiver of a method is not nil; a nil ingredient or a missing hash panics, which reads as the
  error \<open>Panic\<close>.
\<close>

section \<open>Types\<close>

record header =
  h_Sender :: bytes
  h_Fee :: u64
  h_FirstValid :: u64
  h_LastValid :: u64
  h_Note :: bytes
  h_GenesisID :: string
  h_GenesisHash :: bytes
  h_Group :: bytes
  h_Lease :: bytes
  h_RekeyTo :: bytes

record paymentTxnFields =
  y_Receiver :: bytes
  y_Amount :: u64
  y_CloseRemainderTo :: bytes

record assetTransferTxnFields =
  a_XferAsset :: u64
  a_AssetAmount :: u64
  a_AssetSender :: bytes
  a_AssetReceiver :: bytes
  a_AssetCloseTo :: bytes

record nativeTx =
  x_Type :: string
  x_header :: header
  x_payment :: paymentTxnFields
  x_asset :: assetTransferTxnFields

record signedNativeTx =
  s_Sig :: bytes
  s_Txn :: nativeTx
  s_AuthAddr :: bytes

record Ingredient =
  TxType :: string
  ContractAddress :: string
  Sender :: string
  Recipient :: string
  Amount :: string
  Fee :: string
  GenesisID :: string
  GenesisHash :: string
  FirstValid :: string

record TxBuilder =
  TheIngredient :: "Ingredient option"
  unsignedHex :: string
  sigHash :: "string list"
  txHash :: string

record algorand_env =
  Sum512_256 :: "bytes \<Rightarrow> bytes"
  base64_Decode :: "string \<Rightarrow> bytes option"
  msgpack_Encode :: "nativeTx \<Rightarrow> bytes"
  msgpack_EncodeSigned :: "signedNativeTx \<Rightarrow> bytes"
  json_Marshal :: "nativeTx \<Rightarrow> bytes option"
  json_Unmarshal :: "bytes \<Rightarrow> nativeTx option"
  SignED25519 :: "bytes \<Rightarrow> bytes \<Rightarrow> bytes option"

datatype algorand_error =
  Panic | InvalidKeyLength | BadBase32 | BadAddressLength | WrongChecksum | EmptyContract | InvalidSender
| InvalidFee | InvalidGenesisHash | InvalidFirstValid | InvalidRecipient | InvalidAmount | InvalidAsset
| InvalidTxType | MarshalFailed | NoSigHash | HexInvalid | SignFailed | NoUnsigned | UnmarshalFailed
| DerUnsupported

section \<open>Addresses\<close>

definition checksumLenBytes :: nat where "checksumLenBytes = 4"
definition hashLenBytes :: nat where "hashLenBytes = 32"

definition checksum :: "algorand_env \<Rightarrow> bytes \<Rightarrow> bytes" where
  "checksum E a = drop (hashLenBytes - checksumLenBytes) (Sum512_256 E a)"

definition Address_String :: "algorand_env \<Rightarrow> bytes \<Rightarrow> string" where
  "Address_String E a = base32_encode encodeStdAlphabet (a @ checksum E a)"

definition PublicKey2Address :: "algorand_env \<Rightarrow> bytes \<Rightarrow> algorand_error + string" where
  "PublicKey2Address E publicKey =
     (if length publicKey \<noteq> hashLenBytes then Inl InvalidKeyLength
      else Inr (base32_encode encodeStdAlphabet (publicKey @ checksum E publicKey)))"

definition decodeAddress :: "algorand_env \<Rightarrow> string \<Rightarrow> algorand_error + bytes" where
  "decodeAddress E address =
     (case base32_decode encodeStdAlphabet address of
        None \<Rightarrow> Inl BadBase32
      | Some decoded \<Rightarrow>
          if length decoded \<noteq> hashLenBytes + checksumLenBytes then Inl BadAddressLength
          else
            let addressBytes = take hashLenBytes decoded;
                checksumBytes = drop hashLenBytes decoded
            in if checksum E addressBytes \<noteq> checksumBytes then Inl WrongChecksum else Inr addressBytes)"

definition ValidAddress :: "algorand_env \<Rightarrow> string \<Rightarrow> bool" where
  "ValidAddress E address \<longleftrightarrow> isOk (decodeAddress E address)"

section \<open>The builder\<close>

definition NewTxBuilder :: "Ingredient option \<Rightarrow> TxBuilder" where
  "NewTxBuilder ti = \<lparr>TheIngredient = ti, unsignedHex = [], sigHash = [], txHash = []\<rparr>"

definition zeros :: "nat \<Rightarrow> bytes" where "zeros n = replicate n 0"

definition parse_u64 :: "algorand_error \<Rightarrow> string \<Rightarrow> algorand_error + u64" where
  "parse_u64 e s = (case ParseUint 64 s of (n, None) \<Rightarrow> Inr (word_of_nat n) | (_, Some _) \<Rightarrow> Inl e)"

definition no_payment :: paymentTxnFields where
  "no_payment = \<lparr>y_Receiver = zeros 32, y_Amount = 0, y_CloseRemainderTo = zeros 32\<rparr>"

definition no_asset :: assetTransferTxnFields where
  "no_asset = \<lparr>a_XferAsset = 0, a_AssetAmount = 0, a_AssetSender = zeros 32, a_AssetReceiver = zeros 32,
     a_AssetCloseTo = zeros 32\<rparr>"

definition build_header :: "algorand_env \<Rightarrow> Ingredient \<Rightarrow> algorand_error + header" where
  "build_header E i =
     andThen (require (ContractAddress i \<noteq> []) EmptyContract) (\<lambda>_.
     andThen (mapErr (\<lambda>_. InvalidSender) (decodeAddress E (Sender i))) (\<lambda>senderBytes.
     andThen (parse_u64 InvalidFee (Fee i)) (\<lambda>fee.
     andThen (orErr InvalidGenesisHash (base64_Decode E (GenesisHash i))) (\<lambda>genesisHashTmp.
     andThen (parse_u64 InvalidFirstValid (FirstValid i)) (\<lambda>firstValid.
       Inr \<lparr>h_Sender = senderBytes, h_Fee = fee, h_FirstValid = firstValid, h_LastValid = firstValid + 1000,
         h_Note = [], h_GenesisID = GenesisID i, h_GenesisHash = copy_array hashLenBytes genesisHashTmp,
         h_Group = zeros 32, h_Lease = zeros 32, h_RekeyTo = zeros 32\<rparr>)))))"

definition build_tx :: "algorand_env \<Rightarrow> Ingredient \<Rightarrow> algorand_error + nativeTx" where
  "build_tx E i =
     andThen (build_header E i) (\<lambda>h.
       if TxType i = ''0'' then
         andThen (mapErr (\<lambda>_. InvalidRecipient) (decodeAddress E (Recipient i))) (\<lambda>recipientBytes.
         andThen (parse_u64 InvalidAmount (Amount i)) (\<lambda>amount.
           if ContractAddress i = MagicContactAddressForNative then
             Inr \<lparr>x_Type = ''pay'', x_header = h,
               x_payment = no_payment\<lparr>y_Receiver := recipientBytes, y_Amount := amount\<rparr>, x_asset = no_asset\<rparr>
           else
             andThen (parse_u64 InvalidAsset (ContractAddress i)) (\<lambda>assetId.
               Inr \<lparr>x_Type = ''axfer'', x_header = h, x_payment = no_payment,
                 x_asset = no_asset\<lparr>a_XferAsset := assetId, a_AssetReceiver := recipientBytes,
                   a_AssetAmount := amount\<rparr>\<rparr>)))
       else if TxType i = ''4'' then
         andThen (parse_u64 InvalidAsset (ContractAddress i)) (\<lambda>assetId.
           Inr \<lparr>x_Type = ''axfer'', x_header = h, x_payment = no_payment,
             x_asset = no_asset\<lparr>a_XferAsset := assetId, a_AssetReceiver := h_Sender h, a_AssetAmount := 0\<rparr>\<rparr>)
       else Inl InvalidTxType)"

definition signed_bytes :: "algorand_env \<Rightarrow> nativeTx \<Rightarrow> bytes" where
  "signed_bytes E ntx = bytes_of_string ''TX'' @ msgpack_Encode E ntx"

definition Build :: "algorand_env \<Rightarrow> TxBuilder \<Rightarrow> TxBuilder \<times> (algorand_error + unit)" where
  "Build E tx0 =
     (let tx = tx0\<lparr>sigHash := [], unsignedHex := [], txHash := []\<rparr>
      in case andThen (orErr Panic (TheIngredient tx)) (\<lambda>i.
                andThen (build_tx E i) (\<lambda>ntx.
                andThen (orErr MarshalFailed (json_Marshal E ntx)) (\<lambda>ntxBytes. Inr (ntx, ntxBytes)))) of
           Inl e \<Rightarrow> (tx, Inl e)
         | Inr (ntx, ntxBytes) \<Rightarrow>
             (tx\<lparr>sigHash := sigHash tx @ [hex_encode (signed_bytes E ntx)], unsignedHex := hex_encode ntxBytes\<rparr>,
              Inr ()))"

definition Sign :: "algorand_env \<Rightarrow> TxBuilder \<Rightarrow> bytes \<Rightarrow> algorand_error + string" where
  "Sign E tx privateKey =
     (if length (sigHash tx) \<noteq> 1 then Inl NoSigHash
      else
        andThen (orErr HexInvalid (hex_decode (sigHash tx ! 0))) (\<lambda>h.
        andThen (orErr SignFailed (SignED25519 E privateKey h)) (\<lambda>signature.
          Inr (hex_encode signature))))"

definition ConcatSignature ::
  "algorand_env \<Rightarrow> TxBuilder \<Rightarrow> string \<Rightarrow> bool \<Rightarrow> TxBuilder \<times> (algorand_error + string)"
where
  "ConcatSignature E tx signature isDerFormat =
     (case
        andThen (require (unsignedHex tx \<noteq> []) NoUnsigned) (\<lambda>_.
        andThen (orErr HexInvalid (hex_decode (unsignedHex tx))) (\<lambda>ntxBytes.
        andThen (orErr UnmarshalFailed (json_Unmarshal E ntxBytes)) (\<lambda>ntx.
        andThen (require (\<not> isDerFormat) DerUnsupported) (\<lambda>_.
        andThen (orErr HexInvalid (hex_decode signature)) (\<lambda>sigBytes.
          let signedHex = hex_encode (msgpack_EncodeSigned E
                \<lparr>s_Sig = copy_array 64 sigBytes, s_Txn = ntx, s_AuthAddr = h_Sender (x_header ntx)\<rparr>)
          in andThen (require (sigHash tx \<noteq> []) Panic) (\<lambda>_.
             andThen (orErr HexInvalid (hex_decode (sigHash tx ! 0))) (\<lambda>h.
               Inr (base32_encode encodeStdAlphabet (Sum512_256 E h), signedHex)))))))) of
        Inl e \<Rightarrow> (tx, Inl e)
      | Inr (txid, signedHex) \<Rightarrow> (tx\<lparr>txHash := txid\<rparr>, Inr signedHex))"

definition GetTxHash :: "TxBuilder \<Rightarrow> string" where "GetTxHash tx = txHash tx"
definition GetSigHash :: "TxBuilder \<Rightarrow> string list" where "GetSigHash tx = sigHash tx"
definition GetUnsignedHex :: "TxBuilder \<Rightarrow> string" where "GetUnsignedHex tx = unsignedHex tx"
definition SetSigHash :: "string list \<Rightarrow> TxBuilder \<Rightarrow> TxBuilder" where
  "SetSigHash s tx = tx\<lparr>sigHash := s\<rparr>"
definition SetUnsignedHex :: "string \<Rightarrow> TxBuilder \<Rightarrow> TxBuilder" where
  "SetUnsignedHex s tx = tx\<lparr>unsignedHex := s\<rparr>"

section \<open>Addresses read back\<close>

lemma algorand_length_checksum: "length (Sum512_256 E a) = 32 \<Longrightarrow> length (checksum E a) = 4"
  by (simp add: checksum_def hashLenBytes_def checksumLenBytes_def)

text \<open>
  The address of a public key of 32 bytes is valid and decodes to the key, and no other key has
  that address; a key of any other length has none.
\<close>

theorem algorand_address_roundtrip:
  assumes "\<And>b. length (Sum512_256 E b) = 32"
  shows "(length k = 32 \<longrightarrow> (\<exists>a. PublicKey2Address E k = Inr a \<and> ValidAddress E a \<and> decodeAddress E a = Inr k \<and>
      a = Address_String E k \<and> (\<forall>k'. PublicKey2Address E k' = Inr a \<longrightarrow> k' = k))) \<and>
    (length k \<noteq> 32 \<longrightarrow> PublicKey2Address E k = Inl InvalidKeyLength)"
proof -
  have dec: "decodeAddress E (base32_encode encodeStdAlphabet (k @ checksum E k)) = Inr k" if "length k = 32" for k
    using that algorand_length_checksum [OF assms, of k]
    by (simp add: decodeAddress_def base32_round_trip [OF std_alphabet] hashLenBytes_def checksumLenBytes_def)
  then have "k' = k" if "length k = 32" "length k' = 32"
      "base32_encode encodeStdAlphabet (k' @ checksum E k') = base32_encode encodeStdAlphabet (k @ checksum E k)" for k'
    using that by (metis sum.inject(2))
  then show ?thesis
    using dec [of k]
    by (auto simp: PublicKey2Address_def hashLenBytes_def ValidAddress_def Address_String_def isOk_def split: if_splits)
qed

definition sample_header :: header where
  "sample_header =
     \<lparr>h_Sender = replicate 32 1, h_Fee = 1000, h_FirstValid = 5, h_LastValid = 1005, h_Note = [],
      h_GenesisID = [], h_GenesisHash = replicate 32 9, h_Group = zeros 32, h_Lease = zeros 32,
      h_RekeyTo = zeros 32\<rparr>"

definition sample_ntx :: nativeTx where
  "sample_ntx =
     \<lparr>x_Type = ''pay'', x_header = sample_header,
      x_payment = no_payment\<lparr>y_Receiver := replicate 32 2, y_Amount := 7\<rparr>, x_asset = no_asset\<rparr>"

definition sample_env :: algorand_env where
  "sample_env =
     \<lparr>Sum512_256 = \<lambda>b. replicate 32 (hd (b @ [0])), base64_Decode = \<lambda>_. Some (replicate 32 9),
      msgpack_Encode = \<lambda>n. [1], msgpack_EncodeSigned = \<lambda>n. [2],
      json_Marshal = \<lambda>n. if n = sample_ntx then Some [3] else None,
      json_Unmarshal = \<lambda>b. if b = [3] then Some sample_ntx else None, SignED25519 = \<lambda>_ _. Some [4]\<rparr>"

theorem algorand_address_roundtrip_witness:
  "(length (replicate 32 (1 :: u8)) = 32 \<longrightarrow> (\<exists>a. PublicKey2Address sample_env (replicate 32 1) = Inr a \<and>
      ValidAddress sample_env a \<and> decodeAddress sample_env a = Inr (replicate 32 1) \<and>
      a = Address_String sample_env (replicate 32 1) \<and>
      (\<forall>k'. PublicKey2Address sample_env k' = Inr a \<longrightarrow> k' = replicate 32 1))) \<and>
    (length (replicate 32 (1 :: u8)) \<noteq> 32 \<longrightarrow> PublicKey2Address sample_env (replicate 32 1) = Inl InvalidKeyLength)"
  by (rule algorand_address_roundtrip) (simp add: sample_env_def)

section \<open>What is signed is what is sent\<close>

text \<open>
  What \<open>ConcatSignature\<close> returns after \<open>Build\<close> is the encoding of the very transaction the signed
  bytes encode, with the signature in its 64 bytes and the sender as authority, and the identifier is
  the base32 text of the hash of the signed bytes.
\<close>

theorem algorand_sends_what_it_signed:
  assumes json: "\<And>n b. json_Marshal E n = Some b \<Longrightarrow> json_Unmarshal E b = Some n"
    and built: "Build E tx = (tx', Inr ())"
    and completed: "ConcatSignature E tx' signature False = (tx'', Inr out)"
  shows "\<exists>i ntx sigb. TheIngredient tx = Some i \<and> build_tx E i = Inr ntx \<and>
    GetSigHash tx' = [hex_encode (signed_bytes E ntx)] \<and> hex_decode signature = Some sigb \<and>
    out = hex_encode (msgpack_EncodeSigned E
      \<lparr>s_Sig = copy_array 64 sigb, s_Txn = ntx, s_AuthAddr = h_Sender (x_header ntx)\<rparr>) \<and>
    GetTxHash tx'' = base32_encode encodeStdAlphabet (Sum512_256 E (signed_bytes E ntx))"
proof -
  obtain i ntx b where i: "TheIngredient tx = Some i" "build_tx E i = Inr ntx" "json_Marshal E ntx = Some b"
    and tx': "tx' = tx\<lparr>sigHash := [hex_encode (signed_bytes E ntx)], unsignedHex := hex_encode b, txHash := []\<rparr>"
    using built by (cases tx) (auto simp: Build_def Let_def andThen_eq_Inr split: sum.splits)
  obtain sigb where "hex_decode signature = Some sigb"
    "out = hex_encode (msgpack_EncodeSigned E
      \<lparr>s_Sig = copy_array 64 sigb, s_Txn = ntx, s_AuthAddr = h_Sender (x_header ntx)\<rparr>)"
    "txHash tx'' = base32_encode encodeStdAlphabet (Sum512_256 E (signed_bytes E ntx))"
    using completed json [OF i(3)]
    by (auto simp: ConcatSignature_def tx' andThen_eq_Inr require_def Let_def split: sum.splits if_splits)
  then show ?thesis using i by (simp add: tx' GetSigHash_def GetTxHash_def)
qed

text \<open>What is built pays the recipient exactly the amount, within a thousand rounds.\<close>

lemma parse_u64_Inr: "parse_u64 e s = Inr v \<longleftrightarrow> ParseUint 64 s = (unat v, None)"
proof
  assume "parse_u64 e s = Inr v"
  then obtain n where n: "ParseUint 64 s = (n, None)" "v = word_of_nat n"
    by (auto simp: parse_u64_def split: prod.splits option.splits)
  have "n < 2 ^ 64" using ParseUint_bound [of 64 s] n(1) by simp
  then show "ParseUint 64 s = (unat v, None)" using n by (simp add: unat_of_nat)
qed (simp add: parse_u64_def)

lemma build_tx_payment:
  assumes "build_tx E i = Inr ntx" "TxType i = ''0''" "ContractAddress i = MagicContactAddressForNative"
  shows "decodeAddress E (Sender i) = Inr (h_Sender (x_header ntx)) \<and>
    decodeAddress E (Recipient i) = Inr (y_Receiver (x_payment ntx)) \<and>
    ParseUint 64 (Amount i) = (unat (y_Amount (x_payment ntx)), None) \<and>
    ParseUint 64 (Fee i) = (unat (h_Fee (x_header ntx)), None) \<and>
    h_LastValid (x_header ntx) = h_FirstValid (x_header ntx) + 1000 \<and> x_Type ntx = ''pay'' \<and> x_asset ntx = no_asset"
  using assms by (auto simp: build_tx_def build_header_def andThen_eq_Inr require_def parse_u64_Inr split: if_splits)

definition sample_ingredient :: Ingredient where
  "sample_ingredient =
     \<lparr>TxType = ''0'', ContractAddress = MagicContactAddressForNative,
      Sender = Address_String sample_env (replicate 32 1), Recipient = Address_String sample_env (replicate 32 2),
      Amount = ''7'', Fee = ''1000'', GenesisID = [], GenesisHash = [], FirstValid = ''5''\<rparr>"

lemma sample_decode: "decodeAddress sample_env (Address_String sample_env (replicate 32 b)) = Inr (replicate 32 b)"
proof -
  have "length (Sum512_256 sample_env x) = 32" for x by (simp add: sample_env_def)
  then show ?thesis
    using algorand_length_checksum [of sample_env "replicate 32 b"]
    by (simp add: decodeAddress_def Address_String_def base32_round_trip [OF std_alphabet] hashLenBytes_def
        checksumLenBytes_def)
qed

lemma algorand_sample_build_tx: "build_tx sample_env sample_ingredient = Inr sample_ntx"
proof -
  have "ParseUint 64 ''7'' = (7, None)" "ParseUint 64 ''5'' = (5, None)" "ParseUint 64 ''1000'' = (1000, None)"
    by (simp_all add: ParseUint_def digit_of_def char_nat_def)
  moreover have "base64_Decode sample_env t = Some (replicate 32 9)" for t by (simp add: sample_env_def)
  ultimately show ?thesis
    by (simp add: build_tx_def build_header_def sample_ingredient_def sample_decode parse_u64_def require_def
        copy_array_def hashLenBytes_def zeros_def sample_ntx_def sample_header_def no_payment_def
        MagicContactAddressForNative_def)
qed

definition sample_built :: TxBuilder where
  "sample_built = \<lparr>TheIngredient = Some sample_ingredient, unsignedHex = hex_encode [3],
     sigHash = [hex_encode (bytes_of_string ''TX'' @ [1])], txHash = []\<rparr>"

lemma sample_env_simps [simp]:
  "json_Marshal sample_env n = (if n = sample_ntx then Some [3] else None)"
  "json_Unmarshal sample_env b = (if b = [3] then Some sample_ntx else None)"
  "msgpack_EncodeSigned sample_env s = [2]" "signed_bytes sample_env n = bytes_of_string ''TX'' @ [1]"
  by (simp_all add: sample_env_def signed_bytes_def)

lemma algorand_sample_build: "Build sample_env (NewTxBuilder (Some sample_ingredient)) = (sample_built, Inr ())"
  by (simp add: Build_def NewTxBuilder_def algorand_sample_build_tx sample_built_def)

lemma sample_ff: "hex_decode ''ff'' = Some [255]"
  by (simp add: fromHexChar_def char_nat_def Let_def)

lemma algorand_sample_concat:
  "ConcatSignature sample_env sample_built ''ff'' False =
     (sample_built\<lparr>txHash := base32_encode encodeStdAlphabet (Sum512_256 sample_env (bytes_of_string ''TX'' @ [1]))\<rparr>,
      Inr (hex_encode [2]))"
proof -
  have "hex_decode (unsignedHex sample_built) = Some [3]"
    "hex_decode (sigHash sample_built ! 0) = Some (bytes_of_string ''TX'' @ [1])"
    unfolding sample_built_def by (simp_all only: TxBuilder.simps nth_Cons_0 hex_decode_encode)
  moreover have "unsignedHex sample_built \<noteq> []" "sigHash sample_built \<noteq> []" by (simp_all add: sample_built_def)
  ultimately show ?thesis by (simp add: ConcatSignature_def require_def fromHexChar_def char_nat_def Let_def)
qed

theorem algorand_sends_what_it_signed_witness:
  "\<exists>i ntx sigb. TheIngredient (NewTxBuilder (Some sample_ingredient)) = Some i \<and> build_tx sample_env i = Inr ntx \<and>
    GetSigHash sample_built = [hex_encode (signed_bytes sample_env ntx)] \<and> hex_decode ''ff'' = Some sigb \<and>
    hex_encode [2] = hex_encode (msgpack_EncodeSigned sample_env
      \<lparr>s_Sig = copy_array 64 sigb, s_Txn = ntx, s_AuthAddr = h_Sender (x_header ntx)\<rparr>) \<and>
    GetTxHash (sample_built\<lparr>txHash := base32_encode encodeStdAlphabet
        (Sum512_256 sample_env (bytes_of_string ''TX'' @ [1]))\<rparr>) =
      base32_encode encodeStdAlphabet (Sum512_256 sample_env (signed_bytes sample_env ntx))"
proof (rule algorand_sends_what_it_signed [OF _ algorand_sample_build algorand_sample_concat])
  fix n b
  assume "json_Marshal sample_env n = Some b"
  then show "json_Unmarshal sample_env b = Some n" by (auto split: if_splits)
qed

end
