(* ===== verification/Near.thy ===== *)
theory Near
  imports Validator Sha256
begin

text \<open>
  \<open>signing/near\<close>: account identifiers, which a regular expression accepts, and the builder of
  transfers of the coin and of fungible tokens. Borsh, JSON, base58 and ed25519 are the fields of a
  record of functions. An array is a list of its length. The receiver of a method is not nil; a nil
  ingredient or a missing hash panics, which reads as the error \<open>Panic\<close>.
\<close>

section \<open>Regular expressions\<close>

text \<open>The expressions of the package, and the language of one; a match is decided with derivatives.\<close>

datatype rexp = Zero | One | Cls "char \<Rightarrow> bool" | Alt rexp rexp | Seq rexp rexp | Star rexp

definition conc :: "string set \<Rightarrow> string set \<Rightarrow> string set" where
  "conc A B = {u @ v | u v. u \<in> A \<and> v \<in> B}"

inductive_set star :: "string set \<Rightarrow> string set" for A where
  star_Nil: "[] \<in> star A"
| star_append: "u \<in> A \<Longrightarrow> v \<in> star A \<Longrightarrow> u @ v \<in> star A"

fun lang :: "rexp \<Rightarrow> string set" where
  "lang Zero = {}"
| "lang One = {[]}"
| "lang (Cls p) = {[c] | c. p c}"
| "lang (Alt r s) = lang r \<union> lang s"
| "lang (Seq r s) = conc (lang r) (lang s)"
| "lang (Star r) = star (lang r)"

fun nullable :: "rexp \<Rightarrow> bool" where
  "nullable Zero \<longleftrightarrow> False"
| "nullable One \<longleftrightarrow> True"
| "nullable (Cls p) \<longleftrightarrow> False"
| "nullable (Alt r s) \<longleftrightarrow> nullable r \<or> nullable s"
| "nullable (Seq r s) \<longleftrightarrow> nullable r \<and> nullable s"
| "nullable (Star r) \<longleftrightarrow> True"

fun deriv :: "char \<Rightarrow> rexp \<Rightarrow> rexp" where
  "deriv c Zero = Zero"
| "deriv c One = Zero"
| "deriv c (Cls p) = (if p c then One else Zero)"
| "deriv c (Alt r s) = Alt (deriv c r) (deriv c s)"
| "deriv c (Seq r s) =
     (if nullable r then Alt (Seq (deriv c r) s) (deriv c s) else Seq (deriv c r) s)"
| "deriv c (Star r) = Seq (deriv c r) (Star r)"

fun MatchString :: "rexp \<Rightarrow> string \<Rightarrow> bool" where
  "MatchString r [] \<longleftrightarrow> nullable r"
| "MatchString r (c # s) \<longleftrightarrow> MatchString (deriv c r) s"

definition Plus :: "rexp \<Rightarrow> rexp" where "Plus r = Seq r (Star r)"

lemma concI: "u \<in> A \<Longrightarrow> v \<in> B \<Longrightarrow> u @ v \<in> conc A B"
  by (auto simp: conc_def)

lemma concE: "w \<in> conc A B \<Longrightarrow> (\<And>u v. w = u @ v \<Longrightarrow> u \<in> A \<Longrightarrow> v \<in> B \<Longrightarrow> P) \<Longrightarrow> P"
  by (auto simp: conc_def)

lemma nullable_lang: "nullable r \<longleftrightarrow> [] \<in> lang r"
  by (induction r) (auto simp: conc_def intro: star_Nil)

lemma star_ConsE:
  assumes "c # w \<in> star A"
  obtains u v where "c # u \<in> A" "v \<in> star A" "w = u @ v"
proof -
  have "\<And>c w. x = c # w \<Longrightarrow> \<exists>u v. c # u \<in> A \<and> v \<in> star A \<and> w = u @ v" if "x \<in> star A" for x
    using that
  proof induction
    case (star_append u v)
    then show ?case by (cases u) auto
  qed simp
  then show ?thesis using assms that by blast
qed

lemma deriv_lang: "w \<in> lang (deriv c r) \<longleftrightarrow> c # w \<in> lang r"
proof (induction r arbitrary: w)
  case (Seq r s)
  have split: "c # w \<in> conc A B \<longleftrightarrow> (\<exists>u v. w = u @ v \<and> c # u \<in> A \<and> v \<in> B) \<or> ([] \<in> A \<and> c # w \<in> B)" for A B
    by (auto simp: conc_def Cons_eq_append_conv)
  show ?case using Seq by (auto simp: split nullable_lang) (auto simp: conc_def)
next
  case (Star r)
  then show ?case
    by (auto simp: conc_def elim!: star_ConsE) (metis append_Cons star_append)
qed auto

lemma MatchString_lang: "MatchString r w \<longleftrightarrow> w \<in> lang r"
  by (induction w arbitrary: r) (simp_all add: nullable_lang deriv_lang)

section \<open>Account identifiers\<close>

definition alnum_char :: "char \<Rightarrow> bool" where
  "alnum_char c \<longleftrightarrow> 97 \<le> char_nat c \<and> char_nat c \<le> 122 \<or> 48 \<le> char_nat c \<and> char_nat c \<le> 57"

definition dash_char :: "char \<Rightarrow> bool" where
  "dash_char c \<longleftrightarrow> c = CHR ''-'' \<or> c = CHR ''_''"

text \<open>\<open>^(([a-z\d]+[-_])*[a-z\d]+\.)*([a-z\d]+[-_])*[a-z\d]+$\<close>\<close>

definition part_rexp :: rexp where
  "part_rexp = Seq (Star (Seq (Plus (Cls alnum_char)) (Cls dash_char))) (Plus (Cls alnum_char))"

definition nearAccountIDRegex :: rexp where
  "nearAccountIDRegex = Seq (Star (Seq part_rexp (Cls (\<lambda>c. c = CHR ''.'')))) part_rexp"

definition ValidAddress :: "string \<Rightarrow> bool" where
  "ValidAddress address =
     (if length address < 2 \<or> length address > 64 then False
      else MatchString nearAccountIDRegex address)"

text \<open>
  The reference: letters and digits, where a separator never stands first, last or next to another.
\<close>

fun separated :: "bool \<Rightarrow> string \<Rightarrow> bool" where
  "separated after_alnum [] \<longleftrightarrow> after_alnum"
| "separated after_alnum (c # s) \<longleftrightarrow>
     (if alnum_char c then separated True s
      else (c = CHR ''-'' \<or> c = CHR ''_'' \<or> c = CHR ''.'') \<and> after_alnum \<and> separated False s)"

section \<open>The builder\<close>

record publicKeyData =
  k_type :: u8
  k_data :: bytes

datatype accessKeyPermission =
  FunctionCallPermission "int option" string "string list" | FullAccess

text \<open>The actions in the order of their numbers, from 0.\<close>

datatype nearAction =
  CreateAccount | DeployContract bytes | FunctionCall string bytes u64 int | Transfer int
| Stake int publicKeyData | AddKey publicKeyData u64 accessKeyPermission | DeleteKey publicKeyData
| DeleteAccount string

record nativeTx =
  SignerID :: string
  PublicKey :: publicKeyData
  TxNonce :: u64
  ReceiverID :: string
  TxBlockHash :: bytes
  Actions :: "nearAction list"

record Ingredient =
  TxType :: string
  ContractAddress :: string
  Sender :: string
  SenderPublicKey :: string
  Recipient :: string
  Amount :: string
  Nonce :: string
  RequiredAmount :: string
  BlockHash :: string

record TxBuilder =
  TheIngredient :: "Ingredient option"
  unsignedHex :: string
  sigHash :: "string list"
  txHash :: string

text \<open>\<open>json_Object\<close> encodes a map of strings, given by its sorted keys; \<open>b58_Decode\<close> is empty on bad text.\<close>

record near_env =
  borsh_Serialize :: "nativeTx \<Rightarrow> bytes option"
  borsh_SerializeSigned :: "nativeTx \<Rightarrow> u8 \<Rightarrow> bytes \<Rightarrow> bytes option"
  borsh_Deserialize :: "bytes \<Rightarrow> nativeTx option"
  json_Object :: "(string \<times> string) list \<Rightarrow> bytes option"
  b58_Decode :: "string \<Rightarrow> bytes"
  b58_Encode :: "bytes \<Rightarrow> string"
  ed25519_Sign :: "bytes \<Rightarrow> bytes \<Rightarrow> bytes"

datatype near_error =
  Panic | InvalidNonce | InvalidAmount | InvalidBlockHash | HexInvalid | MarshalFailed | InvalidRequired
| InvalidTxType | SerializeFailed | NoSigHash | InvalidKeyLength | SignFailed | NoUnsigned
| DeserializeFailed | DerUnsupported

definition NewTxBuilder :: "Ingredient option \<Rightarrow> TxBuilder" where
  "NewTxBuilder ti = \<lparr>TheIngredient = ti, unsignedHex = [], sigHash = [], txHash = []\<rparr>"

definition token_gas :: u64 where "token_gas = 30000000000000"

definition storage_action :: "near_env \<Rightarrow> Ingredient \<Rightarrow> near_error + nearAction list" where
  "storage_action E i =
     (if RequiredAmount i \<noteq> ''0'' then
        andThen (orErr MarshalFailed (json_Object E [(''account_id'', Recipient i)])) (\<lambda>args.
        andThen (orErr InvalidRequired (big_SetString (RequiredAmount i))) (\<lambda>storageBounds.
          Inr [FunctionCall ''storage_deposit'' args token_gas storageBounds]))
      else Inr [])"

definition build_actions :: "near_env \<Rightarrow> Ingredient \<Rightarrow> int \<Rightarrow> near_error + string \<times> nearAction list" where
  "build_actions E i amount =
     (if TxType i = ''0'' then
        if ContractAddress i = MagicContactAddressForNative then Inr (Recipient i, [Transfer amount])
        else
          andThen (storage_action E i) (\<lambda>storage.
          andThen (orErr MarshalFailed
              (json_Object E [(''amount'', Amount i), (''receiver_id'', Recipient i)])) (\<lambda>args.
            Inr (ContractAddress i, storage @ [FunctionCall ''ft_transfer'' args token_gas 1])))
      else Inl InvalidTxType)"

definition build_tx :: "near_env \<Rightarrow> Ingredient \<Rightarrow> near_error + nativeTx" where
  "build_tx E i =
     andThen (case ParseUint 64 (Nonce i) of (n, None) \<Rightarrow> Inr n | (_, Some _) \<Rightarrow> Inl InvalidNonce) (\<lambda>nonce.
     andThen (orErr InvalidAmount (big_SetString (Amount i))) (\<lambda>amount.
       let blockHashBytes = b58_Decode E (BlockHash i)
       in andThen (require (length blockHashBytes \<noteq> 0) InvalidBlockHash) (\<lambda>_.
          andThen (orErr HexInvalid (hex_decode (SenderPublicKey i))) (\<lambda>publicKeyBytes.
          andThen (build_actions E i amount) (\<lambda>(receiverID, actions).
            Inr \<lparr>SignerID = Sender i, PublicKey = \<lparr>k_type = 0, k_data = copy_array 32 publicKeyBytes\<rparr>,
              TxNonce = word_of_nat nonce, ReceiverID = receiverID,
              TxBlockHash = copy_array 32 blockHashBytes, Actions = actions\<rparr>)))))"

definition Build :: "near_env \<Rightarrow> TxBuilder \<Rightarrow> TxBuilder \<times> (near_error + unit)" where
  "Build E tx0 =
     (let tx = tx0\<lparr>sigHash := [], unsignedHex := [], txHash := []\<rparr>
      in case andThen (orErr Panic (TheIngredient tx)) (\<lambda>i.
                andThen (build_tx E i) (\<lambda>ntx. orErr SerializeFailed (borsh_Serialize E ntx))) of
           Inl e \<Rightarrow> (tx, Inl e)
         | Inr ntxBytes \<Rightarrow>
             (tx\<lparr>sigHash := sigHash tx @ [hex_encode (sha256 ntxBytes)], unsignedHex := hex_encode ntxBytes\<rparr>,
              Inr ()))"

definition Sign :: "near_env \<Rightarrow> TxBuilder \<Rightarrow> bytes \<Rightarrow> near_error + string" where
  "Sign E tx privateKey =
     (if length (sigHash tx) \<noteq> 1 then Inl NoSigHash
      else
        andThen (orErr HexInvalid (hex_decode (sigHash tx ! 0))) (\<lambda>h.
        andThen (require (length privateKey = 32) InvalidKeyLength) (\<lambda>_.
          let signatureBytes = ed25519_Sign E privateKey h
          in andThen (require (length signatureBytes = 64) SignFailed) (\<lambda>_. Inr (hex_encode signatureBytes)))))"

definition ConcatSignature ::
  "near_env \<Rightarrow> TxBuilder \<Rightarrow> string \<Rightarrow> bool \<Rightarrow> TxBuilder \<times> (near_error + string)"
where
  "ConcatSignature E tx signature isDerFormat =
     (case
        andThen (require (unsignedHex tx \<noteq> []) NoUnsigned) (\<lambda>_.
        andThen (orErr HexInvalid (hex_decode (unsignedHex tx))) (\<lambda>ntxBytes.
        andThen (orErr DeserializeFailed (borsh_Deserialize E ntxBytes)) (\<lambda>ntx.
        andThen (require (\<not> isDerFormat) DerUnsupported) (\<lambda>_.
        andThen (orErr HexInvalid (hex_decode signature)) (\<lambda>sigBytes.
        andThen (orErr SerializeFailed
            (borsh_SerializeSigned E ntx (k_type (PublicKey ntx)) (copy_array 64 sigBytes))) (\<lambda>sntxBytes.
        andThen (require (sigHash tx \<noteq> []) Panic) (\<lambda>_.
        andThen (orErr HexInvalid (hex_decode (sigHash tx ! 0))) (\<lambda>hashBytes.
          Inr (b58_Encode E hashBytes, hex_encode sntxBytes))))))))) of
        Inl e \<Rightarrow> (tx, Inl e)
      | Inr (h, hex) \<Rightarrow> (tx\<lparr>txHash := h\<rparr>, Inr hex))"

definition GetTxHash :: "TxBuilder \<Rightarrow> string" where "GetTxHash tx = txHash tx"
definition GetSigHash :: "TxBuilder \<Rightarrow> string list" where "GetSigHash tx = sigHash tx"
definition GetUnsignedHex :: "TxBuilder \<Rightarrow> string" where "GetUnsignedHex tx = unsignedHex tx"
definition SetSigHash :: "string list \<Rightarrow> TxBuilder \<Rightarrow> TxBuilder" where
  "SetSigHash s tx = tx\<lparr>sigHash := s\<rparr>"
definition SetUnsignedHex :: "string \<Rightarrow> TxBuilder \<Rightarrow> TxBuilder" where
  "SetUnsignedHex s tx = tx\<lparr>unsignedHex := s\<rparr>"

section \<open>The accepted identifiers\<close>

lemma star_conc: "u \<in> star A \<Longrightarrow> v \<in> star A \<Longrightarrow> u @ v \<in> star A"
  by (induction u rule: star.induct) (auto intro: star_append)

lemma star_snoc: "u \<in> star A \<Longrightarrow> v \<in> A \<Longrightarrow> u @ v \<in> star A"
  using star_conc [of u A v] star_append [of v A "[]"] by (simp add: star_Nil)

lemma plus_chars: "w \<in> lang (Plus (Cls p)) \<longleftrightarrow> w \<noteq> [] \<and> list_all p w"
proof -
  have all: "u \<in> star {[c] | c. p c} \<longleftrightarrow> list_all p u" for u
  proof
    show "u \<in> star {[c] | c. p c} \<Longrightarrow> list_all p u" by (induction rule: star.induct) auto
    show "list_all p u \<Longrightarrow> u \<in> star {[c] | c. p c}"
    proof (induction u)
      case (Cons c u)
      then show ?case using star_append [of "[c]" "{[c] | c. p c}" u] by simp
    qed (simp add: star_Nil)
  qed
  have "w \<in> conc {[c] | c. p c} A \<longleftrightarrow> (\<exists>c u. w = c # u \<and> p c \<and> u \<in> A)" for A
  proof
    show "w \<in> conc {[c] | c. p c} A \<Longrightarrow> \<exists>c u. w = c # u \<and> p c \<and> u \<in> A" by (auto elim!: concE)
    show "\<exists>c u. w = c # u \<and> p c \<and> u \<in> A \<Longrightarrow> w \<in> conc {[c] | c. p c} A"
      using concI [of "[_]" "{[c] | c. p c}" _ A] by auto
  qed
  then have "w \<in> lang (Plus (Cls p)) \<longleftrightarrow> (\<exists>c u. w = c # u \<and> p c \<and> list_all p u)"
    by (simp only: Plus_def lang.simps all)
  then show ?thesis by (cases w) simp_all
qed

lemma separated_alnum: "list_all alnum_char u \<Longrightarrow> u \<noteq> [] \<Longrightarrow> separated b (u @ v) = separated True v"
proof (induction u arbitrary: b)
  case (Cons c u)
  then show ?case by (cases "u = []") simp_all
qed simp

lemma dash_not_alnum: "dash_char c \<Longrightarrow> \<not> alnum_char c"
  by (auto simp: dash_char_def alnum_char_def char_nat_def)

lemma dot_not_alnum [simp]: "\<not> alnum_char (CHR ''.'')"
  by (simp add: alnum_char_def char_nat_def)

lemma separated_dashes:
  "u \<in> star (conc (lang (Plus (Cls alnum_char))) {[c] | c. dash_char c}) \<Longrightarrow>
     separated False (u @ v) = separated False v"
proof (induction u rule: star.induct)
  case (star_append u w)
  then obtain a c where u: "u = a @ [c]" "a \<noteq> []" "list_all alnum_char a" "dash_char c"
    by (auto elim!: concE simp: plus_chars)
  then have "separated False ((a @ [c]) @ w @ v) = separated False (w @ v)"
    using separated_alnum [of a False "[c] @ w @ v"] dash_not_alnum [OF u(4)] by (auto simp: dash_char_def)
  then show ?case using star_append u by simp
qed simp

lemma separated_part: "u \<in> lang part_rexp \<Longrightarrow> separated False (u @ v) = separated True v"
  by (auto simp: part_rexp_def plus_chars separated_dashes separated_alnum elim!: concE)

lemma separated_dots:
  "u \<in> star (conc (lang part_rexp) {[CHR ''.'']}) \<Longrightarrow> separated False (u @ v) = separated False v"
proof (induction u rule: star.induct)
  case (star_append u w)
  then obtain a where "u = a @ ''.''" "a \<in> lang part_rexp" by (auto elim!: concE)
  then show ?case using star_append separated_part [of a "''.'' @ w @ v"] by simp
qed simp

text \<open>What has been read, before and after a letter or digit.\<close>

definition read_dashes :: "string set" where
  "read_dashes = conc (lang (Star (Seq part_rexp (Cls (\<lambda>c. c = CHR ''.'')))))
     (lang (Star (Seq (Plus (Cls alnum_char)) (Cls dash_char))))"

definition read_alnum :: "string set" where
  "read_alnum = conc read_dashes (lang (Plus (Cls alnum_char)))"

lemma conc_assoc: "conc (conc A B) C = conc A (conc B C)"
  by (auto simp: conc_def) (metis append.assoc)+

lemma read_alnum_regex: "read_alnum = lang nearAccountIDRegex"
  by (simp add: read_alnum_def read_dashes_def nearAccountIDRegex_def part_rexp_def conc_assoc)

lemma read_start: "[] \<in> read_dashes"
  by (auto simp: read_dashes_def conc_def intro: star_Nil)

lemma read_first: "u \<in> read_dashes \<Longrightarrow> alnum_char c \<Longrightarrow> u @ [c] \<in> read_alnum"
  unfolding read_alnum_def by (rule concI) (simp_all add: plus_chars)

lemma read_more: "u \<in> read_alnum \<Longrightarrow> alnum_char c \<Longrightarrow> u @ [c] \<in> read_alnum"
  unfolding read_alnum_def
  by (elim concE) (simp, rule concI, simp_all add: plus_chars)

lemma read_dash: "u \<in> read_alnum \<Longrightarrow> dash_char c \<Longrightarrow> u @ [c] \<in> read_dashes"
proof -
  assume u: "u \<in> read_alnum" and c: "dash_char c"
  let ?D = "conc (lang (Plus (Cls alnum_char))) {[c] | c. dash_char c}"
  from u obtain d s a where *: "u = d @ s @ a" "d \<in> lang (Star (Seq part_rexp (Cls (\<lambda>c. c = CHR ''.''))))"
    "s \<in> star ?D" "a \<in> lang (Plus (Cls alnum_char))"
    unfolding read_alnum_def read_dashes_def by (auto elim!: concE)
  have "a @ [c] \<in> ?D" using *(4) c by (intro concI) auto
  then have "s @ a @ [c] \<in> star ?D" using *(3) by (rule star_snoc [rotated])
  then show ?thesis
    using *(2) concI [OF *(2), of "s @ a @ [c]" "star ?D"] by (simp add: *(1) read_dashes_def)
qed

lemma read_dot: "u \<in> read_alnum \<Longrightarrow> u @ ''.'' \<in> read_dashes"
proof -
  assume u: "u \<in> read_alnum"
  let ?P = "conc (lang part_rexp) {[c] | c. c = CHR ''.''}"
  from u obtain d p where *: "u = d @ p" "d \<in> star ?P" "p \<in> lang part_rexp"
    unfolding read_alnum_regex nearAccountIDRegex_def by (auto elim!: concE)
  have "p @ ''.'' \<in> ?P" using *(3) by (intro concI) auto
  then have "d @ p @ ''.'' \<in> star ?P" using *(2) by (rule star_snoc [rotated])
  then have "(d @ p @ ''.'') @ [] \<in> read_dashes" unfolding read_dashes_def by (intro concI) (auto intro: star_Nil)
  then show ?thesis by (simp add: *(1))
qed

lemma separated_read:
  "separated b w \<Longrightarrow> (if b then u \<in> read_alnum else u \<in> read_dashes) \<Longrightarrow> u @ w \<in> read_alnum"
proof (induction w arbitrary: b u)
  case (Cons c w)
  have step: "(u @ [c]) @ w \<in> read_alnum" if "separated b' w" "if b' then u @ [c] \<in> read_alnum else u @ [c] \<in> read_dashes" for b'
    using Cons.IH [OF that] .
  show ?case
    using Cons.prems step [of True] step [of False] read_first [of u c] read_more [of u c] read_dash [of u c] read_dot [of u]
    by (auto simp: dash_char_def split: if_splits)
qed (auto split: if_splits)

text \<open>
  C32: The regular expression accepts what the rules for account identifiers say: an address is valid
  exactly if it has 2 to 64 characters, which are lower-case letters, digits and the separators dash,
  underscore and dot, where no separator stands first, last or next to another.
\<close>

theorem near_account_ids:
  "ValidAddress a \<longleftrightarrow> 2 \<le> length a \<and> length a \<le> 64 \<and> separated False a"
proof -
  have "separated False a" if a: "a \<in> lang nearAccountIDRegex"
  proof -
    obtain d p where "a = d @ p" "d \<in> star (conc (lang part_rexp) {[CHR ''.'']})" "p \<in> lang part_rexp"
      using a unfolding nearAccountIDRegex_def by (auto elim!: concE)
    then show ?thesis using separated_dots [of d p] separated_part [of p "[]"] by simp
  qed
  moreover have "a \<in> lang nearAccountIDRegex" if "separated False a"
    using separated_read [OF that, of "[]"] read_start by (simp add: read_alnum_regex)
  ultimately show ?thesis by (auto simp: ValidAddress_def MatchString_lang)
qed

section \<open>What is signed is what is sent\<close>

lemma token_actions:
  assumes "build_actions E i amount = Inr (receiver, actions)" "ContractAddress i \<noteq> MagicContactAddressForNative"
  obtains args storage where "receiver = ContractAddress i" "storage_action E i = Inr storage"
    "json_Object E [(''amount'', Amount i), (''receiver_id'', Recipient i)] = Some args"
    "actions = storage @ [FunctionCall ''ft_transfer'' args token_gas 1]"
  using assms by (auto simp: build_actions_def andThen_eq_Inr split: if_splits)

text \<open>
  What \<open>ConcatSignature\<close> returns after \<open>Build\<close> is the encoding of the very transaction whose hash
  is signed, with the signature in its 64 bytes. That transaction is the sender's, with the nonce and
  the block of the ingredient; for the coin it is one transfer of the decimal amount to the
  recipient, for a token its last action calls the transfer of the contract for one unit of deposit.
\<close>

theorem near_sends_what_it_signed:
  assumes borsh: "\<And>n b. borsh_Serialize E n = Some b \<Longrightarrow> borsh_Deserialize E b = Some n"
    and built: "Build E tx = (tx', Inr ())" "TheIngredient tx = Some i"
    and completed: "ConcatSignature E tx' signature False = (tx'', Inr out)"
  shows "\<exists>ntx b sigb out_bytes n. borsh_Serialize E ntx = Some b \<and> GetSigHash tx' = [hex_encode (sha256 b)] \<and>
    hex_decode signature = Some sigb \<and>
    borsh_SerializeSigned E ntx 0 (copy_array 64 sigb) = Some out_bytes \<and> out = hex_encode out_bytes \<and>
    GetTxHash tx'' = b58_Encode E (sha256 b) \<and> SignerID ntx = Sender i \<and>
    ParseUint 64 (Nonce i) = (unat (TxNonce ntx), None) \<and>
    TxBlockHash ntx = copy_array 32 (b58_Decode E (BlockHash i)) \<and> big_SetString (Amount i) = Some n \<and>
    (if ContractAddress i = MagicContactAddressForNative
     then ReceiverID ntx = Recipient i \<and> Actions ntx = [Transfer n]
     else ReceiverID ntx = ContractAddress i \<and>
       (\<exists>args. json_Object E [(''amount'', Amount i), (''receiver_id'', Recipient i)] = Some args \<and>
          last (Actions ntx) = FunctionCall ''ft_transfer'' args token_gas 1))"
proof -
  obtain ntx b where bt: "build_tx E i = Inr ntx" "borsh_Serialize E ntx = Some b"
    and tx': "tx' = tx\<lparr>sigHash := [hex_encode (sha256 b)], unsignedHex := hex_encode b, txHash := []\<rparr>"
    using built by (cases tx) (auto simp: Build_def Let_def andThen_eq_Inr split: sum.splits)
  obtain nonce n pk receiver actions where
    nonce: "ParseUint 64 (Nonce i) = (nonce, None)" and n: "big_SetString (Amount i) = Some n"
    and actions: "build_actions E i n = Inr (receiver, actions)"
    and ntx: "ntx = \<lparr>SignerID = Sender i, PublicKey = \<lparr>k_type = 0, k_data = pk\<rparr>, TxNonce = word_of_nat nonce,
      ReceiverID = receiver, TxBlockHash = copy_array 32 (b58_Decode E (BlockHash i)), Actions = actions\<rparr>"
    using bt(1) by (auto simp: build_tx_def andThen_eq_Inr require_def Let_def split: prod.splits option.splits if_splits)
  have "nonce < 2 ^ 64" using ParseUint_bound [of 64 "Nonce i"] nonce by simp
  then have nonce': "ParseUint 64 (Nonce i) = (unat (TxNonce ntx), None)" using nonce by (simp add: ntx unat_of_nat)
  obtain sigb ob where sent: "hex_decode signature = Some sigb"
    "borsh_SerializeSigned E ntx 0 (copy_array 64 sigb) = Some ob" "out = hex_encode ob"
    "txHash tx'' = b58_Encode E (sha256 b)"
    using completed borsh [OF bt(2)]
    by (auto simp: ConcatSignature_def tx' andThen_eq_Inr require_def ntx split: sum.splits if_splits)
  have kind: "if ContractAddress i = MagicContactAddressForNative
     then ReceiverID ntx = Recipient i \<and> Actions ntx = [Transfer n]
     else ReceiverID ntx = ContractAddress i \<and>
       (\<exists>args. json_Object E [(''amount'', Amount i), (''receiver_id'', Recipient i)] = Some args \<and>
          last (Actions ntx) = FunctionCall ''ft_transfer'' args token_gas 1)"
  proof (cases "ContractAddress i = MagicContactAddressForNative")
    case True
    then have "receiver = Recipient i \<and> actions = [Transfer n]"
      using actions by (simp add: build_actions_def split: if_splits)
    then show ?thesis using True by (simp add: ntx)
  next
    case False
    obtain args storage where "receiver = ContractAddress i"
      "json_Object E [(''amount'', Amount i), (''receiver_id'', Recipient i)] = Some args"
      "actions = storage @ [FunctionCall ''ft_transfer'' args token_gas 1]"
      using token_actions [OF actions False] .
    then show ?thesis using False by (simp add: ntx)
  qed
  have fields: "SignerID ntx = Sender i" "TxBlockHash ntx = copy_array 32 (b58_Decode E (BlockHash i))"
    by (simp_all add: ntx)
  have hash: "GetSigHash tx' = [hex_encode (sha256 b)]" "GetTxHash tx'' = b58_Encode E (sha256 b)"
    using sent(4) by (simp_all add: tx' GetSigHash_def GetTxHash_def)
  show ?thesis
    by (intro exI [of _ ntx] exI [of _ b] exI [of _ sigb] exI [of _ ob] exI [of _ n] conjI)
       (fact bt(2) sent(1) sent(2) sent(3) nonce' n kind fields hash)+
qed

definition sample_ingredient :: Ingredient where
  "sample_ingredient =
     \<lparr>TxType = ''0'', ContractAddress = MagicContactAddressForNative, Sender = ''alice.near'',
      SenderPublicKey = ''ff'', Recipient = ''bob.near'', Amount = ''7'', Nonce = ''5'', RequiredAmount = [],
      BlockHash = ''h''\<rparr>"

definition sample_ntx :: nativeTx where
  "sample_ntx =
     \<lparr>SignerID = ''alice.near'', PublicKey = \<lparr>k_type = 0, k_data = copy_array 32 [255]\<rparr>, TxNonce = 5,
      ReceiverID = ''bob.near'', TxBlockHash = copy_array 32 [9], Actions = [Transfer 7]\<rparr>"

definition sample_env :: near_env where
  "sample_env =
     \<lparr>borsh_Serialize = \<lambda>n. if n = sample_ntx then Some [3] else None,
      borsh_SerializeSigned = \<lambda>n k s. Some [4],
      borsh_Deserialize = \<lambda>b. if b = [3] then Some sample_ntx else None,
      json_Object = \<lambda>_. None, b58_Decode = \<lambda>_. [9], b58_Encode = \<lambda>_. ''hash'',
      ed25519_Sign = \<lambda>_ _. replicate 64 1\<rparr>"

definition sample_built :: TxBuilder where
  "sample_built = \<lparr>TheIngredient = Some sample_ingredient, unsignedHex = hex_encode [3],
     sigHash = [hex_encode (sha256 [3])], txHash = []\<rparr>"

lemma near_sample_env_simps [simp]:
  "borsh_Serialize sample_env n = (if n = sample_ntx then Some [3] else None)"
  "borsh_SerializeSigned sample_env n k s = Some [4]"
  "borsh_Deserialize sample_env b = (if b = [3] then Some sample_ntx else None)"
  "b58_Decode sample_env t = [9]" "b58_Encode sample_env b = ''hash''"
  by (simp_all add: sample_env_def)

lemma near_sample_build_tx: "build_tx sample_env sample_ingredient = Inr sample_ntx"
  by (simp add: build_tx_def sample_ingredient_def build_actions_def require_def sample_ntx_def
      ParseUint_def big_SetString_def digit_of_def fromHexChar_def char_nat_def Let_def)

lemma near_sample_build: "Build sample_env (NewTxBuilder (Some sample_ingredient)) = (sample_built, Inr ())"
  by (simp add: Build_def NewTxBuilder_def near_sample_build_tx sample_built_def)

lemma near_sample_concat:
  "ConcatSignature sample_env sample_built ''ff'' False = (sample_built\<lparr>txHash := ''hash''\<rparr>, Inr (hex_encode [4]))"
proof -
  have "hex_decode (unsignedHex sample_built) = Some [3]" "hex_decode (sigHash sample_built ! 0) = Some (sha256 [3])"
    unfolding sample_built_def by (simp_all only: TxBuilder.simps nth_Cons_0 hex_decode_encode)
  moreover have "unsignedHex sample_built \<noteq> []" "sigHash sample_built \<noteq> []" by (simp_all add: sample_built_def)
  ultimately show ?thesis
    by (simp add: ConcatSignature_def require_def fromHexChar_def char_nat_def Let_def)
qed

theorem near_sends_what_it_signed_witness:
  "\<exists>ntx b sigb out_bytes n. borsh_Serialize sample_env ntx = Some b \<and>
    GetSigHash sample_built = [hex_encode (sha256 b)] \<and> hex_decode ''ff'' = Some sigb \<and>
    borsh_SerializeSigned sample_env ntx 0 (copy_array 64 sigb) = Some out_bytes \<and>
    hex_encode [4] = hex_encode out_bytes \<and>
    GetTxHash (sample_built\<lparr>txHash := ''hash''\<rparr>) = b58_Encode sample_env (sha256 b) \<and>
    SignerID ntx = Sender sample_ingredient \<and>
    ParseUint 64 (Nonce sample_ingredient) = (unat (TxNonce ntx), None) \<and>
    TxBlockHash ntx = copy_array 32 (b58_Decode sample_env (BlockHash sample_ingredient)) \<and>
    big_SetString (Amount sample_ingredient) = Some n \<and>
    (if ContractAddress sample_ingredient = MagicContactAddressForNative
     then ReceiverID ntx = Recipient sample_ingredient \<and> Actions ntx = [Transfer n]
     else ReceiverID ntx = ContractAddress sample_ingredient \<and>
       (\<exists>args. json_Object sample_env
            [(''amount'', Amount sample_ingredient), (''receiver_id'', Recipient sample_ingredient)] = Some args \<and>
          last (Actions ntx) = FunctionCall ''ft_transfer'' args token_gas 1))"
proof (rule near_sends_what_it_signed [OF _ near_sample_build _ near_sample_concat])
  show "TheIngredient (NewTxBuilder (Some sample_ingredient)) = Some sample_ingredient"
    by (simp add: NewTxBuilder_def)
  fix n b
  assume "borsh_Serialize sample_env n = Some b"
  then show "borsh_Deserialize sample_env b = Some n" by (auto split: if_splits)
qed

end
