(* ===== verification/Evm.thy ===== *)
theory Evm
  imports Tokens Codec
begin

text \<open>
  \<open>signing/evm\<close>: addresses, the EIP-712 hashes, signatures over typed data, and the builder of
  transfers and contract calls. The curve, Keccak, the transaction types of go-ethereum with their
  RLP encoding and signer, the typed-data hasher and JSON are the fields of a record of functions; the
  calldata of an ERC-20 transfer is packed by the model of \<open>contracts/erc20\<close>. The receiver of a
  method is not nil; an ingredient may be.
\<close>

section \<open>Types\<close>

text \<open>A \<open>*big.Int\<close> that was not set is \<open>None\<close>.\<close>

datatype UnsignedTx =
  LegacyTx (lt_Nonce: u64) (lt_GasPrice: int) (lt_Gas: u64) (lt_To: bytes) (lt_Value: "int option") (lt_Data: bytes)
| DynamicFeeTx (dt_ChainID: int) (dt_Nonce: u64) (dt_To: bytes) (dt_Value: "int option") (dt_Gas: u64)
    (dt_GasFeeCap: int) (dt_GasTipCap: int) (dt_Data: bytes)

record Ingredient =
  TxType :: string
  ContractAddress :: string
  Sender :: string
  Recipient :: string
  Amount :: string
  Payload :: string
  Memo :: string
  Nonce :: string
  GasPrice :: string
  GasFeeCap :: string
  GasTipCap :: string
  GasLimit :: string
  IsLegacyTx :: string

record TxBuilder =
  TheIngredient :: "Ingredient option"
  network :: string
  unsignedHex :: string
  sigHash :: "string list"
  txHash :: string

text \<open>
  A transaction of go-ethereum is \<open>'t\<close>; \<open>HashStruct\<close> is applied to the primary type and message, or
  to the domain, of typed data \<open>'d\<close>.
\<close>

record ('t, 'd) evm_env =
  Token :: token_env
  ParsePubKey :: "bytes \<Rightarrow> bytes option"
  UnmarshalPubkey :: "bytes \<Rightarrow> bytes option"
  PubkeyToAddress :: "bytes \<Rightarrow> bytes"
  SigToPub :: "bytes \<Rightarrow> bytes \<Rightarrow> bytes option"
  IsHexAddress :: "string \<Rightarrow> bool"
  Keccak256 :: "bytes \<Rightarrow> bytes"
  PrivateToPublic :: "bytes \<Rightarrow> bytes option"
  SignEVM :: "bytes \<Rightarrow> bytes \<Rightarrow> bytes option"
  json_MarshalCall :: "CallErc20In \<Rightarrow> bytes"
  NewTx :: "UnsignedTx \<Rightarrow> 't"
  MarshalBinary :: "'t \<Rightarrow> bytes option"
  UnmarshalBinary :: "bytes \<Rightarrow> 't option"
  LondonHash :: "int \<Rightarrow> 't \<Rightarrow> bytes"
  WithSignature :: "'t \<Rightarrow> int \<Rightarrow> bytes \<Rightarrow> 't option"
  TxHashHex :: "'t \<Rightarrow> string"
  json_TypedData :: "bytes \<Rightarrow> 'd option"
  PrimaryType :: "'d \<Rightarrow> string"
  HashDomain :: "'d \<Rightarrow> bytes option"
  HashMessage :: "'d \<Rightarrow> bytes option"

datatype evm_error =
  InvalidKey | InvalidSignatureLength | RecoverFailed | SignFailed | BadSignature | BadTypedData
| NoPrimaryType | HashFailed | InvalidIngredient | UnsupportedChain | EmptyRecipient | SentinelRecipient
| InvalidAmount | InvalidMemo | PackFailed | InvalidPayload | PayloadTooShort | InvalidTxType
| GasPriceRequired | FeesRequired | TipExceedsCap | MarshalFailed | NoSigHash | KeyMismatch | HexInvalid
| UnmarshalFailed | DerUnsupported

section \<open>Addresses\<close>

definition address_hex :: "('t, 'd) evm_env \<Rightarrow> bytes \<Rightarrow> string" where
  "address_hex E a = AddressHex (Token E) a"

definition PublicKey2Address :: "('t, 'd) evm_env \<Rightarrow> bytes \<Rightarrow> evm_error + string" where
  "PublicKey2Address E publicKey =
     andThen (orErr InvalidKey (ParsePubKey E publicKey)) (\<lambda>uncompressed.
     andThen (orErr InvalidKey (UnmarshalPubkey E uncompressed)) (\<lambda>ecdsaPub.
       Inr (address_hex E (PubkeyToAddress E ecdsaPub))))"

definition ValidAddress :: "('t, 'd) evm_env \<Rightarrow> string \<Rightarrow> bool" where
  "ValidAddress E address \<longleftrightarrow> IsHexAddress E address"

definition hex_to_address :: "('t, 'd) evm_env \<Rightarrow> string \<Rightarrow> bytes" where
  "hex_to_address E s = HexToAddress (Token E) s"

definition NormalizeAddress :: "('t, 'd) evm_env \<Rightarrow> string \<Rightarrow> string" where
  "NormalizeAddress E address = address_hex E (hex_to_address E address)"

definition IsZeroAddress :: "('t, 'd) evm_env \<Rightarrow> string \<Rightarrow> bool" where
  "IsZeroAddress E address \<longleftrightarrow> hex_to_address E address = replicate 20 0"

definition RecoverAddress :: "('t, 'd) evm_env \<Rightarrow> bytes \<Rightarrow> bytes \<Rightarrow> evm_error + string" where
  "RecoverAddress E d signature =
     (if length signature \<noteq> 65 then Inl InvalidSignatureLength
      else
        let sig = (if signature ! 64 \<ge> 27 then signature[64 := signature ! 64 - 27] else signature)
        in andThen (orErr RecoverFailed (SigToPub E d sig)) (\<lambda>pubKey.
             Inr (address_hex E (PubkeyToAddress E pubKey))))"

section \<open>EIP-712\<close>

definition Pad32 :: "bytes \<Rightarrow> bytes" where
  "Pad32 b = (if length b \<ge> 32 then drop (length b - 32) b else replicate (32 - length b) 0 @ b)"

definition ABIEncode :: "bytes list \<Rightarrow> bytes" where
  "ABIEncode parts = concat (map Pad32 parts)"

definition EIP712Hash :: "('t, 'd) evm_env \<Rightarrow> bytes \<Rightarrow> bytes \<Rightarrow> bytes" where
  "EIP712Hash E domainSeparator structHash = Keccak256 E ([0x19, 0x01] @ domainSeparator @ structHash)"

text \<open>\<open>big.NewInt (chainID).Bytes ()\<close> drops the sign.\<close>

definition EIP712DomainSeparator :: "('t, 'd) evm_env \<Rightarrow> string \<Rightarrow> string \<Rightarrow> 64 word \<Rightarrow> bytes \<Rightarrow> bytes" where
  "EIP712DomainSeparator E name version chainID contract =
     (let typeHash = Keccak256 E (bytes_of_string
            ''EIP712Domain(string name,string version,uint256 chainId,address verifyingContract)'')
      in Keccak256 E (ABIEncode
           [typeHash, Keccak256 E (bytes_of_string name), Keccak256 E (bytes_of_string version),
            Pad32 (big_Bytes (nat \<bar>sint chainID\<bar>)), Pad32 contract]))"

definition EIP712DomainSeparatorNameVersion :: "('t, 'd) evm_env \<Rightarrow> string \<Rightarrow> string \<Rightarrow> bytes" where
  "EIP712DomainSeparatorNameVersion E name version =
     (let typeHash = Keccak256 E (bytes_of_string ''EIP712Domain(string name,string version)'')
      in Keccak256 E (ABIEncode
           [typeHash, Keccak256 E (bytes_of_string name), Keccak256 E (bytes_of_string version)]))"

definition HashTypedDataJSON :: "('t, 'd) evm_env \<Rightarrow> bytes \<Rightarrow> evm_error + bytes" where
  "HashTypedDataJSON E typedDataJSON =
     andThen (orErr BadTypedData (json_TypedData E typedDataJSON)) (\<lambda>td.
     andThen (require (PrimaryType E td \<noteq> []) NoPrimaryType) (\<lambda>_.
     andThen (orErr HashFailed (HashDomain E td)) (\<lambda>domainSep.
     andThen (orErr HashFailed (HashMessage E td)) (\<lambda>structHash.
       Inr (EIP712Hash E domainSep structHash)))))"

definition SignTypedDataJSON :: "('t, 'd) evm_env \<Rightarrow> bytes \<Rightarrow> bytes \<Rightarrow> evm_error + bytes" where
  "SignTypedDataJSON E privateKey typedDataJSON =
     andThen (HashTypedDataJSON E typedDataJSON) (\<lambda>digest.
     andThen (orErr SignFailed (SignEVM E privateKey digest)) (\<lambda>sig.
     andThen (require (length sig = 65) BadSignature) (\<lambda>_.
       Inr (if sig ! 64 < 27 then sig[64 := sig ! 64 + 27] else sig))))"

section \<open>The builder\<close>

definition NewTxBuilder :: "Ingredient option \<Rightarrow> string \<Rightarrow> TxBuilder" where
  "NewTxBuilder ti net = \<lparr>TheIngredient = ti, network = net, unsignedHex = [], sigHash = [], txHash = []\<rparr>"

definition valid_ingredient :: "('t, 'd) evm_env \<Rightarrow> Ingredient \<Rightarrow> bool" where
  "valid_ingredient E i \<longleftrightarrow>
     TxType i \<in> set TxTypes \<and>
     ContractAddress i \<noteq> [] \<and> ValidAddress E (ContractAddress i) \<and>
     Sender i \<noteq> [] \<and> ValidAddress E (Sender i) \<and>
     (Recipient i = [] \<or> ValidAddress E (Recipient i)) \<and>
     (Amount i = [] \<or> valid_bigint_gte0 (Amount i)) \<and>
     (Payload i = [] \<or> valid_hex_str (Payload i)) \<and>
     (Memo i = [] \<or> valid_hex_str (Memo i)) \<and>
     Nonce i \<noteq> [] \<and> valid_u64 (Nonce i) \<and>
     (GasPrice i = [] \<or> valid_bigint_gt0 (GasPrice i)) \<and>
     (GasFeeCap i = [] \<or> valid_bigint_gt0 (GasFeeCap i)) \<and>
     (GasTipCap i = [] \<or> valid_bigint_gt0 (GasTipCap i)) \<and>
     GasLimit i \<noteq> [] \<and> valid_u64_gt0 (GasLimit i) \<and>
     IsLegacyTx i \<noteq> [] \<and> valid_bool_str (IsLegacyTx i)"

definition parsed_u64 :: "string \<Rightarrow> u64" where
  "parsed_u64 s = word_of_nat (fst (ParseUint 64 s))"

definition chain_id :: "string \<Rightarrow> evm_error + int" where
  "chain_id net = (case ParseInt 64 net of (n, None) \<Rightarrow> Inr n | (_, Some _) \<Rightarrow> Inl UnsupportedChain)"

text \<open>The recipient of the transaction, its value and its data.\<close>

definition transfer_call :: "('t, 'd) evm_env \<Rightarrow> Ingredient \<Rightarrow> evm_error + bytes \<times> int option \<times> bytes" where
  "transfer_call E i =
     (if Recipient i = [] then Inl EmptyRecipient
      else if equal_fold (Recipient i) MagicContactAddressForNative then Inl SentinelRecipient
      else if equal_fold (ContractAddress i) MagicContactAddressForNative then
        andThen (orErr InvalidAmount (big_SetString (Amount i))) (\<lambda>v.
        andThen (if Memo i \<noteq> [] then orErr InvalidMemo (hex_decode (strings_TrimPrefix (Memo i) ''0x''))
                 else Inr []) (\<lambda>d.
          Inr (hex_to_address E (Recipient i), Some v, d)))
      else
        let params = json_MarshalCall E
              (no_erc20_in\<lparr>c_Recipient := Recipient i, c_Amount := Amount i, c_Memo := Memo i\<rparr>)
        in (case PackPayloadForErc20 (Token E) ''transfer'' (Some params) of
              Inl _ \<Rightarrow> Inl PackFailed
            | Inr hexData \<Rightarrow> Inr (hex_to_address E (ContractAddress i), None, hex_decoded_bytes hexData)))"

definition contract_call :: "('t, 'd) evm_env \<Rightarrow> Ingredient \<Rightarrow> evm_error + bytes \<times> int option \<times> bytes" where
  "contract_call E i =
     andThen (orErr InvalidPayload (hex_decode (strings_TrimPrefix (Payload i) ''0x''))) (\<lambda>d.
     andThen (require (\<not> length d < 4) PayloadTooShort) (\<lambda>_.
       Inr (hex_to_address E (ContractAddress i),
            if Amount i \<noteq> [] then big_SetString (Amount i) else None, d)))"

definition call_of :: "('t, 'd) evm_env \<Rightarrow> Ingredient \<Rightarrow> evm_error + bytes \<times> int option \<times> bytes" where
  "call_of E i =
     (if TxType i = ''0'' then transfer_call E i
      else if TxType i = ''3'' then contract_call E i
      else Inl InvalidTxType)"

text \<open>The texts of the prices have passed the validator, so reading them again gives a number.\<close>

definition read_price :: "string \<Rightarrow> int" where
  "read_price s = (case big_SetString s of None \<Rightarrow> 0 | Some n \<Rightarrow> n)"

definition price_tx ::
  "Ingredient \<Rightarrow> int \<Rightarrow> u64 \<Rightarrow> u64 \<Rightarrow> bytes \<times> int option \<times> bytes \<Rightarrow> evm_error + UnsignedTx"
where
  "price_tx i chainID nonce gasLimit call =
     (case call of (to, v, d) \<Rightarrow>
        if IsLegacyTx i = ''true'' then
          if GasPrice i = [] then Inl GasPriceRequired
          else Inr (LegacyTx nonce (read_price (GasPrice i)) gasLimit to v d)
        else if GasFeeCap i = [] \<or> GasTipCap i = [] then Inl FeesRequired
        else
          let gasFeeCap = read_price (GasFeeCap i); gasTipCap = read_price (GasTipCap i)
          in if gasTipCap > gasFeeCap then Inl TipExceedsCap
             else Inr (DynamicFeeTx chainID nonce to v gasLimit gasFeeCap gasTipCap d))"

definition build_tx :: "('t, 'd) evm_env \<Rightarrow> Ingredient \<Rightarrow> string \<Rightarrow> evm_error + int \<times> UnsignedTx" where
  "build_tx E i net =
     andThen (require (valid_ingredient E i) InvalidIngredient) (\<lambda>_.
     andThen (chain_id net) (\<lambda>chainID.
     andThen (call_of E i) (\<lambda>call.
     andThen (price_tx i chainID (parsed_u64 (Nonce i)) (parsed_u64 (GasLimit i)) call) (\<lambda>utx.
       Inr (chainID, utx)))))"

text \<open>The unsigned bytes and the hash to sign.\<close>

definition build_result :: "('t, 'd) evm_env \<Rightarrow> TxBuilder \<Rightarrow> evm_error + bytes \<times> bytes" where
  "build_result E tx =
     andThen (orErr InvalidIngredient (TheIngredient tx)) (\<lambda>i.
     andThen (build_tx E i (network tx)) (\<lambda>(chainID, utx).
     andThen (orErr MarshalFailed (MarshalBinary E (NewTx E utx))) (\<lambda>unsignedBytes.
       Inr (unsignedBytes, LondonHash E chainID (NewTx E utx)))))"

definition Build :: "('t, 'd) evm_env \<Rightarrow> TxBuilder \<Rightarrow> TxBuilder \<times> (evm_error + unit)" where
  "Build E tx0 =
     (let tx = tx0\<lparr>sigHash := [], unsignedHex := [], txHash := []\<rparr>
      in case build_result E tx of
           Inl e \<Rightarrow> (tx, Inl e)
         | Inr (unsignedBytes, h) \<Rightarrow>
             (tx\<lparr>unsignedHex := hex_encode unsignedBytes, sigHash := sigHash tx @ [hex_encode h]\<rparr>, Inr ()))"

definition Sign :: "('t, 'd) evm_env \<Rightarrow> TxBuilder \<Rightarrow> bytes \<Rightarrow> evm_error + string" where
  "Sign E tx privateKey =
     (if length (sigHash tx) \<noteq> 1 then Inl NoSigHash
      else
        andThen
          (case TheIngredient tx of
             None \<Rightarrow> Inr ()
           | Some i \<Rightarrow>
               if Sender i = [] then Inr ()
               else
                 andThen (orErr InvalidKey (PrivateToPublic E privateKey)) (\<lambda>pub.
                 andThen (PublicKey2Address E pub) (\<lambda>signer.
                   require (equal_fold signer (Sender i)) KeyMismatch))) (\<lambda>_.
        andThen (orErr HexInvalid (hex_decode (sigHash tx ! 0))) (\<lambda>h.
        andThen (orErr SignFailed (SignEVM E privateKey h)) (\<lambda>signature.
          Inr (hex_encode signature)))))"

definition ConcatSignature ::
  "('t, 'd) evm_env \<Rightarrow> TxBuilder \<Rightarrow> string \<Rightarrow> bool \<Rightarrow> TxBuilder \<times> (evm_error + string)"
where
  "ConcatSignature E tx signature isDerFormat =
     (case
        andThen (orErr HexInvalid (hex_decode (unsignedHex tx))) (\<lambda>unsignedBytes.
        andThen (orErr UnmarshalFailed (UnmarshalBinary E unsignedBytes)) (\<lambda>ntx.
        andThen (require (\<not> isDerFormat) DerUnsupported) (\<lambda>_.
        andThen (orErr HexInvalid (hex_decode signature)) (\<lambda>sigBytes.
        andThen (chain_id (network tx)) (\<lambda>chainID.
          orErr BadSignature (WithSignature E ntx chainID sigBytes)))))) of
        Inl e \<Rightarrow> (tx, Inl e)
      | Inr stx \<Rightarrow>
          (tx\<lparr>txHash := TxHashHex E stx\<rparr>, map_sum id hex_encode (orErr MarshalFailed (MarshalBinary E stx))))"

definition GetTxHash :: "TxBuilder \<Rightarrow> string" where "GetTxHash tx = txHash tx"
definition GetSigHash :: "TxBuilder \<Rightarrow> string list" where "GetSigHash tx = sigHash tx"
definition GetUnsignedHex :: "TxBuilder \<Rightarrow> string" where "GetUnsignedHex tx = unsignedHex tx"
definition SetSigHash :: "string list \<Rightarrow> TxBuilder \<Rightarrow> TxBuilder" where
  "SetSigHash s tx = tx\<lparr>sigHash := s\<rparr>"
definition SetUnsignedHex :: "string \<Rightarrow> TxBuilder \<Rightarrow> TxBuilder" where
  "SetUnsignedHex s tx = tx\<lparr>unsignedHex := s\<rparr>"

section \<open>Domain separators\<close>

lemma length_Pad32 [simp]: "length (Pad32 b) = 32"
  by (simp add: Pad32_def)

lemma be_val_Pad32: "length b \<le> 32 \<Longrightarrow> be_val (Pad32 b) = be_val b"
  by (auto simp: Pad32_def be_val_replicate_0)

lemma Pad32_inject: "length a = length b \<Longrightarrow> length b \<le> 32 \<Longrightarrow> Pad32 a = Pad32 b \<longleftrightarrow> a = b"
  by (auto simp: Pad32_def)

lemma Pad32_Pad32 [simp]: "Pad32 (Pad32 b) = Pad32 b"
  by (simp add: Pad32_def)

lemma ABIEncode_inject:
  "length ps = length qs \<Longrightarrow> ABIEncode ps = ABIEncode qs \<longleftrightarrow> map Pad32 ps = map Pad32 qs"
  by (induction ps qs rule: list_induct2) (simp_all add: ABIEncode_def append_eq_append_conv)

text \<open>
  A domain separator stands for one domain: if two have the same separator, then the names, the
  versions, the contracts and the chain numbers are the same but for the sign, or two different
  inputs of the hash with the same value are at hand.
\<close>

theorem domain_separator_binds:
  assumes len: "\<And>b. length (Keccak256 E b) = 32"
    and contracts: "length c = 20" "length c' = 20"
    and equal: "EIP712DomainSeparator E n v chain c = EIP712DomainSeparator E n' v' chain' c'"
  shows "(n = n' \<and> v = v' \<and> \<bar>sint chain\<bar> = \<bar>sint chain'\<bar> \<and> c = c') \<or>
    (\<exists>x y. x \<noteq> y \<and> Keccak256 E x = Keccak256 E y)"
proof (cases "\<exists>x y. x \<noteq> y \<and> Keccak256 E x = Keccak256 E y")
  case False
  then have inj: "Keccak256 E x = Keccak256 E y \<longleftrightarrow> x = y" for x y by blast
  have chain: "nat \<bar>sint k\<bar> < 256 ^ 32" for k :: "64 word"
    using sint_ge [of k] sint_lt [of k] by simp
  have "Pad32 (Keccak256 E b) = Keccak256 E b" for b using len [of b] by (simp add: Pad32_def)
  then have "Keccak256 E (bytes_of_string n) = Keccak256 E (bytes_of_string n')"
    "Keccak256 E (bytes_of_string v) = Keccak256 E (bytes_of_string v')"
    "Pad32 (big_Bytes (nat \<bar>sint chain\<bar>)) = Pad32 (big_Bytes (nat \<bar>sint chain'\<bar>))" "Pad32 c = Pad32 c'"
    using equal by (simp_all add: EIP712DomainSeparator_def inj ABIEncode_inject Let_def)
  moreover from this(3) have "nat \<bar>sint chain\<bar> = nat \<bar>sint chain'\<bar>"
    using be_val_Pad32 [OF length_big_Bytes [OF chain]] be_val_big_Bytes by metis
  moreover have "c = c'" using calculation(4) contracts by (simp add: Pad32_inject)
  ultimately show ?thesis by (simp add: inj nat_eq_iff)
qed blast

section \<open>Signatures over typed data\<close>

text \<open>
  A signature over typed data is recovered to its signer: the digest that was signed and the
  returned 65 bytes give the address of the public key, although the last byte was raised by 27.
\<close>

theorem typed_data_signature_recovers:
  assumes curve: "\<And>k d sig. SignEVM E k d = Some sig \<Longrightarrow>
      length sig = 65 \<longrightarrow> sig ! 64 < 4 \<and> (\<exists>pub. PrivateToPublic E k = Some pub \<and>
        Option.bind (ParsePubKey E pub) (UnmarshalPubkey E) = SigToPub E d sig \<and> SigToPub E d sig \<noteq> None)"
    and signed: "SignTypedDataJSON E k json = Inr sig"
  shows "\<exists>digest pub. HashTypedDataJSON E json = Inr digest \<and> PrivateToPublic E k = Some pub \<and>
    RecoverAddress E digest sig = PublicKey2Address E pub \<and> isOk (RecoverAddress E digest sig) \<and>
    27 \<le> sig ! 64 \<and> sig ! 64 < 31"
proof -
  obtain digest raw where d: "HashTypedDataJSON E json = Inr digest" and raw: "SignEVM E k digest = Some raw" "length raw = 65"
    and sig: "sig = (if raw ! 64 < 27 then raw[64 := raw ! 64 + 27] else raw)"
    using signed by (auto simp: SignTypedDataJSON_def andThen_eq_Inr require_def split: if_splits)
  obtain pub where small: "raw ! 64 < 4" and pub: "PrivateToPublic E k = Some pub"
    "Option.bind (ParsePubKey E pub) (UnmarshalPubkey E) = SigToPub E digest raw" "SigToPub E digest raw \<noteq> None"
    using curve [OF raw(1)] raw(2) by blast
  have "unat (raw ! 64) < 4" using small by (simp add: word_less_nat_alt)
  then have "unat (raw ! 64 + 27) = unat (raw ! 64) + 27" by (simp add: unat_word_ariths)
  then have high: "27 \<le> raw ! 64 + 27" "raw ! 64 + 27 < 31" "raw ! 64 < 27"
    using \<open>unat (raw ! 64) < 4\<close> by (simp_all add: word_less_nat_alt word_le_nat_alt)
  then have sig': "sig = raw[64 := raw ! 64 + 27]" by (simp add: sig)
  obtain p where p: "SigToPub E digest raw = Some p" using pub(3) by auto
  then obtain u where u: "ParsePubKey E pub = Some u" "UnmarshalPubkey E u = Some p"
    using pub(2) by (auto simp: Option.bind_eq_Some_conv)
  have "(raw[64 := raw ! 64 + 27])[64 := raw ! 64 + 27 - 27] = raw" using raw(2) by simp
  then have "RecoverAddress E digest sig = Inr (address_hex E (PubkeyToAddress E p))"
    using high raw(2) p by (simp add: sig' RecoverAddress_def)
  moreover have "PublicKey2Address E pub = Inr (address_hex E (PubkeyToAddress E p))"
    using u by (simp add: PublicKey2Address_def)
  ultimately show ?thesis using d pub(1) high raw(2) by (simp add: isOk_def sig')
qed

section \<open>What is signed is what is sent\<close>

lemma evm_BuildD:
  assumes "Build E tx = (tx', Inr ())" "TheIngredient tx = Some i"
  obtains chainID utx b where "build_tx E i (network tx) = Inr (chainID, utx)"
    "MarshalBinary E (NewTx E utx) = Some b"
    "tx' = \<lparr>TheIngredient = Some i, network = network tx, unsignedHex = hex_encode b,
       sigHash = [hex_encode (LondonHash E chainID (NewTx E utx))], txHash = []\<rparr>"
proof -
  let ?tx = "tx\<lparr>sigHash := [], unsignedHex := [], txHash := []\<rparr>"
  obtain b h where r: "build_result E ?tx = Inr (b, h)"
    and tx': "tx' = ?tx\<lparr>unsignedHex := hex_encode b, sigHash := [hex_encode h]\<rparr>"
    using assms(1) by (auto simp: Build_def Let_def split: sum.splits)
  obtain chainID utx where "build_tx E i (network tx) = Inr (chainID, utx)" "MarshalBinary E (NewTx E utx) = Some b"
    "h = LondonHash E chainID (NewTx E utx)"
    using r assms(2) by (auto simp: build_result_def andThen_eq_Inr)
  then show ?thesis using tx' assms(2) by (intro that) (cases tx, auto)
qed

lemma evm_build_txD:
  assumes "build_tx E i net = Inr (chainID, utx)"
  obtains call where "valid_ingredient E i" "chain_id net = Inr chainID" "call_of E i = Inr call"
    "price_tx i chainID (parsed_u64 (Nonce i)) (parsed_u64 (GasLimit i)) call = Inr utx"
proof -
  have "\<exists>call. valid_ingredient E i \<and> chain_id net = Inr chainID \<and> call_of E i = Inr call \<and>
    price_tx i chainID (parsed_u64 (Nonce i)) (parsed_u64 (GasLimit i)) call = Inr utx"
    using assms by (auto simp: build_tx_def andThen_eq_Inr)
  then show ?thesis using that by blast
qed

text \<open>The parts of the transaction that do not depend on how it is priced.\<close>

fun tx_to :: "UnsignedTx \<Rightarrow> bytes" where
  "tx_to (LegacyTx _ _ _ to _ _) = to"
| "tx_to (DynamicFeeTx _ _ to _ _ _ _ _) = to"

fun tx_value :: "UnsignedTx \<Rightarrow> int option" where
  "tx_value (LegacyTx _ _ _ _ v _) = v"
| "tx_value (DynamicFeeTx _ _ _ v _ _ _ _) = v"

fun tx_data :: "UnsignedTx \<Rightarrow> bytes" where
  "tx_data (LegacyTx _ _ _ _ _ d) = d"
| "tx_data (DynamicFeeTx _ _ _ _ _ _ _ d) = d"

fun tx_nonce :: "UnsignedTx \<Rightarrow> u64" where
  "tx_nonce (LegacyTx n _ _ _ _ _) = n"
| "tx_nonce (DynamicFeeTx _ n _ _ _ _ _ _) = n"

text \<open>No more than the cap is ever tipped, and every price is positive.\<close>

fun tx_priced :: "UnsignedTx \<Rightarrow> bool" where
  "tx_priced (LegacyTx _ p _ _ _ _) \<longleftrightarrow> 0 < p"
| "tx_priced (DynamicFeeTx _ _ _ _ _ cap tip _) \<longleftrightarrow> 0 < tip \<and> tip \<le> cap"

lemma read_price_pos: "valid_bigint_gt0 s \<Longrightarrow> 0 < read_price s"
  by (auto simp: read_price_def valid_bigint_gt0_def split: option.splits if_split_asm)

lemma valid_prices:
  assumes "valid_ingredient E i"
  shows "GasPrice i \<noteq> [] \<Longrightarrow> 0 < read_price (GasPrice i)" "GasTipCap i \<noteq> [] \<Longrightarrow> 0 < read_price (GasTipCap i)"
  using assms by (simp_all add: valid_ingredient_def read_price_pos)

lemma price_txD:
  assumes "price_tx i chainID nonce gas (to, v, d) = Inr utx" "valid_ingredient E i"
  shows "tx_to utx = to \<and> tx_value utx = v \<and> tx_data utx = d \<and> tx_nonce utx = nonce \<and> tx_priced utx"
  using assms(1) valid_prices [OF assms(2)]
  by (simp add: price_tx_def Let_def split: if_split_asm) (safe; simp)+

lemma transfer_callD:
  assumes "transfer_call E i = Inr (to, v, d)" "equal_fold (ContractAddress i) MagicContactAddressForNative"
  obtains n where "big_SetString (Amount i) = Some n" "v = Some n" "to = hex_to_address E (Recipient i)"
    "\<not> equal_fold (Recipient i) MagicContactAddressForNative" "Recipient i \<noteq> []"
    "if Memo i = [] then d = [] else hex_decode (strings_TrimPrefix (Memo i) ''0x'') = Some d"
  using assms by (auto simp: transfer_call_def andThen_eq_Inr split: if_splits)

lemma evm_ConcatSignatureD:
  assumes "ConcatSignature E tx signature False = (tx', Inr out)"
  obtains b ntx sigb chainID stx sb where "hex_decode (unsignedHex tx) = Some b" "UnmarshalBinary E b = Some ntx"
    "hex_decode signature = Some sigb" "chain_id (network tx) = Inr chainID"
    "WithSignature E ntx chainID sigb = Some stx" "MarshalBinary E stx = Some sb" "out = hex_encode sb"
    "txHash tx' = TxHashHex E stx"
proof -
  from assms obtain stx where
    stx: "andThen (orErr HexInvalid (hex_decode (unsignedHex tx))) (\<lambda>unsignedBytes.
        andThen (orErr UnmarshalFailed (UnmarshalBinary E unsignedBytes)) (\<lambda>ntx.
        andThen (require (\<not> False) DerUnsupported) (\<lambda>_.
        andThen (orErr HexInvalid (hex_decode signature)) (\<lambda>sigBytes.
        andThen (chain_id (network tx)) (\<lambda>chainID.
          orErr BadSignature (WithSignature E ntx chainID sigBytes)))))) = Inr stx"
    and tx': "tx' = tx\<lparr>txHash := TxHashHex E stx\<rparr>"
      "map_sum id hex_encode (orErr MarshalFailed (MarshalBinary E stx)) = Inr out"
    by (auto simp: ConcatSignature_def split: sum.splits)
  obtain sb where "MarshalBinary E stx = Some sb" "out = hex_encode sb"
    using tx'(2) by (cases "MarshalBinary E stx") auto
  then show ?thesis using stx tx'(1) that by (auto simp: andThen_eq_Inr require_def)
qed


section \<open>Samples\<close>

text \<open>
  A curve whose one signature is of 64 ones and recovers to the key \<open>[4]\<close>, typed data without a
  content, and transactions that are told apart by their signature only.
\<close>

definition sample_evm_ingredient :: Ingredient where
  "sample_evm_ingredient =
     \<lparr>TxType = ''0'', ContractAddress = MagicContactAddressForNative, Sender = ''0x01'', Recipient = ''0x02'',
      Amount = ''7'', Payload = [], Memo = [], Nonce = ''5'', GasPrice = ''9'', GasFeeCap = [], GasTipCap = [],
      GasLimit = ''8'', IsLegacyTx = ''true''\<rparr>"

definition sample_evm_env :: "(bytes option, unit) evm_env" where
  "sample_evm_env =
     \<lparr>Token = sample_tokens, ParsePubKey = Some, UnmarshalPubkey = Some,
      PubkeyToAddress = \<lambda>_. replicate 20 1, SigToPub = \<lambda>_ s. if s = replicate 65 1 then Some [4] else None,
      IsHexAddress = \<lambda>_. True, Keccak256 = \<lambda>_. replicate 32 0, PrivateToPublic = \<lambda>_. Some [4],
      SignEVM = \<lambda>_ _. Some (replicate 65 1), json_MarshalCall = \<lambda>_. [], NewTx = \<lambda>_. None,
      MarshalBinary = \<lambda>t. Some (case t of None \<Rightarrow> [2] | Some s \<Rightarrow> 3 # s),
      UnmarshalBinary = \<lambda>b. if b = [2] then Some None else if b \<noteq> [] \<and> hd b = 3 then Some (Some (tl b)) else None,
      LondonHash = \<lambda>_ _. replicate 32 0, WithSignature = \<lambda>_ _ s. Some (Some s),
      TxHashHex = \<lambda>_. ''0xaa'', json_TypedData = \<lambda>_. Some (), PrimaryType = \<lambda>_. ''Order'',
      HashDomain = \<lambda>_. Some [5], HashMessage = \<lambda>_. Some [6]\<rparr>"

definition sample_evm_built :: TxBuilder where
  "sample_evm_built = \<lparr>TheIngredient = Some sample_evm_ingredient, network = ''1'', unsignedHex = hex_encode [2],
     sigHash = [hex_encode (replicate 32 0)], txHash = []\<rparr>"

lemma sample_evm_env_simps [simp]:
  "ParsePubKey sample_evm_env = Some" "UnmarshalPubkey sample_evm_env = Some"
  "SigToPub sample_evm_env d s = (if s = replicate 65 1 then Some [4] else None)"
  "IsHexAddress sample_evm_env a" "Keccak256 sample_evm_env b = replicate 32 0"
  "PrivateToPublic sample_evm_env k = Some [4]" "SignEVM sample_evm_env k d = Some (replicate 65 1)"
  "NewTx sample_evm_env u = None"
  "MarshalBinary sample_evm_env t = Some (case t of None \<Rightarrow> [2] | Some s \<Rightarrow> 3 # s)"
  "UnmarshalBinary sample_evm_env b =
     (if b = [2] then Some None else if b \<noteq> [] \<and> hd b = 3 then Some (Some (tl b)) else None)"
  "LondonHash sample_evm_env c t = replicate 32 0" "WithSignature sample_evm_env t c s' = Some (Some s')"
  "TxHashHex sample_evm_env t = ''0xaa''" "json_TypedData sample_evm_env b = Some ()"
  "PrimaryType sample_evm_env x = ''Order''" "HashDomain sample_evm_env x = Some [5]"
  "HashMessage sample_evm_env x = Some [6]"
  by (simp_all add: sample_evm_env_def)

theorem domain_separator_binds_witness:
  "(''a'' = ''a'' \<and> ''1'' = ''1'' \<and> \<bar>sint (5 :: 64 word)\<bar> = \<bar>sint (- 5 :: 64 word)\<bar> \<and>
      replicate 20 (0 :: u8) = replicate 20 0) \<or>
   (\<exists>x y. x \<noteq> y \<and> Keccak256 sample_evm_env x = Keccak256 sample_evm_env y)"
  by (rule domain_separator_binds) (simp_all add: EIP712DomainSeparator_def Let_def)

lemma sample_typed_signature:
  "SignTypedDataJSON sample_evm_env [7] [] = Inr ((replicate 65 1)[64 := 28])"
  by (simp add: SignTypedDataJSON_def HashTypedDataJSON_def)

theorem typed_data_signature_recovers_witness:
  "\<exists>digest pub. HashTypedDataJSON sample_evm_env [] = Inr digest \<and> PrivateToPublic sample_evm_env [7] = Some pub \<and>
    RecoverAddress sample_evm_env digest ((replicate 65 1)[64 := 28]) = PublicKey2Address sample_evm_env pub \<and>
    isOk (RecoverAddress sample_evm_env digest ((replicate 65 1)[64 := 28])) \<and>
    27 \<le> ((replicate 65 1)[64 := 28] :: bytes) ! 64 \<and> ((replicate 65 1)[64 := 28] :: bytes) ! 64 < 31"
  by (rule typed_data_signature_recovers [OF _ sample_typed_signature]) auto

lemma sample_valid_evm: "valid_ingredient sample_evm_env sample_evm_ingredient"
  by (simp add: valid_ingredient_def sample_evm_ingredient_def ValidAddress_def TxTypes_def
      valid_u64_def valid_u64_gt0_def valid_bool_str_def MagicContactAddressForNative_def
      valid_bigint_gt0_def valid_bigint_gte0_def
      ParseUint_def big_SetString_def digit_of_def fromHexChar_def char_nat_def Let_def)

lemma sample_build_evm: "Build sample_evm_env (NewTxBuilder (Some sample_evm_ingredient) ''1'') = (sample_evm_built, Inr ())"
proof -
  have "equal_fold (ContractAddress sample_evm_ingredient) MagicContactAddressForNative"
    "\<not> equal_fold (Recipient sample_evm_ingredient) MagicContactAddressForNative"
    by (auto simp: equal_fold_def sample_evm_ingredient_def MagicContactAddressForNative_def dest: arg_cong [where f = length])
  then have "call_of sample_evm_env sample_evm_ingredient = Inr (hex_to_address sample_evm_env ''0x02'', Some 7, [])"
    unfolding call_of_def transfer_call_def
    by (simp add: sample_evm_ingredient_def big_SetString_def digit_of_def char_nat_def Let_def)
  moreover have "chain_id ''1'' = Inr 1"
    by (simp add: chain_id_def ParseInt_def ParseUint_def digit_of_def char_nat_def Let_def)
  ultimately have "\<exists>u. build_tx sample_evm_env sample_evm_ingredient ''1'' = Inr (1, u)"
    using sample_valid_evm
    by (auto simp: build_tx_def price_tx_def sample_evm_ingredient_def)
  then show ?thesis
    by (auto simp: Build_def build_result_def NewTxBuilder_def sample_evm_built_def)
qed

lemma sample_concat_evm:
  "ConcatSignature sample_evm_env sample_evm_built ''ff'' False =
     (sample_evm_built\<lparr>txHash := ''0xaa''\<rparr>, Inr (hex_encode [3, 255]))"
proof -
  have "hex_decode (unsignedHex sample_evm_built) = Some [2]"
    unfolding sample_evm_built_def by (simp only: TxBuilder.simps hex_decode_encode)
  moreover have "chain_id (network sample_evm_built) = Inr 1"
    by (simp add: sample_evm_built_def chain_id_def ParseInt_def ParseUint_def digit_of_def char_nat_def Let_def)
  ultimately show ?thesis
    by (simp add: ConcatSignature_def fromHexChar_def char_nat_def Let_def)
qed


end
