(* ===== verification/EvmFees.thy ===== *)
theory EvmFees
  imports GoLib
begin

text \<open>
  \<open>signing/evm/fee.go\<close>: the fee tiers suggested for a transaction and the check that a balance covers
  the fee. The multiplication of a big integer by a floating-point constant is modelled as the
  standard library computes it: exactly, then rounded to the precision of the integer, then cut. A
  pointer that is nil is \<open>None\<close>.
\<close>

section \<open>Types\<close>

record Fee =
  BaseFee :: string
  PriorityFee :: string
  MaxFeeCap :: string
  GasPrice :: string

record FeeTiers =
  Slow :: "Fee option"
  Avg :: "Fee option"
  Fast :: "Fee option"

datatype fee_error =
  InvalidGasPrice | InvalidBaseFee | InvalidTipCap | InvalidFloorTipCap | NilGasPrice | NilFee
| InvalidGasLimit | InvalidBalance | InvalidMaxFeeCap | InvalidL1Fee

definition no_tiers :: FeeTiers where
  "no_tiers = \<lparr>Slow = None, Avg = None, Fast = None\<rparr>"

section \<open>Big integers times floating-point constants\<close>

text \<open>
  The constants as double-precision numbers, each a numerator over \<open>2 ^ 52\<close>. The product of such a
  number with an integer of \<open>max (length, 64)\<close> bits is rounded to that many bits, to the nearest and
  on a tie to the even one.
\<close>

fun bit_len :: "nat \<Rightarrow> nat" where
  "bit_len n = (if n = 0 then 0 else Suc (bit_len (n div 2)))"

declare bit_len.simps [simp del]

definition round_half_even :: "nat \<Rightarrow> nat \<Rightarrow> nat" where
  "round_half_even n s =
     (let q = n div 2 ^ s; r = n mod 2 ^ s
      in if 2 * r > 2 ^ s \<or> (2 * r = 2 ^ s \<and> odd q) then q + 1 else q)"

definition round_bits :: "nat \<Rightarrow> nat \<Rightarrow> nat" where
  "round_bits p n = (let s = bit_len n - p in round_half_even n s * 2 ^ s)"

definition mul_float :: "nat \<Rightarrow> nat \<Rightarrow> nat" where
  "mul_float x m = round_bits (max (bit_len x) 64) (x * m) div 2 ^ 52"

definition mulIntFloat :: "int \<Rightarrow> nat \<Rightarrow> int" where
  "mulIntFloat x m = sgn x * int (mul_float (nat \<bar>x\<bar>) m)"

definition f0_8 :: nat where "f0_8 = 3602879701896397"
definition f1_80 :: nat where "f1_80 = 8106479329266893"
definition f1_42 :: nat where "f1_42 = 6395111470866104"
definition f1_125 :: nat where "f1_125 = 5066549580791808"
definition f1_5 :: nat where "f1_5 = 6755399441055744"

section \<open>Suggestions\<close>

definition maxInt :: "int option \<Rightarrow> int option \<Rightarrow> int option" where
  "maxInt a b =
     (case (a, b) of
        (None, _) \<Rightarrow> b
      | (_, None) \<Rightarrow> a
      | (Some m, Some n) \<Rightarrow> if m \<ge> n then Some m else Some n)"

definition safeCap :: "int \<Rightarrow> int \<Rightarrow> int \<Rightarrow> int" where
  "safeCap projectedBase tip base =
     (let cap1 = projectedBase + tip; minCap = base + tip
      in if cap1 < minCap then minCap else cap1)"

definition legacy_fee :: "int \<Rightarrow> Fee" where
  "legacy_fee g = \<lparr>BaseFee = [], PriorityFee = [], MaxFeeCap = [], GasPrice = Itoa g\<rparr>"

definition suggestLegacy :: "int option \<Rightarrow> fee_error + FeeTiers" where
  "suggestLegacy gasPrice =
     (case gasPrice of
        None \<Rightarrow> Inl NilGasPrice
      | Some g \<Rightarrow>
          Inr \<lparr>Slow = Some (legacy_fee (mulIntFloat g f0_8)), Avg = Some (legacy_fee g),
            Fast = Some (legacy_fee (mulIntFloat g f1_5))\<rparr>)"

definition fee_1559 :: "int \<Rightarrow> int \<Rightarrow> int \<Rightarrow> Fee" where
  "fee_1559 base tip maxCap =
     \<lparr>BaseFee = Itoa base, PriorityFee = Itoa tip, MaxFeeCap = Itoa maxCap, GasPrice = []\<rparr>"

definition tip_of :: "int \<Rightarrow> int \<Rightarrow> int" where
  "tip_of tip floorTipCap = the (maxInt (Some tip) (Some floorTipCap))"

definition suggest1559 :: "int \<Rightarrow> int \<Rightarrow> int \<Rightarrow> fee_error + FeeTiers" where
  "suggest1559 baseFee nodeTip floorTipCap =
     (if nodeTip = 0 then
        (let fee = fee_1559 baseFee floorTipCap (baseFee + floorTipCap)
         in Inr \<lparr>Slow = Some fee, Avg = Some fee, Fast = Some fee\<rparr>)
      else
        (let bSlow = mulIntFloat baseFee f1_80;
             bAvg = mulIntFloat baseFee f1_42;
             bFast = mulIntFloat baseFee f1_125;
             tSlow = tip_of (mulIntFloat nodeTip f0_8) floorTipCap;
             tAvg = tip_of nodeTip floorTipCap;
             tFast = tip_of (mulIntFloat nodeTip f1_5) floorTipCap;
             cSlow = safeCap bSlow tSlow baseFee;
             cAvg = safeCap bAvg tAvg baseFee;
             cFast = safeCap bFast tFast baseFee
         in Inr \<lparr>Slow = Some (fee_1559 baseFee tSlow cSlow), Avg = Some (fee_1559 baseFee tAvg cAvg),
              Fast = Some (fee_1559 baseFee tFast cFast)\<rparr>))"

definition SuggestFees :: "string \<Rightarrow> string \<Rightarrow> string \<Rightarrow> string \<Rightarrow> bool \<Rightarrow> fee_error + FeeTiers" where
  "SuggestFees baseFeeStr tipCapStr floorTipCapStr gasPriceStr isLegacy =
     (if isLegacy then
        andThen (orErr InvalidGasPrice (big_SetString gasPriceStr)) (\<lambda>gasPrice. suggestLegacy (Some gasPrice))
      else
        andThen (orErr InvalidBaseFee (big_SetString baseFeeStr)) (\<lambda>baseFee.
        andThen (orErr InvalidTipCap (big_SetString tipCapStr)) (\<lambda>tipCap.
        andThen (orErr InvalidFloorTipCap (big_SetString floorTipCapStr)) (\<lambda>floorTipCap.
          suggest1559 baseFee tipCap floorTipCap))))"

definition GuaranteeNativeAmt :: "Fee option \<Rightarrow> string \<Rightarrow> string \<Rightarrow> string \<Rightarrow> bool \<Rightarrow> fee_error + bool" where
  "GuaranteeNativeAmt fee gasLimitStr nativeBalStr l1FeeStr isLegacy =
     andThen (orErr NilFee fee) (\<lambda>fee.
     andThen (orErr InvalidGasLimit (big_SetString gasLimitStr)) (\<lambda>gasLimit.
     andThen (orErr InvalidBalance (big_SetString nativeBalStr)) (\<lambda>nativeBal.
     andThen
       (if isLegacy then orErr InvalidGasPrice (big_SetString (GasPrice fee))
        else orErr InvalidMaxFeeCap (big_SetString (MaxFeeCap fee))) (\<lambda>price.
     andThen (if l1FeeStr \<noteq> [] then orErr InvalidL1Fee (big_SetString l1FeeStr) else Inr 0) (\<lambda>l1Fee.
       Inr (nativeBal \<ge> price * gasLimit + l1Fee))))))"

section \<open>Rounding\<close>

lemma bit_len_less: "n < 2 ^ bit_len n"
proof (induction n rule: bit_len.induct)
  case (1 n)
  show ?case
  proof (cases "n = 0")
    case False
    then have "n div 2 < 2 ^ bit_len (n div 2)" using 1 by simp
    then have "n < 2 * 2 ^ bit_len (n div 2)" by linarith
    then show ?thesis using False by (subst bit_len.simps) simp
  qed simp
qed

lemma bit_len_le: "n < 2 ^ k \<Longrightarrow> bit_len n \<le> k"
proof (induction k arbitrary: n)
  case 0
  then show ?case by (simp add: bit_len.simps)
next
  case (Suc k)
  then have "n div 2 < 2 ^ k" by (simp add: div_less_iff_less_mult mult.commute)
  from Suc.IH [OF this] show ?case by (subst bit_len.simps) simp
qed

text \<open>Rounding never passes an integer.\<close>

lemma round_half_even_le: "n \<le> k * 2 ^ s \<Longrightarrow> round_half_even n s \<le> k"
proof -
  assume le: "n \<le> k * 2 ^ s"
  have n: "n = n div 2 ^ s * 2 ^ s + n mod 2 ^ s" by (rule div_mult_mod_eq [symmetric])
  have "n div 2 ^ s \<le> k" using le by (metis div_le_mono nonzero_mult_div_cancel_right power_not_zero zero_neq_numeral)
  moreover have "n div 2 ^ s = k \<Longrightarrow> n mod 2 ^ s = 0" using le n by (metis add_le_same_cancel1 le_zero_eq)
  ultimately show ?thesis
    by (cases "n div 2 ^ s = k") (auto simp: round_half_even_def Let_def)
qed

lemma round_half_even_ge: "k * 2 ^ s \<le> n \<Longrightarrow> k \<le> round_half_even n s"
proof -
  assume "k * 2 ^ s \<le> n"
  then have "k \<le> n div 2 ^ s" by (simp add: less_eq_div_iff_mult_less_eq)
  then show ?thesis by (auto simp: round_half_even_def Let_def)
qed

lemma product_bits: "m < 2 ^ 53 \<Longrightarrow> bit_len (x * m) - max (bit_len x) 64 \<le> 53"
proof -
  assume "m < 2 ^ 53"
  then have "x * m < 2 ^ bit_len x * 2 ^ 53" using bit_len_less [of x] by (intro mult_strict_mono) auto
  also have "\<dots> = 2 ^ (bit_len x + 53)" by (simp only: power_add)
  finally have "bit_len (x * m) \<le> bit_len x + 53" by (rule bit_len_le)
  then show ?thesis by linarith
qed

lemma mul_float_le: "m \<le> 2 ^ 52 \<Longrightarrow> mul_float x m \<le> x"
proof -
  assume m: "m \<le> 2 ^ 52"
  define s where "s = bit_len (x * m) - max (bit_len x) 64"
  have "x * m \<le> x * 2 ^ 52" using m by (rule mult_le_mono2)
  also have "\<dots> < 2 ^ bit_len x * 2 ^ 52" using bit_len_less [of x] by simp
  finally have "x * m < 2 ^ bit_len x * 2 ^ 52" .
  then have "bit_len (x * m) \<le> bit_len x + 52" by (intro bit_len_le) (simp only: power_add)
  then have s: "s \<le> 52" by (simp add: s_def)
  then have pow: "(2 :: nat) ^ 52 = 2 ^ (52 - s) * 2 ^ s" by (simp flip: power_add)
  have "x * m \<le> x * (2 ^ (52 - s) * 2 ^ s)" using m pow by (metis mult_le_mono2)
  then have "round_half_even (x * m) s \<le> x * 2 ^ (52 - s)" by (intro round_half_even_le) (simp only: mult.assoc)
  then have "round_half_even (x * m) s * 2 ^ s \<le> x * 2 ^ (52 - s) * 2 ^ s" by (rule mult_le_mono1)
  then have "round_half_even (x * m) s * 2 ^ s div 2 ^ 52 \<le> x * 2 ^ 52 div 2 ^ 52"
    by (intro div_le_mono) (simp only: pow mult.assoc)
  then show ?thesis by (simp add: mul_float_def round_bits_def Let_def flip: s_def)
qed

text \<open>The constant \<open>m\<close> is at least one and a half, so the last bit rounded away does no harm.\<close>

lemma mul_float_ge: "3 * 2 ^ 51 \<le> m \<Longrightarrow> m < 2 ^ 53 \<Longrightarrow> x \<le> mul_float x m"
proof -
  assume m: "3 * 2 ^ 51 \<le> m" "m < 2 ^ 53"
  define s where "s = bit_len (x * m) - max (bit_len x) 64"
  have s: "s \<le> 53" using product_bits [OF m(2), of x] by (simp add: s_def)
  have eq: "mul_float x m = round_half_even (x * m) s * 2 ^ s div 2 ^ 52"
    by (simp add: mul_float_def round_bits_def Let_def flip: s_def)
  show ?thesis
  proof (cases "s \<le> 52")
    case True
    then have pow: "(2 :: nat) ^ 52 = 2 ^ (52 - s) * 2 ^ s" by (simp flip: power_add)
    have "x * 2 ^ 52 \<le> x * m" using m(1) by (intro mult_le_mono2) simp
    then have "x * 2 ^ (52 - s) * 2 ^ s \<le> x * m" by (simp only: pow mult.assoc)
    then have "x * 2 ^ (52 - s) \<le> round_half_even (x * m) s" by (rule round_half_even_ge)
    then have "x * 2 ^ (52 - s) * 2 ^ s \<le> round_half_even (x * m) s * 2 ^ s" by (rule mult_le_mono1)
    then have "x * 2 ^ 52 \<le> round_half_even (x * m) s * 2 ^ s" by (simp only: pow mult.assoc)
    then show ?thesis unfolding eq by (simp add: less_eq_div_iff_mult_less_eq)
  next
    case False
    then have s53: "s = 53" using s by simp
    have "2 \<le> x"
    proof (rule ccontr)
      assume "\<not> 2 \<le> x"
      then have "x = 0 \<or> x = 1" by linarith
      then have "bit_len (x * m) \<le> 53" using bit_len_le [OF m(2)] by (auto simp: bit_len.simps [of 0])
      then show False using s53 by (simp add: s_def)
    qed
    have "3 * x div 4 * 2 ^ 53 \<le> x * (3 * 2 ^ 51)" by simp
    also have "\<dots> \<le> x * m" using m(1) by (rule mult_le_mono2)
    finally have "3 * x div 4 \<le> round_half_even (x * m) 53" by (rule round_half_even_ge)
    moreover have "x \<le> 2 * (3 * x div 4)" using \<open>2 \<le> x\<close> by presburger
    ultimately have "x \<le> 2 * round_half_even (x * m) 53" by linarith
    then show ?thesis unfolding eq s53 by simp
  qed
qed

lemma mulIntFloat_0_8: "0 \<le> x \<Longrightarrow> 0 \<le> mulIntFloat x f0_8 \<and> mulIntFloat x f0_8 \<le> x"
  using mul_float_le [of f0_8 "nat x"] by (cases "x = 0") (auto simp: mulIntFloat_def f0_8_def sgn_if)

lemma mulIntFloat_1_5: "0 \<le> x \<Longrightarrow> x \<le> mulIntFloat x f1_5"
  using mul_float_ge [of f1_5 "nat x"] by (cases "x = 0") (auto simp: mulIntFloat_def f1_5_def sgn_if)

lemma safeCap_bounds: "base + tip \<le> safeCap b tip base" "b + tip \<le> safeCap b tip base"
  by (auto simp: safeCap_def Let_def)

lemma tip_of_max: "tip_of a b = max a b"
  by (simp add: tip_of_def maxInt_def)

text \<open>
  The fees suggested for a transaction with a base fee are usable: for amounts that are not
  negative there are three tiers, their tips are at least the floor and rise from slow over average to
  fast, and each cap pays the current base fee and the tip.
\<close>

theorem suggested_fees_usable:
  assumes "big_SetString base = Some b" "big_SetString tip = Some t" "big_SetString floor = Some f"
    and "0 \<le> b" "0 \<le> t" "0 \<le> f"
  shows "\<exists>ts ta tf cs ca cf. SuggestFees base tip floor gp False =
      Inr \<lparr>Slow = Some (fee_1559 b ts cs), Avg = Some (fee_1559 b ta ca), Fast = Some (fee_1559 b tf cf)\<rparr> \<and>
    f \<le> ts \<and> ts \<le> ta \<and> ta \<le> tf \<and> b + ts \<le> cs \<and> b + ta \<le> ca \<and> b + tf \<le> cf"
proof (cases "t = 0")
  case True
  then have "SuggestFees base tip floor gp False = Inr \<lparr>Slow = Some (fee_1559 b f (b + f)),
      Avg = Some (fee_1559 b f (b + f)), Fast = Some (fee_1559 b f (b + f))\<rparr>"
    using assms by (simp add: SuggestFees_def suggest1559_def Let_def)
  then show ?thesis by blast
next
  case False
  let ?ts = "tip_of (mulIntFloat t f0_8) f" and ?ta = "tip_of t f" and ?tf = "tip_of (mulIntFloat t f1_5) f"
  have "SuggestFees base tip floor gp False =
      Inr \<lparr>Slow = Some (fee_1559 b ?ts (safeCap (mulIntFloat b f1_80) ?ts b)),
        Avg = Some (fee_1559 b ?ta (safeCap (mulIntFloat b f1_42) ?ta b)),
        Fast = Some (fee_1559 b ?tf (safeCap (mulIntFloat b f1_125) ?tf b))\<rparr>"
    using False assms by (simp add: SuggestFees_def suggest1559_def Let_def)
  moreover have "f \<le> ?ts" "?ts \<le> ?ta" "?ta \<le> ?tf"
    using mulIntFloat_0_8 [OF assms(5)] mulIntFloat_1_5 [OF assms(5)] by (auto simp: tip_of_max max_def)
  ultimately show ?thesis using safeCap_bounds(1) by blast
qed

theorem suggested_fees_usable_witness:
  "\<exists>ts ta tf cs ca cf. SuggestFees ''10'' ''2'' ''1'' [] False =
      Inr \<lparr>Slow = Some (fee_1559 10 ts cs), Avg = Some (fee_1559 10 ta ca), Fast = Some (fee_1559 10 tf cf)\<rparr> \<and>
    1 \<le> ts \<and> ts \<le> ta \<and> ta \<le> tf \<and> 10 + ts \<le> cs \<and> 10 + ta \<le> ca \<and> 10 + tf \<le> cf"
  by (rule suggested_fees_usable [where t = 2])
     (simp_all add: big_SetString_def digit_of_def char_nat_def)

text \<open>The fee a balance is checked against: the price of all the gas, and the fee of the layer below.\<close>

lemma guarantee_covers:
  assumes "GuaranteeNativeAmt (Some fee) gas bal l1 legacy = Inr True"
  shows "\<exists>g b p l. big_SetString gas = Some g \<and> big_SetString bal = Some b \<and>
    big_SetString (if legacy then GasPrice fee else MaxFeeCap fee) = Some p \<and>
    l = (if l1 = [] then 0 else the (big_SetString l1)) \<and> p * g + l \<le> b"
  using assms by (auto simp: GuaranteeNativeAmt_def andThen_eq_Inr split: if_splits)

end
