(* ===== verification/Keys.thy ===== *)
theory Keys
  imports Bip39 Bip32 Substrate
begin

text \<open>
  \<open>crypto/key\<close>: private keys from mnemonics (\<open>privatekey.go\<close>), public keys (\<open>publickey.go\<close>) and
  signatures (\<open>sign.go\<close>). The curves, the Merlin transcript and BLAKE2b are the fields of a record of
  functions; a mini secret key of schnorrkel is \<open>'s\<close>. Seeds and derivation paths of ECDSA and
  Ed25519 keys are those of the models of \<open>crypto/bip\<close>.
\<close>

section \<open>Libraries and errors\<close>

text \<open>
  \<open>ExpandedScalar\<close> is the encoding of the secret key a mini secret key expands to, \<open>Extract\<close> a
  transcript with the given label and messages and the number of bytes taken from it under a label.
\<close>

record 's key_env =
  Stretch :: "bytes \<Rightarrow> bytes \<Rightarrow> nat \<Rightarrow> nat \<Rightarrow> bytes"
  Nfkd :: "string \<Rightarrow> string"
  Words :: wordlist
  Secp :: ecc
  CompressedOfPrivate :: "bytes \<Rightarrow> bytes"
  ToECDSA :: "bytes \<Rightarrow> bytes option"
  SignRecoverable :: "bytes \<Rightarrow> bytes \<Rightarrow> bytes option"
  VerifyCompact :: "bytes \<Rightarrow> bytes \<Rightarrow> bytes \<Rightarrow> bool"
  SignDer :: "bytes \<Rightarrow> bytes \<Rightarrow> bytes"
  VerifyDer :: "bytes \<Rightarrow> bytes \<Rightarrow> bytes \<Rightarrow> bool"
  SchnorrSign :: "bytes \<Rightarrow> bytes \<Rightarrow> bytes option"
  SchnorrVerify :: "bytes \<Rightarrow> bytes \<Rightarrow> bytes \<Rightarrow> bool"
  NewKeyFromSeed :: "bytes \<Rightarrow> bytes"
  Ed25519Sign :: "bytes \<Rightarrow> bytes \<Rightarrow> bytes"
  Ed25519Verify :: "bytes \<Rightarrow> bytes \<Rightarrow> bytes \<Rightarrow> bool"
  MiniSecret :: "bytes \<Rightarrow> 's option"
  MiniBytes :: "'s \<Rightarrow> bytes"
  ExpandedScalar :: "'s \<Rightarrow> bytes"
  MiniPublic :: "'s \<Rightarrow> bytes option"
  MiniSign :: "'s \<Rightarrow> bytes \<Rightarrow> bytes \<Rightarrow> bytes option"
  Sr25519Verify :: "bytes \<Rightarrow> bytes \<Rightarrow> bytes \<Rightarrow> bytes \<Rightarrow> bool"
  Extract :: "string \<Rightarrow> (bytes \<times> bytes) list \<Rightarrow> bytes \<Rightarrow> nat \<Rightarrow> bytes"
  Blake2b256 :: "bytes \<Rightarrow> bytes"

datatype key_error =
  MnemonicRequired | SeedError bip39_error | PathFailed bip32_error | MiniSecretInvalid
| OnlyHardDerivation string | InvalidKeyLength nat | NotECDSA | SigningFailed | NoPublicKey

section \<open>Private keys\<close>

definition DerivePrivateKeyECDSA :: "'s key_env \<Rightarrow> string \<Rightarrow> string \<Rightarrow> key_error + bytes" where
  "DerivePrivateKeyECDSA E mnemonic path =
     andThen (require (mnemonic \<noteq> []) MnemonicRequired) (\<lambda>_.
     andThen (mapErr SeedError (NewSeedWithErrorChecking (Stretch E) (Nfkd E) (Words E) mnemonic [])) (\<lambda>seed.
     andThen (mapErr PathFailed (SeedToKeyForECDSA (Secp E) seed path)) (\<lambda>k. Inr (Key k))))"

definition DerivePrivateKeyED25519 :: "'s key_env \<Rightarrow> string \<Rightarrow> string \<Rightarrow> key_error + bytes" where
  "DerivePrivateKeyED25519 E mnemonic path =
     andThen (require (mnemonic \<noteq> []) MnemonicRequired) (\<lambda>_.
     andThen (mapErr SeedError (NewSeedWithErrorChecking (Stretch E) (Nfkd E) (Words E) mnemonic [])) (\<lambda>seed.
     andThen (mapErr PathFailed (SeedToKeyForED25519 (Secp E) seed path)) (\<lambda>k. Inr (Key k))))"

text \<open>The index of the first occurrence of a text, for a text that is not empty.\<close>

fun strings_Index :: "string \<Rightarrow> string \<Rightarrow> nat option" where
  "strings_Index [] sub = None"
| "strings_Index (c # s) sub =
     (if strings_HasPrefix (c # s) sub then Some 0 else map_option Suc (strings_Index s sub))"

function parseSubstratePath :: "string \<Rightarrow> (string \<Rightarrow> bytes) \<Rightarrow> key_error + bytes list" where
  "parseSubstratePath path junctionID =
     (if path = [] then Inr []
      else if \<not> strings_HasPrefix path ''//'' then Inl (OnlyHardDerivation path)
      else
        case (case strings_Index (drop 2 path) ''/'' of
                None \<Rightarrow> (drop 2 path, [])
              | Some end \<Rightarrow> (take end (drop 2 path), drop end (drop 2 path))) of
          (name, rest) \<Rightarrow>
            andThen (parseSubstratePath rest junctionID) (\<lambda>junctions. Inr (junctionID name # junctions)))"
  by pat_completeness auto
termination
  by (relation "measure (\<lambda>(path, _). length path)")
     (auto simp: strings_HasPrefix_def split: option.splits)

declare parseSubstratePath.simps [simp del]

text \<open>The loop that drops leading zero bytes, down to four bytes.\<close>

function compact_size :: "bytes \<Rightarrow> nat \<Rightarrow> nat" where
  "compact_size le n = (if n > 4 \<and> le ! (n - 1) = 0 then compact_size le (n - 1) else n)"
  by pat_completeness auto
termination
  by (relation "measure (\<lambda>(_, n). n)") auto

declare compact_size.simps [simp del]

definition scaleCompactLength :: "u64 \<Rightarrow> bytes" where
  "scaleCompactLength n =
     (if n < 2 ^ 6 then [ucast (push_bit 2 n)]
      else if n < 2 ^ 14 then
        let v = ucast (push_bit 2 n) OR 1 :: u16 in [ucast v, ucast (drop_bit 8 v)]
      else if n < 2 ^ 30 then
        let v = ucast (push_bit 2 n) OR 2 :: u32
        in [ucast v, ucast (drop_bit 8 v), ucast (drop_bit 16 v), ucast (drop_bit 24 v)]
      else
        let le = le_bytes 8 (unat n); k = compact_size le 8
        in (word_of_nat (push_bit 2 (k - 4)) OR 3) # take k le)"

text \<open>A number is written in its first eight bytes, other text from the front.\<close>

definition substrateJunctionID :: "'s key_env \<Rightarrow> string \<Rightarrow> bytes" where
  "substrateJunctionID E name =
     (case ParseUint 64 name of
        (n, None) \<Rightarrow> copy_array 32 (le_bytes 8 n)
      | (_, Some _) \<Rightarrow>
          let b = bytes_of_string name
          in if length b > 32 then Blake2b256 E b else copy_array 32 b)"

definition substrateJunctionIDStandard :: "'s key_env \<Rightarrow> string \<Rightarrow> bytes" where
  "substrateJunctionIDStandard E name =
     (case ParseUint 64 name of
        (n, None) \<Rightarrow> copy_array 32 (le_bytes 8 n)
      | (_, Some _) \<Rightarrow>
          let encoded = scaleCompactLength (word_of_nat (length name)) @ bytes_of_string name
          in if length encoded > 32 then Blake2b256 E encoded else copy_array 32 encoded)"

definition substrateHardDerive :: "'s key_env \<Rightarrow> 's \<Rightarrow> bytes \<Rightarrow> key_error + 's" where
  "substrateHardDerive E ms junctionID =
     orErr MiniSecretInvalid
       (MiniSecret E (copy_array 32
         (Extract E ''SchnorrRistrettoHDKD''
           [(bytes_of_string ''sign-bytes'', []), (bytes_of_string ''chain-code'', junctionID),
            (bytes_of_string ''secret-key'', take 32 (ExpandedScalar E ms))]
           (bytes_of_string ''HDKD-hard'') 32)))"

definition derivePrivateKeySR25519 ::
  "'s key_env \<Rightarrow> string \<Rightarrow> string \<Rightarrow> (string \<Rightarrow> bytes) \<Rightarrow> key_error + bytes"
where
  "derivePrivateKeySR25519 E mnemonic path junctionID =
     andThen (require (mnemonic \<noteq> []) MnemonicRequired) (\<lambda>_.
     andThen (mapErr SeedError (NewSeedFromMnemonicSr25519 (Stretch E) (Words E) mnemonic [])) (\<lambda>seed.
     andThen (orErr MiniSecretInvalid (MiniSecret E (copy_array 32 (take 32 seed)))) (\<lambda>ms.
       if path = [] then Inr (MiniBytes E ms)
       else
         andThen (parseSubstratePath path junctionID) (\<lambda>junctions.
         andThen (foldM (substrateHardDerive E) ms junctions) (\<lambda>ms. Inr (MiniBytes E ms))))))"

definition DerivePrivateKeySR25519 :: "'s key_env \<Rightarrow> string \<Rightarrow> string \<Rightarrow> key_error + bytes" where
  "DerivePrivateKeySR25519 E mnemonic path = derivePrivateKeySR25519 E mnemonic path (substrateJunctionID E)"

definition DerivePrivateKeySR25519Standard :: "'s key_env \<Rightarrow> string \<Rightarrow> string \<Rightarrow> key_error + bytes" where
  "DerivePrivateKeySR25519Standard E mnemonic path =
     derivePrivateKeySR25519 E mnemonic path (substrateJunctionIDStandard E)"

section \<open>Public keys\<close>

text \<open>A private key of Ed25519 is the seed and the public key; \<open>Public\<close> copies the second half.\<close>

definition ed25519PrivateKey :: "'s key_env \<Rightarrow> bytes \<Rightarrow> key_error + bytes" where
  "ed25519PrivateKey E b =
     (if length b = 32 then Inr (NewKeyFromSeed E b)
      else if length b = 64 then Inr b
      else Inl (InvalidKeyLength (length b)))"

definition PrivateKey2PublicKeyECDSA :: "'s key_env \<Rightarrow> bytes \<Rightarrow> key_error + bytes" where
  "PrivateKey2PublicKeyECDSA E privateKey = Inr (CompressedOfPrivate E privateKey)"

definition PrivateKey2PublicKeyED25519 :: "'s key_env \<Rightarrow> bytes \<Rightarrow> key_error + bytes" where
  "PrivateKey2PublicKeyED25519 E privateKey =
     andThen (ed25519PrivateKey E privateKey) (\<lambda>sk. Inr (drop 32 sk))"

definition PrivateKey2PublicKeySR25519 :: "'s key_env \<Rightarrow> bytes \<Rightarrow> key_error + bytes" where
  "PrivateKey2PublicKeySR25519 E privateKey =
     andThen (orErr MiniSecretInvalid (MiniSecret E (copy_array 32 privateKey))) (\<lambda>ms.
       orErr NoPublicKey (MiniPublic E ms))"

section \<open>Signatures\<close>

definition SignWithPrivateKeyECDSAForEVM :: "'s key_env \<Rightarrow> bytes \<Rightarrow> bytes \<Rightarrow> key_error + bytes" where
  "SignWithPrivateKeyECDSAForEVM E privateKeyBytes d =
     andThen (orErr NotECDSA (ToECDSA E privateKeyBytes)) (\<lambda>ecdsaKey.
       orErr SigningFailed (SignRecoverable E ecdsaKey d))"

definition VerifySignatureECDSAForEVM :: "'s key_env \<Rightarrow> bytes \<Rightarrow> bytes \<Rightarrow> bytes \<Rightarrow> bool" where
  "VerifySignatureECDSAForEVM E publicKeyBytes d signature \<longleftrightarrow>
     (if length signature < 65 then False
      else VerifyCompact E publicKeyBytes d (take (length signature - 1) signature))"

definition SignWithPrivateKeyECDSAForUTXO :: "'s key_env \<Rightarrow> bytes \<Rightarrow> bytes \<Rightarrow> key_error + bytes" where
  "SignWithPrivateKeyECDSAForUTXO E privateKeyBytes d = Inr (SignDer E privateKeyBytes d)"

definition VerifySignatureECDSAForUTXO :: "'s key_env \<Rightarrow> bytes \<Rightarrow> bytes \<Rightarrow> bytes \<Rightarrow> bool" where
  "VerifySignatureECDSAForUTXO E publicKey d sig \<longleftrightarrow> VerifyDer E publicKey d sig"

definition SignWithPrivateKeyED25519 :: "'s key_env \<Rightarrow> bytes \<Rightarrow> bytes \<Rightarrow> key_error + bytes" where
  "SignWithPrivateKeyED25519 E privateKeyBytes d =
     andThen (ed25519PrivateKey E privateKeyBytes) (\<lambda>sk. Inr (Ed25519Sign E sk d))"

definition VerifySignatureED25519 :: "'s key_env \<Rightarrow> bytes \<Rightarrow> bytes \<Rightarrow> bytes \<Rightarrow> bool" where
  "VerifySignatureED25519 E publicKeyBytes d signature \<longleftrightarrow>
     (if length publicKeyBytes \<noteq> 32 then False else Ed25519Verify E publicKeyBytes d signature)"

definition SignWithPrivateKeySchnorr :: "'s key_env \<Rightarrow> bytes \<Rightarrow> bytes \<Rightarrow> key_error + bytes" where
  "SignWithPrivateKeySchnorr E privateKeyBytes d = orErr SigningFailed (SchnorrSign E privateKeyBytes d)"

definition VerifySignatureSchnorr :: "'s key_env \<Rightarrow> bytes \<Rightarrow> bytes \<Rightarrow> bytes \<Rightarrow> bool" where
  "VerifySignatureSchnorr E publicKey d sig \<longleftrightarrow> SchnorrVerify E publicKey d sig"

definition SignWithPrivateKeySR25519 :: "'s key_env \<Rightarrow> bytes \<Rightarrow> bytes \<Rightarrow> key_error + bytes" where
  "SignWithPrivateKeySR25519 E privateKeyBytes d =
     andThen (orErr MiniSecretInvalid (MiniSecret E (copy_array 32 privateKeyBytes))) (\<lambda>ms.
       orErr SigningFailed (MiniSign E ms (bytes_of_string ''substrate'') d))"

definition VerifySignatureSR25519 :: "'s key_env \<Rightarrow> bytes \<Rightarrow> bytes \<Rightarrow> bytes \<Rightarrow> bool" where
  "VerifySignatureSR25519 E publicKey d sig \<longleftrightarrow>
     Sr25519Verify E (copy_array 32 publicKey) (bytes_of_string ''substrate'') d (copy_array 64 sig)"

section \<open>Paths\<close>

text \<open>The text a list of names is written as.\<close>

definition hard_path :: "string list \<Rightarrow> string" where
  "hard_path names = concat (map (\<lambda>name. ''//'' @ name) names)"

lemma index_slash:
  "(case strings_Index s ''/'' of None \<Rightarrow> (s, []) | Some end \<Rightarrow> (take end s, drop end s)) =
     (takeWhile (\<lambda>c. c \<noteq> CHR ''/'') s, dropWhile (\<lambda>c. c \<noteq> CHR ''/'') s)"
  by (induction s) (auto simp: strings_HasPrefix_def split: option.splits)

lemma parseSubstratePath_step:
  "parseSubstratePath path j =
     (if path = [] then Inr []
      else if \<not> strings_HasPrefix path ''//'' then Inl (OnlyHardDerivation path)
      else andThen (parseSubstratePath (dropWhile (\<lambda>c. c \<noteq> CHR ''/'') (drop 2 path)) j) (\<lambda>js.
        Inr (j (takeWhile (\<lambda>c. c \<noteq> CHR ''/'') (drop 2 path)) # js)))"
  by (subst parseSubstratePath.simps) (simp add: index_slash)

lemma hard_path_start: "hard_path names = [] \<or> hd (hard_path names) = CHR ''/''"
  by (cases names) (simp_all add: hard_path_def)

lemma parse_hard_path:
  assumes "\<And>n. n \<in> set names \<Longrightarrow> CHR ''/'' \<notin> set n"
  shows "parseSubstratePath (hard_path names) j = Inr (map j names)"
  using assms
proof (induction names)
  case Nil
  then show ?case by (subst parseSubstratePath_step) (simp add: hard_path_def)
next
  case (Cons n ns)
  have path: "hard_path (n # ns) = ''//'' @ n @ hard_path ns" by (simp add: hard_path_def)
  have "\<forall>c\<in>set n. c \<noteq> CHR ''/''" using Cons.prems by auto
  then have "takeWhile (\<lambda>c. c \<noteq> CHR ''/'') (n @ hard_path ns) = n"
    "dropWhile (\<lambda>c. c \<noteq> CHR ''/'') (n @ hard_path ns) = hard_path ns"
    using hard_path_start [of ns] by (cases "hard_path ns"; simp add: takeWhile_append2 dropWhile_append2)+
  then show ?case
    using Cons by (subst parseSubstratePath_step) (simp add: path strings_HasPrefix_def)
qed

lemma parsed_is_hard_path:
  "parseSubstratePath path j = Inr js \<Longrightarrow>
     \<exists>names. path = hard_path names \<and> (\<forall>n\<in>set names. CHR ''/'' \<notin> set n) \<and> js = map j names"
proof (induction "length path" arbitrary: path js rule: less_induct)
  case less
  show ?case
  proof (cases "path = []")
    case True
    then have "js = []" using less.prems by (subst (asm) parseSubstratePath_step) simp
    then show ?thesis using True by (intro exI [of _ "[]"]) (simp add: hard_path_def)
  next
    case False
    let ?name = "takeWhile (\<lambda>c. c \<noteq> CHR ''/'') (drop 2 path)"
    let ?rest = "dropWhile (\<lambda>c. c \<noteq> CHR ''/'') (drop 2 path)"
    have prefix: "strings_HasPrefix path ''//''"
      using less.prems False by (subst (asm) parseSubstratePath_step) (simp split: if_splits)
    then obtain js' where js': "parseSubstratePath ?rest j = Inr js'" "js = j ?name # js'"
      using less.prems False by (subst (asm) parseSubstratePath_step) (auto simp: andThen_eq_Inr)
    have "length ?rest < length path"
      using False by (metis length_dropWhile_le length_drop diff_less le_less_trans length_greater_0_conv zero_less_numeral)
    then obtain names where names: "?rest = hard_path names" "\<forall>n\<in>set names. CHR ''/'' \<notin> set n" "js' = map j names"
      using less.hyps js'(1) by blast
    have "path = take 2 path @ drop 2 path" by simp
    also have "take 2 path = ''//''" using prefix by (auto simp: strings_HasPrefix_def numeral_2_eq_2)
    also have "drop 2 path = ?name @ ?rest" by simp
    finally have "path = hard_path (?name # names)" by (simp add: hard_path_def names(1))
    moreover have "CHR ''/'' \<notin> set ?name" by (auto dest: set_takeWhileD)
    ultimately show ?thesis using names js'(2) by (intro exI [of _ "?name # names"]) simp
  qed
qed

text \<open>
  C34: The parser of derivation paths accepts exactly the paths that are written as names without a
  slash, each after two slashes, and gives the junctions of the names in order; an empty name counts.
\<close>

theorem substrate_path_parses:
  "parseSubstratePath path j = Inr js \<longleftrightarrow>
     (\<exists>names. path = concat (map (\<lambda>n. ''//'' @ n) names) \<and> (\<forall>n\<in>set names. CHR ''/'' \<notin> set n) \<and> js = map j names)"
  using parsed_is_hard_path [of path j js] parse_hard_path [of _ j] by (auto simp: hard_path_def)

theorem substrate_path_parses_witness:
  "parseSubstratePath ''//a//0'' (\<lambda>n. bytes_of_string n) = Inr [[97], [48]]"
  using substrate_path_parses [of "''//a//0''" "\<lambda>n. bytes_of_string n" "[[97], [48]]"]
  by (auto intro!: exI [of _ "[''a'', ''0'']"] simp: bytes_of_string_def)

section \<open>Junctions\<close>

lemma compact_size_trim:
  assumes "4 \<le> length xs" "length xs = 4 \<or> last xs \<noteq> 0" "k \<le> m"
  shows "compact_size (xs @ replicate m 0) (length xs + k) = length xs"
  using assms(3)
proof (induction k)
  case 0
  have "(xs @ replicate m 0) ! (length xs - 1) = last xs" using assms(1) by (cases xs) (auto simp: last_conv_nth nth_append)
  then show ?case using assms by (subst compact_size.simps) auto
next
  case (Suc k)
  then have "(xs @ replicate m 0) ! (length xs + k) = 0" by (simp add: nth_append)
  then show ?case using Suc assms(1) by (subst compact_size.simps) simp
qed

lemma le_bytes_0 [simp]: "le_bytes k 0 = replicate k 0"
  by (induction k) simp_all

lemma le_bytes_big_Bytes:
  "n < 256 ^ k \<Longrightarrow> le_bytes k n = rev (big_Bytes n) @ replicate (k - length (big_Bytes n)) 0"
proof (induction k arbitrary: n)
  case (Suc k)
  then have "n div 256 < 256 ^ k" by (simp add: less_mult_imp_div_less mult.commute)
  then show ?case using Suc.IH [of "n div 256"]
    by (cases "n = 0") (simp_all add: big_Bytes_def big_Bytes_le.simps [of n] big_Bytes_le.simps [of 0])
qed (simp add: big_Bytes_def big_Bytes_le.simps)

lemma hd_big_Bytes: "0 < n \<Longrightarrow> hd (big_Bytes n) \<noteq> 0"
proof (induction n rule: big_Bytes_le.induct)
  case (1 n)
  show ?case
  proof (cases "n div 256 = 0")
    case True
    then have "unat (word_of_nat n :: u8) = n" using "1.prems" by (simp add: unat_word_of_nat_u8)
    then have "(word_of_nat n :: u8) \<noteq> 0" using "1.prems" by auto
    then show ?thesis using True "1.prems"
      by (simp add: big_Bytes_def big_Bytes_le.simps [of n] big_Bytes_le.simps [of 0])
  next
    case False
    then have "big_Bytes_le (n div 256) \<noteq> []" by (subst big_Bytes_le.simps) simp
    then show ?thesis using "1.IH" "1.prems" False
      by (simp add: big_Bytes_def big_Bytes_le.simps [of n] hd_append)
  qed
qed

lemma ucast_shifted: "LENGTH('a) \<le> 64 \<Longrightarrow> (ucast (push_bit 2 (n :: u64)) :: 'a::len word) = push_bit 2 (word_of_nat (unat n))"
proof -
  assume "LENGTH('a) \<le> 64"
  then have "(ucast (push_bit 2 n) :: 'a word) = push_bit 2 (ucast n)" by (intro bit_word_eqI) (auto simp: bit_simps)
  then show ?thesis by simp
qed

lemma compact_big:
  assumes "2 ^ 30 \<le> n" "n < 256 ^ 8"
  shows "take (compact_size (le_bytes 8 n) 8) (le_bytes 8 n) = rev (big_Bytes n)"
    and "compact_size (le_bytes 8 n) 8 = length (big_Bytes n)"
proof -
  have "(256 :: nat) ^ 3 \<le> 2 ^ 30" by simp
  then have four: "4 \<le> length (big_Bytes n)" using length_big_Bytes_pos [of 3 n] assms(1) by linarith
  have eight: "length (big_Bytes n) \<le> 8" using length_big_Bytes [OF assms(2)] .
  have "last (rev (big_Bytes n)) \<noteq> 0" using hd_big_Bytes [of n] assms(1) by (simp add: last_rev)
  then have "compact_size (rev (big_Bytes n) @ replicate (8 - length (big_Bytes n)) 0) 8 = length (big_Bytes n)"
    using compact_size_trim [of "rev (big_Bytes n)" "8 - length (big_Bytes n)" "8 - length (big_Bytes n)"] four eight
    by simp
  then show "compact_size (le_bytes 8 n) 8 = length (big_Bytes n)"
    "take (compact_size (le_bytes 8 n) 8) (le_bytes 8 n) = rev (big_Bytes n)"
    by (simp_all add: le_bytes_big_Bytes [OF assms(2)])
qed

text \<open>
  The length prefix of a junction's name is the compact encoding that extrinsics use, on every
  64-bit number.
\<close>

theorem scale_compact_length_is_compact: "scaleCompactLength n = encodeCompact (uint n)"
proof -
  let ?u = "unat n"
  have u: "nat (uint n) = ?u" by simp
  have less: "n < 64 \<longleftrightarrow> ?u < 64" "n < 16384 \<longleftrightarrow> ?u < 16384" "n < 1073741824 \<longleftrightarrow> ?u < 1073741824"
    by (simp_all add: word_less_nat_alt)
  have bound: "?u < 256 ^ 8" using unsigned_less [of n, where ?'a = nat] by simp
  consider "n = 0" | "n \<noteq> 0" "?u < 2 ^ 30" | "2 ^ 30 \<le> ?u" by linarith
  then show ?thesis
  proof cases
    case 1
    then show ?thesis by (simp add: scaleCompactLength_def encodeCompact_def)
  next
    case 2
    then have "0 < uint n" using u by (metis nat_0_iff not_le unat_eq_0)
    then show ?thesis using 2
      by (simp add: scaleCompactLength_def encodeCompact_def less u ucast_shifted Let_def)
  next
    case 3
    then have "n \<noteq> 0" by auto
    then have "0 < uint n" using u by (metis nat_0_iff not_le unat_eq_0)
    then show ?thesis using 3 compact_big [OF 3 bound]
      by (simp add: scaleCompactLength_def encodeCompact_def less u Let_def of_nat_or_eq)
  qed
qed

text \<open>A name that is not a number and fits its junction.\<close>

definition short_name :: "string \<Rightarrow> bool" where
  "short_name n \<longleftrightarrow> snd (ParseUint 64 n) \<noteq> None \<and> length n \<le> 31"

lemma standard_junction:
  assumes "short_name n"
  shows "substrateJunctionIDStandard E n = push_bit 2 (word_of_nat (length n)) # copy_array 31 (bytes_of_string n)"
proof -
  obtain v e where "ParseUint 64 n = (v, Some e)" using assms by (cases "ParseUint 64 n") (auto simp: short_name_def)
  moreover have l: "unat (word_of_nat (length n) :: u64) = length n" using assms by (simp add: short_name_def unat_of_nat)
  moreover have "scaleCompactLength (word_of_nat (length n)) = [push_bit 2 (word_of_nat (length n))]"
    using assms l ucast_shifted [of "word_of_nat (length n)", where 'a = 8]
    by (simp add: scaleCompactLength_def word_less_nat_alt short_name_def)
  moreover have "length (bytes_of_string n) = length n" by (simp add: bytes_of_string_def)
  ultimately show ?thesis
    using assms by (simp add: substrateJunctionIDStandard_def short_name_def copy_array_def Let_def)
qed

text \<open>
  Junctions of the standard coding tell names apart: of names that are no numbers and have at most
  31 bytes, two with the same junction are equal.
\<close>

theorem standard_junctions_differ:
  assumes "short_name a" "short_name b" "substrateJunctionIDStandard E a = substrateJunctionIDStandard E b"
  shows "a = b"
proof -
  have byte: "unat (push_bit 2 (word_of_nat (length n)) :: u8) = 4 * length n" if "short_name n" for n
    using that unat_tagged [of "length n" 0, where 'a = 8] by (simp add: short_name_def)
  have eq: "(push_bit 2 (word_of_nat (length a)) :: u8) = push_bit 2 (word_of_nat (length b))"
    "copy_array 31 (bytes_of_string a) = copy_array 31 (bytes_of_string b)"
    using assms by (simp_all add: standard_junction)
  then have len: "length a = length b" using byte assms(1,2) by (metis mult_cancel1 zero_neq_numeral)
  have "take (length a) (copy_array 31 (bytes_of_string n)) = bytes_of_string n" if "length n = length a" for n
    using that assms(1) by (simp add: copy_array_def short_name_def bytes_of_string_def)
  then show ?thesis using eq(2) len by (metis bytes_of_string_inject)
qed

lemma names_parse:
  "snd (ParseUint 64 ''a'') \<noteq> None" "snd (ParseUint 64 [CHR ''a'', CHR 0x00]) \<noteq> None" "ParseUint 64 ''97'' = (97, None)"
  by (simp_all add: ParseUint_def digit_of_def char_nat_def)

theorem standard_junctions_differ_witness:
  "short_name ''a'' \<and> short_name [CHR ''a'', CHR 0x00] \<and>
   (\<forall>E :: unit key_env. substrateJunctionIDStandard E ''a'' \<noteq> substrateJunctionIDStandard E [CHR ''a'', CHR 0x00])"
  using standard_junctions_differ [of "''a''" "[CHR ''a'', CHR 0x00]"] names_parse by (auto simp: short_name_def)

text \<open>
  The other coding does not: a name and the name with a zero byte appended have the same junction, and
  so have a name of one byte and the number of that byte.
\<close>

lemma text_junction:
  assumes "short_name n"
  shows "substrateJunctionID E n = copy_array 32 (bytes_of_string n)"
proof -
  obtain v e where "ParseUint 64 n = (v, Some e)" using assms by (cases "ParseUint 64 n") (auto simp: short_name_def)
  then show ?thesis using assms by (simp add: substrateJunctionID_def short_name_def)
qed

lemma copy_array_zeros: "length b + k \<le> n \<Longrightarrow> copy_array n (b @ replicate k 0) = copy_array n b"
  by (simp add: copy_array_def flip: replicate_add)

lemma junctions_collide:
  "substrateJunctionID E ''a'' = substrateJunctionID E [CHR ''a'', CHR 0x00]"
  "substrateJunctionID E ''a'' = substrateJunctionID E ''97''"
proof -
  have "substrateJunctionID E ''a'' = copy_array 32 [97]"
    "substrateJunctionID E [CHR ''a'', CHR 0x00] = copy_array 32 [97, 0]"
    "substrateJunctionID E ''97'' = copy_array 32 (le_bytes 8 97)"
    using text_junction [of "''a''"] text_junction [of "[CHR ''a'', CHR 0x00]"] names_parse
    by (simp_all add: short_name_def bytes_of_string_def substrateJunctionID_def [of _ "''97''"])
  moreover have "copy_array 32 [97, 0] = copy_array 32 [97 :: u8]" using copy_array_zeros [of "[97]" 1 32] by simp
  moreover have "le_bytes 8 97 = le_bytes (Suc 7) 97" by simp
  then have "le_bytes 8 97 = [97] @ replicate 7 0" by (simp only: le_bytes.simps le_bytes_0) simp
  then have "copy_array 32 (le_bytes 8 97) = copy_array 32 [97]" using copy_array_zeros [of "[97]" 7 32] by simp
  ultimately show "substrateJunctionID E ''a'' = substrateJunctionID E [CHR ''a'', CHR 0x00]"
    "substrateJunctionID E ''a'' = substrateJunctionID E ''97''"
    by simp_all
qed

end
