(* ===== verification/Starknet.thy ===== *)
theory Starknet
  imports Poseidon Validator Sha256
begin

text \<open>
  \<open>signing/starknet\<close>: addresses and key grinding (\<open>utils.go\<close>), the hash of an invoke transaction of
  version 3 (\<open>v3hash.go\<close>) and the builder (\<open>tx.go\<close>). The Stark curve with its Pedersen hash, the
  selectors and JSON are the fields of a record of functions. The receiver of a method and its
  ingredient are not nil.
\<close>

section \<open>Types\<close>

record resBoundJSON =
  max_amount :: string
  max_price_per_unit :: string

record v3JSON =
  j_Type :: string
  j_SenderAddress :: string
  j_Calldata :: "string list"
  j_Version :: string
  j_Signature :: "string list"
  j_Nonce :: string
  j_L1Gas :: resBoundJSON
  j_L1DataGas :: resBoundJSON
  j_L2Gas :: resBoundJSON
  j_Tip :: string
  j_PaymasterData :: "string list"
  j_AccountDeploymentData :: "string list"
  j_NonceDataMode :: string
  j_FeeMode :: string

record Ingredient =
  TxType :: string
  ContractAddress :: string
  Sender :: string
  SenderPublicKey :: string
  Recipient :: string
  Amount :: string
  Nonce :: string
  L1GasMaxAmount :: string
  L1GasMaxPrice :: string
  L1DataGasMaxAmount :: string
  L1DataGasMaxPrice :: string
  L2GasMaxAmount :: string
  L2GasMaxPrice :: string
  Tip :: string

record TxBuilder =
  TheIngredient :: Ingredient
  unsignedHex :: string
  sigHash :: "string list"
  txHash :: string

record starknet_env =
  curve_N :: nat
  PedersenElements :: "int list \<Rightarrow> int option"
  CurveSign :: "int \<Rightarrow> int \<Rightarrow> (int \<times> int) option"
  GetSelectorFromName :: "string \<Rightarrow> int"
  json_Marshal :: "v3JSON \<Rightarrow> bytes option"
  json_Unmarshal :: "bytes \<Rightarrow> v3JSON option"

datatype starknet_error =
  HashFailed | GrindFailed | TransferOnly | ContractRequired | BadSender | BadRecipient | BadContract
| BadAmount | BadNonce | BadBound | OutOfRange | MarshalFailed | NotBuilt | NilHash | SignFailed
| HexInvalid | UnmarshalFailed | InvalidSignature | FillBytesPanic

section \<open>Numbers as text\<close>

text \<open>\<open>SetString (s, 16)\<close>: an optional sign, then digits of either case to the end.\<close>

fun hex_value :: "nat \<Rightarrow> string \<Rightarrow> nat option" where
  "hex_value n [] = Some n"
| "hex_value n (c # s) = (case fromHexChar c of None \<Rightarrow> None | Some d \<Rightarrow> hex_value (16 * n + d) s)"

definition big_SetString16 :: "string \<Rightarrow> int option" where
  "big_SetString16 s =
     (case s of
        [] \<Rightarrow> None
      | c # cs \<Rightarrow>
        let digits = (if c = CHR ''+'' \<or> c = CHR ''-'' then cs else s)
        in if digits = [] then None
           else map_option (\<lambda>n. if c = CHR ''-'' then - int n else int n) (hex_value 0 digits))"

definition hexToBig :: "string \<Rightarrow> int option" where
  "hexToBig s = big_SetString16 (strings_TrimPrefix s ''0x'')"

definition hx :: "int \<Rightarrow> string" where
  "hx n = ''0x'' @ Sprintf_x n"

definition bigsToHex :: "int list \<Rightarrow> string list" where
  "bigsToHex xs = map hx xs"

section \<open>Addresses and keys\<close>

definition argentXproxyClassHashContract :: int where
  "argentXproxyClassHashContract = 0x25ec026985a3bf9d0cc1fe17326b245dfdc3ff89b8fde106542a3ea56c5a918"

definition argentXaccountClassHashContract :: int where
  "argentXaccountClassHashContract = 0x033434ad846cdd5f23eb73ff09fe6fddd568284a0fb7d1be20ee482f044dabe2"

definition contractAddressPrefix :: int where
  "contractAddressPrefix = 0x535441524b4e45545f434f4e54524143545f41444452455353"

definition compileArgent :: "starknet_env \<Rightarrow> int \<Rightarrow> string \<Rightarrow> int list \<Rightarrow> int list" where
  "compileArgent E implementation selector calldata =
     [implementation, GetSelectorFromName E selector, int (length calldata)] @ calldata"

definition expandAddress :: "string \<Rightarrow> string" where
  "expandAddress address =
     (let rest = strings_TrimPrefix address ''0x''
      in if length rest < 64 then ''0x'' @ replicate (64 - length rest) (CHR ''0'') @ rest else address)"

definition PublicKey2Address :: "starknet_env \<Rightarrow> bytes \<Rightarrow> starknet_error + string" where
  "PublicKey2Address E publicKey =
     (let pubKey = int (be_val publicKey);
          constructorCallData = compileArgent E argentXaccountClassHashContract ''initialize'' [pubKey, 0]
      in andThen (orErr HashFailed (PedersenElements E constructorCallData)) (\<lambda>constructorCalldataHash.
         andThen (orErr HashFailed (PedersenElements E
             [contractAddressPrefix, 0, pubKey, argentXproxyClassHashContract, constructorCalldataHash])) (\<lambda>address.
           Inr (expandAddress (''0x'' @ Sprintf_x address)))))"

definition ValidAddress :: "string \<Rightarrow> bool" where
  "ValidAddress address \<longleftrightarrow>
     (if length address \<noteq> 66 \<or> take 2 address \<noteq> ''0x'' then False else list_all hex_char (drop 2 address))"

text \<open>The number hashed in round \<open>i\<close>: an odd number of digits loses its last one in \<open>DecodeString\<close>.\<close>

definition grind_candidate :: "bytes \<Rightarrow> nat \<Rightarrow> nat" where
  "grind_candidate seed i =
     (let iHex = (if length (hex_digits i) = 1 then CHR ''0'' # hex_digits i else hex_digits i)
      in be_val (sha256 (seed @ hex_decoded_bytes iHex)))"

definition grind_limit :: "starknet_env \<Rightarrow> nat" where
  "grind_limit E = 2 ^ 256 - 2 ^ 256 mod curve_N E"

text \<open>The loop has no condition; \<open>None\<close> would be a loop that never returns.\<close>

partial_function (option) grind_loop :: "starknet_env \<Rightarrow> bytes \<Rightarrow> nat \<Rightarrow> (starknet_error + bytes) option" where
  "grind_loop E seed i =
     (if grind_candidate seed i < grind_limit E
      then Some (Inr (big_Bytes (grind_candidate seed i mod curve_N E)))
      else if i = 100000 then Some (Inl GrindFailed)
      else grind_loop E seed (i + 1))"

definition grindKey :: "starknet_env \<Rightarrow> bytes \<Rightarrow> (starknet_error + bytes) option" where
  "grindKey E seed = grind_loop E seed 0"

section \<open>The hash of an invoke transaction\<close>

record resourceBound =
  rb_name :: string
  maxAmount :: int
  maxPrice :: int

text \<open>\<open>Uint64 ()\<close> keeps the low 64 bits; \<open>FillBytes\<close> panics when the number does not fit.\<close>

definition pack :: "resourceBound \<Rightarrow> int option" where
  "pack rb =
     (if 256 ^ 16 \<le> maxPrice rb then None
      else Some (int (be_val ([0] @ bytes_of_string (rb_name rb) @ be_bytes 8 (nat (maxAmount rb)) @
             be_bytes 16 (nat (maxPrice rb))))))"

definition shortStringFelt :: "string \<Rightarrow> int" where
  "shortStringFelt s = int (be_val (bytes_of_string s))"

definition v3InvokeHash ::
  "int \<Rightarrow> int \<Rightarrow> int \<Rightarrow> int list \<Rightarrow> resourceBound \<Rightarrow> resourceBound \<Rightarrow> resourceBound \<Rightarrow> u64 \<Rightarrow> int option"
where
  "v3InvokeHash sender nonce chainID calldata l1 l2 l1data tip =
     (case (pack l1, pack l2, pack l1data) of
        (Some p1, Some p2, Some p1data) \<Rightarrow>
          let tipAndResources = poseidonHashMany [uint tip, p1, p2, p1data]
          in Some (poseidonHashMany
               [shortStringFelt ''invoke'', 3, sender, tipAndResources, poseidonHashMany [], chainID, nonce, 0,
                poseidonHashMany [], poseidonHashMany calldata])
      | _ \<Rightarrow> None)"

section \<open>The builder\<close>

definition ethContractAddress :: string where
  "ethContractAddress = ''0x049d36570d4e46f48e99674bd3fcc84644ddd6b96f7c741b1562b82f9e004dc7''"

definition snMainChainID :: int where "snMainChainID = 0x534e5f4d41494e"

definition mask128 :: int where "mask128 = push_bit 128 1 - 1"

definition NewTxBuilder :: "Ingredient \<Rightarrow> TxBuilder" where
  "NewTxBuilder ti = \<lparr>TheIngredient = ti, unsignedHex = [], sigHash = [], txHash = []\<rparr>"

definition dec_bound :: "string \<Rightarrow> starknet_error + int" where
  "dec_bound s =
     (if s = [] then Inr 0
      else andThen (orErr BadBound (big_SetString s)) (\<lambda>n.
        if n < 0 \<or> 2 ^ 128 \<le> \<bar>n\<bar> then Inl OutOfRange else Inr n))"

text \<open>Once a text is refused the later ones are not read.\<close>

definition bounds ::
  "Ingredient \<Rightarrow> starknet_error + resourceBound \<times> resourceBound \<times> resourceBound \<times> u64"
where
  "bounds i =
     andThen (dec_bound (L1GasMaxAmount i)) (\<lambda>l1a. andThen (dec_bound (L1GasMaxPrice i)) (\<lambda>l1p.
     andThen (dec_bound (L2GasMaxAmount i)) (\<lambda>l2a. andThen (dec_bound (L2GasMaxPrice i)) (\<lambda>l2p.
     andThen (dec_bound (L1DataGasMaxAmount i)) (\<lambda>da. andThen (dec_bound (L1DataGasMaxPrice i)) (\<lambda>dp.
     andThen (dec_bound (Tip i)) (\<lambda>tip.
       Inr (\<lparr>rb_name = ''L1_GAS'', maxAmount = l1a, maxPrice = l1p\<rparr>,
            \<lparr>rb_name = ''L2_GAS'', maxAmount = l2a, maxPrice = l2p\<rparr>,
            \<lparr>rb_name = ''L1_DATA'', maxAmount = da, maxPrice = dp\<rparr>, word_of_int tip))))))))"

definition bound_json :: "resourceBound \<Rightarrow> resBoundJSON" where
  "bound_json rb = \<lparr>max_amount = hx (maxAmount rb), max_price_per_unit = hx (maxPrice rb)\<rparr>"

definition transfer_calldata :: "starknet_env \<Rightarrow> int \<Rightarrow> int \<Rightarrow> int \<Rightarrow> int list" where
  "transfer_calldata E contract recipient amount =
     [1, contract, GetSelectorFromName E ''transfer'', 0, 3, 3, recipient, amount AND mask128, drop_bit 128 amount]"

definition tx_json ::
  "int \<Rightarrow> int \<Rightarrow> int list \<Rightarrow> resourceBound \<Rightarrow> resourceBound \<Rightarrow> resourceBound \<Rightarrow> u64 \<Rightarrow> v3JSON"
where
  "tx_json sender nonce calldata l1 l2 l1data tip =
     \<lparr>j_Type = ''INVOKE'', j_SenderAddress = hx sender, j_Calldata = bigsToHex calldata, j_Version = ''0x3'',
      j_Signature = [], j_Nonce = hx nonce, j_L1Gas = bound_json l1, j_L1DataGas = bound_json l1data,
      j_L2Gas = bound_json l2, j_Tip = hx (uint tip), j_PaymasterData = [], j_AccountDeploymentData = [],
      j_NonceDataMode = ''L1'', j_FeeMode = ''L1''\<rparr>"

text \<open>The hash and the transaction the texts of an ingredient stand for.\<close>

definition build_tx :: "starknet_env \<Rightarrow> Ingredient \<Rightarrow> starknet_error + int \<times> v3JSON" where
  "build_tx E i =
     andThen (require (TxType i = ''0'') TransferOnly) (\<lambda>_.
     andThen (require (ContractAddress i \<noteq> []) ContractRequired) (\<lambda>_.
       let contract = (if ContractAddress i = MagicContactAddressForNative then ethContractAddress else ContractAddress i)
       in andThen (orErr BadSender (hexToBig (Sender i))) (\<lambda>sender.
          andThen (orErr BadRecipient (hexToBig (Recipient i))) (\<lambda>recipient.
          andThen (orErr BadContract (hexToBig contract)) (\<lambda>c.
          andThen (orErr BadAmount (big_SetString (Amount i))) (\<lambda>amount.
          andThen (orErr BadNonce (big_SetString (Nonce i))) (\<lambda>nonce.
            let calldata = transfer_calldata E c recipient amount
            in andThen (bounds i) (\<lambda>(l1, l2, l1data, tip).
               andThen (orErr FillBytesPanic (v3InvokeHash sender nonce snMainChainID calldata l1 l2 l1data tip)) (\<lambda>h.
                 Inr (h, tx_json sender nonce calldata l1 l2 l1data tip)))))))))) "

definition Build :: "starknet_env \<Rightarrow> TxBuilder \<Rightarrow> TxBuilder \<times> (starknet_error + unit)" where
  "Build E tx =
     (case andThen (build_tx E (TheIngredient tx)) (\<lambda>(h, jtx).
        andThen (orErr MarshalFailed (json_Marshal E jtx)) (\<lambda>b. Inr (h, b))) of
        Inl e \<Rightarrow> (tx, Inl e)
      | Inr (h, b) \<Rightarrow> (tx\<lparr>sigHash := [hx h], unsignedHex := hex_encode b, txHash := hx h\<rparr>, Inr ()))"

text \<open>A hash that is no number is a nil pointer for the curve.\<close>

definition Sign :: "starknet_env \<Rightarrow> TxBuilder \<Rightarrow> bytes \<Rightarrow> starknet_error + string" where
  "Sign E tx privateKey =
     andThen (require (length (sigHash tx) = 1) NotBuilt) (\<lambda>_.
     andThen (orErr NilHash (hexToBig (sigHash tx ! 0))) (\<lambda>h.
     andThen (orErr SignFailed (CurveSign E h (int (be_val privateKey)))) (\<lambda>(r, s).
       Inr (hx r @ ''_'' @ hx s))))"

definition ConcatSignature :: "starknet_env \<Rightarrow> TxBuilder \<Rightarrow> string \<Rightarrow> bool \<Rightarrow> starknet_error + string" where
  "ConcatSignature E tx signature isDerFormat =
     andThen (require (unsignedHex tx \<noteq> []) NotBuilt) (\<lambda>_.
     andThen (orErr HexInvalid (hex_decode (unsignedHex tx))) (\<lambda>b.
     andThen (orErr UnmarshalFailed (json_Unmarshal E b)) (\<lambda>jtx.
       case strings_Split signature (CHR ''_'') of
         [r, s] \<Rightarrow>
           andThen (orErr MarshalFailed (json_Marshal E (jtx\<lparr>j_Signature := [r, s]\<rparr>))) (\<lambda>out. Inr (hex_encode out))
       | _ \<Rightarrow> Inl InvalidSignature)))"

definition GetTxHash :: "TxBuilder \<Rightarrow> string" where "GetTxHash tx = txHash tx"
definition GetSigHash :: "TxBuilder \<Rightarrow> string list" where "GetSigHash tx = sigHash tx"
definition GetUnsignedHex :: "TxBuilder \<Rightarrow> string" where "GetUnsignedHex tx = unsignedHex tx"
definition SetSigHash :: "string list \<Rightarrow> TxBuilder \<Rightarrow> TxBuilder" where
  "SetSigHash s tx = tx\<lparr>sigHash := s\<rparr>"
definition SetUnsignedHex :: "string \<Rightarrow> TxBuilder \<Rightarrow> TxBuilder" where
  "SetUnsignedHex s tx = tx\<lparr>unsignedHex := s\<rparr>"

section \<open>The loop over candidate keys ends\<close>

lemma grind_loop_find:
  "i \<le> 100000 \<Longrightarrow> grind_loop E seed i =
     Some (case find (\<lambda>j. grind_candidate seed j < grind_limit E) [i..<100001] of
       Some j \<Rightarrow> Inr (big_Bytes (grind_candidate seed j mod curve_N E)) | None \<Rightarrow> Inl GrindFailed)"
proof (induction "100000 - i" arbitrary: i)
  case 0
  then have "i = 100000" by simp
  moreover have "[100000..<100001] = [100000 :: nat]" by (simp add: upt_rec)
  ultimately show ?case by (subst grind_loop.simps) simp
next
  case (Suc k)
  then have "k = 100000 - (i + 1)" "i + 1 \<le> 100000" by simp_all
  note IH = Suc.hyps(1) [OF this]
  have "[i..<100001] = i # [i + 1..<100001]" using Suc.prems by (simp add: upt_rec)
  then show ?case using IH Suc.hyps(2) by (subst grind_loop.simps) simp
qed

text \<open>
  C35: Deriving a key by grinding ends: after at most 100001 rounds the loop returns the residue of the
  first candidate below the limit, or the error when there is none.
\<close>

theorem grind_key_ends:
  "grindKey E seed =
     Some (case find (\<lambda>j. grind_candidate seed j < grind_limit E) [0..<100001] of
       Some j \<Rightarrow> Inr (big_Bytes (grind_candidate seed j mod curve_N E)) | None \<Rightarrow> Inl GrindFailed)"
  by (simp add: grindKey_def grind_loop_find)

section \<open>What the hash binds\<close>

definition residue :: "int \<Rightarrow> int" where "residue x = x mod starkFieldPrime"

text \<open>Two lists of different residues with one hash.\<close>

definition poseidon_collision :: bool where
  "poseidon_collision \<longleftrightarrow>
     (\<exists>xs ys. map residue xs \<noteq> map residue ys \<and> poseidonHashMany xs = poseidonHashMany ys)"

definition same_bound :: "resourceBound \<Rightarrow> resourceBound \<Rightarrow> bool" where
  "same_bound b b' \<longleftrightarrow>
     nat (maxAmount b) mod 2 ^ 64 = nat (maxAmount b') mod 2 ^ 64 \<and> nat (maxPrice b) = nat (maxPrice b')"

lemma residue_in_field: "in_field x \<Longrightarrow> residue x = x"
  by (simp add: in_field_def residue_def)

lemma in_field_nat: "n < 2 ^ 248 \<Longrightarrow> in_field (int n)"
  by (simp add: in_field_def starkFieldPrime_def)

lemma pack_bytes:
  assumes "pack b = Some p" "length (rb_name b) \<le> 7"
  obtains bs where "p = int (be_val bs)" "in_field p" "nat (maxPrice b) < 256 ^ 16"
    "bs = [0] @ bytes_of_string (rb_name b) @ be_bytes 8 (nat (maxAmount b)) @ be_bytes 16 (nat (maxPrice b))"
proof -
  let ?t = "bytes_of_string (rb_name b) @ be_bytes 8 (nat (maxAmount b)) @ be_bytes 16 (nat (maxPrice b))"
  have p: "p = int (be_val ([0] @ ?t))" and price: "\<not> 256 ^ 16 \<le> maxPrice b"
    using assms(1) by (auto simp: pack_def simp del: append.simps split: if_split_asm)
  have "be_val ([0] @ ?t) = be_val ?t" by (simp only: be_val_append) simp
  also have "\<dots> < 256 ^ length ?t" by (rule be_val_bound)
  also have "\<dots> \<le> 256 ^ 31" by (rule power_increasing) (use assms(2) in simp_all)
  finally have "in_field p" unfolding p by (intro in_field_nat) simp
  moreover have "nat (maxPrice b) < 256 ^ 16" using price by (simp add: nat_less_iff)
  ultimately show ?thesis using that [OF p] by blast
qed

lemma pack_binds:
  assumes "pack b = Some p" "pack b' = Some p'" "rb_name b' = rb_name b" "length (rb_name b) \<le> 7"
    "residue p = residue p'"
  shows "same_bound b b'"
proof -
  obtain bs where bs: "p = int (be_val bs)" "in_field p" "nat (maxPrice b) < 256 ^ 16"
    "bs = [0] @ bytes_of_string (rb_name b) @ be_bytes 8 (nat (maxAmount b)) @ be_bytes 16 (nat (maxPrice b))"
    using pack_bytes [OF assms(1,4)] .
  obtain bs' where bs': "p' = int (be_val bs')" "in_field p'" "nat (maxPrice b') < 256 ^ 16"
    "bs' = [0] @ bytes_of_string (rb_name b) @ be_bytes 8 (nat (maxAmount b')) @ be_bytes 16 (nat (maxPrice b'))"
    using pack_bytes [OF assms(2)] assms(3,4) by metis
  have "be_val bs = be_val bs'" using assms(5) bs bs' by (simp add: residue_in_field)
  then have "bs = bs'" by (rule be_val_inject [rotated]) (simp add: bs(4) bs'(4))
  then have "be_bytes 8 (nat (maxAmount b)) = be_bytes 8 (nat (maxAmount b'))"
    "be_bytes 16 (nat (maxPrice b)) = be_bytes 16 (nat (maxPrice b'))"
    by (simp_all add: bs(4) bs'(4))
  then have "be_val (be_bytes 8 (nat (maxAmount b))) = be_val (be_bytes 8 (nat (maxAmount b')))"
    "be_val (be_bytes 16 (nat (maxPrice b))) = be_val (be_bytes 16 (nat (maxPrice b')))" by simp_all
  then show ?thesis using bs(3) bs'(3) by (simp add: be_val_be_bytes same_bound_def)
qed


text \<open>An amount of gas beyond 64 bits is in the transaction, but the hash has only its low 64 bits.\<close>

lemma long_amount_hashed_short:
  "0 \<le> maxAmount l1 \<Longrightarrow>
     v3InvokeHash sender nonce chain calldata (l1\<lparr>maxAmount := maxAmount l1 + 2 ^ 64\<rparr>) l2 ld tip =
     v3InvokeHash sender nonce chain calldata l1 l2 ld tip"
proof -
  assume "0 \<le> maxAmount l1"
  then have "nat (maxAmount l1 + 2 ^ 64) mod 256 ^ 8 = nat (maxAmount l1) mod 256 ^ 8"
    by (simp add: nat_add_distrib)
  then have "be_bytes 8 (nat (maxAmount l1 + 2 ^ 64)) = be_bytes 8 (nat (maxAmount l1))"
    unfolding be_bytes_def by (metis le_bytes_mod)
  then have "pack (l1\<lparr>maxAmount := maxAmount l1 + 2 ^ 64\<rparr>) = pack l1" by (simp add: pack_def)
  then show ?thesis by (simp add: v3InvokeHash_def)
qed

section \<open>What is sent is what was signed\<close>

lemma hex_value_append: "hex_value n (s @ t) = Option.bind (hex_value n s) (\<lambda>m. hex_value m t)"
  by (induction n s rule: hex_value.induct) (auto split: option.splits)

lemma hex_value_digits: "hex_value 0 (hex_digits n) = Some n"
proof (induction n rule: less_induct)
  case (less n)
  show ?case
  proof (cases "n < 16")
    case False
    then have "hex_value 0 (hex_digits (n div 16)) = Some (n div 16)" using less by simp
    then show ?thesis using False by (simp add: hex_digits_step hex_value_append)
  qed (simp add: hex_digits_small)
qed

lemma hex_digits_lower: "c \<in> set (hex_digits n) \<Longrightarrow> 48 \<le> char_nat c \<and> char_nat c \<le> 57 \<or> 97 \<le> char_nat c \<and> char_nat c \<le> 102"
proof (induction n rule: less_induct)
  case (less n)
  have digit: "48 \<le> char_nat (hexDigit m) \<and> char_nat (hexDigit m) \<le> 57 \<or>
      97 \<le> char_nat (hexDigit m) \<and> char_nat (hexDigit m) \<le> 102" if "m < 16" for m
    using that by (auto simp: char_nat_hexDigit)
  show ?case
  proof (cases "n < 16")
    case True
    then show ?thesis using less.prems digit [of n] by (simp add: hex_digits_small)
  next
    case False
    then have "n div 16 < n" "c \<in> set (hex_digits (n div 16)) \<or> c = hexDigit (n mod 16)"
      using less.prems by (auto simp: hex_digits_step)
    then show ?thesis using less.IH [of "n div 16"] digit [of "n mod 16"] by auto
  qed
qed

lemma hex_digits_Cons: obtains c cs where "hex_digits n = c # cs" "c \<noteq> CHR ''-''" "c \<noteq> CHR ''+''"
proof -
  have "hex_digits n \<noteq> []" by (subst hex_digits.simps) simp
  then obtain c cs where c: "hex_digits n = c # cs" by (cases "hex_digits n") auto
  then have "48 \<le> char_nat c" using hex_digits_lower [of c n] by auto
  then have "c \<noteq> CHR ''-''" "c \<noteq> CHR ''+''" by (auto simp: char_nat_def)
  then show ?thesis using that c by blast
qed

lemma hexToBig_hx: "hexToBig (hx n) = Some n"
proof -
  obtain c cs where c: "hex_digits (nat \<bar>n\<bar>) = c # cs" "c \<noteq> CHR ''-''" "c \<noteq> CHR ''+''" by (rule hex_digits_Cons)
  have "hex_value 0 (c # cs) = Some (nat \<bar>n\<bar>)" using hex_value_digits [of "nat \<bar>n\<bar>"] by (simp only: c)
  moreover have "Sprintf_x n = (if n < 0 then CHR ''-'' # c # cs else c # cs)"
    using c(1) by (auto simp: Sprintf_x_def)
  ultimately have "big_SetString16 (Sprintf_x n) = Some n"
    using c by (simp add: big_SetString16_def Let_def del: hex_value.simps)
  then show ?thesis by (simp only: hexToBig_def hx_def TrimPrefix_append)
qed

lemma hx_no_underscore: "CHR ''_'' \<notin> set (hx n)"
proof -
  have "CHR ''_'' \<notin> set (hex_digits m)" for m using hex_digits_lower [of "CHR ''_''" m] by (auto simp: char_nat_def)
  then show ?thesis by (simp add: hx_def Sprintf_x_def)
qed

lemma split_pair: "strings_Split (hx r @ ''_'' @ hx s) (CHR ''_'') = [hx r, hx s]"
  using split_join [of "[hx r, hx s]" "CHR ''_''"] by (simp add: hx_no_underscore)

lemma dec_bound_range: "dec_bound s = Inr n \<Longrightarrow> 0 \<le> n \<and> n < 2 ^ 128"
  by (auto simp: dec_bound_def andThen_eq_Inr split: if_split_asm)

text \<open>Every amount and price that is read is in range, so \<open>FillBytes\<close> never panics.\<close>

definition in_range :: "resourceBound \<Rightarrow> bool" where
  "in_range b \<longleftrightarrow> 0 \<le> maxAmount b \<and> maxAmount b < 2 ^ 128 \<and> 0 \<le> maxPrice b \<and> maxPrice b < 2 ^ 128"

lemma bounds_range: "bounds i = Inr (l1, l2, ld, tip) \<Longrightarrow> in_range l1 \<and> in_range l2 \<and> in_range ld"
  by (auto simp: bounds_def andThen_eq_Inr in_range_def dest!: dec_bound_range)

lemma in_range_packs: "in_range b \<Longrightarrow> pack b \<noteq> None"
  by (simp add: in_range_def pack_def)

lemma starknet_build_txD:
  assumes "build_tx E i = Inr (h, jtx)"
  obtains sender recipient contract amount nonce l1 l2 ld tip where
    "hexToBig (Sender i) = Some sender" "hexToBig (Recipient i) = Some recipient"
    "big_SetString (Amount i) = Some amount" "big_SetString (Nonce i) = Some nonce"
    "bounds i = Inr (l1, l2, ld, tip)"
    "v3InvokeHash sender nonce snMainChainID (transfer_calldata E contract recipient amount) l1 l2 ld tip = Some h"
    "jtx = tx_json sender nonce (transfer_calldata E contract recipient amount) l1 l2 ld tip"
proof -
  have "\<exists>sender recipient contract amount nonce l1 l2 ld tip. hexToBig (Sender i) = Some sender \<and>
    hexToBig (Recipient i) = Some recipient \<and> big_SetString (Amount i) = Some amount \<and>
    big_SetString (Nonce i) = Some nonce \<and> bounds i = Inr (l1, l2, ld, tip) \<and>
    v3InvokeHash sender nonce snMainChainID (transfer_calldata E contract recipient amount) l1 l2 ld tip = Some h \<and>
    jtx = tx_json sender nonce (transfer_calldata E contract recipient amount) l1 l2 ld tip"
    using assms by (auto simp: build_tx_def andThen_eq_Inr Let_def)
  then show ?thesis using that by blast
qed

lemma amount_halves: "amount AND mask128 = amount mod 2 ^ 128" "drop_bit 128 (amount :: int) = amount div 2 ^ 128"
proof -
  have "mask128 = mask 128" by (simp add: mask128_def mask_eq_exp_minus_1)
  then show "amount AND mask128 = amount mod 2 ^ 128" by (metis take_bit_eq_mask take_bit_eq_mod)
  show "drop_bit 128 amount = amount div 2 ^ 128" by (simp add: drop_bit_eq_div)
qed


text \<open>
  A Build that fails leaves the builder as it was, so the hash of the transaction built before it
  is still there and Sign signs it: after a failure the builder must not be used.
\<close>

theorem failed_build_signs_previous:
  assumes "Build E tx = (tx1, Inr ())" "Build E (tx1\<lparr>TheIngredient := i\<rparr>) = (tx2, Inl e)"
  shows "Sign E tx2 k = Sign E tx1 k \<and> GetTxHash tx2 = GetTxHash tx1 \<and>
    ConcatSignature E tx2 signature der = ConcatSignature E tx1 signature der"
proof -
  have "tx2 = tx1\<lparr>TheIngredient := i\<rparr>" using assms(2) by (auto simp: Build_def split: sum.splits)
  then show ?thesis by (simp add: Sign_def GetTxHash_def ConcatSignature_def)
qed

section \<open>Samples\<close>

definition sample_stark_ingredient :: Ingredient where
  "sample_stark_ingredient =
     \<lparr>TxType = ''0'', ContractAddress = ''0x1'', Sender = ''0x2'', SenderPublicKey = [], Recipient = ''0x3'',
      Amount = ''4'', Nonce = ''5'', L1GasMaxAmount = [], L1GasMaxPrice = [], L1DataGasMaxAmount = [],
      L1DataGasMaxPrice = [], L2GasMaxAmount = [], L2GasMaxPrice = [], Tip = []\<rparr>"

definition free_bound :: "string \<Rightarrow> resourceBound" where
  "free_bound n = \<lparr>rb_name = n, maxAmount = 0, maxPrice = 0\<rparr>"

definition sample_calldata :: "int list" where
  "sample_calldata = [1, 1, 7, 0, 3, 3, 3, 4, 0]"

definition sample_jtx :: v3JSON where
  "sample_jtx = tx_json 2 5 sample_calldata (free_bound ''L1_GAS'') (free_bound ''L2_GAS'') (free_bound ''L1_DATA'') 0"

definition sample_stark_hash :: int where
  "sample_stark_hash = the (v3InvokeHash 2 5 snMainChainID sample_calldata
     (free_bound ''L1_GAS'') (free_bound ''L2_GAS'') (free_bound ''L1_DATA'') 0)"

definition sample_stark_env :: starknet_env where
  "sample_stark_env =
     \<lparr>curve_N = 7, PedersenElements = \<lambda>_. Some 9, CurveSign = \<lambda>_ _. Some (3, 4), GetSelectorFromName = \<lambda>_. 7,
      json_Marshal = \<lambda>j. if j = sample_jtx then Some [1]
        else if j = sample_jtx\<lparr>j_Signature := [hx 3, hx 4]\<rparr> then Some [2] else None,
      json_Unmarshal = \<lambda>b. if b = [1] then Some sample_jtx
        else if b = [2] then Some (sample_jtx\<lparr>j_Signature := [hx 3, hx 4]\<rparr>) else None\<rparr>"

definition sample_stark_built :: TxBuilder where
  "sample_stark_built = \<lparr>TheIngredient = sample_stark_ingredient, unsignedHex = hex_encode [1],
     sigHash = [hx sample_stark_hash], txHash = hx sample_stark_hash\<rparr>"

lemma sample_stark_env_simps [simp]:
  "CurveSign sample_stark_env h k = Some (3, 4)" "GetSelectorFromName sample_stark_env n = 7"
  "json_Marshal sample_stark_env j =
     (if j = sample_jtx then Some [1] else if j = sample_jtx\<lparr>j_Signature := [hx 3, hx 4]\<rparr> then Some [2] else None)"
  "json_Unmarshal sample_stark_env b =
     (if b = [1] then Some sample_jtx
      else if b = [2] then Some (sample_jtx\<lparr>j_Signature := [hx 3, hx 4]\<rparr>) else None)"
  by (simp_all add: sample_stark_env_def)

lemma sample_jtx_unsigned: "sample_jtx\<lparr>j_Signature := [hx 3, hx 4]\<rparr> \<noteq> sample_jtx"
proof
  assume "sample_jtx\<lparr>j_Signature := [hx 3, hx 4]\<rparr> = sample_jtx"
  then have "j_Signature (sample_jtx\<lparr>j_Signature := [hx 3, hx 4]\<rparr>) = j_Signature sample_jtx" by (rule arg_cong)
  then show False by (simp add: sample_jtx_def tx_json_def)
qed

lemma sample_stark_hashed:
  "v3InvokeHash 2 5 snMainChainID sample_calldata (free_bound ''L1_GAS'') (free_bound ''L2_GAS'') (free_bound ''L1_DATA'') 0 =
     Some sample_stark_hash"
  unfolding sample_stark_hash_def by (simp add: v3InvokeHash_def pack_def free_bound_def)

lemma sample_stark_numbers:
  "hexToBig ''0x1'' = Some 1" "hexToBig ''0x2'' = Some 2" "hexToBig ''0x3'' = Some 3"
  "big_SetString ''4'' = Some 4" "big_SetString ''5'' = Some 5"
  by (simp_all add: hexToBig_def strings_TrimPrefix_def strings_HasPrefix_def big_SetString16_def fromHexChar_def
      big_SetString_def digit_of_def char_nat_def Let_def)

lemma sample_stark_calldata: "transfer_calldata sample_stark_env 1 3 4 = sample_calldata"
  by (simp add: transfer_calldata_def amount_halves sample_calldata_def)

lemma sample_stark_bounds:
  "bounds sample_stark_ingredient = Inr (free_bound ''L1_GAS'', free_bound ''L2_GAS'', free_bound ''L1_DATA'', 0)"
  by (simp add: bounds_def dec_bound_def sample_stark_ingredient_def free_bound_def)

lemma sample_stark_build_tx: "build_tx sample_stark_env sample_stark_ingredient = Inr (sample_stark_hash, sample_jtx)"
proof -
  have "''0x1'' \<noteq> MagicContactAddressForNative" by (simp add: MagicContactAddressForNative_def)
  moreover have "build_tx sample_stark_env sample_stark_ingredient =
      andThen (bounds sample_stark_ingredient) (\<lambda>(l1, l2, l1data, tip).
        andThen (orErr FillBytesPanic (v3InvokeHash 2 5 snMainChainID sample_calldata l1 l2 l1data tip)) (\<lambda>h.
          Inr (h, tx_json 2 5 sample_calldata l1 l2 l1data tip)))"
    unfolding build_tx_def
    using calculation sample_stark_numbers sample_stark_calldata by (simp add: sample_stark_ingredient_def Let_def)
  ultimately show ?thesis by (simp add: sample_stark_bounds sample_stark_hashed sample_jtx_def)
qed

lemma sample_stark_build: "Build sample_stark_env (NewTxBuilder sample_stark_ingredient) = (sample_stark_built, Inr ())"
  by (simp add: Build_def NewTxBuilder_def sample_stark_build_tx sample_stark_built_def)

lemma sample_stark_sign: "Sign sample_stark_env sample_stark_built [7] = Inr (hx 3 @ ''_'' @ hx 4)"
  by (simp add: Sign_def sample_stark_built_def hexToBig_hx)

lemma sample_stark_concat:
  "ConcatSignature sample_stark_env sample_stark_built (hx 3 @ ''_'' @ hx 4) False = Inr (hex_encode [2])"
proof -
  have "hex_decode (unsignedHex sample_stark_built) = Some [1]" "unsignedHex sample_stark_built \<noteq> []"
    by (simp_all only: sample_stark_built_def TxBuilder.simps hex_decode_encode) simp
  then show ?thesis
    by (simp add: ConcatSignature_def split_pair [simplified] sample_jtx_unsigned)
qed



lemma sample_failed_build:
  "Build sample_stark_env (sample_stark_built\<lparr>TheIngredient := sample_stark_ingredient\<lparr>TxType := ''1''\<rparr>\<rparr>) =
     (sample_stark_built\<lparr>TheIngredient := sample_stark_ingredient\<lparr>TxType := ''1''\<rparr>\<rparr>, Inl TransferOnly)"
  by (simp add: Build_def build_tx_def)

theorem failed_build_signs_previous_witness:
  "Sign sample_stark_env (sample_stark_built\<lparr>TheIngredient := sample_stark_ingredient\<lparr>TxType := ''1''\<rparr>\<rparr>) [7] =
     Sign sample_stark_env sample_stark_built [7] \<and>
   GetTxHash (sample_stark_built\<lparr>TheIngredient := sample_stark_ingredient\<lparr>TxType := ''1''\<rparr>\<rparr>) = GetTxHash sample_stark_built \<and>
   ConcatSignature sample_stark_env (sample_stark_built\<lparr>TheIngredient := sample_stark_ingredient\<lparr>TxType := ''1''\<rparr>\<rparr>) [] False =
     ConcatSignature sample_stark_env sample_stark_built [] False"
  by (rule failed_build_signs_previous [OF sample_stark_build sample_failed_build])

end
