(* ===== verification/Cosmos.thy ===== *)
theory Cosmos
  imports Validator Sha256
begin

text \<open>
  \<open>signing/cosmos\<close>: the networks and their addresses (\<open>utils.go\<close>) and the builder of transfers of the
  base coin (\<open>tx.go\<close>). The messages are records with the fields the code sets; their protobuf encoding,
  bech32, RIPEMD-160 over SHA-256 and the curve are the fields of a record of functions. The receiver of
  a method, its ingredient and the account information are not nil.
\<close>

section \<open>Messages\<close>

record Coin =
  coin_Denom :: string
  coin_Amount :: string

record MsgSend =
  FromAddress :: string
  ToAddress :: string
  msg_Amount :: "Coin list"

record anyMessage =
  TypeUrl :: string
  any_Value :: bytes

record TxBody =
  Messages :: "anyMessage list"
  body_Memo :: string
  TimeoutHeight :: u64

datatype signMode = SIGN_MODE_DIRECT

record SignerInfo =
  si_PublicKey :: anyMessage
  ModeInfo :: signMode
  si_Sequence :: u64

record AuthInfo =
  SignerInfos :: "SignerInfo list"
  fee_Amount :: "Coin list"
  fee_GasLimit :: u64

record SignDoc =
  BodyBytes :: bytes
  AuthInfoBytes :: bytes
  ChainId :: string
  doc_AccountNumber :: u64

record TxRaw =
  raw_BodyBytes :: bytes
  raw_AuthInfoBytes :: bytes
  Signatures :: "bytes list"

record Ingredient =
  TxType :: string
  ContractAddress :: string
  Sender :: string
  SenderPublicKey :: string
  Recipient :: string
  Amount :: string
  FeeAmount :: string
  GasLimit :: string
  Memo :: string
  AccountNumber :: string
  Sequence :: string

record TxBuilder =
  TheIngredient :: Ingredient
  network :: string
  unsignedHex :: string
  sigHash :: "string list"
  txHash :: string

text \<open>\<open>FullName\<close> of a message is part of its type, so each of the two names is a constant here.\<close>

record cosmos_env =
  Hash160 :: "bytes \<Rightarrow> bytes"
  EncodeFromBase256 :: "string \<Rightarrow> bytes \<Rightarrow> string option"
  DecodeToBase256 :: "string \<Rightarrow> (string \<times> bytes) option"
  MsgSendName :: string
  PubKeyName :: string
  MarshalMsgSend :: "MsgSend \<Rightarrow> bytes option"
  MarshalPubKey :: "bytes \<Rightarrow> bytes option"
  MarshalTxBody :: "TxBody \<Rightarrow> bytes option"
  MarshalAuthInfo :: "AuthInfo \<Rightarrow> bytes option"
  MarshalSignDoc :: "SignDoc \<Rightarrow> bytes option"
  UnmarshalSignDoc :: "bytes \<Rightarrow> SignDoc option"
  MarshalTxRaw :: "TxRaw \<Rightarrow> bytes option"
  SignCompact :: "bytes \<Rightarrow> bytes \<Rightarrow> bytes"

datatype cosmos_error =
  UnsupportedNetwork | EncodeFailed | BasecoinOnly | BadGasLimit | BadAccountNumber | BadSequence
| InvalidAmount | InvalidFeeAmount | MarshalFailed | EmptyPublicKey | HexInvalid | NotBuilt
| UnmarshalFailed | DerUnsupported

section \<open>Networks and addresses\<close>

definition getParamsByNetwork :: "string \<Rightarrow> string \<times> string \<times> string" where
  "getParamsByNetwork net =
     (if net = ''cosmoshub-4'' then (''cosmos'', ''ATOM'', ''uatom'')
      else if net = ''phoenix-1'' then (''terra'', ''LUNA'', ''uluna'')
      else if net = ''columbus-5'' then (''terra'', ''LUNC'', ''uluna'')
      else if net = ''pacific-1'' then (''sei'', ''SEI'', ''usei'')
      else if net = ''arabica-10'' then (''celestia'', ''TIA'', ''utia'')
      else if net = [] then (''inj'', ''INJ'', ''uinj'')
      else ([], [], []))"

definition PublicKey2Address :: "cosmos_env \<Rightarrow> bytes \<Rightarrow> string \<Rightarrow> cosmos_error + string" where
  "PublicKey2Address E publicKey net =
     (case getParamsByNetwork net of (prefix, _, _) \<Rightarrow>
        andThen (require (prefix \<noteq> []) UnsupportedNetwork) (\<lambda>_.
          orErr EncodeFailed (EncodeFromBase256 E prefix (Hash160 E publicKey))))"

definition ValidAddress :: "cosmos_env \<Rightarrow> string \<Rightarrow> string \<Rightarrow> bool" where
  "ValidAddress E address net =
     (case getParamsByNetwork net of (prefix, _, _) \<Rightarrow>
        if prefix = [] then False
        else case DecodeToBase256 E address of None \<Rightarrow> False | Some (hrp, _) \<Rightarrow> hrp = prefix)"

definition Denom :: "string \<Rightarrow> string" where
  "Denom net = snd (snd (getParamsByNetwork net))"

section \<open>The builder\<close>

definition NewTxBuilder :: "Ingredient \<Rightarrow> string \<Rightarrow> TxBuilder" where
  "NewTxBuilder ti net = \<lparr>TheIngredient = ti, network = net, unsignedHex = [], sigHash = [], txHash = []\<rparr>"

definition isValidInt :: "string \<Rightarrow> bool" where
  "isValidInt s \<longleftrightarrow> big_SetString s \<noteq> None"

definition cosmosAny :: "string \<Rightarrow> bytes option \<Rightarrow> cosmos_error + anyMessage" where
  "cosmosAny name v = andThen (orErr MarshalFailed v) (\<lambda>b. Inr \<lparr>TypeUrl = ''/'' @ name, any_Value = b\<rparr>)"

definition parse_u64 :: "cosmos_error \<Rightarrow> string \<Rightarrow> cosmos_error + u64" where
  "parse_u64 e s = (case ParseUint 64 s of (n, None) \<Rightarrow> Inr (word_of_nat n) | (_, Some _) \<Rightarrow> Inl e)"

definition send_msg :: "Ingredient \<Rightarrow> string \<Rightarrow> MsgSend" where
  "send_msg i denom =
     \<lparr>FromAddress = Sender i, ToAddress = Recipient i, msg_Amount = [\<lparr>coin_Denom = denom, coin_Amount = Amount i\<rparr>]\<rparr>"

definition build_doc :: "cosmos_env \<Rightarrow> Ingredient \<Rightarrow> string \<Rightarrow> cosmos_error + SignDoc" where
  "build_doc E i net =
     andThen (require (TxType i = ''0'' \<and> ContractAddress i = MagicContactAddressForNative) BasecoinOnly) (\<lambda>_.
     let denom = Denom net
     in andThen (parse_u64 BadGasLimit (GasLimit i)) (\<lambda>gasLimit.
        andThen (parse_u64 BadAccountNumber (AccountNumber i)) (\<lambda>accountNumber.
        andThen (parse_u64 BadSequence (Sequence i)) (\<lambda>sequence.
        andThen (require (isValidInt (Amount i)) InvalidAmount) (\<lambda>_.
        andThen (require (isValidInt (FeeAmount i)) InvalidFeeAmount) (\<lambda>_.
        andThen (cosmosAny (MsgSendName E) (MarshalMsgSend E (send_msg i denom))) (\<lambda>anySend.
        andThen (require (SenderPublicKey i \<noteq> []) EmptyPublicKey) (\<lambda>_.
        andThen (orErr HexInvalid (hex_decode (SenderPublicKey i))) (\<lambda>publickeyBytes.
        andThen (cosmosAny (PubKeyName E) (MarshalPubKey E publickeyBytes)) (\<lambda>anyPubkey.
        andThen (orErr MarshalFailed (MarshalTxBody E
            \<lparr>Messages = [anySend], body_Memo = Memo i, TimeoutHeight = 0\<rparr>)) (\<lambda>bodyBytes.
        andThen (orErr MarshalFailed (MarshalAuthInfo E
            \<lparr>SignerInfos = [\<lparr>si_PublicKey = anyPubkey, ModeInfo = SIGN_MODE_DIRECT, si_Sequence = sequence\<rparr>],
             fee_Amount = [\<lparr>coin_Denom = denom, coin_Amount = FeeAmount i\<rparr>], fee_GasLimit = gasLimit\<rparr>)) (\<lambda>authInfoBytes.
          Inr \<lparr>BodyBytes = bodyBytes, AuthInfoBytes = authInfoBytes, ChainId = net,
               doc_AccountNumber = accountNumber\<rparr>))))))))))))"

text \<open>Nothing of the builder is reset: the hash is added to those that are there.\<close>

definition Build :: "cosmos_env \<Rightarrow> TxBuilder \<Rightarrow> TxBuilder \<times> (cosmos_error + unit)" where
  "Build E tx =
     (case andThen (build_doc E (TheIngredient tx) (network tx)) (\<lambda>signDoc. orErr MarshalFailed (MarshalSignDoc E signDoc)) of
        Inl e \<Rightarrow> (tx, Inl e)
      | Inr signDocBytes \<Rightarrow>
          (tx\<lparr>sigHash := sigHash tx @ [hex_encode (sha256 signDocBytes)], unsignedHex := hex_encode signDocBytes\<rparr>, Inr ()))"

definition Sign :: "cosmos_env \<Rightarrow> TxBuilder \<Rightarrow> bytes \<Rightarrow> cosmos_error + string" where
  "Sign E tx privateKey =
     andThen (require (length (sigHash tx) = 1) NotBuilt) (\<lambda>_.
     andThen (orErr HexInvalid (hex_decode (sigHash tx ! 0))) (\<lambda>h.
       Inr (hex_encode (drop 1 (SignCompact E privateKey h)))))"

definition upper_char :: "char \<Rightarrow> char" where
  "upper_char c = (if 97 \<le> char_nat c \<and> char_nat c \<le> 122 then char_of (char_nat c - 32) else c)"

definition ConcatSignature ::
  "cosmos_env \<Rightarrow> TxBuilder \<Rightarrow> string \<Rightarrow> bool \<Rightarrow> TxBuilder \<times> (cosmos_error + string)"
where
  "ConcatSignature E tx signature isDerFormat =
     (case
        andThen (require (unsignedHex tx \<noteq> []) NotBuilt) (\<lambda>_.
        andThen (orErr HexInvalid (hex_decode (unsignedHex tx))) (\<lambda>signDocBytes.
        andThen (orErr UnmarshalFailed (UnmarshalSignDoc E signDocBytes)) (\<lambda>signDoc.
        andThen (require (\<not> isDerFormat) DerUnsupported) (\<lambda>_.
        andThen (orErr HexInvalid (hex_decode signature)) (\<lambda>sigBytes.
          orErr MarshalFailed (MarshalTxRaw E
            \<lparr>raw_BodyBytes = BodyBytes signDoc, raw_AuthInfoBytes = AuthInfoBytes signDoc, Signatures = [sigBytes]\<rparr>)))))) of
        Inl e \<Rightarrow> (tx, Inl e)
      | Inr transBytes \<Rightarrow>
          (tx\<lparr>txHash := map upper_char (hex_encode (sha256 transBytes))\<rparr>, Inr (hex_encode transBytes)))"

definition GetTxHash :: "TxBuilder \<Rightarrow> string" where "GetTxHash tx = txHash tx"
definition GetSigHash :: "TxBuilder \<Rightarrow> string list" where "GetSigHash tx = sigHash tx"
definition GetUnsignedHex :: "TxBuilder \<Rightarrow> string" where "GetUnsignedHex tx = unsignedHex tx"
definition SetSigHash :: "string list \<Rightarrow> TxBuilder \<Rightarrow> TxBuilder" where
  "SetSigHash s tx = tx\<lparr>sigHash := s\<rparr>"
definition SetUnsignedHex :: "string \<Rightarrow> TxBuilder \<Rightarrow> TxBuilder" where
  "SetUnsignedHex s tx = tx\<lparr>unsignedHex := s\<rparr>"

section \<open>What is sent is what was signed\<close>

lemma cosmos_BuildD:
  assumes "Build E tx = (tx', Inr ())"
  obtains doc b where "build_doc E (TheIngredient tx) (network tx) = Inr doc" "MarshalSignDoc E doc = Some b"
    "tx' = tx\<lparr>sigHash := sigHash tx @ [hex_encode (sha256 b)], unsignedHex := hex_encode b\<rparr>"
proof -
  have "\<exists>doc b. build_doc E (TheIngredient tx) (network tx) = Inr doc \<and> MarshalSignDoc E doc = Some b \<and>
    tx' = tx\<lparr>sigHash := sigHash tx @ [hex_encode (sha256 b)], unsignedHex := hex_encode b\<rparr>"
    using assms by (auto simp: Build_def andThen_eq_Inr split: sum.splits)
  then show ?thesis using that by blast
qed

lemma build_doc_fields:
  assumes "build_doc E i net = Inr doc"
  shows "ChainId doc = net \<and> ParseUint 64 (AccountNumber i) = (unat (doc_AccountNumber doc), None) \<and>
    (\<exists>m. MarshalMsgSend E (send_msg i (Denom net)) = Some m \<and>
      MarshalTxBody E \<lparr>Messages = [\<lparr>TypeUrl = ''/'' @ MsgSendName E, any_Value = m\<rparr>], body_Memo = Memo i,
        TimeoutHeight = 0\<rparr> = Some (BodyBytes doc))"
proof -
  have reads: "ParseUint 64 s = (unat v, None)" if "parse_u64 e s = Inr v" for e s v
    using that ParseUint_bound [of 64 s] by (auto simp: parse_u64_def unat_of_nat split: prod.splits option.splits)
  show ?thesis
    using assms by (auto simp: build_doc_def andThen_eq_Inr cosmosAny_def Let_def dest: reads)
qed


text \<open>
  C39: A builder that is built a second time can no longer sign: the second hash is added to the first,
  and Sign wants exactly one.
\<close>

theorem second_build_unsignable:
  assumes "Build E tx = (tx1, Inr ())" "Build E tx1 = (tx2, Inr ())"
  shows "Sign E tx2 k = Inl NotBuilt"
proof -
  have "length (sigHash tx1) = length (sigHash tx) + 1" by (rule cosmos_BuildD [OF assms(1)]) simp
  moreover have "length (sigHash tx2) = length (sigHash tx1) + 1" by (rule cosmos_BuildD [OF assms(2)]) simp
  ultimately show ?thesis by (simp add: Sign_def require_def)
qed

text \<open>The address of a public key is valid on its network.\<close>

lemma cosmos_address_valid:
  assumes "\<And>p b a. EncodeFromBase256 E p b = Some a \<Longrightarrow> DecodeToBase256 E a = Some (p, b)"
    and "PublicKey2Address E pk net = Inr a"
  shows "ValidAddress E a net"
proof -
  obtain prefix symbol denom where n: "getParamsByNetwork net = (prefix, symbol, denom)" by (cases "getParamsByNetwork net")
  then have "prefix \<noteq> []" "EncodeFromBase256 E prefix (Hash160 E pk) = Some a"
    using assms(2) by (simp_all add: PublicKey2Address_def andThen_eq_Inr)
  then show ?thesis using assms(1) [of prefix "Hash160 E pk" a] n by (simp add: ValidAddress_def)
qed

section \<open>Samples\<close>

definition sample_cosmos_ingredient :: Ingredient where
  "sample_cosmos_ingredient =
     \<lparr>TxType = ''0'', ContractAddress = MagicContactAddressForNative, Sender = ''cosmos1a'', SenderPublicKey = ''02'',
      Recipient = ''cosmos1b'', Amount = ''7'', FeeAmount = ''1'', GasLimit = ''9'', Memo = [], AccountNumber = ''3'',
      Sequence = ''0''\<rparr>"

definition sample_doc :: SignDoc where
  "sample_doc = \<lparr>BodyBytes = [3], AuthInfoBytes = [4], ChainId = ''cosmoshub-4'', doc_AccountNumber = 3\<rparr>"

definition sample_cosmos_env :: cosmos_env where
  "sample_cosmos_env =
     \<lparr>Hash160 = \<lambda>_. replicate 20 0, EncodeFromBase256 = \<lambda>_ _. None, DecodeToBase256 = \<lambda>_. None,
      MsgSendName = ''cosmos.bank.v1beta1.MsgSend'', PubKeyName = ''cosmos.crypto.secp256k1.PubKey'',
      MarshalMsgSend = \<lambda>_. Some [1], MarshalPubKey = \<lambda>_. Some [2], MarshalTxBody = \<lambda>_. Some [3],
      MarshalAuthInfo = \<lambda>_. Some [4], MarshalSignDoc = \<lambda>d. if d = sample_doc then Some [5] else None,
      UnmarshalSignDoc = \<lambda>b. if b = [5] then Some sample_doc else None, MarshalTxRaw = \<lambda>_. Some [6],
      SignCompact = \<lambda>_ _. replicate 65 1\<rparr>"

lemma sample_cosmos_env_simps [simp]:
  "MarshalMsgSend sample_cosmos_env m = Some [1]" "MarshalPubKey sample_cosmos_env p = Some [2]"
  "MarshalTxBody sample_cosmos_env t = Some [3]" "MarshalAuthInfo sample_cosmos_env a = Some [4]"
  "MarshalSignDoc sample_cosmos_env d = (if d = sample_doc then Some [5] else None)"
  "UnmarshalSignDoc sample_cosmos_env b = (if b = [5] then Some sample_doc else None)"
  "MarshalTxRaw sample_cosmos_env r = Some [6]"
  by (simp_all add: sample_cosmos_env_def)

definition sample_cosmos_built :: TxBuilder where
  "sample_cosmos_built = \<lparr>TheIngredient = sample_cosmos_ingredient, network = ''cosmoshub-4'',
     unsignedHex = hex_encode [5], sigHash = [hex_encode (sha256 [5])], txHash = []\<rparr>"

lemma sample_build_doc: "build_doc sample_cosmos_env sample_cosmos_ingredient ''cosmoshub-4'' = Inr sample_doc"
  by (simp add: build_doc_def sample_cosmos_ingredient_def parse_u64_def isValidInt_def cosmosAny_def Let_def
      ParseUint_def big_SetString_def digit_of_def fromHexChar_def char_nat_def sample_doc_def)

lemma sample_cosmos_build:
  "Build sample_cosmos_env (NewTxBuilder sample_cosmos_ingredient ''cosmoshub-4'') = (sample_cosmos_built, Inr ())"
  by (simp add: Build_def NewTxBuilder_def sample_build_doc sample_cosmos_built_def)

lemma sample_cosmos_rebuild:
  "Build sample_cosmos_env sample_cosmos_built =
     (sample_cosmos_built\<lparr>sigHash := [hex_encode (sha256 [5]), hex_encode (sha256 [5])]\<rparr>, Inr ())"
  by (simp add: Build_def sample_build_doc sample_cosmos_built_def)

lemma sample_cosmos_concat:
  "ConcatSignature sample_cosmos_env sample_cosmos_built ''ff'' False =
     (sample_cosmos_built\<lparr>txHash := map upper_char (hex_encode (sha256 [6]))\<rparr>, Inr (hex_encode [6]))"
proof -
  have "hex_decode (unsignedHex sample_cosmos_built) = Some [5]" "unsignedHex sample_cosmos_built \<noteq> []"
    by (simp_all only: sample_cosmos_built_def TxBuilder.simps hex_decode_encode) simp
  then show ?thesis by (simp add: ConcatSignature_def fromHexChar_def char_nat_def Let_def)
qed


theorem second_build_unsignable_witness:
  "Sign sample_cosmos_env (sample_cosmos_built\<lparr>sigHash := [hex_encode (sha256 [5]), hex_encode (sha256 [5])]\<rparr>) [7] =
     Inl NotBuilt"
  by (rule second_build_unsignable [OF sample_cosmos_build sample_cosmos_rebuild])

end
