(* ===== verification/Solana.thy ===== *)
theory Solana
  imports Validator
begin

text \<open>
  \<open>signing/solana\<close>: addresses (\<open>utils.go\<close>) and the builder of transfers and nonce accounts
  (\<open>tx.go\<close>). The instructions of the programs, the transaction type of the Solana library with its
  encoding, base58 and the curve are the fields of a record of functions; an account of an instruction
  is its key and flags \<open>'m\<close>, a transaction is \<open>'t\<close>. The receiver of a method and its ingredient are
  not nil.
\<close>

section \<open>Types\<close>

record 'm Instruction =
  ProgramID :: bytes
  Accounts :: "(bytes \<times> 'm) list"
  instr_Data :: bytes

record Ingredient =
  TxType :: string
  ContractAddress :: string
  Sender :: string
  Recipient :: string
  Amount :: string
  UnitPrice :: string
  UnitLimit :: string
  HasATA :: string
  Token2022 :: string
  Decimals :: string
  RefBlockHash :: string
  UseNonceAccount :: string
  NonceAccount :: string
  NonceAccountPrivateKey :: string
  MinimumBalanceForRentExemption :: string

record TxBuilder =
  TheIngredient :: Ingredient
  unsignedHex :: string
  sigHash :: "string list"
  txHash :: string
  fromUnsignedHex :: bool

record ('m, 't) solana_env =
  b58_Decode :: "string \<Rightarrow> bytes option"
  b58_Encode :: "bytes \<Rightarrow> string"
  PublicKeyFromString :: "string \<Rightarrow> bytes"
  FindProgramAddress :: "bytes list \<Rightarrow> bytes \<Rightarrow> (bytes \<times> u8) option"
  TokenProgramID :: bytes
  Token2022ProgramID :: bytes
  AssociatedTokenProgramID :: bytes
  SystemProgramID :: bytes
  NonceAccountSize :: u64
  AdvanceNonceAccount :: "bytes \<Rightarrow> bytes \<Rightarrow> 'm Instruction"
  SetComputeUnitPrice :: "u64 \<Rightarrow> 'm Instruction"
  SetComputeUnitLimit :: "u32 \<Rightarrow> 'm Instruction"
  SystemTransfer :: "bytes \<Rightarrow> bytes \<Rightarrow> u64 \<Rightarrow> 'm Instruction"
  TokenTransfer :: "bytes \<Rightarrow> bytes \<Rightarrow> bytes \<Rightarrow> bytes list \<Rightarrow> u64 \<Rightarrow> 'm Instruction"
  TransferChecked :: "bytes \<Rightarrow> bytes \<Rightarrow> bytes \<Rightarrow> bytes \<Rightarrow> u64 \<Rightarrow> u8 \<Rightarrow> 'm Instruction"
  CreateAssociatedTokenAccount :: "bytes \<Rightarrow> bytes \<Rightarrow> bytes \<Rightarrow> bytes \<Rightarrow> 'm Instruction"
  CreateAccount :: "bytes \<Rightarrow> bytes \<Rightarrow> bytes \<Rightarrow> u64 \<Rightarrow> u64 \<Rightarrow> 'm Instruction"
  InitializeNonceAccount :: "bytes \<Rightarrow> bytes \<Rightarrow> 'm Instruction"
  NewTransaction :: "bytes \<Rightarrow> string \<Rightarrow> 'm Instruction list \<Rightarrow> 't option"
  TransactionSerialize :: "'t \<Rightarrow> bytes option"
  TransactionDeserialize :: "bytes \<Rightarrow> 't option"
  MessageSerialize :: "'t \<Rightarrow> bytes option"
  RecentBlockHash :: "'t \<Rightarrow> string"
  AddSignature :: "'t \<Rightarrow> bytes \<Rightarrow> 't option"
  FirstSignature :: "'t \<Rightarrow> bytes"
  SignED25519 :: "bytes \<Rightarrow> bytes \<Rightarrow> bytes option"

datatype solana_error =
  HexInvalid | DeserializeFailed | SerializeFailed | InvalidIngredient | EmptyNonceAccount | BadUnitPrice
| BadUnitLimit | BudgetRequired | ContractRequired | AmountRequired | InvalidRecipient | BadAmount
| NoTokenAccount | DecimalsRequired | RentRequired | InvalidTxType | BuildFailed | NotBuilt | SignFailed
| DerUnsupported | AddSignatureFailed | IndexPanic

section \<open>Addresses\<close>

definition MagicContactAddressForNativeSOL :: string where
  "MagicContactAddressForNativeSOL = ''So11111111111111111111111111111111111111112''"

definition PublicKeyLength :: nat where "PublicKeyLength = 32"

definition TokenProgramOf :: "('m, 't) solana_env \<Rightarrow> bool \<Rightarrow> bytes" where
  "TokenProgramOf E token2022 = (if token2022 then Token2022ProgramID E else TokenProgramID E)"

definition FindAssociatedTokenAddressWithProgram ::
  "('m, 't) solana_env \<Rightarrow> bytes \<Rightarrow> bytes \<Rightarrow> bool \<Rightarrow> (bytes \<times> u8) option"
where
  "FindAssociatedTokenAddressWithProgram E wallet mint token2022 =
     FindProgramAddress E [wallet, TokenProgramOf E token2022, mint] (AssociatedTokenProgramID E)"

definition PublicKey2Address :: "('m, 't) solana_env \<Rightarrow> bytes \<Rightarrow> string" where
  "PublicKey2Address E publicKey = b58_Encode E publicKey"

definition IsNativeSentinel :: "string \<Rightarrow> bool" where
  "IsNativeSentinel address \<longleftrightarrow>
     address = MagicContactAddressForNative \<or> address = MagicContactAddressForNativeSOL"

definition ValidStrictAddress :: "('m, 't) solana_env \<Rightarrow> string \<Rightarrow> bool" where
  "ValidStrictAddress E address \<longleftrightarrow>
     (case b58_Decode E address of None \<Rightarrow> False | Some val \<Rightarrow> length val = PublicKeyLength)"

definition ValidAddress :: "('m, 't) solana_env \<Rightarrow> string \<Rightarrow> bool" where
  "ValidAddress E address \<longleftrightarrow>
     (if address = MagicContactAddressForNative then True else ValidStrictAddress E address)"

section \<open>The builder\<close>

definition no_ingredient :: Ingredient where
  "no_ingredient =
     \<lparr>TxType = [], ContractAddress = [], Sender = [], Recipient = [], Amount = [], UnitPrice = [], UnitLimit = [],
      HasATA = [], Token2022 = [], Decimals = [], RefBlockHash = [], UseNonceAccount = [], NonceAccount = [],
      NonceAccountPrivateKey = [], MinimumBalanceForRentExemption = []\<rparr>"

definition NewTxBuilder :: "Ingredient \<Rightarrow> TxBuilder" where
  "NewTxBuilder ti =
     \<lparr>TheIngredient = ti, unsignedHex = [], sigHash = [], txHash = [], fromUnsignedHex = False\<rparr>"

definition NewTxBuilderFromUnsignedHex :: "('m, 't) solana_env \<Rightarrow> string \<Rightarrow> solana_error + TxBuilder" where
  "NewTxBuilderFromUnsignedHex E prepared =
     andThen (orErr HexInvalid (hex_decode prepared)) (\<lambda>txBytes.
     andThen (orErr DeserializeFailed (TransactionDeserialize E txBytes)) (\<lambda>ntx.
     andThen (orErr SerializeFailed (MessageSerialize E ntx)) (\<lambda>msgBytes.
       Inr \<lparr>TheIngredient = no_ingredient, unsignedHex = hex_encode txBytes, sigHash = [hex_encode msgBytes],
            txHash = [], fromUnsignedHex = True\<rparr>)))"

definition valid_ingredient :: "('m, 't) solana_env \<Rightarrow> Ingredient \<Rightarrow> bool" where
  "valid_ingredient E i \<longleftrightarrow>
     TxType i \<in> set TxTypes \<and>
     (ContractAddress i = [] \<or> ValidAddress E (ContractAddress i)) \<and>
     Sender i \<noteq> [] \<and> ValidAddress E (Sender i) \<and>
     (Recipient i = [] \<or> ValidAddress E (Recipient i)) \<and>
     (Amount i = [] \<or> valid_bigint_gt0 (Amount i)) \<and>
     (UnitPrice i = [] \<or> valid_u64_gt0 (UnitPrice i)) \<and>
     (UnitLimit i = [] \<or> valid_u64_gt0 (UnitLimit i)) \<and>
     (HasATA i = [] \<or> valid_bool_str (HasATA i)) \<and>
     (Token2022 i = [] \<or> valid_bool_str (Token2022 i)) \<and>
     (Decimals i = [] \<or> valid_u64 (Decimals i)) \<and>
     (MinimumBalanceForRentExemption i = [] \<or> valid_u64_gt0 (MinimumBalanceForRentExemption i))"

definition parse_uint :: "nat \<Rightarrow> solana_error \<Rightarrow> string \<Rightarrow> solana_error + nat" where
  "parse_uint bits e s = (case ParseUint bits s of (n, None) \<Rightarrow> Inr n | (_, Some _) \<Rightarrow> Inl e)"

definition nonce_instructions :: "('m, 't) solana_env \<Rightarrow> Ingredient \<Rightarrow> bytes \<Rightarrow> solana_error + 'm Instruction list" where
  "nonce_instructions E i sender =
     (if UseNonceAccount i = ''true'' then
        if NonceAccount i = [] then Inl EmptyNonceAccount
        else Inr [AdvanceNonceAccount E (PublicKeyFromString E (NonceAccount i)) sender]
      else Inr [])"

definition budget_instructions :: "('m, 't) solana_env \<Rightarrow> Ingredient \<Rightarrow> solana_error + 'm Instruction list" where
  "budget_instructions E i =
     (if UnitPrice i \<noteq> [] \<and> UnitLimit i \<noteq> [] then
        andThen (parse_uint 64 BadUnitPrice (UnitPrice i)) (\<lambda>unitPrice.
        andThen (parse_uint 32 BadUnitLimit (UnitLimit i)) (\<lambda>unitLimit.
          Inr [SetComputeUnitPrice E (word_of_nat unitPrice), SetComputeUnitLimit E (word_of_nat unitLimit)]))
      else Inl BudgetRequired)"

definition token_transfer ::
  "('m, 't) solana_env \<Rightarrow> Ingredient \<Rightarrow> bool \<Rightarrow> bytes \<Rightarrow> bytes \<Rightarrow> bytes \<Rightarrow> bytes \<Rightarrow> u64 \<Rightarrow> solana_error + 'm Instruction"
where
  "token_transfer E i is2022 sender senderToken recipientToken contract amount =
     andThen
       (if is2022 then
          andThen (parse_uint 8 DecimalsRequired (Decimals i)) (\<lambda>decimals.
            Inr (TransferChecked E senderToken recipientToken contract sender amount (word_of_nat decimals)))
        else Inr (TokenTransfer E senderToken recipientToken sender [sender] amount)) (\<lambda>t.
       Inr (t\<lparr>ProgramID := TokenProgramOf E is2022\<rparr>))"

text \<open>The library names the first token program in the accounts; it is replaced by the mint's.\<close>

definition create_account :: "('m, 't) solana_env \<Rightarrow> bool \<Rightarrow> bytes \<Rightarrow> bytes \<Rightarrow> bytes \<Rightarrow> bytes \<Rightarrow> 'm Instruction" where
  "create_account E is2022 sender recipient contract recipientToken =
     (let c = CreateAssociatedTokenAccount E sender recipient contract recipientToken
      in c\<lparr>Accounts := map (\<lambda>(k, m). (if k = TokenProgramID E then TokenProgramOf E is2022 else k, m)) (Accounts c)\<rparr>)"

definition transfer_instructions ::
  "('m, 't) solana_env \<Rightarrow> Ingredient \<Rightarrow> bytes \<Rightarrow> solana_error + 'm Instruction list"
where
  "transfer_instructions E i sender =
     andThen (require (ContractAddress i \<noteq> []) ContractRequired) (\<lambda>_.
     andThen (require (Amount i \<noteq> []) AmountRequired) (\<lambda>_.
     andThen (require (ValidStrictAddress E (Recipient i)) InvalidRecipient) (\<lambda>_.
     let recipient = PublicKeyFromString E (Recipient i)
     in andThen (parse_uint 64 BadAmount (Amount i)) (\<lambda>n.
        let amount = word_of_nat n
        in if IsNativeSentinel (ContractAddress i) then Inr [SystemTransfer E sender recipient amount]
           else
             let is2022 = (Token2022 i = ''true''); contract = PublicKeyFromString E (ContractAddress i)
             in andThen (orErr NoTokenAccount (FindAssociatedTokenAddressWithProgram E sender contract is2022)) (\<lambda>(senderToken, _).
                andThen (orErr NoTokenAccount (FindAssociatedTokenAddressWithProgram E recipient contract is2022)) (\<lambda>(recipientToken, _).
                andThen (token_transfer E i is2022 sender senderToken recipientToken contract amount) (\<lambda>t.
                  Inr (if HasATA i = ''true'' then [t]
                       else [create_account E is2022 sender recipient contract recipientToken, t]))))))))"

definition activate_instructions ::
  "('m, 't) solana_env \<Rightarrow> Ingredient \<Rightarrow> bytes \<Rightarrow> solana_error + 'm Instruction list"
where
  "activate_instructions E i sender =
     andThen (require (MinimumBalanceForRentExemption i \<noteq> []) RentRequired) (\<lambda>_.
     let lamports = word_of_nat (fst (ParseUint 64 (MinimumBalanceForRentExemption i)));
         nonce = PublicKeyFromString E (NonceAccount i)
     in Inr [CreateAccount E sender nonce (SystemProgramID E) lamports (NonceAccountSize E),
             InitializeNonceAccount E nonce sender])"

definition build_instructions :: "('m, 't) solana_env \<Rightarrow> Ingredient \<Rightarrow> solana_error + 'm Instruction list" where
  "build_instructions E i =
     (let sender = PublicKeyFromString E (Sender i)
      in andThen (nonce_instructions E i sender) (\<lambda>nonce.
         andThen (budget_instructions E i) (\<lambda>budget.
         andThen (if TxType i = ''0'' then transfer_instructions E i sender
                  else if TxType i = ''4'' then activate_instructions E i sender
                  else Inl InvalidTxType) (\<lambda>rest.
           Inr (nonce @ budget @ rest)))))"

definition build_tx :: "('m, 't) solana_env \<Rightarrow> Ingredient \<Rightarrow> solana_error + 't" where
  "build_tx E i =
     andThen (require (valid_ingredient E i) InvalidIngredient) (\<lambda>_.
     andThen (build_instructions E i) (\<lambda>instructions.
       orErr BuildFailed (NewTransaction E (PublicKeyFromString E (Sender i)) (RefBlockHash i) instructions)))"

text \<open>A builder made from prepared hex reads the transaction from it and empties its ingredient.\<close>

definition Build :: "('m, 't) solana_env \<Rightarrow> TxBuilder \<Rightarrow> TxBuilder \<times> (solana_error + unit)" where
  "Build E tx0 =
     (let tx = tx0\<lparr>sigHash := [], txHash := []\<rparr>
      in case
        (if fromUnsignedHex tx then
           andThen (orErr HexInvalid (hex_decode (unsignedHex tx))) (\<lambda>ntxBytes.
           andThen (orErr DeserializeFailed (TransactionDeserialize E ntxBytes)) (\<lambda>ntx.
             Inr (tx\<lparr>TheIngredient := no_ingredient\<lparr>RefBlockHash := RecentBlockHash E ntx\<rparr>\<rparr>, ntx)))
         else andThen (build_tx E (TheIngredient tx)) (\<lambda>ntx. Inr (tx, ntx))) of
          Inl e \<Rightarrow> (tx, Inl e)
        | Inr (tx, ntx) \<Rightarrow>
            (case andThen (orErr SerializeFailed (TransactionSerialize E ntx)) (\<lambda>b.
               andThen (orErr SerializeFailed (MessageSerialize E ntx)) (\<lambda>msg. Inr (b, msg))) of
               Inl e \<Rightarrow> (tx, Inl e)
             | Inr (b, msg) \<Rightarrow> (tx\<lparr>unsignedHex := hex_encode b, sigHash := sigHash tx @ [hex_encode msg]\<rparr>, Inr ())))"

definition Sign :: "('m, 't) solana_env \<Rightarrow> TxBuilder \<Rightarrow> bytes \<Rightarrow> solana_error + string" where
  "Sign E tx privateKey =
     andThen (require (length (sigHash tx) = 1) NotBuilt) (\<lambda>_.
     andThen (orErr HexInvalid (hex_decode (sigHash tx ! 0))) (\<lambda>h.
     andThen (orErr SignFailed (SignED25519 E privateKey h)) (\<lambda>signature.
       Inr (hex_encode signature))))"

text \<open>The new nonce account signs its own creation.\<close>

definition add_nonce_signature :: "('m, 't) solana_env \<Rightarrow> TxBuilder \<Rightarrow> 't \<Rightarrow> solana_error + 't" where
  "add_nonce_signature E tx ntx =
     (if TxType (TheIngredient tx) = ''4'' then
        andThen (orErr HexInvalid (hex_decode (NonceAccountPrivateKey (TheIngredient tx)))) (\<lambda>key.
        andThen (require (sigHash tx \<noteq> []) IndexPanic) (\<lambda>_.
        andThen (orErr HexInvalid (hex_decode (sigHash tx ! 0))) (\<lambda>h.
        andThen (orErr SignFailed (SignED25519 E key h)) (\<lambda>nonceSig.
          orErr AddSignatureFailed (AddSignature E ntx nonceSig)))))
      else Inr ntx)"

definition ConcatSignature ::
  "('m, 't) solana_env \<Rightarrow> TxBuilder \<Rightarrow> string \<Rightarrow> bool \<Rightarrow> TxBuilder \<times> (solana_error + string)"
where
  "ConcatSignature E tx signature isDerFormat =
     (case
        andThen (require (unsignedHex tx \<noteq> []) NotBuilt) (\<lambda>_.
        andThen (orErr HexInvalid (hex_decode (unsignedHex tx))) (\<lambda>ntxBytes.
        andThen (orErr DeserializeFailed (TransactionDeserialize E ntxBytes)) (\<lambda>ntx.
        andThen (require (\<not> isDerFormat) DerUnsupported) (\<lambda>_.
        andThen (orErr HexInvalid (hex_decode signature)) (\<lambda>sig.
        andThen (orErr AddSignatureFailed (AddSignature E ntx sig)) (\<lambda>ntx.
        andThen (add_nonce_signature E tx ntx) (\<lambda>ntx.
        andThen (orErr SerializeFailed (TransactionSerialize E ntx)) (\<lambda>b. Inr (ntx, b))))))))) of
        Inl e \<Rightarrow> (tx, Inl e)
      | Inr (ntx, b) \<Rightarrow> (tx\<lparr>txHash := b58_Encode E (FirstSignature E ntx)\<rparr>, Inr (hex_encode b)))"

definition GetTxHash :: "TxBuilder \<Rightarrow> string" where "GetTxHash tx = txHash tx"
definition GetSigHash :: "TxBuilder \<Rightarrow> string list" where "GetSigHash tx = sigHash tx"
definition GetUnsignedHex :: "TxBuilder \<Rightarrow> string" where "GetUnsignedHex tx = unsignedHex tx"
definition SetSigHash :: "string list \<Rightarrow> TxBuilder \<Rightarrow> TxBuilder" where
  "SetSigHash s tx = tx\<lparr>sigHash := s\<rparr>"
definition SetUnsignedHex :: "string \<Rightarrow> TxBuilder \<Rightarrow> TxBuilder" where
  "SetUnsignedHex s tx = tx\<lparr>unsignedHex := s\<rparr>"

definition RecommendComputeBudget :: "string \<Rightarrow> bool \<Rightarrow> string \<times> string" where
  "RecommendComputeBudget maxFeeStr isToken =
     (case ParseUint 64 maxFeeStr of
        (_, Some _) \<Rightarrow> (''100'', ''250000'')
      | (maxFee, None) \<Rightarrow>
          (if maxFee = 0 then ''1'' else if maxFee < 100 then ''100''
           else if maxFee > 300000 then ''300000'' else maxFeeStr,
           if isToken then ''220000'' else ''150000''))"

section \<open>The recommended budget\<close>

text \<open>
  The recommended compute budget is always accepted by the builder: both texts pass the validator of
  positive numbers, the price is at most 300000 and the limit fits 32 bits, whatever the text of the fee.
\<close>

theorem recommended_budget_accepted:
  "case RecommendComputeBudget fee isToken of (price, limit) \<Rightarrow>
     \<exists>p l. ParseUint 64 price = (p, None) \<and> 0 < p \<and> p \<le> 300000 \<and>
       ParseUint 32 limit = (l, None) \<and> 0 < l \<and> l \<le> 250000 \<and> valid_u64_gt0 price \<and> valid_u64_gt0 limit"
proof -
  have limits: "ParseUint 32 ''250000'' = (250000, None)" "ParseUint 32 ''220000'' = (220000, None)"
    "ParseUint 32 ''150000'' = (150000, None)" "ParseUint 64 ''250000'' = (250000, None)"
    "ParseUint 64 ''220000'' = (220000, None)" "ParseUint 64 ''150000'' = (150000, None)"
    "ParseUint 64 ''1'' = (1, None)" "ParseUint 64 ''100'' = (100, None)" "ParseUint 64 ''300000'' = (300000, None)"
    by (simp_all add: ParseUint_def digit_of_def char_nat_def)
  have limit_ok: "\<exists>l. ParseUint 32 t = (l, None) \<and> 0 < l \<and> l \<le> 250000 \<and> valid_u64_gt0 t"
    if "t \<in> {''250000'', ''220000'', ''150000''}" for t
    using that limits by (auto simp: valid_u64_gt0_def)
  have price_ok: "\<exists>p. ParseUint 64 t = (p, None) \<and> 0 < p \<and> p \<le> 300000 \<and> valid_u64_gt0 t"
    if "t \<in> {''1'', ''100'', ''300000''}" for t
    using that limits by (auto simp: valid_u64_gt0_def)
  obtain n e where f: "ParseUint 64 fee = (n, e)" by (cases "ParseUint 64 fee")
  have own: "valid_u64_gt0 fee" if "e = None" "100 \<le> n"
    using that f by (auto simp: valid_u64_gt0_def ParseUint_def)
  let ?price = "if n = 0 then ''1'' else if n < 100 then ''100'' else if n > 300000 then ''300000'' else fee"
  have "\<exists>p. ParseUint 64 ?price = (p, None) \<and> 0 < p \<and> p \<le> 300000 \<and> valid_u64_gt0 ?price" if "e = None"
  proof (cases "n = 0 \<or> n < 100 \<or> n > 300000")
    case True
    then show ?thesis by (intro price_ok) auto
  next
    case False
    then show ?thesis using f own that by auto
  qed
  note own_price = this
  show ?thesis
  proof (cases e)
    case None
    obtain p where p: "ParseUint 64 ?price = (p, None) \<and> 0 < p \<and> p \<le> 300000 \<and> valid_u64_gt0 ?price"
      using own_price [OF None] by blast
    obtain l where l: "ParseUint 32 (if isToken then ''220000'' else ''150000'') = (l, None) \<and> 0 < l \<and> l \<le> 250000 \<and>
        valid_u64_gt0 (if isToken then ''220000'' else ''150000'')"
    proof -
      have "(if isToken then ''220000'' else ''150000'') \<in> {''250000'', ''220000'', ''150000''}" by simp
      from limit_ok [OF this] show ?thesis using that by blast
    qed
    have "RecommendComputeBudget fee isToken = (?price, if isToken then ''220000'' else ''150000'')"
      using f None by (simp add: RecommendComputeBudget_def)
    then show ?thesis using p l by (simp only: prod.case) blast
  next
    case (Some x)
    then have "RecommendComputeBudget fee isToken = (''100'', ''250000'')" using f by (simp add: RecommendComputeBudget_def)
    then show ?thesis using price_ok [of "''100''"] limit_ok [of "''250000''"] by (simp only: prod.case) blast
  qed
qed

section \<open>What is signed is what is sent\<close>

lemma solana_BuildD:
  assumes "Build E (NewTxBuilder i) = (tx', Inr ())"
  obtains ntx b msg where "build_tx E i = Inr ntx" "TransactionSerialize E ntx = Some b" "MessageSerialize E ntx = Some msg"
    "tx' = (NewTxBuilder i)\<lparr>unsignedHex := hex_encode b, sigHash := [hex_encode msg]\<rparr>"
proof -
  have "\<exists>ntx b msg. build_tx E i = Inr ntx \<and> TransactionSerialize E ntx = Some b \<and> MessageSerialize E ntx = Some msg \<and>
    tx' = (NewTxBuilder i)\<lparr>unsignedHex := hex_encode b, sigHash := [hex_encode msg]\<rparr>"
  proof (cases "build_tx E i")
    case (Inr ntx)
    then show ?thesis
      using assms by (auto simp: Build_def NewTxBuilder_def andThen_eq_Inr Let_def split: sum.splits)
  qed (use assms in \<open>simp add: Build_def NewTxBuilder_def Let_def\<close>)
  then show ?thesis using that by blast
qed

lemma parse_uint_Inr: "parse_uint bits e s = Inr n \<longleftrightarrow> ParseUint bits s = (n, None)"
  by (auto simp: parse_uint_def split: prod.splits option.splits)

lemma native_transfer_instructions:
  assumes "build_instructions E i = Inr ins" "TxType i = ''0''" "IsNativeSentinel (ContractAddress i)"
  shows "\<exists>nonce price limit n. nonce_instructions E i (PublicKeyFromString E (Sender i)) = Inr nonce \<and>
    ParseUint 64 (UnitPrice i) = (price, None) \<and> ParseUint 32 (UnitLimit i) = (limit, None) \<and>
    ParseUint 64 (Amount i) = (n, None) \<and> ValidStrictAddress E (Recipient i) \<and>
    ins = nonce @ [SetComputeUnitPrice E (word_of_nat price), SetComputeUnitLimit E (word_of_nat limit),
      SystemTransfer E (PublicKeyFromString E (Sender i)) (PublicKeyFromString E (Recipient i)) (word_of_nat n)]"
proof -
  let ?sender = "PublicKeyFromString E (Sender i)"
  obtain nonce budget rest where p: "nonce_instructions E i ?sender = Inr nonce" "budget_instructions E i = Inr budget"
    "transfer_instructions E i ?sender = Inr rest" "ins = nonce @ budget @ rest"
    using assms(1,2) by (auto simp: build_instructions_def andThen_eq_Inr Let_def)
  have "\<exists>price limit. ParseUint 64 (UnitPrice i) = (price, None) \<and> ParseUint 32 (UnitLimit i) = (limit, None) \<and>
    budget = [SetComputeUnitPrice E (word_of_nat price), SetComputeUnitLimit E (word_of_nat limit)]"
    using p(2) by (auto simp: budget_instructions_def andThen_eq_Inr parse_uint_Inr split: if_split_asm)
  moreover have "\<exists>n. ParseUint 64 (Amount i) = (n, None) \<and> ValidStrictAddress E (Recipient i) \<and>
    rest = [SystemTransfer E ?sender (PublicKeyFromString E (Recipient i)) (word_of_nat n)]"
    using p(3) assms(3) by (auto simp: transfer_instructions_def andThen_eq_Inr parse_uint_Inr Let_def)
  ultimately show ?thesis using p(1,4) by auto
qed

lemma solana_ConcatD:
  assumes "ConcatSignature E tx signature False = (tx', Inr out)"
  obtains b ntx sig signed full ob where "hex_decode (unsignedHex tx) = Some b" "TransactionDeserialize E b = Some ntx"
    "hex_decode signature = Some sig" "AddSignature E ntx sig = Some signed" "add_nonce_signature E tx signed = Inr full"
    "TransactionSerialize E full = Some ob" "out = hex_encode ob" "tx' = tx\<lparr>txHash := b58_Encode E (FirstSignature E full)\<rparr>"
proof -
  have "\<exists>b ntx sig signed full ob. hex_decode (unsignedHex tx) = Some b \<and> TransactionDeserialize E b = Some ntx \<and>
    hex_decode signature = Some sig \<and> AddSignature E ntx sig = Some signed \<and> add_nonce_signature E tx signed = Inr full \<and>
    TransactionSerialize E full = Some ob \<and> out = hex_encode ob \<and> tx' = tx\<lparr>txHash := b58_Encode E (FirstSignature E full)\<rparr>"
    using assms by (auto simp: ConcatSignature_def andThen_eq_Inr split: sum.splits)
  then show ?thesis using that by blast
qed

text \<open>
  C40: A transfer of the native coin that was built and completed: what is sent is the built transaction
  with the signature, whose message is what was to be signed. After the advance of a nonce account, if
  one is used, and the two instructions of the budget, its one instruction pays exactly the decimal
  amount to the recipient, who is an address of the chain.
\<close>

theorem solana_transfer_sent:
  assumes codec: "\<And>t b. TransactionSerialize E t = Some b \<Longrightarrow> TransactionDeserialize E b = Some t"
    and built: "Build E (NewTxBuilder i) = (tx', Inr ())"
    and transfer: "TxType i = ''0''" "IsNativeSentinel (ContractAddress i)"
    and completed: "ConcatSignature E tx' signature False = (tx'', Inr out)"
  shows "\<exists>ntx msg sig signed ob nonce price limit n. MessageSerialize E ntx = Some msg \<and>
    GetSigHash tx' = [hex_encode msg] \<and> hex_decode signature = Some sig \<and> AddSignature E ntx sig = Some signed \<and>
    TransactionSerialize E signed = Some ob \<and> out = hex_encode ob \<and>
    GetTxHash tx'' = b58_Encode E (FirstSignature E signed) \<and>
    nonce_instructions E i (PublicKeyFromString E (Sender i)) = Inr nonce \<and>
    ParseUint 64 (UnitPrice i) = (price, None) \<and> ParseUint 32 (UnitLimit i) = (limit, None) \<and>
    ParseUint 64 (Amount i) = (n, None) \<and> ValidStrictAddress E (Recipient i) \<and>
    NewTransaction E (PublicKeyFromString E (Sender i)) (RefBlockHash i)
      (nonce @ [SetComputeUnitPrice E (word_of_nat price), SetComputeUnitLimit E (word_of_nat limit),
        SystemTransfer E (PublicKeyFromString E (Sender i)) (PublicKeyFromString E (Recipient i)) (word_of_nat n)]) = Some ntx"
proof -
  obtain ntx b msg where bt: "build_tx E i = Inr ntx" "TransactionSerialize E ntx = Some b" "MessageSerialize E ntx = Some msg"
    and tx': "tx' = (NewTxBuilder i)\<lparr>unsignedHex := hex_encode b, sigHash := [hex_encode msg]\<rparr>"
    using solana_BuildD [OF built] .
  obtain ins where ins: "build_instructions E i = Inr ins"
    "NewTransaction E (PublicKeyFromString E (Sender i)) (RefBlockHash i) ins = Some ntx"
    using bt(1) by (auto simp: build_tx_def andThen_eq_Inr)
  obtain b' ntx' sig signed full ob where c: "hex_decode (unsignedHex tx') = Some b'" "TransactionDeserialize E b' = Some ntx'"
    "hex_decode signature = Some sig" "AddSignature E ntx' sig = Some signed" "add_nonce_signature E tx' signed = Inr full"
    "TransactionSerialize E full = Some ob" "out = hex_encode ob" "tx'' = tx'\<lparr>txHash := b58_Encode E (FirstSignature E full)\<rparr>"
    using solana_ConcatD [OF completed] .
  have "ntx' = ntx" using c(1,2) codec [OF bt(2)] by (simp add: tx')
  moreover have "full = signed" using c(5) transfer(1) by (simp add: add_nonce_signature_def tx' NewTxBuilder_def)
  ultimately show ?thesis
    using native_transfer_instructions [OF ins(1) transfer] ins(2) bt(3) c(3,4,6,7,8)
    by (auto simp: tx' GetSigHash_def GetTxHash_def)
qed

text \<open>
  With Token-2022 the legacy token program is named nowhere in the two instructions of a transfer
  whose recipient has no account yet: neither runs under it nor names it in the accounts of the
  creation, which is placed before the transfer.
\<close>

theorem token_2022_everywhere:
  assumes "transfer_instructions E i sender = Inr ins" "\<not> IsNativeSentinel (ContractAddress i)"
    and "Token2022 i = ''true''" "HasATA i \<noteq> ''true''" "Token2022ProgramID E \<noteq> TokenProgramID E"
  shows "\<exists>c t. ins = [c, t] \<and> ProgramID t = Token2022ProgramID E \<and> TokenProgramID E \<notin> fst ` set (Accounts c)"
proof -
  have "\<exists>recipient contract token t. ins = [create_account E True sender recipient contract token, t] \<and>
    ProgramID t = Token2022ProgramID E"
    using assms(1-4)
    by (auto simp: transfer_instructions_def token_transfer_def TokenProgramOf_def andThen_eq_Inr Let_def) blast
  moreover have "TokenProgramID E \<notin> fst ` set (Accounts (create_account E True sender recipient contract token))"
    for recipient contract token
    using assms(5) by (auto simp: create_account_def TokenProgramOf_def Let_def split: if_split_asm)
  ultimately show ?thesis by blast
qed

section \<open>Samples\<close>

text \<open>Keys are told apart by one byte; transactions by the signature that was added.\<close>

definition sample_instruction :: "bytes \<Rightarrow> unit Instruction" where
  "sample_instruction k = \<lparr>ProgramID = [0], Accounts = [(k, ()), ([8], ())], instr_Data = []\<rparr>"

definition sample_solana_env :: "(unit, bytes option) solana_env" where
  "sample_solana_env =
     \<lparr>b58_Decode = \<lambda>_. Some (replicate 32 1), b58_Encode = \<lambda>_. ''sig'', PublicKeyFromString = \<lambda>_. replicate 32 1,
      FindProgramAddress = \<lambda>_ _. Some ([7], 255), TokenProgramID = [8], Token2022ProgramID = [9],
      AssociatedTokenProgramID = [10], SystemProgramID = [11], NonceAccountSize = 80,
      AdvanceNonceAccount = \<lambda>_ _. sample_instruction [1], SetComputeUnitPrice = \<lambda>_. sample_instruction [2],
      SetComputeUnitLimit = \<lambda>_. sample_instruction [3], SystemTransfer = \<lambda>_ _ _. sample_instruction [4],
      TokenTransfer = \<lambda>_ _ _ _ _. sample_instruction [5], TransferChecked = \<lambda>_ _ _ _ _ _. sample_instruction [6],
      CreateAssociatedTokenAccount = \<lambda>_ _ _ _. sample_instruction [7],
      CreateAccount = \<lambda>_ _ _ _ _. sample_instruction [1], InitializeNonceAccount = \<lambda>_ _. sample_instruction [1],
      NewTransaction = \<lambda>_ _ _. Some None,
      TransactionSerialize = \<lambda>t. Some (case t of None \<Rightarrow> [2] | Some s \<Rightarrow> 3 # s),
      TransactionDeserialize =
        \<lambda>b. if b = [2] then Some None else if b \<noteq> [] \<and> hd b = 3 then Some (Some (tl b)) else None,
      MessageSerialize = \<lambda>_. Some [5], RecentBlockHash = \<lambda>_. [], AddSignature = \<lambda>_ s. Some (Some s),
      FirstSignature = \<lambda>t. (case t of None \<Rightarrow> [] | Some s \<Rightarrow> s), SignED25519 = \<lambda>_ _. Some [1]\<rparr>"

lemma sample_solana_env_simps [simp]:
  "b58_Decode sample_solana_env a = Some (replicate 32 1)" "b58_Encode sample_solana_env b = ''sig''"
  "FindProgramAddress sample_solana_env ss p = Some ([7], 255)"
  "TokenProgramID sample_solana_env = [8]" "Token2022ProgramID sample_solana_env = [9]"
  "NewTransaction sample_solana_env f h ins = Some None"
  "TransactionSerialize sample_solana_env t = Some (case t of None \<Rightarrow> [2] | Some s \<Rightarrow> 3 # s)"
  "TransactionDeserialize sample_solana_env b =
     (if b = [2] then Some None else if b \<noteq> [] \<and> hd b = 3 then Some (Some (tl b)) else None)"
  "MessageSerialize sample_solana_env t = Some [5]" "AddSignature sample_solana_env t s = Some (Some s)"
  by (simp_all add: sample_solana_env_def)

definition sample_solana_ingredient :: Ingredient where
  "sample_solana_ingredient = no_ingredient
     \<lparr>TxType := ''0'', ContractAddress := MagicContactAddressForNative, Sender := ''a'', Recipient := ''b'',
      Amount := ''7'', UnitPrice := ''1'', UnitLimit := ''9''\<rparr>"

definition sample_solana_built :: TxBuilder where
  "sample_solana_built =
     (NewTxBuilder sample_solana_ingredient)\<lparr>unsignedHex := hex_encode [2], sigHash := [hex_encode [5]]\<rparr>"

lemma sample_solana_numbers:
  "ParseUint 64 ''7'' = (7, None)" "ParseUint 64 ''1'' = (1, None)" "ParseUint 32 ''9'' = (9, None)"
  "ParseUint 64 ''9'' = (9, None)" "big_SetString ''7'' = Some 7"
  by (simp_all add: ParseUint_def big_SetString_def digit_of_def char_nat_def)

lemma sample_solana_valid: "valid_ingredient sample_solana_env sample_solana_ingredient"
  using sample_solana_numbers
  by (simp add: valid_ingredient_def sample_solana_ingredient_def no_ingredient_def TxTypes_def ValidAddress_def
      ValidStrictAddress_def PublicKeyLength_def valid_bigint_gt0_def valid_u64_gt0_def)

lemma sample_solana_build_tx: "build_tx sample_solana_env sample_solana_ingredient = Inr None"
proof -
  have "\<exists>ins. build_instructions sample_solana_env sample_solana_ingredient = Inr ins"
    using sample_solana_numbers
    by (simp add: MagicContactAddressForNative_def build_instructions_def nonce_instructions_def budget_instructions_def transfer_instructions_def
        parse_uint_def sample_solana_ingredient_def no_ingredient_def IsNativeSentinel_def ValidStrictAddress_def
        PublicKeyLength_def Let_def)
  then show ?thesis using sample_solana_valid by (auto simp: build_tx_def)
qed

lemma sample_solana_build: "Build sample_solana_env (NewTxBuilder sample_solana_ingredient) = (sample_solana_built, Inr ())"
  by (simp add: Build_def NewTxBuilder_def sample_solana_build_tx sample_solana_built_def Let_def)

lemma sample_solana_concat:
  "ConcatSignature sample_solana_env sample_solana_built ''ff'' False =
     (sample_solana_built\<lparr>txHash := ''sig''\<rparr>, Inr (hex_encode [3, 255]))"
proof -
  have "hex_decode (unsignedHex sample_solana_built) = Some [2]" "unsignedHex sample_solana_built \<noteq> []"
    by (simp_all only: sample_solana_built_def NewTxBuilder_def TxBuilder.simps hex_decode_encode) simp
  moreover have "TxType (TheIngredient sample_solana_built) = ''0''"
    by (simp add: sample_solana_built_def NewTxBuilder_def sample_solana_ingredient_def)
  ultimately show ?thesis
    by (simp add: ConcatSignature_def add_nonce_signature_def fromHexChar_def char_nat_def Let_def)
qed

theorem solana_transfer_sent_witness:
  "\<exists>ntx msg sig signed ob nonce price limit n. MessageSerialize sample_solana_env ntx = Some msg \<and>
    GetSigHash sample_solana_built = [hex_encode msg] \<and> hex_decode ''ff'' = Some sig \<and>
    AddSignature sample_solana_env ntx sig = Some signed \<and>
    TransactionSerialize sample_solana_env signed = Some ob \<and> hex_encode [3, 255] = hex_encode ob \<and>
    GetTxHash (sample_solana_built\<lparr>txHash := ''sig''\<rparr>) = b58_Encode sample_solana_env (FirstSignature sample_solana_env signed) \<and>
    nonce_instructions sample_solana_env sample_solana_ingredient
      (PublicKeyFromString sample_solana_env (Sender sample_solana_ingredient)) = Inr nonce \<and>
    ParseUint 64 (UnitPrice sample_solana_ingredient) = (price, None) \<and>
    ParseUint 32 (UnitLimit sample_solana_ingredient) = (limit, None) \<and>
    ParseUint 64 (Amount sample_solana_ingredient) = (n, None) \<and>
    ValidStrictAddress sample_solana_env (Recipient sample_solana_ingredient) \<and>
    NewTransaction sample_solana_env (PublicKeyFromString sample_solana_env (Sender sample_solana_ingredient))
      (RefBlockHash sample_solana_ingredient)
      (nonce @ [SetComputeUnitPrice sample_solana_env (word_of_nat price), SetComputeUnitLimit sample_solana_env (word_of_nat limit),
        SystemTransfer sample_solana_env (PublicKeyFromString sample_solana_env (Sender sample_solana_ingredient))
          (PublicKeyFromString sample_solana_env (Recipient sample_solana_ingredient)) (word_of_nat n)]) = Some ntx"
proof (rule solana_transfer_sent [OF _ sample_solana_build _ _ sample_solana_concat])
  fix t b
  assume "TransactionSerialize sample_solana_env t = Some b"
  then show "TransactionDeserialize sample_solana_env b = Some t" by (auto split: option.splits)
qed (simp_all add: sample_solana_ingredient_def IsNativeSentinel_def)

definition sample_token_ingredient :: Ingredient where
  "sample_token_ingredient = sample_solana_ingredient
     \<lparr>ContractAddress := ''mint'', Token2022 := ''true'', Decimals := ''9''\<rparr>"

lemma sample_token_instructions:
  "\<exists>ins. transfer_instructions sample_solana_env sample_token_ingredient [1] = Inr ins"
proof -
  have "ParseUint 8 ''9'' = (9, None)" "\<not> IsNativeSentinel ''mint''"
    by (simp_all add: ParseUint_def digit_of_def char_nat_def IsNativeSentinel_def MagicContactAddressForNative_def
        MagicContactAddressForNativeSOL_def)
  then show ?thesis
    using sample_solana_numbers
    by (simp add: transfer_instructions_def token_transfer_def parse_uint_def sample_token_ingredient_def
        sample_solana_ingredient_def no_ingredient_def FindAssociatedTokenAddressWithProgram_def ValidStrictAddress_def
        PublicKeyLength_def Let_def)
qed

theorem token_2022_everywhere_witness:
  "\<exists>ins c t. transfer_instructions sample_solana_env sample_token_ingredient [1] = Inr ins \<and>
    ins = [c, t] \<and> ProgramID t = [9] \<and> [8] \<notin> fst ` set (Accounts c)"
proof -
  obtain ins where ins: "transfer_instructions sample_solana_env sample_token_ingredient [1] = Inr ins"
    using sample_token_instructions by blast
  have "\<exists>c t. ins = [c, t] \<and> ProgramID t = Token2022ProgramID sample_solana_env \<and>
      TokenProgramID sample_solana_env \<notin> fst ` set (Accounts c)"
    by (rule token_2022_everywhere [OF ins])
      (simp_all add: sample_token_ingredient_def sample_solana_ingredient_def no_ingredient_def IsNativeSentinel_def
        MagicContactAddressForNative_def MagicContactAddressForNativeSOL_def)
  then show ?thesis using ins by auto
qed

end
