(* ===== verification/Ton.thy ===== *)
theory Ton
  imports Validator Sha512
begin

text \<open>
  \<open>signing/ton\<close>: mnemonics and addresses (\<open>utils.go\<close>, \<open>PublicKey2Address\<close> of \<open>account.go\<close>) and
  the builder of transfers of the coin and of jettons from a wallet of version 5 (\<open>tx.go\<close>). Cells
  \<open>'c\<close>, account identifiers \<open>'a\<close>, external messages \<open>'x\<close> and the TL-B codec are those of the TON
  library and fields of a record of functions, as are PBKDF2 and the curve. The clock is an argument, in
  nanoseconds. The receiver of a method and its ingredient are not nil.
\<close>

section \<open>Types\<close>

text \<open>The fields the code sets; a message that goes nowhere else has no source.\<close>

record ('a, 'c) intMessage =
  IhrDisabled :: bool
  Bounce :: bool
  Dest :: 'a
  Grams :: u64
  msg_Body :: "'c option"

record ('a, 'c) jettonBody =
  QueryId :: u64
  jb_Amount :: int
  Destination :: 'a
  ResponseDestination :: 'a
  ForwardTonAmount :: int
  ForwardPayload :: 'c

record ('a, 'c) walletMessage =
  wm_Amount :: u64
  wm_Address :: 'a
  wm_Bounce :: bool
  wm_Mode :: u8
  wm_Body :: 'c

record 'c nativeTx =
  WalletId :: u32
  ValidUntil :: u32
  Seqno :: u32
  Actions :: "('c \<times> u8) list"

record dataV5R1 =
  IsSignatureAllowed :: bool
  data_Seqno :: u32
  data_WalletID :: u32
  data_PublicKey :: bytes

record 'c stateInit =
  init_Code :: 'c
  init_Data :: 'c

record Ingredient =
  TxType :: string
  ContractAddress :: string
  Sender :: string
  SenderPublicKey :: string
  Recipient :: string
  JettonWallet :: string
  Amount :: string
  Nonce :: string
  Memo :: string
  Fee :: string

record TxBuilder =
  TheIngredient :: Ingredient
  unsignedHex :: string
  sigHash :: "string list"
  txHash :: string

record ('a, 'c, 'x) ton_env =
  ParseAddress :: "string \<Rightarrow> 'a option"
  ToHuman :: "'a \<Rightarrow> bool \<Rightarrow> bool \<Rightarrow> string"
  ToRaw :: "'a \<Rightarrow> string"
  AccountIDFromRaw :: "string \<Rightarrow> 'a option"
  GenerateWalletAddress :: "bytes \<Rightarrow> 'a option"
  Pbkdf2 :: "bytes \<Rightarrow> bytes \<Rightarrow> nat \<Rightarrow> nat \<Rightarrow> bytes"
  DefaultMessageMode :: u8
  V5MsgTypeSignedExternal :: u32
  base64_DecodeString :: "string \<Rightarrow> bytes option"
  emptyCell :: 'c
  RawBitString :: "'c \<Rightarrow> bool list"
  Refs :: "'c \<Rightarrow> 'c list"
  WriteBitString :: "'c \<Rightarrow> bool list \<Rightarrow> 'c option"
  AddRef :: "'c \<Rightarrow> 'c \<Rightarrow> 'c option"
  WriteBytes :: "'c \<Rightarrow> bytes \<Rightarrow> 'c option"
  WriteUint32 :: "'c \<Rightarrow> u32 \<Rightarrow> 'c option"
  MarshalComment :: "'c \<Rightarrow> string \<Rightarrow> 'c option"
  MarshalMessage :: "'c \<Rightarrow> ('a, 'c) intMessage \<Rightarrow> 'c option"
  MarshalJetton :: "'c \<Rightarrow> ('a, 'c) jettonBody \<Rightarrow> 'c option"
  ToInternal :: "('a, 'c) walletMessage \<Rightarrow> (('a, 'c) intMessage \<times> u8) option"
  MarshalTx :: "'c \<Rightarrow> 'c nativeTx \<Rightarrow> 'c option"
  MarshalData :: "'c \<Rightarrow> dataV5R1 \<Rightarrow> 'c option"
  DeserializeBoc :: "bytes \<Rightarrow> 'c list option"
  CellHash :: "'c \<Rightarrow> bytes option"
  CellJSON :: "'c \<Rightarrow> bytes option"
  CellOfJSON :: "bytes \<Rightarrow> 'c option"
  CreateExternalMessage :: "'a \<Rightarrow> 'c \<Rightarrow> 'c stateInit option \<Rightarrow> 'x option"
  MarshalExternal :: "'c \<Rightarrow> 'x \<Rightarrow> 'c option"
  ToBoc :: "'c \<Rightarrow> bytes option"
  SignSeed :: "bytes \<Rightarrow> bytes \<Rightarrow> bytes"

datatype ton_error =
  InvalidAmount | NegativeAmount | BadAddress | BadNonce | HexInvalid | AmountOutOfRange | InvalidFee
| FeeOutOfRange | MarshalFailed | WriteFailed | HashFailed | NotBuilt | InvalidKeyLength | SignLength
| UnmarshalFailed | DerUnsupported | BadCode | CreateFailed | WalletFailed

section \<open>Mnemonics and addresses\<close>

definition lower_char :: "char \<Rightarrow> char" where
  "lower_char c = (if 65 \<le> char_nat c \<and> char_nat c \<le> 90 then char_of (char_nat c + 32) else c)"

text \<open>\<open>strings.ToLower\<close> is modelled on ASCII text, which the words of a mnemonic are.\<close>

definition normalizeMnemonic :: "string \<Rightarrow> string" where
  "normalizeMnemonic mnemonic = strings_Join (map (map lower_char) (strings_Fields mnemonic)) '' ''"

definition derivePrivateKey :: "('a, 'c, 'x) ton_env \<Rightarrow> string \<Rightarrow> bytes" where
  "derivePrivateKey E mnemonic =
     (let h = hmac_sha512 (bytes_of_string (normalizeMnemonic mnemonic)) []
      in Pbkdf2 E h (bytes_of_string ''TON default seed'') 100000 32)"

definition PublicKey2Address :: "('a, 'c, 'x) ton_env \<Rightarrow> bytes \<Rightarrow> ton_error + string" where
  "PublicKey2Address E publicKey =
     andThen (orErr WalletFailed (GenerateWalletAddress E publicKey)) (\<lambda>a. Inr (ToHuman E a False False))"

definition ValidAddress :: "('a, 'c, 'x) ton_env \<Rightarrow> string \<Rightarrow> bool" where
  "ValidAddress E address \<longleftrightarrow> (if length address \<noteq> 48 then False else ParseAddress E address \<noteq> None)"

definition AddressToRaw :: "('a, 'c, 'x) ton_env \<Rightarrow> string \<Rightarrow> ton_error + string" where
  "AddressToRaw E s = andThen (orErr BadAddress (ParseAddress E s)) (\<lambda>a. Inr (ToRaw E a))"

definition RawToAddress :: "('a, 'c, 'x) ton_env \<Rightarrow> string \<Rightarrow> ton_error + string" where
  "RawToAddress E raw = andThen (orErr BadAddress (AccountIDFromRaw E raw)) (\<lambda>a. Inr (ToHuman E a False False))"

definition AddressToBounce :: "('a, 'c, 'x) ton_env \<Rightarrow> string \<Rightarrow> ton_error + string" where
  "AddressToBounce E s = andThen (orErr BadAddress (ParseAddress E s)) (\<lambda>a. Inr (ToHuman E a True False))"

definition AddressToNoBounce :: "('a, 'c, 'x) ton_env \<Rightarrow> string \<Rightarrow> ton_error + string" where
  "AddressToNoBounce E s = andThen (orErr BadAddress (ParseAddress E s)) (\<lambda>a. Inr (ToHuman E a False False))"

section \<open>Messages\<close>

definition walletId :: u32 where "walletId = 2147483409"

definition codesV5R1 :: string where
  "codesV5R1 =
     ''te6cckECFAEAAoEAART/APSkE/S88sgLAQIBIAINAgFIAwQC3NAg10nBIJFbj2Mg1wsfIIIQZXh0br0hghBzaW50vbCSXwPgghBl'' @
     ''eHRuuo60gCDXIQHQdNch+kAw+kT4KPpEMFi9kVvg7UTQgQFB1yH0BYMH9A5voTGRMOGAQNchcH/bPOAxINdJgQKAuZEw4HDiEA8C'' @
     ''ASAFDAIBIAYJAgFuBwgAGa3OdqJoQCDrkOuF/8AAGa8d9qJoQBDrkOuFj8ACAUgKCwAXsyX7UTQcdch1wsfgABGyYvtRNDXCgCAA'' @
     ''Gb5fD2omhAgKDrkPoCwBAvIOAR4g1wsfghBzaWduuvLgin8PAeaO8O2i7fshgwjXIgKDCNcjIIAg1yHTH9Mf0x/tRNDSANMfINMf'' @
     ''0//XCgAK+QFAzPkQmiiUXwrbMeHywIffArNQB7Dy0IRRJbry4IVQNrry4Ib4I7vy0IgikvgA3gGkf8jKAMsfAc8Wye1UIJL4D95w'' @
     ''2zzYEAP27aLt+wL0BCFukmwhjkwCIdc5MHCUIccAs44tAdcoIHYeQ2wg10nACPLgkyDXSsAC8uCTINcdBscSwgBSMLDy0InXTNc5'' @
     ''MAGk6GwShAe78uCT10rAAPLgk+1V4tIAAcAAkVvg69csCBQgkXCWAdcsCBwS4lIQseMPINdKERITAJYB+kAB+kT4KPpEMFi68uCR'' @
     ''7UTQgQFB1xj0BQSdf8jKAEAEgwf0U/Lgi44UA4MH9Fvy4Iwi1woAIW4Bs7Dy0JDiyFADzxYS9ADJ7VQAcjDXLAgkji0h8uCS0gDt'' @
     ''RNDSAFETuvLQj1RQMJExnAGBAUDXIdcKAPLgjuLIygBYzxbJ7VST8sCN4gAQk1vbMeHXTNC01sNe''"

definition defaultMessageLifetime :: int where "defaultMessageLifetime = 180 * 10 ^ 9"

definition simpleTransferToInternal ::
  "('a, 'c, 'x) ton_env \<Rightarrow> u64 \<Rightarrow> 'a \<Rightarrow> string \<Rightarrow> ton_error + ('a, 'c) intMessage \<times> u8"
where
  "simpleTransferToInternal E amount dest comment =
     andThen (if comment \<noteq> [] then map_sum id Some (orErr MarshalFailed (MarshalComment E (emptyCell E) comment))
              else Inr None) (\<lambda>body.
       Inr (\<lparr>IhrDisabled = True, Bounce = False, Dest = dest, Grams = amount, msg_Body = body\<rparr>, DefaultMessageMode E))"

definition transferMessageToInternal ::
  "('a, 'c, 'x) ton_env \<Rightarrow> int \<Rightarrow> 'a \<Rightarrow> 'a \<Rightarrow> int \<Rightarrow> u64 \<Rightarrow> 'c \<Rightarrow> string \<Rightarrow> ton_error + ('a, 'c) intMessage \<times> u8"
where
  "transferMessageToInternal E now sender recipient amount attached payload jettonWallet =
     (let body = \<lparr>QueryId = word_of_int now, jb_Amount = amount, Destination = recipient,
            ResponseDestination = sender, ForwardTonAmount = 1, ForwardPayload = payload\<rparr>
      in andThen (orErr WriteFailed (WriteUint32 E (emptyCell E) 0xf8a7ea5)) (\<lambda>c.
         andThen (orErr MarshalFailed (MarshalJetton E c body)) (\<lambda>c.
         andThen (orErr BadAddress (ParseAddress E jettonWallet)) (\<lambda>wallet.
           orErr MarshalFailed (ToInternal E
             \<lparr>wm_Amount = attached, wm_Address = wallet, wm_Bounce = True, wm_Mode = DefaultMessageMode E, wm_Body = c\<rparr>)))))"

definition coin_message ::
  "('a, 'c, 'x) ton_env \<Rightarrow> Ingredient \<Rightarrow> int \<Rightarrow> 'a \<Rightarrow> ton_error + ('a, 'c) intMessage \<times> u8"
where
  "coin_message E i amount recipient =
     andThen (require (\<bar>amount\<bar> < 2 ^ 64) AmountOutOfRange) (\<lambda>_.
       simpleTransferToInternal E (word_of_int amount) recipient (Memo i))"

definition jetton_message ::
  "('a, 'c, 'x) ton_env \<Rightarrow> int \<Rightarrow> Ingredient \<Rightarrow> int \<Rightarrow> 'a \<Rightarrow> 'a \<Rightarrow> ton_error + ('a, 'c) intMessage \<times> u8"
where
  "jetton_message E now i amount sender recipient =
     andThen (if Memo i \<noteq> [] then orErr MarshalFailed (MarshalComment E (emptyCell E) (Memo i))
              else Inr (emptyCell E)) (\<lambda>memoCell.
     andThen (orErr BadAddress (ParseAddress E (ContractAddress i))) (\<lambda>_.
     andThen (orErr InvalidFee (big_SetString (Fee i))) (\<lambda>fee.
     andThen (require (\<not> (fee < 0 \<or> 2 ^ 64 \<le> \<bar>fee\<bar>)) FeeOutOfRange) (\<lambda>_.
       transferMessageToInternal E now sender recipient amount (word_of_int fee) memoCell (JettonWallet i)))))"

section \<open>The builder\<close>

definition NewTxBuilder :: "Ingredient \<Rightarrow> TxBuilder" where
  "NewTxBuilder ti = \<lparr>TheIngredient = ti, unsignedHex = [], sigHash = [], txHash = []\<rparr>"

text \<open>The sequence number is cut to 32 bits; a message lives three minutes.\<close>

definition native_tx :: "int \<Rightarrow> nat \<Rightarrow> 'c \<Rightarrow> u8 \<Rightarrow> 'c nativeTx" where
  "native_tx now seqno cell mode =
     \<lparr>WalletId = walletId, ValidUntil = word_of_int ((now + defaultMessageLifetime) div 10 ^ 9), Seqno = word_of_nat seqno,
      Actions = [(cell, mode)]\<rparr>"

definition build_body :: "('a, 'c, 'x) ton_env \<Rightarrow> int \<Rightarrow> Ingredient \<Rightarrow> ton_error + 'c" where
  "build_body E now i =
     andThen (orErr InvalidAmount (big_SetString (Amount i))) (\<lambda>amount.
     andThen (require (\<not> amount < 0) NegativeAmount) (\<lambda>_.
     andThen (orErr BadAddress (ParseAddress E (Sender i))) (\<lambda>sender.
     andThen (orErr BadAddress (ParseAddress E (Recipient i))) (\<lambda>recipient.
     andThen (case ParseUint 64 (Nonce i) of (n, None) \<Rightarrow> Inr n | (_, Some _) \<Rightarrow> Inl BadNonce) (\<lambda>seqno.
     andThen (orErr HexInvalid (hex_decode (SenderPublicKey i))) (\<lambda>_.
     andThen (if ContractAddress i = MagicContactAddressForNative then coin_message E i amount recipient
              else jetton_message E now i amount sender recipient) (\<lambda>(intMsg, mode).
     andThen (orErr MarshalFailed (MarshalMessage E (emptyCell E) intMsg)) (\<lambda>cell.
     andThen (orErr WriteFailed (WriteUint32 E (emptyCell E) (V5MsgTypeSignedExternal E))) (\<lambda>bodyCell.
       orErr MarshalFailed (MarshalTx E bodyCell (native_tx now seqno cell mode)))))))))))"

definition Build :: "('a, 'c, 'x) ton_env \<Rightarrow> int \<Rightarrow> TxBuilder \<Rightarrow> TxBuilder \<times> (ton_error + unit)" where
  "Build E now tx0 =
     (let tx = tx0\<lparr>sigHash := [], unsignedHex := [], txHash := []\<rparr>
      in case
        andThen (build_body E now (TheIngredient tx)) (\<lambda>bodyCell.
        andThen (orErr HashFailed (CellHash E bodyCell)) (\<lambda>h.
        andThen (orErr MarshalFailed (CellJSON E bodyCell)) (\<lambda>b. Inr (h, b)))) of
          Inl e \<Rightarrow> (tx, Inl e)
        | Inr (h, b) \<Rightarrow> (tx\<lparr>sigHash := [hex_encode h], unsignedHex := hex_encode b\<rparr>, Inr ()))"

definition Sign :: "('a, 'c, 'x) ton_env \<Rightarrow> TxBuilder \<Rightarrow> bytes \<Rightarrow> ton_error + string" where
  "Sign E tx privateKey =
     andThen (require (length (sigHash tx) = 1) NotBuilt) (\<lambda>_.
     andThen (orErr HexInvalid (hex_decode (sigHash tx ! 0))) (\<lambda>h.
     andThen (require (length privateKey = 32) InvalidKeyLength) (\<lambda>_.
     let signatureBytes = SignSeed E privateKey h
     in andThen (require (length signatureBytes = 64) SignLength) (\<lambda>_. Inr (hex_encode signatureBytes)))))"

definition generateStateInitV5R1 :: "('a, 'c, 'x) ton_env \<Rightarrow> string \<Rightarrow> ton_error + 'c stateInit" where
  "generateStateInitV5R1 E pub =
     andThen (orErr HexInvalid (hex_decode pub)) (\<lambda>publicKeyBytes.
     andThen (orErr MarshalFailed (MarshalData E (emptyCell E)
         \<lparr>IsSignatureAllowed = True, data_Seqno = 0, data_WalletID = walletId,
          data_PublicKey = copy_array 32 publicKeyBytes\<rparr>)) (\<lambda>dataCell.
     andThen (orErr BadCode (base64_DecodeString E codesV5R1)) (\<lambda>bocData.
     andThen (orErr BadCode (DeserializeBoc E bocData)) (\<lambda>codeCells.
       case codeCells of [code] \<Rightarrow> Inr \<lparr>init_Code = code, init_Data = dataCell\<rparr> | _ \<Rightarrow> Inl BadCode))))"

text \<open>The parsed body is copied, bits first and then its references, and the signature is appended.\<close>

definition signed_body :: "('a, 'c, 'x) ton_env \<Rightarrow> 'c \<Rightarrow> bytes \<Rightarrow> ton_error + 'c" where
  "signed_body E parsed sigBytes =
     andThen (orErr WriteFailed (WriteBitString E (emptyCell E) (RawBitString E parsed))) (\<lambda>bodyCell.
     andThen (foldM (\<lambda>c ref. orErr WriteFailed (AddRef E c ref)) bodyCell (Refs E parsed)) (\<lambda>bodyCell.
       orErr WriteFailed (WriteBytes E bodyCell sigBytes)))"

definition external_cell :: "('a, 'c, 'x) ton_env \<Rightarrow> Ingredient \<Rightarrow> 'c \<Rightarrow> ton_error + 'c" where
  "external_cell E i bodyCell =
     andThen (orErr BadAddress (ParseAddress E (Sender i))) (\<lambda>sender.
     andThen (if Nonce i = ''0'' then map_sum id Some (generateStateInitV5R1 E (SenderPublicKey i)) else Inr None) (\<lambda>init.
     andThen (orErr CreateFailed (CreateExternalMessage E sender bodyCell init)) (\<lambda>extMsg.
       orErr MarshalFailed (MarshalExternal E (emptyCell E) extMsg))))"

definition ConcatSignature ::
  "('a, 'c, 'x) ton_env \<Rightarrow> TxBuilder \<Rightarrow> string \<Rightarrow> bool \<Rightarrow> TxBuilder \<times> (ton_error + string)"
where
  "ConcatSignature E tx signature isDerFormat =
     (case
        andThen (require (unsignedHex tx \<noteq> []) NotBuilt) (\<lambda>_.
        andThen (orErr HexInvalid (hex_decode (unsignedHex tx))) (\<lambda>bodyCellBytes.
        andThen (orErr UnmarshalFailed (CellOfJSON E bodyCellBytes)) (\<lambda>parsed.
        andThen (require (\<not> isDerFormat) DerUnsupported) (\<lambda>_.
        andThen (orErr HexInvalid (hex_decode signature)) (\<lambda>sigBytes.
        andThen (signed_body E parsed sigBytes) (\<lambda>bodyCell.
        andThen (external_cell E (TheIngredient tx) bodyCell) (\<lambda>extMsgCell.
        andThen (orErr HashFailed (CellHash E extMsgCell)) (\<lambda>msgHash.
        andThen (orErr MarshalFailed (ToBoc E extMsgCell)) (\<lambda>toBeSend.
          Inr (msgHash, toBeSend)))))))))) of
        Inl e \<Rightarrow> (tx, Inl e)
      | Inr (msgHash, toBeSend) \<Rightarrow> (tx\<lparr>txHash := hex_encode msgHash\<rparr>, Inr (hex_encode toBeSend)))"

definition GetTxHash :: "TxBuilder \<Rightarrow> string" where "GetTxHash tx = txHash tx"
definition GetSigHash :: "TxBuilder \<Rightarrow> string list" where "GetSigHash tx = sigHash tx"
definition GetUnsignedHex :: "TxBuilder \<Rightarrow> string" where "GetUnsignedHex tx = unsignedHex tx"
definition SetSigHash :: "string list \<Rightarrow> TxBuilder \<Rightarrow> TxBuilder" where
  "SetSigHash s tx = tx\<lparr>sigHash := s\<rparr>"
definition SetUnsignedHex :: "string \<Rightarrow> TxBuilder \<Rightarrow> TxBuilder" where
  "SetUnsignedHex s tx = tx\<lparr>unsignedHex := s\<rparr>"

section \<open>What is signed is what is sent\<close>

lemma ton_BuildD:
  assumes "Build E now (NewTxBuilder i) = (tx', Inr ())"
  obtains body h b where "build_body E now i = Inr body" "CellHash E body = Some h" "CellJSON E body = Some b"
    "tx' = (NewTxBuilder i)\<lparr>sigHash := [hex_encode h], unsignedHex := hex_encode b\<rparr>"
proof -
  have "\<exists>body h b. build_body E now i = Inr body \<and> CellHash E body = Some h \<and> CellJSON E body = Some b \<and>
    tx' = (NewTxBuilder i)\<lparr>sigHash := [hex_encode h], unsignedHex := hex_encode b\<rparr>"
    using assms by (auto simp: Build_def NewTxBuilder_def andThen_eq_Inr Let_def split: sum.splits)
  then show ?thesis using that by blast
qed

lemma coin_body:
  assumes "build_body E now i = Inr body" "ContractAddress i = MagicContactAddressForNative"
  shows "\<exists>amount recipient seqno comment cell start. big_SetString (Amount i) = Some amount \<and> 0 \<le> amount \<and> amount < 2 ^ 64 \<and>
    ParseAddress E (Recipient i) = Some recipient \<and> ParseUint 64 (Nonce i) = (seqno, None) \<and>
    MarshalMessage E (emptyCell E) \<lparr>IhrDisabled = True, Bounce = False, Dest = recipient, Grams = word_of_int amount,
      msg_Body = comment\<rparr> = Some cell \<and>
    WriteUint32 E (emptyCell E) (V5MsgTypeSignedExternal E) = Some start \<and>
    MarshalTx E start (native_tx now seqno cell (DefaultMessageMode E)) = Some body"
proof -
  obtain amount recipient seqno msg mode cell start where p: "big_SetString (Amount i) = Some amount" "\<not> amount < 0"
    "ParseAddress E (Recipient i) = Some recipient" "ParseUint 64 (Nonce i) = (seqno, None)"
    "coin_message E i amount recipient = Inr (msg, mode)" "MarshalMessage E (emptyCell E) msg = Some cell"
    "WriteUint32 E (emptyCell E) (V5MsgTypeSignedExternal E) = Some start"
    "MarshalTx E start (native_tx now seqno cell mode) = Some body"
    using assms by (auto simp: build_body_def andThen_eq_Inr split: prod.splits option.splits)
  have m: "\<exists>comment. msg = \<lparr>IhrDisabled = True, Bounce = False, Dest = recipient, Grams = word_of_int amount,
      msg_Body = comment\<rparr> \<and> mode = DefaultMessageMode E \<and> amount < 2 ^ 64"
    using p(2,5) by (auto simp: coin_message_def simpleTransferToInternal_def andThen_eq_Inr)
  then show ?thesis using p by auto
qed

lemma ton_ConcatD:
  assumes "ConcatSignature E tx signature False = (tx', Inr out)"
  obtains b parsed sig body ext h boc where "hex_decode (unsignedHex tx) = Some b" "CellOfJSON E b = Some parsed"
    "hex_decode signature = Some sig" "signed_body E parsed sig = Inr body"
    "external_cell E (TheIngredient tx) body = Inr ext" "CellHash E ext = Some h" "ToBoc E ext = Some boc"
    "out = hex_encode boc" "tx' = tx\<lparr>txHash := hex_encode h\<rparr>"
proof -
  have "\<exists>b parsed sig body ext h boc. hex_decode (unsignedHex tx) = Some b \<and> CellOfJSON E b = Some parsed \<and>
    hex_decode signature = Some sig \<and> signed_body E parsed sig = Inr body \<and>
    external_cell E (TheIngredient tx) body = Inr ext \<and> CellHash E ext = Some h \<and> ToBoc E ext = Some boc \<and>
    out = hex_encode boc \<and> tx' = tx\<lparr>txHash := hex_encode h\<rparr>"
    using assms by (auto simp: ConcatSignature_def andThen_eq_Inr split: sum.splits)
  then show ?thesis using that by blast
qed

text \<open>
  A transfer of the coin that was built and completed: the cell whose hash was to be signed is the
  one whose bits and references are sent, followed by the signature; it orders one message with exactly
  the decimal amount to the recipient, without bouncing. The identifier is the hash of the message sent.
\<close>

theorem ton_transfer_sent:
  assumes json: "\<And>c b. CellJSON E c = Some b \<Longrightarrow> CellOfJSON E b = Some c"
    and built: "Build E now (NewTxBuilder i) = (tx', Inr ())"
    and coin: "ContractAddress i = MagicContactAddressForNative"
    and completed: "ConcatSignature E tx' signature False = (tx'', Inr out)"
  shows "\<exists>amount recipient seqno comment cell start body h sig sent ext eh boc.
    big_SetString (Amount i) = Some amount \<and> 0 \<le> amount \<and> amount < 2 ^ 64 \<and>
    ParseAddress E (Recipient i) = Some recipient \<and> ParseUint 64 (Nonce i) = (seqno, None) \<and>
    MarshalMessage E (emptyCell E) \<lparr>IhrDisabled = True, Bounce = False, Dest = recipient, Grams = word_of_int amount,
      msg_Body = comment\<rparr> = Some cell \<and>
    WriteUint32 E (emptyCell E) (V5MsgTypeSignedExternal E) = Some start \<and>
    MarshalTx E start (native_tx now seqno cell (DefaultMessageMode E)) = Some body \<and>
    CellHash E body = Some h \<and> GetSigHash tx' = [hex_encode h] \<and>
    hex_decode signature = Some sig \<and> signed_body E body sig = Inr sent \<and> external_cell E i sent = Inr ext \<and>
    CellHash E ext = Some eh \<and> GetTxHash tx'' = hex_encode eh \<and> ToBoc E ext = Some boc \<and> out = hex_encode boc"
proof -
  obtain body h b where body: "build_body E now i = Inr body" "CellHash E body = Some h" "CellJSON E body = Some b"
    and tx': "tx' = (NewTxBuilder i)\<lparr>sigHash := [hex_encode h], unsignedHex := hex_encode b\<rparr>"
    using ton_BuildD [OF built] .
  obtain b' parsed sig sent ext eh boc where c: "hex_decode (unsignedHex tx') = Some b'" "CellOfJSON E b' = Some parsed"
    "hex_decode signature = Some sig" "signed_body E parsed sig = Inr sent"
    "external_cell E (TheIngredient tx') sent = Inr ext" "CellHash E ext = Some eh" "ToBoc E ext = Some boc"
    "out = hex_encode boc" "tx'' = tx'\<lparr>txHash := hex_encode eh\<rparr>"
    using ton_ConcatD [OF completed] .
  have "parsed = body" using c(1,2) json [OF body(3)] by (simp add: tx')
  then have "signed_body E body sig = Inr sent" "external_cell E i sent = Inr ext"
    using c(4,5) by (simp_all add: tx' NewTxBuilder_def)
  moreover have "GetSigHash tx' = [hex_encode h]" "GetTxHash tx'' = hex_encode eh"
    by (simp_all add: tx' c(9) GetSigHash_def GetTxHash_def)
  moreover obtain amount recipient seqno comment cell start where
    "big_SetString (Amount i) = Some amount \<and> 0 \<le> amount \<and> amount < 2 ^ 64 \<and>
    ParseAddress E (Recipient i) = Some recipient \<and> ParseUint 64 (Nonce i) = (seqno, None) \<and>
    MarshalMessage E (emptyCell E) \<lparr>IhrDisabled = True, Bounce = False, Dest = recipient, Grams = word_of_int amount,
      msg_Body = comment\<rparr> = Some cell \<and>
    WriteUint32 E (emptyCell E) (V5MsgTypeSignedExternal E) = Some start \<and>
    MarshalTx E start (native_tx now seqno cell (DefaultMessageMode E)) = Some body"
    using coin_body [OF body(1) coin] by blast
  ultimately show ?thesis using body(2) c(3,6,7,8) by blast
qed

text \<open>A sequence number of 2^32 is signed as 0.\<close>

lemma seqno_wraps: "Seqno (native_tx now (2 ^ 32 + n) cell mode) = Seqno (native_tx now n cell mode)"
  by (simp add: native_tx_def)

end
