(* ===== verification/Accounts.thy ===== *)
theory Accounts
  imports Keys Algorand Aptos Cosmos Evm Filecoin KaspaAddress Multiversx Near Solana Starknet StellarKey Substrate Sui Ton Tron UtxoTx
begin

text \<open>
  The accounts of \<open>signing/*/account.go\<close>: every chain derives a private key from a mnemonic, a public
  key and an address from the private key, checks the address with its own validator, and signs data
  with the scheme of its curve. The accounts of all chains share one record and one way to be made; what
  differs is given to \<open>new_account\<close>. An account keeps the slice of the private key it was given, so
  \<open>Wipe\<close> also clears the caller's copy; the model shows the account's side of it.
\<close>

section \<open>One account\<close>

record Account =
  privateKey :: bytes
  publicKey :: bytes
  address :: string
  network :: string

datatype account_error =
  KeyFailed key_error | DerivationFailed | BadPrivateKeyLength nat | BadPublicKey | AddressFailed | AddressPanic
| InvalidAddressGenerated | PrivateKeyHexInvalid | GrindingFailed starknet_error | PointFailed | CurveFailed
| FillBytesPanicked

definition new_account ::
  "(bytes \<Rightarrow> account_error + bytes) \<Rightarrow> (bytes \<Rightarrow> account_error + string) \<Rightarrow> (string \<Rightarrow> bool) \<Rightarrow> string \<Rightarrow> bytes \<Rightarrow> account_error + Account"
where
  "new_account pub addr valid net priv =
     andThen (pub priv) (\<lambda>p.
     andThen (addr p) (\<lambda>a.
     andThen (require (valid a) InvalidAddressGenerated) (\<lambda>_.
       Inr \<lparr>privateKey = priv, publicKey = p, address = a, network = net\<rparr>)))"

definition from_hex :: "(bytes \<Rightarrow> account_error + Account) \<Rightarrow> string \<Rightarrow> account_error + Account" where
  "from_hex mk priv = andThen (orErr PrivateKeyHexInvalid (hex_decode (strings_TrimPrefix priv ''0x''))) mk"

definition PrivateKey :: "Account \<Rightarrow> bytes" where "PrivateKey a = privateKey a"
definition PublicKey :: "Account \<Rightarrow> bytes" where "PublicKey a = publicKey a"
definition PrivateKeyHex :: "Account \<Rightarrow> string" where "PrivateKeyHex a = hex_encode (privateKey a)"
definition PublicKeyHex :: "Account \<Rightarrow> string" where "PublicKeyHex a = hex_encode (publicKey a)"
definition Address :: "Account \<Rightarrow> string" where "Address a = address a"
definition Wipe :: "Account \<Rightarrow> Account" where
  "Wipe a = a\<lparr>privateKey := replicate (length (privateKey a)) 0\<rparr>"

text \<open>The public key of a seed of 32 bytes, where a longer private key is refused.\<close>

definition seed_public :: "'s key_env \<Rightarrow> bytes \<Rightarrow> account_error + bytes" where
  "seed_public K priv =
     andThen (require (length priv = 32) (BadPrivateKeyLength (length priv))) (\<lambda>_. Inr (drop 32 (NewKeyFromSeed K priv)))"

definition ed25519_public :: "'s key_env \<Rightarrow> bytes \<Rightarrow> account_error + bytes" where
  "ed25519_public K priv = mapErr KeyFailed (PrivateKey2PublicKeyED25519 K priv)"

definition ecdsa_public :: "'s key_env \<Rightarrow> bytes \<Rightarrow> account_error + bytes" where
  "ecdsa_public K priv = mapErr KeyFailed (PrivateKey2PublicKeyECDSA K priv)"

definition address_of :: "'e + string \<Rightarrow> account_error + string" where
  "address_of r = mapErr (\<lambda>_. AddressFailed) r"

definition ed25519_mnemonic ::
  "'s key_env \<Rightarrow> (bytes \<Rightarrow> account_error + Account) \<Rightarrow> string \<Rightarrow> string \<Rightarrow> account_error + Account"
where
  "ed25519_mnemonic K mk mnemonic path = andThen (mapErr KeyFailed (DerivePrivateKeyED25519 K mnemonic path)) mk"

definition ecdsa_mnemonic ::
  "'s key_env \<Rightarrow> (bytes \<Rightarrow> account_error + Account) \<Rightarrow> string \<Rightarrow> string \<Rightarrow> account_error + Account"
where
  "ecdsa_mnemonic K mk mnemonic path = andThen (mapErr KeyFailed (DerivePrivateKeyECDSA K mnemonic path)) mk"

section \<open>Networks of the Bitcoin family\<close>

text \<open>The parameters of a network; \<open>MainNetParams\<close> of the library is an argument.\<close>

record netParams =
  Name :: string
  Net :: u32
  DefaultPort :: string
  Bech32HRPSegwit :: string
  PubKeyHashAddrID :: u8
  ScriptHashAddrID :: u8
  PrivateKeyID :: u8
  WitnessPubKeyHashAddrID :: u8
  WitnessScriptHashAddrID :: u8
  HDPrivateKeyID :: bytes
  HDPublicKeyID :: bytes
  HDCoinType :: u32

definition ltc_params :: "netParams \<Rightarrow> netParams" where
  "ltc_params main =
     main\<lparr>Net := 2, DefaultPort := ''9333'', Bech32HRPSegwit := ''ltc'', PubKeyHashAddrID := 0x30,
          ScriptHashAddrID := 0x32, PrivateKeyID := 0xB0, HDCoinType := 2\<rparr>"

definition doge_params :: "netParams \<Rightarrow> netParams" where
  "doge_params main =
     main\<lparr>Net := 3, DefaultPort := ''22556'', PubKeyHashAddrID := 0x1E, ScriptHashAddrID := 0x16, PrivateKeyID := 0x9E\<rparr>"

definition sys_params :: "netParams \<Rightarrow> netParams" where
  "sys_params main =
     main\<lparr>Name := ''sysmainnet'', Net := 1, Bech32HRPSegwit := ''sys'', PubKeyHashAddrID := 0x3F,
          ScriptHashAddrID := 0x05, PrivateKeyID := 0x80, WitnessPubKeyHashAddrID := 0x06,
          WitnessScriptHashAddrID := 0x0A, HDCoinType := 57, HDPrivateKeyID := [0x04, 0xB2, 0x43, 0x0C],
          HDPublicKeyID := [0x04, 0xb2, 0x47, 0x46]\<rparr>"

section \<open>The accounts of the chains\<close>

definition aptos_PublicKey2Address :: "(bytes \<Rightarrow> bytes) \<Rightarrow> bytes \<Rightarrow> string" where
  "aptos_PublicKey2Address sha3 p = ''0x'' @ hex_encode (sha3 (p @ [0]))"

definition kaspa_public :: "'s key_env \<Rightarrow> bytes \<Rightarrow> account_error + bytes" where
  "kaspa_public K priv =
     andThen (ecdsa_public K priv) (\<lambda>p. andThen (require (\<not> length p < 1) BadPublicKey) (\<lambda>_. Inr (drop 1 p)))"

definition sr25519_public :: "'s key_env \<Rightarrow> bytes \<Rightarrow> account_error + bytes" where
  "sr25519_public K priv = mapErr KeyFailed (PrivateKey2PublicKeySR25519 K priv)"

definition algorand_NewAccountFromPrivateKey :: "'s key_env \<Rightarrow> algorand_env \<Rightarrow> bytes \<Rightarrow> account_error + Account" where
  "algorand_NewAccountFromPrivateKey K E =
     new_account (ed25519_public K) (\<lambda>p. address_of (Algorand.PublicKey2Address E p)) (Algorand.ValidAddress E) []"

definition algorand_NewAccountFromMnemonic :: "'s key_env \<Rightarrow> algorand_env \<Rightarrow> string \<Rightarrow> string \<Rightarrow> account_error + Account" where
  "algorand_NewAccountFromMnemonic K E = ed25519_mnemonic K (algorand_NewAccountFromPrivateKey K E)"

definition algorand_NewAccountFromPrivateKeyHex :: "'s key_env \<Rightarrow> algorand_env \<Rightarrow> string \<Rightarrow> account_error + Account" where
  "algorand_NewAccountFromPrivateKeyHex K E = from_hex (algorand_NewAccountFromPrivateKey K E)"

definition algorand_SignData :: "'s key_env \<Rightarrow> Account \<Rightarrow> bytes \<Rightarrow> key_error + bytes" where
  "algorand_SignData K a d = SignWithPrivateKeyED25519 K (privateKey a) d"

definition algorand_VerifySignData :: "'s key_env \<Rightarrow> Account \<Rightarrow> bytes \<Rightarrow> bytes \<Rightarrow> bool" where
  "algorand_VerifySignData K a d sig \<longleftrightarrow> VerifySignatureED25519 K (publicKey a) d sig"

definition aptos_NewAccountFromPrivateKey :: "'s key_env \<Rightarrow> (bytes \<Rightarrow> bytes) \<Rightarrow> bytes \<Rightarrow> account_error + Account" where
  "aptos_NewAccountFromPrivateKey K sha3 =
     new_account (ed25519_public K) (\<lambda>p. Inr (aptos_PublicKey2Address sha3 p)) Aptos.ValidAddress []"

definition aptos_NewAccountFromMnemonic :: "'s key_env \<Rightarrow> (bytes \<Rightarrow> bytes) \<Rightarrow> string \<Rightarrow> string \<Rightarrow> account_error + Account" where
  "aptos_NewAccountFromMnemonic K sha3 = ed25519_mnemonic K (aptos_NewAccountFromPrivateKey K sha3)"

definition aptos_NewAccountFromPrivateKeyHex :: "'s key_env \<Rightarrow> (bytes \<Rightarrow> bytes) \<Rightarrow> string \<Rightarrow> account_error + Account" where
  "aptos_NewAccountFromPrivateKeyHex K sha3 = from_hex (aptos_NewAccountFromPrivateKey K sha3)"

definition aptos_SignData :: "'s key_env \<Rightarrow> Account \<Rightarrow> bytes \<Rightarrow> key_error + bytes" where
  "aptos_SignData K a d = SignWithPrivateKeyED25519 K (privateKey a) d"

definition aptos_VerifySignData :: "'s key_env \<Rightarrow> Account \<Rightarrow> bytes \<Rightarrow> bytes \<Rightarrow> bool" where
  "aptos_VerifySignData K a d sig \<longleftrightarrow> VerifySignatureED25519 K (publicKey a) d sig"

definition cosmos_NewAccountFromPrivateKey :: "'s key_env \<Rightarrow> cosmos_env \<Rightarrow> string \<Rightarrow> bytes \<Rightarrow> account_error + Account" where
  "cosmos_NewAccountFromPrivateKey K E net =
     new_account (ecdsa_public K) (\<lambda>p. address_of (Cosmos.PublicKey2Address E p net)) (\<lambda>a. Cosmos.ValidAddress E a net) net"

definition cosmos_NewAccountFromMnemonic :: "'s key_env \<Rightarrow> cosmos_env \<Rightarrow> string \<Rightarrow> string \<Rightarrow> string \<Rightarrow> account_error + Account" where
  "cosmos_NewAccountFromMnemonic K E net = ecdsa_mnemonic K (cosmos_NewAccountFromPrivateKey K E net)"

definition cosmos_NewAccountFromPrivateKeyHex :: "'s key_env \<Rightarrow> cosmos_env \<Rightarrow> string \<Rightarrow> string \<Rightarrow> account_error + Account" where
  "cosmos_NewAccountFromPrivateKeyHex K E net = from_hex (cosmos_NewAccountFromPrivateKey K E net)"

definition cosmos_SignData :: "'s key_env \<Rightarrow> Account \<Rightarrow> bytes \<Rightarrow> key_error + bytes" where
  "cosmos_SignData K a d = SignWithPrivateKeyECDSAForUTXO K (privateKey a) d"

definition cosmos_VerifySignData :: "'s key_env \<Rightarrow> Account \<Rightarrow> bytes \<Rightarrow> bytes \<Rightarrow> bool" where
  "cosmos_VerifySignData K a d sig \<longleftrightarrow> VerifySignatureECDSAForUTXO K (publicKey a) d sig"

definition evm_NewAccountFromPrivateKey :: "'s key_env \<Rightarrow> ('t, 'd) evm_env \<Rightarrow> bytes \<Rightarrow> account_error + Account" where
  "evm_NewAccountFromPrivateKey K E =
     new_account (ecdsa_public K) (\<lambda>p. address_of (Evm.PublicKey2Address E p)) (Evm.ValidAddress E) []"

definition evm_NewAccountFromMnemonic :: "'s key_env \<Rightarrow> ('t, 'd) evm_env \<Rightarrow> string \<Rightarrow> string \<Rightarrow> account_error + Account" where
  "evm_NewAccountFromMnemonic K E = ecdsa_mnemonic K (evm_NewAccountFromPrivateKey K E)"

definition evm_NewAccountFromPrivateKeyHex :: "'s key_env \<Rightarrow> ('t, 'd) evm_env \<Rightarrow> string \<Rightarrow> account_error + Account" where
  "evm_NewAccountFromPrivateKeyHex K E = from_hex (evm_NewAccountFromPrivateKey K E)"

definition evm_SignData :: "'s key_env \<Rightarrow> Account \<Rightarrow> bytes \<Rightarrow> key_error + bytes" where
  "evm_SignData K a d = SignWithPrivateKeyECDSAForEVM K (privateKey a) d"

definition evm_VerifySignData :: "'s key_env \<Rightarrow> Account \<Rightarrow> bytes \<Rightarrow> bytes \<Rightarrow> bool" where
  "evm_VerifySignData K a d sig \<longleftrightarrow> VerifySignatureECDSAForEVM K (publicKey a) d sig"

definition filecoin_NewAccountFromPrivateKey :: "'s key_env \<Rightarrow> filecoin_env \<Rightarrow> bytes \<Rightarrow> account_error + Account" where
  "filecoin_NewAccountFromPrivateKey K E =
     new_account (ecdsa_public K) (\<lambda>p. address_of (Filecoin.PublicKey2Address E p)) (Filecoin.ValidAddress E) []"

definition filecoin_NewAccountFromMnemonic :: "'s key_env \<Rightarrow> filecoin_env \<Rightarrow> string \<Rightarrow> string \<Rightarrow> account_error + Account" where
  "filecoin_NewAccountFromMnemonic K E = ecdsa_mnemonic K (filecoin_NewAccountFromPrivateKey K E)"

definition filecoin_NewAccountFromPrivateKeyHex :: "'s key_env \<Rightarrow> filecoin_env \<Rightarrow> string \<Rightarrow> account_error + Account" where
  "filecoin_NewAccountFromPrivateKeyHex K E = from_hex (filecoin_NewAccountFromPrivateKey K E)"

definition filecoin_SignData :: "'s key_env \<Rightarrow> Account \<Rightarrow> bytes \<Rightarrow> key_error + bytes" where
  "filecoin_SignData K a d = SignWithPrivateKeyECDSAForEVM K (privateKey a) d"

definition filecoin_VerifySignData :: "'s key_env \<Rightarrow> Account \<Rightarrow> bytes \<Rightarrow> bytes \<Rightarrow> bool" where
  "filecoin_VerifySignData K a d sig \<longleftrightarrow> VerifySignatureECDSAForEVM K (publicKey a) d sig"

definition kaspa_NewAccountFromPrivateKey :: "'s key_env \<Rightarrow> bytes \<Rightarrow> account_error + Account" where
  "kaspa_NewAccountFromPrivateKey K =
     new_account (kaspa_public K) (\<lambda>p. Inr (KaspaAddress.PublicKey2Address p)) KaspaAddress.ValidAddress []"

definition kaspa_NewAccountFromMnemonic :: "'s key_env \<Rightarrow> string \<Rightarrow> string \<Rightarrow> account_error + Account" where
  "kaspa_NewAccountFromMnemonic K = ecdsa_mnemonic K (kaspa_NewAccountFromPrivateKey K)"

definition kaspa_NewAccountFromPrivateKeyHex :: "'s key_env \<Rightarrow> string \<Rightarrow> account_error + Account" where
  "kaspa_NewAccountFromPrivateKeyHex K = from_hex (kaspa_NewAccountFromPrivateKey K)"

definition kaspa_SignData :: "'s key_env \<Rightarrow> Account \<Rightarrow> bytes \<Rightarrow> key_error + bytes" where
  "kaspa_SignData K a d = SignWithPrivateKeySchnorr K (privateKey a) d"

definition kaspa_VerifySignData :: "'s key_env \<Rightarrow> Account \<Rightarrow> bytes \<Rightarrow> bytes \<Rightarrow> bool" where
  "kaspa_VerifySignData K a d sig \<longleftrightarrow> VerifySignatureSchnorr K (publicKey a) d sig"

text \<open>A message is hashed with a fixed key by a keyed BLAKE2b; \<open>None\<close> is no signature.\<close>

definition SignDataLikeOkx :: "'s key_env \<Rightarrow> (bytes \<Rightarrow> bytes \<Rightarrow> bytes) \<Rightarrow> Account \<Rightarrow> bytes \<Rightarrow> bytes option" where
  "SignDataLikeOkx K blake2b_keyed a d =
     SchnorrSign K (privateKey a) (blake2b_keyed (bytes_of_string ''PersonalMessageSigningHash'') d)"

definition multiversx_NewAccountFromPrivateKey :: "'s key_env \<Rightarrow> multiversx_env \<Rightarrow> bytes \<Rightarrow> account_error + Account" where
  "multiversx_NewAccountFromPrivateKey K E =
     new_account (ed25519_public K) (\<lambda>p. Inr (Multiversx.PublicKey2Address E p)) Multiversx.ValidAddress []"

definition multiversx_NewAccountFromMnemonic :: "'s key_env \<Rightarrow> multiversx_env \<Rightarrow> string \<Rightarrow> string \<Rightarrow> account_error + Account" where
  "multiversx_NewAccountFromMnemonic K E = ed25519_mnemonic K (multiversx_NewAccountFromPrivateKey K E)"

definition multiversx_NewAccountFromPrivateKeyHex :: "'s key_env \<Rightarrow> multiversx_env \<Rightarrow> string \<Rightarrow> account_error + Account" where
  "multiversx_NewAccountFromPrivateKeyHex K E = from_hex (multiversx_NewAccountFromPrivateKey K E)"

definition multiversx_SignData :: "'s key_env \<Rightarrow> Account \<Rightarrow> bytes \<Rightarrow> key_error + bytes" where
  "multiversx_SignData K a d = SignWithPrivateKeyED25519 K (privateKey a) d"

definition multiversx_VerifySignData :: "'s key_env \<Rightarrow> Account \<Rightarrow> bytes \<Rightarrow> bytes \<Rightarrow> bool" where
  "multiversx_VerifySignData K a d sig \<longleftrightarrow> VerifySignatureED25519 K (publicKey a) d sig"

definition near_NewAccountFromPrivateKey :: "'s key_env \<Rightarrow> bytes \<Rightarrow> account_error + Account" where
  "near_NewAccountFromPrivateKey K =
     new_account (seed_public K) (\<lambda>p. Inr (hex_encode p)) (\<lambda>_. True) []"

definition near_NewAccountFromMnemonic :: "'s key_env \<Rightarrow> string \<Rightarrow> string \<Rightarrow> account_error + Account" where
  "near_NewAccountFromMnemonic K = ed25519_mnemonic K (near_NewAccountFromPrivateKey K)"

definition near_NewAccountFromPrivateKeyHex :: "'s key_env \<Rightarrow> string \<Rightarrow> account_error + Account" where
  "near_NewAccountFromPrivateKeyHex K = from_hex (near_NewAccountFromPrivateKey K)"

definition near_SignData :: "'s key_env \<Rightarrow> Account \<Rightarrow> bytes \<Rightarrow> key_error + bytes" where
  "near_SignData K a d = SignWithPrivateKeyED25519 K (privateKey a) d"

definition near_VerifySignData :: "'s key_env \<Rightarrow> Account \<Rightarrow> bytes \<Rightarrow> bytes \<Rightarrow> bool" where
  "near_VerifySignData K a d sig \<longleftrightarrow> VerifySignatureED25519 K (publicKey a) d sig"

definition PrivateKeyBase58 :: "'s key_env \<Rightarrow> (bytes \<Rightarrow> string) \<Rightarrow> Account \<Rightarrow> string" where
  "PrivateKeyBase58 K enc58 a = enc58 (NewKeyFromSeed K (privateKey a))"

definition PublicKeyBase58 :: "(bytes \<Rightarrow> string) \<Rightarrow> Account \<Rightarrow> string" where
  "PublicKeyBase58 enc58 a = enc58 (publicKey a)"

definition solana_NewAccountFromPrivateKey :: "'s key_env \<Rightarrow> ('m, 't) solana_env \<Rightarrow> bytes \<Rightarrow> account_error + Account" where
  "solana_NewAccountFromPrivateKey K E =
     new_account (ed25519_public K) (\<lambda>p. Inr (Solana.PublicKey2Address E p)) (Solana.ValidAddress E) []"

definition solana_NewAccountFromMnemonic :: "'s key_env \<Rightarrow> ('m, 't) solana_env \<Rightarrow> string \<Rightarrow> string \<Rightarrow> account_error + Account" where
  "solana_NewAccountFromMnemonic K E = ed25519_mnemonic K (solana_NewAccountFromPrivateKey K E)"

definition solana_NewAccountFromPrivateKeyHex :: "'s key_env \<Rightarrow> ('m, 't) solana_env \<Rightarrow> string \<Rightarrow> account_error + Account" where
  "solana_NewAccountFromPrivateKeyHex K E = from_hex (solana_NewAccountFromPrivateKey K E)"

definition solana_SignData :: "'s key_env \<Rightarrow> Account \<Rightarrow> bytes \<Rightarrow> key_error + bytes" where
  "solana_SignData K a d = SignWithPrivateKeyED25519 K (privateKey a) d"

definition solana_VerifySignData :: "'s key_env \<Rightarrow> Account \<Rightarrow> bytes \<Rightarrow> bytes \<Rightarrow> bool" where
  "solana_VerifySignData K a d sig \<longleftrightarrow> VerifySignatureED25519 K (publicKey a) d sig"

definition stellar_NewAccountFromPrivateKey :: "'s key_env \<Rightarrow> bytes \<Rightarrow> account_error + Account" where
  "stellar_NewAccountFromPrivateKey K =
     new_account (seed_public K) (\<lambda>p. address_of (StellarKey.encode VersionByteAccountID p)) StellarKey.ValidAddress []"

definition stellar_NewAccountFromMnemonic :: "'s key_env \<Rightarrow> string \<Rightarrow> string \<Rightarrow> account_error + Account" where
  "stellar_NewAccountFromMnemonic K = ed25519_mnemonic K (stellar_NewAccountFromPrivateKey K)"

definition stellar_NewAccountFromPrivateKeyHex :: "'s key_env \<Rightarrow> string \<Rightarrow> account_error + Account" where
  "stellar_NewAccountFromPrivateKeyHex K = from_hex (stellar_NewAccountFromPrivateKey K)"

definition stellar_SignData :: "'s key_env \<Rightarrow> Account \<Rightarrow> bytes \<Rightarrow> key_error + bytes" where
  "stellar_SignData K a d = SignWithPrivateKeyED25519 K (privateKey a) d"

definition stellar_VerifySignData :: "'s key_env \<Rightarrow> Account \<Rightarrow> bytes \<Rightarrow> bytes \<Rightarrow> bool" where
  "stellar_VerifySignData K a d sig \<longleftrightarrow> VerifySignatureED25519 K (publicKey a) d sig"

definition substrate_NewAccountFromPrivateKey :: "'s key_env \<Rightarrow> substrate_env \<Rightarrow> string \<Rightarrow> bytes \<Rightarrow> account_error + Account" where
  "substrate_NewAccountFromPrivateKey K H net =
     new_account (sr25519_public K) (\<lambda>p. Inr (Substrate.PublicKey2Address H p net)) (\<lambda>a. Substrate.ValidAddress H a net) net"

text \<open>The first segment of a path of two or more is dropped, and account 0 is the root key.\<close>

definition normalizePath :: "string \<Rightarrow> string" where
  "normalizePath path =
     (let path' = (if strings_HasPrefix path ''//'' then
                     case strings_Index (drop 2 path) ''//'' of None \<Rightarrow> path | Some idx \<Rightarrow> drop idx (drop 2 path)
                   else path)
      in if path' = ''//0'' then [] else path')"

definition substrate_NewAccountFromMnemonic :: "'s key_env \<Rightarrow> substrate_env \<Rightarrow> string \<Rightarrow> string \<Rightarrow> string \<Rightarrow> account_error + Account" where
  "substrate_NewAccountFromMnemonic K H net mnemonic path =
     andThen (mapErr KeyFailed (DerivePrivateKeySR25519 K mnemonic (normalizePath path))) (substrate_NewAccountFromPrivateKey K H net)"

definition substrate_NewAccountFromMnemonicStandard :: "'s key_env \<Rightarrow> substrate_env \<Rightarrow> string \<Rightarrow> string \<Rightarrow> string \<Rightarrow> account_error + Account" where
  "substrate_NewAccountFromMnemonicStandard K H net mnemonic path =
     andThen (mapErr KeyFailed (DerivePrivateKeySR25519Standard K mnemonic path)) (substrate_NewAccountFromPrivateKey K H net)"

definition substrate_NewAccountFromPrivateKeyHex :: "'s key_env \<Rightarrow> substrate_env \<Rightarrow> string \<Rightarrow> string \<Rightarrow> account_error + Account" where
  "substrate_NewAccountFromPrivateKeyHex K H net = from_hex (substrate_NewAccountFromPrivateKey K H net)"

definition substrate_SignData :: "'s key_env \<Rightarrow> Account \<Rightarrow> bytes \<Rightarrow> key_error + bytes" where
  "substrate_SignData K a d = SignWithPrivateKeySR25519 K (privateKey a) d"

definition substrate_VerifySignData :: "'s key_env \<Rightarrow> Account \<Rightarrow> bytes \<Rightarrow> bytes \<Rightarrow> bool" where
  "substrate_VerifySignData K a d sig \<longleftrightarrow> VerifySignatureSR25519 K (publicKey a) d sig"

definition sui_NewAccountFromPrivateKey :: "'s key_env \<Rightarrow> (bytes \<Rightarrow> bytes) \<Rightarrow> bytes \<Rightarrow> account_error + Account" where
  "sui_NewAccountFromPrivateKey K blake =
     new_account (ed25519_public K) (\<lambda>p. Inr (Sui.PublicKey2Address blake p)) Sui.ValidAddress []"

definition sui_NewAccountFromMnemonic :: "'s key_env \<Rightarrow> (bytes \<Rightarrow> bytes) \<Rightarrow> string \<Rightarrow> string \<Rightarrow> account_error + Account" where
  "sui_NewAccountFromMnemonic K blake = ed25519_mnemonic K (sui_NewAccountFromPrivateKey K blake)"

definition sui_NewAccountFromPrivateKeyHex :: "'s key_env \<Rightarrow> (bytes \<Rightarrow> bytes) \<Rightarrow> string \<Rightarrow> account_error + Account" where
  "sui_NewAccountFromPrivateKeyHex K blake = from_hex (sui_NewAccountFromPrivateKey K blake)"

definition sui_SignData :: "'s key_env \<Rightarrow> Account \<Rightarrow> bytes \<Rightarrow> key_error + bytes" where
  "sui_SignData K a d = SignWithPrivateKeyED25519 K (privateKey a) d"

definition sui_VerifySignData :: "'s key_env \<Rightarrow> Account \<Rightarrow> bytes \<Rightarrow> bytes \<Rightarrow> bool" where
  "sui_VerifySignData K a d sig \<longleftrightarrow> VerifySignatureED25519 K (publicKey a) d sig"

definition ton_NewAccountFromPrivateKey :: "'s key_env \<Rightarrow> ('a, 'c, 'x) ton_env \<Rightarrow> bytes \<Rightarrow> account_error + Account" where
  "ton_NewAccountFromPrivateKey K E =
     new_account (seed_public K) (\<lambda>p. address_of (Ton.PublicKey2Address E p)) (Ton.ValidAddress E) []"

text \<open>The path is not used.\<close>

definition ton_NewAccountFromMnemonic :: "'s key_env \<Rightarrow> ('a, 'c, 'x) ton_env \<Rightarrow> string \<Rightarrow> string \<Rightarrow> account_error + Account" where
  "ton_NewAccountFromMnemonic K E mnemonic path = ton_NewAccountFromPrivateKey K E (Ton.derivePrivateKey E mnemonic)"

definition ton_NewAccountFromPrivateKeyHex :: "'s key_env \<Rightarrow> ('a, 'c, 'x) ton_env \<Rightarrow> string \<Rightarrow> account_error + Account" where
  "ton_NewAccountFromPrivateKeyHex K E = from_hex (ton_NewAccountFromPrivateKey K E)"

definition ton_SignData :: "'s key_env \<Rightarrow> Account \<Rightarrow> bytes \<Rightarrow> key_error + bytes" where
  "ton_SignData K a d = SignWithPrivateKeyED25519 K (privateKey a) d"

definition ton_VerifySignData :: "'s key_env \<Rightarrow> Account \<Rightarrow> bytes \<Rightarrow> bytes \<Rightarrow> bool" where
  "ton_VerifySignData K a d sig \<longleftrightarrow> VerifySignatureED25519 K (publicKey a) d sig"

definition tron_NewAccountFromPrivateKey :: "'s key_env \<Rightarrow> tron_env \<Rightarrow> bytes \<Rightarrow> account_error + Account" where
  "tron_NewAccountFromPrivateKey K E =
     new_account (ecdsa_public K) (\<lambda>p. Inr (Tron.PublicKey2Address E p)) (Tron.ValidAddress E) []"

definition tron_NewAccountFromMnemonic :: "'s key_env \<Rightarrow> tron_env \<Rightarrow> string \<Rightarrow> string \<Rightarrow> account_error + Account" where
  "tron_NewAccountFromMnemonic K E = ecdsa_mnemonic K (tron_NewAccountFromPrivateKey K E)"

definition tron_NewAccountFromPrivateKeyHex :: "'s key_env \<Rightarrow> tron_env \<Rightarrow> string \<Rightarrow> account_error + Account" where
  "tron_NewAccountFromPrivateKeyHex K E = from_hex (tron_NewAccountFromPrivateKey K E)"

definition tron_SignData :: "'s key_env \<Rightarrow> Account \<Rightarrow> bytes \<Rightarrow> key_error + bytes" where
  "tron_SignData K a d = SignWithPrivateKeyECDSAForEVM K (privateKey a) d"

definition tron_VerifySignData :: "'s key_env \<Rightarrow> Account \<Rightarrow> bytes \<Rightarrow> bytes \<Rightarrow> bool" where
  "tron_VerifySignData K a d sig \<longleftrightarrow> VerifySignatureECDSAForEVM K (publicKey a) d sig"

definition utxo_NewAccountFromPrivateKey :: "'s key_env \<Rightarrow> ('p, 'a, 'k) btcd \<Rightarrow> string \<Rightarrow> bytes \<Rightarrow> account_error + Account" where
  "utxo_NewAccountFromPrivateKey K E net =
     new_account (ecdsa_public K) (\<lambda>p. orErr AddressPanic (UtxoTx.PublicKey2Address E p net)) (\<lambda>a. UtxoTx.ValidAddress E a net) net"

definition utxo_NewAccountFromMnemonic :: "'s key_env \<Rightarrow> ('p, 'a, 'k) btcd \<Rightarrow> string \<Rightarrow> string \<Rightarrow> string \<Rightarrow> account_error + Account" where
  "utxo_NewAccountFromMnemonic K E net = ecdsa_mnemonic K (utxo_NewAccountFromPrivateKey K E net)"

definition utxo_NewAccountFromPrivateKeyHex :: "'s key_env \<Rightarrow> ('p, 'a, 'k) btcd \<Rightarrow> string \<Rightarrow> string \<Rightarrow> account_error + Account" where
  "utxo_NewAccountFromPrivateKeyHex K E net = from_hex (utxo_NewAccountFromPrivateKey K E net)"

definition utxo_SignData :: "'s key_env \<Rightarrow> Account \<Rightarrow> bytes \<Rightarrow> key_error + bytes" where
  "utxo_SignData K a d = SignWithPrivateKeyECDSAForUTXO K (privateKey a) d"

definition utxo_VerifySignData :: "'s key_env \<Rightarrow> Account \<Rightarrow> bytes \<Rightarrow> bytes \<Rightarrow> bool" where
  "utxo_VerifySignData K a d sig \<longleftrightarrow> VerifySignatureECDSAForUTXO K (publicKey a) d sig"

subsection \<open>Starknet\<close>

text \<open>The operations of the curve that the builder does not need.\<close>

record stark_curve =
  PrivateToPoint :: "int \<Rightarrow> int option"
  GetYCoordinate :: "int \<Rightarrow> int option"
  CurveVerify :: "int \<Rightarrow> int \<Rightarrow> int \<Rightarrow> int \<Rightarrow> int \<Rightarrow> bool"
  curve_P :: int

definition starknet_NewAccountFromPrivateKey ::
  "starknet_env \<Rightarrow> stark_curve \<Rightarrow> bytes \<Rightarrow> account_error + Account"
where
  "starknet_NewAccountFromPrivateKey E C =
     new_account (\<lambda>priv. andThen (orErr PointFailed (PrivateToPoint C (int (be_val priv)))) (\<lambda>x. Inr (big_Bytes (nat \<bar>x\<bar>))))
       (\<lambda>p. address_of (Starknet.PublicKey2Address E p)) Starknet.ValidAddress []"

text \<open>The key of a path under the key of the first account of Ethereum is ground.\<close>

definition starknet_derivePrivateKey ::
  "'s key_env \<Rightarrow> starknet_env \<Rightarrow> string \<Rightarrow> string \<Rightarrow> (account_error + bytes) option"
where
  "starknet_derivePrivateKey K E mnemonic path =
     (case andThen (mapErr (\<lambda>_. DerivationFailed) (NewSeedWithErrorChecking (Stretch K) (Nfkd K) (Words K) mnemonic [])) (\<lambda>seed.
             andThen (mapErr (\<lambda>_. DerivationFailed) (SeedToKeyForECDSA (Secp K) seed ''m/44'/60'/0'/0/0'')) (\<lambda>k.
               mapErr (\<lambda>_. DerivationFailed) (SeedToKeyForECDSA (Secp K) (Key k) path))) of
        Inl e \<Rightarrow> Some (Inl e)
      | Inr k1 \<Rightarrow> map_option (mapErr GrindingFailed) (grindKey E (Key k1)))"

definition starknet_NewAccountFromMnemonic ::
  "'s key_env \<Rightarrow> starknet_env \<Rightarrow> stark_curve \<Rightarrow> string \<Rightarrow> string \<Rightarrow> (account_error + Account) option"
where
  "starknet_NewAccountFromMnemonic K E C mnemonic path =
     map_option (\<lambda>r. andThen r (starknet_NewAccountFromPrivateKey E C)) (starknet_derivePrivateKey K E mnemonic path)"

definition starknet_NewAccountFromPrivateKeyHex ::
  "starknet_env \<Rightarrow> stark_curve \<Rightarrow> string \<Rightarrow> account_error + Account"
where
  "starknet_NewAccountFromPrivateKeyHex E C = from_hex (starknet_NewAccountFromPrivateKey E C)"

definition starknet_PublicKeyHex :: "Account \<Rightarrow> string" where
  "starknet_PublicKeyHex a = ''0x'' @ Sprintf_x (int (be_val (publicKey a)))"

definition starknet_SignData :: "starknet_env \<Rightarrow> Account \<Rightarrow> bytes \<Rightarrow> account_error + bytes" where
  "starknet_SignData E a d =
     andThen (orErr CurveFailed (CurveSign E (int (be_val d)) (int (be_val (privateKey a))))) (\<lambda>(r, s).
     andThen (require (\<bar>r\<bar> < 256 ^ 32 \<and> \<bar>s\<bar> < 256 ^ 32) FillBytesPanicked) (\<lambda>_.
       Inr (be_bytes 32 (nat \<bar>r\<bar>) @ be_bytes 32 (nat \<bar>s\<bar>))))"

text \<open>Only the first coordinate of the point is known, so both points with it are tried.\<close>

definition starknet_VerifySignData :: "stark_curve \<Rightarrow> Account \<Rightarrow> bytes \<Rightarrow> bytes \<Rightarrow> bool" where
  "starknet_VerifySignData C a d sig \<longleftrightarrow>
     (if length sig \<noteq> 64 then False
      else
        let msg = int (be_val d); r = int (be_val (take 32 sig)); s = int (be_val (drop 32 sig));
            x = int (be_val (publicKey a))
        in case GetYCoordinate C x of
             None \<Rightarrow> False
           | Some y \<Rightarrow> if CurveVerify C msg r s x y then True else CurveVerify C msg r s x (curve_P C - y))"


section \<open>Making accounts\<close>

lemma trim_hex: "strings_TrimPrefix (hex_encode bs) ''0x'' = hex_encode bs"
proof -
  have "hexDigit n \<noteq> CHR ''x''" if "n < 16" for n
    using char_nat_hexDigit [OF that] that by (auto simp: char_nat_def split: if_splits)
  then have "hexDigit (unat b mod 16) \<noteq> CHR ''x''" for b :: u8 by simp
  then show ?thesis by (cases bs) (auto simp: strings_TrimPrefix_def strings_HasPrefix_def)
qed

lemma new_account_Inr:
  "new_account pub addr valid net priv = Inr a \<longleftrightarrow>
     (\<exists>p ad. pub priv = Inr p \<and> addr p = Inr ad \<and> valid ad \<and>
       a = \<lparr>privateKey = priv, publicKey = p, address = ad, network = net\<rparr>)"
  by (auto simp: new_account_def andThen_eq_Inr require_def split: if_splits)

text \<open>
  What every way to make an account from a private key promises: the account holds the key, and the same
  key gives the same account. Exporting and importing the key then is a round trip.
\<close>

locale account_maker =
  fixes mk :: "bytes \<Rightarrow> account_error + Account"
  assumes keeps_key: "mk priv = Inr a \<Longrightarrow> privateKey a = priv"
begin

lemma export_plain: "mk priv = Inr a \<Longrightarrow> from_hex mk (PrivateKeyHex a) = Inr a"
  using keeps_key by (simp add: from_hex_def PrivateKeyHex_def trim_hex)

lemma export_prefixed: "mk priv = Inr a \<Longrightarrow> from_hex mk (''0x'' @ PrivateKeyHex a) = Inr a"
  using keeps_key by (simp add: from_hex_def PrivateKeyHex_def strings_TrimPrefix_def strings_HasPrefix_def)

lemma same_export: "mk p = Inr a \<Longrightarrow> mk q = Inr b \<Longrightarrow> PrivateKeyHex a = PrivateKeyHex b \<Longrightarrow> a = b"
  using keeps_key by (fastforce simp: PrivateKeyHex_def)

lemma bad_hex: "hex_decode (strings_TrimPrefix s ''0x'') = None \<Longrightarrow> from_hex mk s = Inl PrivateKeyHexInvalid"
  by (simp add: from_hex_def)

end

interpretation algorand_account: account_maker "algorand_NewAccountFromPrivateKey K E" for K E
  by unfold_locales (auto simp: algorand_NewAccountFromPrivateKey_def new_account_Inr)

interpretation aptos_account: account_maker "aptos_NewAccountFromPrivateKey K sha3" for K sha3
  by unfold_locales (auto simp: aptos_NewAccountFromPrivateKey_def new_account_Inr)

interpretation cosmos_account: account_maker "cosmos_NewAccountFromPrivateKey K E net" for K E net
  by unfold_locales (auto simp: cosmos_NewAccountFromPrivateKey_def new_account_Inr)

interpretation evm_account: account_maker "evm_NewAccountFromPrivateKey K E" for K E
  by unfold_locales (auto simp: evm_NewAccountFromPrivateKey_def new_account_Inr)

interpretation filecoin_account: account_maker "filecoin_NewAccountFromPrivateKey K E" for K E
  by unfold_locales (auto simp: filecoin_NewAccountFromPrivateKey_def new_account_Inr)

interpretation kaspa_account: account_maker "kaspa_NewAccountFromPrivateKey K" for K
  by unfold_locales (auto simp: kaspa_NewAccountFromPrivateKey_def new_account_Inr)

interpretation multiversx_account: account_maker "multiversx_NewAccountFromPrivateKey K E" for K E
  by unfold_locales (auto simp: multiversx_NewAccountFromPrivateKey_def new_account_Inr)

interpretation near_account: account_maker "near_NewAccountFromPrivateKey K" for K
  by unfold_locales (auto simp: near_NewAccountFromPrivateKey_def new_account_Inr)

interpretation solana_account: account_maker "solana_NewAccountFromPrivateKey K E" for K E
  by unfold_locales (auto simp: solana_NewAccountFromPrivateKey_def new_account_Inr)

interpretation starknet_account: account_maker "starknet_NewAccountFromPrivateKey E C" for E C
  by unfold_locales (auto simp: starknet_NewAccountFromPrivateKey_def new_account_Inr)

interpretation stellar_account: account_maker "stellar_NewAccountFromPrivateKey K" for K
  by unfold_locales (auto simp: stellar_NewAccountFromPrivateKey_def new_account_Inr)

interpretation substrate_account: account_maker "substrate_NewAccountFromPrivateKey K H net" for K H net
  by unfold_locales (auto simp: substrate_NewAccountFromPrivateKey_def new_account_Inr)

interpretation sui_account: account_maker "sui_NewAccountFromPrivateKey K blake" for K blake
  by unfold_locales (auto simp: sui_NewAccountFromPrivateKey_def new_account_Inr)

interpretation ton_account: account_maker "ton_NewAccountFromPrivateKey K E" for K E
  by unfold_locales (auto simp: ton_NewAccountFromPrivateKey_def new_account_Inr)

interpretation tron_account: account_maker "tron_NewAccountFromPrivateKey K E" for K E
  by unfold_locales (auto simp: tron_NewAccountFromPrivateKey_def new_account_Inr)

interpretation utxo_account: account_maker "utxo_NewAccountFromPrivateKey K E net" for K E net
  by unfold_locales (auto simp: utxo_NewAccountFromPrivateKey_def new_account_Inr)


interpretation any_account: account_maker "new_account pub addr valid net" for pub addr valid net
  by unfold_locales (auto simp: new_account_Inr)

text \<open>
  C0: Exporting the private key of an account as hex text and importing it, with or without the prefix
  0x, gives the same account back.
\<close>

theorem exported_account_restored:
  assumes "new_account pub addr valid net priv = Inr a"
  shows "from_hex (new_account pub addr valid net) (PrivateKeyHex a) = Inr a \<and>
    from_hex (new_account pub addr valid net) (''0x'' @ PrivateKeyHex a) = Inr a"
  using any_account.export_plain [OF assms] any_account.export_prefixed [OF assms] by blast

theorem exported_account_restored_witness:
  "from_hex (new_account Inr (\<lambda>p. Inr (hex_encode p)) (\<lambda>a. a \<noteq> []) []) (''0x'' @ hex_encode [10, 11]) =
     Inr \<lparr>privateKey = [10, 11], publicKey = [10, 11], address = hex_encode [10, 11], network = []\<rparr>"
  using exported_account_restored [of Inr "\<lambda>p. Inr (hex_encode p)" "\<lambda>a. a \<noteq> []" "[]" "[10, 11]"]
  by (simp add: new_account_def require_def PrivateKeyHex_def)

section \<open>Derivation paths of Substrate\<close>

lemma index_of_slashes:
  "CHR ''/'' \<notin> set coin \<Longrightarrow> strings_Index (coin @ ''//'' @ rest) ''//'' = Some (length coin)"
  by (induction coin) (auto simp: strings_HasPrefix_def)

lemma normalizePath_coin:
  "CHR ''/'' \<notin> set coin \<Longrightarrow>
     normalizePath (''//'' @ coin @ ''//'' @ index) = (if index = ''0'' then [] else ''//'' @ index)"
  using index_of_slashes [of coin index] by (simp add: normalizePath_def strings_HasPrefix_def)

text \<open>
  C0: The account of a path of coin type and index does not depend on the coin type: index 0 is the root
  key of the mnemonic, and any other index is derived under it.
\<close>

theorem substrate_coin_type_ignored:
  assumes "CHR ''/'' \<notin> set coin"
  shows "substrate_NewAccountFromMnemonic K H net mnemonic (''//'' @ coin @ ''//'' @ index) =
    andThen (mapErr KeyFailed (DerivePrivateKeySR25519 K mnemonic (if index = ''0'' then [] else ''//'' @ index)))
      (substrate_NewAccountFromPrivateKey K H net)"
  by (simp only: substrate_NewAccountFromMnemonic_def normalizePath_coin [OF assms])

theorem substrate_coin_type_ignored_witness:
  "\<forall>(K :: unit key_env) H net mnemonic.
     substrate_NewAccountFromMnemonic K H net mnemonic ''//354//0'' =
       andThen (mapErr KeyFailed (DerivePrivateKeySR25519 K mnemonic [])) (substrate_NewAccountFromPrivateKey K H net) \<and>
     substrate_NewAccountFromMnemonic K H net mnemonic ''//354//1'' =
       substrate_NewAccountFromMnemonic K H net mnemonic ''//434//1''"
  using substrate_coin_type_ignored [of "''354''" "_ :: unit key_env" _ _ _ "''0''"]
    substrate_coin_type_ignored [of "''354''" "_ :: unit key_env" _ _ _ "''1''"]
    substrate_coin_type_ignored [of "''434''" "_ :: unit key_env" _ _ _ "''1''"] by simp

section \<open>Accounts after Wipe\<close>

text \<open>
  C0: Wiping an account does not stop it from signing: the signature is then made with the key of zeros,
  whatever the account was, and no error is reported.
\<close>

theorem wiped_account_signs:
  assumes "aptos_NewAccountFromPrivateKey K sha3 priv = Inr a"
  shows "aptos_SignData K (Wipe a) d =
    Inr (Ed25519Sign K (if length priv = 32 then NewKeyFromSeed K (replicate 32 0) else replicate 64 0) d)"
  using assms
  by (auto simp: aptos_NewAccountFromPrivateKey_def new_account_Inr ed25519_public_def mapErr_def
      PrivateKey2PublicKeyED25519_def ed25519PrivateKey_def andThen_eq_Inr aptos_SignData_def Wipe_def
      SignWithPrivateKeyED25519_def split: if_splits sum.splits)

lemma aptos_sample_address: "Aptos.ValidAddress (aptos_PublicKey2Address (\<lambda>_. [1]) p)"
  by (simp add: Aptos.ValidAddress_def aptos_PublicKey2Address_def Aptos.MagicContactAddressForNative_def
      validHexAddress_def hexDigit_def) code_simp

theorem wiped_account_signs_witness:
  "\<forall>K :: unit key_env. aptos_SignData K
     (Wipe \<lparr>privateKey = replicate 32 7, publicKey = drop 32 (NewKeyFromSeed K (replicate 32 7)),
       address = aptos_PublicKey2Address (\<lambda>_. [1]) (drop 32 (NewKeyFromSeed K (replicate 32 7))), network = []\<rparr>) [5] =
     Inr (Ed25519Sign K (NewKeyFromSeed K (replicate 32 0)) [5])"
proof
  fix K :: "unit key_env"
  let ?p = "drop 32 (NewKeyFromSeed K (replicate 32 7))"
  have "aptos_NewAccountFromPrivateKey K (\<lambda>_. [1]) (replicate 32 7) = Inr \<lparr>privateKey = replicate 32 7, publicKey = ?p,
      address = aptos_PublicKey2Address (\<lambda>_. [1]) ?p, network = []\<rparr>"
    by (simp add: aptos_NewAccountFromPrivateKey_def new_account_Inr ed25519_public_def PrivateKey2PublicKeyED25519_def
        ed25519PrivateKey_def andThen_eq_Inr aptos_sample_address)
  from wiped_account_signs [OF this, of "[5]"] show "aptos_SignData K
     (Wipe \<lparr>privateKey = replicate 32 7, publicKey = ?p,
       address = aptos_PublicKey2Address (\<lambda>_. [1]) ?p, network = []\<rparr>) [5] =
     Inr (Ed25519Sign K (NewKeyFromSeed K (replicate 32 0)) [5])"
    by (simp)
qed

section \<open>Accounts of NEAR and Starknet\<close>

lemma hexDigit_alnum: "n < 16 \<Longrightarrow> alnum_char (hexDigit n)"
  by (simp add: alnum_char_def char_nat_hexDigit)

lemma hex_alnum: "list_all alnum_char (hex_encode bs)"
  by (induction bs) (simp_all add: hexDigit_alnum less_mult_imp_div_less)

text \<open>The implicit account of a key is an account identifier, although the code does not check it.\<close>

lemma near_address_valid:
  assumes "near_NewAccountFromPrivateKey K priv = Inr a" "length (NewKeyFromSeed K priv) = 64"
  shows "Near.ValidAddress (address a)"
proof -
  have a: "address a = hex_encode (drop 32 (NewKeyFromSeed K priv))"
    using assms(1) by (auto simp: near_NewAccountFromPrivateKey_def new_account_Inr seed_public_def andThen_eq_Inr)
  have "length (address a) = 64" using assms(2) by (simp add: a)
  then have "address a \<in> lang (Plus (Cls alnum_char))"
    unfolding plus_chars using hex_alnum a by (metis length_0_conv zero_neq_numeral)
  then have "address a \<in> lang part_rexp" by (auto simp: part_rexp_def intro: concI [of "[]", simplified] star_Nil)
  then have "address a \<in> lang nearAccountIDRegex"
    by (auto simp: nearAccountIDRegex_def intro: concI [of "[]", simplified] star_Nil)
  then show ?thesis using \<open>length (address a) = 64\<close> by (simp add: Near.ValidAddress_def MatchString_lang)
qed

lemma starknet_account_ends: "starknet_NewAccountFromMnemonic K E C mnemonic path \<noteq> None"
  by (simp add: starknet_NewAccountFromMnemonic_def starknet_derivePrivateKey_def grindKey_def grind_loop_find split: sum.splits)

end
