(* ===== verification/Permit2.thy ===== *)
theory Permit2
  imports Validator
begin

text \<open>
  \<open>contracts/permit2/permit2.go\<close>: the typed data a wallet signs to let a spender move tokens through the
  Permit2 contract, for one token or for several. A value of JSON is a datatype whose objects list their
  members; the renderer of JSON is an argument.
\<close>

section \<open>Types\<close>

datatype json = JStr string | JList "json list" | JObj "(string \<times> json) list"

record TokenPermissions =
  Token :: string
  permitted_Amount :: string

record PermitTransferFrom =
  Permitted :: TokenPermissions
  Spender :: string
  permit_Nonce :: string
  Deadline :: string

record PermitBatchTransferFrom =
  batch_Permitted :: "TokenPermissions list"
  batch_Spender :: string
  batch_Nonce :: string
  batch_Deadline :: string

record TypedField =
  field_Name :: string
  field_Type :: string

record Domain =
  domain_Name :: string
  ChainId :: string
  VerifyingContract :: string

record TypedData =
  Types :: "(string \<times> TypedField list) list"
  PrimaryType :: string
  TheDomain :: Domain
  Message :: json

datatype permit_error =
  ChainIdRequired | InvalidToken | InvalidAmount | InvalidSpender | InvalidNonce | InvalidDeadline
| EmptyPermitted | InvalidEntry nat | NilTypedData | MarshalFailed

section \<open>Checks\<close>

definition Address :: string where "Address = ''0x000000000022D473030F116dDEE9F6B43aC78BA3''"
definition DomainName :: string where "DomainName = ''Permit2''"

definition isAddr :: "string \<Rightarrow> bool" where
  "isAddr s = (let s = strings_TrimPrefix s ''0x'' in if length s \<noteq> 40 then False else list_all hex_char s)"

definition isDecimal :: "string \<Rightarrow> bool" where
  "isDecimal s = (if s = [] then False else big_SetString s \<noteq> None)"

definition validate ::
  "int \<Rightarrow> string \<Rightarrow> string \<Rightarrow> string \<Rightarrow> string \<Rightarrow> string \<Rightarrow> permit_error + unit"
where
  "validate chainId token amount spender nonce deadline =
     (if chainId \<le> 0 then Inl ChainIdRequired
      else if token \<noteq> [] \<and> \<not> isAddr token then Inl InvalidToken
      else if amount \<noteq> [] \<and> \<not> isDecimal amount then Inl InvalidAmount
      else if \<not> isAddr spender then Inl InvalidSpender
      else if \<not> isDecimal nonce then Inl InvalidNonce
      else if \<not> isDecimal deadline then Inl InvalidDeadline
      else Inr ())"

section \<open>Typed data\<close>

definition typed_field :: "string \<Rightarrow> string \<Rightarrow> TypedField" where
  "typed_field n t = \<lparr>field_Name = n, field_Type = t\<rparr>"

definition domain_type :: "TypedField list" where
  "domain_type = [typed_field ''name'' ''string'', typed_field ''chainId'' ''uint256'',
     typed_field ''verifyingContract'' ''address'']"

definition token_type :: "TypedField list" where
  "token_type = [typed_field ''token'' ''address'', typed_field ''amount'' ''uint256'']"

definition permit_type :: "string \<Rightarrow> TypedField list" where
  "permit_type permitted = [typed_field ''permitted'' permitted, typed_field ''spender'' ''address'',
     typed_field ''nonce'' ''uint256'', typed_field ''deadline'' ''uint256'']"

definition permit_domain :: "int \<Rightarrow> Domain" where
  "permit_domain chainId =
     \<lparr>domain_Name = DomainName, ChainId = Itoa chainId, VerifyingContract = Address\<rparr>"

definition permission_json :: "TokenPermissions \<Rightarrow> json" where
  "permission_json tp = JObj [(''token'', JStr (Token tp)), (''amount'', JStr (permitted_Amount tp))]"

definition permit_message :: "json \<Rightarrow> string \<Rightarrow> string \<Rightarrow> string \<Rightarrow> json" where
  "permit_message permitted spender nonce deadline =
     JObj [(''permitted'', permitted), (''spender'', JStr spender), (''nonce'', JStr nonce), (''deadline'', JStr deadline)]"

definition BuildPermitTransferFrom :: "int \<Rightarrow> PermitTransferFrom \<Rightarrow> permit_error + TypedData" where
  "BuildPermitTransferFrom chainId p =
     andThen (validate chainId (Token (Permitted p)) (permitted_Amount (Permitted p)) (Spender p) (permit_Nonce p) (Deadline p)) (\<lambda>_.
       Inr \<lparr>Types = [(''EIP712Domain'', domain_type), (''PermitTransferFrom'', permit_type ''TokenPermissions''),
              (''TokenPermissions'', token_type)],
            PrimaryType = ''PermitTransferFrom'', TheDomain = permit_domain chainId,
            Message = permit_message (permission_json (Permitted p)) (Spender p) (permit_Nonce p) (Deadline p)\<rparr>)"

fun batch_entries :: "nat \<Rightarrow> TokenPermissions list \<Rightarrow> permit_error + json list" where
  "batch_entries i [] = Inr []"
| "batch_entries i (tp # tps) =
     (if Token tp = [] \<or> \<not> isDecimal (permitted_Amount tp) then Inl (InvalidEntry i)
      else andThen (batch_entries (i + 1) tps) (\<lambda>perms. Inr (permission_json tp # perms)))"

definition BuildPermitBatchTransferFrom :: "int \<Rightarrow> PermitBatchTransferFrom \<Rightarrow> permit_error + TypedData" where
  "BuildPermitBatchTransferFrom chainId p =
     andThen (require (batch_Permitted p \<noteq> []) EmptyPermitted) (\<lambda>_.
     andThen (validate chainId [] [] (batch_Spender p) (batch_Nonce p) (batch_Deadline p)) (\<lambda>_.
     andThen (batch_entries 0 (batch_Permitted p)) (\<lambda>perms.
       Inr \<lparr>Types = [(''EIP712Domain'', domain_type), (''PermitBatchTransferFrom'', permit_type ''TokenPermissions[]''),
              (''TokenPermissions'', token_type)],
            PrimaryType = ''PermitBatchTransferFrom'', TheDomain = permit_domain chainId,
            Message = permit_message (JList perms) (batch_Spender p) (batch_Nonce p) (batch_Deadline p)\<rparr>)))"

definition MarshalTypedData :: "(TypedData \<Rightarrow> string option) \<Rightarrow> TypedData option \<Rightarrow> permit_error + string" where
  "MarshalTypedData json_Marshal t =
     (case t of None \<Rightarrow> Inl NilTypedData | Some t \<Rightarrow> orErr MarshalFailed (json_Marshal t))"

section \<open>What is signed is what was asked for\<close>

lemma validate_Inr [simp]:
  "validate c token amount spender nonce deadline = Inr u \<longleftrightarrow>
     0 < c \<and> (token = [] \<or> isAddr token) \<and> (amount = [] \<or> isDecimal amount) \<and> isAddr spender \<and>
     isDecimal nonce \<and> isDecimal deadline"
  by (auto simp: validate_def)

lemma permit_domain_inject: "0 < c \<Longrightarrow> 0 < d \<Longrightarrow> permit_domain c = permit_domain d \<Longrightarrow> c = d"
  by (auto simp: permit_domain_def Itoa_def)

lemma batch_entries_Inr:
  "batch_entries i tps = Inr perms \<longleftrightarrow>
     (\<forall>tp\<in>set tps. Token tp \<noteq> [] \<and> isDecimal (permitted_Amount tp)) \<and> perms = map permission_json tps"
  by (induction tps arbitrary: i perms) (auto simp: andThen_eq_Inr)

lemma permission_json_inject [simp]: "permission_json a = permission_json b \<longleftrightarrow> a = (b :: TokenPermissions)"
  by (cases a; cases b) (auto simp: permission_json_def)

text \<open>
  C0: The typed data of a permit binds it: permits with the same typed data are equal, chain and all,
  and no permit of one token has the typed data of a batch. A permit that is built has a positive chain
  and a spender with a well-formed address.
\<close>

theorem permit_typed_data_binds:
  assumes "BuildPermitTransferFrom c p = Inr t"
  shows "0 < c \<and> isAddr (Spender p) \<and>
    (\<forall>d q. BuildPermitTransferFrom d q = Inr t \<longrightarrow> c = d \<and> p = q) \<and>
    (\<forall>d b. BuildPermitBatchTransferFrom d b \<noteq> Inr t)"
proof -
  have v: "0 < c" "isAddr (Spender p)" and t: "PrimaryType t = ''PermitTransferFrom''" "TheDomain t = permit_domain c"
    "Message t = permit_message (permission_json (Permitted p)) (Spender p) (permit_Nonce p) (Deadline p)"
    using assms by (auto simp: BuildPermitTransferFrom_def andThen_eq_Inr)
  have "c = d \<and> p = q" if q: "BuildPermitTransferFrom d q = Inr t" for d q
  proof -
    have "0 < d" "TheDomain t = permit_domain d"
      "Message t = permit_message (permission_json (Permitted q)) (Spender q) (permit_Nonce q) (Deadline q)"
      using q by (auto simp: BuildPermitTransferFrom_def andThen_eq_Inr)
    then show ?thesis
      using t v permit_domain_inject [of c d] by (cases p; cases q) (auto simp: permit_message_def)
  qed
  moreover have "BuildPermitBatchTransferFrom d b \<noteq> Inr t" for d b
    using t by (auto simp: BuildPermitBatchTransferFrom_def andThen_eq_Inr)
  ultimately show ?thesis using v by blast
qed

definition sample_permit :: PermitTransferFrom where
  "sample_permit = \<lparr>Permitted = \<lparr>Token = Address, permitted_Amount = ''5''\<rparr>, Spender = Address, permit_Nonce = ''1'',
     Deadline = ''9''\<rparr>"

lemma sample_decimals: "isDecimal ''1'' \<and> isDecimal ''5'' \<and> isDecimal ''9''"
  by (simp add: isDecimal_def big_SetString_def digit_of_def char_nat_def)

lemma sample_addr: "isAddr Address"
  by (simp add: isAddr_def Address_def strings_TrimPrefix_def strings_HasPrefix_def hex_char_def char_nat_def)

theorem permit_typed_data_binds_witness:
  "\<exists>t. BuildPermitTransferFrom 1 sample_permit = Inr t \<and> BuildPermitTransferFrom 137 sample_permit \<noteq> Inr t"
proof -
  obtain t where t: "BuildPermitTransferFrom 1 sample_permit = Inr t"
    using sample_decimals sample_addr
    by (auto simp: BuildPermitTransferFrom_def sample_permit_def validate_def)
  show ?thesis using permit_typed_data_binds [OF t] t by fastforce
qed

text \<open>Two batches with the same typed data are equal too; the tokens of a batch need not be addresses.\<close>

lemma batch_typed_data_binds:
  assumes "BuildPermitBatchTransferFrom c p = Inr t" "BuildPermitBatchTransferFrom d q = Inr t"
  shows "c = d \<and> p = q"
proof -
  have "0 < c" "0 < d" "permit_domain c = permit_domain d"
    "permit_message (JList (map permission_json (batch_Permitted p))) (batch_Spender p) (batch_Nonce p) (batch_Deadline p) =
     permit_message (JList (map permission_json (batch_Permitted q))) (batch_Spender q) (batch_Nonce q) (batch_Deadline q)"
    using assms by (auto simp: BuildPermitBatchTransferFrom_def andThen_eq_Inr batch_entries_Inr)
  moreover have "inj (permission_json :: TokenPermissions \<Rightarrow> json)" by (rule injI) simp
  ultimately show ?thesis
    using permit_domain_inject [of c d] by (cases p; cases q) (auto simp: permit_message_def)
qed

lemma batch_of_any_token:
  "\<exists>t. BuildPermitBatchTransferFrom 1 \<lparr>batch_Permitted = [\<lparr>Token = ''x'', permitted_Amount = ''5''\<rparr>],
     batch_Spender = Address, batch_Nonce = ''1'', batch_Deadline = ''9''\<rparr> = Inr t"
  using sample_decimals sample_addr
  by (auto simp: BuildPermitBatchTransferFrom_def validate_def require_def)

end
