(* ===== verification/Univ3Swap.thy ===== *)
theory Univ3Swap
  imports Codec Validator
begin

text \<open>
  \<open>dex/univ3/client.go\<close> and the paths of \<open>dex/univ3/quote_client.go\<close>: swaps of a Uniswap V3 router
  written as calls and read back from them, through multicalls nested up to eight deep. The ABI coder and
  the addresses of go-ethereum are the fields of \<open>univ3_abi\<close>; the coder gives values of a datatype whose
  tuples list their fields, so that the checks of their types stay in the model. The clock is an argument,
  in nanoseconds.
\<close>

section \<open>The coder\<close>

type_synonym address = bytes

definition zero_address :: address where "zero_address = replicate 20 0"

datatype abi_value =
  AbiAddress address | AbiUint int | AbiSmall nat | AbiBytes bytes | AbiBytesList "bytes list" | AbiHash bytes
| AbiTuple "(string \<times> abi_value) list" | AbiOther

datatype abi_of = SwapRouterV1 | SwapRouter02 | MulticallBlockhash | FactoryV3 | QuoterV1 | EIP2612

record univ3_abi =
  Pack :: "abi_of \<Rightarrow> string \<Rightarrow> abi_value list \<Rightarrow> bytes option"
  InputsUnpack :: "abi_of \<Rightarrow> string \<Rightarrow> bytes \<Rightarrow> abi_value list option"
  Unpack :: "abi_of \<Rightarrow> string \<Rightarrow> bytes \<Rightarrow> abi_value list option"
  IsHexAddress :: "string \<Rightarrow> bool"
  HexToAddress :: "string \<Rightarrow> address"

datatype univ3_error =
  InvalidRouterVersion | NoSwapFound | UnsupportedSelector | NotOneSwap | CalldataTooShort | NestingTooDeep
| RequiresRouter02 | WrongRouterVersion | DifferentBlockhashes | UnpackFailed | ArgumentCount | WrongType
| FieldNotFound | InvalidFee | InvalidPathLength | InvalidHop | InvalidRecipient | InvalidNumbers | NilSwapInfo
| RouterMismatch | InvalidTokenPair | ZeroRecipient | FeeExceedsUint24 | InvalidAmountIn | InvalidAmountOutMinimum
| InvalidPriceLimit | InvalidDeadline | NoDeadlineAllowed | PackFailed | InvalidParameters

definition RouterVersionV1 :: int where "RouterVersionV1 = 1"
definition RouterVersion02 :: int where "RouterVersion02 = 2"
definition MaxUint24 :: u32 where "MaxUint24 = push_bit 24 1 - 1"

definition AddrSwapRouterV1 :: string where "AddrSwapRouterV1 = ''0xE592427A0AEce92De3Edee1F18E0157C05861564''"
definition AddrSwapRouter02 :: string where "AddrSwapRouter02 = ''0x68b3465833fb72A70ecDF485E0e4C7bD8665Fc45''"

definition SelectorExactInputSingleV1 :: string where "SelectorExactInputSingleV1 = ''414bf389''"
definition SelectorExactInputV1 :: string where "SelectorExactInputV1 = ''c04b8d59''"
definition SelectorExactInputSingleV2 :: string where "SelectorExactInputSingleV2 = ''04e45aaf''"
definition SelectorMulticall :: string where "SelectorMulticall = ''ac9650d8''"
definition SelectorMulticallDeadline :: string where "SelectorMulticallDeadline = ''5ae401dc''"
definition SelectorMulticallBlockhash :: string where "SelectorMulticallBlockhash = ''1f0464d1''"

definition defaultDeadlineTTL :: int where "defaultDeadlineTTL = 60 * 10 ^ 9"
definition maxMulticallDepth :: nat where "maxMulticallDepth = 8"

text \<open>A nil number is \<open>None\<close>.\<close>

record SwapInfo =
  TokenIn :: address
  TokenOut :: address
  Fee :: u32
  Recipient :: address
  Deadline :: "int option"
  PreviousBlockhash :: "bytes option"
  AmountIn :: "int option"
  AmountOutMinimum :: "int option"
  SqrtPriceLimitX96 :: "int option"
  RouterVersion :: int
  Path :: bytes
  Tokens :: "address list"
  Fees :: "u32 list"

definition IsUniV3Router :: "univ3_abi \<Rightarrow> string \<Rightarrow> int \<times> bool" where
  "IsUniV3Router E addr =
     (let addr = strings_TrimSpace addr
      in if length addr \<noteq> 42 \<or> \<not> IsHexAddress E addr then (0, False)
         else if HexToAddress E addr = HexToAddress E AddrSwapRouterV1 then (RouterVersionV1, True)
         else if HexToAddress E addr = HexToAddress E AddrSwapRouter02 then (RouterVersion02, True)
         else (0, False))"

section \<open>Paths\<close>

fun path_rest :: "address list \<Rightarrow> u32 list \<Rightarrow> bytes" where
  "path_rest (t # ts) (f # fs) = drop 1 (be_word 4 f) @ t @ path_rest ts fs"
| "path_rest _ _ = []"

definition encodeV3Path :: "address list \<Rightarrow> u32 list \<Rightarrow> bytes" where
  "encodeV3Path tokens fees =
     (if length tokens \<noteq> length fees + 1 \<or> fees = [] then [] else hd tokens @ path_rest (tl tokens) fees)"

text \<open>The loop reads a fee of three bytes and a token of twenty; \<open>last\<close> is the token read before.\<close>

definition read_fee :: "bytes \<Rightarrow> u32" where
  "read_fee p = push_bit 16 (ucast (p ! 0)) OR push_bit 8 (ucast (p ! 1)) OR ucast (p ! 2)"

function decode_hops :: "address \<Rightarrow> bytes \<Rightarrow> univ3_error + address list \<times> u32 list" where
  "decode_hops prev p =
     (if p = [] then Inr ([], [])
      else
        let fee = read_fee p; next_token = take 20 (drop 3 p)
        in if fee > MaxUint24 \<or> prev = zero_address \<or> next_token = zero_address \<or> next_token = prev then Inl InvalidHop
           else andThen (decode_hops next_token (drop 23 p)) (\<lambda>(tokens, fees). Inr (next_token # tokens, fee # fees)))"
  by pat_completeness auto
termination
  by (relation "measure (\<lambda>(_, p). length p)") auto

declare decode_hops.simps [simp del]

definition decodeV3Path :: "bytes \<Rightarrow> univ3_error + address list \<times> u32 list" where
  "decodeV3Path path =
     (if length path < 43 \<or> (length path - 20) mod 23 \<noteq> 0 then Inl InvalidPathLength
      else andThen (decode_hops (take 20 path) (drop 20 path)) (\<lambda>(tokens, fees). Inr (take 20 path # tokens, fees)))"

section \<open>Reading one swap\<close>

definition addressField :: "(string \<times> abi_value) list \<Rightarrow> string \<Rightarrow> univ3_error + address" where
  "addressField fs n =
     (case map_of fs n of None \<Rightarrow> Inl FieldNotFound | Some (AbiAddress a) \<Rightarrow> Inr a | Some _ \<Rightarrow> Inl WrongType)"

definition bigIntField :: "(string \<times> abi_value) list \<Rightarrow> string \<Rightarrow> univ3_error + int" where
  "bigIntField fs n =
     (case map_of fs n of None \<Rightarrow> Inl FieldNotFound | Some (AbiUint i) \<Rightarrow> Inr i | Some _ \<Rightarrow> Inl WrongType)"

definition feeField :: "(string \<times> abi_value) list \<Rightarrow> univ3_error + u32" where
  "feeField fs =
     (case map_of fs ''Fee'' of
        None \<Rightarrow> Inl FieldNotFound
      | Some (AbiSmall n) \<Rightarrow> Inr (word_of_nat n)
      | Some (AbiUint i) \<Rightarrow> if i < 0 \<or> 2 ^ 24 \<le> \<bar>i\<bar> then Inl InvalidFee else Inr (word_of_int i)
      | Some _ \<Rightarrow> Inl InvalidFee)"

definition extractSwapFields :: "abi_value \<Rightarrow> bool \<Rightarrow> univ3_error + SwapInfo" where
  "extractSwapFields v hasDeadline =
     (case v of
        AbiTuple fs \<Rightarrow>
          andThen (addressField fs ''TokenIn'') (\<lambda>tokenIn.
          andThen (addressField fs ''TokenOut'') (\<lambda>tokenOut.
          andThen (addressField fs ''Recipient'') (\<lambda>recipient.
          andThen (bigIntField fs ''AmountIn'') (\<lambda>amountIn.
          andThen (bigIntField fs ''AmountOutMinimum'') (\<lambda>amountOutMinimum.
          andThen (bigIntField fs ''SqrtPriceLimitX96'') (\<lambda>limit.
          andThen (feeField fs) (\<lambda>fee.
          andThen (if hasDeadline then map_sum id Some (bigIntField fs ''Deadline'') else Inr None) (\<lambda>deadline.
            Inr \<lparr>TokenIn = tokenIn, TokenOut = tokenOut, Fee = fee, Recipient = recipient, Deadline = deadline,
                 PreviousBlockhash = None, AmountIn = Some amountIn, AmountOutMinimum = Some amountOutMinimum,
                 SqrtPriceLimitX96 = Some limit, RouterVersion = 0, Path = [], Tokens = [tokenIn, tokenOut],
                 Fees = [fee]\<rparr>))))))))
      | _ \<Rightarrow> Inl WrongType)"

definition one_argument :: "univ3_abi \<Rightarrow> abi_of \<Rightarrow> string \<Rightarrow> bytes \<Rightarrow> univ3_error + abi_value" where
  "one_argument E abi method calldata =
     andThen (orErr UnpackFailed (InputsUnpack E abi method (drop 4 calldata))) (\<lambda>values.
     andThen (require (length values = 1) ArgumentCount) (\<lambda>_. Inr (hd values)))"

definition decodeV1 :: "univ3_abi \<Rightarrow> bytes \<Rightarrow> univ3_error + SwapInfo" where
  "decodeV1 E calldata =
     andThen (one_argument E SwapRouterV1 ''exactInputSingle'' calldata) (\<lambda>v.
     andThen (extractSwapFields v True) (\<lambda>info. Inr (info\<lparr>RouterVersion := RouterVersionV1\<rparr>)))"

definition decodeV2 :: "univ3_abi \<Rightarrow> bytes \<Rightarrow> univ3_error + SwapInfo" where
  "decodeV2 E calldata =
     andThen (one_argument E SwapRouter02 ''exactInputSingle'' calldata) (\<lambda>v.
     andThen (extractSwapFields v False) (\<lambda>info. Inr (info\<lparr>RouterVersion := RouterVersion02\<rparr>)))"

definition uint256_positive :: "int \<Rightarrow> bool" where
  "uint256_positive n \<longleftrightarrow> \<not> (n \<le> 0 \<or> 2 ^ 256 \<le> \<bar>n\<bar>)"

definition decodeExactInputV1 :: "univ3_abi \<Rightarrow> bytes \<Rightarrow> univ3_error + SwapInfo" where
  "decodeExactInputV1 E calldata =
     andThen (one_argument E SwapRouterV1 ''exactInput'' calldata) (\<lambda>v.
       case v of
         AbiTuple fs \<Rightarrow>
           andThen (case map_of fs ''Path'' of
               None \<Rightarrow> Inl FieldNotFound | Some (AbiBytes b) \<Rightarrow> Inr b | Some _ \<Rightarrow> Inl WrongType) (\<lambda>path.
           andThen (decodeV3Path path) (\<lambda>(tokens, fees).
           andThen (case map_of fs ''Recipient'' of
               None \<Rightarrow> Inl FieldNotFound
             | Some (AbiAddress a) \<Rightarrow> if a = zero_address then Inl InvalidRecipient else Inr a
             | Some _ \<Rightarrow> Inl InvalidRecipient) (\<lambda>recipient.
           andThen (bigIntField fs ''Deadline'') (\<lambda>deadline.
           andThen (bigIntField fs ''AmountIn'') (\<lambda>amountIn.
           andThen (bigIntField fs ''AmountOutMinimum'') (\<lambda>amountOutMinimum.
           andThen (require (uint256_positive deadline \<and> uint256_positive amountIn \<and> uint256_positive amountOutMinimum)
               InvalidNumbers) (\<lambda>_.
             Inr \<lparr>TokenIn = hd tokens, TokenOut = List.last tokens, Fee = 0, Recipient = recipient, Deadline = Some deadline,
                  PreviousBlockhash = None, AmountIn = Some amountIn, AmountOutMinimum = Some amountOutMinimum,
                  SqrtPriceLimitX96 = Some 0, RouterVersion = RouterVersionV1, Path = path, Tokens = tokens,
                  Fees = fees\<rparr>)))))))
       | _ \<Rightarrow> Inl WrongType)"

section \<open>Reading the swaps of a call\<close>

definition selector_of :: "bytes \<Rightarrow> string" where "selector_of calldata = hex_encode (take 4 calldata)"

definition multicall_selectors :: "string list" where
  "multicall_selectors = [SelectorMulticall, SelectorMulticallDeadline, SelectorMulticallBlockhash]"

definition hasSupportedSelector :: "bytes \<Rightarrow> bool" where
  "hasSupportedSelector calldata =
     (if length calldata < 4 then False
      else selector_of calldata \<in> set ([SelectorExactInputSingleV1, SelectorExactInputV1, SelectorExactInputSingleV2] @
             multicall_selectors))"

definition validateRouterVersion :: "int \<Rightarrow> univ3_error + unit" where
  "validateRouterVersion v = require (\<not> (v \<noteq> RouterVersionV1 \<and> v \<noteq> RouterVersion02)) InvalidRouterVersion"

definition multicall_abi :: "string \<Rightarrow> abi_of" where
  "multicall_abi selector =
     (if selector = SelectorMulticall then SwapRouterV1
      else if selector = SelectorMulticallDeadline then SwapRouter02 else MulticallBlockhash)"

definition decodeMulticallEnvelope ::
  "univ3_abi \<Rightarrow> bytes \<Rightarrow> string \<Rightarrow> univ3_error + bytes list \<times> int option \<times> bytes option"
where
  "decodeMulticallEnvelope E calldata selector =
     andThen (require (selector \<in> set multicall_selectors) UnsupportedSelector) (\<lambda>_.
     andThen (orErr UnpackFailed (InputsUnpack E (multicall_abi selector) ''multicall'' (drop 4 calldata))) (\<lambda>values.
       if selector = SelectorMulticall then
         (if length values \<noteq> 1 then Inl ArgumentCount
          else case values ! 0 of AbiBytesList calls \<Rightarrow> Inr (calls, None, None) | _ \<Rightarrow> Inl WrongType)
       else if length values \<noteq> 2 then Inl ArgumentCount
       else
         (case values ! 1 of
            AbiBytesList calls \<Rightarrow>
              if selector = SelectorMulticallDeadline then
                (case values ! 0 of AbiUint deadline \<Rightarrow> Inr (calls, Some deadline, None) | _ \<Rightarrow> Inl WrongType)
              else (case values ! 0 of AbiHash h \<Rightarrow> Inr (calls, None, Some h) | _ \<Rightarrow> Inl WrongType)
          | _ \<Rightarrow> Inl WrongType)))"

text \<open>Items without a supported selector, and inner multicalls without a swap, are passed over.\<close>

fun decode_items :: "(bytes \<Rightarrow> univ3_error + SwapInfo list) \<Rightarrow> bytes list \<Rightarrow> univ3_error + SwapInfo list" where
  "decode_items f [] = Inr []"
| "decode_items f (inner # calls) =
     (if \<not> hasSupportedSelector inner then decode_items f calls
      else case f inner of
        Inl e \<Rightarrow> if e = NoSwapFound then decode_items f calls else Inl e
      | Inr innerInfos \<Rightarrow> andThen (decode_items f calls) (\<lambda>infos. Inr (innerInfos @ infos)))"

text \<open>The envelope's deadline and block hash are put on a swap it holds.\<close>

definition under_envelope :: "int \<Rightarrow> int option \<Rightarrow> bytes option \<Rightarrow> SwapInfo \<Rightarrow> univ3_error + SwapInfo" where
  "under_envelope routerVer deadline blockhash info =
     (if RouterVersion info \<noteq> routerVer then Inl WrongRouterVersion
      else
        let info = (case deadline of
              None \<Rightarrow> info
            | Some d \<Rightarrow> (case Deadline info of
                None \<Rightarrow> info\<lparr>Deadline := Some d\<rparr>
              | Some d' \<Rightarrow> if d < d' then info\<lparr>Deadline := Some d\<rparr> else info))
        in case blockhash of
             None \<Rightarrow> Inr info
           | Some h \<Rightarrow> (case PreviousBlockhash info of
               None \<Rightarrow> Inr (info\<lparr>PreviousBlockhash := Some h\<rparr>)
             | Some h' \<Rightarrow> if h' \<noteq> h then Inl DifferentBlockhashes else Inr info))"

fun all_under :: "int \<Rightarrow> int option \<Rightarrow> bytes option \<Rightarrow> SwapInfo list \<Rightarrow> univ3_error + SwapInfo list" where
  "all_under routerVer deadline blockhash [] = Inr []"
| "all_under routerVer deadline blockhash (info # infos) =
     andThen (under_envelope routerVer deadline blockhash info) (\<lambda>info.
     andThen (all_under routerVer deadline blockhash infos) (\<lambda>infos. Inr (info # infos)))"

definition decode_multicall ::
  "univ3_abi \<Rightarrow> int \<Rightarrow> (bytes \<Rightarrow> univ3_error + SwapInfo list) \<Rightarrow> bytes \<Rightarrow> univ3_error + SwapInfo list"
where
  "decode_multicall E routerVer inner calldata =
     (let selector = selector_of calldata
      in andThen (validateRouterVersion routerVer) (\<lambda>_.
         andThen (require (\<not> (selector \<noteq> SelectorMulticall \<and> routerVer \<noteq> RouterVersion02)) RequiresRouter02) (\<lambda>_.
         andThen (decodeMulticallEnvelope E calldata selector) (\<lambda>(calls, deadline, blockhash).
         andThen (decode_items inner calls) (\<lambda>infos.
           if infos = [] then Inl NoSwapFound else all_under routerVer deadline blockhash infos)))))"

text \<open>The levels left count down to the bound on the nesting.\<close>

primrec decode_level :: "nat \<Rightarrow> univ3_abi \<Rightarrow> int \<Rightarrow> bytes \<Rightarrow> univ3_error + SwapInfo list" where
  "decode_level 0 E routerVer calldata =
     (if length calldata < 4 then Inl CalldataTooShort else Inl NestingTooDeep)"
| "decode_level (Suc left) E routerVer calldata =
     (if length calldata < 4 then Inl CalldataTooShort
      else if selector_of calldata = SelectorExactInputSingleV1 then map_sum id (\<lambda>i. [i]) (decodeV1 E calldata)
      else if selector_of calldata = SelectorExactInputV1 then map_sum id (\<lambda>i. [i]) (decodeExactInputV1 E calldata)
      else if selector_of calldata = SelectorExactInputSingleV2 then map_sum id (\<lambda>i. [i]) (decodeV2 E calldata)
      else if selector_of calldata \<in> set multicall_selectors then
        decode_multicall E routerVer (decode_level left E routerVer) calldata
      else Inl UnsupportedSelector)"

definition DecodeSwapInfos :: "univ3_abi \<Rightarrow> bytes \<Rightarrow> int \<Rightarrow> univ3_error + SwapInfo list" where
  "DecodeSwapInfos E calldata routerVer = decode_level (maxMulticallDepth + 1) E routerVer calldata"

definition DecodeSwapInfo :: "univ3_abi \<Rightarrow> bytes \<Rightarrow> int \<Rightarrow> univ3_error + SwapInfo" where
  "DecodeSwapInfo E calldata routerVer =
     andThen (DecodeSwapInfos E calldata routerVer) (\<lambda>infos.
     andThen (require (length infos = 1) NotOneSwap) (\<lambda>_. Inr (hd infos)))"

section \<open>Writing a swap\<close>

definition big_arg :: "int option \<Rightarrow> abi_value" where
  "big_arg n = (case n of None \<Rightarrow> AbiOther | Some i \<Rightarrow> AbiUint i)"

definition encodeV1 :: "univ3_abi \<Rightarrow> SwapInfo \<Rightarrow> address \<Rightarrow> int \<Rightarrow> univ3_error + bytes" where
  "encodeV1 E info recipient deadline =
     orErr PackFailed (Pack E SwapRouterV1 ''exactInputSingle''
       [AbiTuple [(''TokenIn'', AbiAddress (TokenIn info)), (''TokenOut'', AbiAddress (TokenOut info)),
          (''Fee'', AbiUint (uint (Fee info))), (''Recipient'', AbiAddress recipient), (''Deadline'', AbiUint deadline),
          (''AmountIn'', big_arg (AmountIn info)), (''AmountOutMinimum'', big_arg (AmountOutMinimum info)),
          (''SqrtPriceLimitX96'', big_arg (SqrtPriceLimitX96 info))]])"

definition encodeV2 :: "univ3_abi \<Rightarrow> SwapInfo \<Rightarrow> address \<Rightarrow> univ3_error + bytes" where
  "encodeV2 E info recipient =
     orErr PackFailed (Pack E SwapRouter02 ''exactInputSingle''
       [AbiTuple [(''TokenIn'', AbiAddress (TokenIn info)), (''TokenOut'', AbiAddress (TokenOut info)),
          (''Fee'', AbiUint (uint (Fee info))), (''Recipient'', AbiAddress recipient),
          (''AmountIn'', big_arg (AmountIn info)), (''AmountOutMinimum'', big_arg (AmountOutMinimum info)),
          (''SqrtPriceLimitX96'', big_arg (SqrtPriceLimitX96 info))]])"

definition encodeExactInputV1 ::
  "univ3_abi \<Rightarrow> bytes \<Rightarrow> address \<Rightarrow> int option \<Rightarrow> int option \<Rightarrow> int option \<Rightarrow> univ3_error + bytes"
where
  "encodeExactInputV1 E path recipient deadline amountIn amountOutMinimum =
     (let positive = (\<lambda>n. case n of None \<Rightarrow> False | Some i \<Rightarrow> \<not> i \<le> 0)
      in andThen (require (\<not> (recipient = zero_address \<or> \<not> positive deadline \<or> \<not> positive amountIn \<or>
             \<not> positive amountOutMinimum)) InvalidParameters) (\<lambda>_.
         andThen (decodeV3Path path) (\<lambda>_.
           orErr PackFailed (Pack E SwapRouterV1 ''exactInput''
             [AbiTuple [(''Path'', AbiBytes path), (''Recipient'', AbiAddress recipient), (''Deadline'', big_arg deadline),
                (''AmountIn'', big_arg amountIn), (''AmountOutMinimum'', big_arg amountOutMinimum)]]))))"

definition validateSwapInfo :: "SwapInfo option \<Rightarrow> address \<Rightarrow> int \<Rightarrow> univ3_error + SwapInfo" where
  "validateSwapInfo i recipient routerVer =
     andThen (orErr NilSwapInfo i) (\<lambda>info.
     andThen (require (\<not> (RouterVersion info \<noteq> 0 \<and> RouterVersion info \<noteq> routerVer)) RouterMismatch) (\<lambda>_.
     andThen (require (\<not> (TokenIn info = zero_address \<or> TokenOut info = zero_address \<or> TokenIn info = TokenOut info))
         InvalidTokenPair) (\<lambda>_.
     andThen (require (recipient \<noteq> zero_address) ZeroRecipient) (\<lambda>_.
     andThen (require (\<not> Fee info > MaxUint24) FeeExceedsUint24) (\<lambda>_.
     andThen (require (case AmountIn info of None \<Rightarrow> False | Some n \<Rightarrow> uint256_positive n) InvalidAmountIn) (\<lambda>_.
     andThen (require (case AmountOutMinimum info of None \<Rightarrow> False | Some n \<Rightarrow> uint256_positive n)
         InvalidAmountOutMinimum) (\<lambda>_.
     andThen (require (case SqrtPriceLimitX96 info of None \<Rightarrow> False | Some n \<Rightarrow> \<not> (n < 0 \<or> 2 ^ 160 \<le> \<bar>n\<bar>))
         InvalidPriceLimit) (\<lambda>_. Inr info))))))))"

definition effectiveDeadline :: "int \<Rightarrow> int option \<Rightarrow> univ3_error + int" where
  "effectiveDeadline now deadline =
     (case deadline of
        None \<Rightarrow> Inr ((now + defaultDeadlineTTL) div 10 ^ 9)
      | Some d \<Rightarrow> if \<not> uint256_positive d then Inl InvalidDeadline else Inr d)"

definition EncodeExactInputSingle ::
  "univ3_abi \<Rightarrow> int \<Rightarrow> SwapInfo option \<Rightarrow> address \<Rightarrow> int option \<Rightarrow> int \<Rightarrow> univ3_error + bytes"
where
  "EncodeExactInputSingle E now i recipient deadline routerVer =
     andThen (validateRouterVersion routerVer) (\<lambda>_.
     andThen (validateSwapInfo i recipient routerVer) (\<lambda>info.
     andThen (effectiveDeadline now deadline) (\<lambda>deadline.
       if routerVer = RouterVersionV1 then encodeV1 E info recipient deadline
       else andThen (encodeV2 E info recipient) (\<lambda>inner.
         orErr PackFailed (Pack E SwapRouter02 ''multicall'' [AbiUint deadline, AbiBytesList [inner]])))))"

definition EncodeExactInputSingleCall ::
  "univ3_abi \<Rightarrow> int \<Rightarrow> SwapInfo option \<Rightarrow> address \<Rightarrow> int option \<Rightarrow> int \<Rightarrow> univ3_error + bytes"
where
  "EncodeExactInputSingleCall E now i recipient deadline routerVer =
     andThen (validateRouterVersion routerVer) (\<lambda>_.
     andThen (validateSwapInfo i recipient routerVer) (\<lambda>info.
       if routerVer = RouterVersionV1 then
         andThen (effectiveDeadline now deadline) (\<lambda>deadline. encodeV1 E info recipient deadline)
       else if deadline \<noteq> None then Inl NoDeadlineAllowed
       else encodeV2 E info recipient))"

section \<open>Paths are read as they are written\<close>

lemma byte_of_fee: "word_of_nat (unat (f :: u32) div 256 ^ k) = (ucast (drop_bit (8 * k) f) :: u8)"
proof -
  have "(256 :: nat) ^ k = 2 ^ (8 * k)" by (simp add: power_mult)
  then have "unat f div 256 ^ k = unat (drop_bit (8 * k) f)"
    by (simp only: unat_drop_bit_eq) (simp add: drop_bit_eq_div)
  then show ?thesis by simp
qed

lemma fee_bytes: "drop 1 (be_word 4 (f :: u32)) = [ucast (drop_bit 16 f), ucast (drop_bit 8 f), ucast f]"
proof -
  have four: "(4 :: nat) = Suc (Suc (Suc (Suc 0)))" by simp
  have "be_word 4 f = rev (le_bytes (Suc (Suc (Suc (Suc 0)))) (unat f))"
    by (simp only: be_word_def be_bytes_def four)
  then have "drop 1 (be_word 4 f) = [word_of_nat (unat f div 256 ^ 2), word_of_nat (unat f div 256 ^ 1), word_of_nat (unat f div 256 ^ 0)]"
    by (simp only: le_bytes.simps) (simp add: div_mult2_eq [of _ 256 256, simplified])
  then show ?thesis by (simp only: byte_of_fee) simp
qed

lemma read_fee_bytes: "f \<le> MaxUint24 \<Longrightarrow> read_fee ([ucast (drop_bit 16 f), ucast (drop_bit 8 f), ucast f] @ r) = f"
proof -
  assume "f \<le> MaxUint24"
  then have "unat f < 2 ^ 24" by (simp add: MaxUint24_def word_le_nat_alt)
  then have "take_bit 24 f = f" by (metis take_bit_nat_eq_self unsigned_take_bit_eq unsigned_word_eqI)
  then have b: "bit f n \<Longrightarrow> n < 24" for n by (metis bit_take_bit_iff)
  show ?thesis
  proof (rule bit_word_eqI)
    fix n
    show "bit (read_fee ([ucast (drop_bit 16 f), ucast (drop_bit 8 f), ucast f] @ r)) n = bit f n"
      using b [of n] by (cases "n < 8"; cases "n < 16") (auto simp: read_fee_def bit_simps)
  qed
qed

lemma bit_byte: "bit (a :: u8) n \<Longrightarrow> n < 8" using bit_imp_le_length [of a n] by simp

lemma high_bits: "\<not> bit (a :: u8) (8 + n)" "\<not> bit (a :: u8) (16 + n)"
  using bit_byte by fastforce+

lemma fee_of_bytes: "ucast (drop_bit 16 (read_fee (a # b # c # r))) = a" "ucast (drop_bit 8 (read_fee (a # b # c # r))) = b"
  "ucast (read_fee (a # b # c # r)) = c"
  by (auto simp: read_fee_def bit_simps high_bits intro!: bit_word_eqI)

lemma read_fee_le: "read_fee (a # b # c # r) \<le> MaxUint24"
proof -
  have "take_bit 24 (read_fee (a # b # c # r)) = read_fee (a # b # c # r)"
    by (rule bit_word_eqI) (auto simp: read_fee_def bit_simps dest: bit_byte)
  then have "unat (read_fee (a # b # c # r)) < 2 ^ 24" by (metis unsigned_take_bit_eq take_bit_nat_less_exp)
  then show ?thesis by (simp add: MaxUint24_def word_le_nat_alt)
qed

text \<open>A path is well formed when its tokens are addresses, none of them zero or followed by itself, and its fees fit.\<close>

fun hops_ok :: "address \<Rightarrow> address list \<Rightarrow> u32 list \<Rightarrow> bool" where
  "hops_ok prev [] [] \<longleftrightarrow> True"
| "hops_ok prev (t # ts) (f # fs) \<longleftrightarrow>
     length t = 20 \<and> f \<le> MaxUint24 \<and> prev \<noteq> zero_address \<and> t \<noteq> zero_address \<and> t \<noteq> prev \<and> hops_ok t ts fs"
| "hops_ok prev _ _ \<longleftrightarrow> False"

definition wf_path :: "address list \<Rightarrow> u32 list \<Rightarrow> bool" where
  "wf_path ts fs \<longleftrightarrow> (case ts of [] \<Rightarrow> False | t # ts \<Rightarrow> length t = 20 \<and> fs \<noteq> [] \<and> hops_ok t ts fs)"

lemma hops_ok_length: "hops_ok prev ts fs \<Longrightarrow> length ts = length fs"
  by (induction prev ts fs rule: hops_ok.induct) auto

lemma length_path_rest: "hops_ok prev ts fs \<Longrightarrow> length (path_rest ts fs) = 23 * length fs"
  by (induction prev ts fs rule: hops_ok.induct) auto

lemma decode_path_rest: "hops_ok prev ts fs \<Longrightarrow> decode_hops prev (path_rest ts fs) = Inr (ts, fs)"
proof (induction prev ts fs rule: hops_ok.induct)
  case (2 prev t ts f fs)
  then have len: "length t = 20" and f: "f \<le> MaxUint24" by simp_all
  let ?p = "[ucast (drop_bit 16 f), ucast (drop_bit 8 f), ucast f] @ (t @ path_rest ts fs)"
  have p: "path_rest (t # ts) (f # fs) = ?p" by (simp only: path_rest.simps fee_bytes)
  have "read_fee ?p = f" using f by (rule read_fee_bytes)
  moreover have "take 20 (drop 3 ?p) = t" "drop 23 ?p = path_rest ts fs" using len by simp_all
  ultimately show ?case unfolding p using 2 by (subst decode_hops.simps) (simp add: not_less)
qed (simp_all add: decode_hops.simps)

lemma decode_hops_Inr:
  assumes "decode_hops prev p = Inr (ts, fs)" "p \<noteq> []"
  shows "\<exists>ts' fs'. decode_hops (take 20 (drop 3 p)) (drop 23 p) = Inr (ts', fs') \<and>
    \<not> (read_fee p > MaxUint24 \<or> prev = zero_address \<or> take 20 (drop 3 p) = zero_address \<or> take 20 (drop 3 p) = prev) \<and>
    ts = take 20 (drop 3 p) # ts' \<and> fs = read_fee p # fs'"
  using assms by (subst (asm) decode_hops.simps) (auto simp: andThen_eq_Inr Let_def split: if_splits)

lemma hops_of_bytes:
  "decode_hops prev p = Inr (ts, fs) \<Longrightarrow> length p mod 23 = 0 \<Longrightarrow> hops_ok prev ts fs \<and> path_rest ts fs = p"
proof (induction prev p arbitrary: ts fs rule: decode_hops.induct)
  case (1 prev p)
  show ?case
  proof (cases "p = []")
    case True
    then show ?thesis using 1 by (simp add: decode_hops.simps)
  next
    case False
    with 1(3) have "23 \<le> length p" by (metis length_0_conv linorder_not_le mod_less)
    then obtain a b c r where p: "p = a # b # c # r" and r: "20 \<le> length r"
      by (cases p; cases "tl p"; cases "tl (tl p)") auto
    have len: "length (drop 23 p) mod 23 = 0" using 1(3) \<open>23 \<le> length p\<close> by (simp add: le_mod_geq)
    obtain ts' fs' where rest: "decode_hops (take 20 (drop 3 p)) (drop 23 p) = Inr (ts', fs')"
      and ok: "\<not> (read_fee p > MaxUint24 \<or> prev = zero_address \<or> take 20 (drop 3 p) = zero_address \<or> take 20 (drop 3 p) = prev)"
      and out: "ts = take 20 (drop 3 p) # ts'" "fs = read_fee p # fs'"
      using decode_hops_Inr [OF 1(2) False] by blast
    have IH: "hops_ok (take 20 (drop 3 p)) ts' fs' \<and> path_rest ts' fs' = drop 23 p"
      using 1(1) [OF False refl refl _ rest len] ok by blast
    have fee: "drop 1 (be_word 4 (read_fee p)) = [a, b, c]" unfolding fee_bytes p fee_of_bytes by simp
    have "path_rest ts fs = drop 1 (be_word 4 (read_fee p)) @ take 20 (drop 3 p) @ drop 23 p"
      using IH by (simp only: out path_rest.simps)
    also have "\<dots> = p" by (simp only: fee) (simp add: p)
    finally have "path_rest ts fs = p" .
    moreover have "length (take 20 (drop 3 p)) = 20" using r p by simp
    ultimately show ?thesis using IH ok by (simp add: out not_less)
  qed
qed

lemma decoded_path:
  assumes d: "decodeV3Path path = Inr (tokens, fees)"
  shows "wf_path tokens fees \<and> path = encodeV3Path tokens fees"
proof -
  have len: "43 \<le> length path" "(length path - 20) mod 23 = 0"
    and "\<exists>ts. decode_hops (take 20 path) (drop 20 path) = Inr (ts, fees) \<and> tokens = take 20 path # ts"
    using d by (auto simp: decodeV3Path_def andThen_eq_Inr split: if_splits)
  then obtain ts where ts: "decode_hops (take 20 path) (drop 20 path) = Inr (ts, fees)" "tokens = take 20 path # ts" by blast
  have h: "hops_ok (take 20 path) ts fees" "path_rest ts fees = drop 20 path"
    using hops_of_bytes [OF ts(1)] len by auto
  then have "fees \<noteq> []" using len by (cases ts) auto
  then show ?thesis
    using h len ts(2) hops_ok_length [OF h(1)] by (simp add: wf_path_def encodeV3Path_def)
qed

lemma encoded_path:
  assumes "wf_path tokens fees"
  shows "decodeV3Path (encodeV3Path tokens fees) = Inr (tokens, fees)"
proof -
  obtain t ts where tokens: "tokens = t # ts" and t: "length t = 20" "fees \<noteq> []" "hops_ok t ts fees"
    using assms by (auto simp: wf_path_def split: list.splits)
  then have p: "encodeV3Path tokens fees = t @ path_rest ts fees" using hops_ok_length by (auto simp: encodeV3Path_def)
  moreover have "length fees \<ge> 1" using t(2) by (cases fees) auto
  ultimately show ?thesis
    using t decode_path_rest [OF t(3)] length_path_rest [OF t(3)] by (simp add: decodeV3Path_def tokens)
qed

text \<open>
  C0: Paths of V3 routes are read and written the same way: a byte string decodes to tokens and fees
  exactly when they are well formed (addresses of twenty bytes, none zero, none followed by itself, fees
  of 24 bits, at least one hop) and the byte string is their encoding.
\<close>

theorem v3_path_codec:
  "decodeV3Path path = Inr (tokens, fees) \<longleftrightarrow> wf_path tokens fees \<and> path = encodeV3Path tokens fees"
  using decoded_path encoded_path by blast

section \<open>Swaps are read as they are written\<close>

text \<open>
  What is asked of the coder: packed arguments in the range of their types are unpacked again after the
  four bytes of the selector, and the selectors are those of the methods.
\<close>

definition field_fits :: "string \<times> abi_value \<Rightarrow> bool" where
  "field_fits nv = (case nv of
     (n, AbiUint i) \<Rightarrow> 0 \<le> i \<and> i < (if n = ''Fee'' then 2 ^ 24 else if n = ''SqrtPriceLimitX96'' then 2 ^ 160 else 2 ^ 256)
   | (n, AbiAddress a) \<Rightarrow> length a = 20
   | _ \<Rightarrow> True)"

definition value_fits :: "abi_value \<Rightarrow> bool" where
  "value_fits v = (case v of AbiUint i \<Rightarrow> 0 \<le> i \<and> i < 2 ^ 256 | AbiTuple fs \<Rightarrow> list_all field_fits fs | _ \<Rightarrow> True)"

definition router_coder :: "univ3_abi \<Rightarrow> bool" where
  "router_coder E \<longleftrightarrow>
     (\<forall>abi m args b. Pack E abi m args = Some b \<longrightarrow> 4 \<le> length b \<and>
        (list_all value_fits args \<longrightarrow> InputsUnpack E abi m (drop 4 b) = Some args) \<and>
        (abi = SwapRouterV1 \<and> m = ''exactInputSingle'' \<longrightarrow> selector_of b = SelectorExactInputSingleV1) \<and>
        (abi = SwapRouter02 \<and> m = ''exactInputSingle'' \<longrightarrow> selector_of b = SelectorExactInputSingleV2) \<and>
        (abi = SwapRouter02 \<and> m = ''multicall'' \<longrightarrow> selector_of b = SelectorMulticallDeadline))"

lemma router_coderD:
  assumes "router_coder E" "Pack E abi m args = Some b"
  shows "4 \<le> length b" "list_all value_fits args \<Longrightarrow> InputsUnpack E abi m (drop 4 b) = Some args"
    "abi = SwapRouterV1 \<Longrightarrow> m = ''exactInputSingle'' \<Longrightarrow> selector_of b = SelectorExactInputSingleV1"
    "abi = SwapRouter02 \<Longrightarrow> m = ''exactInputSingle'' \<Longrightarrow> selector_of b = SelectorExactInputSingleV2"
    "abi = SwapRouter02 \<Longrightarrow> m = ''multicall'' \<Longrightarrow> selector_of b = SelectorMulticallDeadline"
  using assms unfolding router_coder_def by blast+

lemmas selector_defs = SelectorExactInputSingleV1_def SelectorExactInputV1_def SelectorExactInputSingleV2_def
  SelectorMulticall_def SelectorMulticallDeadline_def SelectorMulticallBlockhash_def

lemma uint256_positive_iff: "uint256_positive n \<longleftrightarrow> 0 < n \<and> n < 2 ^ 256"
  by (auto simp: uint256_positive_def)

lemma fee_fits: "fee \<le> MaxUint24 \<Longrightarrow> uint fee < 2 ^ 24"
  by (simp add: MaxUint24_def word_le_def)

definition swap_fields :: "SwapInfo \<Rightarrow> address \<Rightarrow> (string \<times> abi_value) list \<Rightarrow> (string \<times> abi_value) list" where
  "swap_fields info recipient deadline =
     [(''TokenIn'', AbiAddress (TokenIn info)), (''TokenOut'', AbiAddress (TokenOut info)),
      (''Fee'', AbiUint (uint (Fee info))), (''Recipient'', AbiAddress recipient)] @ deadline @
     [(''AmountIn'', big_arg (AmountIn info)), (''AmountOutMinimum'', big_arg (AmountOutMinimum info)),
      (''SqrtPriceLimitX96'', big_arg (SqrtPriceLimitX96 info))]"

definition same_swap :: "SwapInfo \<Rightarrow> SwapInfo \<Rightarrow> bool" where
  "same_swap a b \<longleftrightarrow> TokenIn a = TokenIn b \<and> TokenOut a = TokenOut b \<and> Fee a = Fee b \<and> AmountIn a = AmountIn b \<and>
     AmountOutMinimum a = AmountOutMinimum b \<and> SqrtPriceLimitX96 a = SqrtPriceLimitX96 b"

definition valid_swap :: "SwapInfo \<Rightarrow> bool" where
  "valid_swap info \<longleftrightarrow> uint (Fee info) < 2 ^ 24 \<and>
     (\<exists>a m l. AmountIn info = Some a \<and> AmountOutMinimum info = Some m \<and> SqrtPriceLimitX96 info = Some l \<and>
       0 < a \<and> a < 2 ^ 256 \<and> 0 < m \<and> m < 2 ^ 256 \<and> 0 \<le> l \<and> l < 2 ^ 160)"

lemma validateSwapInfo_Inr: "validateSwapInfo (Some info) recipient ver = Inr i \<Longrightarrow> i = info \<and> valid_swap info"
  by (auto simp: validateSwapInfo_def andThen_eq_Inr valid_swap_def uint256_positive_iff not_less dest: fee_fits [simplified]
      split: option.splits)

lemma fields_of_swap:
  assumes "valid_swap info"
  shows "extractSwapFields (AbiTuple (swap_fields info recipient [])) False =
      Inr \<lparr>TokenIn = TokenIn info, TokenOut = TokenOut info, Fee = Fee info, Recipient = recipient, Deadline = None,
        PreviousBlockhash = None, AmountIn = AmountIn info, AmountOutMinimum = AmountOutMinimum info,
        SqrtPriceLimitX96 = SqrtPriceLimitX96 info, RouterVersion = 0, Path = [], Tokens = [TokenIn info, TokenOut info],
        Fees = [Fee info]\<rparr>"
    "extractSwapFields (AbiTuple (swap_fields info recipient [(''Deadline'', AbiUint d)])) True =
      Inr \<lparr>TokenIn = TokenIn info, TokenOut = TokenOut info, Fee = Fee info, Recipient = recipient, Deadline = Some d,
        PreviousBlockhash = None, AmountIn = AmountIn info, AmountOutMinimum = AmountOutMinimum info,
        SqrtPriceLimitX96 = SqrtPriceLimitX96 info, RouterVersion = 0, Path = [], Tokens = [TokenIn info, TokenOut info],
        Fees = [Fee info]\<rparr>"
  using assms
  by (auto simp: valid_swap_def extractSwapFields_def swap_fields_def addressField_def bigIntField_def feeField_def
      big_arg_def not_less)

lemma swap_fields_fit:
  assumes "valid_swap info" "length (TokenIn info) = 20" "length (TokenOut info) = 20" "length recipient = 20"
  shows "value_fits (AbiTuple (swap_fields info recipient []))"
    "0 \<le> d \<Longrightarrow> d < 2 ^ 256 \<Longrightarrow> value_fits (AbiTuple (swap_fields info recipient [(''Deadline'', AbiUint d)]))"
  using assms by (auto simp: valid_swap_def value_fits_def swap_fields_def field_fits_def big_arg_def)


lemma decode_single_V2:
  assumes coder: "router_coder E" and packed: "encodeV2 E info recipient = Inr cd" and valid: "valid_swap info"
    and addresses: "length (TokenIn info) = 20" "length (TokenOut info) = 20" "length recipient = 20"
  shows "\<exists>i. decode_level (Suc left) E ver cd = Inr [i] \<and> same_swap i info \<and> Recipient i = recipient \<and>
    Deadline i = None \<and> PreviousBlockhash i = None \<and> RouterVersion i = RouterVersion02 \<and> hasSupportedSelector cd"
proof -
  let ?args = "[AbiTuple (swap_fields info recipient [])]"
  have p: "Pack E SwapRouter02 ''exactInputSingle'' ?args = Some cd"
    using packed by (simp add: encodeV2_def swap_fields_def)
  have "InputsUnpack E SwapRouter02 ''exactInputSingle'' (drop 4 cd) = Some ?args"
    using router_coderD(2) [OF coder p] swap_fields_fit(1) [OF valid addresses] by simp
  then have "\<exists>i. decodeV2 E cd = Inr i \<and> same_swap i info \<and> Recipient i = recipient \<and>
      Deadline i = None \<and> PreviousBlockhash i = None \<and> RouterVersion i = RouterVersion02"
    by (simp add: decodeV2_def one_argument_def fields_of_swap [OF valid] same_swap_def)
  moreover have "selector_of cd = SelectorExactInputSingleV2" "4 \<le> length cd"
    using router_coderD(1,4) [OF coder p] by simp_all
  ultimately show ?thesis by (auto simp: selector_defs hasSupportedSelector_def)
qed

lemma decode_single_V1:
  assumes coder: "router_coder E" and packed: "encodeV1 E info recipient d = Inr cd" and valid: "valid_swap info"
    and addresses: "length (TokenIn info) = 20" "length (TokenOut info) = 20" "length recipient = 20"
    and d: "0 \<le> d" "d < 2 ^ 256"
  shows "\<exists>i. decode_level (Suc left) E ver cd = Inr [i] \<and> same_swap i info \<and> Recipient i = recipient \<and>
    Deadline i = Some d \<and> RouterVersion i = RouterVersionV1"
proof -
  let ?args = "[AbiTuple (swap_fields info recipient [(''Deadline'', AbiUint d)])]"
  have p: "Pack E SwapRouterV1 ''exactInputSingle'' ?args = Some cd"
    using packed by (simp add: encodeV1_def swap_fields_def)
  have "InputsUnpack E SwapRouterV1 ''exactInputSingle'' (drop 4 cd) = Some ?args"
    using router_coderD(2) [OF coder p] swap_fields_fit(2) [OF valid addresses d] by simp
  then have "\<exists>i. decodeV1 E cd = Inr i \<and> same_swap i info \<and> Recipient i = recipient \<and>
      Deadline i = Some d \<and> RouterVersion i = RouterVersionV1"
    by (simp add: decodeV1_def one_argument_def fields_of_swap [OF valid] same_swap_def)
  moreover have "selector_of cd = SelectorExactInputSingleV1" "4 \<le> length cd"
    using router_coderD(1,3) [OF coder p] by simp_all
  ultimately show ?thesis by auto
qed

lemma decode_deadline_multicall:
  assumes coder: "router_coder E" and packed: "Pack E SwapRouter02 ''multicall'' [AbiUint d, AbiBytesList [inner]] = Some cd"
    and d: "0 \<le> d" "d < 2 ^ 256"
    and inner: "decode_level left E RouterVersion02 inner = Inr [i]" "hasSupportedSelector inner"
      "RouterVersion i = RouterVersion02" "Deadline i = None" "PreviousBlockhash i = None"
  shows "decode_level (Suc left) E RouterVersion02 cd = Inr [i\<lparr>Deadline := Some d\<rparr>]"
proof -
  have "InputsUnpack E SwapRouter02 ''multicall'' (drop 4 cd) = Some [AbiUint d, AbiBytesList [inner]]"
    using router_coderD(2) [OF coder packed] d by (simp add: value_fits_def)
  moreover have sel: "selector_of cd = SelectorMulticallDeadline" "4 \<le> length cd"
    using router_coderD(1,5) [OF coder packed] by simp_all
  ultimately have "decodeMulticallEnvelope E cd SelectorMulticallDeadline = Inr ([inner], Some d, None)"
    by (simp add: decodeMulticallEnvelope_def multicall_selectors_def multicall_abi_def selector_defs)
  then show ?thesis
    using sel inner by (simp add: decode_multicall_def validateRouterVersion_def multicall_selectors_def
        under_envelope_def selector_defs)
qed

text \<open>
  C0: A swap that is encoded for a router is read back from the call as the one swap in it, with the same
  tokens, fee, amounts and price limit, the given recipient and the given deadline: for the first router
  the deadline is part of the swap, for the second one it comes from the multicall around it.
\<close>

theorem encoded_swap_is_read:
  assumes coder: "router_coder E"
    and encoded: "EncodeExactInputSingle E now (Some info) recipient (Some d) ver = Inr cd"
    and addresses: "length (TokenIn info) = 20" "length (TokenOut info) = 20" "length recipient = 20"
  shows "\<exists>i. DecodeSwapInfo E cd ver = Inr i \<and> same_swap i info \<and> Recipient i = recipient \<and> Deadline i = Some d \<and>
    RouterVersion i = ver"
proof -
  have v: "ver = RouterVersionV1 \<or> ver = RouterVersion02" and valid: "valid_swap info" and d: "0 \<le> d" "d < 2 ^ 256"
    using encoded validateSwapInfo_Inr
    by (auto simp: EncodeExactInputSingle_def andThen_eq_Inr validateRouterVersion_def effectiveDeadline_def
        uint256_positive_iff split: if_splits)
  show ?thesis
  proof (cases "ver = RouterVersionV1")
    case True
    then have "encodeV1 E info recipient d = Inr cd"
      using encoded validateSwapInfo_Inr by (fastforce simp: EncodeExactInputSingle_def andThen_eq_Inr effectiveDeadline_def
          split: if_splits)
    then obtain i where "decode_level (Suc maxMulticallDepth) E ver cd = Inr [i]" "same_swap i info"
      "Recipient i = recipient" "Deadline i = Some d" "RouterVersion i = RouterVersionV1"
      using decode_single_V1 [OF coder _ valid addresses d] by blast
    then show ?thesis using True by (simp add: DecodeSwapInfo_def DecodeSwapInfos_def del: decode_level.simps)
  next
    case False
    then have ver: "ver = RouterVersion02" using v by simp
    obtain inner where inner: "encodeV2 E info recipient = Inr inner"
      "Pack E SwapRouter02 ''multicall'' [AbiUint d, AbiBytesList [inner]] = Some cd"
      using encoded False validateSwapInfo_Inr
      by (fastforce simp: EncodeExactInputSingle_def andThen_eq_Inr effectiveDeadline_def split: if_splits)
    have depth: "maxMulticallDepth = Suc 7" by (simp add: maxMulticallDepth_def)
    obtain i where i: "decode_level (Suc 7) E RouterVersion02 inner = Inr [i]" "same_swap i info" "Recipient i = recipient"
      "Deadline i = None" "PreviousBlockhash i = None" "RouterVersion i = RouterVersion02" "hasSupportedSelector inner"
      using decode_single_V2 [OF coder inner(1) valid addresses] by blast
    have "decode_level (Suc (Suc 7)) E RouterVersion02 cd = Inr [i\<lparr>Deadline := Some d\<rparr>]"
      by (rule decode_deadline_multicall [OF coder inner(2) d i(1,7,6,4,5)])
    then have "DecodeSwapInfo E cd ver = Inr (i\<lparr>Deadline := Some d\<rparr>)"
      by (simp add: DecodeSwapInfo_def DecodeSwapInfos_def ver depth del: decode_level.simps)
    then show ?thesis using i(2,3,6) ver by (simp add: same_swap_def)
  qed
qed

definition sample_swap :: SwapInfo where
  "sample_swap = \<lparr>TokenIn = replicate 20 1, TokenOut = replicate 20 2, Fee = 3000, Recipient = [], Deadline = None,
     PreviousBlockhash = None, AmountIn = Some 1000, AmountOutMinimum = Some 990, SqrtPriceLimitX96 = Some 0,
     RouterVersion = 0, Path = [], Tokens = [], Fees = []\<rparr>"

definition sample_recipient :: address where "sample_recipient = replicate 20 3"
definition sample_inner :: bytes where "sample_inner = [0x04, 0xe4, 0x5a, 0xaf]"
definition sample_outer :: bytes where "sample_outer = [0x5a, 0xe4, 0x01, 0xdc]"
definition sample_single_args :: "abi_value list" where
  "sample_single_args = [AbiTuple (swap_fields sample_swap sample_recipient [])]"
definition sample_multi_args :: "abi_value list" where
  "sample_multi_args = [AbiUint 77, AbiBytesList [sample_inner]]"

definition sample_coder :: univ3_abi where
  "sample_coder =
     \<lparr>Pack = (\<lambda>abi m args.
        if abi = SwapRouter02 \<and> m = ''exactInputSingle'' \<and> args = sample_single_args then Some sample_inner
        else if abi = SwapRouter02 \<and> m = ''multicall'' \<and> args = sample_multi_args then Some sample_outer else None),
      InputsUnpack = (\<lambda>abi m b. Some (if m = ''multicall'' then sample_multi_args else sample_single_args)),
      Unpack = (\<lambda>_ _ _. None), IsHexAddress = (\<lambda>_. True), HexToAddress = (\<lambda>_. [])\<rparr>"

lemma sample_selectors:
  "selector_of sample_inner = SelectorExactInputSingleV2" "selector_of sample_outer = SelectorMulticallDeadline"
  by (simp_all add: selector_of_def sample_inner_def sample_outer_def selector_defs hexDigit_def
      char_of_eq_iff take_bit_eq_mod)

lemma sample_router_coder: "router_coder sample_coder"
  by (auto simp: router_coder_def sample_coder_def sample_selectors split: if_splits)
    (simp_all add: sample_inner_def sample_outer_def)

lemma sample_swap_valid: "validateSwapInfo (Some sample_swap) sample_recipient RouterVersion02 = Inr sample_swap"
  by (simp add: validateSwapInfo_def sample_swap_def sample_recipient_def uint256_positive_def zero_address_def
      MaxUint24_def)

lemma sample_packs:
  "encodeV2 sample_coder sample_swap sample_recipient = Inr sample_inner"
  "Pack sample_coder SwapRouter02 ''multicall'' [AbiUint 77, AbiBytesList [sample_inner]] = Some sample_outer"
  by (simp_all add: encodeV2_def sample_coder_def sample_single_args_def swap_fields_def sample_multi_args_def)

lemma sample_swap_encoded:
  "EncodeExactInputSingle sample_coder 0 (Some sample_swap) sample_recipient (Some 77) RouterVersion02 = Inr sample_outer"
proof -
  have "RouterVersion02 \<noteq> RouterVersionV1" by (simp add: RouterVersionV1_def RouterVersion02_def)
  then show ?thesis
    by (simp add: EncodeExactInputSingle_def validateRouterVersion_def sample_swap_valid effectiveDeadline_def
        uint256_positive_def sample_packs)
qed

theorem encoded_swap_is_read_witness:
  "\<exists>i. DecodeSwapInfo sample_coder sample_outer RouterVersion02 = Inr i \<and> same_swap i sample_swap \<and>
     Recipient i = sample_recipient \<and> Deadline i = Some 77 \<and> RouterVersion i = RouterVersion02"
  by (rule encoded_swap_is_read [OF sample_router_coder sample_swap_encoded]) (simp_all add: sample_swap_def sample_recipient_def)

text \<open>A deadline around a call is kept by every swap read from it.\<close>

lemma all_under_deadline:
  "all_under ver (Some d) h infos = Inr out \<Longrightarrow> i \<in> set out \<Longrightarrow> RouterVersion i = ver \<and> (\<exists>t\<le>d. Deadline i = Some t)"
proof (induction infos arbitrary: out)
  case (Cons info infos)
  then show ?case
    by (fastforce simp: andThen_eq_Inr under_envelope_def Let_def split: if_splits option.splits)
qed simp

lemma multicall_deadline_kept:
  assumes "DecodeSwapInfos E cd ver = Inr infos" "selector_of cd = SelectorMulticallDeadline" "i \<in> set infos"
  shows "\<exists>calls d t. decodeMulticallEnvelope E cd SelectorMulticallDeadline = Inr (calls, Some d, None) \<and>
    Deadline i = Some t \<and> t \<le> d \<and> RouterVersion i = RouterVersion02"
proof -
  have "decode_multicall E ver (decode_level maxMulticallDepth E ver) cd = Inr infos"
    using assms(1,2) by (auto simp: DecodeSwapInfos_def multicall_selectors_def selector_defs split: if_splits)
  then obtain calls d h inner where e: "decodeMulticallEnvelope E cd SelectorMulticallDeadline = Inr (calls, d, h)"
    and u: "all_under ver d h inner = Inr infos" and v: "ver = RouterVersion02"
    by (fastforce simp: decode_multicall_def assms(2) andThen_eq_Inr selector_defs split: if_splits)
  from e obtain t where "d = Some t" "h = None"
    by (auto simp: decodeMulticallEnvelope_def andThen_eq_Inr selector_defs split: if_splits abi_value.splits)
  with e u v all_under_deadline [of ver t h inner infos i] assms(3) show ?thesis by auto
qed

end
