(* ===== verification/Univ3Quote.thy ===== *)
theory Univ3Quote
  imports Univ3Swap Quotes "HOL-Library.Signed_Division"
begin

text \<open>
  \<open>dex/univ3/quote_client.go\<close> with \<open>types.go\<close>: the configuration of a client, the checks of a request,
  the routes tried over the fee tiers and base tokens, the discovery of pools with its cache, the choice
  of the best route, slippage and platform fee, and the calls a quote returns. The node, URLs, hashes and
  the ABI coder are the fields of \<open>univ3_env\<close>; the node answers the same call the same way during a
  quote, and the context of a call does not end. The goroutines of a quote ask about different pools or
  routes and their results are put together by index, so they are taken in that order here; no other
  call of the client runs at the same time. Times are in nanoseconds. A nil client is not modelled.
\<close>

section \<open>The packages used\<close>

text \<open>A failed call has the text of the node's error; \<open>PackError\<close> and \<open>UnpackError\<close> are the coder's.\<close>

record univ3_env =
  Coder :: univ3_abi
  AddressHex :: "address \<Rightarrow> string"
  EqualFold :: "string \<Rightarrow> string \<Rightarrow> bool"
  UrlParse :: "string \<Rightarrow> (string \<times> string) option"
  Dial :: "string \<Rightarrow> bool"
  CallContract :: "address \<Rightarrow> bytes \<Rightarrow> string + bytes"
  CodeAt :: "address \<Rightarrow> bytes option"
  EthChainID :: "int option"
  PackError :: string
  UnpackError :: string
  Keccak256Hash :: "bytes \<Rightarrow> bytes"
  Now :: int

datatype quote3_error =
  ChainNameRequired | ChainIDRequired | RPCRequired | InvalidRPC | UnsupportedScheme | InvalidAddress string
| ZeroAddress string | SameContracts | TooManyTiers | TierTooLarge | NoTiers | TooManyBases | TooManyCandidates
| TTLTooShort | DialFailed | InputNil | WrongChain | BadAmount | NativeToNative | SameToken | BadSlippage
| BadFeeRate | FeeNotInBips | FeeTooLarge | ChainIDFailed | WrongChainID | CodeFailed | NoCode | ImmutableFailed
| WrongFactory | WrongWETH | MalformedCandidate | PoolFailed | QuoterFailed string | ZeroMinimum | ZeroOutput
| BadDeadline | EncodeFailed

section \<open>Configurations\<close>

record Config =
  ChainName :: string
  ChainID :: nat
  RPC :: string
  Factory :: string
  SwapRouter :: string
  Quoter :: string
  WrappedNative :: string
  FeeTiers :: "u32 list"
  QuoteBaseTokens :: "string list"
  DeadlineTTL :: int

text \<open>An entry of the cache says whether the pool exists and when the entry expires.\<close>

record Client =
  config :: Config
  factory :: address
  swapRouter :: address
  quoter :: address
  wrappedNative :: address
  feeTiers :: "u32 list"
  quoteBaseTokens :: "address list"
  deployChecked :: bool
  poolCache :: "string \<Rightarrow> (bool \<times> int) option"

definition Channel :: string where "Channel = ''univ3''"
definition DefaultDeadlineTTL :: int where "DefaultDeadlineTTL = 20 * 60 * 1000000000"
definition poolCacheTTL :: int where "poolCacheTTL = 30 * 1000000000"
definition maxFeeTiers :: nat where "maxFeeTiers = 6"
definition maxQuoteBaseTokens :: nat where "maxQuoteBaseTokens = 6"
definition maxQuoteCandidates :: nat where "maxQuoteCandidates = 128"
definition maxPlatformFeeBips :: nat where "maxPlatformFeeBips = 100"
definition defaultEstimatedTime :: int where "defaultEstimatedTime = 30"
definition defaultFeeTiers :: "u32 list" where "defaultFeeTiers = [100, 500, 3000, 10000]"
definition MagicAddressForZeroEVM :: string where
  "MagicAddressForZeroEVM = ''0x0000000000000000000000000000000000000000''"

definition requiredClientAddress :: "univ3_env \<Rightarrow> string \<Rightarrow> string \<Rightarrow> quote3_error + address" where
  "requiredClientAddress E name raw =
     (let raw = strings_TrimSpace raw
      in if length raw \<noteq> 42 \<or> \<not> IsHexAddress (Coder E) raw then Inl (InvalidAddress name)
         else let a = HexToAddress (Coder E) raw in if a = zero_address then Inl (ZeroAddress name) else Inr a)"

definition validateClientRPCURL :: "univ3_env \<Rightarrow> string \<Rightarrow> quote3_error + unit" where
  "validateClientRPCURL E raw =
     (if raw = [] then Inl RPCRequired
      else case UrlParse E raw of
        None \<Rightarrow> Inl InvalidRPC
      | Some (scheme, host) \<Rightarrow>
          if host = [] then Inl InvalidRPC
          else if ToLower scheme \<in> {''http'', ''https'', ''ws'', ''wss''} then Inr ()
          else Inl UnsupportedScheme)"

text \<open>The tiers and the base tokens, each in the order of its first occurrence.\<close>

fun read_tiers :: "u32 list \<Rightarrow> u32 list \<Rightarrow> quote3_error + u32 list" where
  "read_tiers [] seen = Inr seen"
| "read_tiers (fee # fees) seen =
     (if fee > MaxUint24 then Inl TierTooLarge
      else read_tiers fees (if fee \<in> set seen then seen else seen @ [fee]))"

fun read_bases :: "univ3_env \<Rightarrow> nat \<Rightarrow> string list \<Rightarrow> address list \<Rightarrow> quote3_error + address list" where
  "read_bases E i [] bases = Inr bases"
| "read_bases E i (raw # raws) bases =
     andThen (requiredClientAddress E (''quoteBaseTokens['' @ FormatUint i @ '']'') raw) (\<lambda>base.
       read_bases E (i + 1) raws (if base \<in> set bases then bases else bases @ [base]))"

definition normalize_tiers :: "u32 list \<Rightarrow> quote3_error + u32 list" where
  "normalize_tiers configured =
     (let tiers = (if configured = [] then defaultFeeTiers else configured)
      in andThen (require (\<not> length tiers > maxFeeTiers) TooManyTiers) (\<lambda>_.
         andThen (read_tiers tiers []) (\<lambda>normalized.
         andThen (require (normalized \<noteq> []) NoTiers) (\<lambda>_. Inr (sort normalized)))))"

definition normalize_bases :: "univ3_env \<Rightarrow> string list \<Rightarrow> address \<Rightarrow> quote3_error + address list \<times> address list" where
  "normalize_bases E configured wrapped =
     andThen (require (\<not> length configured > maxQuoteBaseTokens) TooManyBases) (\<lambda>_.
     andThen (read_bases E 0 configured []) (\<lambda>seen.
       Inr (seen, if wrapped \<in> set seen then seen else seen @ [wrapped])))"

definition normalizeClientConfig ::
  "univ3_env \<Rightarrow> Config \<Rightarrow>
     quote3_error + Config \<times> address \<times> address \<times> address \<times> address \<times> u32 list \<times> address list"
where
  "normalizeClientConfig E c =
     (let c = c\<lparr>ChainName := strings_TrimSpace (ChainName c), RPC := strings_TrimSpace (RPC c)\<rparr>
      in andThen (require (ChainName c \<noteq> []) ChainNameRequired) (\<lambda>_.
         andThen (require (ChainID c \<noteq> 0) ChainIDRequired) (\<lambda>_.
         andThen (validateClientRPCURL E (RPC c)) (\<lambda>_.
         andThen (requiredClientAddress E ''factory'' (Factory c)) (\<lambda>fac.
         andThen (requiredClientAddress E ''swapRouter'' (SwapRouter c)) (\<lambda>router.
         andThen (requiredClientAddress E ''quoter'' (Quoter c)) (\<lambda>quo.
         andThen (requiredClientAddress E ''wrappedNative'' (WrappedNative c)) (\<lambda>wrapped.
         andThen (require (\<not> (fac = router \<or> fac = quo \<or> router = quo)) SameContracts) (\<lambda>_.
         andThen (normalize_tiers (FeeTiers c)) (\<lambda>tiers.
         andThen (normalize_bases E (QuoteBaseTokens c) wrapped) (\<lambda>(seen, bases).
         andThen (require (\<not> length tiers + length bases * length tiers * length tiers > maxQuoteCandidates)
             TooManyCandidates) (\<lambda>_.
           let c = c\<lparr>DeadlineTTL := (if DeadlineTTL c = 0 then DefaultDeadlineTTL else DeadlineTTL c)\<rparr>
           in andThen (require (\<not> DeadlineTTL c < 1000000000) TTLTooShort) (\<lambda>_.
                Inr (c\<lparr>Factory := AddressHex E fac, SwapRouter := AddressHex E router, Quoter := AddressHex E quo,
                       WrappedNative := AddressHex E wrapped, FeeTiers := tiers,
                       QuoteBaseTokens := map (AddressHex E) seen\<rparr>,
                     fac, router, quo, wrapped, tiers, bases))))))))))))))"

definition NewClient :: "univ3_env \<Rightarrow> Config \<Rightarrow> quote3_error + Client" where
  "NewClient E c =
     andThen (normalizeClientConfig E c) (\<lambda>(normalized, fac, router, quo, wrapped, tiers, bases).
     andThen (require (Dial E (RPC normalized)) DialFailed) (\<lambda>_.
       Inr \<lparr>config = normalized, factory = fac, swapRouter = router, quoter = quo, wrappedNative = wrapped,
         feeTiers = tiers, quoteBaseTokens = bases, deployChecked = False, poolCache = Map.empty\<rparr>))"

definition IsConfiguredRouter :: "univ3_env \<Rightarrow> Client \<Rightarrow> string \<Rightarrow> bool" where
  "IsConfiguredRouter E c addr \<longleftrightarrow>
     (if length (strings_TrimSpace addr) \<noteq> 42 \<or> \<not> IsHexAddress (Coder E) addr then False
      else HexToAddress (Coder E) addr = swapRouter c)"

section \<open>Requests\<close>

record request =
  amountIn :: int
  tokenIn :: address
  tokenOut :: address
  inputNative :: bool
  outputNative :: bool
  recipient :: address
  slippage :: rat
  feeBips :: nat
  feeReceiver :: address

definition matchesChain :: "univ3_env \<Rightarrow> Client \<Rightarrow> string \<Rightarrow> bool" where
  "matchesChain E c raw \<longleftrightarrow>
     (let raw = strings_TrimSpace raw
      in EqualFold E raw (ChainName (config c)) \<or> raw = FormatUint (ChainID (config c)))"

definition isClientNative :: "univ3_env \<Rightarrow> string \<Rightarrow> bool" where
  "isClientNative E raw \<longleftrightarrow> EqualFold E (strings_TrimSpace raw) MagicContactAddressForNative \<or>
     EqualFold E (strings_TrimSpace raw) MagicAddressForZeroEVM"

definition swapToken :: "univ3_env \<Rightarrow> Client \<Rightarrow> string \<Rightarrow> string \<Rightarrow> bool \<Rightarrow> quote3_error + address" where
  "swapToken E c name raw native = (if native then Inr (wrappedNative c) else requiredClientAddress E name raw)"

definition parseProtectedSlippage :: "'f floats \<Rightarrow> string \<Rightarrow> quote3_error + rat" where
  "parseProtectedSlippage F raw =
     (let raw = strings_TrimSpace raw
      in if raw = [] \<or> length raw > 64 \<or> strings_Contains raw ''/'' then Inl BadSlippage
         else case RatSetString F raw of
           None \<Rightarrow> Inl BadSlippage
         | Some s \<Rightarrow> if s \<le> 0 \<or> s \<ge> 100 then Inl BadSlippage else Inr s)"

definition parsePlatformFee :: "'f floats \<Rightarrow> univ3_env \<Rightarrow> string \<Rightarrow> string \<Rightarrow> quote3_error + nat \<times> address" where
  "parsePlatformFee F E rawRate rawReceiver =
     (let rawRate = strings_TrimSpace rawRate; rawReceiver = strings_TrimSpace rawReceiver
      in if rawRate = [] then Inr (0, zero_address)
         else if length rawRate > 64 \<or> strings_Contains rawRate ''/'' then Inl BadFeeRate
         else case RatSetString F rawRate of
           None \<Rightarrow> Inl BadFeeRate
         | Some rate \<Rightarrow>
             if rate < 0 then Inl BadFeeRate
             else if rate = 0 then Inr (0, zero_address)
             else
               (case quotient_of (rate * 100) of (bips, den) \<Rightarrow>
                  if den \<noteq> 1 then Inl FeeNotInBips
                  else if \<not> (0 \<le> bips \<and> bips < 2 ^ 64) \<or> nat bips > maxPlatformFeeBips then Inl FeeTooLarge
                  else andThen (requiredClientAddress E ''feeReceiver'' rawReceiver) (\<lambda>receiver. Inr (nat bips, receiver))))"

definition validateQuote :: "'f floats \<Rightarrow> univ3_env \<Rightarrow> Client \<Rightarrow> DexQuoteIn option \<Rightarrow> quote3_error + request" where
  "validateQuote F E c i =
     andThen (orErr InputNil i) (\<lambda>i.
     andThen (require (matchesChain E c (FromChain i) \<and> matchesChain E c (ToChain i)) WrongChain) (\<lambda>_.
     let rawAmount = strings_TrimSpace (FromAmount i)
     in andThen (require (\<not> (length rawAmount = 0 \<or> length rawAmount > 78)) BadAmount) (\<lambda>_.
     andThen (orErr BadAmount (big_SetString rawAmount)) (\<lambda>amt.
     andThen (require (uint256_positive amt) BadAmount) (\<lambda>_.
     let inNative = isClientNative E (FromToken i); outNative = isClientNative E (ToToken i)
     in andThen (require (\<not> (inNative \<and> outNative)) NativeToNative) (\<lambda>_.
        andThen (swapToken E c ''fromToken'' (FromToken i) inNative) (\<lambda>tin.
        andThen (swapToken E c ''toToken'' (ToToken i) outNative) (\<lambda>tout.
        andThen (require (tin \<noteq> tout) SameToken) (\<lambda>_.
        andThen (requiredClientAddress E ''fromAddress'' (FromAddress i)) (\<lambda>_.
        andThen (requiredClientAddress E ''toAddress'' (ToAddress i)) (\<lambda>rcpt.
        andThen (parseProtectedSlippage F (Quotes.Slippage i)) (\<lambda>s.
        andThen (parsePlatformFee F E (FeeRate i) (FeeReceiver i)) (\<lambda>(bips, receiver).
          Inr \<lparr>amountIn = amt, tokenIn = tin, tokenOut = tout, inputNative = inNative, outputNative = outNative,
            recipient = rcpt, slippage = s, feeBips = bips, feeReceiver = receiver\<rparr>)))))))))))))"

definition applyQuoteSlippage :: "int \<Rightarrow> rat \<Rightarrow> int" where
  "applyQuoteSlippage amount s =
     (case quotient_of (of_int amount * (100 - s) / 100) of (num, den) \<Rightarrow> num sdiv den)"

definition deductPlatformFee :: "int \<Rightarrow> nat \<Rightarrow> int" where
  "deductPlatformFee amount bips = (if bips = 0 then amount else amount - (amount * int bips) sdiv 10000)"

section \<open>Routes\<close>

record routeCandidate =
  tokens :: "address list"
  fees :: "u32 list"
  path :: bytes
  amountOut :: "int option"

definition candidate_of :: "address list \<Rightarrow> u32 list \<Rightarrow> routeCandidate" where
  "candidate_of ts fs = \<lparr>tokens = ts, fees = fs, path = encodeV3Path ts fs, amountOut = None\<rparr>"

definition candidateRoutes :: "Client \<Rightarrow> address \<Rightarrow> address \<Rightarrow> routeCandidate list" where
  "candidateRoutes c tin tout =
     map (\<lambda>fee. candidate_of [tin, tout] [fee]) (feeTiers c) @
     concat (map (\<lambda>base.
       if base = tin \<or> base = tout \<or> base = zero_address then []
       else concat (map (\<lambda>f1. map (\<lambda>f2. candidate_of [tin, base, tout] [f1, f2]) (feeTiers c)) (feeTiers c)))
       (quoteBaseTokens c))"

fun string_less :: "string \<Rightarrow> string \<Rightarrow> bool" where
  "string_less s [] = False"
| "string_less [] (d # t) = True"
| "string_less (c # s) (d # t) = (char_nat c < char_nat d \<or> c = d \<and> string_less s t)"

definition poolKey :: "univ3_env \<Rightarrow> address \<Rightarrow> address \<Rightarrow> u32 \<Rightarrow> string" where
  "poolKey E a b fee =
     (let left = ToLower (AddressHex E a); right = ToLower (AddressHex E b)
      in (if string_less right left then right @ '':'' @ left else left @ '':'' @ right) @ '':'' @ FormatUint (unat fee))"

record poolRequest =
  tokenA :: address
  tokenB :: address
  pool_fee :: u32

text \<open>A call of a contract with one result.\<close>

definition call_one ::
  "univ3_env \<Rightarrow> abi_of \<Rightarrow> address \<Rightarrow> string \<Rightarrow> abi_value list \<Rightarrow> (string \<Rightarrow> string) \<Rightarrow> string + abi_value"
where
  "call_one E abi contract method args message =
     andThen (orErr (message (''pack '' @ PackError E)) (Pack (Coder E) abi method args)) (\<lambda>d.
     andThen (mapErr message (CallContract E contract d)) (\<lambda>raw.
     andThen (orErr (message (''decode '' @ UnpackError E)) (Unpack (Coder E) abi method raw)) (\<lambda>values.
       if length values \<noteq> 1 then Inl (message ''decode '') else Inr (hd values))))"

definition fetchPoolExists :: "univ3_env \<Rightarrow> Client \<Rightarrow> poolRequest \<Rightarrow> string + bool" where
  "fetchPoolExists E c r =
     andThen (call_one E FactoryV3 (factory c) ''getPool''
         [AbiAddress (tokenA r), AbiAddress (tokenB r), AbiUint (uint (pool_fee r))]
         (\<lambda>e. ''univ3: Factory.getPool: '' @ e)) (\<lambda>v.
       case v of AbiAddress pool \<Rightarrow> Inr (pool \<noteq> zero_address) | _ \<Rightarrow> Inl ''univ3: Factory.getPool returned'')"

definition poolExists :: "univ3_env \<Rightarrow> Client \<Rightarrow> poolRequest \<Rightarrow> Client \<times> (string + bool)" where
  "poolExists E c r =
     (let key = poolKey E (tokenA r) (tokenB r) (pool_fee r); now = Now E
      in case poolCache c key of
           Some (exists, expiresAt) \<Rightarrow>
             if now < expiresAt then (c, Inr exists)
             else
               (case fetchPoolExists E c r of
                  Inl e \<Rightarrow> (c, Inl e)
                | Inr hit \<Rightarrow> (c\<lparr>poolCache := (poolCache c)(key \<mapsto> (hit, now + poolCacheTTL))\<rparr>, Inr hit))
         | None \<Rightarrow>
             (case fetchPoolExists E c r of
                Inl e \<Rightarrow> (c, Inl e)
              | Inr hit \<Rightarrow> (c\<lparr>poolCache := (poolCache c)(key \<mapsto> (hit, now + poolCacheTTL))\<rparr>, Inr hit)))"

fun hop_requests :: "address list \<Rightarrow> u32 list \<Rightarrow> poolRequest list" where
  "hop_requests (a # b # ts) (f # fs) = \<lparr>tokenA = a, tokenB = b, pool_fee = f\<rparr> # hop_requests (b # ts) fs"
| "hop_requests _ _ = []"

definition request_key :: "univ3_env \<Rightarrow> poolRequest \<Rightarrow> string" where
  "request_key E r = poolKey E (tokenA r) (tokenB r) (pool_fee r)"

text \<open>The requests by key; a later request replaces an earlier one with its key.\<close>

fun unique_requests :: "univ3_env \<Rightarrow> poolRequest list \<Rightarrow> poolRequest list" where
  "unique_requests E [] = []"
| "unique_requests E (r # rs) =
     (if request_key E r \<in> request_key E ` set rs then unique_requests E rs else r # unique_requests E rs)"

definition wellFormed :: "routeCandidate \<Rightarrow> bool" where
  "wellFormed k \<longleftrightarrow> \<not> (length (tokens k) \<noteq> length (fees k) + 1 \<or> path k = [])"

fun pool_states ::
  "univ3_env \<Rightarrow> Client \<Rightarrow> poolRequest list \<Rightarrow> (string \<Rightarrow> bool option) \<Rightarrow> bool \<Rightarrow> Client \<times> (string \<Rightarrow> bool option) \<times> bool"
where
  "pool_states E c [] states broke = (c, states, broke)"
| "pool_states E c (r # rs) states broke =
     (case poolExists E c r of
        (c, Inl e) \<Rightarrow> pool_states E c rs states True
      | (c, Inr hit) \<Rightarrow> pool_states E c rs (states(request_key E r \<mapsto> hit)) broke)"

definition candidatePoolsExist :: "univ3_env \<Rightarrow> routeCandidate \<Rightarrow> (string \<Rightarrow> bool option) \<Rightarrow> bool" where
  "candidatePoolsExist E k states \<longleftrightarrow>
     wellFormed k \<and> list_all (\<lambda>r. states (request_key E r) = Some True) (hop_requests (tokens k) (fees k))"

definition resolveCandidatePools ::
  "univ3_env \<Rightarrow> Client \<Rightarrow> routeCandidate list \<Rightarrow> Client \<times> (quote3_error + (string \<Rightarrow> bool option))"
where
  "resolveCandidatePools E c candidates =
     (if \<not> list_all wellFormed candidates then (c, Inl MalformedCandidate)
      else
        case pool_states E c (unique_requests E (concat (map (\<lambda>k. hop_requests (tokens k) (fees k)) candidates)))
               Map.empty False of
          (c, states, broke) \<Rightarrow>
            if broke \<and> \<not> list_ex (\<lambda>k. candidatePoolsExist E k states) candidates then (c, Inl PoolFailed)
            else (c, Inr states))"

definition quoteCandidate :: "univ3_env \<Rightarrow> Client \<Rightarrow> routeCandidate \<Rightarrow> int \<Rightarrow> string + int" where
  "quoteCandidate E c k amount =
     andThen
       (if length (fees k) = 1 then
          call_one E QuoterV1 (quoter c) ''quoteExactInputSingle''
            [AbiAddress (tokens k ! 0), AbiAddress (tokens k ! 1), AbiUint (uint (fees k ! 0)), AbiUint amount, AbiUint 0]
            (\<lambda>e. ''univ3: Quoter.quoteExactInputSingle: '' @ e)
        else call_one E QuoterV1 (quoter c) ''quoteExactInput'' [AbiBytes (path k), AbiUint amount]
            (\<lambda>e. ''univ3: Quoter.quoteExactInput: '' @ e)) (\<lambda>v.
       case v of AbiUint n \<Rightarrow> if n \<le> 0 then Inl ''univ3: Quoter returned an invalid amount'' else Inr n
       | _ \<Rightarrow> Inl ''univ3: Quoter returned an invalid amount'')"

definition isExpectedQuoterFailure :: "string \<Rightarrow> bool" where
  "isExpectedQuoterFailure err \<longleftrightarrow>
     (let message = ToLower err
      in strings_Contains message ''execution reverted'' \<or> strings_Contains message ''revert data'' \<or>
         strings_Contains message ''no liquidity'' \<or> strings_Contains message ''insufficient liquidity'')"

text \<open>The best route so far, and the first failure that is not the market's.\<close>

fun best_candidate ::
  "univ3_env \<Rightarrow> Client \<Rightarrow> int \<Rightarrow> routeCandidate list \<Rightarrow> (routeCandidate \<times> int) option \<Rightarrow> string option \<Rightarrow>
     (routeCandidate \<times> int) option \<times> string option"
where
  "best_candidate E c amount [] best broken = (best, broken)"
| "best_candidate E c amount (k # ks) best broken =
     (case quoteCandidate E c k amount of
        Inl e \<Rightarrow> best_candidate E c amount ks best
          (if \<not> isExpectedQuoterFailure e \<and> broken = None then Some e else broken)
      | Inr n \<Rightarrow>
          if n \<le> 0 then best_candidate E c amount ks best broken
          else best_candidate E c amount ks
            (case best of None \<Rightarrow> Some (k, n) | Some (_, m) \<Rightarrow> if n > m then Some (k, n) else best) broken)"

definition bestQuotedCandidate ::
  "univ3_env \<Rightarrow> Client \<Rightarrow> routeCandidate list \<Rightarrow> int \<Rightarrow> quote3_error + (routeCandidate \<times> int) option"
where
  "bestQuotedCandidate E c viable amount =
     (case best_candidate E c amount viable None None of
        (Some best, _) \<Rightarrow> Inr (Some best)
      | (None, Some e) \<Rightarrow> Inl (QuoterFailed e)
      | (None, None) \<Rightarrow> Inr None)"


section \<open>The calls of a quote\<close>

definition swap_info_of :: "request \<Rightarrow> routeCandidate \<Rightarrow> int \<Rightarrow> SwapInfo" where
  "swap_info_of r k grossMinimum =
     \<lparr>TokenIn = tokens k ! 0, TokenOut = tokens k ! 1, Fee = fees k ! 0, Recipient = [], Deadline = None,
      PreviousBlockhash = None, AmountIn = Some (amountIn r), AmountOutMinimum = Some grossMinimum,
      SqrtPriceLimitX96 = Some 0, RouterVersion = 0, Path = [], Tokens = [], Fees = []\<rparr>"

text \<open>The call after the swap: the router holds the output and pays it out, with or without a fee.\<close>

definition payment_call :: "request \<Rightarrow> int \<Rightarrow> (string \<times> abi_value list) option" where
  "payment_call r grossMinimum =
     (let with_fee = [AbiUint (int (feeBips r)), AbiAddress (feeReceiver r)]
      in if outputNative r then
           if feeBips r > 0 then
             Some (''unwrapWETH9WithFee'', [AbiUint grossMinimum, AbiAddress (recipient r)] @ with_fee)
           else Some (''unwrapWETH9'', [AbiUint grossMinimum, AbiAddress (recipient r)])
         else if feeBips r > 0 then
           Some (''sweepTokenWithFee'', [AbiAddress (tokenOut r), AbiUint grossMinimum, AbiAddress (recipient r)] @ with_fee)
         else None)"

definition swap_recipient :: "Client \<Rightarrow> request \<Rightarrow> address" where
  "swap_recipient c r = (if outputNative r \<or> feeBips r > 0 then swapRouter c else recipient r)"

definition buildSwapCalldata ::
  "univ3_env \<Rightarrow> Client \<Rightarrow> request \<Rightarrow> routeCandidate \<Rightarrow> int \<Rightarrow> int \<Rightarrow> quote3_error + bytes \<times> string"
where
  "buildSwapCalldata E c r k grossMinimum deadline =
     andThen (require (\<not> deadline \<le> 0 \<and> \<not> grossMinimum \<le> 0) EncodeFailed) (\<lambda>_.
     let method = (if length (fees k) = 1 then ''exactInputSingle'' else ''exactInput'')
     in andThen (mapErr (\<lambda>_. EncodeFailed)
          (if length (fees k) = 1 then
             encodeV1 (Coder E) (swap_info_of r k grossMinimum) (swap_recipient c r) deadline
           else encodeExactInputV1 (Coder E) (path k) (swap_recipient c r) (Some deadline) (Some (amountIn r))
             (Some grossMinimum))) (\<lambda>swapCall.
        case payment_call r grossMinimum of
          None \<Rightarrow> Inr (swapCall, method)
        | Some (paymentMethod, args) \<Rightarrow>
            andThen (orErr EncodeFailed (Pack (Coder E) SwapRouterV1 paymentMethod args)) (\<lambda>payment.
            andThen (orErr EncodeFailed (Pack (Coder E) SwapRouterV1 ''multicall'' [AbiBytesList [swapCall, payment]])) (\<lambda>multicall.
              Inr (multicall, ''multicall:'' @ method @ ''+'' @ paymentMethod)))))"

definition format_bool :: "bool \<Rightarrow> string" where
  "format_bool b = (if b then ''true'' else ''false'')"

definition routeID ::
  "univ3_env \<Rightarrow> Client \<Rightarrow> string \<Rightarrow> request \<Rightarrow> routeCandidate \<Rightarrow> int \<Rightarrow> int \<Rightarrow> int \<Rightarrow> string"
where
  "routeID E c method r k amount grossMinimum deadline =
     (let payload = strings_Join
            [FormatUint (ChainID (config c)), ToLower (AddressHex E (swapRouter c)), method, hex_encode (path k),
             Itoa (amountIn r), Itoa amount, Itoa grossMinimum, ToLower (AddressHex E (recipient r)), Itoa deadline,
             FormatUint (feeBips r), ToLower (AddressHex E (feeReceiver r)), format_bool (inputNative r),
             format_bool (outputNative r)] ''|''
      in ''univ3-'' @ FormatUint (ChainID (config c)) @ ''-'' @ hex_encode (Keccak256Hash E (bytes_of_string payload)))"

section \<open>The deployment\<close>

definition callImmutableAddress :: "univ3_env \<Rightarrow> address \<Rightarrow> abi_of \<Rightarrow> string \<Rightarrow> quote3_error + address" where
  "callImmutableAddress E contract abi method =
     andThen (mapErr (\<lambda>_. ImmutableFailed) (call_one E abi contract method [] (\<lambda>e. e))) (\<lambda>v.
       case v of AbiAddress a \<Rightarrow> if a = zero_address then Inl ImmutableFailed else Inr a | _ \<Rightarrow> Inl ImmutableFailed)"

definition check_code :: "univ3_env \<Rightarrow> address \<Rightarrow> quote3_error + unit" where
  "check_code E contract =
     andThen (orErr CodeFailed (CodeAt E contract)) (\<lambda>code. require (\<not> length code = 0) NoCode)"

definition check_immutables :: "univ3_env \<Rightarrow> Client \<Rightarrow> address \<Rightarrow> abi_of \<Rightarrow> quote3_error + unit" where
  "check_immutables E c contract abi =
     andThen (callImmutableAddress E contract abi ''factory'') (\<lambda>fac.
     andThen (require (fac = factory c) WrongFactory) (\<lambda>_.
     andThen (callImmutableAddress E contract abi ''WETH9'') (\<lambda>wrapped.
       require (wrapped = wrappedNative c) WrongWETH)))"

definition ensureDeployment :: "univ3_env \<Rightarrow> Client \<Rightarrow> Client \<times> (quote3_error + unit)" where
  "ensureDeployment E c =
     (if deployChecked c then (c, Inr ())
      else case EthChainID E of
        None \<Rightarrow> (c, Inl ChainIDFailed)
      | Some i \<Rightarrow>
          if \<not> (0 \<le> i \<and> i < 2 ^ 64) \<or> nat i \<noteq> ChainID (config c) then (c, Inl WrongChainID)
          else
            (case andThen (check_code E (factory c)) (\<lambda>_.
                  andThen (check_code E (swapRouter c)) (\<lambda>_.
                  andThen (check_code E (quoter c)) (\<lambda>_.
                  andThen (check_immutables E c (swapRouter c) SwapRouterV1) (\<lambda>_.
                    check_immutables E c (quoter c) QuoterV1)))) of
               Inl e \<Rightarrow> (c, Inl e)
             | Inr _ \<Rightarrow> (c\<lparr>deployChecked := True\<rparr>, Inr ())))"

section \<open>Quotes\<close>

definition swap_route ::
  "'f floats \<Rightarrow> univ3_env \<Rightarrow> Client \<Rightarrow> request \<Rightarrow> routeCandidate \<Rightarrow> int \<Rightarrow> quote3_error + 'f DexRoute"
where
  "swap_route F E c r k amount =
     (let grossMinimum = applyQuoteSlippage amount (slippage r)
      in andThen (require (\<not> grossMinimum \<le> 0) ZeroMinimum) (\<lambda>_.
         let netAmountOut = deductPlatformFee amount (feeBips r);
             netMinimum = deductPlatformFee grossMinimum (feeBips r)
         in andThen (require (\<not> (netAmountOut \<le> 0 \<or> netMinimum \<le> 0)) ZeroOutput) (\<lambda>_.
            let deadline = (Now E + DeadlineTTL (config c)) div 1000000000
            in andThen (require (\<not> deadline \<le> Now E div 1000000000) BadDeadline) (\<lambda>_.
               andThen (buildSwapCalldata E c r k grossMinimum deadline) (\<lambda>(calldata, method).
                 Inr \<lparr>dRouteId = routeID E c method r k amount grossMinimum deadline, RequestHash = [],
                   DexName = ChainName (config c) @ '' Uniswap V3'', AmountOut = Itoa netAmountOut,
                   dAmountOutMin = Itoa netMinimum, dSlippage = OfRat F (slippage r),
                   SuggestedSlippage = OfRat F (slippage r), FeeInUsd = [], EstimatedTime = defaultEstimatedTime,
                   dNeedBuild = False, Gasless = False, RequestId = [],
                   dTxData = Some \<lparr>DexTo = AddressHex E (swapRouter c), DexData = ''0x'' @ hex_encode calldata,
                     DexValue = (if inputNative r then Itoa (amountIn r) else []), DexGasPrice = [],
                     DexGasLimit = [], DexFeeLimit = []\<rparr>,
                   dApprovalData = (if inputNative r then None else
                     Some \<lparr>ApprovalToken = AddressHex E (tokenIn r), Spender = AddressHex E (swapRouter c),
                       ApprovalAmount = Itoa (amountIn r)\<rparr>),
                   UserOp = [], SignTypedData = [], dSubmitRequest = [],
                   dTrustedSpenders = (if inputNative r then [] else [AddressHex E (swapRouter c)]),
                   dPriceImpactPct = OfInt F 0, dWarnings = [], RouteGasLimit = [], dRouteTags = [''MAX_OUTPUT''],
                   dExpiresAt = deadline\<rparr>)))))"

definition quote_candidates ::
  "'f floats \<Rightarrow> univ3_env \<Rightarrow> Client \<Rightarrow> request \<Rightarrow> Client \<times> (quote3_error + 'f DexQuoteOut)"
where
  "quote_candidates F E c r =
     (let candidates = candidateRoutes c (tokenIn r) (tokenOut r)
      in case resolveCandidatePools E c candidates of
           (c, Inl e) \<Rightarrow> (c, Inl e)
         | (c, Inr states) \<Rightarrow>
             (c, let viable = List.filter (\<lambda>k. candidatePoolsExist E k states) candidates
                 in if viable = [] then Inr \<lparr>oChannel = Channel, oRoutes = []\<rparr>
                    else andThen (bestQuotedCandidate E c viable (amountIn r)) (\<lambda>best.
                      case best of
                        None \<Rightarrow> Inr \<lparr>oChannel = Channel, oRoutes = []\<rparr>
                      | Some (k, amount) \<Rightarrow>
                          andThen (swap_route F E c r k amount) (\<lambda>route.
                            Inr \<lparr>oChannel = Channel, oRoutes = [route]\<rparr>))))"

definition Quote_univ3 ::
  "'f floats \<Rightarrow> univ3_env \<Rightarrow> Client \<Rightarrow> DexQuoteIn option \<Rightarrow> Client \<times> (quote3_error + 'f DexQuoteOut)"
where
  "Quote_univ3 F E c i =
     (case validateQuote F E c i of
        Inl e \<Rightarrow> (c, Inl e)
      | Inr r \<Rightarrow>
        (case ensureDeployment E c of
           (c, Inl e) \<Rightarrow> (c, Inl e)
         | (c, Inr _) \<Rightarrow> quote_candidates F E c r))"


section \<open>The routes tried\<close>

lemma read_tiers_Inr:
  "read_tiers fs seen = Inr out \<Longrightarrow> distinct seen \<Longrightarrow> (\<forall>f\<in>set seen. f \<le> MaxUint24) \<Longrightarrow>
     distinct out \<and> (\<forall>f\<in>set out. f \<le> MaxUint24)"
proof (induction fs seen rule: read_tiers.induct)
  case (2 fee fees seen)
  have fee: "fee \<le> MaxUint24" using "2.prems"(1) by (cases "fee > MaxUint24") simp_all
  let ?seen = "if fee \<in> set seen then seen else seen @ [fee]"
  have "read_tiers fees ?seen = Inr out" using "2.prems"(1) fee by (simp add: leD)
  moreover have "distinct ?seen \<and> (\<forall>f\<in>set ?seen. f \<le> MaxUint24)" using "2.prems"(2,3) fee by simp
  ultimately show ?case using "2.IH" [OF leD [OF fee]] by blast
qed simp

lemma normalize_tiers_Inr:
  assumes "normalize_tiers configured = Inr tiers"
  shows "distinct tiers \<and> sorted tiers \<and> tiers \<noteq> [] \<and> (\<forall>f\<in>set tiers. f \<le> MaxUint24)"
proof -
  obtain ts seen where "read_tiers ts [] = Inr seen" "seen \<noteq> []" "tiers = sort seen"
    using assms by (auto simp: normalize_tiers_def andThen_eq_Inr Let_def)
  with read_tiers_Inr [of ts "[]" seen] show ?thesis by (auto simp: set_empty [symmetric] simp del: set_empty)
qed

lemma andThen_InrE: "andThen r f = Inr y \<Longrightarrow> (\<And>x. r = Inr x \<Longrightarrow> f x = Inr y \<Longrightarrow> P) \<Longrightarrow> P"
  by (auto simp: andThen_eq_Inr)

lemma case_prod_InrE:
  "(case p of (a, b) \<Rightarrow> f a b) = Inr y \<Longrightarrow> (\<And>a b. p = (a, b) \<Longrightarrow> f a b = Inr y \<Longrightarrow> P) \<Longrightarrow> P"
  by (cases p) simp

lemma normalizeClientConfig_Inr:
  assumes "normalizeClientConfig E cfg = Inr (n, fac, router, quo, wrapped, tiers, bases)"
  shows "normalize_tiers (FeeTiers cfg) = Inr tiers \<and>
    (\<exists>seen. normalize_bases E (QuoteBaseTokens cfg) wrapped = Inr (seen, bases)) \<and>
    length tiers + length bases * length tiers * length tiers \<le> maxQuoteCandidates"
  using assms unfolding normalizeClientConfig_def Let_def
  by (elim andThen_InrE case_prod_InrE) (simp add: not_less)

lemma NewClient_Inr:
  assumes "NewClient E cfg = Inr c"
  shows "distinct (feeTiers c) \<and> sorted (feeTiers c) \<and> feeTiers c \<noteq> [] \<and> (\<forall>f\<in>set (feeTiers c). f \<le> MaxUint24) \<and>
    length (feeTiers c) + length (quoteBaseTokens c) * length (feeTiers c) * length (feeTiers c) \<le> maxQuoteCandidates"
proof -
  obtain n fac router quo wrapped
    where "normalizeClientConfig E cfg = Inr (n, fac, router, quo, wrapped, feeTiers c, quoteBaseTokens c)"
    using assms by (force simp: NewClient_def andThen_eq_Inr)
  from normalizeClientConfig_Inr [OF this] normalize_tiers_Inr show ?thesis by blast
qed

lemma length_candidates:
  "length (candidateRoutes c tin tout) \<le>
     length (feeTiers c) + length (quoteBaseTokens c) * length (feeTiers c) * length (feeTiers c)"
proof -
  have "sum_list (map (\<lambda>base. length
      (if base = tin \<or> base = tout \<or> base = zero_address then []
       else concat (map (\<lambda>f1. map (\<lambda>f2. candidate_of [tin, base, tout] [f1, f2]) (feeTiers c)) (feeTiers c)))) bases)
      \<le> length bases * (length (feeTiers c) * length (feeTiers c))" for bases
    by (induction bases) (auto simp: length_concat comp_def sum_list_triv)
  then show ?thesis by (simp add: candidateRoutes_def length_concat comp_def mult.assoc)
qed

lemma candidate_cases:
  assumes "k \<in> set (candidateRoutes c tin tout)"
  obtains f where "f \<in> set (feeTiers c)" "k = candidate_of [tin, tout] [f]"
  | base f1 f2 where "base \<in> set (quoteBaseTokens c)" "base \<notin> {tin, tout, zero_address}"
      "f1 \<in> set (feeTiers c)" "f2 \<in> set (feeTiers c)" "k = candidate_of [tin, base, tout] [f1, f2]"
  using assms unfolding candidateRoutes_def by (auto split: if_splits)

section \<open>The pools known\<close>

text \<open>What the cache or the factory says of a pool; \<open>None\<close> when the factory cannot be asked.\<close>

definition cached :: "univ3_env \<Rightarrow> Client \<Rightarrow> string \<Rightarrow> bool option" where
  "cached E c key = (case poolCache c key of Some (hit, expiresAt) \<Rightarrow> if Now E < expiresAt then Some hit else None | None \<Rightarrow> None)"

definition fetched :: "univ3_env \<Rightarrow> Client \<Rightarrow> poolRequest \<Rightarrow> bool option" where
  "fetched E c r = (case fetchPoolExists E c r of Inl _ \<Rightarrow> None | Inr hit \<Rightarrow> Some hit)"

definition pool_known :: "univ3_env \<Rightarrow> Client \<Rightarrow> poolRequest \<Rightarrow> bool option" where
  "pool_known E c r = (case cached E c (request_key E r) of Some hit \<Rightarrow> Some hit | None \<Rightarrow> fetched E c r)"

definition has_pools :: "univ3_env \<Rightarrow> Client \<Rightarrow> routeCandidate \<Rightarrow> bool" where
  "has_pools E c k \<longleftrightarrow> list_all (\<lambda>r. pool_known E c r = Some True) (hop_requests (tokens k) (fees k))"

text \<open>The factory knows one pool for two tokens and a fee, whichever is named first.\<close>

definition pools_agree :: "univ3_env \<Rightarrow> Client \<Rightarrow> bool" where
  "pools_agree E c \<longleftrightarrow>
     (\<forall>q r. request_key E q = request_key E r \<longrightarrow> fetchPoolExists E c q = fetchPoolExists E c r)"

text \<open>What a quote changes in its client: the flag of the deployment and the cache.\<close>

definition same_client :: "Client \<Rightarrow> Client \<Rightarrow> bool" where
  "same_client c d \<longleftrightarrow> (\<exists>checked cache. d = c\<lparr>deployChecked := checked, poolCache := cache\<rparr>)"

lemma same_client_refl [simp]: "same_client c c"
  unfolding same_client_def by (intro exI [of _ "deployChecked c"] exI [of _ "poolCache c"]) simp

lemma same_client_trans: "same_client a b \<Longrightarrow> same_client b c \<Longrightarrow> same_client a c"
  unfolding same_client_def by (elim exE, intro exI) simp

lemma same_client_updates:
  "same_client c (c\<lparr>poolCache := cache\<rparr>)" "same_client c (c\<lparr>deployChecked := checked\<rparr>)"
  unfolding same_client_def
   apply (intro exI [of _ "deployChecked c"] exI [of _ cache], simp)
  by (intro exI [of _ checked] exI [of _ "poolCache c"], simp)

lemma same_clientD:
  assumes "same_client c d"
  shows "config d = config c" "factory d = factory c" "swapRouter d = swapRouter c" "quoter d = quoter c"
    "wrappedNative d = wrappedNative c" "feeTiers d = feeTiers c" "quoteBaseTokens d = quoteBaseTokens c"
  using assms by (auto simp: same_client_def)

lemma same_client_calls:
  assumes "same_client c d"
  shows "fetchPoolExists E d = fetchPoolExists E c" "quoteCandidate E d = quoteCandidate E c"
    "candidateRoutes d = candidateRoutes c" "best_candidate E d = best_candidate E c"
proof -
  show q: "quoteCandidate E d = quoteCandidate E c"
    by (intro ext) (simp only: quoteCandidate_def same_clientD [OF assms])
  show "fetchPoolExists E d = fetchPoolExists E c"
    by (intro ext) (simp only: fetchPoolExists_def same_clientD [OF assms])
  show "candidateRoutes d = candidateRoutes c"
    by (intro ext) (simp only: candidateRoutes_def same_clientD [OF assms])
  have "best_candidate E d a ks b f = best_candidate E c a ks b f" for a ks b f
    by (induction ks arbitrary: b f) (simp_all only: best_candidate.simps q)
  then show "best_candidate E d = best_candidate E c" by (intro ext)
qed

lemma poolExists_eq:
  "poolExists E c r =
     (case cached E c (request_key E r) of
        Some hit \<Rightarrow> (c, Inr hit)
      | None \<Rightarrow>
          (case fetchPoolExists E c r of
             Inl e \<Rightarrow> (c, Inl e)
           | Inr hit \<Rightarrow> (c\<lparr>poolCache := (poolCache c)(request_key E r \<mapsto> (hit, Now E + poolCacheTTL))\<rparr>, Inr hit)))"
  unfolding poolExists_def cached_def request_key_def Let_def
  by (cases "poolCache c (poolKey E (tokenA r) (tokenB r) (pool_fee r))") auto

lemma pool_known_update:
  assumes "request_key E q \<noteq> key"
  shows "pool_known E (c\<lparr>poolCache := (poolCache c)(key \<mapsto> v)\<rparr>) q = pool_known E c q"
proof -
  let ?d = "c\<lparr>poolCache := (poolCache c)(key \<mapsto> v)\<rparr>"
  have "fetched E ?d q = fetched E c q"
    by (simp only: fetched_def same_client_calls(1) [OF same_client_updates(1)])
  moreover have "cached E ?d (request_key E q) = cached E c (request_key E q)" using assms by (simp add: cached_def)
  ultimately show ?thesis by (simp only: pool_known_def)
qed

lemma poolExists_cases:
  assumes "poolExists E c r = (d, res)"
  shows "(case res of Inl _ \<Rightarrow> pool_known E c r = None \<and> d = c | Inr hit \<Rightarrow> pool_known E c r = Some hit) \<and>
    same_client c d \<and> (\<forall>q. request_key E q \<noteq> request_key E r \<longrightarrow> pool_known E d q = pool_known E c q)"
proof (cases "cached E c (request_key E r)")
  case None
  show ?thesis
  proof (cases "fetchPoolExists E c r")
    case (Inl e)
    have "d = c" "res = Inl e" using None Inl assms by (simp_all add: poolExists_eq)
    with None Inl show ?thesis by (simp add: pool_known_def fetched_def)
  next
    case (Inr hit)
    let ?d = "c\<lparr>poolCache := (poolCache c)(request_key E r \<mapsto> (hit, Now E + poolCacheTTL))\<rparr>"
    have "d = ?d" "res = Inr hit" using None Inr assms by (simp_all add: poolExists_eq)
    moreover have "pool_known E c r = Some hit" using None Inr by (simp add: pool_known_def fetched_def)
    ultimately show ?thesis using pool_known_update same_client_updates(1) by simp
  qed
next
  case (Some hit)
  have "d = c" "res = Inr hit" using Some assms by (simp_all add: poolExists_eq)
  with Some show ?thesis by (simp add: pool_known_def)
qed

lemma pool_states_known:
  assumes "pool_states E c rs states broke = (d, states', broke')"
    and "distinct (map (request_key E) rs)" "\<forall>r\<in>set rs. states (request_key E r) = None"
  shows "same_client c d \<and> (\<forall>r\<in>set rs. states' (request_key E r) = pool_known E c r) \<and>
    (\<forall>key. key \<notin> request_key E ` set rs \<longrightarrow> states' key = states key)"
  using assms
proof (induction E c rs states broke arbitrary: d states' broke' rule: pool_states.induct)
  case (2 E c r rs states broke)
  obtain c1 res where p: "poolExists E c r = (c1, res)" by fastforce
  note P = poolExists_cases [OF p]
  have fresh: "request_key E r \<notin> request_key E ` set rs" "distinct (map (request_key E) rs)" using "2.prems"(2) by auto
  have keep: "pool_known E c1 q = pool_known E c q" if "q \<in> set rs" for q
  proof -
    have "request_key E q \<noteq> request_key E r" using that fresh(1) by (metis imageI)
    then show ?thesis using P by blast
  qed
  show ?case
  proof (cases res)
    case (Inl e)
    have rest: "pool_states E c1 rs states True = (d, states', broke')" using "2.prems"(1) p Inl by simp
    have "same_client c1 d \<and> (\<forall>r\<in>set rs. states' (request_key E r) = pool_known E c1 r) \<and>
        (\<forall>key. key \<notin> request_key E ` set rs \<longrightarrow> states' key = states key)"
      using "2.IH"(1) [OF p [symmetric] Inl rest fresh(2)] "2.prems"(3) by auto
    then show ?thesis
      using P Inl fresh(1) "2.prems"(3) keep same_client_trans by auto
  next
    case (Inr hit)
    let ?st = "states(request_key E r \<mapsto> hit)"
    have rest: "pool_states E c1 rs ?st broke = (d, states', broke')" using "2.prems"(1) p Inr by simp
    have "\<forall>q\<in>set rs. ?st (request_key E q) = None"
    proof
      fix q assume "q \<in> set rs"
      moreover from this fresh(1) have "request_key E q \<noteq> request_key E r" by (metis imageI)
      ultimately show "?st (request_key E q) = None" using "2.prems"(3) by simp
    qed
    then have "same_client c1 d \<and> (\<forall>r\<in>set rs. states' (request_key E r) = pool_known E c1 r) \<and>
        (\<forall>key. key \<notin> request_key E ` set rs \<longrightarrow> states' key = ?st key)"
      using "2.IH"(2) [OF p [symmetric] Inr rest fresh(2)] by blast
    then show ?thesis
      using P Inr fresh(1) keep same_client_trans by auto
  qed
qed simp

lemma unique_requests_keys:
  "distinct (map (request_key E) (unique_requests E rs)) \<and>
     request_key E ` set (unique_requests E rs) = request_key E ` set rs"
proof (induction rs)
  case (Cons r rs)
  then show ?case by (cases "request_key E r \<in> request_key E ` set rs") (simp_all add: insert_absorb)
qed simp

lemma pool_known_agree:
  assumes "pools_agree E c" "request_key E q = request_key E r"
  shows "pool_known E c q = pool_known E c r"
proof -
  have "fetchPoolExists E c q = fetchPoolExists E c r" using assms unfolding pools_agree_def by blast
  then have "fetched E c q = fetched E c r" by (simp only: fetched_def)
  then show ?thesis by (simp only: pool_known_def assms(2))
qed

lemma resolved_pools:
  assumes "resolveCandidatePools E c ks = (d, Inr states)" "pools_agree E c"
  shows "same_client c d \<and> (\<forall>k\<in>set ks. candidatePoolsExist E k states \<longleftrightarrow> has_pools E c k)"
proof -
  let ?rs = "concat (map (\<lambda>k. hop_requests (tokens k) (fees k)) ks)"
  have wf: "list_all wellFormed ks" using assms(1) by (simp add: resolveCandidatePools_def split: if_splits)
  obtain states0 broke where p: "pool_states E c (unique_requests E ?rs) Map.empty False = (d, states, broke)"
    using assms(1) wf unfolding resolveCandidatePools_def by (simp split: prod.splits if_splits)
  have "distinct (map (request_key E) (unique_requests E ?rs))"
    and keys: "request_key E ` set (unique_requests E ?rs) = request_key E ` set ?rs"
    using unique_requests_keys by blast+
  with pool_states_known [OF p] have d: "same_client c d"
    and st: "\<forall>r\<in>set (unique_requests E ?rs). states (request_key E r) = pool_known E c r" by auto
  have agree: "states (request_key E r) = pool_known E c r" if "r \<in> set ?rs" for r
  proof -
    have "request_key E r \<in> request_key E ` set (unique_requests E ?rs)" using that unfolding keys by (rule imageI)
    then obtain q where q: "q \<in> set (unique_requests E ?rs)" "request_key E q = request_key E r" by (elim imageE) simp
    have "states (request_key E q) = pool_known E c q" using st q(1) by blast
    then show ?thesis by (simp only: q(2) pool_known_agree [OF assms(2) q(2)])
  qed
  have "candidatePoolsExist E k states \<longleftrightarrow> has_pools E c k" if k: "k \<in> set ks" for k
  proof -
    have "set (hop_requests (tokens k) (fees k)) \<subseteq> set ?rs" using k by auto
    then have "list_all (\<lambda>r. states (request_key E r) = Some True) (hop_requests (tokens k) (fees k)) \<longleftrightarrow> has_pools E c k"
      unfolding has_pools_def by (intro list.pred_cong refl) (simp add: agree subset_iff)
    moreover have "wellFormed k" using k wf by (simp add: list_all_iff)
    ultimately show ?thesis by (simp only: candidatePoolsExist_def simp_thms)
  qed
  with d show ?thesis by blast
qed

end
