(* ===== verification/Spec2Isabelle.thy ===== *)
theory Spec2Isabelle
  imports Sss Bip32 Aptos Sui UtxoFees Substrate KaspaTx StellarTx Filecoin Keystore TextCipher Univ2 Tron Multiversx Algorand Near Evm EvmFees Keys Starknet Cosmos Solana Ton Accounts Permit2 Univ3Quote
begin

text \<open>
  A model of the core of the wallet SDK, with the theorems that make it correct.

  Theories, in the order they build on each other:
  \<^item> \<open>Prelude\<close>: Go's integers and byte slices, fallible results, byte strings as numbers.
  \<^item> \<open>Interpolation\<close>: polynomials over a field and Lagrange interpolation.
  \<^item> \<open>Gf256\<close>: the field arithmetic of \<open>crypto/internal/shamir/shamir.go\<close>.
  \<^item> \<open>Shamir\<close>: \<open>Split\<close> and \<open>Combine\<close> of the same file.
\<close>

end
